(* ===== verification/Streamer_Prelude.thy ===== *)
theory Streamer_Prelude
  imports Main "HOL-Library.AList" "HOL-Library.Multiset" "HOL-Library.Word"
begin

text \<open>
  Shared ground of the development: Rust's \<open>Result\<close> as a sum, \<open>UStatus\<close> and its codes, the
  standard library's \<open>HashMap\<close> as an association list with distinct keys, and the generic
  lemmas the component theories use.

  A \<open>HashMap\<close> holds its entries in an unspecified order. The operations below say what the map
  contains (\<open>hm_get\<close>); whenever the source iterates over a map, the model applies an order
  parameter (a function that permutes the entries) first, so no result may depend on the order
  of the list.
\<close>

named_theorems hm_simps "lookup and well-formedness of the hash map operations"
named_theorems model_defs "definitions unfolded together when an operation is evaluated"

section \<open>Results and status codes\<close>

type_synonym ('e, 'a) result = "'e + 'a"

abbreviation Ok :: "'a \<Rightarrow> 'e + 'a" where
  "Ok \<equiv> Inr"

abbreviation Err :: "'e \<Rightarrow> 'e + 'a" where
  "Err \<equiv> Inl"

text \<open>
  \<open>up_rust::UCode\<close>: the codes the repository builds are constructors of their own, every other
  code a transport or provider may answer with is \<open>UCODE_OTHER\<close> with its number.
\<close>

datatype ucode =
    INVALID_ARGUMENT
  | NOT_FOUND
  | ALREADY_EXISTS
  | UNIMPLEMENTED
  | INTERNAL
  | UNAVAILABLE
  | UCODE_OTHER nat

record ustatus =
  status_code :: ucode
  status_message :: string

definition fail_with_code :: "ucode \<Rightarrow> string \<Rightarrow> ustatus" where
  "fail_with_code c m = \<lparr>status_code = c, status_message = m\<rparr>"

lemma fail_with_code_code [simp]: "status_code (fail_with_code c m) = c"
  by (simp add: fail_with_code_def)

definition is_ok :: "'e + 'a \<Rightarrow> bool" where
  "is_ok r = (case r of Inl _ \<Rightarrow> False | Inr _ \<Rightarrow> True)"

lemma is_ok_simps [simp]: "is_ok (Inr a)" "\<not> is_ok (Inl e)"
  by (simp_all add: is_ok_def)

section \<open>Decimal numbers\<close>

text \<open>How \<open>Display\<close> prints an unsigned integer.\<close>

definition decimal_digit :: "nat \<Rightarrow> char" where
  "decimal_digit n = ''0123456789'' ! (n mod 10)"

fun decimal :: "nat \<Rightarrow> string" where
  "decimal n = (if n < 10 then [decimal_digit n] else decimal (n div 10) @ [decimal_digit n])"

declare decimal.simps [simp del]

section \<open>Hash maps\<close>

type_synonym ('k, 'v) hashmap = "('k \<times> 'v) list"

definition hm_get :: "('k, 'v) hashmap \<Rightarrow> 'k \<Rightarrow> 'v option" where
  "hm_get m k = map_of m k"

definition hm_insert :: "'k \<Rightarrow> 'v \<Rightarrow> ('k, 'v) hashmap \<Rightarrow> ('k, 'v) hashmap" where
  "hm_insert k v m = AList.update k v m"

definition hm_remove :: "'k \<Rightarrow> ('k, 'v) hashmap \<Rightarrow> ('k, 'v) hashmap" where
  "hm_remove k m = AList.delete k m"

text \<open>\<open>map.entry(k).or_insert(v)\<close>: an existing entry is kept.\<close>

definition hm_or_insert :: "'k \<Rightarrow> 'v \<Rightarrow> ('k, 'v) hashmap \<Rightarrow> ('k, 'v) hashmap" where
  "hm_or_insert k v m = (case hm_get m k of None \<Rightarrow> hm_insert k v m | Some _ \<Rightarrow> m)"

text \<open>\<open>map.extend(entries)\<close>: later entries win.\<close>

fun hm_extend :: "('k, 'v) hashmap \<Rightarrow> ('k \<times> 'v) list \<Rightarrow> ('k, 'v) hashmap" where
  "hm_extend m [] = m"
| "hm_extend m ((k, v) # es) = hm_extend (hm_insert k v m) es"

definition hm_wf :: "('k, 'v) hashmap \<Rightarrow> bool" where
  "hm_wf m \<longleftrightarrow> distinct (map fst m)"

text \<open>An iteration order: it lists the entries of the map, each exactly once.\<close>

definition order_ok :: "('a list \<Rightarrow> 'a list) \<Rightarrow> bool" where
  "order_ok ord \<longleftrightarrow> (\<forall>xs. mset (ord xs) = mset xs)"

subsection \<open>What the operations contain\<close>

lemma hm_get_Nil [simp]: "hm_get [] k = None"
  by (simp add: hm_get_def)

lemma hm_get_Cons [simp]: "hm_get ((a, b) # m) k = (if k = a then Some b else hm_get m k)"
  by (simp add: hm_get_def)

lemma hm_get_insert [simp, hm_simps]:
  "hm_get (hm_insert k v m) j = (if j = k then Some v else hm_get m j)"
  by (simp add: hm_get_def hm_insert_def update_conv')

lemma hm_get_remove [simp, hm_simps]:
  "hm_get (hm_remove k m) j = (if j = k then None else hm_get m j)"
  by (simp add: hm_get_def hm_remove_def delete_conv')

lemma hm_get_or_insert [simp, hm_simps]:
  "hm_get (hm_or_insert k v m) j =
     (if j = k \<and> hm_get m k = None then Some v else hm_get m j)"
  by (auto simp: hm_or_insert_def split: option.splits)

lemma hm_wf_Nil [simp]: "hm_wf []"
  by (simp add: hm_wf_def)

lemma hm_wf_insert [simp, hm_simps]: "hm_wf m \<Longrightarrow> hm_wf (hm_insert k v m)"
  by (simp add: hm_wf_def hm_insert_def distinct_update)

lemma hm_wf_remove [simp, hm_simps]: "hm_wf m \<Longrightarrow> hm_wf (hm_remove k m)"
  by (simp add: hm_wf_def hm_remove_def distinct_delete)

lemma hm_wf_or_insert [simp, hm_simps]: "hm_wf m \<Longrightarrow> hm_wf (hm_or_insert k v m)"
  by (auto simp: hm_or_insert_def split: option.splits)

lemma hm_wf_extend [simp, hm_simps]: "hm_wf m \<Longrightarrow> hm_wf (hm_extend m es)"
  by (induction m es rule: hm_extend.induct) auto

lemma hm_get_in_set: "hm_get m k = Some v \<Longrightarrow> (k, v) \<in> set m"
  by (simp add: hm_get_def map_of_SomeD)

lemma hm_get_set_iff: "hm_wf m \<Longrightarrow> hm_get m k = Some v \<longleftrightarrow> (k, v) \<in> set m"
  by (simp add: hm_get_def hm_wf_def)

lemma hm_get_extend:
  "hm_wf es \<Longrightarrow> hm_get (hm_extend m es) k =
     (case hm_get es k of Some v \<Rightarrow> Some v | None \<Rightarrow> hm_get m k)"
proof (induction m es rule: hm_extend.induct)
  case (1 m)
  then show ?case by simp
next
  case (2 m a b es)
  then have "hm_wf es" and notin: "hm_get es a = None"
    by (auto simp: hm_wf_def hm_get_def map_of_eq_None_iff)
  with 2 show ?case by (auto split: option.splits)
qed

text \<open>A run of \<open>entry(k).or_insert(v)\<close>: the first value of a key stays.\<close>

definition hm_or_insert_all :: "('k \<times> 'v) list \<Rightarrow> ('k, 'v) hashmap \<Rightarrow> ('k, 'v) hashmap" where
  "hm_or_insert_all es m = fold (\<lambda>(k, v). hm_or_insert k v) es m"

lemma hm_or_insert_all_simps [simp]:
  "hm_or_insert_all [] m = m"
  "hm_or_insert_all ((k, v) # es) m = hm_or_insert_all es (hm_or_insert k v m)"
  "hm_or_insert_all (es @ fs) m = hm_or_insert_all fs (hm_or_insert_all es m)"
  by (simp_all add: hm_or_insert_all_def)

lemma hm_get_or_insert_all:
  "hm_get (hm_or_insert_all es m) k = (case hm_get m k of Some v \<Rightarrow> Some v | None \<Rightarrow> map_of es k)"
proof (induction es arbitrary: m)
  case Nil
  then show ?case by (simp split: option.splits)
next
  case (Cons e es)
  then show ?case by (cases e) (auto split: option.splits)
qed

lemma hm_wf_or_insert_all: "hm_wf m \<Longrightarrow> hm_wf (hm_or_insert_all es m)"
proof (induction es arbitrary: m)
  case Nil
  then show ?case by simp
next
  case (Cons e es)
  then show ?case by (cases e) simp
qed

subsection \<open>Iteration orders\<close>

lemma order_ok_id [simp]: "order_ok (\<lambda>xs. xs)"
  by (simp add: order_ok_def)

lemma order_ok_rev [simp]: "order_ok rev"
  by (simp add: order_ok_def)

lemma order_set: "order_ok ord \<Longrightarrow> set (ord xs) = set xs"
  by (metis order_ok_def mset_eq_setD)

lemma order_length: "order_ok ord \<Longrightarrow> length (ord xs) = length xs"
  by (metis order_ok_def mset_eq_length)

lemma order_wf: "order_ok ord \<Longrightarrow> hm_wf (ord m) \<longleftrightarrow> hm_wf m"
  unfolding hm_wf_def order_ok_def
  by (metis mset_map mset_eq_imp_distinct_iff)

lemma order_get:
  assumes "order_ok ord" and "hm_wf m"
  shows "hm_get (ord m) k = hm_get m k"
proof -
  have wf: "hm_wf (ord m)" using assms order_wf by blast
  have "hm_get (ord m) k = Some v \<longleftrightarrow> hm_get m k = Some v" for v
    using assms wf by (simp add: hm_get_set_iff order_set)
  then show ?thesis by (metis not_Some_eq)
qed

end
