(* ===== verification/Uri_Identity.thy ===== *)
theory Uri_Identity
  imports Streamer_Prelude
begin

text \<open>
  URIs and the two identities the streamer keys its maps with.

  \<open>UUri\<close> is a protobuf message of the \<open>up-rust\<close> crate; the source builds it as a struct literal,
  so its four fields are modelled here. Its methods are the crate's and stay parameters of the
  model (\<open>uuri_api\<close>); what the crate documents of them, and what this repository's own tests
  assert of them, is the hypothesis \<open>uuri_api_ok\<close>.

  \<open>UriIdentityKey\<close> (routing/uri_identity_key.rs) is the projection of a URI that the routing maps
  use as key, \<open>TransportIdentityKey\<close> (control_plane/transport_identity.rs) the identity of a
  shared transport.
\<close>

section \<open>UUri and its API\<close>

record uuri =
  authority_name :: string
  ue_id :: "32 word"
  ue_version_major :: "32 word"
  resource_id :: "32 word"

record uuri_api =
  m_authority_name :: "uuri \<Rightarrow> string"
  m_uentity_major_version :: "uuri \<Rightarrow> 8 word"
  m_resource_id :: "uuri \<Rightarrow> 16 word"
  m_has_wildcard_authority :: "uuri \<Rightarrow> bool"
  m_try_from_parts :: "string \<Rightarrow> 32 word \<Rightarrow> 8 word \<Rightarrow> 16 word \<Rightarrow> string + uuri"
  m_from_str :: "string \<Rightarrow> string + uuri"
  m_to_uri :: "uuri \<Rightarrow> bool \<Rightarrow> string"
  m_display :: "uuri \<Rightarrow> string"

text \<open>
  What the code relies on: the getters read the fields and truncate the version and the resource to
  their widths (uri_identity_key.rs, test \<open>projection_uses_canonical_major_and_resource_semantics\<close>),
  the wildcard authority is the string \<open>*\<close>, and a URI built from parts has these parts.
\<close>

definition uuri_api_ok :: "uuri_api \<Rightarrow> bool" where
  "uuri_api_ok U \<longleftrightarrow>
     (\<forall>u. m_authority_name U u = authority_name u) \<and>
     (\<forall>u. m_uentity_major_version U u = ucast (ue_version_major u)) \<and>
     (\<forall>u. m_resource_id U u = ucast (resource_id u)) \<and>
     (\<forall>u. m_has_wildcard_authority U u \<longleftrightarrow> authority_name u = ''*'') \<and>
     (\<forall>a e v r u. m_try_from_parts U a e v r = Inr u \<longrightarrow>
        u = \<lparr>authority_name = a, ue_id = e, ue_version_major = ucast v, resource_id = ucast r\<rparr>)"

text \<open>
  A concrete instance for evaluation: it rejects the empty authority and parses nothing but the
  sample URIs of a table.
\<close>

definition sample_uuri_api :: "(string \<times> uuri) list \<Rightarrow> uuri_api" where
  "sample_uuri_api tab =
     \<lparr>m_authority_name = authority_name,
      m_uentity_major_version = (\<lambda>u. ucast (ue_version_major u)),
      m_resource_id = (\<lambda>u. ucast (resource_id u)),
      m_has_wildcard_authority = (\<lambda>u. authority_name u = ''*''),
      m_try_from_parts = (\<lambda>a e v r. if a = [] then Inl ''invalid authority''
         else Inr \<lparr>authority_name = a, ue_id = e, ue_version_major = ucast v,
                   resource_id = ucast r\<rparr>),
      m_from_str = (\<lambda>s. case map_of tab s of None \<Rightarrow> Inl ''parse error'' | Some u \<Rightarrow> Inr u),
      m_to_uri = (\<lambda>u incl. authority_name u),
      m_display = authority_name\<rparr>"

lemma sample_uuri_api_ok: "uuri_api_ok (sample_uuri_api tab)"
  by (auto simp: uuri_api_ok_def sample_uuri_api_def split: if_splits)

lemma uuri_api_simps:
  assumes "uuri_api_ok U"
  shows "m_authority_name U u = authority_name u"
    and "m_uentity_major_version U u = ucast (ue_version_major u)"
    and "m_resource_id U u = ucast (resource_id u)"
    and "m_has_wildcard_authority U u \<longleftrightarrow> authority_name u = ''*''"
  using assms by (simp_all add: uuri_api_ok_def)

lemma try_from_parts_Ok:
  assumes "uuri_api_ok U" and "m_try_from_parts U a e v r = Inr u"
  shows "u = \<lparr>authority_name = a, ue_id = e, ue_version_major = ucast v, resource_id = ucast r\<rparr>"
  using assms unfolding uuri_api_ok_def by blast

section \<open>The URI projection key\<close>

record uri_identity_key =
  key_authority_name :: string
  key_ue_id :: "32 word"
  key_ue_version_major :: "8 word"
  key_resource_id :: "16 word"

definition uri_key_of_owned :: "uuri_api \<Rightarrow> uuri \<Rightarrow> uri_identity_key" where
  "uri_key_of_owned U uri =
     (let major = m_uentity_major_version U uri;
          resource = m_resource_id U uri
      in \<lparr>key_authority_name = authority_name uri, key_ue_id = ue_id uri,
          key_ue_version_major = major, key_resource_id = resource\<rparr>)"

definition uri_key :: "uuri_api \<Rightarrow> uuri \<Rightarrow> uri_identity_key" where
  "uri_key U uri =
     \<lparr>key_authority_name = m_authority_name U uri, key_ue_id = ue_id uri,
      key_ue_version_major = m_uentity_major_version U uri,
      key_resource_id = m_resource_id U uri\<rparr>"

text \<open>Two URIs project to one key when they agree in what the key keeps of them.\<close>

lemma uri_key_eq_iff:
  assumes "uuri_api_ok U"
  shows "uri_key U u = uri_key U v \<longleftrightarrow>
     authority_name u = authority_name v \<and> ue_id u = ue_id v \<and>
     (ucast (ue_version_major u) :: 8 word) = ucast (ue_version_major v) \<and>
     (ucast (resource_id u) :: 16 word) = ucast (resource_id v)"
  by (simp add: uri_key_def uuri_api_simps [OF assms])

section \<open>Authority filters\<close>

text \<open>routing/authority_filter.rs: the filter that matches everything of one authority.\<close>

definition authority_to_wildcard_filter :: "string \<Rightarrow> uuri" where
  "authority_to_wildcard_filter name =
     \<lparr>authority_name = name, ue_id = 0xFFFFFFFF, ue_version_major = 0xFF, resource_id = 0xFFFF\<rparr>"

lemma wildcard_filter_inj [simp]:
  "authority_to_wildcard_filter a = authority_to_wildcard_filter b \<longleftrightarrow> a = b"
  by (simp add: authority_to_wildcard_filter_def)

lemma wildcard_filter_authority [simp]:
  "authority_name (authority_to_wildcard_filter a) = a"
  by (simp add: authority_to_wildcard_filter_def)

section \<open>Transport identity\<close>

text \<open>
  An \<open>Arc<dyn UTransport>\<close> is a fat pointer: the address of the shared object and that of the
  vtable its concrete type was coerced with. \<open>Arc::ptr_eq\<close> compares the address alone, while
  hashing the raw \<open>dyn\<close> pointer hashes both parts.
\<close>

record arc_transport =
  arc_addr :: nat
  arc_vtable :: nat

datatype transport_identity_key = TransportIdentityKey (key_transport: arc_transport)

definition transport_key_new :: "arc_transport \<Rightarrow> transport_identity_key" where
  "transport_key_new t = TransportIdentityKey t"

definition transport_key_eq :: "transport_identity_key \<Rightarrow> transport_identity_key \<Rightarrow> bool" where
  "transport_key_eq k other \<longleftrightarrow> arc_addr (key_transport k) = arc_addr (key_transport other)"

text \<open>What \<open>Hash::hash\<close> feeds to the hasher.\<close>

definition transport_key_hash :: "transport_identity_key \<Rightarrow> nat list" where
  "transport_key_hash k = [arc_addr (key_transport k), arc_vtable (key_transport k)]"

lemma transport_key_new_inj [simp]: "transport_key_new s = transport_key_new t \<longleftrightarrow> s = t"
  by (simp add: transport_key_new_def)

text \<open>
  A hash map finds an entry when the key is equal and hashes the same: that is equality of the
  whole pointer, which is how the maps of this development compare transport keys.
\<close>

lemma transport_key_found_iff:
  "transport_key_eq k l \<and> transport_key_hash k = transport_key_hash l \<longleftrightarrow> k = l"
  by (cases k; cases l) (auto simp: transport_key_eq_def transport_key_hash_def)

text \<open>Transports whose vtable is a function of the object: every clone of one \<open>Arc<dyn _>\<close>.\<close>

definition one_vtable :: "arc_transport set \<Rightarrow> bool" where
  "one_vtable T \<longleftrightarrow> (\<forall>s\<in>T. \<forall>t\<in>T. arc_addr s = arc_addr t \<longrightarrow> arc_vtable s = arc_vtable t)"

section \<open>Properties\<close>

text \<open>
  Equality and hashing of transport keys agree (equal keys hash alike, which \<open>HashMap\<close> and
  \<open>HashSet\<close> require) exactly for transports whose objects are seen through one vtable each. One object
  behind two vtables has keys that are equal and hash differently, so a map holds both.
\<close>

theorem transport_key_hash_agrees_iff:
  "(\<forall>s\<in>T. \<forall>t\<in>T. transport_key_eq (transport_key_new s) (transport_key_new t) \<longrightarrow>
      transport_key_hash (transport_key_new s) = transport_key_hash (transport_key_new t))
   \<longleftrightarrow> one_vtable T"
  by (simp add: transport_key_eq_def transport_key_hash_def transport_key_new_def one_vtable_def)

theorem transport_key_hash_agrees_iff_witness:
  "\<not> (\<forall>s\<in>{\<lparr>arc_addr = 1, arc_vtable = 0\<rparr>, \<lparr>arc_addr = 1, arc_vtable = 8\<rparr>}.
        \<forall>t\<in>{\<lparr>arc_addr = 1, arc_vtable = 0\<rparr>, \<lparr>arc_addr = 1, arc_vtable = 8\<rparr>}.
      transport_key_eq (transport_key_new s) (transport_key_new t) \<longrightarrow>
      transport_key_hash (transport_key_new s) = transport_key_hash (transport_key_new t))"
proof -
  have "\<not> one_vtable {\<lparr>arc_addr = 1, arc_vtable = 0\<rparr>, \<lparr>arc_addr = 1, arc_vtable = 8\<rparr>}"
    by (simp add: one_vtable_def)
  then show ?thesis unfolding transport_key_hash_agrees_iff .
qed

text \<open>
  The key projected from an owned URI and the one projected from a reference are the same, and two
  URIs have the same key exactly when they agree in authority and entity id and in the low 8 bits of
  the version and the low 16 bits of the resource.
\<close>

theorem uri_key_canonical:
  assumes "uuri_api_ok U"
  shows "uri_key_of_owned U u = uri_key U u \<and>
    (uri_key U u = uri_key U v \<longleftrightarrow>
       authority_name u = authority_name v \<and> ue_id u = ue_id v \<and>
       (ucast (ue_version_major u) :: 8 word) = ucast (ue_version_major v) \<and>
       (ucast (resource_id u) :: 16 word) = ucast (resource_id v))"
  by (simp add: uri_key_eq_iff [OF assms] uri_key_def uri_key_of_owned_def
      uuri_api_simps [OF assms] Let_def)

theorem uri_key_canonical_witness:
  "uri_key (sample_uuri_api []) \<lparr>authority_name = ''a'', ue_id = 5, ue_version_major = 0x101, resource_id = 7\<rparr>
     = uri_key (sample_uuri_api []) \<lparr>authority_name = ''a'', ue_id = 5, ue_version_major = 1, resource_id = 7\<rparr>"
  unfolding uri_key_canonical [OF sample_uuri_api_ok, THEN conjunct2] by simp

end
