(* ===== verification/Subscription_Cache.thy ===== *)
theory Subscription_Cache
  imports Uri_Identity
begin

text \<open>
  The subscription cache (routing/subscription_cache.rs): one snapshot of subscriptions, indexed by
  the subscriber's authority, with a second map in which the rows of the wildcard authority are
  already merged into every other authority's rows.

  The reference for both maps is \<open>snapshot_rows\<close>: of the snapshot's rows whose subscriber has the
  asked or the wildcard authority, the first one with the asked identity.
\<close>

section \<open>Data\<close>

text \<open>The messages of \<open>up_rust::core::usubscription\<close>, with the fields the source reads and writes.\<close>

record subscriber_info =
  subscriber_uri :: "uuri option"

record subscription =
  sub_topic :: "uuri option"
  sub_subscriber :: "subscriber_info option"

type_synonym fetch_subscriptions_response = "subscription list"

record subscription_information =
  info_topic :: uuri
  info_subscriber :: subscriber_info

record subscription_identity_key =
  sik_topic :: uri_identity_key
  sik_subscriber :: "uri_identity_key option"

definition subscription_identity ::
  "uuri_api \<Rightarrow> subscription_information \<Rightarrow> subscription_identity_key" where
  "subscription_identity U info =
     \<lparr>sik_topic = uri_key U (info_topic info),
      sik_subscriber = map_option (uri_key U) (subscriber_uri (info_subscriber info))\<rparr>"

definition subscription_information_eq ::
  "subscription_information \<Rightarrow> subscription_information \<Rightarrow> bool" where
  "subscription_information_eq s other \<longleftrightarrow>
     info_topic s = info_topic other \<and> info_subscriber s = info_subscriber other"

definition subscription_information_hash :: "subscription_information \<Rightarrow> uuri \<times> subscriber_info" where
  "subscription_information_hash s = (info_topic s, info_subscriber s)"

type_synonym subscription_lookup = "(subscription_identity_key, subscription_information) hashmap"

record subscription_cache =
  cache_map :: "(string, subscription_lookup) hashmap"
  merged_map :: "(string, subscription_lookup) hashmap"

definition empty_cache :: subscription_cache where
  "empty_cache = \<lparr>cache_map = [], merged_map = []\<rparr>"

text \<open>The orders in which the hash maps of this component are iterated.\<close>

record cache_order =
  authority_order :: "(string \<times> subscription_lookup) list \<Rightarrow> (string \<times> subscription_lookup) list"
  rows_order :: "(subscription_identity_key \<times> subscription_information) list \<Rightarrow>
     (subscription_identity_key \<times> subscription_information) list"

definition cache_order_ok :: "cache_order \<Rightarrow> bool" where
  "cache_order_ok H \<longleftrightarrow> order_ok (authority_order H) \<and> order_ok (rows_order H)"

section \<open>Operations\<close>

definition merged_rows ::
  "cache_order \<Rightarrow> subscription_lookup option \<Rightarrow> string \<Rightarrow> subscription_lookup \<Rightarrow> subscription_lookup" where
  "merged_rows H wildcard_rows authority exact_rows =
     (if authority \<noteq> ''*'' then
        (case wildcard_rows of
           Some rows \<Rightarrow> hm_extend exact_rows (rows_order H rows)
         | None \<Rightarrow> exact_rows)
      else exact_rows)"

fun merge_authorities ::
  "cache_order \<Rightarrow> subscription_lookup option \<Rightarrow> (string \<times> subscription_lookup) list \<Rightarrow>
   (string, subscription_lookup) hashmap \<Rightarrow> (string, subscription_lookup) hashmap" where
  "merge_authorities H w [] acc = acc"
| "merge_authorities H w ((authority, rows) # es) acc =
     merge_authorities H w es (hm_insert authority (merged_rows H w authority rows) acc)"

definition build_wildcard_merged_cache ::
  "cache_order \<Rightarrow> (string, subscription_lookup) hashmap \<Rightarrow> (string, subscription_lookup) hashmap" where
  "build_wildcard_merged_cache H m =
     merge_authorities H (hm_get m ''*'') (authority_order H m) []"

text \<open>One iteration of the loop of \<open>SubscriptionCache::new\<close>.\<close>

definition cache_row ::
  "uuri_api \<Rightarrow> subscription \<Rightarrow> (string, subscription_lookup) hashmap \<Rightarrow>
   (ustatus, (string, subscription_lookup) hashmap) result" where
  "cache_row U s m =
     (case sub_topic s of
        None \<Rightarrow> Err (fail_with_code INVALID_ARGUMENT ''Unable to retrieve topic'')
      | Some topic \<Rightarrow>
        (case sub_subscriber s of
           None \<Rightarrow> Err (fail_with_code INVALID_ARGUMENT ''Unable to retrieve topic'')
         | Some subscriber \<Rightarrow>
           (let info = \<lparr>info_topic = topic, info_subscriber = subscriber\<rparr> in
            case subscriber_uri subscriber of
              None \<Rightarrow> Err (fail_with_code INVALID_ARGUMENT ''Unable to retrieve authority name'')
            | Some uri \<Rightarrow>
              (let authority = m_authority_name U uri;
                   identity = subscription_identity U info;
                   rows = (case hm_get m authority of None \<Rightarrow> [] | Some rows \<Rightarrow> rows)
               in Ok (hm_insert authority (hm_or_insert identity info rows) m)))))"

fun cache_rows ::
  "uuri_api \<Rightarrow> subscription list \<Rightarrow> (string, subscription_lookup) hashmap \<Rightarrow>
   (ustatus, (string, subscription_lookup) hashmap) result" where
  "cache_rows U [] m = Ok m"
| "cache_rows U (s # ss) m =
     (case cache_row U s m of Inl e \<Rightarrow> Err e | Inr m' \<Rightarrow> cache_rows U ss m')"

definition cache_new ::
  "uuri_api \<Rightarrow> cache_order \<Rightarrow> fetch_subscriptions_response \<Rightarrow> (ustatus, subscription_cache) result" where
  "cache_new U H snapshot =
     (case cache_rows U snapshot [] of
        Inl e \<Rightarrow> Err e
      | Inr m \<Rightarrow> Ok \<lparr>cache_map = m, merged_map = build_wildcard_merged_cache H m\<rparr>)"

definition fetch_cache_entry_with_wildcard ::
  "subscription_cache \<Rightarrow> string \<Rightarrow> subscription_lookup option" where
  "fetch_cache_entry_with_wildcard c entry =
     (let merged =
        (if entry = ''*'' then hm_get (merged_map c) ''*''
         else (case hm_get (merged_map c) entry of
                 Some rows \<Rightarrow> Some rows
               | None \<Rightarrow> hm_get (cache_map c) ''*''))
      in case merged of
           None \<Rightarrow> None
         | Some rows \<Rightarrow> if rows = [] then None else Some rows)"

section \<open>The reference\<close>

definition complete_row :: "subscription \<Rightarrow> bool" where
  "complete_row s \<longleftrightarrow>
     (\<exists>t i u. sub_topic s = Some t \<and> sub_subscriber s = Some i \<and> subscriber_uri i = Some u)"

definition row_info :: "subscription \<Rightarrow> subscription_information" where
  "row_info s = \<lparr>info_topic = the (sub_topic s), info_subscriber = the (sub_subscriber s)\<rparr>"

definition row_authority :: "subscription \<Rightarrow> string" where
  "row_authority s = authority_name (the (subscriber_uri (the (sub_subscriber s))))"

text \<open>The first of the rows with one of the given subscriber authorities, by identity.\<close>

definition rows_of ::
  "uuri_api \<Rightarrow> subscription list \<Rightarrow> (string \<Rightarrow> bool) \<Rightarrow> subscription_identity_key \<Rightarrow>
   subscription_information option" where
  "rows_of U ss P =
     map_of (map (\<lambda>s. (subscription_identity U (row_info s), row_info s))
                 (filter (\<lambda>s. P (row_authority s)) ss))"

definition snapshot_rows ::
  "uuri_api \<Rightarrow> subscription list \<Rightarrow> string \<Rightarrow> subscription_identity_key \<Rightarrow>
   subscription_information option" where
  "snapshot_rows U ss entry = rows_of U ss (\<lambda>a. a = entry \<or> a = ''*'')"

section \<open>The loop builds the reference\<close>

definition cache_view ::
  "(string, subscription_lookup) hashmap \<Rightarrow> string \<Rightarrow> subscription_identity_key \<Rightarrow>
   subscription_information option" where
  "cache_view m a k = (case hm_get m a of None \<Rightarrow> None | Some rows \<Rightarrow> hm_get rows k)"

text \<open>Well-formed: distinct keys in both levels, no authority without rows.\<close>

definition cache_wf :: "(string, subscription_lookup) hashmap \<Rightarrow> bool" where
  "cache_wf m \<longleftrightarrow> hm_wf m \<and> (\<forall>a rows. hm_get m a = Some rows \<longrightarrow> hm_wf rows \<and> rows \<noteq> [])"

lemma cache_row_Ok_iff: "is_ok (cache_row U s m) \<longleftrightarrow> complete_row s"
  by (auto simp: cache_row_def complete_row_def Let_def split: option.splits)

lemma cache_row_complete:
  assumes "uuri_api_ok U" and "complete_row s"
  shows "cache_row U s m =
    Ok (hm_insert (row_authority s)
          (hm_or_insert (subscription_identity U (row_info s)) (row_info s)
             (case hm_get m (row_authority s) of None \<Rightarrow> [] | Some rows \<Rightarrow> rows)) m)"
  using assms
  by (auto simp: cache_row_def complete_row_def row_authority_def row_info_def Let_def
      uuri_api_simps)

lemma hm_or_insert_nonempty [simp]: "hm_or_insert k v m \<noteq> []"
  by (metis hm_get_Nil hm_get_or_insert option.distinct(1))

lemma cache_row_view:
  assumes "uuri_api_ok U" and "cache_row U s m = Inr m'"
  shows "cache_view m' a k =
    (if a = row_authority s \<and> k = subscription_identity U (row_info s) \<and> cache_view m a k = None
     then Some (row_info s) else cache_view m a k)"
proof -
  have "complete_row s" using assms(2) cache_row_Ok_iff [of U s m] by simp
  then show ?thesis
    using assms by (auto simp: cache_row_complete cache_view_def split: option.splits if_splits)
qed

lemma cache_row_wf:
  assumes "uuri_api_ok U" and "cache_row U s m = Inr m'" and "cache_wf m"
  shows "cache_wf m'"
proof -
  let ?rows = "case hm_get m (row_authority s) of None \<Rightarrow> [] | Some rows \<Rightarrow> rows"
  have "complete_row s" using assms(2) cache_row_Ok_iff [of U s m] by simp
  with assms(1,2) have m': "m' = hm_insert (row_authority s)
      (hm_or_insert (subscription_identity U (row_info s)) (row_info s) ?rows) m"
    by (simp add: cache_row_complete)
  have "hm_wf ?rows" using assms(3) by (auto simp: cache_wf_def split: option.splits)
  with assms(3) show ?thesis by (simp add: m' cache_wf_def)
qed

lemma cache_rows_Ok_iff: "is_ok (cache_rows U ss m) \<longleftrightarrow> list_all complete_row ss"
proof (induction ss arbitrary: m)
  case Nil
  then show ?case by simp
next
  case (Cons s ss)
  then show ?case
    using cache_row_Ok_iff [of U s m] by (cases "cache_row U s m") auto
qed

lemma cache_rows_wf:
  "uuri_api_ok U \<Longrightarrow> cache_rows U ss m = Inr m' \<Longrightarrow> cache_wf m \<Longrightarrow> cache_wf m'"
  by (induction ss arbitrary: m) (auto split: sum.splits dest: cache_row_wf)

lemma cache_rows_view:
  assumes "uuri_api_ok U"
  shows "cache_rows U ss m = Inr m' \<Longrightarrow>
    cache_view m' a k =
      (case cache_view m a k of
         Some i \<Rightarrow> Some i
       | None \<Rightarrow> rows_of U ss (\<lambda>b. b = a) k)"
proof (induction ss arbitrary: m)
  case Nil
  then show ?case by (auto simp: rows_of_def split: option.splits)
next
  case (Cons s ss)
  then obtain m1 where m1: "cache_row U s m = Inr m1" and rest: "cache_rows U ss m1 = Inr m'"
    by (auto split: sum.splits)
  from Cons.IH [OF rest] cache_row_view [OF assms m1, of a k] show ?case
    by (auto simp: rows_of_def split: option.splits)
qed

lemma cache_wf_Nil [simp]: "cache_wf []"
  by (simp add: cache_wf_def)

lemma cache_rows_start:
  assumes "uuri_api_ok U" and "cache_rows U ss [] = Inr m"
  shows "cache_wf m" and "cache_view m a k = rows_of U ss (\<lambda>b. b = a) k"
  using cache_rows_wf [OF assms] cache_rows_view [OF assms, of a k]
  by (simp_all add: cache_view_def)

section \<open>The merged map\<close>

lemma merge_authorities_get:
  "hm_wf es \<Longrightarrow> hm_get (merge_authorities H w es acc) a =
     (case hm_get es a of
        Some rows \<Rightarrow> Some (merged_rows H w a rows)
      | None \<Rightarrow> hm_get acc a)"
proof (induction H w es acc rule: merge_authorities.induct)
  case (1 H w acc)
  then show ?case by simp
next
  case (2 H w b rows es acc)
  then have "hm_wf es" and "hm_get es b = None"
    by (auto simp: hm_wf_def hm_get_def map_of_eq_None_iff)
  with 2 show ?case by (auto split: option.splits)
qed

lemma merged_cache_get:
  assumes "cache_order_ok H" and "hm_wf m"
  shows "hm_get (build_wildcard_merged_cache H m) a =
    map_option (merged_rows H (hm_get m ''*'') a) (hm_get m a)"
  using assms
  by (simp add: build_wildcard_merged_cache_def cache_order_ok_def merge_authorities_get
      order_wf order_get split: option.splits)

text \<open>
  Rows of the wildcard authority and rows of another authority never share an identity, since the
  identity holds the subscriber's authority: the merge cannot hide an exact row.
\<close>

lemma rows_of_authority:
  assumes "uuri_api_ok U" and "list_all complete_row ss"
    and "rows_of U ss P k = Some i"
  shows "\<exists>u. sik_subscriber k = Some u \<and> P (key_authority_name u)"
proof -
  from assms(3) obtain s where s: "s \<in> set ss" "P (row_authority s)"
    and k: "k = subscription_identity U (row_info s)"
    by (auto simp: rows_of_def dest!: map_of_SomeD)
  from s(1) assms(2) have "complete_row s" by (simp add: list_all_iff)
  then show ?thesis
    using assms(1) s(2) k
    by (auto simp: subscription_identity_def row_info_def row_authority_def complete_row_def
        uri_key_def uuri_api_simps)
qed

lemma rows_of_disj:
  "rows_of U ss (\<lambda>b. b = a \<or> b = c) k =
     (if rows_of U ss (\<lambda>b. b = a) k = None then rows_of U ss (\<lambda>b. b = c) k
      else if rows_of U ss (\<lambda>b. b = c) k = None then rows_of U ss (\<lambda>b. b = a) k
      else rows_of U ss (\<lambda>b. b = a \<or> b = c) k)"
  by (induction ss) (auto simp: rows_of_def split: if_splits)

lemma snapshot_rows_cases:
  assumes "uuri_api_ok U" and "list_all complete_row ss"
  shows "snapshot_rows U ss a k =
    (case rows_of U ss (\<lambda>b. b = ''*'') k of
       Some i \<Rightarrow> Some i
     | None \<Rightarrow> rows_of U ss (\<lambda>b. b = a) k)"
proof (cases "a = ''*''")
  case True
  then show ?thesis by (simp add: snapshot_rows_def split: option.splits)
next
  case False
  have "rows_of U ss (\<lambda>b. b = ''*'') k = None \<or> rows_of U ss (\<lambda>b. b = a) k = None"
    using rows_of_authority [OF assms, of "\<lambda>b. b = a" k]
      rows_of_authority [OF assms, of "\<lambda>b. b = ''*''" k] False
    by fastforce
  then show ?thesis
    unfolding snapshot_rows_def
    by (subst rows_of_disj) (auto split: option.splits)
qed

section \<open>The cache answers as the reference does\<close>

lemma view_None_get: "cache_wf m \<Longrightarrow> (\<forall>k. cache_view m a k = None) \<longleftrightarrow> hm_get m a = None"
proof
  assume wf: "cache_wf m" and none: "\<forall>k. cache_view m a k = None"
  show "hm_get m a = None"
  proof (rule ccontr)
    assume "hm_get m a \<noteq> None"
    then obtain rows where rows: "hm_get m a = Some rows" by auto
    with wf have "rows \<noteq> []" by (auto simp: cache_wf_def)
    then obtain k v rest where "rows = (k, v) # rest" by (cases rows) auto
    with rows have "cache_view m a k = Some v" by (simp add: cache_view_def)
    with none show False by simp
  qed
qed (simp add: cache_view_def)

lemma merged_rows_get:
  assumes "cache_order_ok H" and "cache_wf m" and "hm_get m a = Some rows"
  shows "hm_get (merged_rows H (hm_get m ''*'') a rows) k =
    (case cache_view m ''*'' k of Some i \<Rightarrow> Some i | None \<Rightarrow> cache_view m a k)"
proof -
  have w: "hm_get (hm_extend rows (rows_order H ws)) k =
      (case hm_get ws k of Some i \<Rightarrow> Some i | None \<Rightarrow> hm_get rows k)"
    if "hm_get m ''*'' = Some ws" for ws
    using assms that
    by (simp add: cache_order_ok_def cache_wf_def hm_get_extend order_wf order_get)
  show ?thesis
    using assms(3) w
    by (auto simp: merged_rows_def cache_view_def split: option.splits)
qed

lemma hm_extend_nonempty: "m \<noteq> [] \<Longrightarrow> hm_extend m es \<noteq> []"
proof (induction m es rule: hm_extend.induct)
  case (2 m k v es)
  have "hm_insert k v m \<noteq> []"
    by (metis hm_get_Nil hm_get_insert option.distinct(1))
  with 2 show ?case by simp
qed simp

lemma merged_rows_nonempty: "rows \<noteq> [] \<Longrightarrow> merged_rows H w a rows \<noteq> []"
  by (simp add: merged_rows_def hm_extend_nonempty split: option.splits)

lemma merged_rows_wf:
  assumes "cache_wf m" and "hm_get m a = Some rows"
  shows "hm_wf (merged_rows H (hm_get m ''*'') a rows)"
  using assms by (auto simp: merged_rows_def cache_wf_def split: option.splits)

text \<open>
  The lookup of a built cache, as one case distinction: the merged rows of a known authority, else
  the wildcard rows.
\<close>

lemma fetch_entry_cases:
  assumes "cache_order_ok H" and "cache_wf m"
  shows "fetch_cache_entry_with_wildcard
           \<lparr>cache_map = m, merged_map = build_wildcard_merged_cache H m\<rparr> entry =
    (case hm_get m entry of
       Some rows \<Rightarrow> Some (merged_rows H (hm_get m ''*'') entry rows)
     | None \<Rightarrow> hm_get m ''*'')"
proof -
  have "hm_wf m" using assms(2) by (simp add: cache_wf_def)
  then show ?thesis
    using assms merged_rows_nonempty
    by (auto simp: fetch_cache_entry_with_wildcard_def merged_cache_get Let_def cache_wf_def
        split: option.splits)
qed

lemma fetch_entry_view:
  assumes "cache_order_ok H" and "cache_wf m"
    and "fetch_cache_entry_with_wildcard
           \<lparr>cache_map = m, merged_map = build_wildcard_merged_cache H m\<rparr> entry = Some rows"
  shows "hm_wf rows"
    and "hm_get rows k =
      (case cache_view m ''*'' k of Some i \<Rightarrow> Some i | None \<Rightarrow> cache_view m entry k)"
  using assms merged_rows_get [OF assms(1,2)] merged_rows_wf [OF assms(2)]
  by (auto simp: fetch_entry_cases cache_view_def cache_wf_def split: option.splits)

lemma cache_new_lookup:
  assumes "uuri_api_ok U" and "cache_order_ok H" and "cache_new U H ss = Inr c"
  shows "case fetch_cache_entry_with_wildcard c entry of
           None \<Rightarrow> (\<forall>k. snapshot_rows U ss entry k = None)
         | Some rows \<Rightarrow> rows \<noteq> [] \<and> hm_wf rows \<and> (\<forall>k. hm_get rows k = snapshot_rows U ss entry k)"
proof -
  from assms(3) obtain m where m: "cache_rows U ss [] = Inr m"
    and c: "c = \<lparr>cache_map = m, merged_map = build_wildcard_merged_cache H m\<rparr>"
    by (auto simp: cache_new_def split: sum.splits)
  note start = cache_rows_start [OF assms(1) m]
  have complete: "list_all complete_row ss"
    using m cache_rows_Ok_iff [of U ss "[]"] by simp
  have spec: "snapshot_rows U ss entry k =
      (case cache_view m ''*'' k of Some i \<Rightarrow> Some i | None \<Rightarrow> cache_view m entry k)" for k
    unfolding snapshot_rows_cases [OF assms(1) complete] start(2) ..
  show ?thesis
  proof (cases "fetch_cache_entry_with_wildcard c entry")
    case None
    then have "hm_get m entry = None" and "hm_get m ''*'' = None"
      by (auto simp: c fetch_entry_cases [OF assms(2) start(1)] split: option.splits)
    with None spec show ?thesis by (simp add: cache_view_def)
  next
    case (Some rows)
    have "rows \<noteq> []"
      using Some by (auto simp: fetch_cache_entry_with_wildcard_def Let_def
          split: option.splits if_splits)
    with Some spec fetch_entry_view [OF assms(2) start(1), of entry rows]
    show ?thesis by (simp add: c)
  qed
qed

end
