(* ===== verification/Subscription_Directory.thy ===== *)
theory Subscription_Directory
  imports Subscription_Cache
begin

text \<open>
  The subscription directory (routing/subscription_directory.rs): the current snapshot, a cache with
  its version, swapped as one pointer, and the counter the next version comes from. The version is a
  \<open>u64\<close> and wraps.
\<close>

section \<open>State and operations\<close>

record directory_snapshot =
  snapshot_version :: "64 word"
  snapshot_cache :: subscription_cache

record subscription_directory =
  directory_snapshot :: directory_snapshot
  next_version :: "64 word"

definition directory_from_cache :: "64 word \<Rightarrow> subscription_cache \<Rightarrow> subscription_directory" where
  "directory_from_cache version cache =
     \<lparr>directory_snapshot = \<lparr>snapshot_version = version, snapshot_cache = cache\<rparr>,
      next_version = version + 1\<rparr>"

definition directory_empty :: subscription_directory where
  "directory_empty = directory_from_cache 0 empty_cache"

definition lookup_route_subscribers :: "directory_snapshot \<Rightarrow> string \<Rightarrow> subscription_lookup" where
  "lookup_route_subscribers snapshot out_authority =
     (case fetch_cache_entry_with_wildcard (snapshot_cache snapshot) out_authority of
        Some subscribers \<Rightarrow> subscribers
      | None \<Rightarrow> [])"

definition apply_snapshot ::
  "uuri_api \<Rightarrow> cache_order \<Rightarrow> fetch_subscriptions_response \<Rightarrow> subscription_directory \<Rightarrow>
   (ustatus, unit) result \<times> subscription_directory" where
  "apply_snapshot U H snapshot d =
     (case cache_new U H snapshot of
        Inl e \<Rightarrow> (Err e, d)
      | Inr next_cache \<Rightarrow>
          (Ok (),
           d\<lparr>next_version := next_version d + 1,
             directory_snapshot := \<lparr>snapshot_version = next_version d,
                                    snapshot_cache = next_cache\<rparr>\<rparr>))"

definition lookup_route_subscribers_with_version ::
  "subscription_directory \<Rightarrow> string \<Rightarrow> 64 word \<times> subscription_lookup" where
  "lookup_route_subscribers_with_version d out_authority =
     (snapshot_version (directory_snapshot d),
      lookup_route_subscribers (directory_snapshot d) out_authority)"

section \<open>Lookups answer from the last applied snapshot\<close>

text \<open>The directory reflects a list of rows when its lookups are the reference lookups on it.\<close>

definition directory_reflects ::
  "uuri_api \<Rightarrow> subscription list \<Rightarrow> subscription_directory \<Rightarrow> bool" where
  "directory_reflects U rows d \<longleftrightarrow>
     (\<forall>a. hm_wf (snd (lookup_route_subscribers_with_version d a)) \<and>
          (\<forall>k. hm_get (snd (lookup_route_subscribers_with_version d a)) k
               = snapshot_rows U rows a k))"

lemma directory_empty_reflects: "directory_reflects U [] directory_empty"
  by (simp add: directory_reflects_def directory_empty_def directory_from_cache_def
      lookup_route_subscribers_with_version_def lookup_route_subscribers_def
      fetch_cache_entry_with_wildcard_def empty_cache_def snapshot_rows_def rows_of_def)

lemma apply_snapshot_Ok_iff:
  "is_ok (fst (apply_snapshot U H snapshot d)) \<longleftrightarrow> list_all complete_row snapshot"
  using cache_rows_Ok_iff [of U snapshot "[]"]
  by (auto simp: apply_snapshot_def cache_new_def split: sum.splits)

lemma apply_snapshot_Err: "apply_snapshot U H snapshot d = (Inl e, d') \<Longrightarrow> d' = d"
  by (auto simp: apply_snapshot_def split: sum.splits)

lemma apply_snapshot_version:
  "apply_snapshot U H snapshot d = (Inr x, d') \<Longrightarrow>
     snapshot_version (directory_snapshot d') = next_version d \<and>
     next_version d' = next_version d + 1"
  by (auto simp: apply_snapshot_def split: sum.splits)

lemma apply_snapshot_lookup:
  assumes "uuri_api_ok U" and "cache_order_ok H"
    and "apply_snapshot U H snapshot d = (Inr x, d')"
  shows "directory_reflects U snapshot d'"
proof -
  from assms(3) obtain c where c: "cache_new U H snapshot = Inr c"
    and d': "snapshot_cache (directory_snapshot d') = c"
    by (auto simp: apply_snapshot_def split: sum.splits)
  have "hm_wf (lookup_route_subscribers (directory_snapshot d') a) \<and>
      (\<forall>k. hm_get (lookup_route_subscribers (directory_snapshot d') a) k
           = snapshot_rows U snapshot a k)" for a
    using cache_new_lookup [OF assms(1,2) c, of a]
    by (simp add: lookup_route_subscribers_def d' split: option.splits)
  then show ?thesis
    by (simp add: directory_reflects_def lookup_route_subscribers_with_version_def)
qed

section \<open>Properties\<close>

text \<open>
  C13. After a refresh is applied, looking up the subscribers of an egress authority yields exactly
  the rows of that snapshot whose subscriber has this authority or the wildcard authority, the first
  one for each identity: the two precomputed maps (exact and merged) and the fallback to the
  wildcard rows refine the plain filter, whatever order the hash maps are iterated in.
\<close>

theorem directory_lookup_refines_snapshot:
  assumes "uuri_api_ok U" and "cache_order_ok H"
    and "apply_snapshot U H snapshot d = (Inr (), d')"
  shows "hm_get (snd (lookup_route_subscribers_with_version d' a)) k = snapshot_rows U snapshot a k"
  using apply_snapshot_lookup [OF assms] by (simp add: directory_reflects_def)

definition sample_row :: subscription where
  "sample_row =
     \<lparr>sub_topic = Some \<lparr>authority_name = ''a'', ue_id = 0x5BA0, ue_version_major = 1,
                        resource_id = 0x8001\<rparr>,
      sub_subscriber = Some \<lparr>subscriber_uri = Some \<lparr>authority_name = ''b'', ue_id = 0x5678,
                        ue_version_major = 1, resource_id = 0x1234\<rparr>\<rparr>\<rparr>"

lemma sample_row_authority: "row_authority sample_row = ''b''"
  by (simp add: row_authority_def sample_row_def)

definition plain_order :: cache_order where
  "plain_order = \<lparr>authority_order = (\<lambda>xs. xs), rows_order = (\<lambda>xs. xs)\<rparr>"

lemma plain_order_ok: "cache_order_ok plain_order"
  by (simp add: cache_order_ok_def plain_order_def)

lemma sample_apply:
  "apply_snapshot (sample_uuri_api []) plain_order [sample_row] directory_empty
     = (Inr (), snd (apply_snapshot (sample_uuri_api []) plain_order [sample_row] directory_empty))"
proof -
  have "is_ok (fst (apply_snapshot (sample_uuri_api []) plain_order [sample_row] directory_empty))"
    by (simp add: apply_snapshot_Ok_iff complete_row_def sample_row_def)
  then show ?thesis
    by (cases "apply_snapshot (sample_uuri_api []) plain_order [sample_row] directory_empty")
      (auto simp: is_ok_def split: sum.splits)
qed

lemma sample_snapshot_rows:
  "snapshot_rows (sample_uuri_api []) [sample_row] ''b''
     (subscription_identity (sample_uuri_api []) (row_info sample_row)) = Some (row_info sample_row)"
  by (simp add: snapshot_rows_def rows_of_def sample_row_authority)

theorem directory_lookup_refines_snapshot_witness:
  "hm_get (snd (lookup_route_subscribers_with_version
       (snd (apply_snapshot (sample_uuri_api []) plain_order [sample_row] directory_empty)) ''b''))
     (subscription_identity (sample_uuri_api []) (row_info sample_row)) = Some (row_info sample_row)"
  unfolding directory_lookup_refines_snapshot
    [OF sample_uuri_api_ok plain_order_ok sample_apply]
  by (rule sample_snapshot_rows)

text \<open>
  A snapshot is applied exactly when every row has a topic, a subscriber and a subscriber URI.
  When it is refused the directory, version included, is the one before the call; when it is applied
  it gets the version counter's value and the counter moves on by one (modulo 2 to the 64).
\<close>

theorem apply_snapshot_all_or_nothing:
  "case apply_snapshot U H snapshot d of
     (Inl e, d') \<Rightarrow> \<not> list_all complete_row snapshot \<and> d' = d \<and> status_code e = INVALID_ARGUMENT
   | (Inr _, d') \<Rightarrow> list_all complete_row snapshot \<and>
       snapshot_version (directory_snapshot d') = next_version d \<and>
       next_version d' = next_version d + 1"
proof -
  have code: "status_code e = INVALID_ARGUMENT" if "cache_rows U ss m = Inl e" for ss m e
    using that
    by (induction ss arbitrary: m)
      (auto simp: cache_row_def Let_def split: sum.splits option.splits)
  show ?thesis
    using apply_snapshot_Ok_iff [of U H snapshot d]
    by (cases "cache_rows U snapshot []")
      (simp_all add: apply_snapshot_def cache_new_def code)
qed

end
