(* ===== verification/Publish_Resolution.thy ===== *)
theory Publish_Resolution
  imports Subscription_Directory
begin

text \<open>
  Publish-source filters (routing/publish_resolution.rs): for one ingress and egress authority, the
  topics of the egress authority's subscribers that can originate from the ingress authority, each
  turned into a filter URI with the ingress authority's name, without duplicates.
\<close>

section \<open>Data and operations\<close>

type_synonym source_filter_lookup = "(uri_identity_key, uuri) hashmap"

record publish_source_filter_cache_key =
  pk_ingress_authority :: string
  pk_egress_authority :: string
  pk_snapshot_version :: "64 word"

definition publish_cache_key ::
  "string \<Rightarrow> string \<Rightarrow> 64 word \<Rightarrow> publish_source_filter_cache_key" where
  "publish_cache_key ingress egress version =
     \<lparr>pk_ingress_authority = ingress, pk_egress_authority = egress, pk_snapshot_version = version\<rparr>"

definition topic_projection_key :: "uuri_api \<Rightarrow> uuri \<Rightarrow> 32 word \<times> 8 word \<times> 16 word" where
  "topic_projection_key U topic =
     (ue_id topic, m_uentity_major_version U topic, m_resource_id U topic)"

definition topic_matches_ingress_authority :: "uuri_api \<Rightarrow> string \<Rightarrow> uuri \<Rightarrow> bool" where
  "topic_matches_ingress_authority U ingress topic \<longleftrightarrow>
     m_has_wildcard_authority U topic \<or> m_authority_name U topic = ingress"

definition derive_source_filter_for_topic :: "uuri_api \<Rightarrow> string \<Rightarrow> string \<Rightarrow> uuri \<Rightarrow> uuri option" where
  "derive_source_filter_for_topic U ingress egress topic =
     (if \<not> topic_matches_ingress_authority U ingress topic then None
      else (case m_try_from_parts U ingress (ue_id topic) (m_uentity_major_version U topic)
                   (m_resource_id U topic) of
              Inr source_uri \<Rightarrow> Some source_uri
            | Inl err \<Rightarrow> None))"

fun derive_loop ::
  "uuri_api \<Rightarrow> string \<Rightarrow> string \<Rightarrow> subscription_information list \<Rightarrow>
   (32 word \<times> 8 word \<times> 16 word) set \<Rightarrow> source_filter_lookup \<Rightarrow> source_filter_lookup" where
  "derive_loop U ingress egress [] seen filters = filters"
| "derive_loop U ingress egress (s # ss) seen filters =
     (let topic_key = topic_projection_key U (info_topic s) in
      if topic_key \<in> seen then derive_loop U ingress egress ss seen filters
      else (case derive_source_filter_for_topic U ingress egress (info_topic s) of
              None \<Rightarrow> derive_loop U ingress egress ss seen filters
            | Some source_uri \<Rightarrow>
                derive_loop U ingress egress ss (insert topic_key seen)
                  (hm_or_insert (uri_key U source_uri) source_uri filters)))"

definition derive_source_filters ::
  "uuri_api \<Rightarrow> cache_order \<Rightarrow> string \<Rightarrow> string \<Rightarrow> subscription_lookup \<Rightarrow> source_filter_lookup" where
  "derive_source_filters U H ingress egress subscribers =
     derive_loop U ingress egress (map snd (rows_order H subscribers)) {} []"

section \<open>What the loop computes\<close>

text \<open>The filters of a set of rows, without an order and without the set of seen topics.\<close>

definition filters_of ::
  "uuri_api \<Rightarrow> string \<Rightarrow> subscription_information set \<Rightarrow> uri_identity_key \<Rightarrow> uuri \<Rightarrow> bool" where
  "filters_of U ingress rows key u \<longleftrightarrow>
     key = uri_key U u \<and>
     (\<exists>s\<in>rows. derive_source_filter_for_topic U ingress [] (info_topic s) = Some u)"

lemma derive_for_topic_egress:
  "derive_source_filter_for_topic U ingress egress topic
     = derive_source_filter_for_topic U ingress [] topic"
  by (simp add: derive_source_filter_for_topic_def)

lemma derive_for_topic_iff:
  assumes "uuri_api_ok U"
  shows "derive_source_filter_for_topic U ingress egress topic = Some u \<longleftrightarrow>
    authority_name topic \<in> {''*'', ingress} \<and>
    m_try_from_parts U ingress (ue_id topic) (ucast (ue_version_major topic))
      (ucast (resource_id topic)) = Inr u"
  by (cases "m_try_from_parts U ingress (ue_id topic) (ucast (ue_version_major topic))
      (ucast (resource_id topic))")
    (simp_all add: derive_source_filter_for_topic_def topic_matches_ingress_authority_def
      uuri_api_simps [OF assms])

lemma derive_for_topic_Some:
  assumes "uuri_api_ok U" and "derive_source_filter_for_topic U ingress egress topic = Some u"
  shows "u = \<lparr>authority_name = ingress, ue_id = ue_id topic,
              ue_version_major = ucast (ucast (ue_version_major topic) :: 8 word),
              resource_id = ucast (ucast (resource_id topic) :: 16 word)\<rparr>"
    and "authority_name topic = ''*'' \<or> authority_name topic = ingress"
  using assms try_from_parts_Ok [OF assms(1)]
  by (auto simp: derive_source_filter_for_topic_def topic_matches_ingress_authority_def
      uuri_api_simps [OF assms(1)] split: if_splits sum.splits)

lemma ucast_8_32_8 [simp]: "ucast (ucast (v :: 8 word) :: 32 word) = v"
  by (rule ucast_up_ucast_id) (simp add: is_up)

lemma ucast_16_32_16 [simp]: "ucast (ucast (v :: 16 word) :: 32 word) = v"
  by (rule ucast_up_ucast_id) (simp add: is_up)

text \<open>The key of a derived filter and the projection of its topic determine each other.\<close>

lemma derived_key_projection:
  assumes "uuri_api_ok U"
    and "derive_source_filter_for_topic U ingress e topic = Some u"
    and "derive_source_filter_for_topic U ingress e' topic' = Some u'"
  shows "uri_key U u = uri_key U u' \<longleftrightarrow>
      topic_projection_key U topic = topic_projection_key U topic'"
    and "uri_key U u = uri_key U u' \<Longrightarrow> u = u'"
  using derive_for_topic_Some(1) [OF assms(1,2)] derive_for_topic_Some(1) [OF assms(1,3)]
  by (auto simp: uri_key_def topic_projection_key_def uuri_api_simps [OF assms(1)])

text \<open>The loop's invariant: what is seen is exactly what the filters hold.\<close>

definition derive_inv ::
  "uuri_api \<Rightarrow> string \<Rightarrow> subscription_information set \<Rightarrow> (32 word \<times> 8 word \<times> 16 word) set \<Rightarrow>
   source_filter_lookup \<Rightarrow> bool" where
  "derive_inv U ingress done seen filters \<longleftrightarrow>
     hm_wf filters \<and>
     (\<forall>k u. hm_get filters k = Some u \<longleftrightarrow> filters_of U ingress done k u) \<and>
     seen = {topic_projection_key U (info_topic s) | s u.
               s \<in> done \<and> derive_source_filter_for_topic U ingress [] (info_topic s) = Some u}"

lemma derive_inv_skip:
  assumes "uuri_api_ok U" and "derive_inv U ingress done seen filters"
    and "topic_projection_key U (info_topic s) \<in> seen"
  shows "derive_inv U ingress (insert s done) seen filters"
proof -
  from assms(2,3) obtain s0 u0 where s0: "s0 \<in> done"
      "derive_source_filter_for_topic U ingress [] (info_topic s0) = Some u0"
      "topic_projection_key U (info_topic s) = topic_projection_key U (info_topic s0)"
    by (auto simp: derive_inv_def)
  have same: "u = u0"
    if "derive_source_filter_for_topic U ingress [] (info_topic s) = Some u" for u
    using derived_key_projection [OF assms(1) that s0(2)] s0(3) by simp
  have "filters_of U ingress (insert s done) k u \<longleftrightarrow> filters_of U ingress done k u" for k u
    using s0 same by (auto simp: filters_of_def)
  with assms(2,3) same show ?thesis by (auto simp: derive_inv_def)
qed

lemma derive_inv_none:
  assumes "derive_inv U ingress done seen filters"
    and "derive_source_filter_for_topic U ingress [] (info_topic s) = None"
  shows "derive_inv U ingress (insert s done) seen filters"
  using assms unfolding derive_inv_def filters_of_def by auto

lemma derive_inv_some:
  assumes "uuri_api_ok U" and inv: "derive_inv U ingress done seen filters"
    and new: "topic_projection_key U (info_topic s) \<notin> seen"
    and some: "derive_source_filter_for_topic U ingress [] (info_topic s) = Some u"
  shows "derive_inv U ingress (insert s done) (insert (topic_projection_key U (info_topic s)) seen)
           (hm_or_insert (uri_key U u) u filters)"
proof -
  have fresh: "hm_get filters (uri_key U u) = None"
  proof (rule ccontr)
    assume "hm_get filters (uri_key U u) \<noteq> None"
    then obtain u' where "filters_of U ingress done (uri_key U u) u'"
      using inv by (auto simp: derive_inv_def)
    then obtain s' where "s' \<in> done" and eq: "uri_key U u = uri_key U u'"
      and s': "derive_source_filter_for_topic U ingress [] (info_topic s') = Some u'"
      by (auto simp: filters_of_def)
    moreover have "topic_projection_key U (info_topic s) = topic_projection_key U (info_topic s')"
      using derived_key_projection(1) [OF assms(1) some s'] eq by simp
    ultimately show False using new inv by (auto simp: derive_inv_def)
  qed
  have "filters_of U ingress (insert s done) k v \<longleftrightarrow>
      (k = uri_key U u \<and> v = u) \<or> filters_of U ingress done k v" for k v
    using some by (auto simp: filters_of_def)
  moreover have "\<not> filters_of U ingress done (uri_key U u) v" for v
    using inv fresh unfolding derive_inv_def by (metis option.distinct(1))
  ultimately show ?thesis
    using inv fresh some by (auto simp: derive_inv_def)
qed

lemma derive_loop_inv:
  assumes "uuri_api_ok U"
  shows "derive_inv U ingress done seen filters \<Longrightarrow>
    \<exists>seen'. derive_inv U ingress (done \<union> set ss) seen'
              (derive_loop U ingress egress ss seen filters)"
proof (induction ss arbitrary: "done" seen filters)
  case Nil
  then show ?case by auto
next
  case (Cons s ss)
  have set: "done \<union> set (s # ss) = insert s done \<union> set ss" by auto
  show ?case
  proof (cases "topic_projection_key U (info_topic s) \<in> seen")
    case True
    from Cons.IH [OF derive_inv_skip [OF assms Cons.prems True]] True show ?thesis
      unfolding set by (simp add: Let_def)
  next
    case False
    show ?thesis
    proof (cases "derive_source_filter_for_topic U ingress [] (info_topic s)")
      case None
      from Cons.IH [OF derive_inv_none [OF Cons.prems None]] None False show ?thesis
        unfolding set by (simp add: Let_def derive_for_topic_egress [of U ingress egress])
    next
      case (Some u)
      from Cons.IH [OF derive_inv_some [OF assms Cons.prems False Some]] Some False show ?thesis
        unfolding set by (simp add: Let_def derive_for_topic_egress [of U ingress egress])
    qed
  qed
qed

lemma derive_source_filters_get:
  assumes "uuri_api_ok U" and "cache_order_ok H"
  shows "hm_get (derive_source_filters U H ingress egress subscribers) k = Some u \<longleftrightarrow>
      filters_of U ingress (snd ` set subscribers) k u"
    and "hm_wf (derive_source_filters U H ingress egress subscribers)"
proof -
  have "derive_inv U ingress {} {} []" by (simp add: derive_inv_def filters_of_def)
  from derive_loop_inv [OF assms(1) this, of "map snd (rows_order H subscribers)" egress]
  obtain seen where "derive_inv U ingress (snd ` set subscribers) seen
      (derive_source_filters U H ingress egress subscribers)"
    using assms(2) by (auto simp: derive_source_filters_def cache_order_ok_def order_set)
  then show "hm_get (derive_source_filters U H ingress egress subscribers) k = Some u \<longleftrightarrow>
      filters_of U ingress (snd ` set subscribers) k u"
    and "hm_wf (derive_source_filters U H ingress egress subscribers)"
    by (simp_all add: derive_inv_def)
qed

section \<open>Properties\<close>

text \<open>
  The derived filters do not depend on the order in which the subscriber map is iterated: two
  runs over the same rows hold the same filters under the same keys, although the loop skips a topic
  it has seen before and keeps the first of two equal entries.
\<close>

theorem derive_source_filters_order_independent:
  assumes "uuri_api_ok U" and "cache_order_ok H" and "cache_order_ok H'"
  shows "hm_get (derive_source_filters U H ingress egress subscribers)
       = hm_get (derive_source_filters U H' ingress egress subscribers)"
proof
  fix k
  have "hm_get (derive_source_filters U H ingress egress subscribers) k = Some u \<longleftrightarrow>
      hm_get (derive_source_filters U H' ingress egress subscribers) k = Some u" for u
    by (simp add: derive_source_filters_get [OF assms(1,2)] derive_source_filters_get [OF assms(1,3)])
  then show "hm_get (derive_source_filters U H ingress egress subscribers) k
      = hm_get (derive_source_filters U H' ingress egress subscribers) k"
    by (metis not_Some_eq)
qed

definition reverse_order :: cache_order where
  "reverse_order = \<lparr>authority_order = rev, rows_order = rev\<rparr>"

lemma reverse_order_ok: "cache_order_ok reverse_order"
  by (simp add: cache_order_ok_def reverse_order_def)

theorem derive_source_filters_order_independent_witness:
  "hm_get (derive_source_filters (sample_uuri_api []) plain_order ''a'' ''b''
       [(subscription_identity (sample_uuri_api []) (row_info sample_row), row_info sample_row)])
   = hm_get (derive_source_filters (sample_uuri_api []) reverse_order ''a'' ''b''
       [(subscription_identity (sample_uuri_api []) (row_info sample_row), row_info sample_row)])"
  by (rule derive_source_filters_order_independent
      [OF sample_uuri_api_ok plain_order_ok reverse_order_ok])

text \<open>
  C14. The source filters are exactly the URIs that can be built with the ingress authority from the
  topic of some subscriber row whose topic authority is the wildcard or the ingress authority. Each
  is stored under its own key, so no filter for another authority is ever derived and none is lost
  to the deduplication.
\<close>

theorem derive_source_filters_exact:
  assumes "uuri_api_ok U" and "cache_order_ok H"
  shows "hm_get (derive_source_filters U H ingress egress subscribers) k = Some u \<longleftrightarrow>
     k = uri_key U u \<and>
     (\<exists>row \<in> set subscribers.
        authority_name (info_topic (snd row)) \<in> {''*'', ingress} \<and>
        m_try_from_parts U ingress (ue_id (info_topic (snd row)))
          (ucast (ue_version_major (info_topic (snd row))))
          (ucast (resource_id (info_topic (snd row)))) = Inr u)"
  by (auto simp add: derive_source_filters_get [OF assms] filters_of_def
      derive_for_topic_iff [OF assms(1)])

definition sample_topic :: uuri where
  "sample_topic = \<lparr>authority_name = ''a'', ue_id = 0x5BA0, ue_version_major = 1,
                   resource_id = 0x8001\<rparr>"

lemma sample_row_topic: "info_topic (row_info sample_row) = sample_topic"
  by (simp add: row_info_def sample_row_def sample_topic_def)

lemma sample_topic_facts:
  "authority_name sample_topic = ''a''"
  "m_try_from_parts (sample_uuri_api []) ''a'' (ue_id sample_topic)
     (ucast (ue_version_major sample_topic)) (ucast (resource_id sample_topic)) = Inr sample_topic"
  by (simp_all add: sample_topic_def sample_uuri_api_def)

theorem derive_source_filters_exact_witness:
  "hm_get (derive_source_filters (sample_uuri_api []) plain_order ''a'' ''b''
        [(subscription_identity (sample_uuri_api []) (row_info sample_row), row_info sample_row)])
      (uri_key (sample_uuri_api []) sample_topic) = Some sample_topic"
  unfolding derive_source_filters_exact [OF sample_uuri_api_ok plain_order_ok]
  by (simp add: sample_row_topic sample_topic_facts)

end
