(* ===== verification/External_World.thy ===== *)
theory External_World
  imports Publish_Resolution
begin

text \<open>
  What the streamer calls but does not contain: transports (\<open>up_rust::UTransport\<close>), the broadcast
  channels of \<open>tokio\<close>, the allocator behind \<open>Arc::new\<close>, UUIDs and threads. All of it acts on a
  world of type \<open>'w\<close> and is a record of functions, \<open>ext\<close>, which the operations of the model take as
  an argument; messages have an arbitrary type \<open>'m\<close>, so no operation can look into one it is not
  given an accessor for.

  The locale \<open>transport_contract\<close> is the interface the ingress registry relies on: a transport keeps
  a set of registrations (\<open>up_rust\<close> identifies a listener by the address of its \<open>Arc\<close>), and a call that
  fails leaves it alone. A listener that is registered somewhere is kept alive by the transport, so
  its address is not given out again. \<open>supported\<close> leaves room for transports that cannot undo a
  registration with every sink filter; a registration without a sink filter can always be undone.
\<close>

section \<open>Listeners and the external operations\<close>

text \<open>
  \<open>Arc<IngressRouteListener>\<close> (data_plane/ingress_listener.rs): the address of the shared object, the
  route label and the sending half of the egress channel it feeds.
\<close>

record route_listener =
  lsn_ptr :: nat
  lsn_route_id :: string
  lsn_sender :: nat

record ('m, 'w) ext =
  ut_register :: "arc_transport \<Rightarrow> uuri \<Rightarrow> uuri option \<Rightarrow> route_listener \<Rightarrow> 'w \<Rightarrow>
     (ustatus, unit) result \<times> 'w"
  ut_unregister :: "arc_transport \<Rightarrow> uuri \<Rightarrow> uuri option \<Rightarrow> route_listener \<Rightarrow> 'w \<Rightarrow>
     (ustatus, unit) result \<times> 'w"
  ut_send :: "arc_transport \<Rightarrow> 'm \<Rightarrow> 'w \<Rightarrow> (ustatus, unit) result \<times> 'w"
  arc_new :: "'w \<Rightarrow> nat \<times> 'w"
  bc_channel :: "nat \<Rightarrow> 'w \<Rightarrow> (nat \<times> 'w) option" \<comment> \<open>\<open>None\<close>: the call panics\<close>
  bc_send :: "nat \<Rightarrow> 'm \<Rightarrow> 'w \<Rightarrow> bool \<times> 'w"
  uuid_build :: "'w \<Rightarrow> string \<times> 'w"
  in_runtime :: "'w \<Rightarrow> bool"
  spawn_task :: "arc_transport \<Rightarrow> nat \<Rightarrow> 'w \<Rightarrow> 'w"
  spawn_thread :: "string \<Rightarrow> arc_transport \<Rightarrow> nat \<Rightarrow> 'w \<Rightarrow> bool \<times> 'w" \<comment> \<open>\<open>False\<close>: spawning failed\<close>

section \<open>The contract of a transport\<close>

locale transport_contract =
  fixes X :: "('m, 'w) ext"
    and registrations :: "'w \<Rightarrow> (arc_transport \<times> 'k \<times> nat) set"
    and filter_key :: "uuri \<Rightarrow> uuri option \<Rightarrow> 'k"
    and supported :: "uuri \<Rightarrow> uuri option \<Rightarrow> bool"
  assumes register_Ok: "ut_register X t src snk l w = (Inr u, w') \<Longrightarrow>
      registrations w' = insert (t, filter_key src snk, lsn_ptr l) (registrations w)"
    and register_Err: "ut_register X t src snk l w = (Inl e, w') \<Longrightarrow>
      registrations w' = registrations w"
    and unregister_Ok: "supported src snk \<Longrightarrow> ut_unregister X t src snk l w = (Inr u, w') \<Longrightarrow>
      registrations w' = registrations w - {(t, filter_key src snk, lsn_ptr l)}"
    and unregister_Err: "ut_unregister X t src snk l w = (Inl e, w') \<Longrightarrow>
      registrations w' = registrations w"
    and unregister_present: "supported src snk \<Longrightarrow>
      (t, filter_key src snk, lsn_ptr l) \<in> registrations w \<Longrightarrow>
      is_ok (fst (ut_unregister X t src snk l w))"
    and supported_publish: "supported src None"
    and arc_new_frame: "arc_new X w = (p, w') \<Longrightarrow> registrations w' = registrations w"
    and arc_new_fresh: "arc_new X w = (p, w') \<Longrightarrow> (t, k, q) \<in> registrations w \<Longrightarrow> q \<noteq> p"
    and channel_frame: "bc_channel X n w = Some (c, w') \<Longrightarrow> registrations w' = registrations w"
    and uuid_frame: "uuid_build X w = (s, w') \<Longrightarrow> registrations w' = registrations w"
    and task_frame: "registrations (spawn_task X t c w) = registrations w"
    and thread_frame: "spawn_thread X s t c w = (ok, w') \<Longrightarrow> registrations w' = registrations w"
begin

text \<open>Whatever it answers, unregistering a supported filter leaves the listener unregistered.\<close>

lemma unregister_removes:
  assumes "supported src snk" and "ut_unregister X t src snk l w = (r, w')"
  shows "registrations w' = registrations w - {(t, filter_key src snk, lsn_ptr l)}"
proof (cases r)
  case (Inr u)
  with assms show ?thesis by (simp add: unregister_Ok)
next
  case (Inl e)
  with assms(2) have "registrations w' = registrations w" by (simp add: unregister_Err)
  moreover have "(t, filter_key src snk, lsn_ptr l) \<notin> registrations w"
    using unregister_present [OF assms(1), of t l w] assms(2) Inl by auto
  ultimately show ?thesis by simp
qed

end

section \<open>The contract of dispatch loops\<close>

text \<open>
  \<open>loops\<close> are the receivers handed to a dispatch loop so far, each with the transport the loop sends on,
  and \<open>channels\<close> the channels created so far. Nothing ends a loop but the closing of its channel: the
  handles in \<open>RouteDispatchLoopHandle\<close> detach when they are dropped, and a channel closes when its last
  sender is dropped, so it stays open as long as a listener holds one.
\<close>

locale dispatch_contract = transport_contract +
  fixes loops :: "'w \<Rightarrow> (arc_transport \<times> nat) set"
    and channels :: "'w \<Rightarrow> nat set"
  assumes register_keeps: "ut_register X t src snk l w = (r, w') \<Longrightarrow>
      loops w' = loops w \<and> channels w' = channels w"
    and unregister_keeps: "ut_unregister X t src snk l w = (r, w') \<Longrightarrow>
      loops w' = loops w \<and> channels w' = channels w"
    and arc_new_keeps: "arc_new X w = (p, w') \<Longrightarrow> loops w' = loops w \<and> channels w' = channels w"
    and uuid_keeps: "uuid_build X w = (u, w') \<Longrightarrow> loops w' = loops w \<and> channels w' = channels w"
    and channel_new: "bc_channel X n w = Some (c, w') \<Longrightarrow>
      c \<notin> channels w \<and> channels w' = insert c (channels w) \<and> loops w' = loops w"
    and task_starts: "loops (spawn_task X t c w) = insert (t, c) (loops w) \<and>
      channels (spawn_task X t c w) = channels w"
    and thread_starts: "spawn_thread X s t c w = (True, w') \<Longrightarrow>
      loops w' = insert (t, c) (loops w) \<and> channels w' = channels w"

section \<open>Listener filters and rollback\<close>

type_synonym listener_filter = "uuri \<times> uuri option"

text \<open>
  \<open>rollback_registered_filters\<close> (data_plane/ingress_registry.rs); the same loop body ends
  \<open>unregister_route\<close>: every filter is unregistered, in order, an error is logged and ignored.
\<close>

fun unregister_filters ::
  "('m, 'w) ext \<Rightarrow> arc_transport \<Rightarrow> listener_filter list \<Rightarrow> route_listener \<Rightarrow> 'w \<Rightarrow> 'w" where
  "unregister_filters X t [] l w = w"
| "unregister_filters X t ((src, snk) # fs) l w =
     unregister_filters X t fs l (snd (ut_unregister X t src snk l w))"

text \<open>The registrations a listener has on a transport for a list of filters.\<close>

definition filter_entries ::
  "(uuri \<Rightarrow> uuri option \<Rightarrow> 'k) \<Rightarrow> arc_transport \<Rightarrow> listener_filter list \<Rightarrow> route_listener \<Rightarrow>
   (arc_transport \<times> 'k \<times> nat) set" where
  "filter_entries fk t fs l = (\<lambda>(src, snk). (t, fk src snk, lsn_ptr l)) ` set fs"

definition all_supported :: "(uuri \<Rightarrow> uuri option \<Rightarrow> bool) \<Rightarrow> listener_filter list \<Rightarrow> bool" where
  "all_supported supported fs \<longleftrightarrow> list_all (\<lambda>(src, snk). supported src snk) fs"

lemma filter_entries_simps [simp]:
  "filter_entries fk t [] l = {}"
  "filter_entries fk t ((src, snk) # fs) l = insert (t, fk src snk, lsn_ptr l) (filter_entries fk t fs l)"
  "filter_entries fk t (fs @ gs) l = filter_entries fk t fs l \<union> filter_entries fk t gs l"
  by (auto simp: filter_entries_def)

lemma filter_entries_listener: "(t', k, p) \<in> filter_entries fk t fs l \<Longrightarrow> t' = t \<and> p = lsn_ptr l"
  by (auto simp: filter_entries_def)

lemma all_supported_simps [simp]:
  "all_supported supported []"
  "all_supported supported ((src, snk) # fs) \<longleftrightarrow> supported src snk \<and> all_supported supported fs"
  "all_supported supported (fs @ gs) \<longleftrightarrow> all_supported supported fs \<and> all_supported supported gs"
  by (auto simp: all_supported_def)

context transport_contract
begin

lemma unregister_filters_removes:
  "all_supported supported fs \<Longrightarrow>
     registrations (unregister_filters X t fs l w) = registrations w - filter_entries filter_key t fs l"
proof (induction fs arbitrary: w)
  case Nil
  then show ?case by simp
next
  case (Cons f fs)
  obtain src snk where f: "f = (src, snk)" by (cases f)
  have "registrations (snd (ut_unregister X t src snk l w))
      = registrations w - {(t, filter_key src snk, lsn_ptr l)}"
    using Cons.prems f
      unregister_removes [of src snk t l w "fst (ut_unregister X t src snk l w)"]
    by simp
  with Cons f show ?case by auto
qed

end

end
