(* ===== verification/Up_Client_Foo.thy ===== *)
theory Up_Client_Foo
  imports External_World
begin

text \<open>
  The repository's own transports (utils/integration-test-utils/src): \<open>UPClientFoo\<close>, which keeps
  authority listeners and topic listeners in two maps, and \<open>UPClientFailingRegister\<close>, which refuses
  every registration. A world of such clients is a concrete instance of the operations the
  streamer calls, and fulfils \<open>transport_contract\<close>.

  A \<open>HashSet<ComparableListener>\<close> is a map from the address of the listener to the listener.
\<close>

section \<open>UPClientFoo\<close>

type_synonym listener_set = "(nat, route_listener) hashmap"

record foo_client =
  fc_name :: string
  fc_open :: bool \<comment> \<open>the protocol channel accepts messages\<close>
  fc_listeners :: "(uuri \<times> uuri option, listener_set) hashmap"
  fc_authority_listeners :: "(string, listener_set) hashmap"
  fc_times_received :: "64 word"

definition foo_new :: "string \<Rightarrow> foo_client" where
  "foo_new name = \<lparr>fc_name = name, fc_open = True, fc_listeners = [],
     fc_authority_listeners = [], fc_times_received = 0\<rparr>"

definition listener_set_insert :: "route_listener \<Rightarrow> listener_set \<Rightarrow> bool \<times> listener_set" where
  "listener_set_insert l S =
     (case hm_get S (lsn_ptr l) of
        None \<Rightarrow> (True, hm_insert (lsn_ptr l) l S)
      | Some _ \<Rightarrow> (False, S))"

definition listener_set_remove :: "route_listener \<Rightarrow> listener_set \<Rightarrow> bool \<times> listener_set" where
  "listener_set_remove l S =
     (case hm_get S (lsn_ptr l) of
        None \<Rightarrow> (False, S)
      | Some _ \<Rightarrow> (True, hm_remove (lsn_ptr l) S))"

definition or_default :: "('k, listener_set) hashmap \<Rightarrow> 'k \<Rightarrow> listener_set" where
  "or_default m k = (case hm_get m k of None \<Rightarrow> [] | Some S \<Rightarrow> S)"

definition foo_register_listener ::
  "uuri_api \<Rightarrow> uuri \<Rightarrow> uuri option \<Rightarrow> route_listener \<Rightarrow> foo_client \<Rightarrow>
   (ustatus, unit) result \<times> foo_client" where
  "foo_register_listener U source_filter sink_filter l c =
     (case sink_filter of
        Some sink \<Rightarrow>
          (let a = m_authority_name U sink;
               (inserted, S) = listener_set_insert l (or_default (fc_authority_listeners c) a);
               c' = c\<lparr>fc_authority_listeners := hm_insert a S (fc_authority_listeners c)\<rparr>
           in if inserted then (Ok (), c')
              else (Err (fail_with_code ALREADY_EXISTS
                      (fc_name c @ '': UUri and listener already registered! failed to register authority listener for: authority: '' @ a)), c'))
      | None \<Rightarrow>
          (let key = (source_filter, None);
               (inserted, S) = listener_set_insert l (or_default (fc_listeners c) key);
               c' = c\<lparr>fc_listeners := hm_insert key S (fc_listeners c)\<rparr>
           in if inserted then (Ok (), c')
              else (Err (fail_with_code ALREADY_EXISTS
                      ''Listener already registered for topic!''), c')))"

text \<open>
  A sink filter with the wildcard authority is looked up under the authority of the source filter.
  The rendering of the two filters in the messages is left out.
\<close>

definition foo_unregister_listener ::
  "uuri_api \<Rightarrow> uuri \<Rightarrow> uuri option \<Rightarrow> route_listener \<Rightarrow> foo_client \<Rightarrow>
   (ustatus, unit) result \<times> foo_client" where
  "foo_unregister_listener U source_filter sink_filter l c =
     (case sink_filter of
        Some sink \<Rightarrow>
          (let a = (if m_has_wildcard_authority U sink then m_authority_name U source_filter
                    else m_authority_name U sink)
           in case hm_get (fc_authority_listeners c) a of
                None \<Rightarrow> (Err (fail_with_code NOT_FOUND (fc_name c @ '' No authority listeners'')), c)
              | Some S \<Rightarrow>
                  (let (removed, S') = listener_set_remove l S;
                       c' = c\<lparr>fc_authority_listeners := hm_insert a S' (fc_authority_listeners c)\<rparr>
                   in if removed then (Ok (), c')
                      else (Err (fail_with_code NOT_FOUND
                              (fc_name c @ '' Unable to find authority listener'')), c')))
      | None \<Rightarrow>
          (let key = (source_filter, None)
           in case hm_get (fc_listeners c) key of
                None \<Rightarrow> (Err (fail_with_code NOT_FOUND ''No listeners registered for topic!''), c)
              | Some S \<Rightarrow>
                  (let (removed, S') = listener_set_remove l S;
                       c' = c\<lparr>fc_listeners := hm_insert key S' (fc_listeners c)\<rparr>
                   in if removed then (Ok (), c')
                      else (Err (fail_with_code NOT_FOUND
                              ''No listeners registered for topic! topic: {topic:?}''), c'))))"

text \<open>\<open>send\<close>: \<open>fc_open\<close> says whether the broadcast to the protocol channel succeeds.\<close>

definition foo_send :: "foo_client \<Rightarrow> (ustatus, unit) result" where
  "foo_send c = (if fc_open c then Ok ()
     else Err (fail_with_code INTERNAL ''Unable to send over Foo protocol''))"

subsection \<open>Delivery\<close>

text \<open>
  Dispatching one message with its sink and source: the listeners called, in order, and the client
  afterwards. The source is unwrapped only once the authority listeners have been called; without
  one the receiving thread panics (\<open>None\<close>). \<open>ord\<close> is the iteration order of the sets.
\<close>

definition process_message ::
  "uuri_api \<Rightarrow> (listener_set \<Rightarrow> listener_set) \<Rightarrow> uuri option \<Rightarrow> uuri option \<Rightarrow> foo_client \<Rightarrow>
   route_listener list \<times> foo_client option" where
  "process_message U ord sink source c =
     (case sink of
        None \<Rightarrow> ([], Some c)
      | Some sink_uri \<Rightarrow>
          (let by_authority =
                 (case hm_get (fc_authority_listeners c) (m_authority_name U sink_uri) of
                    None \<Rightarrow> [] | Some S \<Rightarrow> map snd (ord S))
           in case source of
                None \<Rightarrow> (by_authority, None)
              | Some source_uri \<Rightarrow>
                  (case hm_get (fc_listeners c) (source_uri, Some sink_uri) of
                     None \<Rightarrow> (by_authority, Some c)
                   | Some S \<Rightarrow>
                       (by_authority @ map snd (ord S),
                        Some (c\<lparr>fc_times_received := fc_times_received c + 1\<rparr>)))))"

datatype umessage_type =
  UMESSAGE_TYPE_UNSPECIFIED | UMESSAGE_TYPE_PUBLISH | UMESSAGE_TYPE_NOTIFICATION
  | UMESSAGE_TYPE_REQUEST | UMESSAGE_TYPE_RESPONSE

text \<open>What the loop reads of a message's attributes; \<open>at_type\<close> is \<open>None\<close> for an unknown number.\<close>

record uattributes =
  at_type :: "umessage_type option"
  at_source :: "uuri option"
  at_sink :: "uuri option"

text \<open>
  The receiving loop over what the protocol channel yields until it is closed: a status, or a message
  with or without attributes. It answers the calls of listeners, and \<open>None\<close> for a panicked thread.
\<close>

fun listen_loop ::
  "uuri_api \<Rightarrow> (listener_set \<Rightarrow> listener_set) \<Rightarrow> (ustatus + uattributes option) list \<Rightarrow> foo_client \<Rightarrow>
   (route_listener \<times> uattributes) list \<times> foo_client option" where
  "listen_loop U ord [] c = ([], Some c)"
| "listen_loop U ord (r # rs) c =
     (case r of
        Inl status \<Rightarrow> listen_loop U ord rs c
      | Inr None \<Rightarrow> listen_loop U ord rs c
      | Inr (Some attr) \<Rightarrow>
          (case (case at_type attr of None \<Rightarrow> UMESSAGE_TYPE_UNSPECIFIED | Some t \<Rightarrow> t) of
             UMESSAGE_TYPE_PUBLISH \<Rightarrow> ([], None)
           | UMESSAGE_TYPE_UNSPECIFIED \<Rightarrow> listen_loop U ord rs c
           | _ \<Rightarrow>
               (case process_message U ord (at_sink attr) (at_source attr) c of
                  (ls, None) \<Rightarrow> (map (\<lambda>l. (l, attr)) ls, None)
                | (ls, Some c') \<Rightarrow>
                    (let (calls, c'') = listen_loop U ord rs c'
                     in (map (\<lambda>l. (l, attr)) ls @ calls, c'')))))"

section \<open>UPClientFailingRegister\<close>

definition failing_register_listener :: "(ustatus, unit) result" where
  "failing_register_listener = Err (fail_with_code INVALID_ARGUMENT ''Failing to register listener'')"

definition failing_unregister_listener :: "(ustatus, unit) result" where
  "failing_unregister_listener = Ok ()"

definition failing_send :: "(ustatus, unit) result" where
  "failing_send = Ok ()"

section \<open>A world of these clients\<close>

text \<open>
  Transports with an entry in \<open>fw_clients\<close> are \<open>UPClientFoo\<close>s, all others are
  \<open>UPClientFailingRegister\<close>s. Of the other operations the world keeps what can be observed: the
  messages sent, the channels created and the workers started.
\<close>

record 'm foo_world =
  fw_clients :: "(arc_transport, foo_client) hashmap"
  fw_sent :: "(arc_transport \<times> 'm) list"
  fw_next_address :: nat
  fw_channels :: "nat list"
  fw_broadcast :: "(nat \<times> 'm) list"
  fw_next_uuid :: nat
  fw_in_runtime :: bool
  fw_tasks :: "(arc_transport \<times> nat) list"
  fw_threads :: "(string \<times> arc_transport \<times> nat) list"

definition on_client ::
  "arc_transport \<Rightarrow> (foo_client \<Rightarrow> 'r \<times> foo_client) \<Rightarrow> 'r \<Rightarrow> 'm foo_world \<Rightarrow> 'r \<times> 'm foo_world" where
  "on_client t f otherwise w =
     (case hm_get (fw_clients w) t of
        None \<Rightarrow> (otherwise, w)
      | Some c \<Rightarrow> (let (r, c') = f c in (r, w\<lparr>fw_clients := hm_insert t c' (fw_clients w)\<rparr>)))"

definition foo_addresses :: "foo_client \<Rightarrow> nat list" where
  "foo_addresses c =
     concat (map (\<lambda>(k, S). map fst S) (fc_listeners c)) @
     concat (map (\<lambda>(k, S). map fst S) (fc_authority_listeners c))"

definition fresh_address :: "'m foo_world \<Rightarrow> nat" where
  "fresh_address w =
     Suc (foldr max (concat (map (\<lambda>(t, c). foo_addresses c) (fw_clients w))) (fw_next_address w))"

definition foo_ext :: "uuri_api \<Rightarrow> ('m, 'm foo_world) ext" where
  "foo_ext U =
     \<lparr>ut_register = (\<lambda>t src snk l.
        on_client t (foo_register_listener U src snk l) failing_register_listener),
      ut_unregister = (\<lambda>t src snk l.
        on_client t (foo_unregister_listener U src snk l) failing_unregister_listener),
      ut_send = (\<lambda>t m w.
        (case hm_get (fw_clients w) t of
           None \<Rightarrow> (failing_send, w)
         | Some c \<Rightarrow>
             (foo_send c, if fc_open c then w\<lparr>fw_sent := fw_sent w @ [(t, m)]\<rparr> else w))),
      arc_new = (\<lambda>w. (fresh_address w, w\<lparr>fw_next_address := fresh_address w\<rparr>)),
      bc_channel = (\<lambda>n w. if n = 0 then None
        else Some (length (fw_channels w), w\<lparr>fw_channels := fw_channels w @ [n]\<rparr>)),
      bc_send = (\<lambda>c m w. (c < length (fw_channels w), w\<lparr>fw_broadcast := fw_broadcast w @ [(c, m)]\<rparr>)),
      uuid_build = (\<lambda>w. (replicate (fw_next_uuid w) CHR ''u'',
        w\<lparr>fw_next_uuid := fw_next_uuid w + 1\<rparr>)),
      in_runtime = fw_in_runtime,
      spawn_task = (\<lambda>t c w. w\<lparr>fw_tasks := fw_tasks w @ [(t, c)]\<rparr>),
      spawn_thread = (\<lambda>name t c w. (True, w\<lparr>fw_threads := fw_threads w @ [(name, t, c)]\<rparr>))\<rparr>"

section \<open>The clients fulfil the transport contract\<close>

text \<open>A registration is an authority or a source filter, with the address of a listener.\<close>

definition foo_has :: "foo_client \<Rightarrow> string + uuri \<Rightarrow> nat \<Rightarrow> bool" where
  "foo_has c k p =
     (case k of
        Inl a \<Rightarrow> hm_get (or_default (fc_authority_listeners c) a) p \<noteq> None
      | Inr src \<Rightarrow> hm_get (or_default (fc_listeners c) (src, None)) p \<noteq> None)"

definition foo_filter_key :: "uuri_api \<Rightarrow> uuri \<Rightarrow> uuri option \<Rightarrow> string + uuri" where
  "foo_filter_key U src snk =
     (case snk of Some sink \<Rightarrow> Inl (m_authority_name U sink) | None \<Rightarrow> Inr src)"

definition foo_supported :: "uuri_api \<Rightarrow> uuri \<Rightarrow> uuri option \<Rightarrow> bool" where
  "foo_supported U src snk =
     (case snk of Some sink \<Rightarrow> \<not> m_has_wildcard_authority U sink | None \<Rightarrow> True)"

definition foo_registrations :: "'m foo_world \<Rightarrow> (arc_transport \<times> (string + uuri) \<times> nat) set" where
  "foo_registrations w =
     {(t, k, p). \<exists>c. hm_get (fw_clients w) t = Some c \<and> foo_has c k p}"

lemma or_default_insert [simp]:
  "or_default (hm_insert k S m) j = (if j = k then S else or_default m j)"
  by (simp add: or_default_def)

lemma or_default_Some: "hm_get m k = Some S \<Longrightarrow> or_default m k = S"
  by (simp add: or_default_def)

lemma or_default_None: "hm_get m k = None \<Longrightarrow> or_default m k = []"
  by (simp add: or_default_def)

lemma listener_set_insert_cases:
  "listener_set_insert l S =
     (if hm_get S (lsn_ptr l) = None then (True, hm_insert (lsn_ptr l) l S) else (False, S))"
  by (simp add: listener_set_insert_def split: option.splits)

lemma listener_set_remove_cases:
  "listener_set_remove l S =
     (if hm_get S (lsn_ptr l) = None then (False, S) else (True, hm_remove (lsn_ptr l) S))"
  by (simp add: listener_set_remove_def split: option.splits)

lemmas foo_register_simps =
  foo_register_listener_def foo_filter_key_def foo_has_def listener_set_insert_cases Let_def

lemma foo_register_has:
  assumes "foo_register_listener U src snk l c = (r, c')"
  shows "foo_has c' k p \<longleftrightarrow>
     foo_has c k p \<or> is_ok r \<and> k = foo_filter_key U src snk \<and> p = lsn_ptr l"
    and "is_ok r \<longleftrightarrow> \<not> foo_has c (foo_filter_key U src snk) (lsn_ptr l)"
  using assms
  by (cases snk; cases k; auto simp: foo_register_simps split: if_splits)+

lemmas foo_unregister_simps =
  foo_unregister_listener_def foo_filter_key_def foo_has_def foo_supported_def
  listener_set_remove_cases Let_def

lemma foo_unregister_has:
  assumes "foo_unregister_listener U src snk l c = (r, c')" and "foo_supported U src snk"
  shows "foo_has c' k p \<longleftrightarrow>
     foo_has c k p \<and> \<not> (k = foo_filter_key U src snk \<and> p = lsn_ptr l)"
    and "is_ok r \<longleftrightarrow> foo_has c (foo_filter_key U src snk) (lsn_ptr l)"
  using assms
  by (cases snk; cases k;
      auto simp: foo_unregister_simps or_default_Some or_default_None
        split: if_splits option.splits)+

lemma foo_unregister_Err_has:
  assumes "foo_unregister_listener U src snk l c = (Inl e, c')"
  shows "foo_has c' k p \<longleftrightarrow> foo_has c k p"
  using assms
  by (cases snk; cases k;
      auto simp: foo_unregister_simps or_default_Some or_default_None
        split: if_splits option.splits)+

lemma foldr_max_ge: "x \<in> set xs \<Longrightarrow> x \<le> foldr max xs (n :: nat)"
  by (induction xs) auto

lemma or_default_address:
  assumes "hm_get (or_default m k) p = Some l"
  shows "p \<in> set (concat (map (\<lambda>(k, S). map fst S) m))"
proof -
  from assms obtain S where "hm_get m k = Some S" and "hm_get S p = Some l"
    by (auto simp: or_default_def split: option.splits)
  then have "(k, S) \<in> set m" and "(p, l) \<in> set S" by (auto dest: hm_get_in_set)
  then have "p \<in> set (map fst S)" by (metis fst_conv image_eqI list.set_map)
  with \<open>(k, S) \<in> set m\<close> show ?thesis by (auto intro!: bexI [of _ "(k, S)"])
qed

lemma foo_has_address:
  assumes "foo_has c k p"
  shows "p \<in> set (foo_addresses c)"
proof (cases k)
  case (Inl a)
  with assms obtain l where "hm_get (or_default (fc_authority_listeners c) a) p = Some l"
    by (auto simp: foo_has_def)
  then show ?thesis unfolding foo_addresses_def by (metis or_default_address Un_iff set_append)
next
  case (Inr src)
  with assms obtain l where "hm_get (or_default (fc_listeners c) (src, None)) p = Some l"
    by (auto simp: foo_has_def)
  then show ?thesis unfolding foo_addresses_def by (metis or_default_address Un_iff set_append)
qed

lemma fresh_address_not_registered:
  assumes "(t, k, p) \<in> foo_registrations w"
  shows "p < fresh_address w"
proof -
  from assms obtain c where "hm_get (fw_clients w) t = Some c" and "foo_has c k p"
    by (auto simp: foo_registrations_def)
  then have "p \<in> set (concat (map (\<lambda>(t, c). foo_addresses c) (fw_clients w)))"
    by (auto dest!: hm_get_in_set foo_has_address)
  then show ?thesis unfolding fresh_address_def by (meson foldr_max_ge le_imp_less_Suc)
qed

interpretation foo: transport_contract "foo_ext U" foo_registrations "foo_filter_key U"
  "foo_supported U"
proof unfold_locales
  fix t src snk l w u w'
  assume "ut_register (foo_ext U) t src snk l w = (Inr u, w')"
  then show "foo_registrations w' = insert (t, foo_filter_key U src snk, lsn_ptr l) (foo_registrations w)"
    by (auto simp: foo_ext_def on_client_def foo_registrations_def failing_register_listener_def
        foo_register_has split: option.splits prod.splits if_splits)
next
  fix t src snk l w e w'
  assume "ut_register (foo_ext U) t src snk l w = (Inl e, w')"
  then show "foo_registrations w' = foo_registrations w"
    by (auto simp: foo_ext_def on_client_def foo_registrations_def
        foo_register_has split: option.splits prod.splits if_splits)
next
  fix t src snk l w u w'
  assume "foo_supported U src snk" and "ut_unregister (foo_ext U) t src snk l w = (Inr u, w')"
  then show "foo_registrations w' = foo_registrations w - {(t, foo_filter_key U src snk, lsn_ptr l)}"
    by (auto simp: foo_ext_def on_client_def foo_registrations_def
        foo_unregister_has split: option.splits prod.splits if_splits)
next
  fix t src snk l w e w'
  assume "ut_unregister (foo_ext U) t src snk l w = (Inl e, w')"
  then show "foo_registrations w' = foo_registrations w"
    by (auto simp: foo_ext_def on_client_def foo_registrations_def failing_unregister_listener_def
        foo_unregister_Err_has split: option.splits prod.splits if_splits)
next
  fix t src snk and l :: route_listener and w :: "'m foo_world"
  assume "foo_supported U src snk" and "(t, foo_filter_key U src snk, lsn_ptr l) \<in> foo_registrations w"
  then show "is_ok (fst (ut_unregister (foo_ext U) t src snk l w))"
    by (auto simp: foo_ext_def on_client_def foo_registrations_def
        foo_unregister_has(2) split: option.splits prod.splits)
next
  fix src
  show "foo_supported U src None" by (simp add: foo_supported_def)
next
  fix w p w' t k q
  assume "arc_new (foo_ext U) w = (p, w')" and "(t, k, q) \<in> foo_registrations w"
  then show "q \<noteq> p" by (auto simp: foo_ext_def dest: fresh_address_not_registered)
qed (auto simp: foo_ext_def foo_registrations_def split: if_splits)

section \<open>The clients keep to the contract of dispatch loops\<close>

definition foo_loops :: "'m foo_world \<Rightarrow> (arc_transport \<times> nat) set" where
  "foo_loops w = set (fw_tasks w) \<union> snd ` set (fw_threads w)"

definition foo_channels :: "'m foo_world \<Rightarrow> nat set" where
  "foo_channels w = {..<length (fw_channels w)}"

lemma on_client_running:
  "on_client t f otherwise w = (r, w') \<Longrightarrow> foo_loops w' = foo_loops w \<and> foo_channels w' = foo_channels w"
  by (auto simp: on_client_def foo_loops_def foo_channels_def split: option.splits prod.splits)

interpretation foo_dispatch: dispatch_contract "foo_ext U" foo_registrations "foo_filter_key U"
  "foo_supported U" foo_loops foo_channels
  by unfold_locales
    (auto simp: foo_ext_def on_client_running foo_loops_def foo_channels_def split: if_splits
      dest: on_client_running [unfolded foo_loops_def foo_channels_def])

section \<open>What its listeners are told\<close>

datatype foo_call =
    Register_Listener uuri "uuri option" route_listener
  | Unregister_Listener uuri "uuri option" route_listener

fun foo_run :: "uuri_api \<Rightarrow> foo_call list \<Rightarrow> foo_client \<Rightarrow> foo_client" where
  "foo_run U [] c = c"
| "foo_run U (Register_Listener src snk l # calls) c =
     foo_run U calls (snd (foo_register_listener U src snk l c))"
| "foo_run U (Unregister_Listener src snk l # calls) c =
     foo_run U calls (snd (foo_unregister_listener U src snk l c))"

text \<open>Topic listeners are only ever stored under a key without a sink.\<close>

definition topic_keys_sinkless :: "foo_client \<Rightarrow> bool" where
  "topic_keys_sinkless c \<longleftrightarrow>
     (\<forall>src sink. hm_get (fc_listeners c) (src, Some sink) = None) \<and> fc_times_received c = 0"

lemma register_sinkless:
  "topic_keys_sinkless c \<Longrightarrow> topic_keys_sinkless (snd (foo_register_listener U src snk l c))"
  by (cases snk) (simp_all add: topic_keys_sinkless_def foo_register_listener_def Let_def
      split: prod.splits)

lemma unregister_sinkless:
  "topic_keys_sinkless c \<Longrightarrow> topic_keys_sinkless (snd (foo_unregister_listener U src snk l c))"
  by (cases snk) (simp_all add: topic_keys_sinkless_def foo_unregister_listener_def Let_def
      split: prod.splits option.splits)

lemma foo_run_sinkless: "topic_keys_sinkless c \<Longrightarrow> topic_keys_sinkless (foo_run U calls c)"
  by (induction U calls c rule: foo_run.induct)
    (simp_all add: register_sinkless unregister_sinkless)

lemma foo_new_sinkless: "topic_keys_sinkless (foo_new name)"
  by (simp add: topic_keys_sinkless_def foo_new_def)

text \<open>
  Whatever was registered and unregistered on a new \<open>UPClientFoo\<close>, a message with sink and source
  reaches the listeners of the sink's authority and nobody else, and the receive counter stays 0:
  topic listeners are stored without a sink but looked up with one.
\<close>

theorem foo_topic_listeners_never_called:
  "let c = foo_run U calls (foo_new name) in
     process_message U ord (Some sink) (Some source) c =
       (case hm_get (fc_authority_listeners c) (m_authority_name U sink) of
          None \<Rightarrow> [] | Some S \<Rightarrow> map snd (ord S), Some c) \<and>
     fc_times_received c = 0"
  using foo_run_sinkless [OF foo_new_sinkless, of U calls name]
  by (simp add: process_message_def topic_keys_sinkless_def Let_def)

text \<open>
  A listener registered on a new client under a sink filter with the wildcard authority cannot be
  unregistered with the same arguments: the client looks for it under the authority of the source
  filter, answers \<open>NOT_FOUND\<close> and keeps the registration.
\<close>

theorem foo_wildcard_sink_not_unregistered:
  assumes "uuri_api_ok U" and "authority_name sink = ''*''" and "authority_name src \<noteq> ''*''"
  shows "let c = snd (foo_register_listener U src (Some sink) l (foo_new name)) in
     \<exists>e. foo_unregister_listener U src (Some sink) l c = (Inl e, c) \<and> status_code e = NOT_FOUND \<and>
         foo_has c (foo_filter_key U src (Some sink)) (lsn_ptr l)"
  using assms
  by (simp add: foo_unregister_listener_def foo_register_simps uuri_api_simps [OF assms(1)]
      foo_new_def or_default_def)

definition any_uuri :: uuri where
  "any_uuri = \<lparr>authority_name = ''*'', ue_id = 0xFFFF, ue_version_major = 0xFF, resource_id = 0xFFFF\<rparr>"

definition local_uuri :: uuri where
  "local_uuri = \<lparr>authority_name = ''local'', ue_id = 0x5678, ue_version_major = 1, resource_id = 0x1234\<rparr>"

definition sample_listener :: route_listener where
  "sample_listener = \<lparr>lsn_ptr = 7, lsn_route_id = ''r'', lsn_sender = 0\<rparr>"

theorem foo_wildcard_sink_not_unregistered_witness:
  "let c = snd (foo_register_listener (sample_uuri_api []) local_uuri (Some any_uuri) sample_listener
                 (foo_new ''foo''))
   in \<exists>e. foo_unregister_listener (sample_uuri_api []) local_uuri (Some any_uuri) sample_listener c
         = (Inl e, c) \<and> status_code e = NOT_FOUND"
  using foo_wildcard_sink_not_unregistered
    [OF sample_uuri_api_ok [of "[]"], of any_uuri local_uuri sample_listener "''foo''"]
  by (auto simp: Let_def any_uuri_def local_uuri_def)

section \<open>A small world\<close>

definition foo_transport :: arc_transport where
  "foo_transport = \<lparr>arc_addr = 1, arc_vtable = 0\<rparr>"

definition failing_transport :: arc_transport where
  "failing_transport = \<lparr>arc_addr = 2, arc_vtable = 0\<rparr>"

definition foo_start :: "nat foo_world" where
  "foo_start = \<lparr>fw_clients = [(foo_transport, foo_new ''foo'')], fw_sent = [], fw_next_address = 10,
     fw_channels = [], fw_broadcast = [], fw_next_uuid = 0, fw_in_runtime = True, fw_tasks = [],
     fw_threads = []\<rparr>"

end
