(* ===== verification/Ingress_Registry.thy ===== *)
theory Ingress_Registry
  imports Up_Client_Foo
begin

text \<open>
  The ingress route registry (data_plane/ingress_registry.rs): one refcounted binding per transport,
  ingress authority and egress authority, with the listener and the filters it is registered under;
  and the cache of derived publish filters, keyed by authorities and snapshot version.

  The asynchronous methods take two locks around the calls to the transport. Their critical
  sections are definitions of their own here (\<open>bump_binding\<close>, \<open>commit_binding\<close>, \<open>release_binding\<close>),
  so that the interleaving of several callers can be stated over the same definitions.
\<close>

section \<open>Data\<close>

datatype ingress_route_registration_error =
    FailedToRegisterRequestRouteListener
  | FailedToRegisterPublishRouteListener uuri

text \<open>The parameters of the model in one record: the outside world, the URI API, iteration orders.\<close>

record ('m, 'w) env =
  e_ext :: "('m, 'w) ext"
  e_uri :: uuri_api
  e_cache_order :: cache_order
  e_filter_order :: "(uri_identity_key \<times> uuri) list \<Rightarrow> (uri_identity_key \<times> uuri) list"

definition env_ok :: "('m, 'w) env \<Rightarrow> bool" where
  "env_ok E \<longleftrightarrow> uuri_api_ok (e_uri E) \<and> cache_order_ok (e_cache_order E) \<and>
     order_ok (e_filter_order E)"

record ingress_binding_key =
  bk_transport :: transport_identity_key
  bk_ingress_authority :: string
  bk_egress_authority :: string

definition ingress_binding_key_new ::
  "arc_transport \<Rightarrow> string \<Rightarrow> string \<Rightarrow> ingress_binding_key" where
  "ingress_binding_key_new t ingress egress =
     \<lparr>bk_transport = transport_key_new t, bk_ingress_authority = ingress,
      bk_egress_authority = egress\<rparr>"

record ingress_binding =
  ib_ref_count :: nat
  ib_listener :: route_listener
  ib_registered_filters :: "listener_filter list"

record ingress_registry =
  ir_bindings :: "(ingress_binding_key, ingress_binding) hashmap"
  ir_publish_filter_cache :: "(publish_source_filter_cache_key, source_filter_lookup) hashmap"

definition ingress_registry_new :: ingress_registry where
  "ingress_registry_new = \<lparr>ir_bindings = [], ir_publish_filter_cache = []\<rparr>"

definition ingress_listener_new :: "nat \<Rightarrow> string \<Rightarrow> nat \<Rightarrow> route_listener" where
  "ingress_listener_new ptr route_id sender =
     \<lparr>lsn_ptr = ptr, lsn_route_id = route_id, lsn_sender = sender\<rparr>"

section \<open>Operations\<close>

definition derive_publish_filters_cached ::
  "('m, 'w) env \<Rightarrow> string \<Rightarrow> string \<Rightarrow> subscription_directory \<Rightarrow> ingress_registry \<Rightarrow>
   source_filter_lookup \<times> ingress_registry" where
  "derive_publish_filters_cached E ingress egress d reg =
     (let (version, subscribers) = lookup_route_subscribers_with_version d egress;
          cache_key = publish_cache_key ingress egress version
      in case hm_get (ir_publish_filter_cache reg) cache_key of
           Some cached \<Rightarrow> (cached, reg)
         | None \<Rightarrow>
             (let derived = derive_source_filters (e_uri E) (e_cache_order E) ingress egress
                              subscribers
              in (derived,
                  reg\<lparr>ir_publish_filter_cache :=
                        hm_or_insert cache_key derived (ir_publish_filter_cache reg)\<rparr>)))"

fun register_publish_listeners ::
  "('m, 'w) ext \<Rightarrow> arc_transport \<Rightarrow> route_listener \<Rightarrow> uuri list \<Rightarrow> listener_filter list \<Rightarrow> 'w \<Rightarrow>
   (ingress_route_registration_error, listener_filter list) result \<times> 'w" where
  "register_publish_listeners X t l [] rollback w = (Ok rollback, w)"
| "register_publish_listeners X t l (source_uri # us) rollback w =
     (case ut_register X t source_uri None l w of
        (Inl err, w1) \<Rightarrow>
          (Err (FailedToRegisterPublishRouteListener source_uri),
           unregister_filters X t rollback l w1)
      | (Inr _, w1) \<Rightarrow>
          register_publish_listeners X t l us (rollback @ [(source_uri, None)]) w1)"

text \<open>The first critical section of \<open>register_route\<close>: an existing binding is counted up.\<close>

definition bump_binding :: "ingress_binding_key \<Rightarrow> ingress_registry \<Rightarrow> ingress_registry option" where
  "bump_binding key reg =
     (case hm_get (ir_bindings reg) key of
        None \<Rightarrow> None
      | Some b \<Rightarrow>
          Some (reg\<lparr>ir_bindings :=
                  hm_insert key (b\<lparr>ib_ref_count := ib_ref_count b + 1\<rparr>) (ir_bindings reg)\<rparr>))"

text \<open>
  The second: a binding another caller has inserted meanwhile is counted up (\<open>False\<close>: the caller has
  to roll its own registrations back), otherwise the new binding is inserted.
\<close>

definition commit_binding ::
  "ingress_binding_key \<Rightarrow> route_listener \<Rightarrow> listener_filter list \<Rightarrow> ingress_registry \<Rightarrow>
   bool \<times> ingress_registry" where
  "commit_binding key l filters reg =
     (case bump_binding key reg of
        Some reg' \<Rightarrow> (False, reg')
      | None \<Rightarrow>
          (True,
           reg\<lparr>ir_bindings :=
             hm_insert key \<lparr>ib_ref_count = 1, ib_listener = l, ib_registered_filters = filters\<rparr>
               (ir_bindings reg)\<rparr>))"

text \<open>Between the two: the calls to the transport, with rollback when one fails.\<close>

definition register_listeners ::
  "('m, 'w) env \<Rightarrow> arc_transport \<Rightarrow> string \<Rightarrow> string \<Rightarrow> route_listener \<Rightarrow> subscription_directory \<Rightarrow>
   ingress_registry \<Rightarrow> 'w \<Rightarrow>
   (ingress_route_registration_error, listener_filter list) result \<times> ingress_registry \<times> 'w" where
  "register_listeners E t ingress egress l d reg w =
     (let X = e_ext E;
          request_source = authority_to_wildcard_filter ingress;
          request_sink = authority_to_wildcard_filter egress;
          rollback = [(request_source, Some request_sink)]
      in case ut_register X t request_source (Some request_sink) l w of
           (Inl err, w1) \<Rightarrow>
             (Err FailedToRegisterRequestRouteListener, reg, unregister_filters X t rollback l w1)
         | (Inr _, w1) \<Rightarrow>
             (let (filters, reg1) = derive_publish_filters_cached E ingress egress d reg;
                  (r, w2) = register_publish_listeners X t l
                              (map snd (e_filter_order E filters)) rollback w1
              in (r, reg1, w2)))"

definition register_route ::
  "('m, 'w) env \<Rightarrow> arc_transport \<Rightarrow> string \<Rightarrow> string \<Rightarrow> string \<Rightarrow> nat \<Rightarrow> subscription_directory \<Rightarrow>
   ingress_registry \<Rightarrow> 'w \<Rightarrow>
   (ingress_route_registration_error, route_listener option) result \<times> ingress_registry \<times> 'w" where
  "register_route E t ingress egress label sender d reg w =
     (let key = ingress_binding_key_new t ingress egress in
      case bump_binding key reg of
        Some reg1 \<Rightarrow> (Ok None, reg1, w)
      | None \<Rightarrow>
          (let (ptr, w1) = arc_new (e_ext E) w;
               l = ingress_listener_new ptr label sender
           in case register_listeners E t ingress egress l d reg w1 of
                (Inl e, reg1, w2) \<Rightarrow> (Err e, reg1, w2)
              | (Inr filters, reg1, w2) \<Rightarrow>
                  (case commit_binding key l filters reg1 of
                     (True, reg2) \<Rightarrow> (Ok (Some l), reg2, w2)
                   | (False, reg2) \<Rightarrow>
                       (Ok None, reg2, unregister_filters (e_ext E) t filters l w2))))"

text \<open>
  \<open>binding.ref_count -= 1\<close> panics when the count is 0 (\<open>None\<close> below). \<open>release_binding\<close> is the critical
  section of \<open>unregister_route\<close>: it answers the removed binding, if this was the last route.
\<close>

definition release_binding ::
  "ingress_binding_key \<Rightarrow> ingress_registry \<Rightarrow> (ingress_binding option \<times> ingress_registry) option" where
  "release_binding key reg =
     (case hm_get (ir_bindings reg) key of
        None \<Rightarrow> Some (None, reg)
      | Some b \<Rightarrow>
          if ib_ref_count b = 0 then None
          else if ib_ref_count b - 1 > 0 then
            Some (None, reg\<lparr>ir_bindings :=
                    hm_insert key (b\<lparr>ib_ref_count := ib_ref_count b - 1\<rparr>) (ir_bindings reg)\<rparr>)
          else
            Some (Some (b\<lparr>ib_ref_count := ib_ref_count b - 1\<rparr>),
                  reg\<lparr>ir_bindings := hm_remove key (ir_bindings reg)\<rparr>))"

definition unregister_route ::
  "('m, 'w) env \<Rightarrow> arc_transport \<Rightarrow> string \<Rightarrow> string \<Rightarrow> ingress_registry \<Rightarrow> 'w \<Rightarrow>
   (ingress_registry \<times> 'w) option" where
  "unregister_route E t ingress egress reg w =
     (case release_binding (ingress_binding_key_new t ingress egress) reg of
        None \<Rightarrow> None
      | Some (None, reg1) \<Rightarrow> Some (reg1, w)
      | Some (Some b, reg1) \<Rightarrow>
          Some (reg1, unregister_filters (e_ext E) t (ib_registered_filters b) (ib_listener b) w))"

section \<open>Basic facts\<close>

lemma binding_key_inj [simp]:
  "ingress_binding_key_new t a b = ingress_binding_key_new t' a' b' \<longleftrightarrow> t = t' \<and> a = a' \<and> b = b'"
  by (simp add: ingress_binding_key_new_def)

lemma binding_key_transport [simp]:
  "key_transport (bk_transport (ingress_binding_key_new t a b)) = t"
  by (simp add: ingress_binding_key_new_def transport_key_new_def)

lemma derive_cached_bindings [simp]:
  "ir_bindings (snd (derive_publish_filters_cached E a b d reg)) = ir_bindings reg"
  by (simp add: derive_publish_filters_cached_def Let_def split: prod.splits option.splits)

lemma register_listeners_bindings:
  "register_listeners E t a b l d reg w = (r, reg', w') \<Longrightarrow> ir_bindings reg' = ir_bindings reg"
  using derive_cached_bindings [of E a b d reg]
  by (cases "derive_publish_filters_cached E a b d reg")
     (auto simp: register_listeners_def Let_def split: prod.splits sum.splits)

text \<open>How often a key is counted: 0 without a binding.\<close>

definition binding_count :: "ingress_registry \<Rightarrow> ingress_binding_key \<Rightarrow> nat" where
  "binding_count reg key = (case hm_get (ir_bindings reg) key of None \<Rightarrow> 0 | Some b \<Rightarrow> ib_ref_count b)"

definition bindings_wf :: "ingress_registry \<Rightarrow> bool" where
  "bindings_wf reg \<longleftrightarrow> hm_wf (ir_bindings reg) \<and>
     (\<forall>k b. hm_get (ir_bindings reg) k = Some b \<longrightarrow> 0 < ib_ref_count b)"

lemma bindings_wf_new [simp]: "bindings_wf ingress_registry_new"
  by (simp add: bindings_wf_def ingress_registry_new_def)

lemma bindings_wf_pos: "bindings_wf reg \<Longrightarrow> hm_get (ir_bindings reg) k = Some b \<Longrightarrow> 0 < ib_ref_count b"
  by (simp add: bindings_wf_def)

lemma binding_count_zero_iff:
  "bindings_wf reg \<Longrightarrow> binding_count reg key = 0 \<longleftrightarrow> hm_get (ir_bindings reg) key = None"
  using bindings_wf_pos [of reg key] by (auto simp: binding_count_def split: option.splits)

lemma binding_count_cong: "ir_bindings reg' = ir_bindings reg \<Longrightarrow> binding_count reg' = binding_count reg"
  by (simp add: binding_count_def fun_eq_iff)

lemma bump_binding_Some:
  assumes "bump_binding key reg = Some reg'" and "bindings_wf reg"
  shows "bindings_wf reg'"
    and "binding_count reg' = (binding_count reg)(key := binding_count reg key + 1)"
  using assms
  by (auto simp: bump_binding_def bindings_wf_def binding_count_def fun_eq_iff
      split: option.splits if_splits)

lemma bump_binding_None: "bump_binding key reg = None \<longleftrightarrow> hm_get (ir_bindings reg) key = None"
  by (simp add: bump_binding_def split: option.splits)

lemma commit_binding_wf:
  assumes "bindings_wf reg"
  shows "bindings_wf (snd (commit_binding key l fs reg))"
    and "binding_count (snd (commit_binding key l fs reg))
         = (binding_count reg)(key := binding_count reg key + 1)"
proof -
  have "bindings_wf (snd (commit_binding key l fs reg)) \<and>
     binding_count (snd (commit_binding key l fs reg))
       = (binding_count reg)(key := binding_count reg key + 1)"
  proof (cases "bump_binding key reg")
    case None
    then have "hm_get (ir_bindings reg) key = None" by (simp add: bump_binding_None)
    with None assms show ?thesis
      by (auto simp: commit_binding_def bindings_wf_def binding_count_def fun_eq_iff
          split: if_splits)
  next
    case (Some reg')
    with bump_binding_Some [OF Some assms] show ?thesis by (simp add: commit_binding_def)
  qed
  then show "bindings_wf (snd (commit_binding key l fs reg))"
    and "binding_count (snd (commit_binding key l fs reg))
         = (binding_count reg)(key := binding_count reg key + 1)" by auto
qed

lemma release_binding_wf:
  assumes "bindings_wf reg"
  shows "\<exists>b reg'. release_binding key reg = Some (b, reg') \<and> bindings_wf reg' \<and>
     binding_count reg' = (binding_count reg)(key := binding_count reg key - 1)"
proof (cases "hm_get (ir_bindings reg) key")
  case None
  with assms show ?thesis by (simp add: release_binding_def binding_count_def fun_eq_iff)
next
  case (Some b)
  with assms have "0 < ib_ref_count b" by (rule bindings_wf_pos)
  with Some assms show ?thesis
    by (auto simp: release_binding_def bindings_wf_def binding_count_def fun_eq_iff
        split: if_splits)
qed

end
