(* ===== verification/Refcount.thy ===== *)
theory Refcount
  imports Streamer_Prelude
begin

text \<open>
  Reference counting as an interface: the egress pool counts the routes that use a transport, the
  ingress registry those that use a binding. Both acquire a key before it is used and release it
  afterwards; what holds of any sequence of these calls is proved once, in the locale \<open>refcounted\<close>.
\<close>

datatype 'k rc_call = Acquire 'k | Release 'k

text \<open>Running a sequence of calls; \<open>None\<close> as soon as one panics.\<close>

fun rc_run ::
  "('k \<Rightarrow> 's \<Rightarrow> 's option) \<Rightarrow> ('k \<Rightarrow> 's \<Rightarrow> 's option) \<Rightarrow> 'k rc_call list \<Rightarrow> 's \<Rightarrow> 's option" where
  "rc_run acquire release [] s = Some s"
| "rc_run acquire release (Acquire k # cs) s =
     (case acquire k s of None \<Rightarrow> None | Some s' \<Rightarrow> rc_run acquire release cs s')"
| "rc_run acquire release (Release k # cs) s =
     (case release k s of None \<Rightarrow> None | Some s' \<Rightarrow> rc_run acquire release cs s')"

text \<open>What the calls do to the count of one key: a release of a key that is not held does nothing.\<close>

fun rc_count :: "'k \<Rightarrow> 'k rc_call list \<Rightarrow> nat \<Rightarrow> nat" where
  "rc_count k [] n = n"
| "rc_count k (Acquire j # cs) n = rc_count k cs (if j = k then n + 1 else n)"
| "rc_count k (Release j # cs) n = rc_count k cs (if j = k then n - 1 else n)"

locale refcounted =
  fixes count :: "'s \<Rightarrow> 'k \<Rightarrow> nat"
    and acquire :: "'k \<Rightarrow> 's \<Rightarrow> 's option"
    and release :: "'k \<Rightarrow> 's \<Rightarrow> 's option"
    and inv :: "'s \<Rightarrow> bool"
  assumes acquire_inv: "inv s \<Longrightarrow> acquire k s = Some s' \<Longrightarrow> inv s'"
    and acquire_count: "inv s \<Longrightarrow> acquire k s = Some s' \<Longrightarrow> count s' = (count s)(k := count s k + 1)"
    and acquire_held: "inv s \<Longrightarrow> 0 < count s k \<Longrightarrow> acquire k s \<noteq> None"
    and release_total: "inv s \<Longrightarrow> release k s \<noteq> None"
    and release_inv: "inv s \<Longrightarrow> release k s = Some s' \<Longrightarrow> inv s'"
    and release_count: "inv s \<Longrightarrow> release k s = Some s' \<Longrightarrow> count s' = (count s)(k := count s k - 1)"
begin

lemma run_inv: "rc_run acquire release cs s = Some s' \<Longrightarrow> inv s \<Longrightarrow> inv s'"
proof (induction cs arbitrary: s)
  case Nil
  then show ?case by simp
next
  case (Cons c cs)
  then show ?case
    by (cases c) (auto split: option.splits dest: acquire_inv release_inv)
qed

lemma run_count:
  "rc_run acquire release cs s = Some s' \<Longrightarrow> inv s \<Longrightarrow> count s' k = rc_count k cs (count s k)"
proof (induction cs arbitrary: s)
  case Nil
  then show ?case by simp
next
  case (Cons c cs)
  show ?case
  proof (cases c)
    case (Acquire j)
    with Cons.prems obtain s1 where s1: "acquire j s = Some s1"
      and rest: "rc_run acquire release cs s1 = Some s'"
      by (auto split: option.splits)
    from Cons.IH [OF rest acquire_inv [OF Cons.prems(2) s1]]
    show ?thesis using acquire_count [OF Cons.prems(2) s1] Acquire by simp
  next
    case (Release j)
    with Cons.prems obtain s1 where s1: "release j s = Some s1"
      and rest: "rc_run acquire release cs s1 = Some s'"
      by (auto split: option.splits)
    from Cons.IH [OF rest release_inv [OF Cons.prems(2) s1]]
    show ?thesis using release_count [OF Cons.prems(2) s1] Release by simp
  qed
qed

text \<open>Acquiring a key and releasing it again leaves every count as it was.\<close>

lemma acquire_release:
  "inv s \<Longrightarrow> acquire k s = Some s1 \<Longrightarrow> release k s1 = Some s2 \<Longrightarrow> count s2 = count s"
  using acquire_inv [of s k s1] acquire_count [of s k s1] release_count [of s1 k s2]
  by (auto simp: fun_eq_iff)

end

end
