(* ===== verification/Ingress_Contract.thy ===== *)
theory Ingress_Contract
  imports Ingress_Registry Refcount
begin

text \<open>
  What the ingress registry promises on top of \<open>transport_contract\<close>: registering a route is all or
  nothing, a repeated registration only counts, the last release takes every listener back. The
  invariant \<open>registry_inv\<close> says that the transports hold exactly the foreign registrations and those
  of the bindings.
\<close>

section \<open>The filters of a route\<close>

definition request_filter :: "string \<Rightarrow> string \<Rightarrow> listener_filter" where
  "request_filter ingress egress =
     (authority_to_wildcard_filter ingress, Some (authority_to_wildcard_filter egress))"

definition publish_filters :: "uuri list \<Rightarrow> listener_filter list" where
  "publish_filters us = map (\<lambda>u. (u, None)) us"

definition derived_filters ::
  "('m, 'w) env \<Rightarrow> string \<Rightarrow> string \<Rightarrow> subscription_directory \<Rightarrow> source_filter_lookup" where
  "derived_filters E ingress egress d =
     derive_source_filters (e_uri E) (e_cache_order E) ingress egress
       (snd (lookup_route_subscribers_with_version d egress))"

text \<open>The filters a route is registered under when nothing is cached for it.\<close>

definition route_filters ::
  "('m, 'w) env \<Rightarrow> string \<Rightarrow> string \<Rightarrow> subscription_directory \<Rightarrow> listener_filter list" where
  "route_filters E ingress egress d =
     request_filter ingress egress #
     publish_filters (map snd (e_filter_order E (derived_filters E ingress egress d)))"

lemma publish_filters_simps [simp]:
  "publish_filters [] = []" "publish_filters (u # us) = (u, None) # publish_filters us"
  "publish_filters (us @ vs) = publish_filters us @ publish_filters vs"
  by (simp_all add: publish_filters_def)

section \<open>The publish-filter cache\<close>

text \<open>
  Coherence: what is cached for the current snapshot version is what would be derived now, and
  nothing is cached for a version still to come.
\<close>

definition cache_coherent ::
  "('m, 'w) env \<Rightarrow> subscription_directory \<Rightarrow> ingress_registry \<Rightarrow> bool" where
  "cache_coherent E d reg \<longleftrightarrow>
     (\<forall>a b v fs. hm_get (ir_publish_filter_cache reg) (publish_cache_key a b v) = Some fs \<longrightarrow>
        v < next_version d \<and>
        (v = snapshot_version (directory_snapshot d) \<longrightarrow> fs = derived_filters E a b d))"

lemma publish_cache_key_inj [simp]:
  "publish_cache_key a b v = publish_cache_key a' b' v' \<longleftrightarrow> a = a' \<and> b = b' \<and> v = v'"
  by (auto simp: publish_cache_key_def)

lemma cache_coherent_new: "cache_coherent E d ingress_registry_new"
  by (simp add: cache_coherent_def ingress_registry_new_def)

lemma cache_coherent_cong:
  "ir_publish_filter_cache reg' = ir_publish_filter_cache reg \<Longrightarrow>
     cache_coherent E d reg' = cache_coherent E d reg"
  by (simp add: cache_coherent_def)

text \<open>A directory's counter is ahead of its snapshot until it wraps.\<close>

definition version_ok :: "subscription_directory \<Rightarrow> bool" where
  "version_ok d \<longleftrightarrow> snapshot_version (directory_snapshot d) < next_version d"

lemma derive_cached_coherent:
  assumes "cache_coherent E d reg" and "version_ok d"
    and "derive_publish_filters_cached E a b d reg = (fs, reg')"
  shows "fs = derived_filters E a b d" and "cache_coherent E d reg'"
proof -
  let ?key = "publish_cache_key a b (snapshot_version (directory_snapshot d))"
  have "fs = derived_filters E a b d \<and> cache_coherent E d reg'"
  proof (cases "hm_get (ir_publish_filter_cache reg) ?key")
    case None
    with assms show ?thesis
      by (auto simp: derive_publish_filters_cached_def lookup_route_subscribers_with_version_def
          cache_coherent_def version_ok_def derived_filters_def Let_def split: if_splits)
  next
    case (Some fs')
    with assms show ?thesis
      by (auto simp: derive_publish_filters_cached_def lookup_route_subscribers_with_version_def
          cache_coherent_def Let_def)
  qed
  then show "fs = derived_filters E a b d" and "cache_coherent E d reg'" by auto
qed

text \<open>A refresh invalidates the cache by moving the version on, unless the counter wraps.\<close>

lemma apply_snapshot_coherent:
  assumes "cache_coherent E d reg" and "apply_snapshot U H snapshot d = (Inr x, d')"
    and "next_version d \<noteq> - 1"
  shows "cache_coherent E d' reg" and "version_ok d'"
proof -
  have less: "next_version d < next_version d + 1"
  proof -
    have "1 + next_version d \<noteq> 0"
      using assms(3) by (metis add.commute eq_neg_iff_add_eq_0)
    then have "unat (1 + next_version d) = Suc (unat (next_version d))" by (rule unatSuc)
    then show ?thesis by (simp add: word_less_nat_alt add.commute)
  qed
  have v: "snapshot_version (directory_snapshot d') = next_version d"
    "next_version d' = next_version d + 1"
    using apply_snapshot_version [OF assms(2)] by auto
  from assms(1) v less show "cache_coherent E d' reg"
    unfolding cache_coherent_def by (metis less_irrefl less_trans)
  from v less show "version_ok d'" by (simp add: version_ok_def)
qed

section \<open>What a transport refuses\<close>

text \<open>
  The first of a list of filters a transport refuses when a listener is registered under them one
  after the other, and the error that names it.
\<close>

fun first_refused ::
  "('m, 'w) ext \<Rightarrow> arc_transport \<Rightarrow> route_listener \<Rightarrow> listener_filter list \<Rightarrow> 'w \<Rightarrow>
   listener_filter option" where
  "first_refused X t l [] w = None"
| "first_refused X t l ((src, snk) # fs) w =
     (if is_ok (fst (ut_register X t src snk l w))
      then first_refused X t l fs (snd (ut_register X t src snk l w))
      else Some (src, snk))"

definition refusal_error :: "listener_filter \<Rightarrow> ingress_route_registration_error" where
  "refusal_error f =
     (case snd f of
        Some _ \<Rightarrow> FailedToRegisterRequestRouteListener
      | None \<Rightarrow> FailedToRegisterPublishRouteListener (fst f))"

lemma register_publish_listeners_outcome:
  "fst (register_publish_listeners X t l us rb w) =
     (case first_refused X t l (publish_filters us) w of
        None \<Rightarrow> Inr (rb @ publish_filters us)
      | Some f \<Rightarrow> Inl (refusal_error f))"
  by (induction us arbitrary: rb w)
    (auto simp: refusal_error_def split: prod.splits sum.splits option.splits)

lemma register_listeners_outcome:
  assumes "cache_coherent E d reg" and "version_ok d"
  shows "fst (register_listeners E t a b l d reg w) =
    (case first_refused (e_ext E) t l (route_filters E a b d) w of
       None \<Rightarrow> Inr (route_filters E a b d)
     | Some f \<Rightarrow> Inl (refusal_error f))"
proof -
  let ?src = "authority_to_wildcard_filter a" and ?snk = "Some (authority_to_wildcard_filter b)"
  have cached: "fst (derive_publish_filters_cached E a b d reg) = derived_filters E a b d"
    using derive_cached_coherent(1) [OF assms prod.collapse [symmetric], of a b] .
  obtain r w1 where reg1: "ut_register (e_ext E) t ?src ?snk l w = (r, w1)" by fastforce
  show ?thesis
  proof (cases r)
    case (Inl err)
    with reg1 show ?thesis
      by (simp add: register_listeners_def Let_def route_filters_def request_filter_def refusal_error_def)
  next
    case (Inr x)
    let ?fs = "map snd (e_filter_order E (derived_filters E a b d))"
    have "fst (register_listeners E t a b l d reg w)
        = fst (register_publish_listeners (e_ext E) t l ?fs [request_filter a b] w1)"
      using reg1 Inr cached
      by (simp add: register_listeners_def Let_def request_filter_def case_prod_beta)
    with reg1 Inr show ?thesis
      by (simp add: register_publish_listeners_outcome route_filters_def request_filter_def
          split: option.splits)
  qed
qed

section \<open>Registering and unregistering over the contract\<close>

context transport_contract
begin

lemma register_publish_listeners_Ok:
  "register_publish_listeners X t l us rb w = (Inr fs, w') \<Longrightarrow>
     fs = rb @ publish_filters us \<and>
     registrations w' = registrations w \<union> filter_entries filter_key t (publish_filters us) l"
proof (induction us arbitrary: rb w)
  case Nil
  then show ?case by simp
next
  case (Cons u us)
  obtain r w1 where reg: "ut_register X t u None l w = (r, w1)" by fastforce
  with Cons.prems obtain x where "r = Inr x"
    and rest: "register_publish_listeners X t l us (rb @ [(u, None)]) w1 = (Inr fs, w')"
    by (auto split: sum.splits)
  with reg have "registrations w1 = insert (t, filter_key u None, lsn_ptr l) (registrations w)"
    using register_Ok by blast
  with Cons.IH [OF rest] show ?case by auto
qed

text \<open>After a failure no registration of the listener is left.\<close>

lemma register_publish_listeners_Err:
  "register_publish_listeners X t l us rb w = (Inl e, w') \<Longrightarrow>
   all_supported supported rb \<Longrightarrow>
   (\<forall>t' k. (t', k, lsn_ptr l) \<in> registrations w \<longrightarrow>
      (t', k, lsn_ptr l) \<in> filter_entries filter_key t rb l) \<Longrightarrow>
   registrations w' = {r \<in> registrations w. snd (snd r) \<noteq> lsn_ptr l}"
proof (induction us arbitrary: rb w)
  case Nil
  then show ?case by simp
next
  case (Cons u us)
  obtain r w1 where reg: "ut_register X t u None l w = (r, w1)" by fastforce
  show ?case
  proof (cases r)
    case (Inl err)
    then have regs: "registrations w1 = registrations w" using reg register_Err by blast
    have "registrations w' = registrations w1 - filter_entries filter_key t rb l"
      using Cons.prems(1,2) reg Inl by (auto simp: unregister_filters_removes)
    with regs Cons.prems(3) show ?thesis
      by (auto dest: filter_entries_listener)
  next
    case (Inr x)
    then have regs: "registrations w1 = insert (t, filter_key u None, lsn_ptr l) (registrations w)"
      using reg register_Ok by blast
    have "registrations w' = {r \<in> registrations w1. snd (snd r) \<noteq> lsn_ptr l}"
    proof (rule Cons.IH)
      show "register_publish_listeners X t l us (rb @ [(u, None)]) w1 = (Inl e, w')"
        using Cons.prems(1) reg Inr by simp
      show "all_supported supported (rb @ [(u, None)])"
        using Cons.prems(2) supported_publish by simp
    qed (use Cons.prems(3) regs in auto)
    with regs show ?thesis by auto
  qed
qed

text \<open>A failed registration leaves nothing behind of a listener that was not registered before.\<close>

lemma register_listeners_Err:
  assumes res: "register_listeners E t a b l d reg w = (Inl e, reg', w')"
    and X: "e_ext E = X"
    and sup: "supported (fst (request_filter a b)) (snd (request_filter a b))"
    and fresh: "\<forall>t' k. (t', k, lsn_ptr l) \<notin> registrations w"
  shows "registrations w' = registrations w"
proof -
  let ?src = "authority_to_wildcard_filter a" and ?snk = "Some (authority_to_wildcard_filter b)"
  have sup': "supported ?src ?snk" using sup by (simp add: request_filter_def)
  obtain r w1 where reg1: "ut_register X t ?src ?snk l w = (r, w1)" by fastforce
  show ?thesis
  proof (cases r)
    case (Inl err)
    then have "registrations w1 = registrations w" using reg1 register_Err by blast
    moreover have "w' = unregister_filters X t [(?src, ?snk)] l w1"
      using res X reg1 Inl by (auto simp: register_listeners_def Let_def)
    ultimately show ?thesis
      using sup' fresh unregister_filters_removes [of "[(?src, ?snk)]" t l w1] by simp
  next
    case (Inr x)
    then have w1: "registrations w1 = insert (t, filter_key ?src ?snk, lsn_ptr l) (registrations w)"
      using reg1 register_Ok by blast
    obtain us where loop:
      "register_publish_listeners X t l us [(?src, ?snk)] w1 = (Inl e, w')"
      using res X reg1 Inr by (auto simp: register_listeners_def Let_def split: prod.splits)
    have "registrations w' = {q \<in> registrations w1. snd (snd q) \<noteq> lsn_ptr l}"
      using register_publish_listeners_Err [OF loop] sup' w1 fresh by auto
    with w1 fresh show ?thesis by auto
  qed
qed

text \<open>A successful one adds the listener under the filters it answers.\<close>

lemma register_listeners_Ok:
  assumes res: "register_listeners E t a b l d reg w = (Inr fs, reg', w')"
    and X: "e_ext E = X"
    and sup: "supported (fst (request_filter a b)) (snd (request_filter a b))"
  shows "registrations w' = registrations w \<union> filter_entries filter_key t fs l"
    and "fs = request_filter a b # publish_filters
          (map snd (e_filter_order E (fst (derive_publish_filters_cached E a b d reg))))"
    and "all_supported supported fs"
proof -
  let ?src = "authority_to_wildcard_filter a" and ?snk = "Some (authority_to_wildcard_filter b)"
  let ?us = "map snd (e_filter_order E (fst (derive_publish_filters_cached E a b d reg)))"
  obtain r w1 where reg1: "ut_register X t ?src ?snk l w = (r, w1)" by fastforce
  with res X obtain x where "r = Inr x"
    and loop: "register_publish_listeners X t l ?us [(?src, ?snk)] w1 = (Inr fs, w')"
    by (auto simp: register_listeners_def Let_def split: prod.splits sum.splits)
  with reg1 have "registrations w1 = insert (t, filter_key ?src ?snk, lsn_ptr l) (registrations w)"
    using register_Ok by blast
  with register_publish_listeners_Ok [OF loop]
  show fs: "fs = request_filter a b # publish_filters ?us"
    and "registrations w' = registrations w \<union> filter_entries filter_key t fs l"
    by (auto simp: request_filter_def)
  have "all_supported supported (publish_filters us)" for us
    by (simp add: all_supported_def publish_filters_def list_all_iff supported_publish)
  with sup show "all_supported supported fs"
    by (simp add: fs all_supported_def case_prod_beta)
qed

end

section \<open>The invariant\<close>

text \<open>The filters and the listener of every binding.\<close>

definition binding_view ::
  "ingress_registry \<Rightarrow> ingress_binding_key \<Rightarrow> (listener_filter list \<times> route_listener) option" where
  "binding_view reg key =
     map_option (\<lambda>b. (ib_registered_filters b, ib_listener b)) (hm_get (ir_bindings reg) key)"

lemma binding_view_new [simp]: "binding_view ingress_registry_new key = None"
  by (simp add: binding_view_def ingress_registry_new_def)

lemma binding_view_cong:
  "ir_bindings reg' = ir_bindings reg \<Longrightarrow> binding_view reg' = binding_view reg"
  by (simp add: binding_view_def fun_eq_iff)

lemma binding_view_None: "binding_view reg key = None \<longleftrightarrow> hm_get (ir_bindings reg) key = None"
  by (simp add: binding_view_def)

lemma bump_binding_view: "bump_binding key reg = Some reg' \<Longrightarrow> binding_view reg' = binding_view reg"
  by (auto simp: bump_binding_def binding_view_def fun_eq_iff split: option.splits)

lemma commit_binding_new:
  assumes "hm_get (ir_bindings reg) key = None"
  shows "fst (commit_binding key l fs reg)"
    and "binding_view (snd (commit_binding key l fs reg)) = (binding_view reg)(key \<mapsto> (fs, l))"
  using assms bump_binding_None [of key reg]
  by (auto simp: commit_binding_def binding_view_def fun_eq_iff)

lemma release_binding_view:
  assumes "release_binding key reg = Some (r, reg')"
  shows "r = None \<Longrightarrow> binding_view reg' = binding_view reg"
    and "r = Some b \<Longrightarrow> binding_view reg' = (binding_view reg)(key := None) \<and>
      binding_view reg key = Some (ib_registered_filters b, ib_listener b)"
  using assms
  by (auto simp: release_binding_def binding_view_def fun_eq_iff split: option.splits if_splits)

text \<open>What the bindings own, and the invariant that nothing else but \<open>R\<close> is registered.\<close>

type_synonym binding_views = "ingress_binding_key \<Rightarrow> (listener_filter list \<times> route_listener) option"

definition owned_registrations ::
  "(uuri \<Rightarrow> uuri option \<Rightarrow> 'k) \<Rightarrow> binding_views \<Rightarrow> (arc_transport \<times> 'k \<times> nat) set" where
  "owned_registrations fk v =
     {q. \<exists>key fs l. v key = Some (fs, l) \<and>
        q \<in> filter_entries fk (key_transport (bk_transport key)) fs l}"

text \<open>Every binding has its own listener, foreign to \<open>R\<close>, and filters that can be undone.\<close>

definition views_ok ::
  "(uuri \<Rightarrow> uuri option \<Rightarrow> bool) \<Rightarrow> (arc_transport \<times> 'k \<times> nat) set \<Rightarrow> binding_views \<Rightarrow> bool" where
  "views_ok supported R v \<longleftrightarrow>
     (\<forall>key fs l. v key = Some (fs, l) \<longrightarrow>
        all_supported supported fs \<and> fs \<noteq> [] \<and> (\<forall>q \<in> R. snd (snd q) \<noteq> lsn_ptr l)) \<and>
     (\<forall>key key' fs l fs' l'. v key = Some (fs, l) \<longrightarrow> v key' = Some (fs', l') \<longrightarrow>
        key \<noteq> key' \<longrightarrow> lsn_ptr l \<noteq> lsn_ptr l')"

definition registry_inv ::
  "('w \<Rightarrow> (arc_transport \<times> 'k \<times> nat) set) \<Rightarrow> (uuri \<Rightarrow> uuri option \<Rightarrow> 'k) \<Rightarrow>
   (uuri \<Rightarrow> uuri option \<Rightarrow> bool) \<Rightarrow> (arc_transport \<times> 'k \<times> nat) set \<Rightarrow> ingress_registry \<Rightarrow> 'w \<Rightarrow> bool"
where
  "registry_inv regs fk supported R reg w \<longleftrightarrow>
     bindings_wf reg \<and> views_ok supported R (binding_view reg) \<and>
     regs w = R \<union> owned_registrations fk (binding_view reg)"

lemma registry_inv_new: "registry_inv regs fk supported (regs w) ingress_registry_new w"
  by (simp add: registry_inv_def views_ok_def owned_registrations_def)

lemma registry_inv_cong:
  "ir_bindings reg' = ir_bindings reg \<Longrightarrow> regs w' = regs w \<Longrightarrow>
     registry_inv regs fk supported R reg' w' = registry_inv regs fk supported R reg w"
  by (simp add: registry_inv_def bindings_wf_def binding_view_cong [of reg' reg])

lemma bump_binding_inv:
  "bump_binding key reg = Some reg' \<Longrightarrow> registry_inv regs fk supported R reg w \<Longrightarrow>
     registry_inv regs fk supported R reg' w"
  by (simp add: registry_inv_def bump_binding_view bump_binding_Some(1))

lemma owned_insert:
  "v key = None \<Longrightarrow> owned_registrations fk (v(key \<mapsto> (fs, l))) =
     owned_registrations fk v \<union> filter_entries fk (key_transport (bk_transport key)) fs l"
  by (auto simp: owned_registrations_def split: if_splits; metis option.distinct(1))

lemma owned_remove:
  assumes "views_ok supported R v" and "v key = Some (fs, l)"
  shows "R \<union> owned_registrations fk (v(key := None)) =
     (R \<union> owned_registrations fk v) - filter_entries fk (key_transport (bk_transport key)) fs l"
proof (intro equalityI subsetI)
  fix q assume q: "q \<in> R \<union> owned_registrations fk (v(key := None))"
  then have "snd (snd q) \<noteq> lsn_ptr l"
  proof
    assume "q \<in> R"
    with assms show ?thesis by (auto simp: views_ok_def)
  next
    assume "q \<in> owned_registrations fk (v(key := None))"
    then obtain key' fs' l' where "key' \<noteq> key" and "v key' = Some (fs', l')"
      and "q \<in> filter_entries fk (key_transport (bk_transport key')) fs' l'"
      by (auto simp: owned_registrations_def split: if_splits)
    with assms show ?thesis unfolding views_ok_def
      by (metis filter_entries_listener prod.collapse)
  qed
  moreover have "q \<in> R \<union> owned_registrations fk v"
    using q by (auto simp: owned_registrations_def split: if_splits)
  ultimately show "q \<in> (R \<union> owned_registrations fk v)
      - filter_entries fk (key_transport (bk_transport key)) fs l"
    by (metis Diff_iff filter_entries_listener prod.collapse)
next
  fix q assume "q \<in> (R \<union> owned_registrations fk v)
      - filter_entries fk (key_transport (bk_transport key)) fs l"
  then show "q \<in> R \<union> owned_registrations fk (v(key := None))"
    using assms(2) unfolding owned_registrations_def
    by (auto split: if_splits) (metis option.inject prod.inject)
qed

lemma views_ok_remove: "views_ok supported R v \<Longrightarrow> views_ok supported R (v(key := None))"
  unfolding views_ok_def by (metis fun_upd_other fun_upd_same option.distinct(1))

text \<open>A listener whose address is registered nowhere can be added.\<close>

lemma views_ok_insert:
  assumes "views_ok supported R v" and "v key = None"
    and "all_supported supported fs" and "fs \<noteq> []"
    and fresh: "\<forall>t k. (t, k, lsn_ptr l) \<notin> R \<union> owned_registrations fk v"
  shows "views_ok supported R (v(key \<mapsto> (fs, l)))"
proof -
  have other: "lsn_ptr l' \<noteq> lsn_ptr l" if v: "v key' = Some (fs', l')" for key' fs' l'
  proof -
    from assms(1) v have "fs' \<noteq> []" by (auto simp: views_ok_def)
    then obtain src snk fs'' where "fs' = (src, snk) # fs''"
      by (metis list.exhaust prod.exhaust)
    with v have "(key_transport (bk_transport key'), fk src snk, lsn_ptr l') \<in> owned_registrations fk v"
      unfolding owned_registrations_def by (auto intro!: exI [of _ key'])
    with fresh show ?thesis by auto
  qed
  have "snd (snd q) \<noteq> lsn_ptr l" if "q \<in> R" for q
    using that fresh by (cases q) auto
  with assms other show ?thesis
    unfolding views_ok_def by (auto split: if_splits) (metis other)+
qed

section \<open>Bindings are reference counted\<close>

text \<open>The critical sections alone, whatever listener and filters a caller brings.\<close>

interpretation ingress: refcounted binding_count
  "\<lambda>key reg. Some (snd (commit_binding key l fs reg))"
  "\<lambda>key reg. map_option snd (release_binding key reg)" bindings_wf
proof unfold_locales
  fix reg key assume "bindings_wf reg"
  then show "map_option snd (release_binding key reg) \<noteq> None"
    using release_binding_wf [of reg key] by auto
next
  fix reg key reg'
  assume "bindings_wf reg" and "map_option snd (release_binding key reg) = Some reg'"
  with release_binding_wf [of reg key] show "bindings_wf reg'"
    and "binding_count reg' = (binding_count reg)(key := binding_count reg key - 1)"
    by auto
qed (auto simp: commit_binding_wf)

section \<open>The two operations keep the invariant\<close>

text \<open>How \<open>register_route\<close> ends when there is a binding already, and when there is none.\<close>

lemma register_route_existing:
  "bump_binding (ingress_binding_key_new t a b) reg = Some reg' \<Longrightarrow>
     register_route E t a b label sender d reg w = (Ok None, reg', w)"
  by (simp add: register_route_def Let_def)

lemma register_route_fresh:
  assumes "hm_get (ir_bindings reg) (ingress_binding_key_new t a b) = None"
    and "arc_new (e_ext E) w = (ptr, w1)"
    and "register_listeners E t a b (ingress_listener_new ptr label sender) d reg w1 = (r, reg1, w2)"
  shows "register_route E t a b label sender d reg w =
    (case r of
       Inl e \<Rightarrow> (Err e, reg1, w2)
     | Inr fs \<Rightarrow>
         (Ok (Some (ingress_listener_new ptr label sender)),
          snd (commit_binding (ingress_binding_key_new t a b)
                 (ingress_listener_new ptr label sender) fs reg1), w2))"
proof -
  have none: "bump_binding (ingress_binding_key_new t a b) reg = None"
    using assms(1) by (simp add: bump_binding_None)
  have none1: "hm_get (ir_bindings reg1) (ingress_binding_key_new t a b) = None"
    using assms(1) register_listeners_bindings [OF assms(3)] by simp
  have committed: "commit_binding (ingress_binding_key_new t a b) l fs reg1 =
      (True, snd (commit_binding (ingress_binding_key_new t a b) l fs reg1))" for l fs
    using commit_binding_new(1) [OF none1] by (simp add: prod_eq_iff)
  show ?thesis
  proof (cases r)
    case (Inl e)
    with assms(2,3) none show ?thesis by (simp add: register_route_def Let_def)
  next
    case (Inr fs)
    with assms(2,3) none show ?thesis
      by (simp add: register_route_def Let_def) (subst committed, simp)
  qed
qed

text \<open>The binding a new listener gets, and what is left of a binding that is released.\<close>

lemma register_route_new_binding:
  assumes "register_route E t a b label sender d reg w = (Inr (Some l), reg', w')"
    and "bindings_wf reg"
  shows "hm_get (ir_bindings reg) (ingress_binding_key_new t a b) = None"
    and "\<exists>fs. binding_view reg' = (binding_view reg)(ingress_binding_key_new t a b \<mapsto> (fs, l))"
    and "binding_count reg' = (binding_count reg)(ingress_binding_key_new t a b := 1)"
proof -
  let ?key = "ingress_binding_key_new t a b"
  show none: "hm_get (ir_bindings reg) ?key = None"
    using assms(1) by (cases "bump_binding ?key reg")
      (simp_all add: bump_binding_None register_route_existing)
  obtain ptr wa where arc: "arc_new (e_ext E) w = (ptr, wa)" by fastforce
  obtain q rega wb where lst: "register_listeners E t a b (ingress_listener_new ptr label sender)
      d reg wa = (q, rega, wb)"
    by (metis prod_cases3)
  from register_route_fresh [OF none arc lst] assms(1) obtain fs where
    reg': "reg' = snd (commit_binding ?key l fs rega)"
    by (cases q) auto
  note bind = register_listeners_bindings [OF lst]
  have nonea: "hm_get (ir_bindings rega) ?key = None" using none bind by simp
  have wfa: "bindings_wf rega" using assms(2) bind by (simp add: bindings_wf_def)
  show "\<exists>fs. binding_view reg' = (binding_view reg)(?key \<mapsto> (fs, l))"
    using commit_binding_new(2) [OF nonea] reg' binding_view_cong [OF bind] by auto
  show "binding_count reg' = (binding_count reg)(?key := 1)"
    using commit_binding_wf(2) [OF wfa, of ?key l fs] reg' binding_count_cong [OF bind]
      none by (simp add: binding_count_def)
qed

lemma unregister_route_view:
  assumes "unregister_route E t a b reg w = Some (reg', w')" and "bindings_wf reg"
    and "key = ingress_binding_key_new t a b"
  shows "binding_view reg' =
    (if binding_count reg key \<le> 1 then (binding_view reg)(key := None) else binding_view reg)"
  using assms
  by (auto simp: unregister_route_def release_binding_def binding_view_def binding_count_def
      fun_eq_iff split: option.splits if_splits prod.splits)

text \<open>The cache stays coherent, whatever the outcome.\<close>

lemma register_listeners_coherent:
  assumes "register_listeners E t a b l d reg w = (r, reg', w')"
    and "cache_coherent E d reg" and "version_ok d"
  shows "cache_coherent E d reg'"
proof -
  have "cache_coherent E d (snd (derive_publish_filters_cached E a b d reg))"
    using derive_cached_coherent(2) [OF assms(2,3) prod.collapse [symmetric]] .
  with assms show ?thesis
    by (cases "derive_publish_filters_cached E a b d reg")
      (auto simp: register_listeners_def Let_def split: prod.splits sum.splits)
qed

lemma bump_binding_cache:
  "bump_binding key reg = Some reg' \<Longrightarrow> ir_publish_filter_cache reg' = ir_publish_filter_cache reg"
  by (auto simp: bump_binding_def split: option.splits)

lemma commit_binding_cache:
  "ir_publish_filter_cache (snd (commit_binding key l fs reg)) = ir_publish_filter_cache reg"
  by (simp add: commit_binding_def bump_binding_cache split: option.splits)

lemma register_route_coherent:
  assumes res: "register_route E t a b label sender d reg w = (r, reg', w')"
    and "cache_coherent E d reg" and "version_ok d"
  shows "cache_coherent E d reg'"
proof (cases "bump_binding (ingress_binding_key_new t a b) reg")
  case (Some reg1)
  with res have "reg' = reg1" by (simp add: register_route_existing)
  with assms(2) bump_binding_cache [OF Some] show ?thesis by (simp add: cache_coherent_def)
next
  case None
  then have none: "hm_get (ir_bindings reg) (ingress_binding_key_new t a b) = None"
    by (simp add: bump_binding_None)
  obtain ptr w1 where arc: "arc_new (e_ext E) w = (ptr, w1)" by fastforce
  obtain q reg1 w2 where lst: "register_listeners E t a b (ingress_listener_new ptr label sender)
      d reg w1 = (q, reg1, w2)"
    by (metis prod_cases3)
  from register_listeners_coherent [OF lst assms(2,3)] register_route_fresh [OF none arc lst] res
  show ?thesis
    by (cases q) (auto simp: cache_coherent_def commit_binding_cache)
qed

lemma unregister_route_cache:
  "unregister_route E t a b reg w = Some (reg', w') \<Longrightarrow>
     ir_publish_filter_cache reg' = ir_publish_filter_cache reg"
  by (auto simp: unregister_route_def release_binding_def split: option.splits if_splits prod.splits)

text \<open>Binding counts after registering, whatever the outcome.\<close>

lemma register_route_count:
  assumes "register_route E t a b label sender d reg w = (r, reg', w')" and wf: "bindings_wf reg"
  shows "binding_count reg' = (if is_ok r then (binding_count reg)(ingress_binding_key_new t a b :=
     binding_count reg (ingress_binding_key_new t a b) + 1) else binding_count reg)"
    and "bindings_wf reg'"
    and "r = Inr None \<Longrightarrow> binding_view reg (ingress_binding_key_new t a b) \<noteq> None \<and>
      binding_view reg' = binding_view reg"
proof -
  let ?key = "ingress_binding_key_new t a b"
  have "binding_count reg' = (if is_ok r then (binding_count reg)(?key := binding_count reg ?key + 1)
      else binding_count reg) \<and> bindings_wf reg' \<and>
    (r = Inr None \<longrightarrow> binding_view reg ?key \<noteq> None \<and> binding_view reg' = binding_view reg)"
  proof (cases "bump_binding ?key reg")
    case (Some reg1)
    then have "binding_view reg ?key \<noteq> None"
      by (auto simp: bump_binding_def binding_view_def split: option.splits)
    moreover from Some assms(1) have "r = Inr None" and "reg' = reg1"
      by (simp_all add: register_route_existing)
    ultimately show ?thesis
      using bump_binding_Some [OF Some wf] bump_binding_view [OF Some] by simp
  next
    case None
    then have none: "hm_get (ir_bindings reg) ?key = None"
      by (simp add: bump_binding_None)
    obtain ptr w1 where arc: "arc_new (e_ext E) w = (ptr, w1)" by fastforce
    obtain q reg1 w2 where lst: "register_listeners E t a b (ingress_listener_new ptr label sender)
        d reg w1 = (q, reg1, w2)"
      by (metis prod_cases3)
    note bind = register_listeners_bindings [OF lst]
    have wf1: "bindings_wf reg1" using wf bind by (simp add: bindings_wf_def)
    from register_route_fresh [OF none arc lst] assms(1) show ?thesis
      using commit_binding_wf [OF wf1] binding_count_cong [OF bind] wf1
      by (cases q) auto
  qed
  then show "binding_count reg' = (if is_ok r then (binding_count reg)(?key := binding_count reg ?key + 1)
      else binding_count reg)" and "bindings_wf reg'"
    and "r = Inr None \<Longrightarrow> binding_view reg ?key \<noteq> None \<and> binding_view reg' = binding_view reg"
    by auto
qed

text \<open>Unregistering right after a successful registration restores every binding.\<close>

lemma unregister_route_count:
  assumes "unregister_route E t a b reg w = Some (reg', w')" and "bindings_wf reg"
    and "key = ingress_binding_key_new t a b"
  shows "binding_count reg' = (binding_count reg)(key := binding_count reg key - 1)"
  using release_binding_wf [OF assms(2), of key] assms(1,3)
  by (auto simp: unregister_route_def split: option.splits)

lemma register_unregister_view:
  assumes reg: "register_route E t a b label sender d reg w = (Inr x, reg1, w1)"
    and wf: "bindings_wf reg" and un: "unregister_route E t a b reg1 w1 = Some (reg2, w2)"
  shows "binding_view reg2 = binding_view reg" and "binding_count reg2 = binding_count reg"
proof -
  let ?key = "ingress_binding_key_new t a b"
  note count = register_route_count [OF reg wf]
  have "(binding_count reg ?key = 0 \<longrightarrow> binding_view reg ?key = None \<and>
       (\<exists>y. binding_view reg1 = (binding_view reg)(?key \<mapsto> y))) \<and>
    (0 < binding_count reg ?key \<longrightarrow> binding_view reg1 = binding_view reg)"
  proof (cases x)
    case None
    then have "binding_view reg ?key \<noteq> None" and "binding_view reg1 = binding_view reg"
      using count(3) by auto
    then show ?thesis using binding_count_zero_iff [OF wf, of ?key] by (auto simp: binding_view_None)
  next
    case (Some l)
    note new = register_route_new_binding [OF reg [unfolded Some] wf]
    then have "binding_count reg ?key = 0" by (simp add: binding_count_def)
    with new show ?thesis by (auto simp: binding_view_None)
  qed
  moreover note unregister_route_view [OF un count(2) refl] unregister_route_count [OF un count(2) refl]
  ultimately show "binding_view reg2 = binding_view reg" and "binding_count reg2 = binding_count reg"
    using count(1) by (auto simp: fun_eq_iff)
qed

context transport_contract
begin

lemma register_route_inv:
  assumes inv: "registry_inv registrations filter_key supported R reg w"
    and X: "e_ext E = X"
    and sup: "supported (fst (request_filter a b)) (snd (request_filter a b))"
    and res: "register_route E t a b label sender d reg w = (r, reg', w')"
  shows "registry_inv registrations filter_key supported R reg' w' \<and>
    (case r of
       Inl e \<Rightarrow> ir_bindings reg' = ir_bindings reg \<and> registrations w' = registrations w
     | Inr None \<Rightarrow> w' = w \<and> binding_view reg' = binding_view reg
     | Inr (Some l) \<Rightarrow> lsn_sender l = sender)"
proof (cases "bump_binding (ingress_binding_key_new t a b) reg")
  case (Some reg1)
  with res have "r = Inr None" "reg' = reg1" "w' = w"
    by (simp_all add: register_route_existing)
  with bump_binding_inv [OF Some inv] bump_binding_view [OF Some] show ?thesis by simp
next
  case None
  let ?key = "ingress_binding_key_new t a b"
  from None have none: "hm_get (ir_bindings reg) ?key = None" by (simp add: bump_binding_None)
  obtain ptr w1 where arc: "arc_new (e_ext E) w = (ptr, w1)" by fastforce
  let ?l = "ingress_listener_new ptr label sender"
  obtain q reg1 w2 where lst: "register_listeners E t a b ?l d reg w1 = (q, reg1, w2)"
    by (metis prod_cases3)
  note out = register_route_fresh [OF none arc lst]
  have w1: "registrations w1 = registrations w"
    and ptr: "\<forall>t' k. (t', k, lsn_ptr ?l) \<notin> registrations w1"
    using arc X arc_new_frame [of w ptr w1] arc_new_fresh [of w ptr w1]
    by (auto simp: ingress_listener_new_def)
  have bind: "ir_bindings reg1 = ir_bindings reg" by (rule register_listeners_bindings [OF lst])
  show ?thesis
  proof (cases q)
    case (Inl e)
    then have "registrations w2 = registrations w"
      using register_listeners_Err [OF _ X sup ptr] lst w1 by simp
    with res out Inl bind inv show ?thesis
      using registry_inv_cong [of reg1 reg registrations w2 w filter_key supported R] by auto
  next
    case (Inr fs)
    note ok = register_listeners_Ok [OF lst [unfolded Inr] X sup]
    have none1: "hm_get (ir_bindings reg1) ?key = None" using none bind by simp
    let ?reg2 = "snd (commit_binding ?key ?l fs reg1)"
    have view: "binding_view ?reg2 = (binding_view reg)(?key \<mapsto> (fs, ?l))"
      using commit_binding_new(2) [OF none1] binding_view_cong [OF bind] by simp
    have vnone: "binding_view reg ?key = None" using none by (simp add: binding_view_None)
    have regs: "registrations w = R \<union> owned_registrations filter_key (binding_view reg)"
      and vok: "views_ok supported R (binding_view reg)" and wf: "bindings_wf reg"
      using inv by (simp_all add: registry_inv_def)
    have "views_ok supported R (binding_view ?reg2)"
      unfolding view
      by (rule views_ok_insert [where fk = filter_key, OF vok vnone ok(3)])
        (use ok(2) ptr w1 regs in auto)
    moreover have "registrations w2 = R \<union> owned_registrations filter_key (binding_view ?reg2)"
      using ok(1) w1 regs unfolding view owned_insert [of "binding_view reg", OF vnone] by auto
    moreover have "bindings_wf ?reg2"
      using wf bind by (intro commit_binding_wf(1)) (simp add: bindings_wf_def)
    ultimately have "registry_inv registrations filter_key supported R ?reg2 w2"
      by (simp add: registry_inv_def)
    with res out Inr show ?thesis by (auto simp: ingress_listener_new_def)
  qed
qed

lemma unregister_route_inv:
  assumes inv: "registry_inv registrations filter_key supported R reg w" and X: "e_ext E = X"
  shows "\<exists>reg' w'. unregister_route E t a b reg w = Some (reg', w') \<and>
    registry_inv registrations filter_key supported R reg' w' \<and>
    binding_count reg' = (binding_count reg)
      (ingress_binding_key_new t a b := binding_count reg (ingress_binding_key_new t a b) - 1)"
proof -
  let ?key = "ingress_binding_key_new t a b"
  from inv have wf: "bindings_wf reg" and vok: "views_ok supported R (binding_view reg)"
    and regs: "registrations w = R \<union> owned_registrations filter_key (binding_view reg)"
    by (simp_all add: registry_inv_def)
  obtain r reg1 where rel: "release_binding ?key reg = Some (r, reg1)" and wf1: "bindings_wf reg1"
    and cnt: "binding_count reg1 = (binding_count reg)(?key := binding_count reg ?key - 1)"
    using release_binding_wf [OF wf] by blast
  show ?thesis
  proof (cases r)
    case None
    with rel wf1 cnt vok regs release_binding_view(1) [OF rel] show ?thesis
      by (simp add: unregister_route_def registry_inv_def)
  next
    case (Some bnd)
    let ?fs = "ib_registered_filters bnd" and ?l = "ib_listener bnd"
    have view: "binding_view reg1 = (binding_view reg)(?key := None)"
      and bnd: "binding_view reg ?key = Some (?fs, ?l)"
      using release_binding_view(2) [OF rel Some] by auto
    let ?w' = "unregister_filters X t ?fs ?l w"
    have "all_supported supported ?fs" using vok bnd by (auto simp: views_ok_def)
    then have "registrations ?w' = R \<union> owned_registrations filter_key (binding_view reg1)"
      using owned_remove [OF vok bnd, of filter_key]
      by (simp add: unregister_filters_removes regs view)
    with rel Some wf1 cnt vok view X show ?thesis
      by (simp add: unregister_route_def registry_inv_def views_ok_remove)
  qed
qed

end

text \<open>What comes of registering a route, in terms of the first filter its transport refuses.\<close>

lemma register_route_outcome:
  assumes "cache_coherent E d reg" and "version_ok d"
    and none: "hm_get (ir_bindings reg) (ingress_binding_key_new t a b) = None"
    and arc: "arc_new (e_ext E) w = (ptr, w1)"
    and res: "register_route E t a b label sender d reg w = (r, reg', w')"
  shows "r = (case first_refused (e_ext E) t (ingress_listener_new ptr label sender)
        (route_filters E a b d) w1 of
      None \<Rightarrow> Inr (Some (ingress_listener_new ptr label sender))
    | Some f \<Rightarrow> Inl (refusal_error f))"
proof -
  obtain q reg1 w2 where lst: "register_listeners E t a b (ingress_listener_new ptr label sender)
      d reg w1 = (q, reg1, w2)"
    by (metis prod_cases3)
  have "r = map_sum id (\<lambda>_. Some (ingress_listener_new ptr label sender)) q"
    using register_route_fresh [OF none arc lst] res by (cases q) auto
  moreover have "q = fst (register_listeners E t a b (ingress_listener_new ptr label sender) d reg w1)"
    using lst by simp
  ultimately show ?thesis
    using register_listeners_outcome [OF assms(1,2), of t a b "ingress_listener_new ptr label sender" w1]
    by (simp split: option.splits)
qed

context transport_contract
begin

lemma register_route_new:
  assumes coh: "cache_coherent E d reg" and ver: "version_ok d"
    and inv: "registry_inv registrations filter_key supported R reg w" and X: "e_ext E = X"
    and sup: "supported (fst (request_filter a b)) (snd (request_filter a b))"
    and none: "binding_view reg (ingress_binding_key_new t a b) = None"
    and arc: "arc_new X w = (ptr, w1)"
    and l: "l = ingress_listener_new ptr label sender"
    and res: "register_route E t a b label sender d reg w = (r, reg', w')"
  shows "case first_refused X t l (route_filters E a b d) w1 of
      None \<Rightarrow> r = Inr (Some l) \<and>
        registrations w' = registrations w \<union> filter_entries filter_key t (route_filters E a b d) l \<and>
        binding_view reg' = (binding_view reg)(ingress_binding_key_new t a b
          \<mapsto> (route_filters E a b d, l))
    | Some f \<Rightarrow> r = Inl (refusal_error f) \<and>
        ir_bindings reg' = ir_bindings reg \<and> registrations w' = registrations w"
proof -
  let ?key = "ingress_binding_key_new t a b"
  have none': "hm_get (ir_bindings reg) ?key = None" using none by (simp add: binding_view_None)
  note outcome = register_route_outcome [OF coh ver none' arc [folded X] res, folded l, unfolded X]
  obtain q reg1 w2 where lst: "register_listeners E t a b l d reg w1 = (q, reg1, w2)"
    by (metis prod_cases3)
  note fresh = register_route_fresh [OF none' arc [folded X] lst [unfolded l]]
  show ?thesis
  proof (cases "first_refused X t l (route_filters E a b d) w1")
    case (Some f)
    then have "r = Inl (refusal_error f)" using outcome by simp
    with Some register_route_inv [OF inv X sup res] show ?thesis by simp
  next
    case None
    then have r: "r = Inr (Some l)" using outcome by simp
    have q: "q = Inr (route_filters E a b d)"
      using register_listeners_outcome [OF coh ver, of t a b l w1] lst None X by simp
    have reg': "reg' = snd (commit_binding ?key l (route_filters E a b d) reg1)" and w': "w' = w2"
      using fresh res q l by auto
    have none1: "hm_get (ir_bindings reg1) ?key = None"
      using none' register_listeners_bindings [OF lst] by simp
    have "binding_view reg' = (binding_view reg)(?key \<mapsto> (route_filters E a b d, l))"
      using commit_binding_new(2) [OF none1] reg' binding_view_cong [OF register_listeners_bindings [OF lst]]
      by simp
    moreover have "registrations w' = registrations w \<union>
        filter_entries filter_key t (route_filters E a b d) l"
      using register_listeners_Ok(1) [OF lst [unfolded q] X sup] arc_new_frame [OF arc] w' by simp
    ultimately show ?thesis using None r by simp
  qed
qed

end

end
