(* ===== verification/Ingress_Properties.thy ===== *)
theory Ingress_Properties
  imports Ingress_Contract
begin

text \<open>
  The properties of the ingress registry, over any transport that fulfils \<open>transport_contract\<close>, with
  runs on a world of \<open>UPClientFoo\<close> clients as instances.
\<close>

section \<open>A concrete world\<close>

definition foo_env :: "(nat, nat foo_world) env" where
  "foo_env = \<lparr>e_ext = foo_ext (sample_uuri_api []), e_uri = sample_uuri_api [],
     e_cache_order = plain_order, e_filter_order = (\<lambda>xs. xs)\<rparr>"

definition foo_directory :: subscription_directory where
  "foo_directory = snd (apply_snapshot (sample_uuri_api []) plain_order [sample_row] directory_empty)"

definition foo_registered ::
  "(ingress_route_registration_error, route_listener option) result \<times> ingress_registry
   \<times> nat foo_world" where
  "foo_registered = register_route foo_env foo_transport ''a'' ''b'' ''r'' 0 foo_directory
     ingress_registry_new foo_start"

definition foo_registered_registry :: ingress_registry where
  "foo_registered_registry = fst (snd foo_registered)"

definition foo_registered_world :: "nat foo_world" where
  "foo_registered_world = snd (snd foo_registered)"

lemma foo_env_ok: "env_ok foo_env"
  by (simp add: env_ok_def foo_env_def sample_uuri_api_ok plain_order_ok)

lemma foo_contract:
  "transport_contract (e_ext foo_env) foo_registrations (foo_filter_key (sample_uuri_api []))
     (foo_supported (sample_uuri_api []))"
  using foo.transport_contract_axioms by (simp add: foo_env_def)

lemma foo_request_supported:
  "foo_supported (sample_uuri_api []) (fst (request_filter ''a'' ''b''))
     (snd (request_filter ''a'' ''b''))"
  by code_simp

lemma foo_registered_eq:
  "register_route foo_env foo_transport ''a'' ''b'' ''r'' 0 foo_directory
     ingress_registry_new foo_start = (fst foo_registered, foo_registered_registry, foo_registered_world)"
  by (simp add: foo_registered_def foo_registered_registry_def foo_registered_world_def)

lemma foo_registered_Ok:
  "fst foo_registered = Inr (Some \<lparr>lsn_ptr = 11, lsn_route_id = ''r'', lsn_sender = 0\<rparr>)"
  by code_simp

lemma foo_start_inv:
  "registry_inv foo_registrations (foo_filter_key (sample_uuri_api []))
     (foo_supported (sample_uuri_api [])) (foo_registrations foo_start) ingress_registry_new foo_start"
  by (rule registry_inv_new)

lemma foo_registered_count:
  "binding_count foo_registered_registry (ingress_binding_key_new foo_transport ''a'' ''b'') = 1"
  by code_simp

section \<open>Properties\<close>

text \<open>
  C8. Registering a route is all or nothing. A route that is bound already registers nothing. For
  another one the transport is asked for the route's filters one after the other: if it refuses none,
  the call succeeds, the new listener is registered under every one of them and the binding records
  them; if it refuses one, the error names the first it refused, no binding has changed and the
  registrations are those before the call. In every case the transports hold exactly the foreign
  registrations and those of the bindings.
\<close>

theorem register_route_all_or_nothing:
  assumes "transport_contract (e_ext E) regs fk supported"
    and "registry_inv regs fk supported R reg w"
    and "supported (fst (request_filter a b)) (snd (request_filter a b))"
    and "cache_coherent E d reg" and "version_ok d"
    and "register_route E t a b label sender d reg w = (r, reg', w')"
    and "arc_new (e_ext E) w = (ptr, w1)" and "l = ingress_listener_new ptr label sender"
  shows "registry_inv regs fk supported R reg' w' \<and>
    (if binding_view reg (ingress_binding_key_new t a b) \<noteq> None
     then r = Inr None \<and> w' = w \<and> binding_view reg' = binding_view reg
     else
       (case first_refused (e_ext E) t l (route_filters E a b d) w1 of
          None \<Rightarrow> r = Inr (Some l) \<and>
            regs w' = regs w \<union> filter_entries fk t (route_filters E a b d) l \<and>
            binding_view reg' = (binding_view reg)
              (ingress_binding_key_new t a b \<mapsto> (route_filters E a b d, l))
        | Some f \<Rightarrow> r = Inl (refusal_error f) \<and>
            ir_bindings reg' = ir_bindings reg \<and> regs w' = regs w))"
proof (cases "binding_view reg (ingress_binding_key_new t a b)")
  case None
  from transport_contract.register_route_new [OF assms(1,4,5,2) refl assms(3) None assms(7,8,6)]
    transport_contract.register_route_inv [OF assms(1,2) refl assms(3,6)] None
  show ?thesis by simp
next
  case (Some x)
  then obtain reg1 where bump: "bump_binding (ingress_binding_key_new t a b) reg = Some reg1"
    by (cases "bump_binding (ingress_binding_key_new t a b) reg")
      (auto simp: bump_binding_None binding_view_None [symmetric])
  with register_route_existing [OF bump, of E label sender d w] assms(6) bump_binding_view [OF bump]
  have "r = Inr None \<and> w' = w \<and> binding_view reg' = binding_view reg" by simp
  with transport_contract.register_route_inv [OF assms(1,2) refl assms(3,6)] Some
  show ?thesis by simp
qed

theorem register_route_all_or_nothing_witness:
  "foo_registrations foo_registered_world = foo_registrations foo_start \<union>
     filter_entries (foo_filter_key (sample_uuri_api [])) foo_transport
       (route_filters foo_env ''a'' ''b'' foo_directory) (ingress_listener_new 11 ''r'' 0) \<and>
   (let (r, reg', w') = register_route foo_env failing_transport ''a'' ''b'' ''r'' 0 foo_directory
         ingress_registry_new foo_start
    in r = Inl FailedToRegisterRequestRouteListener \<and>
      foo_registrations w' = foo_registrations foo_start)"
proof -
  obtain w1 where arc: "arc_new (e_ext foo_env) foo_start = (11, w1)"
    by (rule that [of "snd (arc_new (e_ext foo_env) foo_start)"]) (simp only: prod_eq_iff, code_simp)
  have version: "version_ok foo_directory" by code_simp
  obtain r reg' w' where res: "register_route foo_env failing_transport ''a'' ''b'' ''r'' 0
      foo_directory ingress_registry_new foo_start = (r, reg', w')"
    by (metis prod_cases3)
  have refused: "first_refused (e_ext foo_env) foo_transport (ingress_listener_new 11 ''r'' 0)
      (route_filters foo_env ''a'' ''b'' foo_directory) (snd (arc_new (e_ext foo_env) foo_start)) = None"
    "map_option refusal_error (first_refused (e_ext foo_env) failing_transport
      (ingress_listener_new 11 ''r'' 0) (route_filters foo_env ''a'' ''b'' foo_directory)
      (snd (arc_new (e_ext foo_env) foo_start))) = Some FailedToRegisterRequestRouteListener"
    by code_simp+
  note at = register_route_all_or_nothing [OF foo_contract foo_start_inv foo_request_supported
      cache_coherent_new version _ arc refl]
  show ?thesis
    using at [OF foo_registered_eq] at [OF res] refused res arc by auto
qed

text \<open>
  C9. A route that is not bound yet and is registered successfully has its listener registered under
  exactly the wildcard request filter and one filter for each topic the egress authority's
  subscribers can be sent from the ingress authority in the current snapshot, even when the filters
  come from the cache; and the cache stays coherent with the directory.
\<close>

theorem register_route_registers_filters:
  assumes "transport_contract (e_ext E) regs fk supported"
    and "supported (fst (request_filter a b)) (snd (request_filter a b))"
    and "cache_coherent E d reg" and "version_ok d"
    and "register_route E t a b label sender d reg w = (Inr (Some l), reg', w')"
  shows "regs w' = regs w \<union> filter_entries fk t (route_filters E a b d) l \<and>
     cache_coherent E d reg' \<and>
     binding_view reg' = (binding_view reg)
       (ingress_binding_key_new t a b \<mapsto> (route_filters E a b d, l))"
proof -
  let ?key = "ingress_binding_key_new t a b"
  have none: "hm_get (ir_bindings reg) ?key = None"
    using assms(5) by (cases "bump_binding ?key reg")
      (simp_all add: bump_binding_None register_route_existing)
  obtain ptr w1 where arc: "arc_new (e_ext E) w = (ptr, w1)" by fastforce
  obtain q reg1 w2 where lst: "register_listeners E t a b (ingress_listener_new ptr label sender)
      d reg w1 = (q, reg1, w2)"
    by (metis prod_cases3)
  from register_route_fresh [OF none arc lst] assms(5) obtain fs where q: "q = Inr fs"
    and l: "l = ingress_listener_new ptr label sender" and w': "w' = w2"
    and reg': "reg' = snd (commit_binding ?key l fs reg1)"
    by (cases q) auto
  note ok = transport_contract.register_listeners_Ok [OF assms(1) lst [unfolded q] refl assms(2)]
  have cached: "fst (derive_publish_filters_cached E a b d reg) = derived_filters E a b d"
    "cache_coherent E d (snd (derive_publish_filters_cached E a b d reg))"
    using derive_cached_coherent [OF assms(3,4) prod.collapse [symmetric], of a b] by auto
  have fs: "fs = route_filters E a b d"
    using ok(2) cached(1) by (simp add: route_filters_def)
  have regs1: "regs w1 = regs w"
    using transport_contract.arc_new_frame [OF assms(1) arc] .
  have none1: "hm_get (ir_bindings reg1) ?key = None"
    using none register_listeners_bindings [OF lst] by simp
  have "ir_publish_filter_cache reg1
      = ir_publish_filter_cache (snd (derive_publish_filters_cached E a b d reg))"
    using lst q by (auto simp: register_listeners_def Let_def split: prod.splits sum.splits)
  moreover have "ir_publish_filter_cache (snd (commit_binding ?key l fs reg1))
      = ir_publish_filter_cache reg1"
    by (auto simp: commit_binding_def bump_binding_def split: option.splits)
  ultimately have "cache_coherent E d reg'"
    using cached(2) reg' by (simp add: cache_coherent_def)
  moreover have "binding_view reg' = (binding_view reg)(?key \<mapsto> (fs, l))"
    using commit_binding_new(2) [OF none1] reg' binding_view_cong [OF register_listeners_bindings [OF lst]]
    by simp
  ultimately show ?thesis using ok(1) regs1 fs w' l by simp
qed

theorem register_route_registers_filters_witness:
  "foo_registrations foo_registered_world = foo_registrations foo_start \<union>
     filter_entries (foo_filter_key (sample_uuri_api [])) foo_transport
       (route_filters foo_env ''a'' ''b'' foo_directory)
       \<lparr>lsn_ptr = 11, lsn_route_id = ''r'', lsn_sender = 0\<rparr> \<and>
   length (route_filters foo_env ''a'' ''b'' foo_directory) = 2"
proof -
  have "version_ok foo_directory" by code_simp
  moreover have "length (route_filters foo_env ''a'' ''b'' foo_directory) = 2" by code_simp
  ultimately show ?thesis
    using register_route_registers_filters [OF foo_contract foo_request_supported
        cache_coherent_new _ foo_registered_eq [unfolded foo_registered_Ok]] by simp
qed

text \<open>
  C38. Unregistering a route never panics on the reference count. It counts the route's binding down by one and
  no other; the binding is gone when the last of its routes lets go, and otherwise all bindings keep their
  filters and listeners. Unless it is the last one, the transport is not called. The transports go on
  holding exactly the foreign registrations and those of the bindings.
\<close>

theorem unregister_route_counts_down:
  assumes "transport_contract (e_ext E) regs fk supported"
    and "registry_inv regs fk supported R reg w" and "key = ingress_binding_key_new t a b"
  shows "\<exists>reg' w'. unregister_route E t a b reg w = Some (reg', w') \<and>
    binding_count reg' = (binding_count reg)(key := binding_count reg key - 1) \<and>
    binding_view reg' =
      (if binding_count reg key \<le> 1 then (binding_view reg)(key := None) else binding_view reg) \<and>
    (binding_count reg key \<noteq> 1 \<longrightarrow> w' = w) \<and>
    regs w' = R \<union> owned_registrations fk (binding_view reg') \<and>
    registry_inv regs fk supported R reg' w'"
proof -
  obtain reg' w' where un: "unregister_route E t a b reg w = Some (reg', w')"
    and inv: "registry_inv regs fk supported R reg' w'"
    and cnt: "binding_count reg' = (binding_count reg)(key := binding_count reg key - 1)"
    using transport_contract.unregister_route_inv [OF assms(1,2) refl, of t a b] unfolding assms(3)
    by (elim exE conjE)
  have wf: "bindings_wf reg" using assms(2) by (simp add: registry_inv_def)
  note view = unregister_route_view [OF un wf assms(3)]
  have "w' = w" if "binding_count reg key \<noteq> 1"
    using that un unfolding assms(3)
    by (auto simp: unregister_route_def release_binding_def binding_count_def
        split: option.splits if_splits)
  moreover have "regs w' = R \<union> owned_registrations fk (binding_view reg')"
    using inv by (simp add: registry_inv_def)
  ultimately show ?thesis
    by (intro exI [of _ reg'] exI [of _ w'] conjI impI) (rule un cnt view inv | assumption | simp)+
qed

theorem unregister_route_counts_down_witness:
  "\<exists>reg' w'. unregister_route foo_env foo_transport ''a'' ''b'' foo_registered_registry foo_registered_world
       = Some (reg', w') \<and>
     binding_view reg' (ingress_binding_key_new foo_transport ''a'' ''b'') = None \<and>
     foo_registrations w' = foo_registrations foo_start \<union>
       owned_registrations (foo_filter_key (sample_uuri_api [])) (binding_view reg')"
proof -
  have inv: "registry_inv foo_registrations (foo_filter_key (sample_uuri_api []))
      (foo_supported (sample_uuri_api [])) (foo_registrations foo_start) foo_registered_registry foo_registered_world"
    using transport_contract.register_route_inv [OF foo_contract foo_start_inv refl foo_request_supported
        foo_registered_eq] by (rule conjunct1)
  from unregister_route_counts_down [OF foo_contract inv refl, of foo_transport "''a''" "''b''"]
  show ?thesis by (auto simp: foo_registered_count)
qed

text \<open>
  Registering a route that is not bound and unregistering it again is a round trip: the
  transports hold the registrations they held before, and every binding is as before.
\<close>

theorem register_unregister_roundtrip:
  assumes "transport_contract (e_ext E) regs fk supported"
    and "registry_inv regs fk supported R reg w"
    and "supported (fst (request_filter a b)) (snd (request_filter a b))"
    and "register_route E t a b label sender d reg w = (Inr (Some l), reg1, w1)"
    and "unregister_route E t a b reg1 w1 = Some (reg2, w2)"
  shows "regs w2 = regs w \<and> binding_view reg2 = binding_view reg \<and>
    binding_count reg2 = binding_count reg"
proof -
  let ?key = "ingress_binding_key_new t a b"
  have wf: "bindings_wf reg" and regs: "regs w = R \<union> owned_registrations fk (binding_view reg)"
    using assms(2) by (simp_all add: registry_inv_def)
  note new = register_route_new_binding [OF assms(4) wf]
  have inv1: "registry_inv regs fk supported R reg1 w1"
    using transport_contract.register_route_inv [OF assms(1,2) refl assms(3,4)] by simp
  then have wf1: "bindings_wf reg1" by (simp add: registry_inv_def)
  from transport_contract.unregister_route_inv [OF assms(1) inv1 refl, of t a b] assms(5)
  have inv2: "registry_inv regs fk supported R reg2 w2"
    and count: "binding_count reg2 = (binding_count reg1)(?key := binding_count reg1 ?key - 1)"
    by auto
  have "binding_count reg ?key = 0" and "binding_view reg ?key = None"
    using new(1) by (simp_all add: binding_count_def binding_view_None)
  then have "binding_count reg2 = binding_count reg" and view: "binding_view reg2 = binding_view reg"
    using unregister_route_view [OF assms(5) wf1 refl] count new(2,3) by (auto simp: fun_eq_iff)
  moreover have "regs w2 = regs w"
    using inv2 by (simp add: registry_inv_def view regs)
  ultimately show ?thesis by blast
qed

theorem register_unregister_roundtrip_witness:
  "\<exists>reg2 w2. unregister_route foo_env foo_transport ''a'' ''b'' foo_registered_registry
       foo_registered_world = Some (reg2, w2) \<and>
     foo_registrations w2 = foo_registrations foo_start"
proof -
  have "unregister_route foo_env foo_transport ''a'' ''b'' foo_registered_registry
      foo_registered_world \<noteq> None"
    by code_simp
  then obtain reg2 w2 where un: "unregister_route foo_env foo_transport ''a'' ''b''
      foo_registered_registry foo_registered_world = Some (reg2, w2)"
    by auto
  with register_unregister_roundtrip [OF foo_contract foo_start_inv foo_request_supported
      foo_registered_eq [unfolded foo_registered_Ok] un]
  show ?thesis by blast
qed

text \<open>
  A binding does not depend on the egress channel: registering a bound route again reports
  success without a new listener, whatever channel it is to feed, and the listener that is registered
  keeps sending to the channel of the route that came first.
\<close>

theorem bound_route_keeps_first_channel:
  assumes "binding_view reg (ingress_binding_key_new t a b) = Some (fs, l)"
  shows "\<exists>reg'. register_route E t a b label sender d reg w = (Inr None, reg', w) \<and>
    binding_view reg' (ingress_binding_key_new t a b) = Some (fs, l) \<and>
    binding_count reg' (ingress_binding_key_new t a b)
      = binding_count reg (ingress_binding_key_new t a b) + 1"
proof -
  let ?key = "ingress_binding_key_new t a b"
  from assms obtain bnd where "hm_get (ir_bindings reg) ?key = Some bnd"
    by (auto simp: binding_view_def)
  then obtain reg' where reg': "bump_binding ?key reg = Some reg'"
    and "binding_count reg' ?key = binding_count reg ?key + 1"
    by (simp add: bump_binding_def binding_count_def)
  with assms register_route_existing [OF reg', of E label sender d w] bump_binding_view [OF reg'] show ?thesis by auto
qed

theorem bound_route_keeps_first_channel_witness:
  "\<exists>reg' fs l. register_route foo_env foo_transport ''a'' ''b'' ''s'' 5 foo_directory
       foo_registered_registry foo_registered_world = (Inr None, reg', foo_registered_world) \<and>
     binding_view reg' (ingress_binding_key_new foo_transport ''a'' ''b'') = Some (fs, l) \<and>
     lsn_sender l = 0"
proof -
  have "\<exists>fs l. binding_view foo_registered_registry (ingress_binding_key_new foo_transport ''a'' ''b'')
      = Some (fs, l) \<and> lsn_sender l = 0"
  proof -
    have "map_option (lsn_sender o snd) (binding_view foo_registered_registry
        (ingress_binding_key_new foo_transport ''a'' ''b'')) = Some 0"
      by code_simp
    then show ?thesis by auto
  qed
  then obtain fs l where "binding_view foo_registered_registry
      (ingress_binding_key_new foo_transport ''a'' ''b'') = Some (fs, l)" and "lsn_sender l = 0"
    by blast
  with bound_route_keeps_first_channel [of foo_registered_registry foo_transport "''a''" "''b''" fs l
      foo_env "''s''" 5 foo_directory foo_registered_world]
  show ?thesis by blast
qed

text \<open>
  After a refresh, filters are never taken from an older snapshot: whatever is cached, deriving the
  publish filters of a route gives those of the snapshot just applied, as long as the version
  counter has not wrapped.
\<close>

theorem refresh_invalidates_filter_cache:
  assumes "cache_coherent E d reg" and "apply_snapshot U H snapshot d = (Inr (), d')"
    and "next_version d \<noteq> - 1"
  shows "fst (derive_publish_filters_cached E a b d' reg) = derived_filters E a b d' \<and>
    cache_coherent E d' (snd (derive_publish_filters_cached E a b d' reg))"
  using derive_cached_coherent [OF apply_snapshot_coherent [OF assms] prod.collapse [symmetric], of a b]
  by simp

theorem refresh_invalidates_filter_cache_witness:
  "fst (derive_publish_filters_cached foo_env ''a'' ''b''
      (snd (apply_snapshot (sample_uuri_api []) plain_order [] directory_empty)) ingress_registry_new) = []"
proof -
  let ?d = "snd (apply_snapshot (sample_uuri_api []) plain_order [] directory_empty)"
  have ok: "apply_snapshot (sample_uuri_api []) plain_order [] directory_empty = (Inr (), ?d)"
    using apply_snapshot_Ok_iff [of "sample_uuri_api []" plain_order "[]" directory_empty]
    by (cases "apply_snapshot (sample_uuri_api []) plain_order [] directory_empty")
      (auto simp: is_ok_def split: sum.splits)
  have "next_version directory_empty \<noteq> - 1" by code_simp
  moreover have "derived_filters foo_env ''a'' ''b'' ?d = []" by code_simp
  ultimately show ?thesis
    using refresh_invalidates_filter_cache [OF cache_coherent_new ok, of foo_env "''a''" "''b''"] by simp
qed

end
