(* ===== verification/Ingress_Interleaving.thy ===== *)
theory Ingress_Interleaving
  imports Ingress_Properties
begin

text \<open>
  Concurrent calls on one ingress registry. The registry's methods hold the lock of the bindings only
  in three critical sections (\<open>bump_binding\<close>, \<open>commit_binding\<close>, \<open>release_binding\<close>) and call the
  transport without it, so the calls of several tasks interleave: two tasks may find a route unbound
  and both register listeners for it, one of them has to take its own back.

  A task is where it is between two such points; one step of the system is a critical section or a
  call of the transport by one of the tasks.
\<close>

section \<open>Tasks and steps\<close>

text \<open>
  \<open>Calling\<close>: \<open>register_route\<close> on its way, with the filters registered so far and those to come.
  \<open>Undoing\<close>: the loop that unregisters filters, in \<open>rollback_registered_filters\<close> (the flag says that
  the route is counted nevertheless, for the loser of a race) or at the end of \<open>unregister_route\<close>.
  \<open>Holding\<close>: registered.
\<close>

datatype task =
    Idle
  | Calling ingress_binding_key route_listener "listener_filter list" "listener_filter list"
  | Undoing ingress_binding_key route_listener "listener_filter list" bool
  | Holding ingress_binding_key

record 'w concurrent =
  c_registry :: ingress_registry
  c_world :: 'w
  c_tasks :: "nat \<Rightarrow> task"

abbreviation key_arc :: "ingress_binding_key \<Rightarrow> arc_transport" where
  "key_arc key \<equiv> key_transport (bk_transport key)"

text \<open>The listeners alive in a state: those of the bindings and those of the tasks.\<close>

datatype holder = HBinding ingress_binding_key | HTask nat

text \<open>What a holder may have registered, and whether it has registered all of it.\<close>

type_synonym holding = "(arc_transport \<times> listener_filter list \<times> route_listener \<times> bool) option"

definition task_holding :: "task \<Rightarrow> holding" where
  "task_holding p =
     (case p of
        Calling key l registered todo \<Rightarrow> Some (key_arc key, registered, l, True)
      | Undoing key l rest counted \<Rightarrow> Some (key_arc key, rest, l, False)
      | _ \<Rightarrow> None)"

definition holdings_of :: "binding_views \<Rightarrow> (nat \<Rightarrow> task) \<Rightarrow> holder \<Rightarrow> holding" where
  "holdings_of v f h =
     (case h of
        HBinding key \<Rightarrow> map_option (\<lambda>(fs, l). (key_arc key, fs, l, True)) (v key)
      | HTask i \<Rightarrow> task_holding (f i))"

definition holdings :: "'w concurrent \<Rightarrow> holder \<Rightarrow> holding" where
  "holdings s = holdings_of (binding_view (c_registry s)) (c_tasks s)"

definition listener_alive :: "'w concurrent \<Rightarrow> nat \<Rightarrow> bool" where
  "listener_alive s p \<longleftrightarrow> (\<exists>h t fs l e. holdings s h = Some (t, fs, l, e) \<and> lsn_ptr l = p)"

text \<open>
  The steps. \<open>allowed\<close> says which routes are ever registered. The publish filters come from the
  directory or the cache at some point of the call; here they may be any. The address of a new
  listener is that of no listener alive.
\<close>

inductive cstep ::
  "('m, 'w) ext \<Rightarrow> (ingress_binding_key \<Rightarrow> bool) \<Rightarrow> 'w concurrent \<Rightarrow> 'w concurrent \<Rightarrow> bool"
  for X :: "('m, 'w) ext" and allowed where
  join: "c_tasks s i = Idle \<Longrightarrow> bump_binding key (c_registry s) = Some reg' \<Longrightarrow>
    cstep X allowed s (s\<lparr>c_registry := reg', c_tasks := (c_tasks s)(i := Holding key)\<rparr>)"
| start: "c_tasks s i = Idle \<Longrightarrow> key = ingress_binding_key_new t a b \<Longrightarrow> allowed key \<Longrightarrow>
    bump_binding key (c_registry s) = None \<Longrightarrow>
    arc_new X (c_world s) = (p, w') \<Longrightarrow> \<not> listener_alive s p \<Longrightarrow>
    cstep X allowed s (s\<lparr>c_world := w', c_tasks := (c_tasks s)(i :=
      Calling key (ingress_listener_new p label sender) [] (request_filter a b # publish_filters us))\<rparr>)"
| call_ok: "c_tasks s i = Calling key l registered ((src, snk) # todo) \<Longrightarrow>
    ut_register X (key_arc key) src snk l (c_world s) = (Inr u, w') \<Longrightarrow>
    cstep X allowed s (s\<lparr>c_world := w', c_tasks := (c_tasks s)(i :=
      Calling key l (registered @ [(src, snk)]) todo)\<rparr>)"
| call_err: "c_tasks s i = Calling key l registered ((src, snk) # todo) \<Longrightarrow>
    ut_register X (key_arc key) src snk l (c_world s) = (Inl e, w') \<Longrightarrow>
    cstep X allowed s (s\<lparr>c_world := w', c_tasks := (c_tasks s)(i :=
      Undoing key l (if registered = [] then [(src, snk)] else registered) False)\<rparr>)"
| commit: "c_tasks s i = Calling key l registered [] \<Longrightarrow>
    commit_binding key l registered (c_registry s) = (True, reg') \<Longrightarrow>
    cstep X allowed s (s\<lparr>c_registry := reg', c_tasks := (c_tasks s)(i := Holding key)\<rparr>)"
| lose: "c_tasks s i = Calling key l registered [] \<Longrightarrow>
    commit_binding key l registered (c_registry s) = (False, reg') \<Longrightarrow>
    cstep X allowed s (s\<lparr>c_registry := reg', c_tasks := (c_tasks s)(i :=
      Undoing key l registered True)\<rparr>)"
| undo: "c_tasks s i = Undoing key l ((src, snk) # rest) counted \<Longrightarrow>
    ut_unregister X (key_arc key) src snk l (c_world s) = (r, w') \<Longrightarrow>
    cstep X allowed s (s\<lparr>c_world := w', c_tasks := (c_tasks s)(i := Undoing key l rest counted)\<rparr>)"
| undone: "c_tasks s i = Undoing key l [] counted \<Longrightarrow>
    cstep X allowed s (s\<lparr>c_tasks := (c_tasks s)(i := if counted then Holding key else Idle)\<rparr>)"
| leave: "c_tasks s i = Holding key \<Longrightarrow> release_binding key (c_registry s) = Some (None, reg') \<Longrightarrow>
    cstep X allowed s (s\<lparr>c_registry := reg', c_tasks := (c_tasks s)(i := Idle)\<rparr>)"
| leave_last: "c_tasks s i = Holding key \<Longrightarrow>
    release_binding key (c_registry s) = Some (Some bnd, reg') \<Longrightarrow>
    cstep X allowed s (s\<lparr>c_registry := reg', c_tasks := (c_tasks s)(i :=
      Undoing key (ib_listener bnd) (ib_registered_filters bnd) False)\<rparr>)"

inductive reachable ::
  "('m, 'w) ext \<Rightarrow> (ingress_binding_key \<Rightarrow> bool) \<Rightarrow> 'w \<Rightarrow> 'w concurrent \<Rightarrow> bool"
  for X :: "('m, 'w) ext" and allowed w where
  init: "reachable X allowed w
    \<lparr>c_registry = ingress_registry_new, c_world = w, c_tasks = (\<lambda>i. Idle)\<rparr>"
| step: "reachable X allowed w s \<Longrightarrow> cstep X allowed s s' \<Longrightarrow> reachable X allowed w s'"

section \<open>Registrations and their holders\<close>

definition holders_inv ::
  "(uuri \<Rightarrow> uuri option \<Rightarrow> 'k) \<Rightarrow> (uuri \<Rightarrow> uuri option \<Rightarrow> bool) \<Rightarrow>
   (arc_transport \<times> 'k \<times> nat) set \<Rightarrow> (arc_transport \<times> 'k \<times> nat) set \<Rightarrow> (holder \<Rightarrow> holding) \<Rightarrow> bool" where
  "holders_inv fk supported R regs H \<longleftrightarrow>
     (\<forall>h t fs l e. H h = Some (t, fs, l, e) \<longrightarrow>
        all_supported supported fs \<and> (\<forall>q \<in> R. snd (snd q) \<noteq> lsn_ptr l) \<and>
        (e \<longrightarrow> filter_entries fk t fs l \<subseteq> regs)) \<and>
     (\<forall>h h' t fs l e t' fs' l' e'. H h = Some (t, fs, l, e) \<longrightarrow> H h' = Some (t', fs', l', e') \<longrightarrow>
        h \<noteq> h' \<longrightarrow> lsn_ptr l \<noteq> lsn_ptr l') \<and>
     R \<subseteq> regs \<and>
     (\<forall>q \<in> regs. q \<in> R \<or> (\<exists>h t fs l e. H h = Some (t, fs, l, e) \<and> q \<in> filter_entries fk t fs l))"

lemma holders_inv_distinct:
  "holders_inv fk supported R regs H \<Longrightarrow> H h = Some (t, fs, l, e) \<Longrightarrow> H h' = Some (t', fs', l', e') \<Longrightarrow>
     h \<noteq> h' \<Longrightarrow> lsn_ptr l \<noteq> lsn_ptr l'"
  unfolding holders_inv_def by metis

lemma holders_inv_cover:
  "holders_inv fk supported R regs H \<Longrightarrow> q \<in> regs \<Longrightarrow>
     q \<in> R \<or> (\<exists>h t fs l e. H h = Some (t, fs, l, e) \<and> q \<in> filter_entries fk t fs l)"
  unfolding holders_inv_def by metis

text \<open>What is registered of a holder's listener is what the holder may hold.\<close>

lemma holders_inv_own:
  assumes inv: "holders_inv fk supported R regs H" and here: "H h = Some (t, fs, l, e)"
    and q: "q \<in> regs" and p: "snd (snd q) = lsn_ptr l"
  shows "q \<in> filter_entries fk t fs l"
proof -
  have "q \<notin> R" using inv here p unfolding holders_inv_def by blast
  with holders_inv_cover [OF inv q] obtain h' t' fs' l' e' where
    h': "H h' = Some (t', fs', l', e')" and q': "q \<in> filter_entries fk t' fs' l'" by blast
  from q' p have "lsn_ptr l' = lsn_ptr l" by (auto simp: filter_entries_def)
  with holders_inv_distinct [OF inv h' here] have "h' = h" by blast
  with h' here q' show ?thesis by simp
qed

lemma holders_inv_supported:
  "holders_inv fk supported R regs H \<Longrightarrow> H h = Some (t, fs, l, e) \<Longrightarrow> all_supported supported fs"
  unfolding holders_inv_def by blast

lemma holders_inv_exact:
  "holders_inv fk supported R regs H \<Longrightarrow> H h = Some (t, fs, l, True) \<Longrightarrow>
     filter_entries fk t fs l \<subseteq> regs"
  unfolding holders_inv_def by blast

lemma holders_inv_add:
  assumes "holders_inv fk supported R regs H" and "H h = None"
    and "\<forall>q \<in> regs. snd (snd q) \<noteq> lsn_ptr l"
    and "\<forall>h' t fs l' e. H h' = Some (t, fs, l', e) \<longrightarrow> lsn_ptr l' \<noteq> lsn_ptr l"
  shows "holders_inv fk supported R regs (H(h := Some (t, [], l, e)))"
  unfolding holders_inv_def
proof (intro conjI)
  show "R \<subseteq> regs" using assms(1) by (simp add: holders_inv_def)
  then show "\<forall>h' t' fs l' e'. (H(h := Some (t, [], l, e))) h' = Some (t', fs, l', e') \<longrightarrow>
      all_supported supported fs \<and> (\<forall>q \<in> R. snd (snd q) \<noteq> lsn_ptr l') \<and>
      (e' \<longrightarrow> filter_entries fk t' fs l' \<subseteq> regs)"
    using assms(1,3) unfolding holders_inv_def by (auto split: if_splits)
  show "\<forall>h1 h2 t1 fs1 l1 e1 t2 fs2 l2 e2. (H(h := Some (t, [], l, e))) h1 = Some (t1, fs1, l1, e1) \<longrightarrow>
      (H(h := Some (t, [], l, e))) h2 = Some (t2, fs2, l2, e2) \<longrightarrow> h1 \<noteq> h2 \<longrightarrow>
      lsn_ptr l1 \<noteq> lsn_ptr l2"
    using assms(1,4) unfolding holders_inv_def by (auto split: if_splits) metis+
  show "\<forall>q \<in> regs. q \<in> R \<or> (\<exists>h' t' fs l' e'. (H(h := Some (t, [], l, e))) h' = Some (t', fs, l', e') \<and>
      q \<in> filter_entries fk t' fs l')"
    using assms(1,2) unfolding holders_inv_def by (metis fun_upd_other option.distinct(1))
qed

text \<open>A holder changes what it may hold of its listener; other listeners are not concerned.\<close>

lemma holders_inv_update:
  assumes inv: "holders_inv fk supported R regs H" and h: "H h = Some (t, fs, l, e)"
    and sup: "all_supported supported fs'"
    and exact: "e' \<longrightarrow> filter_entries fk t fs' l \<subseteq> regs'"
    and others: "\<forall>q. snd (snd q) \<noteq> lsn_ptr l \<longrightarrow> (q \<in> regs' \<longleftrightarrow> q \<in> regs)"
    and own: "\<forall>q \<in> regs'. snd (snd q) = lsn_ptr l \<longrightarrow> q \<in> filter_entries fk t fs' l"
  shows "holders_inv fk supported R regs' (H(h := Some (t, fs', l, e')))"
  unfolding holders_inv_def
proof (intro conjI)
  let ?H = "H(h := Some (t, fs', l, e'))"
  have R: "\<forall>q \<in> R. snd (snd q) \<noteq> lsn_ptr l" using inv h by (simp add: holders_inv_def)
  have "R \<subseteq> regs" using inv by (simp add: holders_inv_def)
  with R others show "R \<subseteq> regs'" by blast
  show "\<forall>h' t' fs l' e'. ?H h' = Some (t', fs, l', e') \<longrightarrow>
      all_supported supported fs \<and> (\<forall>q \<in> R. snd (snd q) \<noteq> lsn_ptr l') \<and>
      (e' \<longrightarrow> filter_entries fk t' fs l' \<subseteq> regs')"
  proof (intro allI impI)
    fix h' t' fs0 l' e0 assume h': "?H h' = Some (t', fs0, l', e0)"
    show "all_supported supported fs0 \<and> (\<forall>q \<in> R. snd (snd q) \<noteq> lsn_ptr l') \<and>
      (e0 \<longrightarrow> filter_entries fk t' fs0 l' \<subseteq> regs')"
    proof (cases "h' = h")
      case True
      with h' R sup exact show ?thesis by auto
    next
      case False
      with h' have old: "H h' = Some (t', fs0, l', e0)" by simp
      with inv h False have ne: "lsn_ptr l' \<noteq> lsn_ptr l" unfolding holders_inv_def by metis
      have "filter_entries fk t' fs0 l' \<subseteq> regs'" if sub: "filter_entries fk t' fs0 l' \<subseteq> regs"
      proof
        fix q assume q: "q \<in> filter_entries fk t' fs0 l'"
        then have "snd (snd q) = lsn_ptr l'" by (auto simp: filter_entries_def)
        with q sub others ne show "q \<in> regs'" by (metis subsetD)
      qed
      with inv old show ?thesis unfolding holders_inv_def by blast
    qed
  qed
  show "\<forall>h1 h2 t1 fs1 l1 e1 t2 fs2 l2 e2. ?H h1 = Some (t1, fs1, l1, e1) \<longrightarrow>
      ?H h2 = Some (t2, fs2, l2, e2) \<longrightarrow> h1 \<noteq> h2 \<longrightarrow> lsn_ptr l1 \<noteq> lsn_ptr l2"
    using inv h by (auto dest: holders_inv_distinct split: if_splits)
  show "\<forall>q \<in> regs'. q \<in> R \<or> (\<exists>h' t' fs l' e'. ?H h' = Some (t', fs, l', e') \<and>
      q \<in> filter_entries fk t' fs l')"
  proof
    fix q assume q: "q \<in> regs'"
    show "q \<in> R \<or> (\<exists>h' t' fs l' e'. ?H h' = Some (t', fs, l', e') \<and> q \<in> filter_entries fk t' fs l')"
    proof (cases "snd (snd q) = lsn_ptr l")
      case True
      with q own have "q \<in> filter_entries fk t fs' l" by blast
      then show ?thesis by (metis fun_upd_same)
    next
      case False
      with q others have "q \<in> regs" by blast
      then consider "q \<in> R" | h' t' fs0 l' e0 where "H h' = Some (t', fs0, l', e0)"
        and "q \<in> filter_entries fk t' fs0 l'"
        using holders_inv_cover [OF inv] by metis
      then show ?thesis
      proof cases
        case 2
        with False h have "h' \<noteq> h" by (metis filter_entries_listener option.inject prod.inject prod.collapse)
        with 2 show ?thesis by (metis fun_upd_other)
      qed simp
    qed
  qed
qed

lemma holders_inv_drop:
  assumes "holders_inv fk supported R regs H" and "H h = Some (t, [], l, e)"
  shows "holders_inv fk supported R regs (H(h := None))"
  unfolding holders_inv_def
proof (intro conjI)
  show "R \<subseteq> regs" using assms(1) by (simp add: holders_inv_def)
  show "\<forall>h' t' fs l' e'. (H(h := None)) h' = Some (t', fs, l', e') \<longrightarrow>
      all_supported supported fs \<and> (\<forall>q \<in> R. snd (snd q) \<noteq> lsn_ptr l') \<and>
      (e' \<longrightarrow> filter_entries fk t' fs l' \<subseteq> regs)"
    using assms(1) unfolding holders_inv_def by (auto split: if_splits)
  show "\<forall>h1 h2 t1 fs1 l1 e1 t2 fs2 l2 e2. (H(h := None)) h1 = Some (t1, fs1, l1, e1) \<longrightarrow>
      (H(h := None)) h2 = Some (t2, fs2, l2, e2) \<longrightarrow> h1 \<noteq> h2 \<longrightarrow> lsn_ptr l1 \<noteq> lsn_ptr l2"
    using assms(1) unfolding holders_inv_def by (auto split: if_splits)
  show "\<forall>q \<in> regs. q \<in> R \<or> (\<exists>h' t' fs l' e'. (H(h := None)) h' = Some (t', fs, l', e') \<and>
      q \<in> filter_entries fk t' fs l')"
  proof
    fix q assume "q \<in> regs"
    then consider "q \<in> R" | h' t' fs0 l' e0 where "H h' = Some (t', fs0, l', e0)"
      and "q \<in> filter_entries fk t' fs0 l'"
      using holders_inv_cover [OF assms(1)] by metis
    then show "q \<in> R \<or> (\<exists>h' t' fs l' e'. (H(h := None)) h' = Some (t', fs, l', e') \<and>
      q \<in> filter_entries fk t' fs l')"
    proof cases
      case 2
      with assms(2) have "h' \<noteq> h" by auto
      with 2 show ?thesis by (metis fun_upd_other)
    qed simp
  qed
qed

text \<open>A listener passes from a task to the binding or back.\<close>

lemma holders_inv_rename:
  assumes inv: "holders_inv fk supported R regs H" and "bij f"
  shows "holders_inv fk supported R regs (H o f)"
  unfolding holders_inv_def
proof (intro conjI)
  from \<open>bij f\<close> have f: "inj f" "surj f" by (auto simp: bij_def)
  show "R \<subseteq> regs" using inv by (simp add: holders_inv_def)
  show "\<forall>h' t' fs l' e'. (H o f) h' = Some (t', fs, l', e') \<longrightarrow>
      all_supported supported fs \<and> (\<forall>q \<in> R. snd (snd q) \<noteq> lsn_ptr l') \<and>
      (e' \<longrightarrow> filter_entries fk t' fs l' \<subseteq> regs)"
    using inv unfolding holders_inv_def by simp
  show "\<forall>h1 h2 t1 fs1 l1 e1 t2 fs2 l2 e2. (H o f) h1 = Some (t1, fs1, l1, e1) \<longrightarrow>
      (H o f) h2 = Some (t2, fs2, l2, e2) \<longrightarrow> h1 \<noteq> h2 \<longrightarrow> lsn_ptr l1 \<noteq> lsn_ptr l2"
  proof (intro allI impI)
    fix h1 h2 t1 fs1 l1 e1 t2 fs2 l2 e2
    assume "(H o f) h1 = Some (t1, fs1, l1, e1)" and "(H o f) h2 = Some (t2, fs2, l2, e2)"
      and "h1 \<noteq> h2"
    moreover from \<open>h1 \<noteq> h2\<close> f have "f h1 \<noteq> f h2" by (simp add: inj_eq)
    ultimately show "lsn_ptr l1 \<noteq> lsn_ptr l2" using inv unfolding holders_inv_def comp_apply by metis
  qed
  show "\<forall>q \<in> regs. q \<in> R \<or> (\<exists>h' t' fs l' e'. (H o f) h' = Some (t', fs, l', e') \<and>
      q \<in> filter_entries fk t' fs l')"
  proof
    fix q assume "q \<in> regs"
    then consider "q \<in> R" | h' t' fs0 l' e0 where "H h' = Some (t', fs0, l', e0)"
      and "q \<in> filter_entries fk t' fs0 l'"
      using holders_inv_cover [OF inv] by metis
    then show "q \<in> R \<or> (\<exists>h' t' fs l' e'. (H o f) h' = Some (t', fs, l', e') \<and>
      q \<in> filter_entries fk t' fs l')"
    proof cases
      case 2
      from f obtain h'' where "f h'' = h'" by (metis surjD)
      with 2 show ?thesis unfolding comp_apply by metis
    qed simp
  qed
qed

lemma holders_inv_move:
  assumes "holders_inv fk supported R regs H" and "H h' = None"
  shows "holders_inv fk supported R regs (H(h := None, h' := H h))"
proof -
  let ?f = "\<lambda>x. if x = h then h' else if x = h' then h else x"
  have bij: "bij ?f" by (rule involuntory_imp_bij) auto
  have swap: "H o ?f = H(h := None, h' := H h)"
    using assms(2) by (auto simp: fun_eq_iff)
  from holders_inv_rename [OF assms(1) bij] show ?thesis unfolding swap .
qed

section \<open>The invariant of the system\<close>

definition counted :: "ingress_binding_key \<Rightarrow> task \<Rightarrow> bool" where
  "counted key p = (case p of Holding k \<Rightarrow> k = key | Undoing k l rest c \<Rightarrow> c \<and> k = key | _ \<Rightarrow> False)"

definition tasks_counted :: "(nat \<Rightarrow> task) \<Rightarrow> ingress_binding_key \<Rightarrow> nat" where
  "tasks_counted f key = card {i. counted key (f i)}"

definition task_supported :: "(uuri \<Rightarrow> uuri option \<Rightarrow> bool) \<Rightarrow> task \<Rightarrow> bool" where
  "task_supported supported p =
     (case p of
        Calling key l registered todo \<Rightarrow>
          all_supported supported todo \<and> (todo = [] \<longrightarrow> registered \<noteq> [])
      | _ \<Rightarrow> True)"

definition concurrent_inv ::
  "('w \<Rightarrow> (arc_transport \<times> 'k \<times> nat) set) \<Rightarrow> (uuri \<Rightarrow> uuri option \<Rightarrow> 'k) \<Rightarrow>
   (uuri \<Rightarrow> uuri option \<Rightarrow> bool) \<Rightarrow> (arc_transport \<times> 'k \<times> nat) set \<Rightarrow> 'w concurrent \<Rightarrow> bool" where
  "concurrent_inv regs fk supported R s \<longleftrightarrow>
     bindings_wf (c_registry s) \<and>
     holders_inv fk supported R (regs (c_world s)) (holdings s) \<and>
     (\<forall>i. task_supported supported (c_tasks s i)) \<and>
     finite {i. c_tasks s i \<noteq> Idle} \<and>
     (\<forall>key. binding_count (c_registry s) key = tasks_counted (c_tasks s) key)"

lemma card_upd:
  assumes "finite {i. P (f i)}"
  shows "card {i. P ((f(j := x)) i)} = card ({i. P (f i)} - {j}) + (if P x then 1 else 0)"
proof -
  have "{i. P ((f(j := x)) i)} = (if P x then insert j ({i. P (f i)} - {j}) else {i. P (f i)} - {j})"
    by auto
  with assms show ?thesis by (simp add: card.insert_remove)
qed

text \<open>How a step of task \<open>i\<close> changes the number of tasks counted for a key.\<close>

lemma tasks_counted_upd:
  assumes "finite {i. f i \<noteq> Idle}"
  shows "tasks_counted (f(i := p)) key + (if counted key (f i) then 1 else 0)
     = tasks_counted f key + (if counted key p then 1 else 0)"
proof -
  have fin: "finite {j. counted key (f j)}"
    by (rule finite_subset [OF _ assms]) (auto simp: counted_def)
  have "card {j. counted key (f j)}
      = card ({j. counted key (f j)} - {i}) + (if counted key (f i) then 1 else 0)"
    using card_upd [of "counted key" f, OF fin, of i "f i"] by simp
  with card_upd [of "counted key" f, OF fin, of i p] show ?thesis by (simp add: tasks_counted_def)
qed

lemma tasks_counted_pos:
  "finite {i. f i \<noteq> Idle} \<Longrightarrow> f i = Holding key \<Longrightarrow> 0 < tasks_counted f key"
proof -
  assume fin: "finite {i. f i \<noteq> Idle}" and "f i = Holding key"
  then have "i \<in> {i. counted key (f i)}" by (simp add: counted_def)
  moreover have "finite {i. counted key (f i)}"
    by (rule finite_subset [OF _ fin]) (auto simp: counted_def)
  ultimately show ?thesis unfolding tasks_counted_def using card_gt_0_iff by blast
qed

lemma counted_simps [simp]:
  "counted key Idle = False" "counted key (Calling k l fs gs) = False"
  "counted key (Holding k) = (k = key)" "counted key (Undoing k l fs c) = (c \<and> k = key)"
  by (simp_all add: counted_def)

lemma finite_tasks_upd:
  "finite {i. f i \<noteq> Idle} \<Longrightarrow> finite {j. (f(i := p)) j \<noteq> Idle}"
  by (rule finite_subset [of _ "insert i {i. f i \<noteq> Idle}"]) auto

lemma holdings_of_task:
  "holdings_of v (f(i := p)) = (holdings_of v f)(HTask i := task_holding p)"
  by (auto simp: fun_eq_iff holdings_of_def split: holder.splits)

lemma holdings_of_binding:
  "holdings_of (v(key := x)) f =
     (holdings_of v f)(HBinding key := map_option (\<lambda>(fs, l). (key_arc key, fs, l, True)) x)"
  by (auto simp: fun_eq_iff holdings_of_def split: holder.splits)

lemma holdings_of_at:
  "holdings_of v f (HTask i) = task_holding (f i)"
  "holdings_of v f (HBinding key) = map_option (\<lambda>(fs, l). (key_arc key, fs, l, True)) (v key)"
  by (simp_all add: holdings_of_def)

lemma task_holding_simps [simp]:
  "task_holding Idle = None" "task_holding (Holding key) = None"
  "task_holding (Calling key l fs gs) = Some (key_arc key, fs, l, True)"
  "task_holding (Undoing key l fs c) = Some (key_arc key, fs, l, False)"
  by (simp_all add: task_holding_def)

text \<open>The three parts of the invariant a step has to keep, for the counting part of a step of task \<open>i\<close>.\<close>

lemma concurrent_inv_step:
  assumes "concurrent_inv regs fk supported R s"
    and "bindings_wf reg'"
    and "holders_inv fk supported R (regs w') (holdings_of (binding_view reg') ((c_tasks s)(i := p)))"
    and "task_supported supported p"
    and "\<forall>key. binding_count reg' key + (if counted key (c_tasks s i) then 1 else 0)
        = binding_count (c_registry s) key + (if counted key p then 1 else 0)"
  shows "concurrent_inv regs fk supported R
     \<lparr>c_registry = reg', c_world = w', c_tasks = (c_tasks s)(i := p)\<rparr>"
proof -
  have fin: "finite {i. c_tasks s i \<noteq> Idle}" using assms(1) by (simp add: concurrent_inv_def)
  have "binding_count reg' key = tasks_counted ((c_tasks s)(i := p)) key" for key
  proof -
    have "binding_count (c_registry s) key = tasks_counted (c_tasks s) key"
      using assms(1) by (simp add: concurrent_inv_def)
    with assms(5) tasks_counted_upd [OF fin, of i p key] show ?thesis
      by (metis add_right_cancel)
  qed
  with assms finite_tasks_upd [OF fin, of i p] show ?thesis
    by (simp add: concurrent_inv_def holdings_def)
qed

lemma concurrent_upd:
  "s\<lparr>c_registry := reg', c_tasks := f\<rparr> = \<lparr>c_registry = reg', c_world = c_world s, c_tasks = f\<rparr>"
  "s\<lparr>c_world := w', c_tasks := f\<rparr> = \<lparr>c_registry = c_registry s, c_world = w', c_tasks = f\<rparr>"
  "s\<lparr>c_tasks := f\<rparr> = \<lparr>c_registry = c_registry s, c_world = c_world s, c_tasks = f\<rparr>"
  by (cases s; simp)+

lemma concurrent_inv_parts:
  assumes "concurrent_inv regs fk supported R s"
  shows "bindings_wf (c_registry s)"
    and "holders_inv fk supported R (regs (c_world s))
          (holdings_of (binding_view (c_registry s)) (c_tasks s))"
    and "task_supported supported (c_tasks s i)"
  using assms by (simp_all add: concurrent_inv_def holdings_def)

lemma holders_inv_upd_None:
  "holders_inv fk supported R regs H \<Longrightarrow> H h = None \<Longrightarrow> holders_inv fk supported R regs (H(h := None))"
  by (metis fun_upd_triv)

lemma view_none_of_bump:
  "bump_binding key reg = None \<Longrightarrow> binding_view reg key = None"
  by (simp add: bump_binding_None binding_view_None)

text \<open>A release takes the binding out of the map and gives its listener to the task.\<close>

lemma release_last_inv:
  assumes inv: "concurrent_inv regs fk supported R s" and i: "c_tasks s i = Holding key"
    and rel: "release_binding key (c_registry s) = Some (Some bnd, reg')"
  shows "concurrent_inv regs fk supported R
    \<lparr>c_registry = reg', c_world = c_world s, c_tasks = (c_tasks s)(i :=
       Undoing key (ib_listener bnd) (ib_registered_filters bnd) False)\<rparr>"
proof (rule concurrent_inv_step [OF inv])
  note parts = concurrent_inv_parts [OF inv]
  let ?H = "holdings_of (binding_view (c_registry s)) (c_tasks s)"
  let ?fs = "ib_registered_filters bnd" and ?l = "ib_listener bnd"
  from release_binding_wf [OF parts(1), of key] rel show "bindings_wf reg'" by auto
  from release_binding_wf [OF parts(1), of key] rel
  have cnt: "binding_count reg' = (binding_count (c_registry s))
      (key := binding_count (c_registry s) key - 1)"
    by auto
  from release_binding_view(2) [OF rel refl]
  have view: "binding_view reg' = (binding_view (c_registry s))(key := None)"
    and bnd: "binding_view (c_registry s) key = Some (?fs, ?l)"
    by auto
  then have "0 < binding_count (c_registry s) key"
    using binding_count_zero_iff [OF parts(1), of key] by (auto simp: binding_view_None [symmetric])
  with cnt i show "\<forall>k. binding_count reg' k + (if counted k (c_tasks s i) then 1 else 0)
      = binding_count (c_registry s) k + (if counted k (Undoing key ?l ?fs False) then 1 else 0)"
    by auto
  have here: "?H (HBinding key) = Some (key_arc key, ?fs, ?l, True)"
    using bnd by (simp add: holdings_of_at)
  have own: "\<forall>q \<in> regs (c_world s). snd (snd q) = lsn_ptr ?l \<longrightarrow>
      q \<in> filter_entries fk (key_arc key) ?fs ?l"
    using holders_inv_own [OF parts(2) here] by blast
  have moved: "holders_inv fk supported R (regs (c_world s))
      (?H(HBinding key := None, HTask i := Some (key_arc key, ?fs, ?l, True)))"
    using holders_inv_move [OF parts(2), of "HTask i" "HBinding key"] i bnd
    by (simp add: holdings_of_at)
  have "holders_inv fk supported R (regs (c_world s))
      ((?H(HBinding key := None, HTask i := Some (key_arc key, ?fs, ?l, True)))
        (HTask i := Some (key_arc key, ?fs, ?l, False)))"
    by (rule holders_inv_update [OF moved]) (use own holders_inv_supported [OF parts(2) here] in auto)
  then show "holders_inv fk supported R (regs (c_world s))
      (holdings_of (binding_view reg') ((c_tasks s)(i := Undoing key ?l ?fs False)))"
    by (simp add: view holdings_of_task holdings_of_binding)
qed (simp add: task_supported_def)

text \<open>The commit gives the task's listener to the new binding.\<close>

lemma commit_inv:
  assumes inv: "concurrent_inv regs fk supported R s" and i: "c_tasks s i = Calling key l fs []"
    and com: "commit_binding key l fs (c_registry s) = (True, reg')"
  shows "concurrent_inv regs fk supported R
    \<lparr>c_registry = reg', c_world = c_world s, c_tasks = (c_tasks s)(i := Holding key)\<rparr>"
proof (rule concurrent_inv_step [OF inv])
  note parts = concurrent_inv_parts [OF inv]
  from commit_binding_wf [OF parts(1), of key l fs] com show "bindings_wf reg'" by simp
  from commit_binding_wf(2) [OF parts(1), of key l fs] com i
  show "\<forall>k. binding_count reg' k + (if counted k (c_tasks s i) then 1 else 0)
      = binding_count (c_registry s) k + (if counted k (Holding key) then 1 else 0)"
    by auto
  from com have none: "hm_get (ir_bindings (c_registry s)) key = None"
    by (auto simp: commit_binding_def bump_binding_None [symmetric] split: option.splits)
  from commit_binding_new(2) [OF none, of l fs] com
  have view: "binding_view reg' = (binding_view (c_registry s))(key \<mapsto> (fs, l))" by simp
  from none have "binding_view (c_registry s) key = None" by (simp add: binding_view_None)
  then have "holders_inv fk supported R (regs (c_world s))
      ((holdings_of (binding_view (c_registry s)) (c_tasks s))
        (HTask i := None, HBinding key := Some (key_arc key, fs, l, True)))"
    using holders_inv_move [OF parts(2), of "HBinding key" "HTask i"] i by (simp add: holdings_of_at)
  then show "holders_inv fk supported R (regs (c_world s))
      (holdings_of (binding_view reg') ((c_tasks s)(i := Holding key)))"
    unfolding view holdings_of_task holdings_of_binding by (simp add: fun_upd_twist)
qed (simp add: task_supported_def)

context transport_contract
begin

lemma start_inv:
  assumes inv: "concurrent_inv registrations filter_key supported R s" and i: "c_tasks s i = Idle"
    and arc: "arc_new X (c_world s) = (p, w')" and fresh: "\<not> listener_alive s p"
    and l: "lsn_ptr l = p"
    and todo: "all_supported supported todo" "todo \<noteq> []"
  shows "concurrent_inv registrations filter_key supported R
    \<lparr>c_registry = c_registry s, c_world = w', c_tasks = (c_tasks s)(i := Calling key l [] todo)\<rparr>"
proof (rule concurrent_inv_step [OF inv])
  note parts = concurrent_inv_parts [OF inv]
  show "bindings_wf (c_registry s)" by (rule parts(1))
  let ?H = "holdings_of (binding_view (c_registry s)) (c_tasks s)"
  have w': "registrations w' = registrations (c_world s)" by (rule arc_new_frame [OF arc])
  have "holders_inv filter_key supported R (registrations w')
      (?H(HTask i := Some (key_arc key, [], l, True)))"
  proof (rule holders_inv_add)
    show "holders_inv filter_key supported R (registrations w') ?H" using parts(2) w' by simp
    show "?H (HTask i) = None" using i by (simp add: holdings_of_at)
    show "\<forall>q \<in> registrations w'. snd (snd q) \<noteq> lsn_ptr l"
      using arc_new_fresh [OF arc] w' l by auto
    show "\<forall>h' t fs l' e. ?H h' = Some (t, fs, l', e) \<longrightarrow> lsn_ptr l' \<noteq> lsn_ptr l"
      using fresh l unfolding listener_alive_def holdings_def by blast
  qed
  then show "holders_inv filter_key supported R (registrations w')
      (holdings_of (binding_view (c_registry s)) ((c_tasks s)(i := Calling key l [] todo)))"
    by (simp add: holdings_of_task)
  show "task_supported supported (Calling key l [] todo)"
    using todo by (simp add: task_supported_def)
qed (simp add: i)

lemma call_inv:
  assumes inv: "concurrent_inv registrations filter_key supported R s"
    and i: "c_tasks s i = Calling key l fs ((src, snk) # todo)"
    and call: "ut_register X (key_arc key) src snk l (c_world s) = (r, w')"
  shows "concurrent_inv registrations filter_key supported R
    \<lparr>c_registry = c_registry s, c_world = w', c_tasks = (c_tasks s)(i :=
       if is_ok r then Calling key l (fs @ [(src, snk)]) todo
       else Undoing key l (if fs = [] then [(src, snk)] else fs) False)\<rparr>"
proof (rule concurrent_inv_step [OF inv])
  note parts = concurrent_inv_parts [OF inv]
  show "bindings_wf (c_registry s)" by (rule parts(1))
  let ?H = "holdings_of (binding_view (c_registry s)) (c_tasks s)"
  have here: "?H (HTask i) = Some (key_arc key, fs, l, True)" using i by (simp add: holdings_of_at)
  have sup: "supported src snk" "all_supported supported todo"
    using parts(3) [of i] i by (auto simp: task_supported_def)
  note fs = holders_inv_supported [OF parts(2) here] holders_inv_exact [OF parts(2) here]
  have own: "\<forall>q \<in> registrations (c_world s). snd (snd q) = lsn_ptr l \<longrightarrow>
      q \<in> filter_entries filter_key (key_arc key) fs l"
    using holders_inv_own [OF parts(2) here] by blast
  show "holders_inv filter_key supported R (registrations w')
      (holdings_of (binding_view (c_registry s)) ((c_tasks s)(i :=
         if is_ok r then Calling key l (fs @ [(src, snk)]) todo
         else Undoing key l (if fs = [] then [(src, snk)] else fs) False)))"
  proof (cases r)
    case (Inl e)
    then have "registrations w' = registrations (c_world s)" using call register_Err by blast
    moreover have "holders_inv filter_key supported R (registrations (c_world s))
        (?H(HTask i := Some (key_arc key, if fs = [] then [(src, snk)] else fs, l, False)))"
      by (rule holders_inv_update [OF parts(2) here]) (use fs sup own in auto)
    ultimately show ?thesis using Inl by (simp add: holdings_of_task)
  next
    case (Inr u)
    then have w': "registrations w'
        = insert (key_arc key, filter_key src snk, lsn_ptr l) (registrations (c_world s))"
      using call register_Ok by blast
    have "holders_inv filter_key supported R (registrations w')
        (?H(HTask i := Some (key_arc key, fs @ [(src, snk)], l, True)))"
      by (rule holders_inv_update [OF parts(2) here]) (use fs sup own w' in auto)
    then show ?thesis using Inr by (simp add: holdings_of_task)
  qed
  show "task_supported supported (if is_ok r then Calling key l (fs @ [(src, snk)]) todo
      else Undoing key l (if fs = [] then [(src, snk)] else fs) False)"
    using sup by (simp add: task_supported_def)
qed (simp add: i)

lemma undo_inv:
  assumes inv: "concurrent_inv registrations filter_key supported R s"
    and i: "c_tasks s i = Undoing key l ((src, snk) # rest) c"
    and call: "ut_unregister X (key_arc key) src snk l (c_world s) = (r, w')"
  shows "concurrent_inv registrations filter_key supported R
    \<lparr>c_registry = c_registry s, c_world = w', c_tasks = (c_tasks s)(i := Undoing key l rest c)\<rparr>"
proof (rule concurrent_inv_step [OF inv])
  note parts = concurrent_inv_parts [OF inv]
  show "bindings_wf (c_registry s)" by (rule parts(1))
  let ?H = "holdings_of (binding_view (c_registry s)) (c_tasks s)"
  have here: "?H (HTask i) = Some (key_arc key, (src, snk) # rest, l, False)"
    using i by (simp add: holdings_of_at)
  note fs = holders_inv_supported [OF parts(2) here]
  have own: "\<forall>q \<in> registrations (c_world s). snd (snd q) = lsn_ptr l \<longrightarrow>
      q \<in> filter_entries filter_key (key_arc key) ((src, snk) # rest) l"
    using holders_inv_own [OF parts(2) here] by blast
  have w': "registrations w'
      = registrations (c_world s) - {(key_arc key, filter_key src snk, lsn_ptr l)}"
    using fs(1) call unregister_removes by simp
  have "holders_inv filter_key supported R (registrations w')
      (?H(HTask i := Some (key_arc key, rest, l, False)))"
    by (rule holders_inv_update [OF parts(2) here]) (use fs own w' in auto)
  then show "holders_inv filter_key supported R (registrations w')
      (holdings_of (binding_view (c_registry s)) ((c_tasks s)(i := Undoing key l rest c)))"
    by (simp add: holdings_of_task)
qed (simp_all add: i task_supported_def)

text \<open>Steps that only count: the world and the bindings' listeners stay.\<close>

lemma count_step_inv:
  assumes inv: "concurrent_inv registrations filter_key supported R s"
    and "bindings_wf reg'" and "binding_view reg' = binding_view (c_registry s)"
    and "holders_inv filter_key supported R (registrations (c_world s))
      ((holdings_of (binding_view (c_registry s)) (c_tasks s))(HTask i := task_holding p))"
    and "task_supported supported p"
    and "\<forall>key. binding_count reg' key + (if counted key (c_tasks s i) then 1 else 0)
        = binding_count (c_registry s) key + (if counted key p then 1 else 0)"
  shows "concurrent_inv registrations filter_key supported R
    \<lparr>c_registry = reg', c_world = c_world s, c_tasks = (c_tasks s)(i := p)\<rparr>"
  by (rule concurrent_inv_step [OF inv assms(2) _ assms(5,6)])
    (simp add: assms(3,4) holdings_of_task)

lemma cstep_inv:
  assumes step: "cstep X allowed s s'"
    and inv: "concurrent_inv registrations filter_key supported R s"
    and sup: "\<forall>t a b. allowed (ingress_binding_key_new t a b) \<longrightarrow>
      supported (fst (request_filter a b)) (snd (request_filter a b))"
  shows "concurrent_inv registrations filter_key supported R s'"
  using step
proof cases
  note parts = concurrent_inv_parts [OF inv]
  let ?H = "holdings_of (binding_view (c_registry s)) (c_tasks s)"
  {
    case (join i key reg')
    have "holders_inv filter_key supported R (registrations (c_world s)) (?H(HTask i := None))"
      by (rule holders_inv_upd_None [OF parts(2)]) (simp add: holdings_of_at join)
    with join bump_binding_Some [OF _ parts(1)] bump_binding_view show ?thesis
      by (auto simp: concurrent_upd task_supported_def intro!: count_step_inv [OF inv])
  next
    case (start i key t a b p w' label sender us)
    have "all_supported supported (request_filter a b # publish_filters us)"
      using sup start supported_publish
      by (auto simp: all_supported_def publish_filters_def list_all_iff case_prod_beta)
    with start show ?thesis
      by (auto simp: concurrent_upd ingress_listener_new_def intro!: start_inv [OF inv])
  next
    case (call_ok i key l registered src snk todo u w')
    with call_inv [OF inv call_ok(2,3)] show ?thesis by (simp add: concurrent_upd)
  next
    case (call_err i key l registered src snk todo e w')
    with call_inv [OF inv call_err(2,3)] show ?thesis by (simp add: concurrent_upd)
  next
    case (commit i key l registered reg')
    with commit_inv [OF inv commit(2,3)] show ?thesis by (simp add: concurrent_upd)
  next
    case (lose i key l registered reg')
    have bump: "bump_binding key (c_registry s) = Some reg'"
      using lose by (auto simp: commit_binding_def split: option.splits)
    have here: "?H (HTask i) = Some (key_arc key, registered, l, True)"
      using lose by (simp add: holdings_of_at)
    have "holders_inv filter_key supported R (registrations (c_world s))
        (?H(HTask i := Some (key_arc key, registered, l, False)))"
      by (rule holders_inv_update [OF parts(2) here])
        (use holders_inv_supported [OF parts(2) here] holders_inv_own [OF parts(2) here] in auto)
    with lose bump_binding_Some [OF bump parts(1)] bump_binding_view [OF bump] show ?thesis
      by (auto simp: concurrent_upd task_supported_def intro!: count_step_inv [OF inv])
  next
    case (undo i key l src snk rest c r w')
    with undo_inv [OF inv undo(2,3)] show ?thesis by (simp add: concurrent_upd)
  next
    case (undone i key l c)
    have "?H (HTask i) = Some (key_arc key, [], l, False)" using undone by (simp add: holdings_of_at)
    from holders_inv_drop [OF parts(2) this]
    have "holders_inv filter_key supported R (registrations (c_world s)) (?H(HTask i := None))" .
    with undone parts(1) show ?thesis
      by (auto simp: concurrent_upd task_supported_def intro!: count_step_inv [OF inv])
  next
    case (leave i key reg')
    have "holders_inv filter_key supported R (registrations (c_world s)) (?H(HTask i := None))"
      by (rule holders_inv_upd_None [OF parts(2)]) (simp add: holdings_of_at leave)
    moreover have "bindings_wf reg'" and cnt: "binding_count reg' = (binding_count (c_registry s))
        (key := binding_count (c_registry s) key - 1)"
      using release_binding_wf [OF parts(1), of key] leave by auto
    moreover have "0 < binding_count (c_registry s) key"
      using leave inv tasks_counted_pos [of "c_tasks s" i key]
      by (simp add: concurrent_inv_def)
    ultimately show ?thesis
      using leave release_binding_view(1) [OF leave(3) refl]
      by (auto simp: concurrent_upd task_supported_def intro!: count_step_inv [OF inv])
  next
    case (leave_last i key bnd reg')
    with release_last_inv [OF inv leave_last(2,3)] show ?thesis by (simp add: concurrent_upd)
  }
qed

lemma reachable_inv:
  assumes "reachable X allowed w s"
    and "\<forall>t a b. allowed (ingress_binding_key_new t a b) \<longrightarrow>
      supported (fst (request_filter a b)) (snd (request_filter a b))"
  shows "concurrent_inv registrations filter_key supported (registrations w) s"
  using assms(1)
proof (induction rule: reachable.induct)
  case init
  have "binding_count ingress_registry_new key = 0" for key
    by (simp add: binding_count_def ingress_registry_new_def)
  moreover have "holdings_of (binding_view ingress_registry_new) (\<lambda>i. Idle) h = None" for h
    by (cases h) (simp_all add: holdings_of_def)
  ultimately show ?case
    by (simp add: concurrent_inv_def holdings_def holders_inv_def task_supported_def tasks_counted_def)
next
  case (step s s')
  with cstep_inv assms(2) show ?case by blast
qed

end

section \<open>Properties\<close>

text \<open>
  C12. However the calls of several tasks interleave, a binding's reference count is the number of tasks
  whose route is registered, and whenever no call is under way the transports hold the registrations
  they held at first and, for every bound route, those of one single listener: the loser of a race has
  taken everything back, and no failed or released route has left anything behind.
\<close>

theorem concurrent_routes_one_listener:
  assumes "transport_contract X regs fk supported"
    and "\<forall>t a b. allowed (ingress_binding_key_new t a b) \<longrightarrow>
      supported (fst (request_filter a b)) (snd (request_filter a b))"
    and "reachable X allowed w s"
  shows "binding_count (c_registry s) key = tasks_counted (c_tasks s) key \<and>
    ((\<forall>i. c_tasks s i = Idle \<or> (\<exists>k. c_tasks s i = Holding k)) \<longrightarrow>
      regs (c_world s) = regs w \<union> owned_registrations fk (binding_view (c_registry s)))"
proof (intro conjI impI)
  note inv = transport_contract.reachable_inv [OF assms(1,3,2)]
  note parts = concurrent_inv_parts [OF inv]
  show "binding_count (c_registry s) key = tasks_counted (c_tasks s) key"
    using inv by (simp add: concurrent_inv_def)
  assume quiet: "\<forall>i. c_tasks s i = Idle \<or> (\<exists>k. c_tasks s i = Holding k)"
  let ?H = "holdings_of (binding_view (c_registry s)) (c_tasks s)"
  have task: "?H (HTask i) = None" for i
    using quiet [rule_format, of i] by (auto simp: holdings_of_at)
  have bind: "?H (HBinding k) = Some (t, fs, l, e) \<longleftrightarrow>
      binding_view (c_registry s) k = Some (fs, l) \<and> t = key_arc k \<and> e" for k t fs l e
    by (auto simp: holdings_of_at)
  show "regs (c_world s) = regs w \<union> owned_registrations fk (binding_view (c_registry s))"
  proof (intro equalityI subsetI)
    fix q assume "q \<in> regs (c_world s)"
    from holders_inv_cover [OF parts(2) this]
    consider "q \<in> regs w" | h t fs l e where "?H h = Some (t, fs, l, e)"
      and "q \<in> filter_entries fk t fs l" by blast
    then show "q \<in> regs w \<union> owned_registrations fk (binding_view (c_registry s))"
    proof cases
      case (2 h t fs l e)
      with task obtain k where "h = HBinding k" by (cases h) auto
      with 2 have "binding_view (c_registry s) k = Some (fs, l)" and "t = key_arc k"
        using bind by auto
      with 2 have "q \<in> owned_registrations fk (binding_view (c_registry s))"
        unfolding owned_registrations_def by auto
      then show ?thesis by simp
    qed simp
  next
    fix q assume "q \<in> regs w \<union> owned_registrations fk (binding_view (c_registry s))"
    then consider "q \<in> regs w" | k fs l where "binding_view (c_registry s) k = Some (fs, l)"
      and "q \<in> filter_entries fk (key_arc k) fs l"
      unfolding owned_registrations_def by blast
    then show "q \<in> regs (c_world s)"
    proof cases
      case 1
      with parts(2) show ?thesis unfolding holders_inv_def by blast
    next
      case (2 k fs l)
      then have "?H (HBinding k) = Some (key_arc k, fs, l, True)" by (simp add: holdings_of_at)
      from holders_inv_exact [OF parts(2) this] 2 show ?thesis by blast
    qed
  qed
qed

text \<open>Two tasks on a world of one client: the first registers the route, the second joins it.\<close>

definition race_key :: ingress_binding_key where
  "race_key = ingress_binding_key_new foo_transport ''a'' ''b''"

definition race_listener :: route_listener where
  "race_listener = \<lparr>lsn_ptr = 11, lsn_route_id = ''r'', lsn_sender = 0\<rparr>"

definition race_world1 :: "nat foo_world" where
  "race_world1 = snd (arc_new (foo_ext (sample_uuri_api [])) foo_start)"

definition race_world2 :: "nat foo_world" where
  "race_world2 = snd (ut_register (foo_ext (sample_uuri_api [])) foo_transport
     (fst (request_filter ''a'' ''b'')) (snd (request_filter ''a'' ''b'')) race_listener race_world1)"

definition race_registry1 :: ingress_registry where
  "race_registry1 = snd (commit_binding race_key race_listener [request_filter ''a'' ''b'']
     ingress_registry_new)"

definition race_registry2 :: ingress_registry where
  "race_registry2 = the (bump_binding race_key race_registry1)"

definition race_final :: "nat foo_world concurrent" where
  "race_final = \<lparr>c_registry = race_registry2, c_world = race_world2,
     c_tasks = (\<lambda>i. Idle)(0 := Holding race_key, 1 := Holding race_key)\<rparr>"

lemma race_reachable:
  "reachable (foo_ext (sample_uuri_api [])) (\<lambda>key. key = race_key) foo_start race_final"
proof -
  let ?X = "foo_ext (sample_uuri_api [])" and ?ok = "\<lambda>key. key = race_key"
  let ?t0 = "\<lambda>i. Idle"
  let ?s0 = "\<lparr>c_registry = ingress_registry_new, c_world = foo_start, c_tasks = ?t0\<rparr>"
  let ?s1 = "\<lparr>c_registry = ingress_registry_new, c_world = race_world1,
      c_tasks = ?t0(0 := Calling race_key race_listener [] [request_filter ''a'' ''b''])\<rparr>"
  let ?s2 = "\<lparr>c_registry = ingress_registry_new, c_world = race_world2,
      c_tasks = ?t0(0 := Calling race_key race_listener [request_filter ''a'' ''b''] [])\<rparr>"
  let ?s3 = "\<lparr>c_registry = race_registry1, c_world = race_world2,
      c_tasks = ?t0(0 := Holding race_key)\<rparr>"
  have quiet: "\<not> listener_alive ?s0 p" for p
    by (auto simp: listener_alive_def holdings_def holdings_of_def split: holder.splits)
  have "reachable ?X ?ok foo_start ?s0" by (rule reachable.init)
  moreover have "cstep ?X ?ok ?s0 ?s1"
  proof -
    have arc: "arc_new ?X (c_world ?s0) = (11, race_world1)"
      unfolding race_world1_def by code_simp
    have none: "bump_binding race_key (c_registry ?s0) = None" by code_simp
    from cstep.start [of ?s0 0 race_key foo_transport "''a''" "''b''" ?ok ?X 11 race_world1 "''r''" 0 "[]",
        OF _ race_key_def _ none arc quiet]
    show ?thesis by (simp add: race_listener_def ingress_listener_new_def)
  qed
  ultimately have "reachable ?X ?ok foo_start ?s1" by (rule reachable.step)
  moreover have "cstep ?X ?ok ?s1 ?s2"
  proof -
    have "ut_register ?X (key_arc race_key) (fst (request_filter ''a'' ''b''))
        (snd (request_filter ''a'' ''b'')) race_listener (c_world ?s1) = (Inr (), race_world2)"
      unfolding race_world2_def by code_simp
    from cstep.call_ok [of ?s1 0 race_key race_listener "[]" _ _ "[]" ?X, OF _ this, of ?ok]
    show ?thesis by simp
  qed
  ultimately have "reachable ?X ?ok foo_start ?s2" by (rule reachable.step)
  moreover have "cstep ?X ?ok ?s2 ?s3"
  proof -
    have "commit_binding race_key race_listener [request_filter ''a'' ''b''] (c_registry ?s2)
        = (True, race_registry1)"
      unfolding race_registry1_def by code_simp
    from cstep.commit [of ?s2 0, OF _ this, of ?X ?ok] show ?thesis by simp
  qed
  ultimately have "reachable ?X ?ok foo_start ?s3" by (rule reachable.step)
  moreover have "cstep ?X ?ok ?s3 race_final"
  proof -
    have "bump_binding race_key (c_registry ?s3) = Some race_registry2"
      unfolding race_registry2_def by code_simp
    from cstep.join [of ?s3 1, OF _ this, of ?X ?ok] show ?thesis by (simp add: race_final_def)
  qed
  ultimately show ?thesis by (rule reachable.step)
qed

theorem concurrent_routes_one_listener_witness:
  "binding_count race_registry2 race_key = tasks_counted (c_tasks race_final) race_key \<and>
   foo_registrations race_world2 = foo_registrations foo_start \<union>
     owned_registrations (foo_filter_key (sample_uuri_api [])) (binding_view race_registry2)"
proof -
  have sup: "\<forall>t a b. ingress_binding_key_new t a b = race_key \<longrightarrow>
      foo_supported (sample_uuri_api []) (fst (request_filter a b)) (snd (request_filter a b))"
    using foo_request_supported by (simp add: race_key_def)
  from concurrent_routes_one_listener [OF foo_contract [unfolded foo_env_def, simplified]
      sup race_reachable, of race_key]
  show ?thesis by (simp add: race_final_def)
qed

end
