(* ===== verification/Egress_Worker.thy ===== *)
theory Egress_Worker
  imports Up_Client_Foo "HOL-Library.Sublist"
begin

text \<open>
  The forwarding path: \<open>IngressRouteListener::on_receive\<close> puts a received message into the broadcast
  channel of its egress worker (data_plane/ingress_listener.rs), the worker's dispatch loop takes
  messages out and sends them on the egress transport (data_plane/egress_worker.rs,
  runtime/worker_runtime.rs). The text fields of the log records are those of
  observability/fields.rs; the log records themselves are not modelled.

  Strings are sequences of bytes, so \<open>length\<close> is Rust's \<open>len\<close>; the characters the code filters
  for are ASCII, which UTF-8 encodes as themselves and uses for nothing else.
\<close>

section \<open>Accessors of a message\<close>

datatype payload_format = UPAYLOAD_FORMAT_UNSPECIFIED | UPAYLOAD_FORMAT_SHM | UPAYLOAD_FORMAT_OTHER nat

text \<open>
  \<open>UMessage\<close> is a type of the \<open>up-rust\<close> crate; its accessors are parameters. Ids are given as
  hyphenated strings, types as the names \<open>Debug\<close> prints.
\<close>

record 'm umessage_api =
  msg_id :: "'m \<Rightarrow> string option"
  msg_type :: "'m \<Rightarrow> string option"
  msg_source :: "'m \<Rightarrow> uuri option"
  msg_sink :: "'m \<Rightarrow> uuri option"
  msg_payload_format :: "'m \<Rightarrow> payload_format option"

definition unwrap_or :: "'a option \<Rightarrow> 'a \<Rightarrow> 'a" where
  "unwrap_or x d = (case x of Some v \<Rightarrow> v | None \<Rightarrow> d)"

subsection \<open>Text fields (observability/fields.rs)\<close>

definition fields_NONE :: string where "fields_NONE = ''none''"

definition DEFAULT_WORKER_THREAD :: string where "DEFAULT_WORKER_THREAD = ''unknown-thread''"

record worker_context =
  wc_worker_id :: string
  wc_worker_thread :: string

definition thread_name_or_default :: "string option \<Rightarrow> string" where
  "thread_name_or_default n = unwrap_or n DEFAULT_WORKER_THREAD"

definition worker_context_new :: "string \<Rightarrow> string option \<Rightarrow> worker_context" where
  "worker_context_new worker_id thread =
     \<lparr>wc_worker_id = worker_id, wc_worker_thread = thread_name_or_default thread\<rparr>"

text \<open>\<open>trim_start_matches("//")\<close>: the prefix is taken off as often as it is there.\<close>

fun trim_start_slashes :: "string \<Rightarrow> string" where
  "trim_start_slashes (a # b # s) =
     (if a = CHR ''/'' \<and> b = CHR ''/'' then trim_start_slashes s else a # b # s)"
| "trim_start_slashes s = s"

definition format_uri :: "uuri_api \<Rightarrow> uuri \<Rightarrow> string" where
  "format_uri U u = trim_start_slashes (m_to_uri U u False)"

definition format_optional_uri :: "uuri_api \<Rightarrow> uuri option \<Rightarrow> string" where
  "format_optional_uri U u = unwrap_or (map_option (format_uri U) u) fields_NONE"

definition format_message_id :: "'m umessage_api \<Rightarrow> 'm \<Rightarrow> string" where
  "format_message_id M m = unwrap_or (msg_id M m) fields_NONE"

definition format_message_type :: "'m umessage_api \<Rightarrow> 'm \<Rightarrow> string" where
  "format_message_type M m = unwrap_or (msg_type M m) ''UMESSAGE_TYPE_UNSPECIFIED''"

definition format_source_uri :: "uuri_api \<Rightarrow> 'm umessage_api \<Rightarrow> 'm \<Rightarrow> string" where
  "format_source_uri U M m = format_optional_uri U (msg_source M m)"

definition format_sink_uri :: "uuri_api \<Rightarrow> 'm umessage_api \<Rightarrow> 'm \<Rightarrow> string" where
  "format_sink_uri U M m = format_optional_uri U (msg_sink M m)"

record formatted_message_fields =
  ff_msg_id :: string
  ff_msg_type :: string
  ff_src :: string
  ff_sink :: string

definition formatted_fields_from_message ::
  "uuri_api \<Rightarrow> 'm umessage_api \<Rightarrow> 'm \<Rightarrow> formatted_message_fields" where
  "formatted_fields_from_message U M m =
     \<lparr>ff_msg_id = format_message_id M m, ff_msg_type = format_message_type M m,
      ff_src = format_source_uri U M m, ff_sink = format_sink_uri U M m\<rparr>"

section \<open>The ingress listener\<close>

definition on_receive ::
  "'m umessage_api \<Rightarrow> ('m, 'w) ext \<Rightarrow> route_listener \<Rightarrow> 'm \<Rightarrow> 'w \<Rightarrow> 'w" where
  "on_receive M X l msg w =
     (if unwrap_or (msg_payload_format M msg) UPAYLOAD_FORMAT_UNSPECIFIED = UPAYLOAD_FORMAT_SHM then w
      else snd (bc_send X (lsn_sender l) msg w))"

section \<open>The worker's thread name\<close>

definition LINUX_THREAD_NAME_MAX_LEN :: nat where "LINUX_THREAD_NAME_MAX_LEN = 15"

definition EGRESS_ROUTE_RUNTIME_THREAD_NAME_MAX_LEN :: nat where
  "EGRESS_ROUTE_RUNTIME_THREAD_NAME_MAX_LEN = 15"

definition EGRESS_ROUTE_RUNTIME_THREAD_NAME_PREFIX :: string where
  "EGRESS_ROUTE_RUNTIME_THREAD_NAME_PREFIX = ''up-egress-''"

definition DEFAULT_EGRESS_ROUTE_RUNTIME_THREAD_NAME :: string where
  "DEFAULT_EGRESS_ROUTE_RUNTIME_THREAD_NAME = ''up-egress-route''"

definition is_ascii_hexdigit :: "char \<Rightarrow> bool" where
  "is_ascii_hexdigit c \<longleftrightarrow> (let n = of_char c :: nat in
     48 \<le> n \<and> n \<le> 57 \<or> 65 \<le> n \<and> n \<le> 70 \<or> 97 \<le> n \<and> n \<le> 102)"

definition build_runtime_thread_name :: "string \<Rightarrow> string" where
  "build_runtime_thread_name route_id =
     (let suffix_len = EGRESS_ROUTE_RUNTIME_THREAD_NAME_MAX_LEN
            - length EGRESS_ROUTE_RUNTIME_THREAD_NAME_PREFIX;
          suffix = take suffix_len (filter is_ascii_hexdigit route_id)
      in if length suffix = suffix_len then EGRESS_ROUTE_RUNTIME_THREAD_NAME_PREFIX @ suffix
         else DEFAULT_EGRESS_ROUTE_RUNTIME_THREAD_NAME)"

definition sanitize_runtime_thread_name :: "string \<Rightarrow> string" where
  "sanitize_runtime_thread_name name =
     (if name = [] \<or> length name > LINUX_THREAD_NAME_MAX_LEN
      then DEFAULT_EGRESS_ROUTE_RUNTIME_THREAD_NAME else name)"

section \<open>Starting the worker\<close>

datatype route_dispatch_loop_handle = SharedTask string | DedicatedThread string

definition worker_thread :: "route_dispatch_loop_handle \<Rightarrow> string" where
  "worker_thread h = (case h of SharedTask n \<Rightarrow> n | DedicatedThread n \<Rightarrow> n)"

text \<open>
  The loop runs as a task of the current runtime, or on a thread of its own when there is none; a
  thread that cannot be spawned is a panic (\<open>None\<close>).
\<close>

definition spawn_route_dispatch_loop ::
  "('m, 'w) ext \<Rightarrow> string \<Rightarrow> arc_transport \<Rightarrow> nat \<Rightarrow> 'w \<Rightarrow> (route_dispatch_loop_handle \<times> 'w) option" where
  "spawn_route_dispatch_loop X thread_name t rx w =
     (let name = sanitize_runtime_thread_name thread_name in
      if in_runtime X w then Some (SharedTask name, spawn_task X t rx w)
      else (case spawn_thread X name t rx w of
              (True, w1) \<Rightarrow> Some (DedicatedThread name, w1)
            | (False, w1) \<Rightarrow> None))"

record egress_route_worker =
  ew_worker_id :: string
  ew_dispatch_handle :: route_dispatch_loop_handle

definition egress_worker_new ::
  "('m, 'w) ext \<Rightarrow> arc_transport \<Rightarrow> nat \<Rightarrow> 'w \<Rightarrow> (egress_route_worker \<times> 'w) option" where
  "egress_worker_new X t rx w =
     (let (worker_id, w1) = uuid_build X w in
      case spawn_route_dispatch_loop X (build_runtime_thread_name worker_id) t rx w1 of
        None \<Rightarrow> None
      | Some (h, w2) \<Rightarrow> Some (\<lparr>ew_worker_id = worker_id, ew_dispatch_handle = h\<rparr>, w2))"

definition runtime_thread :: "egress_route_worker \<Rightarrow> string" where
  "runtime_thread wk = worker_thread (ew_dispatch_handle wk)"

section \<open>The dispatch loop\<close>

text \<open>What \<open>recv()\<close> of a broadcast receiver answers.\<close>

datatype 'm recv_outcome = RecvOk 'm | RecvLagged "64 word" | RecvClosed

text \<open>
  The loop over what \<open>recv()\<close> answers, in order; \<open>True\<close> says that it has stopped, \<open>False\<close> that it waits
  for the next answer.
\<close>

fun route_dispatch_loop ::
  "('m, 'w) ext \<Rightarrow> arc_transport \<Rightarrow> 'm recv_outcome list \<Rightarrow> 'w \<Rightarrow> bool \<times> 'w" where
  "route_dispatch_loop X t [] w = (False, w)"
| "route_dispatch_loop X t (RecvOk m # rs) w =
     (case ut_send X t m w of (send_res, w1) \<Rightarrow> route_dispatch_loop X t rs w1)"
| "route_dispatch_loop X t (RecvLagged n # rs) w = route_dispatch_loop X t rs w"
| "route_dispatch_loop X t (RecvClosed # rs) w = (True, w)"

section \<open>What a broadcast channel yields\<close>

text \<open>
  The documented behaviour of \<open>tokio::sync::broadcast\<close> for one receiver: every message sent is
  received once and in order, except that a receiver that has fallen behind is told how many
  messages it has lost; when all senders are gone and everything is taken, the channel is closed.
\<close>

inductive channel_yields :: "'m list \<Rightarrow> 'm recv_outcome list \<Rightarrow> bool" where
  pending: "channel_yields ms []"
| received: "channel_yields ms rs \<Longrightarrow> channel_yields (m # ms) (RecvOk m # rs)"
| lagged: "channel_yields ms rs \<Longrightarrow> lost \<noteq> [] \<Longrightarrow> length lost < 2 ^ 64 \<Longrightarrow>
    channel_yields (lost @ ms) (RecvLagged (of_nat (length lost)) # rs)"
| closed: "channel_yields [] [RecvClosed]"

inductive_cases channel_yields_OkE: "channel_yields ms (RecvOk m # rs)"
inductive_cases channel_yields_LaggedE: "channel_yields ms (RecvLagged n # rs)"
inductive_cases channel_yields_ClosedE: "channel_yields ms (RecvClosed # rs)"

text \<open>The messages received before the channel closes.\<close>

fun received_messages :: "'m recv_outcome list \<Rightarrow> 'm list" where
  "received_messages [] = []"
| "received_messages (RecvOk m # rs) = m # received_messages rs"
| "received_messages (RecvLagged n # rs) = received_messages rs"
| "received_messages (RecvClosed # rs) = []"

definition no_lag :: "'m recv_outcome list \<Rightarrow> bool" where
  "no_lag rs \<longleftrightarrow> list_all (\<lambda>r. case r of RecvLagged n \<Rightarrow> False | _ \<Rightarrow> True) rs"

section \<open>Lemmas\<close>

text \<open>Sending a list of messages, whatever each send answers; publishing one to a channel.\<close>

definition send_all :: "('m, 'w) ext \<Rightarrow> arc_transport \<Rightarrow> 'm list \<Rightarrow> 'w \<Rightarrow> 'w" where
  "send_all X t ms w = fold (\<lambda>m w. snd (ut_send X t m w)) ms w"

definition publish_all :: "('m, 'w) ext \<Rightarrow> nat \<Rightarrow> 'm list \<Rightarrow> 'w \<Rightarrow> 'w" where
  "publish_all X c ms w = fold (\<lambda>m w. snd (bc_send X c m w)) ms w"

definition payload_supported :: "'m umessage_api \<Rightarrow> 'm \<Rightarrow> bool" where
  "payload_supported M m \<longleftrightarrow> msg_payload_format M m \<noteq> Some UPAYLOAD_FORMAT_SHM"

lemma dispatch_loop_send_all:
  "route_dispatch_loop X t rs w = (RecvClosed \<in> set rs, send_all X t (received_messages rs) w)"
  by (induction X t rs w rule: route_dispatch_loop.induct)
    (auto simp: send_all_def split: prod.splits)

lemma on_receive_cases:
  "on_receive M X l m w = (if payload_supported M m then snd (bc_send X (lsn_sender l) m w) else w)"
  by (auto simp: on_receive_def payload_supported_def unwrap_or_def split: option.splits)

lemma received_subseq: "channel_yields ms rs \<Longrightarrow> subseq (received_messages rs) ms"
proof (induction rule: channel_yields.induct)
  case (lagged ms rs lost)
  then show ?case by (simp add: subseq_drop_many)
qed simp_all

lemma received_all:
  "channel_yields ms rs \<Longrightarrow> no_lag rs \<Longrightarrow> RecvClosed \<in> set rs \<Longrightarrow> received_messages rs = ms"
proof (induction rule: channel_yields.induct)
  case (received ms rs m)
  then show ?case by (simp add: no_lag_def)
next
  case (lagged ms rs lost)
  then show ?case by (simp add: no_lag_def)
qed simp_all

lemma prefix_length [simp]:
  "length EGRESS_ROUTE_RUNTIME_THREAD_NAME_PREFIX = 10"
  "length DEFAULT_EGRESS_ROUTE_RUNTIME_THREAD_NAME = 15"
  by (simp_all add: EGRESS_ROUTE_RUNTIME_THREAD_NAME_PREFIX_def
      DEFAULT_EGRESS_ROUTE_RUNTIME_THREAD_NAME_def)

lemma runtime_name_length: "length (build_runtime_thread_name worker_id) = 15"
  by (simp add: build_runtime_thread_name_def EGRESS_ROUTE_RUNTIME_THREAD_NAME_MAX_LEN_def Let_def)

lemma sanitize_keeps: "0 < length n \<Longrightarrow> length n \<le> 15 \<Longrightarrow> sanitize_runtime_thread_name n = n"
  by (auto simp: sanitize_runtime_thread_name_def LINUX_THREAD_NAME_MAX_LEN_def)

section \<open>Properties\<close>

text \<open>
  C16. A worker forwards in order. When its listener has received \<open>ms\<close> and the channel behaves like a
  broadcast channel, what the dispatch loop sends is a subsequence of the messages of \<open>ms\<close> with a
  supported payload, each at most once and in order, whatever the sends answer; when the receiver
  never lagged and the channel has closed, it is all of them, and the loop has stopped.
\<close>

theorem worker_forwards_in_order:
  assumes "channel_yields (filter (payload_supported M) ms) rs"
  shows "\<exists>forwarded. route_dispatch_loop X t rs w = (RecvClosed \<in> set rs, send_all X t forwarded w) \<and>
    subseq forwarded (filter (payload_supported M) ms) \<and>
    (no_lag rs \<and> RecvClosed \<in> set rs \<longrightarrow> forwarded = filter (payload_supported M) ms)"
  using received_subseq [OF assms] received_all [OF assms]
  by (intro exI [of _ "received_messages rs"]) (simp add: dispatch_loop_send_all)

definition sample_message_api :: "nat umessage_api" where
  "sample_message_api = \<lparr>msg_id = (\<lambda>m. None), msg_type = (\<lambda>m. None), msg_source = (\<lambda>m. None),
     msg_sink = (\<lambda>m. None),
     msg_payload_format = (\<lambda>m. if m = 0 then Some UPAYLOAD_FORMAT_SHM else None)\<rparr>"

lemma sample_channel:
  "channel_yields (filter (payload_supported sample_message_api) [1, 0, 2])
     [RecvOk 1, RecvOk 2, RecvClosed]"
proof -
  have "filter (payload_supported sample_message_api) [1, 0, 2] = [1, 2]"
    by (simp add: payload_supported_def sample_message_api_def)
  then show ?thesis by (simp add: received closed)
qed

theorem worker_forwards_in_order_witness:
  "route_dispatch_loop (foo_ext (sample_uuri_api [])) foo_transport
       [RecvOk 1, RecvOk 2, RecvClosed] foo_start
     = (True, send_all (foo_ext (sample_uuri_api [])) foo_transport [1, 2] foo_start)"
proof -
  have "filter (payload_supported sample_message_api) [1, 0, 2] = [1, 2]"
    by (simp add: payload_supported_def sample_message_api_def)
  then show ?thesis
    using worker_forwards_in_order
      [OF sample_channel, of "foo_ext (sample_uuri_api [])" foo_transport foo_start]
    by (auto simp: no_lag_def)
qed

text \<open>
  The listener publishes exactly the messages whose payload is not in shared memory, in the order
  it receives them, and to the channel of its own route.
\<close>

theorem listener_drops_shm_only:
  "fold (on_receive M X l) ms w = publish_all X (lsn_sender l) (filter (payload_supported M) ms) w"
  by (induction ms arbitrary: w) (simp_all add: publish_all_def on_receive_cases)

text \<open>
  The name of a worker's thread has exactly 15 bytes, the most Linux allows, for every worker id,
  so the fallback for invalid names never applies to it; the thread is the one the name was built for.
\<close>

theorem worker_thread_name_bounds:
  "length (build_runtime_thread_name worker_id) = LINUX_THREAD_NAME_MAX_LEN \<and>
   sanitize_runtime_thread_name (build_runtime_thread_name worker_id)
     = build_runtime_thread_name worker_id \<and>
   (case egress_worker_new X t rx w of
      None \<Rightarrow> \<not> in_runtime X (snd (uuid_build X w))
    | Some (wk, w') \<Rightarrow> runtime_thread wk = build_runtime_thread_name (ew_worker_id wk))"
  using sanitize_keeps [of "build_runtime_thread_name n" for n]
  by (auto simp: runtime_name_length LINUX_THREAD_NAME_MAX_LEN_def egress_worker_new_def
      spawn_route_dispatch_loop_def runtime_thread_def worker_thread_def Let_def
      split: prod.splits option.splits bool.splits)

end
