(* ===== verification/Egress_Pool.thy ===== *)
theory Egress_Pool
  imports Egress_Worker Refcount
begin

text \<open>
  The egress route pool (data_plane/egress_pool.rs): one worker per egress transport, shared by all
  routes that end there and kept while one of them is attached.
\<close>

section \<open>State and operations\<close>

record egress_route_binding =
  eb_ref_count :: nat
  eb_worker :: egress_route_worker
  eb_sender :: nat

record egress_route_pool =
  ep_message_queue_size :: nat
  ep_workers :: "(transport_identity_key, egress_route_binding) hashmap"

definition egress_pool_new :: "nat \<Rightarrow> egress_route_pool" where
  "egress_pool_new n = \<lparr>ep_message_queue_size = n, ep_workers = []\<rparr>"

text \<open>
  \<open>None\<close> is a panic: \<open>broadcast::channel\<close> panics on a capacity of 0, and a worker's thread may fail
  to spawn. The sending and the receiving half of a channel have the same number.
\<close>

definition attach_route ::
  "('m, 'w) ext \<Rightarrow> arc_transport \<Rightarrow> string \<Rightarrow> egress_route_pool \<Rightarrow> 'w \<Rightarrow>
   (nat \<times> egress_route_pool \<times> 'w) option" where
  "attach_route X t label pool w =
     (let key = transport_key_new t in
      case hm_get (ep_workers pool) key of
        Some slot \<Rightarrow>
          Some (eb_sender slot,
            pool\<lparr>ep_workers := hm_insert key (slot\<lparr>eb_ref_count := eb_ref_count slot + 1\<rparr>)
                               (ep_workers pool)\<rparr>, w)
      | None \<Rightarrow>
          (case bc_channel X (ep_message_queue_size pool) w of
             None \<Rightarrow> None
           | Some (ch, w1) \<Rightarrow>
               (case egress_worker_new X t ch w1 of
                  None \<Rightarrow> None
                | Some (worker, w2) \<Rightarrow>
                    Some (ch,
                      pool\<lparr>ep_workers := hm_insert key
                             \<lparr>eb_ref_count = 1, eb_worker = worker, eb_sender = ch\<rparr>
                             (ep_workers pool)\<rparr>, w2))))"

text \<open>\<open>slot.ref_count -= 1\<close> panics on 0.\<close>

definition detach_route :: "arc_transport \<Rightarrow> egress_route_pool \<Rightarrow> egress_route_pool option" where
  "detach_route t pool =
     (let key = transport_key_new t in
      case hm_get (ep_workers pool) key of
        None \<Rightarrow> Some pool
      | Some slot \<Rightarrow>
          if eb_ref_count slot = 0 then None
          else if eb_ref_count slot - 1 = 0 then
            Some (pool\<lparr>ep_workers := hm_remove key (ep_workers pool)\<rparr>)
          else
            Some (pool\<lparr>ep_workers := hm_insert key (slot\<lparr>eb_ref_count := eb_ref_count slot - 1\<rparr>)
                                     (ep_workers pool)\<rparr>))"

section \<open>Counting\<close>

definition egress_count :: "egress_route_pool \<Rightarrow> arc_transport \<Rightarrow> nat" where
  "egress_count pool t =
     (case hm_get (ep_workers pool) (transport_key_new t) of None \<Rightarrow> 0 | Some b \<Rightarrow> eb_ref_count b)"

definition egress_pool_wf :: "egress_route_pool \<Rightarrow> bool" where
  "egress_pool_wf pool \<longleftrightarrow> hm_wf (ep_workers pool) \<and>
     (\<forall>k b. hm_get (ep_workers pool) k = Some b \<longrightarrow> 0 < eb_ref_count b)"

text \<open>The worker and the channel of a transport, without the count.\<close>

definition egress_view :: "egress_route_pool \<Rightarrow> arc_transport \<Rightarrow> (egress_route_worker \<times> nat) option" where
  "egress_view pool t =
     map_option (\<lambda>b. (eb_worker b, eb_sender b)) (hm_get (ep_workers pool) (transport_key_new t))"

lemma egress_pool_wf_new [simp]: "egress_pool_wf (egress_pool_new n)"
  by (simp add: egress_pool_wf_def egress_pool_new_def)

lemma egress_count_new [simp]: "egress_count (egress_pool_new n) = (\<lambda>t. 0)"
  by (simp add: egress_count_def egress_pool_new_def fun_eq_iff)

lemma egress_pos:
  "egress_pool_wf pool \<Longrightarrow> hm_get (ep_workers pool) k = Some b \<Longrightarrow> 0 < eb_ref_count b"
  by (simp add: egress_pool_wf_def)

lemma egress_count_pos_iff: "egress_pool_wf pool \<Longrightarrow> 0 < egress_count pool t \<longleftrightarrow> egress_view pool t \<noteq> None"
  using egress_pos [of pool "transport_key_new t"]
  by (auto simp: egress_count_def egress_view_def split: option.splits)

lemma egress_count_zero_iff: "egress_pool_wf pool \<Longrightarrow> egress_count pool t = 0 \<longleftrightarrow> egress_view pool t = None"
  using egress_count_pos_iff [of pool t] by (metis neq0_conv)

lemma attach_route_existing:
  assumes "egress_view pool t = Some (wk, ch)"
  shows "\<exists>pool'. attach_route X t label pool w = Some (ch, pool', w) \<and>
     egress_view pool' = egress_view pool \<and>
     egress_count pool' = (egress_count pool)(t := egress_count pool t + 1)"
  using assms
  by (auto simp: attach_route_def egress_view_def egress_count_def fun_eq_iff Let_def)

lemma attach_route_wf:
  assumes "egress_pool_wf pool" and "attach_route X t label pool w = Some (ch, pool', w')"
  shows "egress_pool_wf pool'"
    and "egress_count pool' = (egress_count pool)(t := egress_count pool t + 1)"
    and "\<exists>wk. egress_view pool' = (egress_view pool)(t \<mapsto> (wk, ch))"
    and "ep_message_queue_size pool' = ep_message_queue_size pool"
proof -
  let ?key = "transport_key_new t"
  have "egress_pool_wf pool' \<and> egress_count pool' = (egress_count pool)(t := egress_count pool t + 1) \<and>
    (\<exists>wk. egress_view pool' = (egress_view pool)(t \<mapsto> (wk, ch))) \<and>
    ep_message_queue_size pool' = ep_message_queue_size pool"
  proof (cases "hm_get (ep_workers pool) ?key")
    case None
    with assms show ?thesis
      by (auto simp: attach_route_def egress_pool_wf_def egress_count_def egress_view_def fun_eq_iff
          Let_def split: option.splits prod.splits if_splits)
  next
    case (Some slot)
    with assms show ?thesis
      by (auto simp: attach_route_def egress_pool_wf_def egress_count_def egress_view_def fun_eq_iff
          Let_def split: if_splits)
  qed
  then show "egress_pool_wf pool'"
    and "egress_count pool' = (egress_count pool)(t := egress_count pool t + 1)"
    and "\<exists>wk. egress_view pool' = (egress_view pool)(t \<mapsto> (wk, ch))"
    and "ep_message_queue_size pool' = ep_message_queue_size pool" by auto
qed

lemma attach_existing_view:
  "attach_route X t label pool w = Some (ch, pool', w') \<Longrightarrow> egress_view pool t \<noteq> None \<Longrightarrow>
     egress_view pool' = egress_view pool"
  using attach_route_existing [of pool t _ _ X label w] by fastforce

lemma detach_route_wf:
  assumes "egress_pool_wf pool"
  shows "\<exists>pool'. detach_route t pool = Some pool' \<and> egress_pool_wf pool' \<and>
     egress_count pool' = (egress_count pool)(t := egress_count pool t - 1) \<and>
     egress_view pool' =
       (if egress_count pool t \<le> 1 then (egress_view pool)(t := None) else egress_view pool) \<and>
     ep_message_queue_size pool' = ep_message_queue_size pool"
proof (cases "hm_get (ep_workers pool) (transport_key_new t)")
  case None
  with assms show ?thesis
    by (simp add: detach_route_def egress_count_def egress_view_def fun_eq_iff)
next
  case (Some slot)
  with assms have "0 < eb_ref_count slot" by (rule egress_pos)
  with Some assms show ?thesis
    by (auto simp: detach_route_def egress_pool_wf_def egress_count_def egress_view_def fun_eq_iff
        Let_def split: if_splits)
qed

text \<open>Attaching and detaching again leaves the workers and the counts as they were.\<close>

lemma attach_detach_view:
  assumes wf: "egress_pool_wf pool" and att: "attach_route X t label pool w = Some (ch, pool1, w1)"
    and det: "detach_route t pool1 = Some pool2"
  shows "egress_view pool2 = egress_view pool" and "egress_count pool2 = egress_count pool"
proof -
  note attached = attach_route_wf [OF wf att]
  from detach_route_wf [OF attached(1), of t] det
  have view: "egress_view pool2 = (if egress_count pool1 t \<le> 1
        then (egress_view pool1)(t := None) else egress_view pool1)"
    and count: "egress_count pool2 = (egress_count pool1)(t := egress_count pool1 t - 1)"
    by auto
  show "egress_count pool2 = egress_count pool"
    using count attached(2) by (auto simp: fun_eq_iff)
  show "egress_view pool2 = egress_view pool"
  proof (cases "egress_view pool t")
    case None
    then have "egress_count pool t = 0" using egress_count_pos_iff [OF wf, of t] by simp
    with None view attached(2,3) show ?thesis by (auto simp: fun_eq_iff)
  next
    case (Some x)
    then have "0 < egress_count pool t" using egress_count_pos_iff [OF wf, of t] by simp
    with Some view attached(2) attach_existing_view [OF att] show ?thesis by simp
  qed
qed

interpretation egress: refcounted
  "\<lambda>s. egress_count (fst s)"
  "\<lambda>t (pool, w). map_option snd (attach_route (X :: ('m, 'w) ext) t label pool w)"
  "\<lambda>t (pool, w). map_option (\<lambda>pool'. (pool', w)) (detach_route t pool)"
  "\<lambda>s. egress_pool_wf (fst s)"
proof unfold_locales
  fix s :: "egress_route_pool \<times> 'w" and t
  assume "egress_pool_wf (fst s)" and "0 < egress_count (fst s) t"
  then obtain wk ch where "egress_view (fst s) t = Some (wk, ch)"
    by (auto simp: egress_count_pos_iff)
  from attach_route_existing [OF this, of X label "snd s"]
  show "(case s of (pool, w) \<Rightarrow> map_option snd (attach_route X t label pool w)) \<noteq> None"
    by (auto simp: case_prod_beta)
next
  fix s :: "egress_route_pool \<times> 'w" and t
  assume "egress_pool_wf (fst s)"
  from detach_route_wf [OF this, of t]
  show "(case s of (pool, w) \<Rightarrow> map_option (\<lambda>pool'. (pool', w)) (detach_route t pool)) \<noteq> None"
    by (auto simp: case_prod_beta)
next
  fix s s' :: "egress_route_pool \<times> 'w" and t
  assume "egress_pool_wf (fst s)"
    and "(case s of (pool, w) \<Rightarrow> map_option (\<lambda>pool'. (pool', w)) (detach_route t pool)) = Some s'"
  with detach_route_wf [of "fst s" t] show "egress_pool_wf (fst s')"
    and "egress_count (fst s') = (egress_count (fst s))(t := egress_count (fst s) t - 1)"
    by (auto simp: case_prod_beta)
qed (auto dest: attach_route_wf)

section \<open>Properties\<close>

text \<open>Any sequence of attaching and detaching routes, on a pool and its world.\<close>

definition pool_run ::
  "('m, 'w) ext \<Rightarrow> string \<Rightarrow> arc_transport rc_call list \<Rightarrow> egress_route_pool \<times> 'w \<Rightarrow>
   (egress_route_pool \<times> 'w) option" where
  "pool_run X label =
     rc_run (\<lambda>t (pool, w). map_option snd (attach_route X t label pool w))
            (\<lambda>t (pool, w). map_option (\<lambda>pool'. (pool', w)) (detach_route t pool))"

text \<open>
  After any sequence of attaching and detaching routes that does not panic, the reference count of
  a transport is the number of routes attached and not detached again (a detach too many is
  ignored), and the pool has a worker for the transport exactly while that number is not 0.
\<close>

theorem egress_pool_counts_routes:
  assumes "pool_run X label calls (egress_pool_new n, w) = Some (pool, w')"
  shows "egress_count pool t = rc_count t calls 0 \<and>
    (egress_view pool t = None \<longleftrightarrow> rc_count t calls 0 = 0)"
proof -
  have run: "rc_run (\<lambda>t (pool, w). map_option snd (attach_route X t label pool w))
      (\<lambda>t (pool, w). map_option (\<lambda>pool'. (pool', w)) (detach_route t pool)) calls
      (egress_pool_new n, w) = Some (pool, w')"
    using assms by (simp add: pool_run_def)
  have "egress_count pool t = rc_count t calls 0"
    using egress.run_count [OF run, of t] by simp
  moreover have "egress_pool_wf pool"
    using egress.run_inv [OF run] by simp
  ultimately show ?thesis using egress_count_pos_iff [of pool t] by (metis neq0_conv)
qed

definition sample_pool_calls :: "arc_transport rc_call list" where
  "sample_pool_calls = [Acquire foo_transport, Acquire foo_transport, Release foo_transport]"

definition sample_pool :: "(egress_route_pool \<times> nat foo_world) option" where
  "sample_pool = pool_run (foo_ext (sample_uuri_api [])) ''r'' sample_pool_calls
     (egress_pool_new 16, foo_start)"

theorem egress_pool_counts_routes_witness:
  "\<exists>pool w'. sample_pool = Some (pool, w') \<and> egress_count pool foo_transport = 1 \<and>
     egress_view pool foo_transport \<noteq> None"
proof -
  have "sample_pool \<noteq> None" by code_simp
  then obtain pool w' where res: "pool_run (foo_ext (sample_uuri_api [])) ''r'' sample_pool_calls
      (egress_pool_new 16, foo_start) = Some (pool, w')" and s: "sample_pool = Some (pool, w')"
    by (auto simp: sample_pool_def)
  have "rc_count foo_transport sample_pool_calls 0 = 1" by code_simp
  with egress_pool_counts_routes [OF res, of foo_transport] s show ?thesis by auto
qed

text \<open>
  Routes with the same egress transport share one worker and one channel: attaching a transport
  that is attached already answers the channel it has and starts nothing.
\<close>

theorem attach_route_shares_worker:
  assumes "egress_view pool t = Some (wk, ch)"
  shows "\<exists>pool'. attach_route X t label pool w = Some (ch, pool', w) \<and>
    egress_view pool' t = Some (wk, ch) \<and> egress_count pool' t = egress_count pool t + 1"
  using attach_route_existing [OF assms, of X label w] assms by auto

theorem attach_route_shares_worker_witness:
  "\<exists>pool w pool' ch. sample_pool = Some (pool, w) \<and>
     attach_route (foo_ext (sample_uuri_api [])) foo_transport ''s'' pool w = Some (ch, pool', w)"
proof -
  have "(case sample_pool of None \<Rightarrow> False
      | Some (pool, w) \<Rightarrow> egress_view pool foo_transport \<noteq> None)"
    by code_simp
  then obtain pool w wk ch where "sample_pool = Some (pool, w)"
    and view: "egress_view pool foo_transport = Some (wk, ch)"
    by (auto split: option.splits)
  with attach_route_shares_worker [OF view, of "foo_ext (sample_uuri_api [])" "''s''" w]
  show ?thesis by blast
qed

end
