(* ===== verification/Route_Lifecycle.thy ===== *)
theory Route_Lifecycle
  imports Egress_Pool Ingress_Properties
begin

text \<open>
  The control plane: the route table (control_plane/route_table.rs), endpoints (endpoint.rs) and the
  two orchestrations that move a route through table, egress pool and ingress registry
  (control_plane/route_lifecycle.rs).

  An operation that may panic answers \<open>None\<close> for its result, with the state as the panic leaves it.
\<close>

section \<open>Endpoints and the route table\<close>

record endpoint =
  ep_name :: string
  ep_authority :: string
  ep_transport :: arc_transport

definition endpoint_new :: "string \<Rightarrow> string \<Rightarrow> arc_transport \<Rightarrow> endpoint" where
  "endpoint_new name authority transport =
     \<lparr>ep_name = name, ep_authority = authority, ep_transport = transport\<rparr>"

record route_key =
  rk_ingress_authority :: string
  rk_egress_authority :: string
  rk_ingress_transport :: transport_identity_key
  rk_egress_transport :: transport_identity_key

definition route_key_from_endpoints :: "endpoint \<Rightarrow> endpoint \<Rightarrow> route_key" where
  "route_key_from_endpoints in_ep out_ep =
     \<lparr>rk_ingress_authority = ep_authority in_ep, rk_egress_authority = ep_authority out_ep,
      rk_ingress_transport = transport_key_new (ep_transport in_ep),
      rk_egress_transport = transport_key_new (ep_transport out_ep)\<rparr>"

type_synonym route_table = "route_key set"

definition route_table_new :: route_table where "route_table_new = {}"

definition insert_route :: "route_key \<Rightarrow> route_table \<Rightarrow> bool \<times> route_table" where
  "insert_route k T = (k \<notin> T, insert k T)"

definition table_remove_route :: "route_key \<Rightarrow> route_table \<Rightarrow> bool \<times> route_table" where
  "table_remove_route k T = (k \<in> T, T - {k})"

section \<open>The lifecycle of a route\<close>

datatype add_route_error =
    AddSameAuthority
  | AlreadyExists
  | FailedToRegisterIngressRoute ingress_route_registration_error

datatype remove_route_error = RemoveSameAuthority | NotFound

text \<open>What the lifecycle works on: the table, the pool and the registry.\<close>

record routing_state =
  rs_table :: route_table
  rs_pool :: egress_route_pool
  rs_registry :: ingress_registry

definition add_route ::
  "('m, 'w) env \<Rightarrow> subscription_directory \<Rightarrow> endpoint \<Rightarrow> endpoint \<Rightarrow> string \<Rightarrow> routing_state \<Rightarrow> 'w \<Rightarrow>
   (add_route_error, unit) result option \<times> routing_state \<times> 'w" where
  "add_route E d in_ep out_ep label s w =
     (if ep_authority in_ep = ep_authority out_ep then (Some (Err AddSameAuthority), s, w)
      else
        (let key = route_key_from_endpoints in_ep out_ep;
             (inserted, T) = insert_route key (rs_table s)
         in if \<not> inserted then (Some (Err AlreadyExists), s\<lparr>rs_table := T\<rparr>, w)
            else
              (case attach_route (e_ext E) (ep_transport out_ep) label (rs_pool s) w of
                 None \<Rightarrow> (None, s\<lparr>rs_table := T\<rparr>, w)
               | Some (out_sender, pool, w1) \<Rightarrow>
                   (case register_route E (ep_transport in_ep) (ep_authority in_ep)
                           (ep_authority out_ep) label out_sender d (rs_registry s) w1 of
                      (Inl err, reg, w2) \<Rightarrow>
                        (let (_, T') = table_remove_route key T
                         in case detach_route (ep_transport out_ep) pool of
                              None \<Rightarrow> (None, \<lparr>rs_table = T', rs_pool = pool, rs_registry = reg\<rparr>, w2)
                            | Some pool' \<Rightarrow>
                                (Some (Err (FailedToRegisterIngressRoute err)),
                                 \<lparr>rs_table = T', rs_pool = pool', rs_registry = reg\<rparr>, w2))
                    | (Inr _, reg, w2) \<Rightarrow>
                        (Some (Ok ()), \<lparr>rs_table = T, rs_pool = pool, rs_registry = reg\<rparr>, w2)))))"

definition remove_route ::
  "('m, 'w) env \<Rightarrow> subscription_directory \<Rightarrow> endpoint \<Rightarrow> endpoint \<Rightarrow> string \<Rightarrow> routing_state \<Rightarrow> 'w \<Rightarrow>
   (remove_route_error, unit) result option \<times> routing_state \<times> 'w" where
  "remove_route E d in_ep out_ep label s w =
     (if ep_authority in_ep = ep_authority out_ep then (Some (Err RemoveSameAuthority), s, w)
      else
        (let key = route_key_from_endpoints in_ep out_ep;
             (removed, T) = table_remove_route key (rs_table s)
         in if \<not> removed then (Some (Err NotFound), s\<lparr>rs_table := T\<rparr>, w)
            else
              (case detach_route (ep_transport out_ep) (rs_pool s) of
                 None \<Rightarrow> (None, s\<lparr>rs_table := T\<rparr>, w)
               | Some pool \<Rightarrow>
                   (case unregister_route E (ep_transport in_ep) (ep_authority in_ep)
                           (ep_authority out_ep) (rs_registry s) w of
                      None \<Rightarrow> (None, s\<lparr>rs_table := T, rs_pool := pool\<rparr>, w)
                    | Some (reg, w1) \<Rightarrow>
                        (Some (Ok ()), \<lparr>rs_table = T, rs_pool = pool, rs_registry = reg\<rparr>, w1)))))"

section \<open>The invariant across the three owners\<close>

definition rk_binding :: "route_key \<Rightarrow> ingress_binding_key" where
  "rk_binding k =
     \<lparr>bk_transport = rk_ingress_transport k, bk_ingress_authority = rk_ingress_authority k,
      bk_egress_authority = rk_egress_authority k\<rparr>"

definition routes_with :: "(route_key \<Rightarrow> bool) \<Rightarrow> route_table \<Rightarrow> nat" where
  "routes_with P T = card {k \<in> T. P k}"

definition routes_to :: "route_table \<Rightarrow> arc_transport \<Rightarrow> nat" where
  "routes_to T t = routes_with (\<lambda>k. rk_egress_transport k = transport_key_new t) T"

definition routes_bound :: "route_table \<Rightarrow> ingress_binding_key \<Rightarrow> nat" where
  "routes_bound T b = routes_with (\<lambda>k. rk_binding k = b) T"

text \<open>
  Every route of the table is counted once at its egress transport and once at its ingress binding;
  the transports hold \<open>R\<close> and what the bindings own.
\<close>

definition routing_inv ::
  "('w \<Rightarrow> (arc_transport \<times> 'k \<times> nat) set) \<Rightarrow> (uuri \<Rightarrow> uuri option \<Rightarrow> 'k) \<Rightarrow>
   (uuri \<Rightarrow> uuri option \<Rightarrow> bool) \<Rightarrow> (arc_transport \<times> 'k \<times> nat) set \<Rightarrow> routing_state \<Rightarrow> 'w \<Rightarrow> bool" where
  "routing_inv regs fk supported R s w \<longleftrightarrow>
     finite (rs_table s) \<and>
     (\<forall>k \<in> rs_table s. rk_ingress_authority k \<noteq> rk_egress_authority k) \<and>
     egress_pool_wf (rs_pool s) \<and>
     egress_count (rs_pool s) = routes_to (rs_table s) \<and>
     binding_count (rs_registry s) = routes_bound (rs_table s) \<and>
     registry_inv regs fk supported R (rs_registry s) w"

definition routing_new :: "nat \<Rightarrow> routing_state" where
  "routing_new n = \<lparr>rs_table = route_table_new, rs_pool = egress_pool_new n,
     rs_registry = ingress_registry_new\<rparr>"

lemma rk_binding_from [simp]:
  "rk_binding (route_key_from_endpoints i out) =
     ingress_binding_key_new (ep_transport i) (ep_authority i) (ep_authority out)"
  by (simp add: rk_binding_def route_key_from_endpoints_def ingress_binding_key_new_def)

lemma rk_egress_from [simp]:
  "rk_egress_transport (route_key_from_endpoints i out) = transport_key_new (ep_transport out)"
  by (simp add: route_key_from_endpoints_def)

lemma routes_with_empty [simp]: "routes_with P {} = 0"
  by (simp add: routes_with_def)

lemma routes_with_insert:
  assumes "finite T" and "k \<notin> T"
  shows "routes_with P (insert k T) = routes_with P T + (if P k then 1 else 0)"
proof -
  have "{j \<in> insert k T. P j} = (if P k then insert k {j \<in> T. P j} else {j \<in> T. P j})"
    by auto
  with assms show ?thesis by (simp add: routes_with_def)
qed

lemma routes_with_remove:
  assumes "finite T" and "k \<in> T"
  shows "routes_with P (T - {k}) = routes_with P T - (if P k then 1 else 0)"
  using routes_with_insert [of "T - {k}" k P] assms by (simp add: insert_absorb)

lemma routes_to_insert:
  "finite T \<Longrightarrow> k \<notin> T \<Longrightarrow> rk_egress_transport k = transport_key_new t \<Longrightarrow>
     routes_to (insert k T) = (routes_to T)(t := routes_to T t + 1)"
  by (auto simp: routes_to_def fun_eq_iff routes_with_insert)

lemma routes_bound_insert:
  "finite T \<Longrightarrow> k \<notin> T \<Longrightarrow> routes_bound (insert k T) = (routes_bound T)(rk_binding k := routes_bound T (rk_binding k) + 1)"
  by (auto simp: routes_bound_def fun_eq_iff routes_with_insert)

lemma routes_to_remove:
  "finite T \<Longrightarrow> k \<in> T \<Longrightarrow> rk_egress_transport k = transport_key_new t \<Longrightarrow>
     routes_to (T - {k}) = (routes_to T)(t := routes_to T t - 1)"
  by (auto simp: routes_to_def fun_eq_iff routes_with_remove)

lemma routes_bound_remove:
  "finite T \<Longrightarrow> k \<in> T \<Longrightarrow> routes_bound (T - {k}) = (routes_bound T)(rk_binding k := routes_bound T (rk_binding k) - 1)"
  by (auto simp: routes_bound_def fun_eq_iff routes_with_remove)

lemma routing_inv_new: "routing_inv regs fk supported (regs w) (routing_new n) w"
proof -
  have "binding_count ingress_registry_new = (\<lambda>key. 0)"
    by (simp add: binding_count_def ingress_registry_new_def fun_eq_iff)
  then show ?thesis
    by (simp add: routing_inv_def routing_new_def route_table_new_def registry_inv_new routes_to_def
        routes_bound_def fun_eq_iff)
qed

section \<open>Adding and removing keep it\<close>

context transport_contract
begin

lemma egress_worker_frame:
  assumes "egress_worker_new X t rx w = Some (wk, w')"
  shows "registrations w' = registrations w"
  using assms
  by (auto simp: egress_worker_new_def spawn_route_dispatch_loop_def Let_def task_frame
      split: prod.splits option.splits if_splits bool.splits dest: uuid_frame thread_frame)

lemma attach_route_frame:
  assumes "attach_route X t label pool w = Some (ch, pool', w')"
  shows "registrations w' = registrations w"
  using assms
  by (auto simp: attach_route_def Let_def
      split: option.splits prod.splits dest: channel_frame egress_worker_frame)

text \<open>
  Adding a route: the invariant is kept unless the call panics, and an error leaves table, counts,
  workers and registrations as they were.
\<close>

lemma add_route_inv:
  assumes inv: "routing_inv registrations filter_key supported R s w" and X: "e_ext E = X"
    and sup: "supported (fst (request_filter (ep_authority i) (ep_authority out)))
      (snd (request_filter (ep_authority i) (ep_authority out)))"
    and res: "add_route E d i out label s w = (Some r, s', w')"
  shows "routing_inv registrations filter_key supported R s' w'"
    and "is_ok r \<Longrightarrow> rs_table s' = insert (route_key_from_endpoints i out) (rs_table s) \<and>
      route_key_from_endpoints i out \<notin> rs_table s \<and> ep_authority i \<noteq> ep_authority out"
    and "\<not> is_ok r \<Longrightarrow> rs_table s' = rs_table s \<and> egress_view (rs_pool s') = egress_view (rs_pool s) \<and>
      ir_bindings (rs_registry s') = ir_bindings (rs_registry s) \<and>
      registrations w' = registrations w"
proof -
  let ?key = "route_key_from_endpoints i out"
  let ?t = "ep_transport out"
  have "routing_inv registrations filter_key supported R s' w' \<and>
    (if is_ok r then rs_table s' = insert ?key (rs_table s) \<and> ?key \<notin> rs_table s \<and>
        ep_authority i \<noteq> ep_authority out
     else rs_table s' = rs_table s \<and> egress_view (rs_pool s') = egress_view (rs_pool s) \<and>
      ir_bindings (rs_registry s') = ir_bindings (rs_registry s) \<and>
      registrations w' = registrations w)"
  proof (cases "ep_authority i = ep_authority out \<or> ?key \<in> rs_table s")
    case True
    then have "s' = s \<and> w' = w \<and> \<not> is_ok r"
      using res by (auto simp: add_route_def insert_route_def Let_def insert_absorb split: if_splits)
    with inv show ?thesis by simp
  next
    case False
    then have diff: "ep_authority i \<noteq> ep_authority out" and new: "?key \<notin> rs_table s" by auto
    obtain ch pool w1 where att: "attach_route X ?t label (rs_pool s) w = Some (ch, pool, w1)"
      using res X diff new
      by (auto simp: add_route_def insert_route_def Let_def split: option.splits)
    obtain q reg w2 where reg: "register_route E (ep_transport i) (ep_authority i)
        (ep_authority out) label ch d (rs_registry s) w1 = (q, reg, w2)"
      by (metis prod_cases3)
    have wf: "egress_pool_wf (rs_pool s)" and fin: "finite (rs_table s)"
      and cnt: "egress_count (rs_pool s) = routes_to (rs_table s)"
      and bnd: "binding_count (rs_registry s) = routes_bound (rs_table s)"
      and auths: "\<forall>k \<in> rs_table s. rk_ingress_authority k \<noteq> rk_egress_authority k"
      and rinv: "registry_inv registrations filter_key supported R (rs_registry s) w"
      using inv by (simp_all add: routing_inv_def)
    have bwf: "bindings_wf (rs_registry s)" using rinv by (simp add: registry_inv_def)
    note attached = attach_route_wf [OF wf att]
    have frame: "registrations w1 = registrations w" by (rule attach_route_frame [OF att])
    have rinv1: "registry_inv registrations filter_key supported R (rs_registry s) w1"
      using rinv frame registry_inv_cong [of "rs_registry s" "rs_registry s" registrations w1 w] by blast
    note regd = register_route_inv [OF rinv1 X sup reg]
    note count = register_route_count [OF reg bwf]
    show ?thesis
    proof (cases q)
      case (Inr x)
      have "s' = \<lparr>rs_table = insert ?key (rs_table s), rs_pool = pool, rs_registry = reg\<rparr>"
        and "w' = w2" and "r = Inr ()"
        using res X diff new att reg Inr
        by (auto simp: add_route_def insert_route_def Let_def)
      moreover have "egress_count pool = routes_to (insert ?key (rs_table s))"
        using attached(2) routes_to_insert [OF fin new, of ?t] cnt by simp
      moreover have "binding_count reg = routes_bound (insert ?key (rs_table s))"
        using count routes_bound_insert [OF fin new] bnd Inr by simp
      moreover have "rk_ingress_authority ?key \<noteq> rk_egress_authority ?key"
        using diff by (simp add: route_key_from_endpoints_def)
      ultimately show ?thesis
        using regd attached(1) fin auths new diff by (simp add: routing_inv_def)
    next
      case (Inl err)
      obtain pool' where det: "detach_route ?t pool = Some pool'" and wf': "egress_pool_wf pool'"
        using detach_route_wf [OF attached(1), of ?t] by blast
      note restored = attach_detach_view [OF wf att det]
      have s': "s' = \<lparr>rs_table = rs_table s, rs_pool = pool', rs_registry = reg\<rparr>"
        and w': "w' = w2" and "\<not> is_ok r"
        using res X diff new att reg Inl det
        by (auto simp: add_route_def insert_route_def table_remove_route_def Let_def)
      moreover have "ir_bindings reg = ir_bindings (rs_registry s)" and "registrations w2 = registrations w"
        using regd Inl frame by auto
      ultimately show ?thesis
        using regd wf' fin auths cnt bnd restored binding_count_cong [of reg "rs_registry s"]
        by (simp add: routing_inv_def)
    qed
  qed
  then show "routing_inv registrations filter_key supported R s' w'"
    and "is_ok r \<Longrightarrow> rs_table s' = insert (route_key_from_endpoints i out) (rs_table s) \<and>
      route_key_from_endpoints i out \<notin> rs_table s \<and> ep_authority i \<noteq> ep_authority out"
    and "\<not> is_ok r \<Longrightarrow> rs_table s' = rs_table s \<and> egress_view (rs_pool s') = egress_view (rs_pool s) \<and>
      ir_bindings (rs_registry s') = ir_bindings (rs_registry s) \<and>
      registrations w' = registrations w"
    by auto
qed

text \<open>Removing one never panics; a route that is not there changes nothing.\<close>

lemma remove_route_inv:
  assumes inv: "routing_inv registrations filter_key supported R s w" and X: "e_ext E = X"
  shows "\<exists>r s' w'. remove_route E d i out label s w = (Some r, s', w') \<and>
    routing_inv registrations filter_key supported R s' w' \<and>
    (is_ok r \<longleftrightarrow> route_key_from_endpoints i out \<in> rs_table s) \<and>
    rs_table s' = rs_table s - {route_key_from_endpoints i out} \<and>
    (\<not> is_ok r \<longrightarrow> s' = s \<and> w' = w)"
proof -
  let ?key = "route_key_from_endpoints i out"
  have wf: "egress_pool_wf (rs_pool s)" and fin: "finite (rs_table s)"
    and cnt: "egress_count (rs_pool s) = routes_to (rs_table s)"
    and bnd: "binding_count (rs_registry s) = routes_bound (rs_table s)"
    and auths: "\<forall>k \<in> rs_table s. rk_ingress_authority k \<noteq> rk_egress_authority k"
    and rinv: "registry_inv registrations filter_key supported R (rs_registry s) w"
    using inv by (simp_all add: routing_inv_def)
  show ?thesis
  proof (cases "?key \<in> rs_table s")
    case False
    then have "table_remove_route ?key (rs_table s) = (False, rs_table s)"
      by (simp add: table_remove_route_def)
    with False inv show ?thesis by (simp add: remove_route_def Let_def)
  next
    case True
    then have "rk_ingress_authority ?key \<noteq> rk_egress_authority ?key" using auths by blast
    then have diff: "ep_authority i \<noteq> ep_authority out" by (simp add: route_key_from_endpoints_def)
    obtain pool where det: "detach_route (ep_transport out) (rs_pool s) = Some pool"
      and wf': "egress_pool_wf pool"
      and cnt': "egress_count pool = (egress_count (rs_pool s))
        (ep_transport out := egress_count (rs_pool s) (ep_transport out) - 1)"
      using detach_route_wf [OF wf, of "ep_transport out"] by blast
    obtain reg w1 where un: "unregister_route E (ep_transport i) (ep_authority i) (ep_authority out)
        (rs_registry s) w = Some (reg, w1)"
      and rinv': "registry_inv registrations filter_key supported R reg w1"
      and bnd': "binding_count reg = (binding_count (rs_registry s))(rk_binding ?key :=
        binding_count (rs_registry s) (rk_binding ?key) - 1)"
      using unregister_route_inv [OF rinv X, of "ep_transport i" "ep_authority i" "ep_authority out"]
      by auto
    have "egress_count pool = routes_to (rs_table s - {?key})"
      using cnt' cnt routes_to_remove [OF fin True, of "ep_transport out"] by simp
    moreover have "binding_count reg = routes_bound (rs_table s - {?key})"
      using bnd' bnd routes_bound_remove [OF fin True] by simp
    moreover have "remove_route E d i out label s w = (Some (Inr ()),
        \<lparr>rs_table = rs_table s - {?key}, rs_pool = pool, rs_registry = reg\<rparr>, w1)"
      using True diff det un by (simp add: remove_route_def table_remove_route_def Let_def)
    ultimately show ?thesis
      using True wf' rinv' fin auths by (simp add: routing_inv_def)
  qed
qed

end

text \<open>What is cached for publish filters stays coherent with the directory in both.\<close>

lemma add_route_coherent:
  assumes "add_route E d i out label s w = (r, s', w')"
    and "cache_coherent E d (rs_registry s)" and "version_ok d"
  shows "cache_coherent E d (rs_registry s')"
proof (cases "attach_route (e_ext E) (ep_transport out) label (rs_pool s) w")
  case None
  with assms show ?thesis by (auto simp: add_route_def Let_def split: if_splits prod.splits)
next
  case (Some x)
  obtain ch pool w1 where x: "x = (ch, pool, w1)" by (metis prod_cases3)
  obtain q reg w2 where reg: "register_route E (ep_transport i) (ep_authority i) (ep_authority out)
      label ch d (rs_registry s) w1 = (q, reg, w2)"
    by (metis prod_cases3)
  note register_route_coherent [OF reg assms(2,3)]
  with assms Some x reg show ?thesis
    by (auto simp: add_route_def Let_def split: if_splits prod.splits sum.splits option.splits)
qed

lemma remove_route_coherent:
  assumes "remove_route E d i out label s w = (r, s', w')" and "cache_coherent E d (rs_registry s)"
  shows "cache_coherent E d (rs_registry s')"
  using assms unregister_route_cache [of E "ep_transport i" "ep_authority i" "ep_authority out" "rs_registry s" w]
  by (auto simp: remove_route_def Let_def cache_coherent_def split: if_splits prod.splits option.splits)

section \<open>The steps of a successful call\<close>

lemma add_route_Ok_parts:
  assumes "add_route E d i out label s w = (Some (Inr u), s', w')"
  shows "\<exists>ch pool w1 x reg.
    attach_route (e_ext E) (ep_transport out) label (rs_pool s) w = Some (ch, pool, w1) \<and>
    register_route E (ep_transport i) (ep_authority i) (ep_authority out) label ch d
      (rs_registry s) w1 = (Inr x, reg, w') \<and>
    s' = \<lparr>rs_table = insert (route_key_from_endpoints i out) (rs_table s), rs_pool = pool,
          rs_registry = reg\<rparr>"
  using assms
  by (auto simp: add_route_def insert_route_def Let_def
      split: if_splits option.splits prod.splits sum.splits)

lemma add_route_register:
  assumes "add_route E d i out label s w = (Some r, s', w')"
    and "ep_authority i \<noteq> ep_authority out" and "route_key_from_endpoints i out \<notin> rs_table s"
  shows "\<exists>ch pool w1 q reg.
    attach_route (e_ext E) (ep_transport out) label (rs_pool s) w = Some (ch, pool, w1) \<and>
    register_route E (ep_transport i) (ep_authority i) (ep_authority out) label ch d
      (rs_registry s) w1 = (q, reg, w') \<and>
    is_ok r = is_ok q \<and> rs_registry s' = reg \<and> (is_ok r \<longrightarrow> rs_pool s' = pool)"
  using assms
  by (auto simp: add_route_def insert_route_def table_remove_route_def Let_def
      split: option.splits prod.splits sum.splits)

lemma remove_route_Ok_parts:
  assumes "remove_route E d i out label s w = (Some (Inr u), s', w')"
  shows "\<exists>pool reg. detach_route (ep_transport out) (rs_pool s) = Some pool \<and>
    unregister_route E (ep_transport i) (ep_authority i) (ep_authority out) (rs_registry s) w
      = Some (reg, w') \<and>
    s' = \<lparr>rs_table = rs_table s - {route_key_from_endpoints i out}, rs_pool = pool,
          rs_registry = reg\<rparr>"
  using assms
  by (auto simp: remove_route_def table_remove_route_def Let_def
      split: if_splits option.splits prod.splits sum.splits)

text \<open>A successful call followed by its inverse restores workers, bindings and counts.\<close>

lemma add_remove_views:
  assumes add: "add_route E d i out label s w = (Some (Inr u), s1, w1)"
    and rem: "remove_route E d' i out label' s1 w1 = (Some (Inr v), s2, w2)"
    and wf: "egress_pool_wf (rs_pool s)" and bwf: "bindings_wf (rs_registry s)"
  shows "egress_view (rs_pool s2) = egress_view (rs_pool s)"
    and "egress_count (rs_pool s2) = egress_count (rs_pool s)"
    and "binding_view (rs_registry s2) = binding_view (rs_registry s)"
    and "binding_count (rs_registry s2) = binding_count (rs_registry s)"
proof -
  from add_route_Ok_parts [OF add] obtain ch pool wa x reg where
    att: "attach_route (e_ext E) (ep_transport out) label (rs_pool s) w = Some (ch, pool, wa)"
    and reg: "register_route E (ep_transport i) (ep_authority i) (ep_authority out) label ch d
      (rs_registry s) wa = (Inr x, reg, w1)"
    and s1: "rs_pool s1 = pool" "rs_registry s1 = reg"
    by auto
  from remove_route_Ok_parts [OF rem] obtain pool' reg' where
    det: "detach_route (ep_transport out) (rs_pool s1) = Some pool'"
    and un: "unregister_route E (ep_transport i) (ep_authority i) (ep_authority out)
      (rs_registry s1) w1 = Some (reg', w2)"
    and s2: "rs_pool s2 = pool'" "rs_registry s2 = reg'"
    by auto
  show "egress_view (rs_pool s2) = egress_view (rs_pool s)"
    and "egress_count (rs_pool s2) = egress_count (rs_pool s)"
    using attach_detach_view [OF wf att det [unfolded s1]] s2 by auto
  show "binding_view (rs_registry s2) = binding_view (rs_registry s)"
    and "binding_count (rs_registry s2) = binding_count (rs_registry s)"
    using register_unregister_view [OF reg bwf un [unfolded s1]] s2 by auto
qed

lemma routes_with_pos: "finite T \<Longrightarrow> k \<in> T \<Longrightarrow> P k \<Longrightarrow> 0 < routes_with P T"
  unfolding routes_with_def by (subst card_gt_0_iff) auto

end
