(* ===== verification/UStreamer.thy ===== *)
theory UStreamer
  imports Route_Lifecycle
begin

text \<open>
  The streamer (ustreamer.rs): its state, the public operations and the mapping of the lifecycle's
  errors to status codes; subscription_sync_health.rs.

  The subscription provider and the clock are parameters. As in the lifecycle, \<open>None\<close> for a result is
  a panic, with the state it leaves behind.
\<close>

section \<open>State\<close>

text \<open>Times are numbers.\<close>

record subscription_sync_health =
  last_attempt_at :: "nat option"
  last_success_at :: "nat option"
  last_attempt_succeeded :: "bool option"
  previous_attempt_succeeded :: "bool option"

definition health_default :: subscription_sync_health where
  "health_default = \<lparr>last_attempt_at = None, last_success_at = None,
     last_attempt_succeeded = None, previous_attempt_succeeded = None\<rparr>"

text \<open>\<open>USubscription::fetch_subscriptions\<close> and \<open>SystemTime::now\<close>.\<close>

record 'w provider =
  pv_fetch :: "'w \<Rightarrow> (ustatus, fetch_subscriptions_response) result \<times> 'w"
  pv_now :: "'w \<Rightarrow> nat"

text \<open>\<open>us_routing\<close> holds \<open>route_table\<close>, \<open>egress_route_pool\<close> and \<open>ingress_route_registry\<close>.\<close>

record ustreamer =
  us_name :: string
  us_routing :: routing_state
  us_directory :: subscription_directory
  us_health :: subscription_sync_health

section \<open>Labels\<close>

definition hex_digit :: "nat \<Rightarrow> char" where
  "hex_digit n = ''0123456789abcdef'' ! (n mod 16)"

text \<open>
  \<open>Debug\<close> of a string: quotes, with the escapes of \<open>char::escape_debug\<close> for ASCII; other bytes are
  taken as printable.
\<close>

definition escape_debug_char :: "char \<Rightarrow> string" where
  "escape_debug_char c =
     (let n = of_char c :: nat in
      if n = 0x22 then [CHR 0x5C, CHR 0x22]
      else if n = 0x5C then [CHR 0x5C, CHR 0x5C]
      else if n = 0x0A then [CHR 0x5C, CHR ''n'']
      else if n = 0x0D then [CHR 0x5C, CHR ''r'']
      else if n = 0x09 then [CHR 0x5C, CHR ''t'']
      else if n = 0 then [CHR 0x5C, CHR ''0'']
      else if n < 16 then [CHR 0x5C] @ ''u{'' @ [hex_digit n] @ ''}''
      else if n < 32 \<or> n = 127 then
        [CHR 0x5C] @ ''u{'' @ [hex_digit (n div 16), hex_digit n] @ ''}''
      else [c])"

definition debug_string :: "string \<Rightarrow> string" where
  "debug_string s = [CHR 0x22] @ concat (map escape_debug_char s) @ [CHR 0x22]"

definition route_label :: "endpoint \<Rightarrow> endpoint \<Rightarrow> string" where
  "route_label in_ep out_ep =
     ''[in.name: '' @ ep_name in_ep @ '', in.authority: '' @ debug_string (ep_authority in_ep) @
     '' ; out.name: '' @ ep_name out_ep @ '', out.authority: '' @
     debug_string (ep_authority out_ep) @ '']''"

text \<open>\<open>Display\<close> of the ingress errors (data_plane/ingress_registry.rs).\<close>

definition ingress_error_display :: "uuri_api \<Rightarrow> ingress_route_registration_error \<Rightarrow> string" where
  "ingress_error_display U e =
     (case e of
        FailedToRegisterRequestRouteListener \<Rightarrow>
          ''Failed to register notification request/response listener''
      | FailedToRegisterPublishRouteListener u \<Rightarrow>
          ''Failed to register publish route listener for URI: '' @ m_display U u)"

section \<open>Subscriptions\<close>

definition update_subscription_sync_health ::
  "nat \<Rightarrow> bool \<Rightarrow> ustreamer \<Rightarrow> subscription_sync_health \<times> ustreamer" where
  "update_subscription_sync_health now succeeded st =
     (let h = us_health st;
          h1 = h\<lparr>previous_attempt_succeeded := last_attempt_succeeded h,
                 last_attempt_at := Some now,
                 last_attempt_succeeded := Some succeeded\<rparr>;
          h2 = (if succeeded then h1\<lparr>last_success_at := Some now\<rparr> else h1)
      in (h2, st\<lparr>us_health := h2\<rparr>))"

definition apply_subscription_snapshot ::
  "('m, 'w) env \<Rightarrow> fetch_subscriptions_response \<Rightarrow> ustreamer \<Rightarrow> (ustatus, unit) result \<times> ustreamer" where
  "apply_subscription_snapshot E snapshot st =
     (let (r, d) = apply_snapshot (e_uri E) (e_cache_order E) snapshot (us_directory st)
      in (r, st\<lparr>us_directory := d\<rparr>))"

definition refresh_subscriptions ::
  "('m, 'w) env \<Rightarrow> 'w provider \<Rightarrow> ustreamer \<Rightarrow> 'w \<Rightarrow>
   (ustatus, subscription_sync_health) result \<times> ustreamer \<times> 'w" where
  "refresh_subscriptions E P st w =
     (case pv_fetch P w of
        (Inl err, w1) \<Rightarrow>
          (Err err, snd (update_subscription_sync_health (pv_now P w1) False st), w1)
      | (Inr snapshot, w1) \<Rightarrow>
          (case apply_subscription_snapshot E snapshot st of
             (Inl err, st1) \<Rightarrow>
               (Err err, snd (update_subscription_sync_health (pv_now P w1) False st1), w1)
           | (Inr _, st1) \<Rightarrow>
               (let (h, st2) = update_subscription_sync_health (pv_now P w1) True st1
                in (Ok h, st2, w1))))"

text \<open>A failure of the first refresh is only logged.\<close>

definition ustreamer_new ::
  "('m, 'w) env \<Rightarrow> 'w provider \<Rightarrow> string \<Rightarrow> 16 word \<Rightarrow> 'w \<Rightarrow> (ustatus, ustreamer) result \<times> 'w" where
  "ustreamer_new E P name message_queue_size w =
     (let st = \<lparr>us_name = name, us_routing = routing_new (unat message_queue_size),
                us_directory = directory_empty, us_health = health_default\<rparr>;
          (_, st1, w1) = refresh_subscriptions E P st w
      in (Ok st1, w1))"

section \<open>Routes\<close>

definition fail_due_to_same_authority :: "endpoint \<Rightarrow> endpoint \<Rightarrow> string \<Rightarrow> ustatus" where
  "fail_due_to_same_authority in_ep out_ep action =
     fail_with_code INVALID_ARGUMENT
       (route_label in_ep out_ep @ '' are the same. Unable to '' @ action @ ''.'')"

definition add_route_ref ::
  "('m, 'w) env \<Rightarrow> endpoint \<Rightarrow> endpoint \<Rightarrow> ustreamer \<Rightarrow> 'w \<Rightarrow>
   (ustatus, unit) result option \<times> ustreamer \<times> 'w" where
  "add_route_ref E in_ep out_ep st w =
     (let label = route_label in_ep out_ep;
          (r, s, w1) = add_route E (us_directory st) in_ep out_ep label (us_routing st) w;
          st1 = st\<lparr>us_routing := s\<rparr>
      in case r of
           None \<Rightarrow> (None, st1, w1)
         | Some (Inr _) \<Rightarrow> (Some (Ok ()), st1, w1)
         | Some (Inl AddSameAuthority) \<Rightarrow>
             (Some (Err (fail_due_to_same_authority in_ep out_ep ''add'')), st1, w1)
         | Some (Inl AlreadyExists) \<Rightarrow>
             (Some (Err (fail_with_code ALREADY_EXISTS ''already exists'')), st1, w1)
         | Some (Inl (FailedToRegisterIngressRoute err)) \<Rightarrow>
             (Some (Err (fail_with_code INVALID_ARGUMENT (ingress_error_display (e_uri E) err))),
              st1, w1))"

definition delete_route_ref ::
  "('m, 'w) env \<Rightarrow> endpoint \<Rightarrow> endpoint \<Rightarrow> ustreamer \<Rightarrow> 'w \<Rightarrow>
   (ustatus, unit) result option \<times> ustreamer \<times> 'w" where
  "delete_route_ref E in_ep out_ep st w =
     (let label = route_label in_ep out_ep;
          (r, s, w1) = remove_route E (us_directory st) in_ep out_ep label (us_routing st) w;
          st1 = st\<lparr>us_routing := s\<rparr>
      in case r of
           None \<Rightarrow> (None, st1, w1)
         | Some (Inr _) \<Rightarrow> (Some (Ok ()), st1, w1)
         | Some (Inl RemoveSameAuthority) \<Rightarrow>
             (Some (Err (fail_due_to_same_authority in_ep out_ep ''delete'')), st1, w1)
         | Some (Inl NotFound) \<Rightarrow> (Some (Err (fail_with_code NOT_FOUND ''not found'')), st1, w1))"

section \<open>The invariant of the streamer\<close>

text \<open>
  \<open>n\<close> bounds the refreshes so far: the version counter has not wrapped while it stays below 2 to
  the 64.
\<close>

definition streamer_inv ::
  "('w \<Rightarrow> (arc_transport \<times> 'k \<times> nat) set) \<Rightarrow> (uuri \<Rightarrow> uuri option \<Rightarrow> 'k) \<Rightarrow>
   (uuri \<Rightarrow> uuri option \<Rightarrow> bool) \<Rightarrow> (arc_transport \<times> 'k \<times> nat) set \<Rightarrow> ('m, 'w) env \<Rightarrow> nat \<Rightarrow>
   ustreamer \<Rightarrow> 'w \<Rightarrow> bool" where
  "streamer_inv regs fk supported R E n st w \<longleftrightarrow>
     routing_inv regs fk supported R (us_routing st) w \<and>
     cache_coherent E (us_directory st) (rs_registry (us_routing st)) \<and>
     version_ok (us_directory st) \<and>
     unat (next_version (us_directory st)) \<le> n + 1"

text \<open>What a route's request filter has to be for the transports to undo it.\<close>

definition route_supported ::
  "(uuri \<Rightarrow> uuri option \<Rightarrow> bool) \<Rightarrow> endpoint \<Rightarrow> endpoint \<Rightarrow> bool" where
  "route_supported supported i out \<longleftrightarrow>
     supported (fst (request_filter (ep_authority i) (ep_authority out)))
       (snd (request_filter (ep_authority i) (ep_authority out)))"

text \<open>Fetching subscriptions registers nothing on the streamer's transports.\<close>

definition provider_quiet ::
  "('w \<Rightarrow> (arc_transport \<times> 'k \<times> nat) set) \<Rightarrow> 'w provider \<Rightarrow> bool" where
  "provider_quiet regs P \<longleftrightarrow> (\<forall>w. regs (snd (pv_fetch P w)) = regs w)"

lemma add_route_ref_routing:
  assumes "add_route_ref E i out st w = (r, st', w')"
  shows "\<exists>q. add_route E (us_directory st) i out (route_label i out) (us_routing st) w
      = (q, us_routing st', w') \<and> (r = None \<longleftrightarrow> q = None) \<and>
      map_option is_ok r = map_option is_ok q"
    and "us_directory st' = us_directory st" and "us_health st' = us_health st"
    and "us_name st' = us_name st"
  using assms
  by (auto simp: add_route_ref_def Let_def
      split: prod.splits option.splits sum.splits add_route_error.splits)

lemma delete_route_ref_routing:
  assumes "delete_route_ref E i out st w = (r, st', w')"
  shows "\<exists>q. remove_route E (us_directory st) i out (route_label i out) (us_routing st) w
      = (q, us_routing st', w') \<and> (r = None \<longleftrightarrow> q = None) \<and>
      map_option is_ok r = map_option is_ok q"
    and "us_directory st' = us_directory st" and "us_health st' = us_health st"
    and "us_name st' = us_name st"
  using assms
  by (auto simp: delete_route_ref_def Let_def
      split: prod.splits option.splits sum.splits remove_route_error.splits)

lemma add_route_ref_Ok:
  "add_route_ref E i out st w = (Some (Inr u), st', w') \<Longrightarrow>
     add_route E (us_directory st) i out (route_label i out) (us_routing st) w
       = (Some (Inr u), us_routing st', w')"
  by (auto simp: add_route_ref_def Let_def
      split: prod.splits option.splits sum.splits add_route_error.splits)

lemma delete_route_ref_Ok:
  "delete_route_ref E i out st w = (Some (Inr u), st', w') \<Longrightarrow>
     remove_route E (us_directory st) i out (route_label i out) (us_routing st) w
       = (Some (Inr u), us_routing st', w')"
  by (auto simp: delete_route_ref_def Let_def
      split: prod.splits option.splits sum.splits remove_route_error.splits)

end
