(* ===== verification/Streamer_Properties.thy ===== *)
theory Streamer_Properties
  imports UStreamer
begin

text \<open>
  The properties of the streamer as a whole: what its operations answer and leave behind, and the
  invariant of every state that can be reached by adding and deleting routes and refreshing.
\<close>

section \<open>The operations keep the invariant\<close>

lemma refresh_cases:
  assumes "refresh_subscriptions E P st w = (r, st', w')"
  shows "us_routing st' = us_routing st" and "us_name st' = us_name st"
    and "w' = snd (pv_fetch P w)"
    and "\<not> is_ok r \<Longrightarrow> us_directory st' = us_directory st \<and>
      us_health st' = fst (update_subscription_sync_health (pv_now P w') False st)"
    and "is_ok r \<Longrightarrow> \<exists>snapshot. fst (pv_fetch P w) = Inr snapshot \<and>
      apply_snapshot (e_uri E) (e_cache_order E) snapshot (us_directory st) = (Inr (), us_directory st') \<and>
      us_health st' = fst (update_subscription_sync_health (pv_now P w') True st) \<and>
      r = Inr (us_health st')"
proof -
  obtain q w1 where fetch: "pv_fetch P w = (q, w1)" by fastforce
  have "us_routing st' = us_routing st \<and> us_name st' = us_name st \<and> w' = w1 \<and>
    (\<not> is_ok r \<longrightarrow> us_directory st' = us_directory st \<and>
      us_health st' = fst (update_subscription_sync_health (pv_now P w1) False st)) \<and>
    (is_ok r \<longrightarrow> (\<exists>snapshot. q = Inr snapshot \<and>
      apply_snapshot (e_uri E) (e_cache_order E) snapshot (us_directory st) = (Inr (), us_directory st') \<and>
      us_health st' = fst (update_subscription_sync_health (pv_now P w1) True st) \<and>
      r = Inr (us_health st')))"
  proof (cases q)
    case (Inl e)
    with assms fetch show ?thesis
      by (auto simp: refresh_subscriptions_def update_subscription_sync_health_def Let_def)
  next
    case (Inr snapshot)
    obtain a d where app: "apply_snapshot (e_uri E) (e_cache_order E) snapshot (us_directory st) = (a, d)"
      by fastforce
    show ?thesis
    proof (cases a)
      case (Inl e)
      with app have "d = us_directory st" by (simp add: apply_snapshot_Err)
      with assms fetch Inr app Inl show ?thesis
        by (auto simp: refresh_subscriptions_def apply_subscription_snapshot_def
            update_subscription_sync_health_def Let_def)
    next
      case b: (Inr x)
      with assms fetch Inr app show ?thesis
        by (auto simp: refresh_subscriptions_def apply_subscription_snapshot_def
            update_subscription_sync_health_def Let_def)
    qed
  qed
  with fetch show "us_routing st' = us_routing st" and "us_name st' = us_name st"
    and "w' = snd (pv_fetch P w)"
    and "\<not> is_ok r \<Longrightarrow> us_directory st' = us_directory st \<and>
      us_health st' = fst (update_subscription_sync_health (pv_now P w') False st)"
    and "is_ok r \<Longrightarrow> \<exists>snapshot. fst (pv_fetch P w) = Inr snapshot \<and>
      apply_snapshot (e_uri E) (e_cache_order E) snapshot (us_directory st) = (Inr (), us_directory st') \<and>
      us_health st' = fst (update_subscription_sync_health (pv_now P w') True st) \<and>
      r = Inr (us_health st')"
    by auto
qed

lemma routing_inv_frame:
  assumes "regs w' = regs w"
  shows "routing_inv regs fk supported R s w' = routing_inv regs fk supported R s w"
proof -
  have "registry_inv regs fk supported R (rs_registry s) w'
      = registry_inv regs fk supported R (rs_registry s) w"
    by (simp only: registry_inv_def assms)
  then show ?thesis by (simp only: routing_inv_def)
qed

lemma refresh_inv:
  assumes inv: "streamer_inv regs fk supported R E n st w" and quiet: "provider_quiet regs P"
    and res: "refresh_subscriptions E P st w = (r, st', w')" and n: "n + 2 < 2 ^ 64"
  shows "streamer_inv regs fk supported R E (n + 1) st' w'"
proof -
  note c = refresh_cases [OF res]
  have "regs w' = regs w" using quiet c(3) by (simp add: provider_quiet_def)
  then have routing: "routing_inv regs fk supported R (us_routing st') w'"
    using inv routing_inv_frame [of regs w' w fk supported R "us_routing st"]
    by (simp only: streamer_inv_def c(1))
  show ?thesis
  proof (cases "is_ok r")
    case False
    with c(4) inv routing c(1) show ?thesis by (simp add: streamer_inv_def)
  next
    case True
    then obtain snapshot where app: "apply_snapshot (e_uri E) (e_cache_order E) snapshot
        (us_directory st) = (Inr (), us_directory st')"
      using c(5) by blast
    have le: "unat (next_version (us_directory st)) \<le> n + 1" using inv by (simp add: streamer_inv_def)
    have "unat (- 1 :: 64 word) = 2 ^ 64 - 1"
      by (simp add: unat_eq_nat_uint unsigned_minus_1_eq_mask mask_eq_exp_minus_1)
    with le n have "next_version (us_directory st) \<noteq> - 1" by auto
    moreover have "unat (next_version (us_directory st')) \<le> n + 2"
    proof -
      have "next_version (us_directory st') = next_version (us_directory st) + 1"
        using apply_snapshot_version [OF app] by simp
      moreover have "unat (next_version (us_directory st) + 1) \<le> unat (next_version (us_directory st)) + 1"
        using mod_less_eq_dividend [of "unat (next_version (us_directory st)) + 1" "2 ^ 64"]
        by (simp add: unat_word_ariths(1))
      ultimately show ?thesis using le by simp
    qed
    ultimately show ?thesis
      using inv routing c(1) apply_snapshot_coherent [of E _ "rs_registry (us_routing st)", OF _ app]
      by (simp add: streamer_inv_def)
  qed
qed

context transport_contract
begin

lemma add_route_ref_inv:
  assumes inv: "streamer_inv registrations filter_key supported R E n st w" and X: "e_ext E = X"
    and sup: "route_supported supported i out"
    and res: "add_route_ref E i out st w = (Some r, st', w')"
  shows "streamer_inv registrations filter_key supported R E n st' w'"
    and "is_ok r \<Longrightarrow>
      rs_table (us_routing st') = insert (route_key_from_endpoints i out) (rs_table (us_routing st)) \<and>
      route_key_from_endpoints i out \<notin> rs_table (us_routing st) \<and> ep_authority i \<noteq> ep_authority out"
    and "\<not> is_ok r \<Longrightarrow> rs_table (us_routing st') = rs_table (us_routing st) \<and>
      egress_view (rs_pool (us_routing st')) = egress_view (rs_pool (us_routing st)) \<and>
      ir_bindings (rs_registry (us_routing st')) = ir_bindings (rs_registry (us_routing st)) \<and>
      registrations w' = registrations w"
proof -
  note dir = add_route_ref_routing(2) [OF res]
  from add_route_ref_routing(1) [OF res] obtain q where
    add: "add_route E (us_directory st) i out (route_label i out) (us_routing st) w
      = (Some q, us_routing st', w')" and q: "is_ok r = is_ok q"
    by (metis map_option_eq_Some option.distinct(1) option.exhaust option.map(2) option.sel)
  have rinv: "routing_inv registrations filter_key supported R (us_routing st) w"
    using inv by (simp add: streamer_inv_def)
  note a = add_route_inv [OF rinv X sup [unfolded route_supported_def] add]
  from a(1) inv dir add_route_coherent [OF add]
  show "streamer_inv registrations filter_key supported R E n st' w'"
    by (simp add: streamer_inv_def)
  from a(2,3) q show "is_ok r \<Longrightarrow>
      rs_table (us_routing st') = insert (route_key_from_endpoints i out) (rs_table (us_routing st)) \<and>
      route_key_from_endpoints i out \<notin> rs_table (us_routing st) \<and> ep_authority i \<noteq> ep_authority out"
    and "\<not> is_ok r \<Longrightarrow> rs_table (us_routing st') = rs_table (us_routing st) \<and>
      egress_view (rs_pool (us_routing st')) = egress_view (rs_pool (us_routing st)) \<and>
      ir_bindings (rs_registry (us_routing st')) = ir_bindings (rs_registry (us_routing st)) \<and>
      registrations w' = registrations w"
    by auto
qed

lemma delete_route_ref_inv:
  assumes inv: "streamer_inv registrations filter_key supported R E n st w" and X: "e_ext E = X"
  shows "\<exists>r st' w'. delete_route_ref E i out st w = (Some r, st', w') \<and>
    streamer_inv registrations filter_key supported R E n st' w' \<and>
    (is_ok r \<longleftrightarrow> route_key_from_endpoints i out \<in> rs_table (us_routing st)) \<and>
    rs_table (us_routing st') = rs_table (us_routing st) - {route_key_from_endpoints i out} \<and>
    (\<not> is_ok r \<longrightarrow> st' = st \<and> w' = w)"
proof -
  have rinv: "routing_inv registrations filter_key supported R (us_routing st) w"
    using inv by (simp add: streamer_inv_def)
  obtain r st' w' where res: "delete_route_ref E i out st w = (r, st', w')" by (metis prod_cases3)
  note d = delete_route_ref_routing [OF res]
  obtain q where rem: "remove_route E (us_directory st) i out (route_label i out) (us_routing st) w
      = (q, us_routing st', w')" and q: "map_option is_ok r = map_option is_ok q"
    using d(1) by blast
  obtain q' s' w'' where rem': "remove_route E (us_directory st) i out (route_label i out)
      (us_routing st) w = (Some q', s', w'')"
    and rest: "routing_inv registrations filter_key supported R s' w''"
      "is_ok q' \<longleftrightarrow> route_key_from_endpoints i out \<in> rs_table (us_routing st)"
      "rs_table s' = rs_table (us_routing st) - {route_key_from_endpoints i out}"
      "\<not> is_ok q' \<longrightarrow> s' = us_routing st \<and> w'' = w"
    using remove_route_inv [OF rinv X, of "us_directory st" i out "route_label i out"] by blast
  have same: "q = Some q'" "s' = us_routing st'" "w'' = w'" using rem rem' by auto
  then obtain r0 where r0: "r = Some r0" and "is_ok r0 = is_ok q'" using q by auto
  moreover have "cache_coherent E (us_directory st) (rs_registry (us_routing st'))"
    using remove_route_coherent [OF rem] inv by (simp add: streamer_inv_def)
  moreover have "st' = st" if "us_routing st' = us_routing st"
    using that d(2-4) by (cases st; cases st') simp
  ultimately show ?thesis
    using res rest same d(2) inv by (auto simp: streamer_inv_def)
qed

end

lemma add_route_ref_code:
  "add_route_ref E i out st w = (Some (Inl e), st', w') \<Longrightarrow>
     status_code e = (if ep_authority i \<noteq> ep_authority out \<and>
       route_key_from_endpoints i out \<in> rs_table (us_routing st) then ALREADY_EXISTS else INVALID_ARGUMENT)"
  by (auto simp: add_route_ref_def add_route_def insert_route_def fail_due_to_same_authority_def
      Let_def split: prod.splits option.splits sum.splits if_splits)

lemma delete_route_ref_code:
  "delete_route_ref E i out st w = (Some (Inl e), st', w') \<Longrightarrow>
     status_code e = (if ep_authority i = ep_authority out then INVALID_ARGUMENT else NOT_FOUND)"
  by (auto simp: delete_route_ref_def remove_route_def fail_due_to_same_authority_def
      Let_def split: prod.splits option.splits sum.splits if_splits)

section \<open>Histories\<close>

text \<open>What a client may do with a streamer, and any sequence of it; \<open>None\<close> once a call panics.\<close>

datatype command =
    Add_Route endpoint endpoint
  | Delete_Route endpoint endpoint
  | Refresh

fun streamer_run ::
  "('m, 'w) env \<Rightarrow> 'w provider \<Rightarrow> command list \<Rightarrow> ustreamer \<Rightarrow> 'w \<Rightarrow> (ustreamer \<times> 'w) option" where
  "streamer_run E P [] st w = Some (st, w)"
| "streamer_run E P (Add_Route i out # cs) st w =
     (case add_route_ref E i out st w of
        (None, _) \<Rightarrow> None
      | (Some r, st', w') \<Rightarrow> streamer_run E P cs st' w')"
| "streamer_run E P (Delete_Route i out # cs) st w =
     (case delete_route_ref E i out st w of
        (None, _) \<Rightarrow> None
      | (Some r, st', w') \<Rightarrow> streamer_run E P cs st' w')"
| "streamer_run E P (Refresh # cs) st w =
     (case refresh_subscriptions E P st w of (r, st', w') \<Rightarrow> streamer_run E P cs st' w')"

definition command_supported :: "(uuri \<Rightarrow> uuri option \<Rightarrow> bool) \<Rightarrow> command \<Rightarrow> bool" where
  "command_supported supported c =
     (case c of Add_Route i out \<Rightarrow> route_supported supported i out | _ \<Rightarrow> True)"

lemma ustreamer_new_inv:
  assumes "provider_quiet regs P" and "ustreamer_new E P name qsize w = (Inr st, w')"
  shows "streamer_inv regs fk supported (regs w) E 1 st w'"
proof -
  let ?st = "\<lparr>us_name = name, us_routing = routing_new (unat qsize), us_directory = directory_empty,
      us_health = health_default\<rparr>"
  obtain r where ref: "refresh_subscriptions E P ?st w = (r, st, w')"
    using assms(2) by (auto simp: ustreamer_new_def Let_def split: prod.splits)
  have "streamer_inv regs fk supported (regs w) E 0 ?st w"
    by (simp add: streamer_inv_def routing_inv_new)
      (simp add: routing_new_def cache_coherent_new version_ok_def directory_empty_def
        directory_from_cache_def)
  from refresh_inv [OF this assms(1) ref] show ?thesis by simp
qed

context transport_contract
begin

lemma streamer_run_inv:
  assumes "streamer_run E P cs st w = Some (st', w')"
    and "streamer_inv registrations filter_key supported R E n st w" and X: "e_ext E = X"
    and quiet: "provider_quiet registrations P"
    and "list_all (command_supported supported) cs" and "n + length cs + 2 < 2 ^ 64"
  shows "streamer_inv registrations filter_key supported R E (n + length cs) st' w'"
  using assms(1,2,5,6)
proof (induction cs arbitrary: st w n)
  case Nil
  then show ?case by simp
next
  case (Cons c cs)
  have mono: "streamer_inv registrations filter_key supported R E (n + 1) s v"
    if "streamer_inv registrations filter_key supported R E n s v" for s v
    using that by (simp add: streamer_inv_def)
  have step: "\<exists>st1 w1. streamer_run E P cs st1 w1 = Some (st', w') \<and>
      streamer_inv registrations filter_key supported R E (n + 1) st1 w1"
  proof (cases c)
    case (Add_Route i out)
    with Cons.prems obtain r st1 w1 where add: "add_route_ref E i out st w = (Some r, st1, w1)"
      and rest: "streamer_run E P cs st1 w1 = Some (st', w')"
      by (auto split: prod.splits option.splits)
    have "route_supported supported i out"
      using Cons.prems(3) Add_Route by (simp add: command_supported_def)
    from add_route_ref_inv(1) [OF Cons.prems(2) X this add] rest mono show ?thesis by blast
  next
    case (Delete_Route i out)
    obtain r st1 w1 where del: "delete_route_ref E i out st w = (Some r, st1, w1)"
      and "streamer_inv registrations filter_key supported R E n st1 w1"
      using delete_route_ref_inv [OF Cons.prems(2) X, of i out] by blast
    moreover have "streamer_run E P cs st1 w1 = Some (st', w')"
      using Cons.prems(1) Delete_Route del by simp
    ultimately show ?thesis using mono by blast
  next
    case Refresh
    then obtain r st1 w1 where ref: "refresh_subscriptions E P st w = (r, st1, w1)"
      and rest: "streamer_run E P cs st1 w1 = Some (st', w')"
      using Cons.prems(1) by (auto split: prod.splits)
    from refresh_inv [OF Cons.prems(2) quiet ref] rest Cons.prems(4) show ?thesis by auto
  qed
  then obtain st1 w1 where "streamer_run E P cs st1 w1 = Some (st', w')"
    and "streamer_inv registrations filter_key supported R E (n + 1) st1 w1"
    by blast
  from Cons.IH [OF this] Cons.prems(3,4) show ?case by simp
qed

end

section \<open>A concrete streamer\<close>

definition second_transport :: arc_transport where
  "second_transport = \<lparr>arc_addr = 3, arc_vtable = 0\<rparr>"

definition streamer_world :: "nat foo_world" where
  "streamer_world = foo_start\<lparr>fw_clients :=
     [(foo_transport, foo_new ''foo''), (second_transport, foo_new ''bar'')]\<rparr>"

definition sample_provider :: "nat foo_world provider" where
  "sample_provider = \<lparr>pv_fetch = (\<lambda>w. (Inr [sample_row], w)), pv_now = (\<lambda>w. 7)\<rparr>"

definition endpoint_a :: endpoint where
  "endpoint_a = endpoint_new ''left'' ''a'' foo_transport"

definition endpoint_b :: endpoint where
  "endpoint_b = endpoint_new ''right'' ''b'' second_transport"

definition sample_streamer :: ustreamer where
  "sample_streamer = (case fst (ustreamer_new foo_env sample_provider ''s'' 16 streamer_world) of
     Inr st \<Rightarrow> st | Inl e \<Rightarrow> undefined)"

definition sample_streamer_ab :: "ustreamer \<times> nat foo_world" where
  "sample_streamer_ab = snd (add_route_ref foo_env endpoint_a endpoint_b sample_streamer streamer_world)"

lemma sample_provider_quiet: "provider_quiet regs sample_provider"
  by (simp add: provider_quiet_def sample_provider_def)

lemma sample_streamer_new:
  "ustreamer_new foo_env sample_provider ''s'' 16 streamer_world = (Inr sample_streamer, streamer_world)"
proof -
  have "snd (ustreamer_new foo_env sample_provider ''s'' 16 streamer_world) = streamer_world"
    by code_simp
  then show ?thesis
    by (cases "ustreamer_new foo_env sample_provider ''s'' 16 streamer_world")
      (auto simp: sample_streamer_def ustreamer_new_def Let_def split: prod.splits)
qed

lemma sample_streamer_inv:
  "streamer_inv foo_registrations (foo_filter_key (sample_uuri_api []))
     (foo_supported (sample_uuri_api [])) (foo_registrations streamer_world) foo_env 1
     sample_streamer streamer_world"
  by (rule ustreamer_new_inv [OF sample_provider_quiet sample_streamer_new])

lemma sample_route_supported:
  "route_supported (foo_supported (sample_uuri_api [])) endpoint_a endpoint_b"
  by code_simp

lemma sample_add_Ok:
  "add_route_ref foo_env endpoint_a endpoint_b sample_streamer streamer_world
     = (Some (Inr ()), sample_streamer_ab)"
proof -
  have "fst (add_route_ref foo_env endpoint_a endpoint_b sample_streamer streamer_world) = Some (Inr ())"
    by code_simp
  then show ?thesis by (simp add: sample_streamer_ab_def prod_eq_iff)
qed

section \<open>What adding a route asks of its transport\<close>

text \<open>
  The listener adding a route creates, if the route needs one, with the world it is registered in; and
  the first filter of the route the ingress transport refuses it, if there is one. A binding that is
  there already is shared, nothing is asked for it.
\<close>

definition fresh_listener ::
  "('m, 'w) env \<Rightarrow> endpoint \<Rightarrow> endpoint \<Rightarrow> ustreamer \<Rightarrow> 'w \<Rightarrow> (route_listener \<times> 'w) option" where
  "fresh_listener E i out st w =
     (case attach_route (e_ext E) (ep_transport out) (route_label i out) (rs_pool (us_routing st)) w of
        None \<Rightarrow> None
      | Some (sender, pool, w1) \<Rightarrow>
          (let (ptr, w2) = arc_new (e_ext E) w1
           in Some (ingress_listener_new ptr (route_label i out) sender, w2)))"

definition refused_listener ::
  "('m, 'w) env \<Rightarrow> endpoint \<Rightarrow> endpoint \<Rightarrow> ustreamer \<Rightarrow> 'w \<Rightarrow> listener_filter option" where
  "refused_listener E i out st w =
     (case binding_view (rs_registry (us_routing st)) (rk_binding (route_key_from_endpoints i out)) of
        Some _ \<Rightarrow> None
      | None \<Rightarrow>
          (case fresh_listener E i out st w of
             None \<Rightarrow> None
           | Some (l, w1) \<Rightarrow>
               first_refused (e_ext E) (ep_transport i) l
                 (route_filters E (ep_authority i) (ep_authority out) (us_directory st)) w1))"

context transport_contract
begin

lemma add_route_ref_listeners:
  assumes inv: "streamer_inv registrations filter_key supported R E n st w" and X: "e_ext E = X"
    and sup: "route_supported supported i out"
    and res: "add_route_ref E i out st w = (Some r, st', w')"
    and diff: "ep_authority i \<noteq> ep_authority out"
    and new: "route_key_from_endpoints i out \<notin> rs_table (us_routing st)"
  shows "is_ok r \<longleftrightarrow> refused_listener E i out st w = None"
    and "is_ok r \<Longrightarrow>
      (case binding_view (rs_registry (us_routing st)) (rk_binding (route_key_from_endpoints i out)) of
         Some _ \<Rightarrow> registrations w' = registrations w \<and>
           binding_view (rs_registry (us_routing st')) = binding_view (rs_registry (us_routing st))
       | None \<Rightarrow> (\<exists>l w1. fresh_listener E i out st w = Some (l, w1) \<and>
           registrations w' = registrations w \<union> filter_entries filter_key (ep_transport i)
             (route_filters E (ep_authority i) (ep_authority out) (us_directory st)) l \<and>
           binding_view (rs_registry (us_routing st')) = (binding_view (rs_registry (us_routing st)))
             (rk_binding (route_key_from_endpoints i out) \<mapsto>
               (route_filters E (ep_authority i) (ep_authority out) (us_directory st), l))))"
proof -
  let ?reg = "rs_registry (us_routing st)" and ?key = "rk_binding (route_key_from_endpoints i out)"
  let ?fs = "route_filters E (ep_authority i) (ep_authority out) (us_directory st)"
  have key: "?key = ingress_binding_key_new (ep_transport i) (ep_authority i) (ep_authority out)"
    by (simp add: rk_binding_def route_key_from_endpoints_def ingress_binding_key_new_def)
  have rinv: "registry_inv registrations filter_key supported R ?reg w"
    and coh: "cache_coherent E (us_directory st) ?reg" and ver: "version_ok (us_directory st)"
    using inv by (simp_all add: streamer_inv_def routing_inv_def)
  note sup' = sup [unfolded route_supported_def]
  obtain q where add: "add_route E (us_directory st) i out (route_label i out) (us_routing st) w
      = (Some q, us_routing st', w')" and q: "is_ok r = is_ok q"
    using add_route_ref_routing(1) [OF res]
    by (metis map_option_eq_Some option.distinct(1) option.exhaust option.map(2) option.sel)
  obtain ch pool w1 p reg where
    att: "attach_route X (ep_transport out) (route_label i out) (rs_pool (us_routing st)) w
      = Some (ch, pool, w1)"
    and reg: "register_route E (ep_transport i) (ep_authority i) (ep_authority out)
      (route_label i out) ch (us_directory st) ?reg w1 = (p, reg, w')"
    and p: "is_ok q = is_ok p" and reg': "rs_registry (us_routing st') = reg"
    using add_route_register [OF add diff new] X by auto
  have frame: "registrations w1 = registrations w" by (rule attach_route_frame [OF att])
  have rinv1: "registry_inv registrations filter_key supported R ?reg w1"
    using rinv frame registry_inv_cong [of ?reg ?reg registrations w1 w] by blast
  obtain ptr w2 where arc: "arc_new X w1 = (ptr, w2)" by fastforce
  let ?l = "ingress_listener_new ptr (route_label i out) ch"
  have fresh: "fresh_listener E i out st w = Some (?l, w2)"
    using att arc X by (simp add: fresh_listener_def)
  have "(is_ok r \<longleftrightarrow> refused_listener E i out st w = None) \<and> (is_ok r \<longrightarrow>
      (case binding_view ?reg ?key of
         Some _ \<Rightarrow> registrations w' = registrations w \<and> binding_view reg = binding_view ?reg
       | None \<Rightarrow> registrations w' = registrations w \<union> filter_entries filter_key (ep_transport i) ?fs ?l \<and>
           binding_view reg = (binding_view ?reg)(?key \<mapsto> (?fs, ?l))))"
  proof (cases "binding_view ?reg ?key")
    case None
    note step = register_route_new [OF coh ver rinv1 X sup' None [unfolded key] arc refl reg]
    show ?thesis
      using step frame q p None fresh X
      by (cases "first_refused X (ep_transport i) ?l ?fs w2")
        (auto simp: refused_listener_def key)
  next
    case (Some x)
    then obtain reg1 where bump: "bump_binding ?key ?reg = Some reg1"
      by (cases "bump_binding ?key ?reg") (auto simp: bump_binding_None binding_view_None [symmetric])
    with register_route_existing [OF bump [unfolded key], of E "route_label i out" ch "us_directory st" w1]
      reg bump_binding_view [OF bump]
    have "p = Inr None \<and> w' = w1 \<and> binding_view reg = binding_view ?reg" by simp
    with frame q p Some show ?thesis by (simp add: refused_listener_def)
  qed
  with fresh reg' show "is_ok r \<longleftrightarrow> refused_listener E i out st w = None"
    and "is_ok r \<Longrightarrow>
      (case binding_view ?reg ?key of
         Some _ \<Rightarrow> registrations w' = registrations w \<and>
           binding_view (rs_registry (us_routing st')) = binding_view ?reg
       | None \<Rightarrow> (\<exists>l w1. fresh_listener E i out st w = Some (l, w1) \<and>
           registrations w' = registrations w \<union> filter_entries filter_key (ep_transport i) ?fs l \<and>
           binding_view (rs_registry (us_routing st')) = (binding_view ?reg)(?key \<mapsto> (?fs, l))))"
    by (auto split: option.splits)
qed

end

section \<open>The listeners of a streamer that has only added routes\<close>

text \<open>
  While the directory stays the same, every binding records the filters of its authorities in it; the
  registrations of the routes in the table are then listed route by route.
\<close>

definition bindings_current :: "('m, 'w) env \<Rightarrow> ustreamer \<Rightarrow> bool" where
  "bindings_current E st \<longleftrightarrow>
     (\<forall>key fs l. binding_view (rs_registry (us_routing st)) key = Some (fs, l) \<longrightarrow>
        fs = route_filters E (bk_ingress_authority key) (bk_egress_authority key) (us_directory st))"

definition route_registrations ::
  "('m, 'w) env \<Rightarrow> (uuri \<Rightarrow> uuri option \<Rightarrow> 'k) \<Rightarrow> ustreamer \<Rightarrow> (arc_transport \<times> 'k \<times> nat) set" where
  "route_registrations E fk st =
     (\<Union>k \<in> rs_table (us_routing st).
        case binding_view (rs_registry (us_routing st)) (rk_binding k) of
          None \<Rightarrow> {}
        | Some (_, l) \<Rightarrow>
            filter_entries fk (key_transport (rk_ingress_transport k))
              (route_filters E (rk_ingress_authority k) (rk_egress_authority k) (us_directory st)) l)"

lemma rk_binding_parts [simp]:
  "bk_transport (rk_binding k) = rk_ingress_transport k"
  "bk_ingress_authority (rk_binding k) = rk_ingress_authority k"
  "bk_egress_authority (rk_binding k) = rk_egress_authority k"
  by (simp_all add: rk_binding_def)

lemma streamer_inv_bound:
  assumes "streamer_inv regs fk supported R E n st w"
  shows "binding_view (rs_registry (us_routing st)) key \<noteq> None \<longleftrightarrow>
    key \<in> rk_binding ` rs_table (us_routing st)"
proof -
  have wf: "bindings_wf (rs_registry (us_routing st))" and fin: "finite (rs_table (us_routing st))"
    and cnt: "binding_count (rs_registry (us_routing st)) = routes_bound (rs_table (us_routing st))"
    using assms by (simp_all add: streamer_inv_def routing_inv_def registry_inv_def)
  have "routes_bound (rs_table (us_routing st)) key = 0 \<longleftrightarrow> key \<notin> rk_binding ` rs_table (us_routing st)"
    using fin by (auto simp: routes_bound_def routes_with_def card_eq_0_iff)
  then show ?thesis
    using binding_count_zero_iff [OF wf, of key] unfolding cnt binding_view_None by (simp only: not_not)
qed

lemma route_registrations_owned:
  assumes inv: "streamer_inv regs fk supported R E n st w" and cur: "bindings_current E st"
  shows "\<forall>k\<in>rs_table (us_routing st). binding_view (rs_registry (us_routing st)) (rk_binding k) \<noteq> None"
    and "regs w = R \<union> route_registrations E fk st"
proof -
  let ?v = "binding_view (rs_registry (us_routing st))" and ?T = "rs_table (us_routing st)"
  note bound = streamer_inv_bound [OF inv]
  show all: "\<forall>k\<in>?T. ?v (rk_binding k) \<noteq> None" using bound by blast
  have entry: "\<exists>l. ?v (rk_binding k) = Some (route_filters E (rk_ingress_authority k)
      (rk_egress_authority k) (us_directory st), l)" if k: "k \<in> ?T" for k
  proof -
    from all k obtain fs l where "?v (rk_binding k) = Some (fs, l)" by fastforce
    moreover from this cur have "fs = route_filters E (bk_ingress_authority (rk_binding k))
        (bk_egress_authority (rk_binding k)) (us_directory st)"
      unfolding bindings_current_def by blast
    ultimately show ?thesis by simp
  qed
  have "owned_registrations fk ?v = route_registrations E fk st"
  proof (intro equalityI subsetI)
    fix q assume "q \<in> owned_registrations fk ?v"
    then obtain key fs l where v: "?v key = Some (fs, l)"
      and q: "q \<in> filter_entries fk (key_transport (bk_transport key)) fs l"
      by (auto simp: owned_registrations_def)
    have "?v key \<noteq> None" using v by simp
    with bound obtain k where k: "k \<in> ?T" "key = rk_binding k" by blast
    with v q entry [OF k(1)] show "q \<in> route_registrations E fk st"
      unfolding route_registrations_def by (intro UN_I [OF k(1)]) auto
  next
    fix q assume "q \<in> route_registrations E fk st"
    then obtain k where k: "k \<in> ?T" and q: "q \<in> (case ?v (rk_binding k) of None \<Rightarrow> {} | Some (_, l) \<Rightarrow>
        filter_entries fk (key_transport (rk_ingress_transport k))
          (route_filters E (rk_ingress_authority k) (rk_egress_authority k) (us_directory st)) l)"
      unfolding route_registrations_def by blast
    from entry [OF k] q show "q \<in> owned_registrations fk ?v"
      unfolding owned_registrations_def by (intro CollectI) (auto intro!: exI [of _ "rk_binding k"])
  qed
  then show "regs w = R \<union> route_registrations E fk st"
    using inv by (simp add: streamer_inv_def routing_inv_def registry_inv_def)
qed

lemma ustreamer_new_current:
  "ustreamer_new E P n q w = (Inr st, w') \<Longrightarrow> bindings_current E st"
  by (auto simp: bindings_current_def ustreamer_new_def Let_def routing_new_def split: prod.splits
      dest!: refresh_cases(1))

context transport_contract
begin

lemma add_route_ref_current:
  assumes inv: "streamer_inv registrations filter_key supported R E n st w" and X: "e_ext E = X"
    and sup: "route_supported supported i out"
    and res: "add_route_ref E i out st w = (Some r, st', w')" and cur: "bindings_current E st"
  shows "bindings_current E st'"
proof (cases r)
  case (Inl e)
  then have "binding_view (rs_registry (us_routing st')) = binding_view (rs_registry (us_routing st))"
    using add_route_ref_inv(3) [OF inv X sup res] by (intro binding_view_cong) simp
  with cur add_route_ref_routing(2) [OF res] show ?thesis by (simp add: bindings_current_def)
next
  case (Inr u)
  then have diff: "ep_authority i \<noteq> ep_authority out"
    and new: "route_key_from_endpoints i out \<notin> rs_table (us_routing st)"
    using add_route_ref_inv(2) [OF inv X sup res] by simp_all
  from add_route_ref_listeners(2) [OF inv X sup res diff new] Inr cur add_route_ref_routing(2) [OF res]
  show ?thesis
    by (auto simp: bindings_current_def ingress_binding_key_new_def split: option.splits if_splits)
qed

end

section \<open>Properties\<close>

text \<open>
  C1. After any history of adding and deleting routes and refreshing, from the creation of the
  streamer on and whatever transports and provider answered, the books balance: each egress transport
  is counted once for each of its routes and has a worker exactly while it has one, each ingress
  binding is counted once for each of its routes, and the transports hold what they held before the
  streamer was created together with the registrations of its bindings, nothing else.
\<close>

theorem streamer_books_balance:
  assumes "transport_contract (e_ext E) regs fk supported" and "provider_quiet regs P"
    and "ustreamer_new E P name qsize w0 = (Inr st0, w1)"
    and "streamer_run E P cs st0 w1 = Some (st, w)"
    and "list_all (command_supported supported) cs" and "length cs + 3 < 2 ^ 64"
  shows "egress_count (rs_pool (us_routing st)) t = routes_to (rs_table (us_routing st)) t \<and>
    (egress_view (rs_pool (us_routing st)) t = None \<longleftrightarrow> routes_to (rs_table (us_routing st)) t = 0) \<and>
    binding_count (rs_registry (us_routing st)) key = routes_bound (rs_table (us_routing st)) key \<and>
    (binding_view (rs_registry (us_routing st)) key = None \<longleftrightarrow>
       routes_bound (rs_table (us_routing st)) key = 0) \<and>
    regs w = regs w0 \<union> owned_registrations fk (binding_view (rs_registry (us_routing st)))"
proof -
  have "streamer_inv regs fk supported (regs w0) E (1 + length cs) st w"
    using transport_contract.streamer_run_inv [OF assms(1,4) ustreamer_new_inv [OF assms(2,3)] refl
        assms(2,5)] assms(6) by simp
  then have "routing_inv regs fk supported (regs w0) (us_routing st) w"
    by (simp add: streamer_inv_def)
  then show ?thesis
    using egress_count_zero_iff [of "rs_pool (us_routing st)" t]
      binding_count_zero_iff [of "rs_registry (us_routing st)" key]
    by (auto simp: routing_inv_def registry_inv_def binding_view_None)
qed

theorem streamer_books_balance_witness:
  "\<exists>st w. streamer_run foo_env sample_provider [Add_Route endpoint_a endpoint_b]
       sample_streamer streamer_world = Some (st, w) \<and>
     egress_count (rs_pool (us_routing st)) second_transport = 1"
proof -
  have run: "streamer_run foo_env sample_provider [Add_Route endpoint_a endpoint_b]
      sample_streamer streamer_world = Some (fst sample_streamer_ab, snd sample_streamer_ab)"
    using sample_add_Ok by (simp add: case_prod_beta)
  have "list_all (command_supported (foo_supported (sample_uuri_api []))) [Add_Route endpoint_a endpoint_b]"
    using sample_route_supported by (simp add: command_supported_def)
  note balance = streamer_books_balance [OF foo_contract sample_provider_quiet sample_streamer_new run
      this, of second_transport "ingress_binding_key_new foo_transport ''a'' ''b''"]
  have "routes_to (rs_table (us_routing (fst sample_streamer_ab))) second_transport = 1"
    by code_simp
  with balance have "egress_count (rs_pool (us_routing (fst sample_streamer_ab))) second_transport = 1"
    by simp
  with run show ?thesis by blast
qed

text \<open>
  C4. Adding a route that does not panic succeeds exactly when the authorities differ, the route was
  not in the table and the ingress transport refuses none of its filters. Then the route is in the
  table, and its listener is registered under every filter of the route, or the binding of another
  route is shared and nothing is registered. If it fails, routes, workers, bindings and registrations
  are the ones before the call; the code says why: equal authorities or a listener that could not be
  registered (\<open>INVALID_ARGUMENT\<close>), or a route that exists already (\<open>ALREADY_EXISTS\<close>).
\<close>

theorem add_route_outcome:
  assumes "transport_contract (e_ext E) regs fk supported"
    and "streamer_inv regs fk supported R E n st w" and "route_supported supported i out"
    and "add_route_ref E i out st w = (Some r, st', w')"
  shows "(is_ok r \<longleftrightarrow> ep_authority i \<noteq> ep_authority out \<and>
      route_key_from_endpoints i out \<notin> rs_table (us_routing st) \<and>
      refused_listener E i out st w = None) \<and>
    streamer_inv regs fk supported R E n st' w' \<and>
    (case r of
      Inr _ \<Rightarrow>
        rs_table (us_routing st')
          = insert (route_key_from_endpoints i out) (rs_table (us_routing st)) \<and>
        (case binding_view (rs_registry (us_routing st)) (rk_binding (route_key_from_endpoints i out)) of
           Some _ \<Rightarrow> regs w' = regs w \<and>
             binding_view (rs_registry (us_routing st')) = binding_view (rs_registry (us_routing st))
         | None \<Rightarrow> (\<exists>l w1. fresh_listener E i out st w = Some (l, w1) \<and>
             regs w' = regs w \<union> filter_entries fk (ep_transport i)
               (route_filters E (ep_authority i) (ep_authority out) (us_directory st)) l \<and>
             binding_view (rs_registry (us_routing st')) = (binding_view (rs_registry (us_routing st)))
               (rk_binding (route_key_from_endpoints i out) \<mapsto>
                 (route_filters E (ep_authority i) (ep_authority out) (us_directory st), l))))
    | Inl e \<Rightarrow>
        rs_table (us_routing st') = rs_table (us_routing st) \<and>
        egress_view (rs_pool (us_routing st')) = egress_view (rs_pool (us_routing st)) \<and>
        ir_bindings (rs_registry (us_routing st')) = ir_bindings (rs_registry (us_routing st)) \<and>
        regs w' = regs w \<and>
        status_code e = (if ep_authority i \<noteq> ep_authority out \<and>
              route_key_from_endpoints i out \<in> rs_table (us_routing st)
            then ALREADY_EXISTS else INVALID_ARGUMENT))"
proof -
  note inv = transport_contract.add_route_ref_inv [OF assms(1,2) refl assms(3,4)]
  note lst = transport_contract.add_route_ref_listeners [OF assms(1,2) refl assms(3,4)]
  have iff: "is_ok r \<longleftrightarrow> ep_authority i \<noteq> ep_authority out \<and>
      route_key_from_endpoints i out \<notin> rs_table (us_routing st) \<and> refused_listener E i out st w = None"
    using inv(2) lst(1) by blast
  show ?thesis
  proof (cases r)
    case (Inr x)
    with inv(2) have "ep_authority i \<noteq> ep_authority out"
      and "route_key_from_endpoints i out \<notin> rs_table (us_routing st)" by auto
    from iff inv(1) inv(2) lst(2) [OF this] show ?thesis unfolding Inr by simp
  next
    case (Inl e)
    from iff inv(1) inv(3) add_route_ref_code [OF assms(4) [unfolded Inl]] show ?thesis
      unfolding Inl by simp
  qed
qed

theorem add_route_outcome_witness:
  "refused_listener foo_env endpoint_a endpoint_b sample_streamer streamer_world = None \<and>
   (\<exists>l w1. fresh_listener foo_env endpoint_a endpoint_b sample_streamer streamer_world = Some (l, w1) \<and>
     foo_registrations (snd sample_streamer_ab) = foo_registrations streamer_world \<union>
       filter_entries (foo_filter_key (sample_uuri_api [])) foo_transport
         (route_filters foo_env ''a'' ''b'' (us_directory sample_streamer)) l) \<and>
   (\<exists>e st' w'. add_route_ref foo_env (endpoint_new ''left'' ''a'' failing_transport) endpoint_b
       sample_streamer streamer_world = (Some (Inl e), st', w') \<and> status_code e = INVALID_ARGUMENT \<and>
     foo_registrations w' = foo_registrations streamer_world)"
proof -
  let ?left = "endpoint_new ''left'' ''a'' failing_transport"
  have add: "add_route_ref foo_env endpoint_a endpoint_b sample_streamer streamer_world
      = (Some (Inr ()), fst sample_streamer_ab, snd sample_streamer_ab)"
    using sample_add_Ok by simp
  have empty: "binding_view (rs_registry (us_routing sample_streamer))
      (rk_binding (route_key_from_endpoints endpoint_a endpoint_b)) = None"
    by code_simp
  have a: "ep_transport endpoint_a = foo_transport" "ep_authority endpoint_a = ''a''"
    "ep_authority endpoint_b = ''b''"
    by (simp_all add: endpoint_a_def endpoint_b_def endpoint_new_def)
  note ok = add_route_outcome [OF foo_contract sample_streamer_inv sample_route_supported add]
  have sup: "route_supported (foo_supported (sample_uuri_api [])) ?left endpoint_b" by code_simp
  have "map_option is_ok (fst (add_route_ref foo_env ?left endpoint_b sample_streamer streamer_world))
      = Some False"
    by code_simp
  moreover obtain q st' w' where q: "add_route_ref foo_env ?left endpoint_b sample_streamer
      streamer_world = (q, st', w')"
    by (metis prod_cases3)
  ultimately obtain z where "q = Some z" and "\<not> is_ok z" by auto
  then obtain e where res: "add_route_ref foo_env ?left endpoint_b sample_streamer
      streamer_world = (Some (Inl e), st', w')"
    using q by (cases z) auto
  have new: "route_key_from_endpoints ?left endpoint_b \<notin> rs_table (us_routing sample_streamer)"
    by code_simp
  note refused = add_route_outcome [OF foo_contract sample_streamer_inv sup res]
  show ?thesis
  proof (intro conjI)
    show "refused_listener foo_env endpoint_a endpoint_b sample_streamer streamer_world = None"
      using ok by simp
    show "\<exists>l w1. fresh_listener foo_env endpoint_a endpoint_b sample_streamer streamer_world
        = Some (l, w1) \<and>
       foo_registrations (snd sample_streamer_ab) = foo_registrations streamer_world \<union>
         filter_entries (foo_filter_key (sample_uuri_api [])) foo_transport
           (route_filters foo_env ''a'' ''b'' (us_directory sample_streamer)) l"
      using ok empty a by auto
    show "\<exists>e st' w'. add_route_ref foo_env ?left endpoint_b sample_streamer streamer_world
        = (Some (Inl e), st', w') \<and> status_code e = INVALID_ARGUMENT \<and>
       foo_registrations w' = foo_registrations streamer_world"
      using refused res new by (intro exI [of _ e] exI [of _ st'] exI [of _ w']) simp
  qed
qed

text \<open>
  C5. Deleting a route never panics. It succeeds exactly when the route is in the table, which then
  loses it; otherwise nothing changes and the code is \<open>INVALID_ARGUMENT\<close> for equal authorities and
  \<open>NOT_FOUND\<close> for an unknown route.
\<close>

theorem delete_route_outcome:
  assumes "transport_contract (e_ext E) regs fk supported"
    and "streamer_inv regs fk supported R E n st w"
  shows "\<exists>r st' w'. delete_route_ref E i out st w = (Some r, st', w') \<and>
    rs_table (us_routing st') = rs_table (us_routing st) - {route_key_from_endpoints i out} \<and>
    (case r of
       Inr _ \<Rightarrow> route_key_from_endpoints i out \<in> rs_table (us_routing st)
     | Inl e \<Rightarrow> route_key_from_endpoints i out \<notin> rs_table (us_routing st) \<and> st' = st \<and> w' = w \<and>
         status_code e = (if ep_authority i = ep_authority out then INVALID_ARGUMENT else NOT_FOUND))"
proof -
  obtain r st' w' where del: "delete_route_ref E i out st w = (Some r, st', w')"
    and ok: "is_ok r \<longleftrightarrow> route_key_from_endpoints i out \<in> rs_table (us_routing st)"
    and tab: "rs_table (us_routing st') = rs_table (us_routing st) - {route_key_from_endpoints i out}"
    and same: "\<not> is_ok r \<longrightarrow> st' = st \<and> w' = w"
    using transport_contract.delete_route_ref_inv [OF assms refl, of i out] by blast
  with del show ?thesis by (cases r) (auto dest: delete_route_ref_code)
qed

theorem delete_route_outcome_witness:
  "\<exists>st' w'. delete_route_ref foo_env endpoint_a endpoint_b (fst sample_streamer_ab)
       (snd sample_streamer_ab) = (Some (Inr ()), st', w') \<and> rs_table (us_routing st') = {}"
proof -
  have add: "add_route_ref foo_env endpoint_a endpoint_b sample_streamer streamer_world
      = (Some (Inr ()), fst sample_streamer_ab, snd sample_streamer_ab)"
    using sample_add_Ok by simp
  note inv = transport_contract.add_route_ref_inv [OF foo_contract sample_streamer_inv refl
      sample_route_supported add]
  obtain r st' w' where
    del: "delete_route_ref foo_env endpoint_a endpoint_b (fst sample_streamer_ab)
        (snd sample_streamer_ab) = (Some r, st', w')"
    and tab: "rs_table (us_routing st') = rs_table (us_routing (fst sample_streamer_ab))
        - {route_key_from_endpoints endpoint_a endpoint_b}"
    and r: "case r of
       Inr _ \<Rightarrow> route_key_from_endpoints endpoint_a endpoint_b
          \<in> rs_table (us_routing (fst sample_streamer_ab))
     | Inl e \<Rightarrow> route_key_from_endpoints endpoint_a endpoint_b
          \<notin> rs_table (us_routing (fst sample_streamer_ab)) \<and>
         st' = fst sample_streamer_ab \<and> w' = snd sample_streamer_ab \<and>
         status_code e = (if ep_authority endpoint_a = ep_authority endpoint_b
           then INVALID_ARGUMENT else NOT_FOUND)"
    using delete_route_outcome [OF foo_contract inv(1), of endpoint_a endpoint_b] by blast
  have start: "rs_table (us_routing sample_streamer) = {}" by code_simp
  from inv(2) have "route_key_from_endpoints endpoint_a endpoint_b
      \<in> rs_table (us_routing (fst sample_streamer_ab))" by simp
  with r have "r = Inr ()" by (cases r) auto
  moreover have "rs_table (us_routing st') = {}"
    using tab inv(2) start by simp
  ultimately show ?thesis using del by blast
qed

text \<open>
  C6. Adding a route and deleting it again is a round trip: the deletion succeeds, and routes,
  workers, bindings, reference counts and registrations are those before.
\<close>

theorem add_delete_roundtrip:
  assumes "transport_contract (e_ext E) regs fk supported"
    and "streamer_inv regs fk supported R E n st w" and "route_supported supported i out"
    and "add_route_ref E i out st w = (Some (Inr ()), st1, w1)"
    and "delete_route_ref E i out st1 w1 = (Some r, st2, w2)"
  shows "r = Inr () \<and> regs w2 = regs w \<and>
    rs_table (us_routing st2) = rs_table (us_routing st) \<and>
    egress_view (rs_pool (us_routing st2)) = egress_view (rs_pool (us_routing st)) \<and>
    egress_count (rs_pool (us_routing st2)) = egress_count (rs_pool (us_routing st)) \<and>
    binding_view (rs_registry (us_routing st2)) = binding_view (rs_registry (us_routing st)) \<and>
    binding_count (rs_registry (us_routing st2)) = binding_count (rs_registry (us_routing st))"
proof -
  let ?key = "route_key_from_endpoints i out"
  note add = transport_contract.add_route_ref_inv [OF assms(1,2) refl assms(3,4)]
  obtain r' st' w' where del: "delete_route_ref E i out st1 w1 = (Some r', st', w')"
    and inv2: "streamer_inv regs fk supported R E n st' w'"
    and ok: "is_ok r' \<longleftrightarrow> ?key \<in> rs_table (us_routing st1)"
    and tab: "rs_table (us_routing st') = rs_table (us_routing st1) - {?key}"
    using transport_contract.delete_route_ref_inv [OF assms(1) add(1) refl, of i out] by blast
  have same: "r' = r" "st' = st2" "w' = w2" using del assms(5) by auto
  have tab1: "rs_table (us_routing st1) = insert ?key (rs_table (us_routing st))"
    and new: "?key \<notin> rs_table (us_routing st)"
    using add(2) by simp_all
  then have r: "r = Inr ()" using ok same by (cases r) auto
  have inv: "routing_inv regs fk supported R (us_routing st) w"
    and inv2': "routing_inv regs fk supported R (us_routing st2) w2"
    using assms(2) inv2 same by (simp_all add: streamer_inv_def)
  have wf: "egress_pool_wf (rs_pool (us_routing st))" and bwf: "bindings_wf (rs_registry (us_routing st))"
    using inv by (simp_all add: routing_inv_def registry_inv_def)
  note views = add_remove_views [OF add_route_ref_Ok [OF assms(4)]
      delete_route_ref_Ok [OF assms(5) [unfolded r]] wf bwf]
  have "regs w2 = R \<union> owned_registrations fk (binding_view (rs_registry (us_routing st2)))"
    and "regs w = R \<union> owned_registrations fk (binding_view (rs_registry (us_routing st)))"
    using inv inv2' by (simp_all add: routing_inv_def registry_inv_def)
  moreover have "rs_table (us_routing st2) = rs_table (us_routing st)"
    using tab tab1 new same by auto
  ultimately show ?thesis using r views by simp
qed

theorem add_delete_roundtrip_witness:
  "\<exists>st2 w2. delete_route_ref foo_env endpoint_a endpoint_b (fst sample_streamer_ab)
       (snd sample_streamer_ab) = (Some (Inr ()), st2, w2) \<and>
     foo_registrations w2 = foo_registrations streamer_world"
proof -
  have add: "add_route_ref foo_env endpoint_a endpoint_b sample_streamer streamer_world
      = (Some (Inr ()), fst sample_streamer_ab, snd sample_streamer_ab)"
    using sample_add_Ok by simp
  have "fst (delete_route_ref foo_env endpoint_a endpoint_b (fst sample_streamer_ab)
      (snd sample_streamer_ab)) \<noteq> None"
    by code_simp
  then obtain r st2 w2 where del: "delete_route_ref foo_env endpoint_a endpoint_b
      (fst sample_streamer_ab) (snd sample_streamer_ab) = (Some r, st2, w2)"
    by (metis option.exhaust prod_cases3 fst_conv)
  from add_delete_roundtrip [OF foo_contract sample_streamer_inv sample_route_supported add del] del
  show ?thesis by simp
qed

text \<open>
  C27. A queue size of 0 is accepted when the streamer is created, but the first route added panics in
  \<open>broadcast::channel\<close> after it has been entered into the table: adding it again then reports
  \<open>ALREADY_EXISTS\<close>, although nothing was ever registered for it.
\<close>

theorem zero_queue_size_strands_route:
  assumes "\<forall>w. bc_channel (e_ext E) 0 w = None"
    and "ustreamer_new E P name 0 w0 = (Inr st, w1)" and "ep_authority i \<noteq> ep_authority out"
  shows "\<exists>st'. add_route_ref E i out st w1 = (None, st', w1) \<and>
    rs_registry (us_routing st') = ingress_registry_new \<and>
    (\<exists>e. add_route_ref E i out st' w1 = (Some (Inl e), st', w1) \<and> status_code e = ALREADY_EXISTS)"
proof -
  from assms(2) have "us_routing st = routing_new 0"
    by (auto simp: ustreamer_new_def Let_def split: prod.splits dest: refresh_cases(1))
  then have st: "rs_table (us_routing st) = {}" "rs_pool (us_routing st) = egress_pool_new 0"
    "rs_registry (us_routing st) = ingress_registry_new"
    by (simp_all add: routing_new_def route_table_new_def)
  have "attach_route (e_ext E) (ep_transport out) l (egress_pool_new 0) w1 = None" for l
    using assms(1) by (simp add: attach_route_def egress_pool_new_def)
  then show ?thesis
    using assms(3) st
    by (simp add: add_route_ref_def add_route_def insert_route_def Let_def)
qed

theorem zero_queue_size_strands_route_witness:
  "\<exists>st st'. ustreamer_new foo_env sample_provider ''s'' 0 streamer_world = (Inr st, streamer_world) \<and>
     add_route_ref foo_env endpoint_a endpoint_b st streamer_world = (None, st', streamer_world)"
proof -
  have "\<forall>w. bc_channel (e_ext foo_env) 0 w = None"
    by (simp add: foo_env_def foo_ext_def)
  moreover have "snd (ustreamer_new foo_env sample_provider ''s'' 0 streamer_world) = streamer_world"
    by code_simp
  then obtain st where new: "ustreamer_new foo_env sample_provider ''s'' 0 streamer_world
      = (Inr st, streamer_world)"
    by (cases "ustreamer_new foo_env sample_provider ''s'' 0 streamer_world")
      (auto simp: ustreamer_new_def Let_def split: prod.splits)
  moreover have "ep_authority endpoint_a \<noteq> ep_authority endpoint_b" by code_simp
  ultimately show ?thesis
    using zero_queue_size_strands_route [OF _ new, of endpoint_a endpoint_b] by blast
qed

text \<open>
  Two routes with the same ingress transport and the same authorities but different egress
  transports are different routes of the table but share one ingress binding. Adding the second one
  reports success and starts a worker for its transport, but registers nothing: every listener is the
  one it was, feeding the channel it fed before.
\<close>

theorem second_egress_transport_not_fed:
  assumes "transport_contract (e_ext E) regs fk supported"
    and "streamer_inv regs fk supported R E n st w"
    and "route_key_from_endpoints i out \<in> rs_table (us_routing st)"
    and "route_key_from_endpoints i out' \<notin> rs_table (us_routing st)"
    and "ep_authority out' = ep_authority out"
    and "add_route_ref E i out' st w = (Some r, st', w')"
  shows "r = Inr () \<and> regs w' = regs w \<and>
    binding_view (rs_registry (us_routing st')) = binding_view (rs_registry (us_routing st)) \<and>
    egress_view (rs_pool (us_routing st')) (ep_transport out') \<noteq> None"
proof -
  let ?k = "route_key_from_endpoints i out"
  let ?key = "ingress_binding_key_new (ep_transport i) (ep_authority i) (ep_authority out)"
  have inv: "routing_inv regs fk supported R (us_routing st) w"
    using assms(2) by (simp add: streamer_inv_def)
  then have wf: "egress_pool_wf (rs_pool (us_routing st))" and fin: "finite (rs_table (us_routing st))"
    and diff: "ep_authority i \<noteq> ep_authority out"
    and cnt: "binding_count (rs_registry (us_routing st)) ?key = routes_bound (rs_table (us_routing st)) ?key"
    using assms(3) by (auto simp: routing_inv_def route_key_from_endpoints_def)
  have "0 < routes_bound (rs_table (us_routing st)) ?key"
    unfolding routes_bound_def by (rule routes_with_pos [OF fin assms(3)]) simp
  with cnt obtain reg' where bump: "bump_binding ?key (rs_registry (us_routing st)) = Some reg'"
    by (auto simp: binding_count_def bump_binding_def split: option.splits)
  obtain ch pool w1 where att: "attach_route (e_ext E) (ep_transport out') (route_label i out')
      (rs_pool (us_routing st)) w = Some (ch, pool, w1)"
    using assms(4-6) diff
    by (auto simp: add_route_ref_def add_route_def insert_route_def Let_def
        split: prod.splits option.splits)
  have "r = Inr ()" and "us_routing st' = \<lparr>rs_table = insert (route_key_from_endpoints i out')
      (rs_table (us_routing st)), rs_pool = pool, rs_registry = reg'\<rparr>" and "w' = w1"
    using assms(4-6) diff att register_route_existing [OF bump, of E]
    by (auto simp: add_route_ref_def add_route_def insert_route_def Let_def)
  then show ?thesis
    using transport_contract.attach_route_frame [OF assms(1) att] bump_binding_view [OF bump]
      attach_route_wf(3) [OF wf att] by auto
qed

definition third_transport :: arc_transport where
  "third_transport = \<lparr>arc_addr = 4, arc_vtable = 0\<rparr>"

definition endpoint_b' :: endpoint where
  "endpoint_b' = endpoint_new ''right2'' ''b'' third_transport"

theorem second_egress_transport_not_fed_witness:
  "\<exists>st' w'. add_route_ref foo_env endpoint_a endpoint_b' (fst sample_streamer_ab)
       (snd sample_streamer_ab) = (Some (Inr ()), st', w') \<and>
     foo_registrations w' = foo_registrations (snd sample_streamer_ab)"
proof -
  have add: "add_route_ref foo_env endpoint_a endpoint_b sample_streamer streamer_world
      = (Some (Inr ()), fst sample_streamer_ab, snd sample_streamer_ab)"
    using sample_add_Ok by simp
  note inv = transport_contract.add_route_ref_inv(1) [OF foo_contract sample_streamer_inv refl
      sample_route_supported add]
  have "route_key_from_endpoints endpoint_a endpoint_b \<in> rs_table (us_routing (fst sample_streamer_ab))"
    and "route_key_from_endpoints endpoint_a endpoint_b' \<notin> rs_table (us_routing (fst sample_streamer_ab))"
    and "ep_authority endpoint_b' = ep_authority endpoint_b"
    by code_simp+
  note hyps = this
  have "fst (add_route_ref foo_env endpoint_a endpoint_b' (fst sample_streamer_ab)
      (snd sample_streamer_ab)) \<noteq> None"
    by code_simp
  then obtain r st' w' where res: "add_route_ref foo_env endpoint_a endpoint_b'
      (fst sample_streamer_ab) (snd sample_streamer_ab) = (Some r, st', w')"
    by (metis option.exhaust prod_cases3 fst_conv)
  from second_egress_transport_not_fed [OF foo_contract inv hyps res] res show ?thesis by simp
qed

text \<open>
  C15. A refresh is all or nothing, and the health it records says which: when fetching fails or the
  snapshot is incomplete the directory is the one before and the attempt is recorded as failed, with
  the time of the last success kept; when it succeeds every lookup answers from the fetched snapshot
  and both times are those of this attempt. Routes, workers, bindings and listeners are never touched.
\<close>

theorem refresh_all_or_nothing:
  assumes "env_ok E" and "refresh_subscriptions E P st w = (r, st', w')"
  shows "us_routing st' = us_routing st \<and>
    previous_attempt_succeeded (us_health st') = last_attempt_succeeded (us_health st) \<and>
    last_attempt_at (us_health st') = Some (pv_now P w') \<and>
    last_attempt_succeeded (us_health st') = Some (is_ok r) \<and>
    (if is_ok r then last_success_at (us_health st') = Some (pv_now P w') \<and>
       (\<exists>snapshot. fst (pv_fetch P w) = Inr snapshot \<and> list_all complete_row snapshot \<and>
          directory_reflects (e_uri E) snapshot (us_directory st'))
     else last_success_at (us_health st') = last_success_at (us_health st) \<and>
       us_directory st' = us_directory st)"
proof (cases "is_ok r")
  case False
  with refresh_cases [OF assms(2)] show ?thesis
    by (simp add: update_subscription_sync_health_def Let_def)
next
  case True
  with refresh_cases(5) [OF assms(2)] obtain snapshot where
    "fst (pv_fetch P w) = Inr snapshot"
    and app: "apply_snapshot (e_uri E) (e_cache_order E) snapshot (us_directory st)
      = (Inr (), us_directory st')"
    and "us_health st' = fst (update_subscription_sync_health (pv_now P w') True st)"
    by auto
  moreover have "directory_reflects (e_uri E) snapshot (us_directory st')"
    using assms(1) apply_snapshot_lookup [OF _ _ app] by (simp add: env_ok_def)
  moreover have "list_all complete_row snapshot"
    using apply_snapshot_Ok_iff [of "e_uri E" "e_cache_order E" snapshot "us_directory st"] app by simp
  ultimately show ?thesis
    using True refresh_cases(1) [OF assms(2)]
    by (auto simp: update_subscription_sync_health_def Let_def)
qed

theorem refresh_all_or_nothing_witness:
  "\<exists>st'. refresh_subscriptions foo_env sample_provider sample_streamer streamer_world
       = (Inr (us_health st'), st', streamer_world) \<and>
     last_success_at (us_health st') = Some 7 \<and> us_routing st' = us_routing sample_streamer"
proof -
  obtain r st' w' where res: "refresh_subscriptions foo_env sample_provider sample_streamer streamer_world
      = (r, st', w')"
    by (metis prod_cases3)
  have "is_ok (fst (refresh_subscriptions foo_env sample_provider sample_streamer streamer_world))"
    by code_simp
  with res have "is_ok r" by simp
  with refresh_all_or_nothing [OF foo_env_ok res] refresh_cases(3,5) [OF res] res show ?thesis
    by (simp add: sample_provider_def)
qed

end
