(* ===== verification/Streamer_Refinement.thy ===== *)
theory Streamer_Refinement
  imports Streamer_Properties
begin

text \<open>
  What the streamer promises its client, as a machine whose only state is the set of its routes, and that
  the streamer with its table, pool, registry, listeners and workers implements it.
\<close>

section \<open>The abstract streamer\<close>

text \<open>
  An answer is the code of the failure, or none. Adding a new route may be refused by a transport; a
  refresh may fail in any way; everything else is determined by the set.
\<close>

type_synonym answer = "ucode option"

inductive route_set_step :: "command \<Rightarrow> answer \<Rightarrow> route_key set \<Rightarrow> route_key set \<Rightarrow> bool" where
  added: "ep_authority i \<noteq> ep_authority out \<Longrightarrow> route_key_from_endpoints i out \<notin> T \<Longrightarrow>
     route_set_step (Add_Route i out) None T (insert (route_key_from_endpoints i out) T)"
| refused: "ep_authority i \<noteq> ep_authority out \<Longrightarrow> route_key_from_endpoints i out \<notin> T \<Longrightarrow>
     route_set_step (Add_Route i out) (Some INVALID_ARGUMENT) T T"
| add_same: "ep_authority i = ep_authority out \<Longrightarrow>
     route_set_step (Add_Route i out) (Some INVALID_ARGUMENT) T T"
| add_known: "ep_authority i \<noteq> ep_authority out \<Longrightarrow> route_key_from_endpoints i out \<in> T \<Longrightarrow>
     route_set_step (Add_Route i out) (Some ALREADY_EXISTS) T T"
| deleted: "route_key_from_endpoints i out \<in> T \<Longrightarrow>
     route_set_step (Delete_Route i out) None T (T - {route_key_from_endpoints i out})"
| delete_same: "ep_authority i = ep_authority out \<Longrightarrow>
     route_set_step (Delete_Route i out) (Some INVALID_ARGUMENT) T T"
| delete_unknown: "ep_authority i \<noteq> ep_authority out \<Longrightarrow> route_key_from_endpoints i out \<notin> T \<Longrightarrow>
     route_set_step (Delete_Route i out) (Some NOT_FOUND) T T"
| refreshed: "route_set_step Refresh a T T"

inductive route_set_run :: "command list \<Rightarrow> answer list \<Rightarrow> route_key set \<Rightarrow> route_key set \<Rightarrow> bool" where
  Nil: "route_set_run [] [] T T"
| Cons: "route_set_step c a T T1 \<Longrightarrow> route_set_run cs as T1 T2 \<Longrightarrow> route_set_run (c # cs) (a # as) T T2"

inductive_simps route_set_run_simps:
  "route_set_run [] as T T'"
  "route_set_run (c # cs) as T T'"

section \<open>The streamer and its answers\<close>

definition answer_of :: "(ustatus, 'a) result \<Rightarrow> answer" where
  "answer_of r = (case r of Inl e \<Rightarrow> Some (status_code e) | Inr _ \<Rightarrow> None)"

definition command_step ::
  "('m, 'w) env \<Rightarrow> 'w provider \<Rightarrow> command \<Rightarrow> ustreamer \<Rightarrow> 'w \<Rightarrow> answer option \<times> ustreamer \<times> 'w" where
  "command_step E P c st w =
     (case c of
        Add_Route i out \<Rightarrow> apfst (map_option answer_of) (add_route_ref E i out st w)
      | Delete_Route i out \<Rightarrow> apfst (map_option answer_of) (delete_route_ref E i out st w)
      | Refresh \<Rightarrow> apfst (\<lambda>r. Some (answer_of r)) (refresh_subscriptions E P st w))"

text \<open>\<open>None\<close> once a call panics.\<close>

fun streamer_trace ::
  "('m, 'w) env \<Rightarrow> 'w provider \<Rightarrow> command list \<Rightarrow> ustreamer \<Rightarrow> 'w \<Rightarrow> (answer list \<times> ustreamer \<times> 'w) option" where
  "streamer_trace E P [] st w = Some ([], st, w)"
| "streamer_trace E P (c # cs) st w =
     (case command_step E P c st w of
        (None, _) \<Rightarrow> None
      | (Some a, st1, w1) \<Rightarrow> map_option (apfst (Cons a)) (streamer_trace E P cs st1 w1))"

lemma streamer_trace_run: "map_option snd (streamer_trace E P cs st w) = streamer_run E P cs st w"
proof (induction cs arbitrary: st w)
  case Nil
  then show ?case by simp
next
  case (Cons c cs)
  then show ?case
    by (cases c) (auto simp: command_step_def option.map_comp comp_def split: prod.splits option.splits)
qed

context transport_contract
begin

lemma command_step_refines:
  assumes inv: "streamer_inv registrations filter_key supported R E n st w" and X: "e_ext E = X"
    and quiet: "provider_quiet registrations P" and sup: "command_supported supported c" and n: "n + 2 < 2 ^ 64"
    and step: "command_step E P c st w = (Some a, st', w')"
  shows "route_set_step c a (rs_table (us_routing st)) (rs_table (us_routing st')) \<and>
    streamer_inv registrations filter_key supported R E (n + 1) st' w'"
proof -
  have mono: "streamer_inv registrations filter_key supported R E (n + 1) s v"
    if "streamer_inv registrations filter_key supported R E n s v" for s v
    using that by (simp add: streamer_inv_def)
  show ?thesis
  proof (cases c)
    case (Add_Route i out)
    then obtain r where r: "add_route_ref E i out st w = (Some r, st', w')" "a = answer_of r"
      using step by (cases "add_route_ref E i out st w") (auto simp: command_step_def)
    have sup': "route_supported supported i out" using sup Add_Route by (simp add: command_supported_def)
    note inv' = add_route_ref_inv [OF inv X sup' r(1)]
    show ?thesis
    proof (cases r)
      case (Inl e)
      then show ?thesis
        using inv'(1,3) mono add_route_ref_code [OF r(1) [unfolded Inl]] Add_Route r(2)
        by (cases "ep_authority i = ep_authority out") (auto simp: answer_of_def intro: route_set_step.intros)
    next
      case (Inr x)
      then show ?thesis using inv'(1,2) mono Add_Route r(2)
        by (auto simp: answer_of_def intro: route_set_step.intros)
    qed
  next
    case (Delete_Route i out)
    obtain r where r: "delete_route_ref E i out st w = (Some r, st', w')" "a = answer_of r"
      using step Delete_Route by (cases "delete_route_ref E i out st w") (auto simp: command_step_def)
    from delete_route_ref_inv [OF inv X, of i out] r(1) have
      inv': "streamer_inv registrations filter_key supported R E n st' w'"
        "is_ok r \<longleftrightarrow> route_key_from_endpoints i out \<in> rs_table (us_routing st)"
        "rs_table (us_routing st') = rs_table (us_routing st) - {route_key_from_endpoints i out}"
        "\<not> is_ok r \<longrightarrow> st' = st \<and> w' = w"
      by auto
    show ?thesis
    proof (cases r)
      case (Inl e)
      then show ?thesis
        using inv' mono delete_route_ref_code [OF r(1) [unfolded Inl]] Delete_Route r(2)
        by (cases "ep_authority i = ep_authority out") (auto simp: answer_of_def intro: route_set_step.intros)
    next
      case (Inr x)
      then show ?thesis using inv' mono Delete_Route r(2)
        by (auto simp: answer_of_def intro: route_set_step.intros)
    qed
  next
    case Refresh
    then obtain r where r: "refresh_subscriptions E P st w = (r, st', w')"
      using step by (cases "refresh_subscriptions E P st w") (auto simp: command_step_def)
    show ?thesis using refresh_inv [OF inv quiet r n] refresh_cases(1) [OF r] Refresh
      by (auto intro: route_set_step.intros)
  qed
qed

lemma streamer_trace_refines:
  assumes "streamer_trace E P cs st w = Some (as, st', w')"
    and "streamer_inv registrations filter_key supported R E n st w" and X: "e_ext E = X"
    and quiet: "provider_quiet registrations P"
    and "list_all (command_supported supported) cs" and "n + length cs + 2 < 2 ^ 64"
  shows "route_set_run cs as (rs_table (us_routing st)) (rs_table (us_routing st'))"
  using assms(1,2,5,6)
proof (induction cs arbitrary: st w n as)
  case Nil
  then show ?case by (simp add: route_set_run.Nil)
next
  case (Cons c cs)
  obtain a st1 w1 as' where step: "command_step E P c st w = (Some a, st1, w1)"
    and rest: "streamer_trace E P cs st1 w1 = Some (as', st', w')" and as: "as = a # as'"
    using Cons.prems(1) by (auto split: prod.splits option.splits)
  have "command_supported supported c" "n + 2 < 2 ^ 64" using Cons.prems(3,4) by auto
  note one = command_step_refines [OF Cons.prems(2) X quiet this step]
  have "route_set_run cs as' (rs_table (us_routing st1)) (rs_table (us_routing st'))"
    using Cons.IH [OF rest conjunct2 [OF one]] Cons.prems(3,4) by simp
  then show ?case unfolding as using one by (blast intro: route_set_run.Cons)
qed

end

text \<open>C2. The streamer implements the set of its routes: whatever sequence of commands a client gives a fresh
  streamer, the answers up to the first panic are those a machine gives that keeps nothing but the set,
  starting from none, and the set it ends with is the one in the streamer's table. In particular an
  answer depends on no earlier command but through the set, but for refusals of the transports and the
  outcome of a refresh.\<close>

theorem streamer_refines_route_set:
  assumes "transport_contract (e_ext E) regs fk supported" and "provider_quiet regs P"
    and "ustreamer_new E P name qsize w0 = (Inr st0, w1)"
    and "streamer_trace E P cs st0 w1 = Some (as, st, w)"
    and "list_all (command_supported supported) cs" and "length cs + 3 < 2 ^ 64"
  shows "route_set_run cs as {} (rs_table (us_routing st))"
proof -
  have "rs_table (us_routing st0) = {}"
    using assms(3) by (auto simp: ustreamer_new_def Let_def routing_new_def route_table_new_def
        split: prod.splits dest: refresh_cases(1))
  then show ?thesis
    using transport_contract.streamer_trace_refines [OF assms(1,4) ustreamer_new_inv [OF assms(2,3)] refl
        assms(2,5)] assms(6) by simp
qed

theorem streamer_refines_route_set_witness:
  "\<exists>st w. streamer_trace foo_env sample_provider
       [Add_Route endpoint_a endpoint_b, Add_Route endpoint_a endpoint_b, Delete_Route endpoint_a endpoint_b]
       sample_streamer streamer_world = Some ([None, Some ALREADY_EXISTS, None], st, w) \<and>
     rs_table (us_routing st) = {} \<and>
     route_set_run [Add_Route endpoint_a endpoint_b, Add_Route endpoint_a endpoint_b, Delete_Route endpoint_a endpoint_b]
       [None, Some ALREADY_EXISTS, None] {} {}"
proof -
  let ?cs = "[Add_Route endpoint_a endpoint_b, Add_Route endpoint_a endpoint_b, Delete_Route endpoint_a endpoint_b]"
  let ?run = "streamer_trace foo_env sample_provider ?cs sample_streamer streamer_world"
  have "map_option (\<lambda>(as, st, w). (as, rs_table (us_routing st) = {})) ?run
      = Some ([None, Some ALREADY_EXISTS, None], True)"
    by code_simp
  then obtain st w where run: "?run = Some ([None, Some ALREADY_EXISTS, None], st, w)"
    and empty: "rs_table (us_routing st) = {}"
    by auto
  have "list_all (command_supported (foo_supported (sample_uuri_api []))) ?cs"
    using sample_route_supported by (simp add: command_supported_def)
  from streamer_refines_route_set [OF foo_contract sample_provider_quiet sample_streamer_new run this] empty run
  show ?thesis by simp
qed

end
