(* ===== verification/Configurable_Streamer.thy ===== *)
theory Configurable_Streamer
  imports Streamer_Properties
begin

text \<open>
  The configurable streamer (configurable-streamer/src/config.rs and main.rs): its configuration, the
  endpoint table, the wiring of forwarding rules and the start-up sequence of \<open>main\<close>. Files, parsers
  and the construction of transports are parameters (\<open>startup\<close>).
\<close>

section \<open>Configuration\<close>

datatype subscription_provider_mode = StaticFile | LiveUsubscription

record endpoint_config =
  ec_authority :: string
  ec_endpoint :: string
  ec_forwarding :: "string list"

record up_streamer_config =
  sc_message_queue_size :: "16 word"

record streamer_uuri =
  su_authority :: string
  su_ue_id :: "32 word"
  su_ue_version_major :: "8 word"

record usubscription_config =
  uc_mode :: subscription_provider_mode
  uc_file_path :: string

record zenoh_transport =
  zt_config_file :: string
  zt_endpoints :: "endpoint_config list"

record mqtt_config_details =
  md_hostname :: string
  md_port :: "16 word"
  md_max_buffered_messages :: "32 word" \<comment> \<open>\<open>i32\<close>\<close>
  md_max_subscriptions :: "32 word" \<comment> \<open>\<open>i32\<close>\<close>
  md_session_expiry_interval :: "32 word" \<comment> \<open>\<open>i32\<close>\<close>
  md_username :: string

record mqtt_transport =
  mt_config_file :: string
  mt_endpoints :: "endpoint_config list"
  mt_mqtt_details :: "mqtt_config_details option"

record transports =
  tr_zenoh :: zenoh_transport
  tr_mqtt :: mqtt_transport

record config =
  cf_up_streamer_config :: up_streamer_config
  cf_streamer_uuri :: streamer_uuri
  cf_usubscription_config :: usubscription_config
  cf_transports :: transports

section \<open>Endpoints and rules\<close>

type_synonym endpoint_table = "(string, endpoint) hashmap"

fun register_transport_endpoints ::
  "endpoint_config list \<Rightarrow> arc_transport \<Rightarrow> endpoint_table \<Rightarrow> (ustatus, unit) result \<times> endpoint_table" where
  "register_transport_endpoints [] t endpoints = (Ok (), endpoints)"
| "register_transport_endpoints (c # cs) t endpoints =
     (let ep = endpoint_new (ec_endpoint c) (ec_authority c) t;
          endpoints' = hm_insert (ec_endpoint c) ep endpoints
      in case hm_get endpoints (ec_endpoint c) of
           Some _ \<Rightarrow>
             (Err (fail_with_code INVALID_ARGUMENT (''Duplicate endpoint name found: '' @ ec_endpoint c)),
              endpoints')
         | None \<Rightarrow> register_transport_endpoints cs t endpoints')"

text \<open>The inner loop, over the targets of one endpoint; then the loop over the endpoints.\<close>

fun wire_targets ::
  "('m, 'w) env \<Rightarrow> endpoint_table \<Rightarrow> string \<Rightarrow> string list \<Rightarrow> ustreamer \<Rightarrow> 'w \<Rightarrow>
   (ustatus, unit) result option \<times> ustreamer \<times> 'w" where
  "wire_targets E endpoints name [] st w = (Some (Ok ()), st, w)"
| "wire_targets E endpoints name (target # ts) st w =
     (case hm_get endpoints name of
        None \<Rightarrow> (Some (Err (fail_with_code INVALID_ARGUMENT
                  (''Unknown endpoint in forwarding rules: '' @ name))), st, w)
      | Some left \<Rightarrow>
          (case hm_get endpoints target of
             None \<Rightarrow> (Some (Err (fail_with_code INVALID_ARGUMENT
                       (''Unknown forwarding target endpoint: '' @ target))), st, w)
           | Some right \<Rightarrow>
               (case add_route_ref E left right st w of
                  (None, st1, w1) \<Rightarrow> (None, st1, w1)
                | (Some (Inl e), st1, w1) \<Rightarrow> (Some (Err e), st1, w1)
                | (Some (Inr _), st1, w1) \<Rightarrow> wire_targets E endpoints name ts st1 w1)))"

fun wire_forwarding_rules ::
  "('m, 'w) env \<Rightarrow> endpoint_table \<Rightarrow> endpoint_config list \<Rightarrow> ustreamer \<Rightarrow> 'w \<Rightarrow>
   (ustatus, unit) result option \<times> ustreamer \<times> 'w" where
  "wire_forwarding_rules E endpoints [] st w = (Some (Ok ()), st, w)"
| "wire_forwarding_rules E endpoints (c # cs) st w =
     (case wire_targets E endpoints (ec_endpoint c) (ec_forwarding c) st w of
        (None, st1, w1) \<Rightarrow> (None, st1, w1)
      | (Some (Inl e), st1, w1) \<Rightarrow> (Some (Err e), st1, w1)
      | (Some (Inr _), st1, w1) \<Rightarrow> wire_forwarding_rules E endpoints cs st1 w1)"

section \<open>Start-up\<close>

text \<open>
  The outside of \<open>main\<close>: reading and parsing the two files (errors as their \<open>Debug\<close> text), building
  the transports, and the provider that reads the static file.
\<close>

record 'w startup =
  so_open :: "string \<Rightarrow> (string, string) result" \<comment> \<open>a path to a handle\<close>
  so_read :: "string \<Rightarrow> (string, string) result" \<comment> \<open>a handle to the contents\<close>
  so_parse_config :: "string \<Rightarrow> (string, config) result"
  so_mqtt_details :: "string \<Rightarrow> (string, mqtt_config_details) result"
  so_static_provider :: "string \<Rightarrow> 'w provider"
  so_zenoh_config :: "string \<Rightarrow> (string, string) result"
  so_zenoh_builder :: "string \<Rightarrow> (string, string) result"
  so_zenoh_build :: "string \<Rightarrow> string \<Rightarrow> 'w \<Rightarrow> (string, arc_transport) result \<times> 'w"
  so_mqtt_new :: "string \<Rightarrow> string \<Rightarrow> 'w \<Rightarrow> (ustatus, arc_transport) result \<times> 'w"
    \<comment> \<open>the broker's address and the authority\<close>
  so_mqtt_connect :: "arc_transport \<Rightarrow> 'w \<Rightarrow> (ustatus, unit) result \<times> 'w"
  so_ctrl_c :: "'w \<Rightarrow> (string, unit) result \<times> 'w"

definition load_mqtt_details ::
  "'w startup \<Rightarrow> mqtt_transport \<Rightarrow> (string, mqtt_transport) result" where
  "load_mqtt_details S mt =
     (case so_mqtt_details S (mt_config_file mt) of
        Inl e \<Rightarrow> Err e
      | Inr d \<Rightarrow> Ok (mt\<lparr>mt_mqtt_details := Some d\<rparr>))"

text \<open>From the path of the configuration file to the configuration with the MQTT details.\<close>

definition load_config :: "'w startup \<Rightarrow> string \<Rightarrow> (ustatus, config) result" where
  "load_config S path =
     (case so_open S path of
        Inl e \<Rightarrow> Err (fail_with_code NOT_FOUND (''File not found: '' @ e))
      | Inr file \<Rightarrow>
          (case so_read S file of
             Inl e \<Rightarrow> Err (fail_with_code INTERNAL (''Unable to read config file: '' @ e))
           | Inr contents \<Rightarrow>
               (case so_parse_config S contents of
                  Inl e \<Rightarrow> Err (fail_with_code INTERNAL (''Unable to parse config file: '' @ e))
                | Inr c \<Rightarrow>
                    (case load_mqtt_details S (tr_mqtt (cf_transports c)) of
                       Inl e \<Rightarrow> Err (fail_with_code INVALID_ARGUMENT
                                 (''Unable to load MQTT transport details: '' @ e))
                     | Inr mt \<Rightarrow> Ok (c\<lparr>cf_transports := (cf_transports c)\<lparr>tr_mqtt := mt\<rparr>\<rparr>)))))"

text \<open>All that the MQTT transport is given of its details.\<close>

definition broker_uri :: "mqtt_config_details \<Rightarrow> string" where
  "broker_uri d = md_hostname d @ '':'' @ decimal (unat (md_port d))"

definition build_transports ::
  "'w startup \<Rightarrow> config \<Rightarrow> 'w \<Rightarrow> (ustatus, arc_transport \<times> arc_transport) result \<times> 'w" where
  "build_transports S c w =
     (case so_zenoh_config S (zt_config_file (tr_zenoh (cf_transports c))) of
        Inl e \<Rightarrow> (Err (fail_with_code INVALID_ARGUMENT (''Unable to load Zenoh config file: '' @ e)), w)
      | Inr zc \<Rightarrow>
          (case so_zenoh_builder S (su_authority (cf_streamer_uuri c)) of
             Inl e \<Rightarrow> (Err (fail_with_code INTERNAL
                       (''Unable to create Zenoh transport builder: '' @ e)), w)
           | Inr b \<Rightarrow>
               (case so_zenoh_build S b zc w of
                  (Inl e, w1) \<Rightarrow> (Err (fail_with_code INTERNAL
                                   (''Unable to initialize Zenoh UTransport: '' @ e)), w1)
                | (Inr zenoh, w1) \<Rightarrow>
                    (case mt_mqtt_details (tr_mqtt (cf_transports c)) of
                       None \<Rightarrow> (Err (fail_with_code INVALID_ARGUMENT
                         ''MQTT transport details are missing after load_mqtt_details''), w1)
                     | Some d \<Rightarrow>
                         (case so_mqtt_new S (broker_uri d) (su_authority (cf_streamer_uuri c)) w1 of
                            (Inl e, w2) \<Rightarrow> (Err e, w2)
                          | (Inr mqtt, w2) \<Rightarrow>
                              (case so_mqtt_connect S mqtt w2 of
                                 (Inl e, w3) \<Rightarrow> (Err e, w3)
                               | (Inr _, w3) \<Rightarrow> (Ok (zenoh, mqtt), w3)))))))"

text \<open>The endpoints of both transports, in the order \<open>main\<close> enters them.\<close>

definition register_endpoints ::
  "config \<Rightarrow> arc_transport \<Rightarrow> arc_transport \<Rightarrow> (ustatus, endpoint_table) result" where
  "register_endpoints c zenoh mqtt =
     (case register_transport_endpoints (zt_endpoints (tr_zenoh (cf_transports c))) zenoh [] of
        (Inl e, _) \<Rightarrow> Err e
      | (Inr _, eps) \<Rightarrow>
          (case register_transport_endpoints (mt_endpoints (tr_mqtt (cf_transports c))) mqtt eps of
             (Inl e, _) \<Rightarrow> Err e
           | (Inr _, eps') \<Rightarrow> Ok eps'))"

text \<open>\<open>main\<close> up to the point where it prints that it is ready and waits for the signal.\<close>

definition streamer_start ::
  "('m, 'w) env \<Rightarrow> 'w startup \<Rightarrow> string \<Rightarrow> 'w \<Rightarrow> (ustatus, ustreamer) result option \<times> 'w" where
  "streamer_start E S path w =
     (case load_config S path of
        Inl e \<Rightarrow> (Some (Err e), w)
      | Inr c \<Rightarrow>
          (case uc_mode (cf_usubscription_config c) of
             LiveUsubscription \<Rightarrow>
               (Some (Err (fail_with_code UNIMPLEMENTED
                  ''live_usubscription mode is reserved in this phase; live runtime integration is deferred (see reports/usubscription-decoupled-pubsub-migration/05-live-integration-deferred.md)'')), w)
           | StaticFile \<Rightarrow>
               (case ustreamer_new E (so_static_provider S (uc_file_path (cf_usubscription_config c)))
                       ''up-streamer'' (sc_message_queue_size (cf_up_streamer_config c)) w of
                  (Inl e, w1) \<Rightarrow> (Some (Err e), w1)
                | (Inr st, w1) \<Rightarrow>
                    (case build_transports S c w1 of
                       (Inl e, w2) \<Rightarrow> (Some (Err e), w2)
                     | (Inr (zenoh, mqtt), w2) \<Rightarrow>
                         (case register_endpoints c zenoh mqtt of
                            Inl e \<Rightarrow> (Some (Err e), w2)
                          | Inr eps \<Rightarrow>
                              (case wire_forwarding_rules E eps (zt_endpoints (tr_zenoh (cf_transports c))) st w2 of
                                 (None, st1, w3) \<Rightarrow> (None, w3)
                               | (Some (Inl e), st1, w3) \<Rightarrow> (Some (Err e), w3)
                               | (Some (Inr _), st1, w3) \<Rightarrow>
                                   (case wire_forwarding_rules E eps (mt_endpoints (tr_mqtt (cf_transports c))) st1 w3 of
                                      (None, st2, w4) \<Rightarrow> (None, w4)
                                    | (Some (Inl e), st2, w4) \<Rightarrow> (Some (Err e), w4)
                                    | (Some (Inr _), st2, w4) \<Rightarrow> (Some (Ok st2), w4))))))))"

definition wait_for_shutdown_signal :: "'w startup \<Rightarrow> 'w \<Rightarrow> (ustatus, unit) result \<times> 'w" where
  "wait_for_shutdown_signal S w =
     (case so_ctrl_c S w of
        (Inl e, w1) \<Rightarrow> (Err (fail_with_code INTERNAL (''Unable to wait for shutdown signal: '' @ e)), w1)
      | (Inr _, w1) \<Rightarrow> (Ok (), w1))"

text \<open>\<open>main\<close> once its arguments are parsed.\<close>

definition streamer_main ::
  "('m, 'w) env \<Rightarrow> 'w startup \<Rightarrow> string \<Rightarrow> 'w \<Rightarrow> (ustatus, unit) result option \<times> 'w" where
  "streamer_main E S path w =
     (case streamer_start E S path w of
        (None, w1) \<Rightarrow> (None, w1)
      | (Some (Inl e), w1) \<Rightarrow> (Some (Err e), w1)
      | (Some (Inr _), w1) \<Rightarrow> apfst Some (wait_for_shutdown_signal S w1))"

section \<open>The endpoint table\<close>

definition names_free :: "endpoint_config list \<Rightarrow> endpoint_table \<Rightarrow> bool" where
  "names_free cs eps \<longleftrightarrow>
     distinct (map ec_endpoint cs) \<and> (\<forall>c\<in>set cs. hm_get eps (ec_endpoint c) = None)"

lemma names_free_Nil [simp]: "names_free [] eps"
  by (simp add: names_free_def)

lemma names_free_Cons:
  "names_free (c # cs) eps \<longleftrightarrow> hm_get eps (ec_endpoint c) = None \<and>
     names_free cs (hm_insert (ec_endpoint c) (endpoint_new (ec_endpoint c) a t) eps)"
proof -
  have "ec_endpoint c \<notin> ec_endpoint ` set cs \<longleftrightarrow> (\<forall>d\<in>set cs. ec_endpoint d \<noteq> ec_endpoint c)"
    by (metis imageE image_eqI)
  then show ?thesis by (auto simp: names_free_def)
qed

definition endpoint_of :: "endpoint_config list \<Rightarrow> arc_transport \<Rightarrow> string \<Rightarrow> endpoint option" where
  "endpoint_of cs t n = map_option (\<lambda>c. endpoint_new n (ec_authority c) t) (find (\<lambda>c. ec_endpoint c = n) cs)"

lemma endpoint_of_simps [simp]:
  "endpoint_of [] t n = None"
  "endpoint_of (c # cs) t n =
     (if ec_endpoint c = n then Some (endpoint_new n (ec_authority c) t) else endpoint_of cs t n)"
  by (simp_all add: endpoint_of_def)

lemma register_endpoints_ok_iff:
  "is_ok (fst (register_transport_endpoints cs t eps)) \<longleftrightarrow> names_free cs eps"
proof (induction cs arbitrary: eps)
  case Nil
  then show ?case by simp
next
  case (Cons c cs)
  then show ?case
    by (auto simp: Let_def names_free_Cons [of c cs eps "ec_authority c" t] split: option.splits)
qed

lemma register_endpoints_get:
  assumes "names_free cs eps"
  shows "hm_get (snd (register_transport_endpoints cs t eps)) n =
     (case endpoint_of cs t n of Some e \<Rightarrow> Some e | None \<Rightarrow> hm_get eps n)"
  using assms
proof (induction cs arbitrary: eps)
  case Nil
  then show ?case by simp
next
  case (Cons c cs)
  let ?eps = "hm_insert (ec_endpoint c) (endpoint_new (ec_endpoint c) (ec_authority c) t) eps"
  have "endpoint_of cs t (ec_endpoint c) = None"
    using Cons.prems by (simp add: endpoint_of_def names_free_def find_None_iff image_iff) (metis)
  with Cons.prems Cons.IH [of ?eps] show ?case
    by (auto simp: Let_def names_free_Cons [of c cs eps "ec_authority c" t] split: option.splits)
qed

section \<open>The forwarding rules as one list\<close>

definition forwarding_pairs :: "endpoint_config list \<Rightarrow> (string \<times> string) list" where
  "forwarding_pairs cs = concat (map (\<lambda>c. map (Pair (ec_endpoint c)) (ec_forwarding c)) cs)"

lemma forwarding_pairs_simps [simp]:
  "forwarding_pairs [] = []"
  "forwarding_pairs (c # cs) = map (Pair (ec_endpoint c)) (ec_forwarding c) @ forwarding_pairs cs"
  by (simp_all add: forwarding_pairs_def)

text \<open>The reference: the pairs of names one after the other.\<close>

fun wire_pairs ::
  "('m, 'w) env \<Rightarrow> endpoint_table \<Rightarrow> (string \<times> string) list \<Rightarrow> ustreamer \<Rightarrow> 'w \<Rightarrow>
   (ustatus, unit) result option \<times> ustreamer \<times> 'w" where
  "wire_pairs E endpoints [] st w = (Some (Ok ()), st, w)"
| "wire_pairs E endpoints ((l, r) # ps) st w =
     (case hm_get endpoints l of
        None \<Rightarrow> (Some (Err (fail_with_code INVALID_ARGUMENT
                  (''Unknown endpoint in forwarding rules: '' @ l))), st, w)
      | Some left \<Rightarrow>
          (case hm_get endpoints r of
             None \<Rightarrow> (Some (Err (fail_with_code INVALID_ARGUMENT
                       (''Unknown forwarding target endpoint: '' @ r))), st, w)
           | Some right \<Rightarrow>
               (case add_route_ref E left right st w of
                  (None, st1, w1) \<Rightarrow> (None, st1, w1)
                | (Some (Inl e), st1, w1) \<Rightarrow> (Some (Err e), st1, w1)
                | (Some (Inr _), st1, w1) \<Rightarrow> wire_pairs E endpoints ps st1 w1)))"

lemma wire_pairs_append:
  "wire_pairs E eps (ps @ qs) st w =
     (case wire_pairs E eps ps st w of
        (None, st1, w1) \<Rightarrow> (None, st1, w1)
      | (Some (Inl e), st1, w1) \<Rightarrow> (Some (Err e), st1, w1)
      | (Some (Inr _), st1, w1) \<Rightarrow> wire_pairs E eps qs st1 w1)"
proof (induction ps arbitrary: st w)
  case Nil
  then show ?case by simp
next
  case (Cons p ps)
  then show ?case by (cases p) (auto split: prod.splits option.splits sum.splits)
qed

lemma wire_targets_pairs:
  "wire_targets E eps name ts st w = wire_pairs E eps (map (Pair name) ts) st w"
proof (induction ts arbitrary: st w)
  case Nil
  then show ?case by simp
next
  case (Cons t ts)
  then show ?case by (auto split: prod.splits option.splits sum.splits)
qed

lemma wire_forwarding_rules_pairs:
  "wire_forwarding_rules E eps cs st w = wire_pairs E eps (forwarding_pairs cs) st w"
proof (induction cs arbitrary: st w)
  case Nil
  then show ?case by simp
next
  case (Cons c cs)
  then show ?case by (auto simp: wire_pairs_append wire_targets_pairs split: prod.splits option.splits sum.splits)
qed

text \<open>The key of the route a pair of names stands for.\<close>

definition pair_route :: "endpoint_table \<Rightarrow> string \<times> string \<Rightarrow> (endpoint \<times> endpoint) option" where
  "pair_route eps p =
     (case (hm_get eps (fst p), hm_get eps (snd p)) of (Some l, Some r) \<Rightarrow> Some (l, r) | _ \<Rightarrow> None)"

definition pair_keys :: "endpoint_table \<Rightarrow> (string \<times> string) list \<Rightarrow> route_key list" where
  "pair_keys eps ps = map (\<lambda>(l, r). route_key_from_endpoints l r) (List.map_filter (pair_route eps) ps)"

lemma pair_keys_simps [simp]:
  "pair_keys eps [] = []"
  "pair_keys eps (p # ps) = (case pair_route eps p of
     Some (l, r) \<Rightarrow> route_key_from_endpoints l r # pair_keys eps ps | None \<Rightarrow> pair_keys eps ps)"
  by (auto simp: pair_keys_def List.map_filter_def split: option.splits)

lemma pair_keys_single:
  "set ps \<subseteq> {p} \<Longrightarrow> pair_route eps p = Some (l, r) \<Longrightarrow>
     set (pair_keys eps ps) \<subseteq> {route_key_from_endpoints l r}"
  by (induction ps) auto

definition pairs_supported ::
  "(uuri \<Rightarrow> uuri option \<Rightarrow> bool) \<Rightarrow> endpoint_table \<Rightarrow> (string \<times> string) list \<Rightarrow> bool" where
  "pairs_supported supported eps ps \<longleftrightarrow>
     list_all (\<lambda>p. case pair_route eps p of Some (l, r) \<Rightarrow> route_supported supported l r | None \<Rightarrow> True) ps"

lemma pairs_supported_simps [simp]:
  "pairs_supported supported eps []"
  "pairs_supported supported eps (p # ps) \<longleftrightarrow>
     (case pair_route eps p of Some (l, r) \<Rightarrow> route_supported supported l r | None \<Rightarrow> True) \<and>
     pairs_supported supported eps ps"
  by (simp_all add: pairs_supported_def)

context transport_contract
begin

text \<open>
  A run that does not panic enters the routes of a prefix of the pairs, each new when its turn comes
  and between different authorities, and the prefix is everything exactly when the run succeeds.
\<close>

lemma wire_pairs_prefix:
  assumes "streamer_inv registrations filter_key supported R E n st w" and X: "e_ext E = X"
    and "pairs_supported supported eps ps" and "wire_pairs E eps ps st w = (Some r, st', w')"
  shows "streamer_inv registrations filter_key supported R E n st' w' \<and>
    (\<exists>entered rest. ps = entered @ rest \<and> list_all (\<lambda>p. pair_route eps p \<noteq> None) entered \<and>
      rs_table (us_routing st') = rs_table (us_routing st) \<union> set (pair_keys eps entered) \<and>
      distinct (pair_keys eps entered) \<and>
      set (pair_keys eps entered) \<inter> rs_table (us_routing st) = {} \<and> (is_ok r \<longleftrightarrow> rest = []))"
  using assms(1,3,4)
proof (induction ps arbitrary: st w)
  case Nil
  then show ?case by auto
next
  case (Cons p ps)
  obtain l t where p: "p = (l, t)" by fastforce
  show ?case
  proof (cases "pair_route eps p")
    case None
    then have "\<not> is_ok r \<and> st' = st \<and> w' = w"
      using Cons.prems(3) p by (auto simp: pair_route_def split: option.splits)
    with Cons.prems(1) show ?thesis by (auto intro: exI [of _ "[]"])
  next
    case (Some ends)
    obtain i out where ends: "ends = (i, out)" by fastforce
    have eps: "hm_get eps l = Some i" "hm_get eps t = Some out"
      using Some p ends by (auto simp: pair_route_def split: option.splits)
    have sup: "route_supported supported i out" using Cons.prems(2) Some ends by simp
    obtain q st1 w1 where add: "add_route_ref E i out st w = (q, st1, w1)" by (metis prod_cases3)
    then obtain q' where q: "q = Some q'" using Cons.prems(3) p eps by (cases q) auto
    note a = add_route_ref_inv [OF Cons.prems(1) X sup add [unfolded q]]
    show ?thesis
    proof (cases q')
      case (Inl e)
      then have "\<not> is_ok r \<and> st' = st1 \<and> w' = w1" using Cons.prems(3) p eps add q by auto
      with a Inl show ?thesis by (auto intro: exI [of _ "[]"])
    next
      case (Inr u)
      then have "wire_pairs E eps ps st1 w1 = (Some r, st', w')"
        using Cons.prems(3) p eps add q by simp
      moreover have "pairs_supported supported eps ps" using Cons.prems(2) by simp
      ultimately obtain entered rest where IH: "streamer_inv registrations filter_key supported R E n st' w'"
        "ps = entered @ rest" "list_all (\<lambda>p. pair_route eps p \<noteq> None) entered"
        "rs_table (us_routing st') = rs_table (us_routing st1) \<union> set (pair_keys eps entered)"
        "distinct (pair_keys eps entered)"
        "set (pair_keys eps entered) \<inter> rs_table (us_routing st1) = {}" "is_ok r \<longleftrightarrow> rest = []"
        using Cons.IH [OF a(1)] by blast
      let ?k = "route_key_from_endpoints i out"
      have tab: "rs_table (us_routing st1) = insert ?k (rs_table (us_routing st))"
        "?k \<notin> rs_table (us_routing st)"
        using a(2) Inr by simp_all
      have keys: "pair_keys eps (p # entered) = ?k # pair_keys eps entered" using Some ends by simp
      have "p # ps = (p # entered) @ rest" using IH(2) by simp
      moreover have "list_all (\<lambda>p. pair_route eps p \<noteq> None) (p # entered)" using IH(3) Some by simp
      moreover have "distinct (pair_keys eps (p # entered))" using keys IH(5,6) tab by auto
      moreover have "set (pair_keys eps (p # entered)) \<inter> rs_table (us_routing st) = {}"
        using keys IH(6) tab by auto
      moreover have "rs_table (us_routing st')
          = rs_table (us_routing st) \<union> set (pair_keys eps (p # entered))"
        using keys IH(4) tab by auto
      ultimately show ?thesis using IH(1,7) by blast
    qed
  qed
qed

text \<open>Whatever comes of the run, the directory is the same and the bindings stay current with it.\<close>

lemma wire_pairs_current:
  assumes "streamer_inv registrations filter_key supported R E n st w" and X: "e_ext E = X"
    and "pairs_supported supported eps ps" and "wire_pairs E eps ps st w = (Some r, st', w')"
    and "bindings_current E st"
  shows "bindings_current E st' \<and> us_directory st' = us_directory st"
  using assms(1,3,4,5)
proof (induction ps arbitrary: st w)
  case Nil
  then show ?case by simp
next
  case (Cons p ps)
  obtain l t where p: "p = (l, t)" by fastforce
  show ?case
  proof (cases "pair_route eps p")
    case None
    with Cons.prems(3,4) p show ?thesis by (auto simp: pair_route_def split: option.splits)
  next
    case (Some ends)
    obtain i out where ends: "ends = (i, out)" by fastforce
    have eps: "hm_get eps l = Some i" "hm_get eps t = Some out"
      using Some p ends by (auto simp: pair_route_def split: option.splits)
    have sup: "route_supported supported i out" using Cons.prems(2) Some ends by simp
    obtain q st1 w1 where add: "add_route_ref E i out st w = (q, st1, w1)" by (metis prod_cases3)
    then obtain q' where q: "q = Some q'" using Cons.prems(3) p eps by (cases q) auto
    note cur = add_route_ref_current [OF Cons.prems(1) X sup add [unfolded q] Cons.prems(4)]
    note dir = add_route_ref_routing(2) [OF add]
    show ?thesis
    proof (cases q')
      case (Inl e)
      then have "st' = st1" using Cons.prems(3) p eps add q by auto
      with cur dir show ?thesis by simp
    next
      case (Inr u)
      then have "wire_pairs E eps ps st1 w1 = (Some r, st', w')"
        using Cons.prems(3) p eps add q by simp
      with Cons.IH [OF add_route_ref_inv(1) [OF Cons.prems(1) X sup add [unfolded q]] _ this cur]
        Cons.prems(2) dir show ?thesis by simp
    qed
  qed
qed

end

section \<open>The start-up as a whole\<close>

text \<open>Building and connecting the transports registers no listener.\<close>

definition startup_quiet ::
  "('w \<Rightarrow> (arc_transport \<times> 'k \<times> nat) set) \<Rightarrow> 'w startup \<Rightarrow> bool" where
  "startup_quiet regs S \<longleftrightarrow>
     (\<forall>p. provider_quiet regs (so_static_provider S p)) \<and>
     (\<forall>b z w. regs (snd (so_zenoh_build S b z w)) = regs w) \<and>
     (\<forall>d a w. regs (snd (so_mqtt_new S d a w)) = regs w) \<and>
     (\<forall>t w. regs (snd (so_mqtt_connect S t w)) = regs w)"

definition config_endpoints :: "config \<Rightarrow> endpoint_config list" where
  "config_endpoints c = zt_endpoints (tr_zenoh (cf_transports c)) @ mt_endpoints (tr_mqtt (cf_transports c))"

definition config_supported :: "(uuri \<Rightarrow> uuri option \<Rightarrow> bool) \<Rightarrow> config \<Rightarrow> bool" where
  "config_supported supported c \<longleftrightarrow>
     (\<forall>a\<in>set (config_endpoints c). \<forall>b\<in>set (config_endpoints c).
        supported (fst (request_filter (ec_authority a) (ec_authority b)))
          (snd (request_filter (ec_authority a) (ec_authority b))))"

lemma build_transports_quiet:
  "startup_quiet regs S \<Longrightarrow> build_transports S c w = (r, w') \<Longrightarrow> regs w' = regs w"
  unfolding startup_quiet_def build_transports_def
  by (auto split: sum.splits prod.splits option.splits) (metis snd_conv)+

lemma register_transport_endpoints_source:
  assumes "hm_get (snd (register_transport_endpoints cs t eps)) n = Some e"
  shows "hm_get eps n = Some e \<or> (\<exists>c\<in>set cs. ep_authority e = ec_authority c)"
  using assms
proof (induction cs arbitrary: eps)
  case Nil
  then show ?case by simp
next
  case (Cons c cs)
  then show ?case
    by (fastforce simp: Let_def endpoint_new_def split: option.splits if_splits)
qed

lemma register_endpoints_source:
  assumes "register_endpoints c z q = Inr eps" and "hm_get eps n = Some e"
  shows "\<exists>d\<in>set (config_endpoints c). ep_authority e = ec_authority d"
proof -
  obtain eps1 where
    "snd (register_transport_endpoints (zt_endpoints (tr_zenoh (cf_transports c))) z []) = eps1"
    and "snd (register_transport_endpoints (mt_endpoints (tr_mqtt (cf_transports c))) q eps1) = eps"
    using assms(1) by (auto simp: register_endpoints_def split: prod.splits sum.splits)
  note eps = this
  from register_transport_endpoints_source [of "mt_endpoints (tr_mqtt (cf_transports c))" q eps1 n e]
    assms(2) eps(2)
  consider "hm_get eps1 n = Some e"
    | "\<exists>d\<in>set (mt_endpoints (tr_mqtt (cf_transports c))). ep_authority e = ec_authority d"
    by blast
  then show ?thesis
  proof cases
    case 1
    with register_transport_endpoints_source [of "zt_endpoints (tr_zenoh (cf_transports c))" z "[]" n e]
      eps(1)
    have "\<exists>d\<in>set (zt_endpoints (tr_zenoh (cf_transports c))). ep_authority e = ec_authority d" by simp
    then show ?thesis by (auto simp: config_endpoints_def)
  next
    case 2
    then show ?thesis by (auto simp: config_endpoints_def)
  qed
qed

lemma config_pairs_supported:
  assumes "config_supported supported c" and "register_endpoints c z q = Inr eps"
  shows "pairs_supported supported eps ps"
proof -
  have "route_supported supported l r" if ends: "pair_route eps p = Some (l, r)" for p l r
  proof -
    have "hm_get eps (fst p) = Some l" and "hm_get eps (snd p) = Some r"
      using ends by (auto simp: pair_route_def split: option.splits)
    with register_endpoints_source [OF assms(2)] assms(1) show ?thesis
      unfolding config_supported_def route_supported_def by metis
  qed
  then show ?thesis by (auto simp: pairs_supported_def list_all_iff split: option.splits)
qed

lemma streamer_start_ready:
  assumes "streamer_start E S path w = (Some (Inr st), w')"
  shows "\<exists>c st0 w1 z q w2 eps. load_config S path = Inr c \<and>
    uc_mode (cf_usubscription_config c) = StaticFile \<and>
    ustreamer_new E (so_static_provider S (uc_file_path (cf_usubscription_config c)))
       ''up-streamer'' (sc_message_queue_size (cf_up_streamer_config c)) w = (Inr st0, w1) \<and>
    build_transports S c w1 = (Inr (z, q), w2) \<and> register_endpoints c z q = Inr eps \<and>
    wire_pairs E eps (forwarding_pairs (config_endpoints c)) st0 w2 = (Some (Inr ()), st, w')"
proof -
  have app: "forwarding_pairs (xs @ ys) = forwarding_pairs xs @ forwarding_pairs ys" for xs ys
    by (simp add: forwarding_pairs_def)
  obtain c where c: "load_config S path = Inr c" "uc_mode (cf_usubscription_config c) = StaticFile"
    using assms
    by (auto simp: streamer_start_def split: sum.splits subscription_provider_mode.splits)
  obtain st0 w1 where st0: "ustreamer_new E (so_static_provider S (uc_file_path (cf_usubscription_config c)))
       ''up-streamer'' (sc_message_queue_size (cf_up_streamer_config c)) w = (Inr st0, w1)"
    using assms c by (auto simp: streamer_start_def split: prod.splits sum.splits)
  obtain z q w2 where b: "build_transports S c w1 = (Inr (z, q), w2)"
    using assms c st0 by (auto simp: streamer_start_def split: prod.splits sum.splits)
  obtain eps where eps: "register_endpoints c z q = Inr eps"
    using assms c st0 b by (auto simp: streamer_start_def split: sum.splits)
  obtain st1 w3 where one: "wire_forwarding_rules E eps (zt_endpoints (tr_zenoh (cf_transports c))) st0 w2
      = (Some (Inr ()), st1, w3)"
    using assms c st0 b eps
    by (auto simp: streamer_start_def split: prod.splits option.splits sum.splits)
  have two: "wire_forwarding_rules E eps (mt_endpoints (tr_mqtt (cf_transports c))) st1 w3
      = (Some (Inr ()), st, w')"
    using assms c st0 b eps one
    by (auto simp: streamer_start_def split: prod.splits option.splits sum.splits)
  have "wire_pairs E eps (forwarding_pairs (config_endpoints c)) st0 w2 = (Some (Inr ()), st, w')"
    using one two by (simp add: config_endpoints_def app wire_pairs_append wire_forwarding_rules_pairs)
  with c st0 b eps show ?thesis by blast
qed

section \<open>Properties\<close>

text \<open>
  Registering the endpoints of a transport succeeds exactly when their names are distinct and not
  taken; the table then has one entry per configured endpoint, with the configured authority and the
  given transport, and its old entries.
\<close>

theorem endpoint_registration_exact:
  assumes "register_transport_endpoints cs t eps = (r, eps')"
  shows "(is_ok r \<longleftrightarrow> distinct (map ec_endpoint cs) \<and> (\<forall>c\<in>set cs. hm_get eps (ec_endpoint c) = None)) \<and>
    (is_ok r \<longrightarrow> (\<forall>n. hm_get eps' n =
       (case find (\<lambda>c. ec_endpoint c = n) cs of
          Some c \<Rightarrow> Some (endpoint_new n (ec_authority c) t) | None \<Rightarrow> hm_get eps n)))"
proof -
  have "hm_get eps' n = (case endpoint_of cs t n of Some e \<Rightarrow> Some e | None \<Rightarrow> hm_get eps n)"
    if "is_ok r" for n
    using register_endpoints_get [of cs eps t n] register_endpoints_ok_iff [of cs t eps] assms that by simp
  then show ?thesis
    using register_endpoints_ok_iff [of cs t eps] assms
    by (auto simp: names_free_def endpoint_of_def split: option.splits)
qed

text \<open>
  Wiring forwarding rules adds the routes of the rules in order and stops at the first one that
  names an unknown endpoint or that the streamer refuses: a run that does not panic has entered
  exactly the routes of a prefix of the rules, each of them new, and reports success exactly when
  this is all of them. The books of the streamer stay balanced on either outcome.
\<close>

theorem forwarding_rules_prefix:
  assumes "transport_contract (e_ext E) regs fk supported"
    and "streamer_inv regs fk supported R E n st w"
    and "pairs_supported supported eps (forwarding_pairs cs)"
    and "wire_forwarding_rules E eps cs st w = (Some r, st', w')"
  shows "\<exists>entered rest. forwarding_pairs cs = entered @ rest \<and>
    list_all (\<lambda>p. pair_route eps p \<noteq> None) entered \<and>
    rs_table (us_routing st') = rs_table (us_routing st) \<union> set (pair_keys eps entered) \<and>
    distinct (pair_keys eps entered) \<and>
    set (pair_keys eps entered) \<inter> rs_table (us_routing st) = {} \<and>
    (is_ok r \<longleftrightarrow> rest = []) \<and> streamer_inv regs fk supported R E n st' w'"
  using transport_contract.wire_pairs_prefix [OF assms(1,2) refl assms(3)
      assms(4) [unfolded wire_forwarding_rules_pairs]]
  by blast

text \<open>
  What the configuration says, without the table of \<open>main\<close>: the endpoint of a name is on the Zenoh
  transport if the Zenoh section has it, on the MQTT transport if the MQTT section has it; the Zenoh
  transport is the one built from the Zenoh configuration file, the MQTT transport the one made for
  the broker of the MQTT details, both with the authority of the streamer.
\<close>

definition configured_endpoint ::
  "config \<Rightarrow> arc_transport \<Rightarrow> arc_transport \<Rightarrow> string \<Rightarrow> endpoint option" where
  "configured_endpoint c zenoh mqtt n =
     (case find (\<lambda>e. ec_endpoint e = n) (zt_endpoints (tr_zenoh (cf_transports c))) of
        Some e \<Rightarrow> Some (endpoint_new n (ec_authority e) zenoh)
      | None \<Rightarrow> map_option (\<lambda>e. endpoint_new n (ec_authority e) mqtt)
          (find (\<lambda>e. ec_endpoint e = n) (mt_endpoints (tr_mqtt (cf_transports c)))))"

definition configured_routes ::
  "config \<Rightarrow> arc_transport \<Rightarrow> arc_transport \<Rightarrow> (string \<times> string) set \<Rightarrow> route_key set" where
  "configured_routes c zenoh mqtt ps =
     {route_key_from_endpoints l r | l r n t. (n, t) \<in> ps \<and>
        configured_endpoint c zenoh mqtt n = Some l \<and> configured_endpoint c zenoh mqtt t = Some r}"

definition transports_of ::
  "'w startup \<Rightarrow> config \<Rightarrow> 'w \<Rightarrow> arc_transport \<Rightarrow> arc_transport \<Rightarrow> bool" where
  "transports_of S c w zenoh mqtt \<longleftrightarrow>
     (\<exists>zc b d. so_zenoh_config S (zt_config_file (tr_zenoh (cf_transports c))) = Inr zc \<and>
        so_zenoh_builder S (su_authority (cf_streamer_uuri c)) = Inr b \<and>
        fst (so_zenoh_build S b zc w) = Inr zenoh \<and>
        mt_mqtt_details (tr_mqtt (cf_transports c)) = Some d \<and>
        fst (so_mqtt_new S (md_hostname d @ '':'' @ decimal (unat (md_port d)))
          (su_authority (cf_streamer_uuri c)) (snd (so_zenoh_build S b zc w))) = Inr mqtt)"

lemma configured_routes_both:
  "configured_endpoint c z q n = Some l \<Longrightarrow> configured_endpoint c z q t = Some r \<Longrightarrow>
     configured_routes c z q {(n, t), (t, n)} = {route_key_from_endpoints l r, route_key_from_endpoints r l}"
  by (auto simp: configured_routes_def)

lemma build_transports_of:
  "build_transports S c w = (Inr (z, q), w') \<Longrightarrow> transports_of S c w z q"
  by (auto simp: build_transports_def transports_of_def broker_uri_def
      split: sum.splits prod.splits option.splits)

lemma register_endpoints_configured:
  assumes "register_endpoints c z q = Inr eps"
  shows "hm_get eps n = configured_endpoint c z q n"
proof -
  let ?zs = "zt_endpoints (tr_zenoh (cf_transports c))" and ?ms = "mt_endpoints (tr_mqtt (cf_transports c))"
  let ?one = "snd (register_transport_endpoints ?zs z [])"
  have ok: "is_ok (fst (register_transport_endpoints ?zs z []))"
    "is_ok (fst (register_transport_endpoints ?ms q ?one))"
    and eps: "eps = snd (register_transport_endpoints ?ms q ?one)"
    using assms by (auto simp: register_endpoints_def split: prod.splits sum.splits)
  have zfree: "names_free ?zs []" and mfree: "names_free ?ms ?one"
    using ok register_endpoints_ok_iff by blast+
  have one: "hm_get ?one n = endpoint_of ?zs z n"
    using register_endpoints_get [OF zfree, of z n] by (simp split: option.splits)
  have "find (\<lambda>e. ec_endpoint e = n) ?ms = None" if "hm_get ?one n \<noteq> None"
    using that mfree by (auto simp: names_free_def find_None_iff)
  then show ?thesis
    using register_endpoints_get [OF mfree, of q n] one eps
    by (auto simp: configured_endpoint_def endpoint_of_def split: option.splits)
qed

lemma pair_route_configured:
  "register_endpoints c z q = Inr eps \<Longrightarrow> pair_route eps (n, t) = Some (l, r) \<longleftrightarrow>
     configured_endpoint c z q n = Some l \<and> configured_endpoint c z q t = Some r"
  by (auto simp: pair_route_def register_endpoints_configured split: option.splits)

lemma pair_keys_set:
  "set (pair_keys eps ps) = {route_key_from_endpoints l r | l r n t. (n, t) \<in> set ps \<and>
     pair_route eps (n, t) = Some (l, r)}"
proof (induction ps)
  case Nil
  then show ?case by simp
next
  case (Cons p ps)
  show ?case
  proof (cases "pair_route eps p")
    case None
    with Cons show ?thesis by (auto simp del: prod.exhaust)
  next
    case (Some ends)
    with Cons show ?thesis by (cases p, cases ends) auto
  qed
qed

lemma pair_keys_length:
  "list_all (\<lambda>p. pair_route eps p \<noteq> None) ps \<Longrightarrow> length (pair_keys eps ps) = length ps"
  by (induction ps) auto

text \<open>
  C28. When the start-up reports that the streamer is ready, the configuration asked for the static
  file, every name of a forwarding rule is a configured endpoint, and there is one route for each
  rule of both transports and no other: from the endpoint of its name to the endpoint of its target,
  Zenoh endpoints on the Zenoh transport and MQTT endpoints on the MQTT transport the configuration
  asks for. Each of these routes has a binding, and beside what they held before the transports hold
  exactly a listener of each route's binding, under the filters of the route in the directory the
  streamer was created with.
\<close>

theorem ready_streamer_has_configured_routes:
  assumes "transport_contract (e_ext E) regs fk supported" and "startup_quiet regs S"
    and "\<forall>c. load_config S path = Inr c \<longrightarrow> config_supported supported c"
    and "streamer_start E S path w = (Some (Inr st), w')"
  shows "\<exists>c st0 w1 zenoh mqtt. load_config S path = Inr c \<and>
    uc_mode (cf_usubscription_config c) = StaticFile \<and>
    ustreamer_new E (so_static_provider S (uc_file_path (cf_usubscription_config c)))
       ''up-streamer'' (sc_message_queue_size (cf_up_streamer_config c)) w = (Inr st0, w1) \<and>
    transports_of S c w1 zenoh mqtt \<and>
    (\<forall>(n, t)\<in>set (forwarding_pairs (config_endpoints c)).
       configured_endpoint c zenoh mqtt n \<noteq> None \<and> configured_endpoint c zenoh mqtt t \<noteq> None) \<and>
    rs_table (us_routing st) = configured_routes c zenoh mqtt (set (forwarding_pairs (config_endpoints c))) \<and>
    card (rs_table (us_routing st)) = length (forwarding_pairs (config_endpoints c)) \<and>
    us_directory st = us_directory st0 \<and>
    (\<forall>k\<in>rs_table (us_routing st). binding_view (rs_registry (us_routing st)) (rk_binding k) \<noteq> None) \<and>
    regs w' = regs w \<union> route_registrations E fk st"
proof -
  obtain c st0 w1 z q w2 eps where c: "load_config S path = Inr c"
      "uc_mode (cf_usubscription_config c) = StaticFile"
    and st0: "ustreamer_new E (so_static_provider S (uc_file_path (cf_usubscription_config c)))
      ''up-streamer'' (sc_message_queue_size (cf_up_streamer_config c)) w = (Inr st0, w1)"
    and b: "build_transports S c w1 = (Inr (z, q), w2)" and eps: "register_endpoints c z q = Inr eps"
    and wired: "wire_pairs E eps (forwarding_pairs (config_endpoints c)) st0 w2 = (Some (Inr ()), st, w')"
    using streamer_start_ready [OF assms(4)] by blast
  let ?ps = "forwarding_pairs (config_endpoints c)"
  have quiet: "provider_quiet regs (so_static_provider S (uc_file_path (cf_usubscription_config c)))"
    using assms(2) by (simp add: startup_quiet_def)
  have "streamer_inv regs fk supported (regs w) E 1 st0 w1"
    by (rule ustreamer_new_inv [OF quiet st0])
  then have inv: "streamer_inv regs fk supported (regs w) E 1 st0 w2"
    using routing_inv_frame [of regs w2 w1, OF build_transports_quiet [OF assms(2) b]] by (simp add: streamer_inv_def)
  have empty: "rs_table (us_routing st0) = {}"
    using st0 by (auto simp: ustreamer_new_def Let_def routing_new_def route_table_new_def
        split: prod.splits dest: refresh_cases(1))
  have sup: "pairs_supported supported eps ?ps"
    using config_pairs_supported [OF _ eps] assms(3) c(1) by blast
  from transport_contract.wire_pairs_prefix [OF assms(1) inv refl sup wired] empty
  have ready: "streamer_inv regs fk supported (regs w) E 1 st w'"
    and known: "list_all (\<lambda>p. pair_route eps p \<noteq> None) ?ps" and distinct: "distinct (pair_keys eps ?ps)"
    and table: "rs_table (us_routing st) = set (pair_keys eps ?ps)"
    by auto
  note cur = transport_contract.wire_pairs_current [OF assms(1) inv refl sup wired ustreamer_new_current [OF st0]]
  have "\<forall>(n, t)\<in>set ?ps. configured_endpoint c z q n \<noteq> None \<and> configured_endpoint c z q t \<noteq> None"
    using known by (auto simp: list_all_iff pair_route_configured [OF eps])
  moreover have "rs_table (us_routing st) = configured_routes c z q (set ?ps)"
    unfolding table pair_keys_set configured_routes_def pair_route_configured [OF eps] ..
  moreover have "card (rs_table (us_routing st)) = length ?ps"
    unfolding table by (simp add: distinct_card [OF distinct] pair_keys_length [OF known])
  ultimately show ?thesis
    using c st0 build_transports_of [OF b] cur route_registrations_owned [OF ready] by blast
qed

section \<open>A concrete start-up\<close>

lemma run_outcome:
  "map_option is_ok (fst x) = Some True \<Longrightarrow> \<exists>a y. x = (Some (Inr a), y)"
  "map_option is_ok (fst x) = Some False \<Longrightarrow> \<exists>e y. x = (Some (Inl e), y)"
  by (cases x, case_tac a, simp, case_tac aa, simp, simp)+

definition zenoh_endpoint :: endpoint_config where
  "zenoh_endpoint = \<lparr>ec_authority = ''a'', ec_endpoint = ''left'', ec_forwarding = [''right'']\<rparr>"

definition mqtt_endpoint :: endpoint_config where
  "mqtt_endpoint = \<lparr>ec_authority = ''b'', ec_endpoint = ''right'', ec_forwarding = [''left'']\<rparr>"

definition sample_config :: config where
  "sample_config = \<lparr>cf_up_streamer_config = \<lparr>sc_message_queue_size = 16\<rparr>,
     cf_streamer_uuri = \<lparr>su_authority = ''s'', su_ue_id = 0, su_ue_version_major = 1\<rparr>,
     cf_usubscription_config = \<lparr>uc_mode = StaticFile, uc_file_path = ''subs''\<rparr>,
     cf_transports = \<lparr>tr_zenoh = \<lparr>zt_config_file = ''z'', zt_endpoints = [zenoh_endpoint]\<rparr>,
       tr_mqtt = \<lparr>mt_config_file = ''m'', mt_endpoints = [mqtt_endpoint], mt_mqtt_details = None\<rparr>\<rparr>\<rparr>"

definition sample_mqtt_details :: mqtt_config_details where
  "sample_mqtt_details = \<lparr>md_hostname = ''h'', md_port = 1883, md_max_buffered_messages = 100,
     md_max_subscriptions = 100, md_session_expiry_interval = 3600, md_username = ''u''\<rparr>"

definition sample_startup :: "nat foo_world startup" where
  "sample_startup = \<lparr>so_open = Inr, so_read = Inr, so_parse_config = (\<lambda>s. Inr sample_config),
     so_mqtt_details = (\<lambda>s. Inr sample_mqtt_details), so_static_provider = (\<lambda>p. sample_provider),
     so_zenoh_config = Inr, so_zenoh_builder = Inr,
     so_zenoh_build = (\<lambda>b z w. (Inr foo_transport, w)),
     so_mqtt_new = (\<lambda>d a w. (Inr second_transport, w)),
     so_mqtt_connect = (\<lambda>t w. (Inr (), w)), so_ctrl_c = Pair (Inr ())\<rparr>"

definition sample_endpoints :: endpoint_table where
  "sample_endpoints = [(''left'', endpoint_a), (''right'', endpoint_b)]"

lemma sample_startup_quiet: "startup_quiet regs sample_startup"
  by (simp add: startup_quiet_def sample_startup_def sample_provider_quiet)

lemma sample_config_supported: "config_supported (foo_supported (sample_uuri_api [])) sample_config"
  by code_simp

theorem endpoint_registration_exact_witness:
  "hm_get (snd (register_transport_endpoints [zenoh_endpoint, mqtt_endpoint] foo_transport [])) ''right''
     = Some (endpoint_new ''right'' ''b'' foo_transport)"
proof -
  obtain r eps' where run: "register_transport_endpoints [zenoh_endpoint, mqtt_endpoint] foo_transport []
      = (r, eps')" by fastforce
  from endpoint_registration_exact [OF run] run show ?thesis
    by (simp add: zenoh_endpoint_def mqtt_endpoint_def)
qed

theorem forwarding_rules_prefix_witness:
  "\<exists>r st' w'. wire_forwarding_rules foo_env sample_endpoints [zenoh_endpoint, zenoh_endpoint]
       sample_streamer streamer_world = (Some r, st', w') \<and> \<not> is_ok r \<and>
     rs_table (us_routing st') \<subseteq> {route_key_from_endpoints endpoint_a endpoint_b}"
proof -
  have "pairs_supported (foo_supported (sample_uuri_api [])) sample_endpoints
      (forwarding_pairs [zenoh_endpoint, zenoh_endpoint])"
    by code_simp
  note sup = this
  have "map_option is_ok (fst (wire_forwarding_rules foo_env sample_endpoints
      [zenoh_endpoint, zenoh_endpoint] sample_streamer streamer_world)) = Some False"
    by code_simp
  from run_outcome(2) [OF this] obtain e y where "wire_forwarding_rules foo_env
      sample_endpoints [zenoh_endpoint, zenoh_endpoint] sample_streamer streamer_world
      = (Some (Inl e), y)"
    by blast
  then have res: "wire_forwarding_rules foo_env sample_endpoints [zenoh_endpoint, zenoh_endpoint]
      sample_streamer streamer_world = (Some (Inl e), fst y, snd y)"
    by (simp only: prod.collapse)
  note prefix = forwarding_rules_prefix [OF foo_contract sample_streamer_inv sup res]
  from prefix obtain entered rest where split: "forwarding_pairs [zenoh_endpoint, zenoh_endpoint] = entered @ rest"
    and tab: "rs_table (us_routing (fst y)) = rs_table (us_routing sample_streamer)
      \<union> set (pair_keys sample_endpoints entered)"
    by blast
  have "forwarding_pairs [zenoh_endpoint, zenoh_endpoint] = replicate 2 (''left'', ''right'')"
    by code_simp
  with split have "set entered \<subseteq> {(''left'', ''right'')}"
    by (metis Un_upper1 set_append set_replicate_conv_if zero_neq_numeral)
  moreover have "pair_route sample_endpoints (''left'', ''right'') = Some (endpoint_a, endpoint_b)"
    by (simp add: pair_route_def sample_endpoints_def)
  ultimately have "set (pair_keys sample_endpoints entered) \<subseteq> {route_key_from_endpoints endpoint_a endpoint_b}"
    by (rule pair_keys_single)
  moreover have "rs_table (us_routing sample_streamer) = {}" by code_simp
  ultimately have "rs_table (us_routing (fst y)) \<subseteq> {route_key_from_endpoints endpoint_a endpoint_b}"
    by (simp only: tab Un_empty_left)
  with res show ?thesis by (metis is_ok_simps(2))
qed

theorem ready_streamer_has_configured_routes_witness:
  "\<exists>st w'. streamer_start foo_env sample_startup ''CONFIG'' streamer_world = (Some (Inr st), w') \<and>
     rs_table (us_routing st) = {route_key_from_endpoints endpoint_a endpoint_b,
       route_key_from_endpoints endpoint_b endpoint_a} \<and>
     binding_view (rs_registry (us_routing st)) (ingress_binding_key_new foo_transport ''a'' ''b'') \<noteq> None"
proof -
  have "map_option is_ok (fst (streamer_start foo_env sample_startup ''CONFIG'' streamer_world)) = Some True"
    by code_simp
  from run_outcome(1) [OF this] obtain st w' where
    res: "streamer_start foo_env sample_startup ''CONFIG'' streamer_world = (Some (Inr st), w')"
    by blast
  let ?c = "sample_config\<lparr>cf_transports := (cf_transports sample_config)\<lparr>tr_mqtt :=
      (tr_mqtt (cf_transports sample_config))\<lparr>mt_mqtt_details := Some sample_mqtt_details\<rparr>\<rparr>\<rparr>"
  have load: "load_config sample_startup ''CONFIG'' = Inr ?c"
    by (simp add: load_config_def load_mqtt_details_def sample_startup_def)
  then have "\<forall>c. load_config sample_startup ''CONFIG'' = Inr c \<longrightarrow>
      config_supported (foo_supported (sample_uuri_api [])) c"
    using sample_config_supported by (simp add: config_supported_def config_endpoints_def)
  from ready_streamer_has_configured_routes [OF foo_contract sample_startup_quiet this res]
  obtain c w1 zenoh mqtt where c: "load_config sample_startup ''CONFIG'' = Inr c"
    and built: "transports_of sample_startup c w1 zenoh mqtt"
    and tab: "rs_table (us_routing st)
      = configured_routes c zenoh mqtt (set (forwarding_pairs (config_endpoints c)))"
    and bound: "\<forall>k\<in>rs_table (us_routing st).
      binding_view (rs_registry (us_routing st)) (rk_binding k) \<noteq> None"
    by (elim exE conjE) (rule that; assumption)
  have c: "c = ?c" using c load by (simp only: sum.inject)
  have "zenoh = foo_transport \<and> mqtt = second_transport"
    using built unfolding c by (simp add: transports_of_def sample_startup_def)
  then have ends: "configured_endpoint ?c zenoh mqtt ''left'' = Some endpoint_a"
    "configured_endpoint ?c zenoh mqtt ''right'' = Some endpoint_b"
    by (simp_all add: configured_endpoint_def sample_config_def zenoh_endpoint_def mqtt_endpoint_def
        endpoint_a_def endpoint_b_def)
  have pairs: "set (forwarding_pairs (config_endpoints ?c)) = {(''left'', ''right''), (''right'', ''left'')}"
    by (simp add: config_endpoints_def sample_config_def zenoh_endpoint_def mqtt_endpoint_def)
  have table: "rs_table (us_routing st) = {route_key_from_endpoints endpoint_a endpoint_b,
      route_key_from_endpoints endpoint_b endpoint_a}"
    unfolding tab c pairs by (rule configured_routes_both [OF ends])
  have key: "rk_binding (route_key_from_endpoints endpoint_a endpoint_b)
      = ingress_binding_key_new foo_transport ''a'' ''b''"
    by (simp add: endpoint_a_def endpoint_b_def endpoint_new_def)
  have "binding_view (rs_registry (us_routing st)) (ingress_binding_key_new foo_transport ''a'' ''b'') \<noteq> None"
    unfolding key [symmetric] by (rule bspec [OF bound]) (simp only: table insert_iff simp_thms)
  with table show ?thesis by (intro exI [of _ st] exI [of _ w'] conjI res)
qed

end
