(* ===== verification/Smoke_Base.thy ===== *)
theory Smoke_Base
  imports Streamer_Prelude
begin

text \<open>
  Fallible actions on a state, for the transport smoke suite (utils/transport-smoke-suite/src), where
  every step may fail and some wait. An action answers a result and the state it leaves, also when it
  fails; \<open>None\<close> is an action that does not return, or panics. The combinators are for any type of
  error (\<open>eact\<close>); the errors of the smoke suite (\<open>act\<close>) are what \<open>to_string\<close> of the \<open>anyhow\<close>
  error shows, its outermost context.
\<close>

section \<open>Fallible actions\<close>

type_synonym ('e, 's, 'a) eact = "'s \<Rightarrow> (('e, 'a) result \<times> 's) option"

type_synonym ('s, 'a) act = "(string, 's, 'a) eact"

definition act_ret :: "'a \<Rightarrow> ('e, 's, 'a) eact" where
  "act_ret x s = Some (Ok x, s)"

definition act_fail :: "'e \<Rightarrow> ('e, 's, 'a) eact" where
  "act_fail e s = Some (Err e, s)"

text \<open>\<open>m?\<close> followed by the rest.\<close>

definition act_bind :: "('e, 's, 'a) eact \<Rightarrow> ('a \<Rightarrow> ('e, 's, 'b) eact) \<Rightarrow> ('e, 's, 'b) eact" where
  "act_bind m f s =
     (case m s of
        None \<Rightarrow> None
      | Some (Inl e, s') \<Rightarrow> Some (Err e, s')
      | Some (Inr x, s') \<Rightarrow> f x s')"

definition act_then :: "('e, 's, 'a) eact \<Rightarrow> ('e, 's, 'b) eact \<Rightarrow> ('e, 's, 'b) eact" where
  "act_then m n = act_bind m (\<lambda>_. n)"

text \<open>\<open>let r = m\<close> without \<open>?\<close>: the result is a value.\<close>

definition act_try :: "('e, 's, 'a) eact \<Rightarrow> ('d, 's, ('e, 'a) result) eact" where
  "act_try m s = (case m s of None \<Rightarrow> None | Some (r, s') \<Rightarrow> Some (Ok r, s'))"

definition act_ensure :: "bool \<Rightarrow> 'e \<Rightarrow> ('e, 's, unit) eact" where
  "act_ensure b e = (if b then act_ret () else act_fail e)"

definition act_when :: "bool \<Rightarrow> ('e, 's, unit) eact \<Rightarrow> ('e, 's, unit) eact" where
  "act_when b m = (if b then m else act_ret ())"

definition act_get :: "('s \<Rightarrow> 'a) \<Rightarrow> ('e, 's, 'a) eact" where
  "act_get f s = Some (Ok (f s), s)"

definition act_modify :: "('s \<Rightarrow> 's) \<Rightarrow> ('e, 's, unit) eact" where
  "act_modify f s = Some (Ok (), f s)"

definition act_lift :: "('e, 'a) result \<Rightarrow> ('e, 's, 'a) eact" where
  "act_lift r s = Some (r, s)"

text \<open>\<open>with_context\<close>\<close>

definition act_context :: "string \<Rightarrow> ('s, 'a) act \<Rightarrow> ('s, 'a) act" where
  "act_context c m s =
     (case m s of
        None \<Rightarrow> None
      | Some (Inl e, s') \<Rightarrow> Some (Err c, s')
      | Some (Inr x, s') \<Rightarrow> Some (Ok x, s'))"

text \<open>\<open>map_err\<close>\<close>

definition act_context_with :: "('d \<Rightarrow> 'e) \<Rightarrow> ('d, 's, 'a) eact \<Rightarrow> ('e, 's, 'a) eact" where
  "act_context_with f m s =
     (case m s of
        None \<Rightarrow> None
      | Some (Inl e, s') \<Rightarrow> Some (Err (f e), s')
      | Some (Inr x, s') \<Rightarrow> Some (Ok x, s'))"

definition result_context :: "string \<Rightarrow> (string, 'a) result \<Rightarrow> (string, 'a) result" where
  "result_context c r = (case r of Inl e \<Rightarrow> Err c | Inr x \<Rightarrow> Ok x)"

text \<open>An operation whose error is returned, one that may panic, and \<open>unwrap\<close>.\<close>

definition act_do :: "('s \<Rightarrow> ('e, 'a) result \<times> 's) \<Rightarrow> ('e, 's, 'a) eact" where
  "act_do f s = Some (f s)"

definition act_expect :: "('s \<Rightarrow> ('a \<times> 's) option) \<Rightarrow> ('e, 's, 'a) eact" where
  "act_expect f s = (case f s of None \<Rightarrow> None | Some (x, s') \<Rightarrow> Some (Ok x, s'))"

definition act_unwrap :: "'a option \<Rightarrow> ('e, 's, 'a) eact" where
  "act_unwrap x s = (case x of None \<Rightarrow> None | Some y \<Rightarrow> Some (Ok y, s))"

fun act_each :: "('a \<Rightarrow> ('e, 's, unit) eact) \<Rightarrow> 'a list \<Rightarrow> ('e, 's, unit) eact" where
  "act_each f [] = act_ret ()"
| "act_each f (x # xs) = act_then (f x) (act_each f xs)"

named_theorems act_runs "what a run of an action that returned has done"
named_theorems act_Ok "when an action succeeds"

lemma act_ret_run [act_runs, act_Ok]: "act_ret x s = Some (r, s') \<longleftrightarrow> r = Inr x \<and> s' = s"
  by (auto simp: act_ret_def)

lemma act_fail_run [act_runs, act_Ok]: "act_fail e s = Some (r, s') \<longleftrightarrow> r = Inl e \<and> s' = s"
  by (auto simp: act_fail_def)

lemma act_get_run [act_runs, act_Ok]: "act_get f s = Some (r, s') \<longleftrightarrow> r = Inr (f s) \<and> s' = s"
  by (auto simp: act_get_def)

lemma act_modify_run [act_runs, act_Ok]: "act_modify f s = Some (r, s') \<longleftrightarrow> r = Inr () \<and> s' = f s"
  by (auto simp: act_modify_def)

lemma act_lift_run [act_runs, act_Ok]: "act_lift q s = Some (r, s') \<longleftrightarrow> r = q \<and> s' = s"
  by (auto simp: act_lift_def)

lemma act_do_run [act_runs, act_Ok]: "act_do f s = Some (r, s') \<longleftrightarrow> f s = (r, s')"
  by (simp add: act_do_def)

lemma act_expect_run [act_runs, act_Ok]:
  "act_expect f s = Some (r, s') \<longleftrightarrow> (\<exists>x. r = Inr x \<and> f s = Some (x, s'))"
  by (auto simp: act_expect_def split: option.splits)

lemma act_unwrap_run [act_runs, act_Ok]:
  "act_unwrap x s = Some (r, s') \<longleftrightarrow> (\<exists>y. x = Some y \<and> r = Inr y) \<and> s' = s"
  by (auto simp: act_unwrap_def split: option.splits)

lemma act_bind_Ok [act_Ok]:
  "act_bind m f s = Some (Inr y, s') \<longleftrightarrow> (\<exists>x t. m s = Some (Inr x, t) \<and> f x t = Some (Inr y, s'))"
  by (auto simp: act_bind_def split: option.splits prod.splits sum.splits)

lemma act_bind_run [act_runs]:
  "act_bind m f s = Some (r, s') \<longleftrightarrow>
     (\<exists>e. m s = Some (Inl e, s') \<and> r = Inl e) \<or>
     (\<exists>x t. m s = Some (Inr x, t) \<and> f x t = Some (r, s'))"
  by (auto simp: act_bind_def split: option.splits prod.splits sum.splits)

lemma act_then_Ok [act_Ok]:
  "act_then m n s = Some (Inr y, s') \<longleftrightarrow> (\<exists>x t. m s = Some (Inr x, t) \<and> n t = Some (Inr y, s'))"
  by (simp add: act_then_def act_bind_Ok)

lemma act_then_run [act_runs]:
  "act_then m n s = Some (r, s') \<longleftrightarrow>
     (\<exists>e. m s = Some (Inl e, s') \<and> r = Inl e) \<or> (\<exists>x t. m s = Some (Inr x, t) \<and> n t = Some (r, s'))"
  by (simp add: act_then_def act_bind_run)

lemma act_try_run [act_runs, act_Ok]:
  "act_try m s = Some (r, s') \<longleftrightarrow> (\<exists>q. m s = Some (q, s') \<and> r = Inr q)"
  by (auto simp: act_try_def split: option.splits)

lemma act_ensure_run [act_runs, act_Ok]:
  "act_ensure b e s = Some (r, s') \<longleftrightarrow> s' = s \<and> r = (if b then Inr () else Inl e)"
  by (auto simp: act_ensure_def act_ret_def act_fail_def)

lemma act_when_run [act_runs, act_Ok]:
  "act_when b m s = Some (r, s') \<longleftrightarrow> (if b then m s = Some (r, s') else r = Inr () \<and> s' = s)"
  by (auto simp: act_when_def act_ret_def)

lemma act_context_Ok [act_Ok]:
  "act_context c m s = Some (Inr x, s') \<longleftrightarrow> m s = Some (Inr x, s')"
  by (auto simp: act_context_def split: option.splits prod.splits sum.splits)

lemma act_context_run [act_runs]:
  "act_context c m s = Some (r, s') \<longleftrightarrow>
     (\<exists>e. m s = Some (Inl e, s') \<and> r = Inl c) \<or> (\<exists>x. m s = Some (Inr x, s') \<and> r = Inr x)"
  by (auto simp: act_context_def split: option.splits prod.splits sum.splits)

lemma act_context_with_Ok [act_Ok]:
  "act_context_with f m s = Some (Inr x, s') \<longleftrightarrow> m s = Some (Inr x, s')"
  by (auto simp: act_context_with_def split: option.splits prod.splits sum.splits)

lemma act_context_with_run [act_runs]:
  "act_context_with f m s = Some (r, s') \<longleftrightarrow>
     (\<exists>e. m s = Some (Inl e, s') \<and> r = Inl (f e)) \<or> (\<exists>x. m s = Some (Inr x, s') \<and> r = Inr x)"
  by (auto simp: act_context_with_def split: option.splits prod.splits sum.splits)

lemma result_context_Ok [simp]: "result_context c r = Inr x \<longleftrightarrow> r = Inr x"
  by (auto simp: result_context_def split: sum.splits)

lemma act_bind_mono [partial_function_mono]:
  assumes "\<And>x s. mono_option (\<lambda>f. C f x s)"
  shows "mono_option (\<lambda>f. act_bind m (C f) s)"
  unfolding act_bind_def using assms
  by (auto intro!: monotoneI simp: monotone_def split: option.splits prod.splits sum.splits)
    (auto simp: flat_ord_def)

subsection \<open>Actions that return\<close>

text \<open>An action returns from the states of \<open>P\<close> and stays among them.\<close>

definition act_returns :: "('s \<Rightarrow> bool) \<Rightarrow> ('e, 's, 'a) eact \<Rightarrow> bool" where
  "act_returns P m \<longleftrightarrow> (\<forall>s. P s \<longrightarrow> (\<exists>r s'. m s = Some (r, s') \<and> P s'))"

named_theorems act_total "actions that return"

lemma act_returnsI: "(\<And>s. P s \<Longrightarrow> \<exists>r s'. m s = Some (r, s') \<and> P s') \<Longrightarrow> act_returns P m"
  by (simp add: act_returns_def)

lemma act_returnsD: "act_returns P m \<Longrightarrow> P s \<Longrightarrow> \<exists>r s'. m s = Some (r, s') \<and> P s'"
  by (simp add: act_returns_def)

lemma act_returns_basic [act_total]:
  "act_returns P (act_ret x)" "act_returns P (act_fail e)" "act_returns P (act_get f)"
  "act_returns P (act_lift q)" "act_returns P (act_ensure b e)"
  by (auto simp: act_returns_def act_ret_def act_fail_def act_get_def act_lift_def act_ensure_def)

lemma act_returns_modify [act_total]: "(\<And>s. P s \<Longrightarrow> P (f s)) \<Longrightarrow> act_returns P (act_modify f)"
  by (simp add: act_returns_def act_modify_def)

lemma act_returns_bind [act_total]:
  assumes "act_returns P m" and "\<And>x. act_returns P (f x)"
  shows "act_returns P (act_bind m f)"
proof (rule act_returnsI)
  fix s assume "P s"
  then obtain r t where m: "m s = Some (r, t)" "P t" using act_returnsD [OF assms(1)] by blast
  show "\<exists>r s'. act_bind m f s = Some (r, s') \<and> P s'"
  proof (cases r)
    case (Inl e)
    with m show ?thesis by (auto simp: act_bind_def)
  next
    case (Inr x)
    with m act_returnsD [OF assms(2)] show ?thesis by (simp add: act_bind_def)
  qed
qed

lemma act_returns_then [act_total]:
  "act_returns P m \<Longrightarrow> act_returns P n \<Longrightarrow> act_returns P (act_then m n)"
  by (simp add: act_then_def act_returns_bind)

lemma act_returns_try [act_total]: "act_returns P m \<Longrightarrow> act_returns P (act_try m)"
  unfolding act_returns_def act_try_def by fastforce

lemma act_returns_when [act_total]: "act_returns P m \<Longrightarrow> act_returns P (act_when b m)"
  by (simp add: act_when_def act_returns_basic)

lemma act_returns_context [act_total]:
  assumes "act_returns P m"
  shows "act_returns P (act_context c m)"
proof (rule act_returnsI)
  fix s assume "P s"
  then obtain r t where "m s = Some (r, t)" "P t" using act_returnsD [OF assms] by blast
  then show "\<exists>r s'. act_context c m s = Some (r, s') \<and> P s'"
    by (cases r) (auto simp: act_context_def)
qed

lemma act_returns_each [act_total]:
  "(\<And>x. act_returns P (f x)) \<Longrightarrow> act_returns P (act_each f xs)"
proof (induction xs)
  case Nil
  show ?case by (simp add: act_returns_basic)
next
  case (Cons x xs)
  then show ?case by (simp add: act_returns_then)
qed

lemma act_returns_cases [act_total]:
  "act_returns P m \<Longrightarrow> act_returns P n \<Longrightarrow> act_returns P (if b then m else n)"
  "act_returns P m \<Longrightarrow> (\<And>y. act_returns P (f y)) \<Longrightarrow> act_returns P (case x of None \<Rightarrow> m | Some y \<Rightarrow> f y)"
  by (auto split: option.splits)

subsection \<open>Specifications of actions\<close>

text \<open>
  From the states of \<open>P\<close>, a success is in \<open>Q\<close> and a failure in \<open>E\<close>, if the action returns.
\<close>

definition act_spec ::
  "('s \<Rightarrow> bool) \<Rightarrow> ('e, 's, 'a) eact \<Rightarrow> ('a \<Rightarrow> 's \<Rightarrow> bool) \<Rightarrow> ('s \<Rightarrow> bool) \<Rightarrow> bool" where
  "act_spec P m Q E \<longleftrightarrow>
     (\<forall>s r s'. P s \<longrightarrow> m s = Some (r, s') \<longrightarrow> (case r of Inr x \<Rightarrow> Q x s' | Inl e \<Rightarrow> E s'))"

lemma act_specI:
  "(\<And>s x s'. P s \<Longrightarrow> m s = Some (Inr x, s') \<Longrightarrow> Q x s') \<Longrightarrow>
   (\<And>s e s'. P s \<Longrightarrow> m s = Some (Inl e, s') \<Longrightarrow> E s') \<Longrightarrow> act_spec P m Q E"
  by (auto simp: act_spec_def split: sum.splits)

lemma act_specD:
  "act_spec P m Q E \<Longrightarrow> P s \<Longrightarrow> m s = Some (Inr x, s') \<Longrightarrow> Q x s'"
  "act_spec P m Q E \<Longrightarrow> P s \<Longrightarrow> m s = Some (Inl e, s') \<Longrightarrow> E s'"
  by (fastforce simp: act_spec_def)+

lemma act_spec_weaken:
  "act_spec P m Q E \<Longrightarrow> (\<And>s. P' s \<Longrightarrow> P s) \<Longrightarrow> (\<And>x s. Q x s \<Longrightarrow> Q' x s) \<Longrightarrow> (\<And>s. E s \<Longrightarrow> E' s) \<Longrightarrow>
     act_spec P' m Q' E'"
  by (rule act_specI) (blast dest: act_specD)+

lemma act_spec_bind:
  assumes "act_spec P m R E" and "\<And>x. act_spec (R x) (f x) Q E"
  shows "act_spec P (act_bind m f) Q E"
  by (rule act_specI) (auto simp: act_runs dest: act_specD [OF assms(1)] act_specD [OF assms(2)])

lemma act_spec_then:
  "act_spec P m (\<lambda>_. R) E \<Longrightarrow> act_spec R n Q E \<Longrightarrow> act_spec P (act_then m n) Q E"
  by (simp add: act_then_def act_spec_bind)

lemma act_spec_ret: "(\<And>s. P s \<Longrightarrow> Q x s) \<Longrightarrow> act_spec P (act_ret x) Q E"
  by (rule act_specI) (auto simp: act_runs)

lemma act_spec_fail: "(\<And>s. P s \<Longrightarrow> E s) \<Longrightarrow> act_spec P (act_fail e) Q E"
  by (rule act_specI) (auto simp: act_runs)

lemma act_spec_get: "(\<And>s. P s \<Longrightarrow> Q (f s) s) \<Longrightarrow> act_spec P (act_get f) Q E"
  by (rule act_specI) (auto simp: act_runs)

lemma act_spec_modify: "(\<And>s. P s \<Longrightarrow> Q () (f s)) \<Longrightarrow> act_spec P (act_modify f) Q E"
  by (rule act_specI) (auto simp: act_runs)

lemma act_spec_ensure:
  "(\<And>s. P s \<Longrightarrow> b \<Longrightarrow> Q () s) \<Longrightarrow> (\<And>s. P s \<Longrightarrow> E s) \<Longrightarrow> act_spec P (act_ensure b e) Q E"
  by (rule act_specI) (auto simp: act_runs split: if_splits)

lemma act_spec_if:
  "(b \<Longrightarrow> act_spec P m Q E) \<Longrightarrow> (\<not> b \<Longrightarrow> act_spec P n Q E) \<Longrightarrow> act_spec P (if b then m else n) Q E"
  by simp

lemma act_spec_when:
  "(b \<Longrightarrow> act_spec P m Q E) \<Longrightarrow> (\<And>s. \<not> b \<Longrightarrow> P s \<Longrightarrow> Q () s) \<Longrightarrow> act_spec P (act_when b m) Q E"
  by (simp add: act_when_def act_spec_ret)

lemma act_spec_context: "act_spec P m Q E \<Longrightarrow> act_spec P (act_context c m) Q E"
  by (rule act_specI) (auto simp: act_runs dest: act_specD)

text \<open>An assumption about the state can be moved out of the precondition.\<close>

lemma act_spec_pre: "(\<And>s. P s \<Longrightarrow> act_spec (\<lambda>t. t = s) m Q E) \<Longrightarrow> act_spec P m Q E"
  by (fastforce simp: act_spec_def)

lemma act_spec_get_bind:
  "(\<And>x. act_spec (\<lambda>s. P s \<and> f s = x) (g x) Q E) \<Longrightarrow> act_spec P (act_bind (act_get f) g) Q E"
  by (rule act_spec_bind [where R = "\<lambda>x s. P s \<and> f s = x"]) (auto intro: act_spec_get)

end
