(* ===== verification/Smoke_System.thy ===== *)
theory Smoke_System
  imports Smoke_Base
begin

text \<open>
  What the smoke suite uses of the standard library and of the operating system (\<open>os\<close>, a parameter),
  and its modules env.rs and logs.rs (utils/transport-smoke-suite/src).

  Strings are ASCII; a byte beyond is not white space. Paths are Unix paths without \<open>.\<close> components.
  Times are in nanoseconds; adding a timeout to an instant is taken not to overflow.
\<close>

section \<open>Strings and paths\<close>

definition is_white :: "char \<Rightarrow> bool" where
  "is_white c \<longleftrightarrow> (let n = of_char c :: nat in n = 32 \<or> (9 \<le> n \<and> n \<le> 13))"

definition newline :: char where "newline = CHR 0x0A"
definition carriage_return :: char where "carriage_return = CHR 0x0D"

definition quoted :: "string \<Rightarrow> string" where
  "quoted s = [CHR 0x27] @ s @ [CHR 0x27]"

definition trim :: "string \<Rightarrow> string" where
  "trim s = rev (dropWhile is_white (rev (dropWhile is_white s)))"

fun split_on :: "char \<Rightarrow> string \<Rightarrow> string list" where
  "split_on c [] = [[]]"
| "split_on c (x # xs) =
     (if x = c then [] # split_on c xs
      else (case split_on c xs of [] \<Rightarrow> [[x]] | p # ps \<Rightarrow> (x # p) # ps))"

definition strip_suffix_char :: "char \<Rightarrow> string \<Rightarrow> string" where
  "strip_suffix_char c s = (if s \<noteq> [] \<and> last s = c then butlast s else s)"

text \<open>\<open>str::lines\<close>: a line feed ends a line, with the carriage return before it; no last empty line.\<close>

definition str_lines :: "string \<Rightarrow> string list" where
  "str_lines s =
     (let ps = split_on newline s
      in map (strip_suffix_char carriage_return) (butlast ps) @ (if last ps = [] then [] else [last ps]))"

fun str_join :: "string \<Rightarrow> string list \<Rightarrow> string" where
  "str_join sep [] = []"
| "str_join sep [x] = x"
| "str_join sep (x # y # ys) = x @ sep @ str_join sep (y # ys)"

definition starts_with :: "string \<Rightarrow> string \<Rightarrow> bool" where
  "starts_with p s \<longleftrightarrow> take (length p) s = p"

definition strip_prefix :: "string \<Rightarrow> string \<Rightarrow> string option" where
  "strip_prefix p s = (if starts_with p s then Some (drop (length p) s) else None)"

definition show_int :: "int \<Rightarrow> string" where
  "show_int i = (if i < 0 then ''-'' @ decimal (nat (- i)) else decimal (nat i))"

text \<open>\<open>{:?}\<close> of an \<open>Option<i32>\<close>.\<close>

definition debug_option_int :: "int option \<Rightarrow> string" where
  "debug_option_int x = (case x of None \<Rightarrow> ''None'' | Some i \<Rightarrow> ''Some('' @ show_int i @ '')'')"

definition path_is_absolute :: "string \<Rightarrow> bool" where
  "path_is_absolute p \<longleftrightarrow> starts_with ''/'' p"

definition path_join :: "string \<Rightarrow> string \<Rightarrow> string" where
  "path_join b p =
     (if path_is_absolute p then p
      else if b = [] \<or> last b = CHR ''/'' then b @ p
      else b @ ''/'' @ p)"

definition strip_slashes :: "string \<Rightarrow> string" where
  "strip_slashes p = rev (dropWhile (\<lambda>c. c = CHR ''/'') (rev p))"

text \<open>\<open>Path::parent\<close>: none for the root and the empty path.\<close>

definition path_parent :: "string \<Rightarrow> string option" where
  "path_parent p =
     (let s = strip_slashes p in
      if s = [] then None
      else (let d = rev (dropWhile (\<lambda>c. c \<noteq> CHR ''/'') (rev s)) in
            Some (if d \<noteq> [] \<and> strip_slashes d = [] then ''/'' else strip_slashes d)))"

definition path_file_name :: "string \<Rightarrow> string" where
  "path_file_name p = rev (takeWhile (\<lambda>c. c \<noteq> CHR ''/'') (rev (strip_slashes p)))"

section \<open>Time\<close>

type_synonym nanos = nat

definition secs :: "nat \<Rightarrow> nanos" where "secs n = n * 1000000000"
definition millis :: "nat \<Rightarrow> nanos" where "millis n = n * 1000000"
definition as_millis :: "nanos \<Rightarrow> nat" where "as_millis n = n div 1000000"

section \<open>The operating system\<close>

datatype file_kind = Regular_File | Directory | Other_File

record command_output =
  co_code :: "int option" \<comment> \<open>none when a signal ended the process\<close>
  co_stdout :: string
  co_stderr :: string
  co_status_display :: string

definition status_success :: "command_output \<Rightarrow> bool" where
  "status_success out \<longleftrightarrow> co_code out = Some 0"

text \<open>
  Looking at files does not change the world; running a command, waiting and reading the clock may
  (other processes go on). A file error is the text its \<open>Display\<close> shows.
\<close>

record 'w os =
  os_metadata :: "string \<Rightarrow> 'w \<Rightarrow> (string, file_kind) result"
  os_read_to_string :: "string \<Rightarrow> 'w \<Rightarrow> (string, string) result"
  os_read_dir :: "string \<Rightarrow> 'w \<Rightarrow> (string, (string, string) result list) result" \<comment> \<open>paths of entries\<close>
  os_modified :: "string \<Rightarrow> 'w \<Rightarrow> (string, nat) result"
  os_env_var :: "string \<Rightarrow> 'w \<Rightarrow> string option"
  os_create_dir_all :: "string \<Rightarrow> 'w \<Rightarrow> (string, unit) result \<times> 'w"
  os_write :: "string \<Rightarrow> string \<Rightarrow> 'w \<Rightarrow> (string, unit) result \<times> 'w"
  os_now :: "'w \<Rightarrow> nanos \<times> 'w" \<comment> \<open>\<open>Instant::now\<close>\<close>
  os_utc :: "'w \<Rightarrow> nat \<times> 'w" \<comment> \<open>\<open>Utc::now\<close>\<close>
  os_sleep :: "nanos \<Rightarrow> 'w \<Rightarrow> 'w"
  os_output ::
    "string \<Rightarrow> string list \<Rightarrow> string option \<Rightarrow> 'w \<Rightarrow> ((string, command_output) result \<times> 'w) option"
    \<comment> \<open>program, arguments, directory; none for a command that never ends, which is awaited without a timeout\<close>
  os_open_append :: "string \<Rightarrow> 'w \<Rightarrow> (string, unit) result \<times> 'w"
  os_try_clone :: "string \<Rightarrow> 'w \<Rightarrow> (string, unit) result \<times> 'w"
  os_spawn :: "string \<Rightarrow> string list \<Rightarrow> string \<Rightarrow> string \<Rightarrow> 'w \<Rightarrow> (string, nat) result \<times> 'w"
    \<comment> \<open>program, arguments, directory, log file; in a process group of its own\<close>
  os_child_id :: "nat \<Rightarrow> 'w \<Rightarrow> int option"
  os_try_wait :: "nat \<Rightarrow> 'w \<Rightarrow> (string, int option option) result \<times> 'w"
    \<comment> \<open>none while it runs, else its exit code\<close>
  os_wait_timeout :: "nanos \<Rightarrow> nat \<Rightarrow> 'w \<Rightarrow> (string, int option) result option \<times> 'w"
    \<comment> \<open>none when the time is up\<close>
  os_kill :: "int \<Rightarrow> int \<Rightarrow> 'w \<Rightarrow> int \<times> 'w" \<comment> \<open>0 or the error number\<close>
  os_error_text :: "int \<Rightarrow> string"
  os_utc_rfc3339 :: "nat \<Rightarrow> string"
  os_utc_compact :: "nat \<Rightarrow> string" \<comment> \<open>\<open>%Y%m%dT%H%M%SZ\<close>\<close>

definition effect :: "('w \<Rightarrow> (string, 'a) result \<times> 'w) \<Rightarrow> ('w, 'a) act" where
  "effect f w = Some (f w)"

definition value_of :: "('w \<Rightarrow> 'a \<times> 'w) \<Rightarrow> ('w, 'a) act" where
  "value_of f w = Some (apfst Ok (f w))"

definition looked_up :: "('w \<Rightarrow> (string, 'a) result) \<Rightarrow> ('w, 'a) act" where
  "looked_up f w = Some (f w, w)"

definition sleep :: "'w os \<Rightarrow> nanos \<Rightarrow> ('w, unit) act" where
  "sleep OS d = act_modify (os_sleep OS d)"

definition path_exists :: "'w os \<Rightarrow> string \<Rightarrow> 'w \<Rightarrow> bool" where
  "path_exists OS p w = is_ok (os_metadata OS p w)"

lemma effect_run [act_runs, act_Ok]: "effect f w = Some (r, w') \<longleftrightarrow> f w = (r, w')"
  by (simp add: effect_def)

lemma value_of_run [act_runs, act_Ok]:
  "value_of f w = Some (r, w') \<longleftrightarrow> (\<exists>x. f w = (x, w') \<and> r = Inr x)"
  by (cases "f w") (auto simp: value_of_def)

lemma looked_up_run [act_runs, act_Ok]: "looked_up f w = Some (r, w') \<longleftrightarrow> r = f w \<and> w' = w"
  by (auto simp: looked_up_def)

lemma sleep_run [act_runs, act_Ok]: "sleep OS d w = Some (r, w') \<longleftrightarrow> r = Inr () \<and> w' = os_sleep OS d w"
  by (simp add: sleep_def act_modify_run)

lemma act_returns_world [act_total]:
  "(\<And>w. P w \<Longrightarrow> P (snd (f w))) \<Longrightarrow> act_returns P (effect f)"
  "(\<And>w. P w \<Longrightarrow> P (snd (g w))) \<Longrightarrow> act_returns P (value_of g)"
  "act_returns P (looked_up h)"
  by (auto simp: act_returns_def effect_def value_of_def looked_up_def)
    (metis prod.collapse snd_apfst)+

section \<open>env.rs\<close>

definition DEFAULT_SEND_COUNT :: nat where "DEFAULT_SEND_COUNT = 12"
definition DEFAULT_SEND_INTERVAL_MS :: nat where "DEFAULT_SEND_INTERVAL_MS = 1000"
definition DEFAULT_ENDPOINT_CLAIM_MIN_COUNT :: nat where "DEFAULT_ENDPOINT_CLAIM_MIN_COUNT = 4"
definition DEFAULT_EGRESS_SEND_ATTEMPT_MIN_COUNT :: nat where "DEFAULT_EGRESS_SEND_ATTEMPT_MIN_COUNT = 2"
definition DEFAULT_EGRESS_SEND_OK_MIN_COUNT :: nat where "DEFAULT_EGRESS_SEND_OK_MIN_COUNT = 2"
definition DEFAULT_EGRESS_WORKER_MIN_COUNT :: nat where "DEFAULT_EGRESS_WORKER_MIN_COUNT = 1"
definition BROKER_READY_TIMEOUT_SECS :: nat where "BROKER_READY_TIMEOUT_SECS = 30"
definition STREAMER_READY_TIMEOUT_SECS :: nat where "STREAMER_READY_TIMEOUT_SECS = 60"
definition PASSIVE_READY_TIMEOUT_SECS :: nat where "PASSIVE_READY_TIMEOUT_SECS = 30"
definition MQTT_HARD_TIMEOUT_SECS :: nat where "MQTT_HARD_TIMEOUT_SECS = 120"
definition SOMEIP_HARD_TIMEOUT_SECS :: nat where "SOMEIP_HARD_TIMEOUT_SECS = 180"
definition SIGINT_GRACE_SECS :: nat where "SIGINT_GRACE_SECS = 5"
definition SIGTERM_GRACE_SECS :: nat where "SIGTERM_GRACE_SECS = 5"
definition LOG_POLL_INTERVAL_MS :: nat where "LOG_POLL_INTERVAL_MS = 100"

definition READY_STREAMER_INITIALIZED :: string where
  "READY_STREAMER_INITIALIZED = ''READY streamer_initialized''"

definition READY_LISTENER_REGISTERED :: string where
  "READY_LISTENER_REGISTERED = ''READY listener_registered''"

text \<open>\<open>CARGO_MANIFEST_DIR\<close> is fixed when the suite is built.\<close>

definition repo_root :: "string \<Rightarrow> (string, string) result" where
  "repo_root manifest_dir =
     (case Option.bind (path_parent manifest_dir) path_parent of
        None \<Rightarrow> Err (''unable to resolve workspace root from '' @ manifest_dir)
      | Some p \<Rightarrow> Ok p)"

definition resolve_artifacts_root :: "string \<Rightarrow> string option \<Rightarrow> string" where
  "resolve_artifacts_root root given =
     (case given of
        Some p \<Rightarrow> p
      | None \<Rightarrow> path_join (path_join root ''target'') ''transport-smoke'')"

definition resolve_expected_branch :: "'w os \<Rightarrow> string option \<Rightarrow> 'w \<Rightarrow> string option" where
  "resolve_expected_branch OS given w =
     (case given of
        Some b \<Rightarrow> Some b
      | None \<Rightarrow>
          (case os_env_var OS ''SMOKE_EXPECTED_BRANCH'' w of
             None \<Rightarrow> None
           | Some v \<Rightarrow> if trim v = [] then None else Some (trim v)))"

definition scenario_timestamp :: "'w os \<Rightarrow> ('w, string) act" where
  "scenario_timestamp OS = act_bind (value_of (os_utc OS)) (\<lambda>t. act_ret (os_utc_compact OS t))"

definition enforce_expected_branch :: "'w os \<Rightarrow> string \<Rightarrow> string option \<Rightarrow> ('w, unit) act" where
  "enforce_expected_branch OS root expected =
     (case expected of
        None \<Rightarrow> act_ret ()
      | Some branch \<Rightarrow>
          act_bind
            (act_context ''failed to query current git branch''
               (os_output OS ''git'' [''rev-parse'', ''--abbrev-ref'', ''HEAD''] (Some root)))
            (\<lambda>out. act_then
               (act_ensure (status_success out)
                  (''git branch query failed with status '' @ co_status_display out))
               (act_ensure (trim (co_stdout out) = branch)
                  (''branch guard mismatch: expected '' @ quoted branch @ '', found '' @
                   quoted (trim (co_stdout out)) @
                   ''. Pass --expected-branch or unset SMOKE_EXPECTED_BRANCH to control this guard''))))"

fun ensure_paths_exist :: "'w os \<Rightarrow> string \<Rightarrow> string list \<Rightarrow> 'w \<Rightarrow> (string, unit) result" where
  "ensure_paths_exist OS root [] w = Ok ()"
| "ensure_paths_exist OS root (p # ps) w =
     (if path_exists OS (path_join root p) w then ensure_paths_exist OS root ps w
      else Err (''required path does not exist: '' @ path_join root p))"

text \<open>The candidates in the order \<open>read_dir\<close> lists them; an entry that cannot be read ends the search.\<close>

fun vsomeip_candidates ::
  "'w os \<Rightarrow> (string, string) result list \<Rightarrow> 'w \<Rightarrow> (string, (nat \<times> string) list) result" where
  "vsomeip_candidates OS [] w = Ok []"
| "vsomeip_candidates OS (Inl e # es) w = Err e"
| "vsomeip_candidates OS (Inr entry # es) w =
     (if \<not> starts_with ''vsomeip-sys-'' (path_file_name entry) then vsomeip_candidates OS es w
      else
        (let candidate = path_join (path_join (path_join (path_join entry ''out'') ''vsomeip'')
               ''vsomeip-install'') ''lib''
         in if \<not> path_exists OS candidate w then vsomeip_candidates OS es w
            else (case os_modified OS candidate w of
                    Inl e \<Rightarrow> Err (''unable to inspect modified time for '' @ candidate)
                  | Inr t \<Rightarrow> (case vsomeip_candidates OS es w of
                                Inl e \<Rightarrow> Err e
                              | Inr cs \<Rightarrow> Ok ((t, candidate) # cs)))))"

definition detect_vsomeip_runtime_lib :: "'w os \<Rightarrow> string \<Rightarrow> 'w \<Rightarrow> (string, string) result" where
  "detect_vsomeip_runtime_lib OS root w =
     (let build_dir = path_join (path_join (path_join root ''target'') ''debug'') ''build''
      in if \<not> path_exists OS build_dir w then
           Err (''missing build output directory for vsomeip lookup: '' @ build_dir)
         else (case os_read_dir OS build_dir w of
                 Inl e \<Rightarrow> Err (''unable to read build directory '' @ build_dir)
               | Inr entries \<Rightarrow>
                   (case vsomeip_candidates OS entries w of
                      Inl e \<Rightarrow> Err e
                    | Inr cs \<Rightarrow>
                        (case sort_key fst cs of
                           [] \<Rightarrow> Err ''unable to locate bundled vsomeip runtime under target/debug/build/vsomeip-sys-*/out/vsomeip/vsomeip-install/lib''
                         | c # ds \<Rightarrow> Ok (snd (last (c # ds)))))))"

section \<open>logs.rs\<close>

definition trim_line_end :: "string \<Rightarrow> string" where
  "trim_line_end s = rev (dropWhile (\<lambda>c. c \<in> {carriage_return, newline}) (rev s))"

definition count_exact_marker :: "'w os \<Rightarrow> string \<Rightarrow> string \<Rightarrow> 'w \<Rightarrow> (string, nat) result" where
  "count_exact_marker OS log_path marker w =
     (if \<not> path_exists OS log_path w then Ok 0
      else (case os_read_to_string OS log_path w of
              Inl e \<Rightarrow> Err (''unable to read log file '' @ log_path)
            | Inr content \<Rightarrow>
                Ok (length (filter (\<lambda>line. trim_line_end line = marker) (str_lines content)))))"

definition has_exact_marker :: "'w os \<Rightarrow> string \<Rightarrow> string \<Rightarrow> 'w \<Rightarrow> (string, bool) result" where
  "has_exact_marker OS log_path marker w = map_sum id (\<lambda>n. 0 < n) (count_exact_marker OS log_path marker w)"

text \<open>The double-ended queue: a full one drops its first line before the next is added.\<close>

fun push_lines :: "nat \<Rightarrow> string list \<Rightarrow> string list \<Rightarrow> string list" where
  "push_lines max_lines q [] = q"
| "push_lines max_lines q (line # ls) =
     push_lines max_lines ((if length q = max_lines then tl q else q) @ [line]) ls"

definition tail_lines :: "'w os \<Rightarrow> string \<Rightarrow> nat \<Rightarrow> 'w \<Rightarrow> (string, string list) result" where
  "tail_lines OS log_path max_lines w =
     (if \<not> path_exists OS log_path w then Ok []
      else (case os_read_to_string OS log_path w of
              Inl e \<Rightarrow> Err (''unable to read log file '' @ log_path)
            | Inr content \<Rightarrow> Ok (push_lines max_lines [] (str_lines content))))"

definition marker_timeout_error :: "'w os \<Rightarrow> string \<Rightarrow> string \<Rightarrow> 'w \<Rightarrow> string" where
  "marker_timeout_error OS log_path marker w =
     ''timed out waiting for marker '' @ quoted marker @ '' in '' @ log_path @ '' (tail: '' @
     str_join '' | '' (case tail_lines OS log_path 25 w of Inl _ \<Rightarrow> [] | Inr ls \<Rightarrow> ls) @ '')''"

partial_function (option) marker_loop ::
  "'w os \<Rightarrow> string \<Rightarrow> string \<Rightarrow> nanos \<Rightarrow> nanos \<Rightarrow> ('w, unit) act" where
  "marker_loop OS log_path marker deadline poll_interval w =
     act_bind (looked_up (has_exact_marker OS log_path marker)) (\<lambda>found w1.
       if found then act_ret () w1
       else act_bind (value_of (os_now OS)) (\<lambda>now w2.
         if deadline \<le> now then act_fail (marker_timeout_error OS log_path marker w2) w2
         else act_bind (sleep OS poll_interval) (\<lambda>_ w3.
           marker_loop OS log_path marker deadline poll_interval w3) w2) w1) w"

definition wait_for_exact_marker ::
  "'w os \<Rightarrow> string \<Rightarrow> string \<Rightarrow> nanos \<Rightarrow> nanos \<Rightarrow> ('w, unit) act" where
  "wait_for_exact_marker OS log_path marker timeout poll_interval =
     act_bind (value_of (os_now OS)) (\<lambda>now.
       marker_loop OS log_path marker (now + timeout) poll_interval)"

section \<open>Clocks\<close>

text \<open>
  What is relied on of time: no operation turns it back, reading it is not ahead of it, and a sleep
  lasts at least as long as asked for.
\<close>

definition clock_ok :: "'w os \<Rightarrow> ('w \<Rightarrow> nanos) \<Rightarrow> bool" where
  "clock_ok OS clock \<longleftrightarrow>
     (\<forall>w. clock w \<le> fst (os_now OS w) \<and> fst (os_now OS w) \<le> clock (snd (os_now OS w))) \<and>
     (\<forall>d w. clock w + d \<le> clock (os_sleep OS d w)) \<and>
     (\<forall>p args d w r w'. os_output OS p args d w = Some (r, w') \<longrightarrow> clock w \<le> clock w')"

lemma clock_now: "clock_ok OS clock \<Longrightarrow> os_now OS w = (t, w') \<Longrightarrow> clock w \<le> t \<and> t \<le> clock w'"
  unfolding clock_ok_def by (metis fst_conv snd_conv)

lemma clock_output: "clock_ok OS clock \<Longrightarrow> os_output OS p args d w = Some (r, w') \<Longrightarrow> clock w \<le> clock w'"
  unfolding clock_ok_def by blast

lemma clock_sleep: "clock_ok OS clock \<Longrightarrow> clock w + d \<le> clock (os_sleep OS d w)"
  by (simp add: clock_ok_def)

text \<open>The loop is left: each round that is not the last takes the clock nearer to the deadline.\<close>

lemma marker_loop_returns:
  assumes "clock_ok OS clock" and "0 < poll_interval"
  shows "\<exists>r w'. marker_loop OS log_path marker deadline poll_interval w = Some (r, w') \<and>
    (case r of
       Inr _ \<Rightarrow> has_exact_marker OS log_path marker w' = Inr True
     | Inl e \<Rightarrow> deadline \<le> clock w' \<or> has_exact_marker OS log_path marker w' = Inl e)"
proof (induction "deadline - clock w" arbitrary: w rule: less_induct)
  case less
  note unfold = marker_loop.simps [of OS log_path marker deadline poll_interval w]
  show ?case
  proof (cases "has_exact_marker OS log_path marker w")
    case (Inl e)
    then show ?thesis by (simp add: unfold act_bind_def looked_up_def)
  next
    case found: (Inr b)
    show ?thesis
    proof (cases b)
      case True
      with found show ?thesis by (simp add: unfold act_bind_def looked_up_def act_ret_def)
    next
      case False
      obtain t w2 where now: "os_now OS w = (t, w2)" by fastforce
      note c = clock_now [OF assms(1) now]
      show ?thesis
      proof (cases "deadline \<le> t")
        case True
        with False found now c show ?thesis
          by (simp add: unfold act_bind_def looked_up_def value_of_def act_fail_def)
      next
        case early: False
        let ?w3 = "os_sleep OS poll_interval w2"
        have "clock w2 + poll_interval \<le> clock ?w3" using clock_sleep [OF assms(1)] .
        with c early assms(2) have "deadline - clock ?w3 < deadline - clock w" by linarith
        from less [OF this] False found now early show ?thesis
          by (simp add: unfold [symmetric] act_bind_def looked_up_def value_of_def sleep_def act_modify_def)
            (simp add: unfold act_bind_def looked_up_def value_of_def sleep_def act_modify_def)
      qed
    qed
  qed
qed

text \<open>The commands a scenario awaits without a timeout: git, the shell and pgrep.\<close>

definition commands_end :: "'w os \<Rightarrow> bool" where
  "commands_end OS \<longleftrightarrow>
     (\<forall>p args d w. p \<in> {''git'', ''bash'', ''pgrep''} \<longrightarrow> os_output OS p args d w \<noteq> None)"

lemma commands_end_total:
  assumes "commands_end OS" and "p \<in> {''git'', ''bash'', ''pgrep''}"
  shows "act_returns (\<lambda>_. True) (os_output OS p args d)"
proof (rule act_returnsI)
  fix w
  have "os_output OS p args d w \<noteq> None" using assms unfolding commands_end_def by blast
  then show "\<exists>r w'. os_output OS p args d w = Some (r, w') \<and> True" by (metis not_Some_eq surj_pair)
qed

section \<open>A simulated system\<close>

text \<open>
  A system for the concrete runs: files as a table, children that write their whole log when they are
  started and end with code 0 when they are waited for, and a clock that only sleeping moves.
\<close>

record sim_world =
  sw_time :: nanos
  sw_files :: "(string \<times> string) list"
  sw_children :: "(nat \<times> bool) list" \<comment> \<open>whether it has ended\<close>

definition sim_os :: "(string \<Rightarrow> string) \<Rightarrow> (string \<Rightarrow> string list \<Rightarrow> command_output) \<Rightarrow> sim_world os" where
  "sim_os output run =
     \<lparr>os_metadata = (\<lambda>p w. case map_of (sw_files w) p of
          None \<Rightarrow> Err ''no such file'' | Some _ \<Rightarrow> Ok Regular_File),
      os_read_to_string = (\<lambda>p w. case map_of (sw_files w) p of
          None \<Rightarrow> Err ''no such file'' | Some c \<Rightarrow> Ok c),
      os_read_dir = (\<lambda>p w. Ok []), os_modified = (\<lambda>p w. Ok 0), os_env_var = (\<lambda>v w. None),
      os_create_dir_all = (\<lambda>p w. (Ok (), w)),
      os_write = (\<lambda>p c w. (Ok (), w\<lparr>sw_files := (p, c) # sw_files w\<rparr>)),
      os_now = (\<lambda>w. (sw_time w, w)), os_utc = (\<lambda>w. (sw_time w, w)),
      os_sleep = (\<lambda>d w. w\<lparr>sw_time := sw_time w + d\<rparr>),
      os_output = (\<lambda>p args d w. Some (Ok (run p args), w)),
      os_open_append = (\<lambda>p w. (Ok (), w)), os_try_clone = (\<lambda>p w. (Ok (), w)),
      os_spawn = (\<lambda>p args d l w. (Ok (length (sw_children w)),
          w\<lparr>sw_files := (l, output l) # sw_files w,
            sw_children := sw_children w @ [(length (sw_children w), False)]\<rparr>)),
      os_child_id = (\<lambda>c w. Some (int c + 100)),
      os_try_wait = (\<lambda>c w. (Ok (if map_of (sw_children w) c = Some True then Some (Some 0) else None), w)),
      os_wait_timeout = (\<lambda>d c w. (Some (Ok (Some 0)), w\<lparr>sw_children := AList.update c True (sw_children w)\<rparr>)),
      os_kill = (\<lambda>g sig w. (0, w)), os_error_text = (\<lambda>n. ''error''),
      os_utc_rfc3339 = (\<lambda>t. decimal t), os_utc_compact = (\<lambda>t. decimal t)\<rparr>"

lemma sim_clock_ok: "clock_ok (sim_os output run) sw_time"
  by (simp add: clock_ok_def sim_os_def)

section \<open>Properties\<close>

text \<open>
  Waiting for a marker returns: when time passes while the task sleeps, the loop is left after
  finitely many rounds, with success only when the log it last read has a line that is the marker, and
  with an error only when the deadline has passed or the log could not be read.
\<close>

theorem marker_wait_returns:
  assumes "clock_ok OS clock" and "0 < poll_interval"
  shows "\<exists>r w'. wait_for_exact_marker OS log_path marker timeout poll_interval w = Some (r, w') \<and>
    (case r of
       Inr _ \<Rightarrow> has_exact_marker OS log_path marker w' = Inr True
     | Inl e \<Rightarrow> clock w + timeout \<le> clock w' \<or> has_exact_marker OS log_path marker w' = Inl e)"
proof -
  obtain t w1 where now: "os_now OS w = (t, w1)" by fastforce
  from marker_loop_returns [OF assms, of log_path marker "t + timeout" w1] obtain r w' where
    loop: "marker_loop OS log_path marker (t + timeout) poll_interval w1 = Some (r, w')"
    and out: "case r of
       Inr _ \<Rightarrow> has_exact_marker OS log_path marker w' = Inr True
     | Inl e \<Rightarrow> t + timeout \<le> clock w' \<or> has_exact_marker OS log_path marker w' = Inl e" by blast
  have "wait_for_exact_marker OS log_path marker timeout poll_interval w = Some (r, w')"
    using now loop by (simp add: wait_for_exact_marker_def act_bind_def value_of_def)
  moreover have "clock w + timeout \<le> clock w'" if "t + timeout \<le> clock w'"
    using clock_now [OF assms(1) now] that by simp
  ultimately show ?thesis using out by (auto split: sum.splits)
qed

definition sim_start :: sim_world where
  "sim_start = \<lparr>sw_time = 0, sw_files = [(''log'', ''other'' @ [newline])], sw_children = []\<rparr>"

definition sim_idle :: "sim_world os" where
  "sim_idle = sim_os (\<lambda>l. []) (\<lambda>p args. \<lparr>co_code = Some 0, co_stdout = [], co_stderr = [],
     co_status_display = ''exit status: 0''\<rparr>)"

theorem marker_wait_returns_witness:
  "\<exists>r w'. wait_for_exact_marker sim_idle ''log'' ''READY'' (secs 1) (millis 400) sim_start
       = Some (r, w') \<and>
     (case r of
        Inr _ \<Rightarrow> has_exact_marker sim_idle ''log'' ''READY'' w' = Inr True
      | Inl e \<Rightarrow> secs 1 \<le> sw_time w' \<or> has_exact_marker sim_idle ''log'' ''READY'' w' = Inl e)"
proof -
  have clock: "clock_ok sim_idle sw_time" by (simp add: sim_idle_def sim_clock_ok)
  have poll: "0 < millis 400" by (simp add: millis_def)
  have start: "sw_time sim_start + secs 1 = secs 1" by (simp add: sim_start_def)
  from marker_wait_returns [OF clock poll, of "''log''" "''READY''" "secs 1" sim_start]
  show ?thesis by (simp only: start)
qed

end
