(* ===== verification/Someip_Streamers.thy ===== *)
theory Someip_Streamers
  imports Configurable_Streamer Smoke_System
begin

text \<open>
  The two streamers between Zenoh and SOME/IP: the example (example-streamer-implementations,
  bin/zenoh_someip.rs and bin/config/mod.rs) and the Zenoh plugin (up-linux-streamer-plugin, lib.rs and
  config.rs). Files, the parsers of the configurations, the construction of transports, the terminal and
  the runtime of zenohd are parameters (\<open>someip_startup\<close>, \<open>plugin_host\<close>). An action that answers \<open>None\<close>
  panics, or does not return. Log records are not modelled.
\<close>

section \<open>Configurations\<close>

datatype host_transport = ZenohHost | MqttHost

record someip_config =
  sip_authority :: string
  sip_config_file :: string
  sip_default_application_id :: "16 word"

record example_mqtt_config =
  xm_authority :: string
  xm_hostname :: string
  xm_port :: "16 word"
  xm_max_buffered_messages :: "32 word" \<comment> \<open>\<open>i32\<close>\<close>
  xm_max_subscriptions :: "32 word" \<comment> \<open>\<open>i32\<close>\<close>
  xm_session_expiry_interval :: "32 word" \<comment> \<open>\<open>i32\<close>\<close>
  xm_username :: string

record example_config =
  xc_up_streamer_config :: up_streamer_config
  xc_streamer_uuri :: streamer_uuri
  xc_usubscription_config :: usubscription_config
  xc_zenoh_config_file :: string
  xc_host_transport :: host_transport
  xc_someip_config :: someip_config
  xc_mqtt_config :: example_mqtt_config

text \<open>The plugin's host transport has the one constructor \<open>Zenoh\<close>.\<close>

record plugin_someip_config = someip_config +
  psc_enabled :: bool

record plugin_config =
  pc_required :: bool
  pc_up_streamer_config :: up_streamer_config
  pc_streamer_uuri :: streamer_uuri
  pc_usubscription_config :: usubscription_config
  pc_someip_config :: plugin_someip_config

section \<open>Routes in both directions\<close>

definition act_route ::
  "('m, 'w) env \<Rightarrow> endpoint \<Rightarrow> endpoint \<Rightarrow> ustreamer \<Rightarrow> (ustatus, 'w, ustreamer) eact" where
  "act_route E in_ep out_ep st w =
     (case add_route_ref E in_ep out_ep st w of
        (None, _, _) \<Rightarrow> None
      | (Some (Inl e), _, w1) \<Rightarrow> Some (Err e, w1)
      | (Some (Inr _), st1, w1) \<Rightarrow> Some (Ok st1, w1))"

definition connect_both ::
  "('m, 'w) env \<Rightarrow> endpoint \<Rightarrow> endpoint \<Rightarrow> ustreamer \<Rightarrow> (ustatus, 'w, ustreamer) eact" where
  "connect_both E a b st = act_bind (act_route E a b st) (act_route E b a)"

section \<open>The example streamer\<close>

record 'w someip_startup = "'w startup" +
  ss_parse_config :: "string \<Rightarrow> (string, example_config) result"
  ss_current_exe :: "(string, string) result"
  ss_exists :: "string \<Rightarrow> 'w \<Rightarrow> bool"
  ss_vsomeip :: "uuri \<Rightarrow> string \<Rightarrow> string \<Rightarrow> 'w \<Rightarrow> (string, arc_transport) result \<times> 'w"
    \<comment> \<open>the URI, the authority and the configuration file\<close>
  ss_println :: "string \<Rightarrow> 'w \<Rightarrow> 'w"

definition coded :: "ucode \<Rightarrow> string \<Rightarrow> (string, 'a) result \<Rightarrow> (ustatus, 's, 'a) eact" where
  "coded c m r = act_lift (map_sum (\<lambda>e. fail_with_code c (m @ e)) id r)"

definition resolve_someip_config_file_path ::
  "'w someip_startup \<Rightarrow> string \<Rightarrow> (ustatus, string) result" where
  "resolve_someip_config_file_path S config_file =
     (if path_is_absolute config_file then Ok config_file
      else (case ss_current_exe S of
              Inl e \<Rightarrow> Err (fail_with_code INTERNAL (''Unable to determine current executable path: '' @ e))
            | Inr executable_path \<Rightarrow>
                (case path_parent executable_path of
                   None \<Rightarrow> Err (fail_with_code INTERNAL
                             (''Current executable has no parent directory: '' @ debug_string executable_path))
                 | Some executable_dir \<Rightarrow> Ok (path_join executable_dir config_file))))"

definition load_example_config :: "'w someip_startup \<Rightarrow> string \<Rightarrow> (ustatus, 'w, example_config) eact" where
  "load_example_config S path =
     act_bind (coded NOT_FOUND ''File not found: '' (so_open S path)) (\<lambda>file.
     act_bind (coded INTERNAL ''Unable to read config file: '' (so_read S file)) (\<lambda>contents.
     coded INTERNAL ''Unable to parse config file: '' (ss_parse_config S contents)))"

definition example_provider ::
  "'w someip_startup \<Rightarrow> usubscription_config \<Rightarrow> (ustatus, 'w, 'w provider) eact" where
  "example_provider S u =
     (case uc_mode u of
        StaticFile \<Rightarrow> act_ret (so_static_provider S (uc_file_path u))
      | LiveUsubscription \<Rightarrow> act_fail (fail_with_code UNIMPLEMENTED
          ''live_usubscription mode is reserved in this phase; live runtime integration is deferred (see reports/usubscription-decoupled-pubsub-migration/05-live-integration-deferred.md)''))"

definition example_zenoh ::
  "'w someip_startup \<Rightarrow> example_config \<Rightarrow> (ustatus, 'w, arc_transport) eact" where
  "example_zenoh S c =
     act_bind (coded INVALID_ARGUMENT ''Unable to load Zenoh config file: ''
       (so_zenoh_config S (xc_zenoh_config_file c))) (\<lambda>zenoh_config.
     act_bind (coded INTERNAL ''Unable to create Zenoh transport builder: ''
       (so_zenoh_builder S (su_authority (xc_streamer_uuri c)))) (\<lambda>builder.
     act_context_with (\<lambda>e. fail_with_code INTERNAL (''Unable to initialize Zenoh UTransport: '' @ e))
       (act_do (so_zenoh_build S builder zenoh_config))))"

definition example_someip ::
  "uuri_api \<Rightarrow> 'w someip_startup \<Rightarrow> example_config \<Rightarrow> (ustatus, 'w, arc_transport) eact" where
  "example_someip U S c =
     act_bind (act_lift (resolve_someip_config_file_path S (sip_config_file (xc_someip_config c)))) (\<lambda>abs_path.
     act_bind (act_get (ss_exists S abs_path)) (\<lambda>there.
     act_then (act_ensure there (fail_with_code INVALID_ARGUMENT
       (''The specified someip config_file doesn't exist: '' @ debug_string abs_path)))
     (act_bind (coded INVALID_ARGUMENT ''Unable to make host_uuri: ''
       (m_try_from_parts U (su_authority (xc_streamer_uuri c))
          (ucast (sip_default_application_id (xc_someip_config c))) 1 0)) (\<lambda>host_uuri.
     act_context_with (\<lambda>e. fail_with_code INTERNAL (''Unable to initialize vsomeip UTransport: '' @ e))
       (act_do (ss_vsomeip S host_uuri (sip_authority (xc_someip_config c)) abs_path))))))"

text \<open>\<open>main\<close> up to the point where it prints that it is ready.\<close>

definition example_streamer_start ::
  "('m, 'w) env \<Rightarrow> 'w someip_startup \<Rightarrow> string \<Rightarrow> (ustatus, 'w, ustreamer) eact" where
  "example_streamer_start E S path =
     act_bind (load_example_config S path) (\<lambda>c.
     act_bind (example_provider S (xc_usubscription_config c)) (\<lambda>usubscription.
     act_bind (act_do (ustreamer_new E usubscription ''up-streamer''
       (sc_message_queue_size (xc_up_streamer_config c)))) (\<lambda>streamer.
     act_bind (coded INVALID_ARGUMENT ''Unable to form streamer_uuri: ''
       (m_try_from_parts (e_uri E) (su_authority (xc_streamer_uuri c)) (su_ue_id (xc_streamer_uuri c))
          (su_ue_version_major (xc_streamer_uuri c)) 0)) (\<lambda>streamer_uuri.
     act_bind (example_zenoh S c) (\<lambda>zenoh_transport.
     act_bind (example_someip (e_uri E) S c) (\<lambda>someip_transport.
     connect_both E
       (endpoint_new ''host_endpoint'' (su_authority (xc_streamer_uuri c)) zenoh_transport)
       (endpoint_new ''someip_endpoint'' (sip_authority (xc_someip_config c)) someip_transport)
       streamer))))))"

definition example_shutdown_signal :: "'w someip_startup \<Rightarrow> (ustatus, 'w, unit) eact" where
  "example_shutdown_signal S =
     act_context_with (\<lambda>e. fail_with_code INTERNAL (''Unable to wait for shutdown signal: '' @ e))
       (act_do (so_ctrl_c S))"

definition example_streamer_main ::
  "('m, 'w) env \<Rightarrow> 'w someip_startup \<Rightarrow> string \<Rightarrow> (ustatus, 'w, unit) eact" where
  "example_streamer_main E S path =
     act_then (example_streamer_start E S path)
     (act_then (act_modify (ss_println S ''READY streamer_initialized''))
     (example_shutdown_signal S))"

section \<open>The plugin\<close>

text \<open>The errors are the texts of \<open>zerror\<close>; \<open>ph_display\<close> and \<open>ph_debug\<close> show a status in them.\<close>

record 'w plugin_host =
  ph_get_config :: "string \<Rightarrow> (string, string) result" \<comment> \<open>the plugin's part of zenohd's configuration\<close>
  ph_parse_config :: "string \<Rightarrow> (string, plugin_config) result"
  ph_build_runtime :: "nat \<Rightarrow> 'w \<Rightarrow> (string, unit) result \<times> 'w" \<comment> \<open>with that many worker threads\<close>
  ph_static_provider :: "string \<Rightarrow> 'w provider"
  ph_session_init :: "'w \<Rightarrow> (string, string) result \<times> 'w"
  ph_zenoh_builder :: "string \<Rightarrow> (string, string) result"
  ph_zenoh_build :: "string \<Rightarrow> string \<Rightarrow> 'w \<Rightarrow> (string, arc_transport) result \<times> 'w"
  ph_current_dir :: "(string, string) result"
  ph_exists :: "string \<Rightarrow> 'w \<Rightarrow> bool"
  ph_vsomeip :: "uuri \<Rightarrow> string \<Rightarrow> string \<Rightarrow> 'w \<Rightarrow> (string, arc_transport) result \<times> 'w"
  ph_display :: "ustatus \<Rightarrow> string"
  ph_debug :: "ustatus \<Rightarrow> string"

definition zerr :: "string \<Rightarrow> (string, 'a) result \<Rightarrow> (string, 's, 'a) eact" where
  "zerr m r = act_lift (map_sum (\<lambda>e. m @ e) id r)"

definition zerr_do ::
  "string \<Rightarrow> ('s \<Rightarrow> (string, 'a) result \<times> 's) \<Rightarrow> (string, 's, 'a) eact" where
  "zerr_do m f = act_context_with (\<lambda>e. m @ e) (act_do f)"

definition plugin_someip_config_path ::
  "'w plugin_host \<Rightarrow> string \<Rightarrow> (string, 's, string) eact" where
  "plugin_someip_config_path H config_file =
     (if \<not> path_is_absolute config_file then
        act_bind (zerr ''Unable to resolve current_dir for someip config path: '' (ph_current_dir H)) (\<lambda>dir.
        act_ret (path_join dir config_file))
      else act_ret config_file)"

definition plugin_someip ::
  "uuri_api \<Rightarrow> 'w plugin_host \<Rightarrow> plugin_config \<Rightarrow> (string, 'w, arc_transport) eact" where
  "plugin_someip U H c =
     act_bind (plugin_someip_config_path H (sip_config_file (pc_someip_config c))) (\<lambda>abs_path.
     act_bind (act_get (ph_exists H abs_path)) (\<lambda>there.
     act_then (act_ensure there
       (''The specified someip config_file doesn't exist: '' @ debug_string abs_path))
     (act_bind (zerr ''Unable to make host_uuri: ''
       (m_try_from_parts U (su_authority (pc_streamer_uuri c))
          (ucast (sip_default_application_id (pc_someip_config c))) 1 0)) (\<lambda>host_uuri.
     zerr_do ''Unable to initialize vsomeip UTransport: ''
       (ph_vsomeip H host_uuri (sip_authority (pc_someip_config c)) abs_path)))))"

definition plugin_connect_someip ::
  "('m, 'w) env \<Rightarrow> 'w plugin_host \<Rightarrow> plugin_config \<Rightarrow> endpoint \<Rightarrow> ustreamer \<Rightarrow> (string, 'w, ustreamer) eact" where
  "plugin_connect_someip E H c host_endpoint streamer =
     act_bind (plugin_someip (e_uri E) H c) (\<lambda>someip_transport.
     act_context_with (\<lambda>e. ''Unable to add forwarding result: '' @ ph_debug H e)
       (connect_both E
         (endpoint_new ''mechatronics_endpoint'' (sip_authority (pc_someip_config c)) someip_transport)
         host_endpoint streamer))"

text \<open>\<open>run\<close> up to its loop.\<close>

definition plugin_setup ::
  "('m, 'w) env \<Rightarrow> 'w plugin_host \<Rightarrow> plugin_config \<Rightarrow> (string, 'w, ustreamer) eact" where
  "plugin_setup E H c =
     act_bind (case uc_mode (pc_usubscription_config c) of
         StaticFile \<Rightarrow> act_ret (ph_static_provider H (uc_file_path (pc_usubscription_config c)))
       | LiveUsubscription \<Rightarrow> act_fail
           ''live_usubscription mode is reserved in this phase; live runtime integration is deferred'')
     (\<lambda>usubscription.
     act_bind (act_context_with (\<lambda>e. ''Failed to create uStreamer: '' @ ph_display H e)
       (act_do (ustreamer_new E usubscription ''up-linux-streamer''
          (sc_message_queue_size (pc_up_streamer_config c))))) (\<lambda>streamer.
     act_bind (zerr ''Unable to form streamer_uuri: ''
       (m_try_from_parts (e_uri E) (su_authority (pc_streamer_uuri c)) (su_ue_id (pc_streamer_uuri c))
          (su_ue_version_major (pc_streamer_uuri c)) 0)) (\<lambda>streamer_uuri.
     act_bind (zerr_do ''Unable to initialize Zenoh session from runtime: '' (ph_session_init H)) (\<lambda>session.
     act_bind (zerr ''Unable to create Zenoh transport builder: ''
       (ph_zenoh_builder H (su_authority (pc_streamer_uuri c)))) (\<lambda>builder.
     act_bind (zerr_do ''Unable to initialize Zenoh UTransport: '' (ph_zenoh_build H builder session))
       (\<lambda>host_transport.
     let host_endpoint = endpoint_new ''host_endpoint'' (su_authority (pc_streamer_uuri c)) host_transport
     in if psc_enabled (pc_someip_config c)
        then plugin_connect_someip E H c host_endpoint streamer
        else act_ret streamer))))))"

text \<open>
  The loop: the flag as it is seen at the n-th time round, a second after the one before, and the counter,
  an \<open>i32\<close> that wraps in a release build after some 68 years. It answers the counter it ends with.
\<close>

partial_function (option) plugin_loop :: "(nat \<Rightarrow> bool) \<Rightarrow> nat \<Rightarrow> 32 word \<Rightarrow> 32 word option" where
  "plugin_loop flag n counter = (if flag n then plugin_loop flag (Suc n) (counter + 1) else Some counter)"

text \<open>The task: what \<open>run\<close> answers, and whether the flag is put down after it.\<close>

definition plugin_run ::
  "('m, 'w) env \<Rightarrow> 'w plugin_host \<Rightarrow> plugin_config \<Rightarrow> (nat \<Rightarrow> bool) \<Rightarrow> (string, 'w, unit) eact" where
  "plugin_run E H c flag =
     act_bind (plugin_setup E H c) (\<lambda>streamer w.
       map_option (\<lambda>counter. (Ok (), w)) (plugin_loop flag 0 1))"

definition plugin_task ::
  "('m, 'w) env \<Rightarrow> 'w plugin_host \<Rightarrow> plugin_config \<Rightarrow> (nat \<Rightarrow> bool) \<Rightarrow> 'w \<Rightarrow> (bool \<times> 'w) option" where
  "plugin_task E H c flag w =
     map_option (\<lambda>(r, w1). (\<not> is_ok r, w1)) (plugin_run E H c flag w)"

text \<open>\<open>start\<close> and what it answers to zenohd: the flag, and the runtime with the configuration of its task.\<close>

definition THREAD_NUM :: nat where "THREAD_NUM = 10"

record running_plugin =
  rp_flag :: bool
  rp_runtime :: "plugin_config option"

definition plugin_start :: "'w plugin_host \<Rightarrow> string \<Rightarrow> (string, 'w, running_plugin) eact" where
  "plugin_start H name =
     act_bind (act_lift (map_sum (\<lambda>e. ''Plugin `'' @ name @ ''` configuration access error: '' @ e) id
       (ph_get_config H name))) (\<lambda>plugin_conf.
     act_bind (act_lift (map_sum (\<lambda>e. ''Plugin `'' @ name @ ''` configuration error: '' @ e) id
       (ph_parse_config H plugin_conf))) (\<lambda>c.
     act_bind (zerr_do ''Unable to create runtime: '' (ph_build_runtime H THREAD_NUM)) (\<lambda>_.
     act_ret \<lparr>rp_flag = True, rp_runtime = Some c\<rparr>)))"

definition plugin_drop :: "running_plugin \<Rightarrow> running_plugin" where
  "plugin_drop rp = rp\<lparr>rp_flag := False, rp_runtime := None\<rparr>"

section \<open>The routes of a streamer that is ready\<close>

definition both_supported :: "(uuri \<Rightarrow> uuri option \<Rightarrow> bool) \<Rightarrow> string \<Rightarrow> string \<Rightarrow> bool" where
  "both_supported supported a b \<longleftrightarrow>
     supported (fst (request_filter a b)) (snd (request_filter a b)) \<and>
     supported (fst (request_filter b a)) (snd (request_filter b a))"

lemma act_route_Ok:
  "act_route E i out st w = Some (Inr st', w') \<longleftrightarrow> (\<exists>u. add_route_ref E i out st w = (Some (Inr u), st', w'))"
  by (auto simp: act_route_def split: prod.splits option.splits sum.splits)

definition both_routes :: "endpoint \<Rightarrow> endpoint \<Rightarrow> route_key set" where
  "both_routes a b = {route_key_from_endpoints a b, route_key_from_endpoints b a}"

context transport_contract
begin

lemma connect_both_routes:
  assumes inv: "streamer_inv registrations filter_key supported R E n st w" and X: "e_ext E = X"
    and sup: "both_supported supported (ep_authority a) (ep_authority b)"
    and run: "connect_both E a b st w = Some (Inr st', w')"
  shows "streamer_inv registrations filter_key supported R E n st' w' \<and> ep_authority a \<noteq> ep_authority b \<and>
    rs_table (us_routing st') = rs_table (us_routing st) \<union> both_routes a b \<and>
    rs_table (us_routing st) \<inter> both_routes a b = {} \<and> card (both_routes a b) = 2"
proof -
  obtain st1 w1 u v where first: "add_route_ref E a b st w = (Some (Inr u), st1, w1)"
    and second: "add_route_ref E b a st1 w1 = (Some (Inr v), st', w')"
    using run unfolding connect_both_def by (auto simp: act_bind_Ok act_route_Ok)
  have sups: "route_supported supported a b" "route_supported supported b a"
    using sup by (simp_all add: both_supported_def route_supported_def)
  note one = add_route_ref_inv [OF inv X sups(1) first]
  note two = add_route_ref_inv [OF one(1) X sups(2) second]
  have keys: "route_key_from_endpoints b a \<noteq> route_key_from_endpoints a b" using one(2) two(2) by auto
  have tab: "rs_table (us_routing st1) = insert (route_key_from_endpoints a b) (rs_table (us_routing st))"
    "route_key_from_endpoints a b \<notin> rs_table (us_routing st)" "ep_authority a \<noteq> ep_authority b"
    "rs_table (us_routing st') = insert (route_key_from_endpoints b a) (rs_table (us_routing st1))"
    "route_key_from_endpoints b a \<notin> rs_table (us_routing st1)"
    using one(2) two(2) by simp_all
  have "rs_table (us_routing st') = rs_table (us_routing st) \<union> both_routes a b"
    unfolding tab both_routes_def by blast
  moreover have "rs_table (us_routing st) \<inter> both_routes a b = {}"
    using tab unfolding both_routes_def by blast
  moreover have "card (both_routes a b) = 2" using keys unfolding both_routes_def by simp
  ultimately show ?thesis using two(1) tab(3) by blast
qed

lemma connect_both_current:
  assumes inv: "streamer_inv registrations filter_key supported R E n st w" and X: "e_ext E = X"
    and sup: "both_supported supported (ep_authority a) (ep_authority b)"
    and run: "connect_both E a b st w = Some (Inr st', w')" and cur: "bindings_current E st"
  shows "bindings_current E st' \<and> us_directory st' = us_directory st"
proof -
  obtain st1 w1 u v where first: "add_route_ref E a b st w = (Some (Inr u), st1, w1)"
    and second: "add_route_ref E b a st1 w1 = (Some (Inr v), st', w')"
    using run unfolding connect_both_def by (auto simp: act_bind_Ok act_route_Ok)
  have sups: "route_supported supported a b" "route_supported supported b a"
    using sup by (simp_all add: both_supported_def route_supported_def)
  note one = add_route_ref_inv(1) [OF inv X sups(1) first] add_route_ref_current [OF inv X sups(1) first cur]
  from add_route_ref_current [OF one(1) X sups(2) second one(2)]
    add_route_ref_routing(2) [OF first] add_route_ref_routing(2) [OF second]
  show ?thesis by simp
qed

end

text \<open>Opening transports and printing registers no listener.\<close>

definition someip_startup_quiet ::
  "('w \<Rightarrow> (arc_transport \<times> 'k \<times> nat) set) \<Rightarrow> 'w someip_startup \<Rightarrow> bool" where
  "someip_startup_quiet regs S \<longleftrightarrow>
     (\<forall>p. provider_quiet regs (so_static_provider S p)) \<and>
     (\<forall>b z w. regs (snd (so_zenoh_build S b z w)) = regs w) \<and>
     (\<forall>u a f w. regs (snd (ss_vsomeip S u a f w)) = regs w)"

definition plugin_host_quiet ::
  "('w \<Rightarrow> (arc_transport \<times> 'k \<times> nat) set) \<Rightarrow> 'w plugin_host \<Rightarrow> bool" where
  "plugin_host_quiet regs H \<longleftrightarrow>
     (\<forall>p. provider_quiet regs (ph_static_provider H p)) \<and>
     (\<forall>w. regs (snd (ph_session_init H w)) = regs w) \<and>
     (\<forall>b s w. regs (snd (ph_zenoh_build H b s w)) = regs w) \<and>
     (\<forall>u a f w. regs (snd (ph_vsomeip H u a f w)) = regs w)"

lemma coded_Ok [act_Ok]: "coded c m r w = Some (Inr x, w') \<longleftrightarrow> r = Inr x \<and> w' = w"
  by (cases r) (auto simp: coded_def act_lift_def)

lemma zerr_Ok [act_Ok]: "zerr m r w = Some (Inr x, w') \<longleftrightarrow> r = Inr x \<and> w' = w"
  by (cases r) (auto simp: zerr_def act_lift_def)

lemma context_do_Ok: "act_context_with g m w = Some (Inr x, w') \<longleftrightarrow> m w = Some (Inr x, w')"
  by (auto simp: act_context_with_def split: option.splits prod.splits sum.splits)

lemma zerr_do_Ok [act_Ok]: "zerr_do m f w = Some (Inr x, w') \<longleftrightarrow> f w = (Inr x, w')"
  by (simp add: zerr_do_def context_do_Ok act_do_run)

lemma ensure_Ok: "act_ensure b e w = Some (Inr x, w') \<longleftrightarrow> b \<and> w' = w"
  by (auto simp: act_ensure_def act_ret_def act_fail_def)

lemma endpoint_new_authority: "ep_authority (endpoint_new n a t) = a"
  by (simp add: endpoint_new_def)

lemma ustreamer_new_table: "ustreamer_new E P n q w = (Inr st, w') \<Longrightarrow> rs_table (us_routing st) = {}"
  by (auto simp: ustreamer_new_def Let_def routing_new_def route_table_new_def
      split: prod.splits dest: refresh_cases(1))

lemma streamer_inv_frame: "regs w' = regs w \<Longrightarrow> streamer_inv regs fk supported R E n st w \<Longrightarrow>
    streamer_inv regs fk supported R E n st w'"
  using routing_inv_frame [of regs w' w] by (simp add: streamer_inv_def)

lemma streamer_inv_registrations: "streamer_inv regs fk supported R E n st w \<Longrightarrow>
    regs w = R \<union> owned_registrations fk (binding_view (rs_registry (us_routing st)))"
  by (simp add: streamer_inv_def routing_inv_def registry_inv_def)

lemma fresh_streamer_connected:
  assumes "transport_contract (e_ext E) regs fk supported" and "provider_quiet regs P"
    and new: "ustreamer_new E P n q w = (Inr st0, w1)" and same: "regs w2 = regs w1"
    and sup: "both_supported supported (ep_authority a) (ep_authority b)"
    and run: "connect_both E a b st0 w2 = Some (Inr st, w')"
  shows "ep_authority a \<noteq> ep_authority b \<and> rs_table (us_routing st) = both_routes a b \<and>
    card (rs_table (us_routing st)) = 2 \<and> us_directory st = us_directory st0 \<and>
    (\<forall>k\<in>rs_table (us_routing st). binding_view (rs_registry (us_routing st)) (rk_binding k) \<noteq> None) \<and>
    regs w' = regs w \<union> route_registrations E fk st"
proof -
  have "streamer_inv regs fk supported (regs w) E 1 st0 w1" by (rule ustreamer_new_inv [OF assms(2) new])
  from streamer_inv_frame [OF same this] have inv: "streamer_inv regs fk supported (regs w) E 1 st0 w2" .
  note both = transport_contract.connect_both_routes [OF assms(1) inv refl sup run]
  note cur = transport_contract.connect_both_current [OF assms(1) inv refl sup run ustreamer_new_current [OF new]]
  have table: "rs_table (us_routing st) = both_routes a b" using both ustreamer_new_table [OF new] by simp
  have ready: "streamer_inv regs fk supported (regs w) E 1 st w'" using both by blast
  note regs = route_registrations_owned [OF ready cur [THEN conjunct1]]
  have "card (rs_table (us_routing st)) = 2" unfolding table using both by blast
  then show ?thesis using both table cur regs by blast
qed

lemma quiet_do: "\<lbrakk>\<forall>w. regs (snd (f w)) = regs w; f w = (r, w')\<rbrakk> \<Longrightarrow> regs w' = regs w"
  by (metis snd_conv)

lemma load_example_config_Ok:
  "load_example_config S path w = Some (Inr c, w') \<Longrightarrow> w' = w \<and> (\<exists>contents. ss_parse_config S contents = Inr c)"
  unfolding load_example_config_def by (auto simp: act_bind_Ok coded_Ok)

lemma example_provider_Ok:
  "example_provider S u w = Some (Inr P, w') \<longleftrightarrow>
     uc_mode u = StaticFile \<and> P = so_static_provider S (uc_file_path u) \<and> w' = w"
  by (auto simp: example_provider_def act_ret_def act_fail_def split: subscription_provider_mode.splits)

lemma example_zenoh_quiet:
  assumes "someip_startup_quiet regs S" and "example_zenoh S c w = Some (Inr t, w')"
  shows "regs w' = regs w"
proof -
  obtain b z where "so_zenoh_build S b z w = (Inr t, w')"
    using assms(2) unfolding example_zenoh_def by (auto simp: act_bind_Ok coded_Ok context_do_Ok act_do_run)
  then show ?thesis using assms(1) unfolding someip_startup_quiet_def by (metis snd_conv)
qed

lemma example_someip_quiet:
  assumes "someip_startup_quiet regs S" and "example_someip U S c w = Some (Inr t, w')"
  shows "regs w' = regs w"
proof -
  obtain u a f where "ss_vsomeip S u a f w = (Inr t, w')"
    using assms(2) unfolding example_someip_def
    by (auto simp: act_bind_Ok act_then_Ok coded_Ok context_do_Ok act_do_run act_lift_run act_get_run ensure_Ok)
  then show ?thesis using assms(1) unfolding someip_startup_quiet_def by (metis snd_conv)
qed

text \<open>
  Which transports the example's configuration asks for, said without its start-up code: the Zenoh transport
  is built from its Zenoh configuration file with the streamer's authority; the SOME/IP transport is made for
  the application id and the authority of its SOME/IP section, from a file that is there and, if its name is
  relative, beside the executable.
\<close>

definition example_zenoh_of ::
  "'w someip_startup \<Rightarrow> example_config \<Rightarrow> 'w \<Rightarrow> arc_transport \<Rightarrow> 'w \<Rightarrow> bool" where
  "example_zenoh_of S c w t w' \<longleftrightarrow>
     (\<exists>zc b. so_zenoh_config S (xc_zenoh_config_file c) = Inr zc \<and>
        so_zenoh_builder S (su_authority (xc_streamer_uuri c)) = Inr b \<and>
        so_zenoh_build S b zc w = (Inr t, w'))"

definition someip_file_of :: "'w someip_startup \<Rightarrow> string \<Rightarrow> string \<Rightarrow> bool" where
  "someip_file_of S f g \<longleftrightarrow>
     (if path_is_absolute f then g = f
      else \<exists>exe dir. ss_current_exe S = Inr exe \<and> path_parent exe = Some dir \<and> g = path_join dir f)"

definition example_someip_of ::
  "uuri_api \<Rightarrow> 'w someip_startup \<Rightarrow> example_config \<Rightarrow> 'w \<Rightarrow> arc_transport \<Rightarrow> bool" where
  "example_someip_of U S c w t \<longleftrightarrow>
     (\<exists>g u. someip_file_of S (sip_config_file (xc_someip_config c)) g \<and> ss_exists S g w \<and>
        m_try_from_parts U (su_authority (xc_streamer_uuri c))
          (ucast (sip_default_application_id (xc_someip_config c))) 1 0 = Inr u \<and>
        fst (ss_vsomeip S u (sip_authority (xc_someip_config c)) g w) = Inr t)"

lemma load_example_config_parts:
  "load_example_config S path w = Some (Inr c, w') \<longleftrightarrow> w' = w \<and>
     (\<exists>handle contents. so_open S path = Inr handle \<and> so_read S handle = Inr contents \<and>
       ss_parse_config S contents = Inr c)"
  unfolding load_example_config_def by (auto simp: act_bind_Ok coded_Ok)

lemma example_zenoh_Ok: "example_zenoh S c w = Some (Inr t, w') \<longleftrightarrow> example_zenoh_of S c w t w'"
  unfolding example_zenoh_def example_zenoh_of_def
  by (auto simp: act_bind_Ok coded_Ok context_do_Ok act_do_run)

lemma resolve_someip_Ok: "resolve_someip_config_file_path S f = Inr g \<Longrightarrow> someip_file_of S f g"
  by (auto simp: resolve_someip_config_file_path_def someip_file_of_def
      split: if_splits sum.splits option.splits)

lemma example_someip_Ok:
  assumes "example_someip U S c w = Some (Inr t, w')"
  shows "example_someip_of U S c w t"
proof -
  obtain g u where g: "Inr g = resolve_someip_config_file_path S (sip_config_file (xc_someip_config c))"
    and rest: "ss_exists S g w" "m_try_from_parts U (su_authority (xc_streamer_uuri c))
      (ucast (sip_default_application_id (xc_someip_config c))) 1 0 = Inr u"
      "ss_vsomeip S u (sip_authority (xc_someip_config c)) g w = (Inr t, w')"
    using assms unfolding example_someip_def
    by (auto simp: act_bind_Ok act_then_Ok coded_Ok context_do_Ok act_do_run act_lift_run act_get_run ensure_Ok)
  from rest resolve_someip_Ok [OF g [symmetric]] show ?thesis unfolding example_someip_of_def by (metis fst_conv)
qed

text \<open>
  C36. When the example streamer is about to print that it is ready, the configuration in its file asked for
  the static file, its routes are exactly the two between its host endpoint, on the Zenoh transport that
  configuration asks for, and its SOME/IP endpoint, on the SOME/IP transport it asks for, whose authorities
  differ. Both routes have a binding, and beside what they held before the transports hold exactly a listener
  of each of the two, under the filters of the route in the directory the streamer was created with.
\<close>

theorem example_streamer_ready:
  assumes "transport_contract (e_ext E) regs fk supported" and quiet: "someip_startup_quiet regs S"
    and "\<forall>contents c. ss_parse_config S contents = Inr c \<longrightarrow>
       both_supported supported (su_authority (xc_streamer_uuri c)) (sip_authority (xc_someip_config c))"
    and "example_streamer_start E S path w = Some (Inr st, w')"
  shows "\<exists>handle contents c st0 w1 zenoh w2 someip.
    so_open S path = Inr handle \<and> so_read S handle = Inr contents \<and> ss_parse_config S contents = Inr c \<and>
    uc_mode (xc_usubscription_config c) = StaticFile \<and>
    ustreamer_new E (so_static_provider S (uc_file_path (xc_usubscription_config c))) ''up-streamer''
       (sc_message_queue_size (xc_up_streamer_config c)) w = (Inr st0, w1) \<and>
    example_zenoh_of S c w1 zenoh w2 \<and> example_someip_of (e_uri E) S c w2 someip \<and>
    su_authority (xc_streamer_uuri c) \<noteq> sip_authority (xc_someip_config c) \<and>
    rs_table (us_routing st) = both_routes
       (endpoint_new ''host_endpoint'' (su_authority (xc_streamer_uuri c)) zenoh)
       (endpoint_new ''someip_endpoint'' (sip_authority (xc_someip_config c)) someip) \<and>
    card (rs_table (us_routing st)) = 2 \<and> us_directory st = us_directory st0 \<and>
    (\<forall>k\<in>rs_table (us_routing st). binding_view (rs_registry (us_routing st)) (rk_binding k) \<noteq> None) \<and>
    regs w' = regs w \<union> route_registrations E fk st"
proof -
  obtain c where c: "load_example_config S path w = Some (Inr c, w)"
    and rest: "act_bind (example_provider S (xc_usubscription_config c)) (\<lambda>usubscription.
     act_bind (act_do (ustreamer_new E usubscription ''up-streamer''
       (sc_message_queue_size (xc_up_streamer_config c)))) (\<lambda>streamer.
     act_bind (coded INVALID_ARGUMENT ''Unable to form streamer_uuri: ''
       (m_try_from_parts (e_uri E) (su_authority (xc_streamer_uuri c)) (su_ue_id (xc_streamer_uuri c))
          (su_ue_version_major (xc_streamer_uuri c)) 0)) (\<lambda>streamer_uuri.
     act_bind (example_zenoh S c) (\<lambda>zenoh_transport.
     act_bind (example_someip (e_uri E) S c) (\<lambda>someip_transport.
     connect_both E
       (endpoint_new ''host_endpoint'' (su_authority (xc_streamer_uuri c)) zenoh_transport)
       (endpoint_new ''someip_endpoint'' (sip_authority (xc_someip_config c)) someip_transport)
       streamer))))) w = Some (Inr st, w')"
    using assms(4) load_example_config_Ok unfolding example_streamer_start_def act_bind_Ok by metis
  then obtain P st0 w1 zenoh w2 someip w3 where mode: "uc_mode (xc_usubscription_config c) = StaticFile"
    and P: "P = so_static_provider S (uc_file_path (xc_usubscription_config c))"
    and new: "ustreamer_new E P ''up-streamer'' (sc_message_queue_size (xc_up_streamer_config c)) w = (Inr st0, w1)"
    and zenoh: "example_zenoh S c w1 = Some (Inr zenoh, w2)"
    and someip: "example_someip (e_uri E) S c w2 = Some (Inr someip, w3)"
    and run: "connect_both E
       (endpoint_new ''host_endpoint'' (su_authority (xc_streamer_uuri c)) zenoh)
       (endpoint_new ''someip_endpoint'' (sip_authority (xc_someip_config c)) someip) st0 w3 = Some (Inr st, w')"
    unfolding act_bind_Ok coded_Ok act_do_run example_provider_Ok by blast
  obtain handle contents where read: "so_open S path = Inr handle" "so_read S handle = Inr contents"
      "ss_parse_config S contents = Inr c"
    using load_example_config_parts [THEN iffD1, OF c] by (elim exE conjE) (rule that)
  have quietP: "provider_quiet regs P" using quiet unfolding P someip_startup_quiet_def by blast
  have same: "regs w3 = regs w1"
    using example_zenoh_quiet [OF quiet zenoh] example_someip_quiet [OF quiet someip] by simp
  have sup: "both_supported supported (su_authority (xc_streamer_uuri c)) (sip_authority (xc_someip_config c))"
    using assms(3) read(3) by blast
  note connected = fresh_streamer_connected [OF assms(1) quietP new same _ run, unfolded endpoint_new_authority, OF sup]
  show ?thesis
    by (rule exI [of _ handle], rule exI [of _ contents], rule exI [of _ c], rule exI [of _ st0],
        rule exI [of _ w1], rule exI [of _ zenoh], rule exI [of _ w2], rule exI [of _ someip])
      (intro conjI read mode new [unfolded P] example_zenoh_Ok [THEN iffD1, OF zenoh]
        example_someip_Ok [OF someip] connected [THEN conjunct1] connected [THEN conjunct2, THEN conjunct1]
        connected [THEN conjunct2, THEN conjunct2, THEN conjunct1]
        connected [THEN conjunct2, THEN conjunct2, THEN conjunct2, THEN conjunct1]
        connected [THEN conjunct2, THEN conjunct2, THEN conjunct2, THEN conjunct2, THEN conjunct1]
        connected [THEN conjunct2, THEN conjunct2, THEN conjunct2, THEN conjunct2, THEN conjunct2])
qed

lemma plugin_someip_config_path_Ok: "plugin_someip_config_path H f w = Some (Inr g, w') \<Longrightarrow> w' = w"
  by (auto simp: plugin_someip_config_path_def act_bind_Ok zerr_Ok act_ret_run split: if_splits)

lemma plugin_someip_quiet:
  assumes "plugin_host_quiet regs H" and "plugin_someip U H c w = Some (Inr t, w')"
  shows "regs w' = regs w"
proof -
  obtain u a f where "ph_vsomeip H u a f w = (Inr t, w')"
    using assms(2) plugin_someip_config_path_Ok unfolding plugin_someip_def
    by (fastforce simp: act_bind_Ok act_then_Ok act_get_run ensure_Ok zerr_Ok zerr_do_Ok)
  then show ?thesis using assms(1) unfolding plugin_host_quiet_def by (metis snd_conv)
qed

text \<open>The transports the plugin's configuration asks for, in the same way.\<close>

definition plugin_zenoh_of ::
  "'w plugin_host \<Rightarrow> plugin_config \<Rightarrow> 'w \<Rightarrow> arc_transport \<Rightarrow> 'w \<Rightarrow> bool" where
  "plugin_zenoh_of H c w t w' \<longleftrightarrow>
     (\<exists>s w1 b. ph_session_init H w = (Inr s, w1) \<and>
        ph_zenoh_builder H (su_authority (pc_streamer_uuri c)) = Inr b \<and>
        ph_zenoh_build H b s w1 = (Inr t, w'))"

definition plugin_file_of :: "'w plugin_host \<Rightarrow> string \<Rightarrow> string \<Rightarrow> bool" where
  "plugin_file_of H f g \<longleftrightarrow>
     (if path_is_absolute f then g = f else \<exists>dir. ph_current_dir H = Inr dir \<and> g = path_join dir f)"

definition plugin_someip_of ::
  "uuri_api \<Rightarrow> 'w plugin_host \<Rightarrow> plugin_config \<Rightarrow> 'w \<Rightarrow> arc_transport \<Rightarrow> bool" where
  "plugin_someip_of U H c w t \<longleftrightarrow>
     (\<exists>g u. plugin_file_of H (sip_config_file (pc_someip_config c)) g \<and> ph_exists H g w \<and>
        m_try_from_parts U (su_authority (pc_streamer_uuri c))
          (ucast (sip_default_application_id (pc_someip_config c))) 1 0 = Inr u \<and>
        fst (ph_vsomeip H u (sip_authority (pc_someip_config c)) g w) = Inr t)"

lemma plugin_file_Ok: "plugin_someip_config_path H f w = Some (Inr g, w') \<Longrightarrow> w' = w \<and> plugin_file_of H f g"
  by (auto simp: plugin_someip_config_path_def plugin_file_of_def act_bind_Ok zerr_Ok act_ret_run split: if_splits)

lemma plugin_someip_Ok:
  assumes "plugin_someip U H c w = Some (Inr t, w')"
  shows "plugin_someip_of U H c w t"
proof -
  obtain g wa u where g: "plugin_someip_config_path H (sip_config_file (pc_someip_config c)) w = Some (Inr g, wa)"
    and rest: "ph_exists H g wa" "m_try_from_parts U (su_authority (pc_streamer_uuri c))
      (ucast (sip_default_application_id (pc_someip_config c))) 1 0 = Inr u"
      "ph_vsomeip H u (sip_authority (pc_someip_config c)) g wa = (Inr t, w')"
    using assms unfolding plugin_someip_def
    by (fastforce simp: act_bind_Ok act_then_Ok act_get_run ensure_Ok zerr_Ok zerr_do_Ok)
  from rest plugin_file_Ok [OF g] show ?thesis unfolding plugin_someip_of_def by (metis fst_conv)
qed

lemma plugin_connect_someip_Ok:
  assumes "plugin_host_quiet regs H" and "plugin_connect_someip E H c host st w = Some (Inr st', w')"
  shows "\<exists>t w1. plugin_someip_of (e_uri E) H c w t \<and> regs w1 = regs w \<and>
    connect_both E (endpoint_new ''mechatronics_endpoint'' (sip_authority (pc_someip_config c)) t) host st w1
      = Some (Inr st', w')"
proof -
  from assms(2) obtain t w1 where t: "plugin_someip (e_uri E) H c w = Some (Inr t, w1)"
    and run: "connect_both E (endpoint_new ''mechatronics_endpoint'' (sip_authority (pc_someip_config c)) t)
      host st w1 = Some (Inr st', w')"
    unfolding plugin_connect_someip_def act_bind_Ok context_do_Ok by blast
  show ?thesis
    by (intro exI conjI) (rule plugin_someip_Ok [OF t] plugin_someip_quiet [OF assms(1) t] run)+
qed

text \<open>
  C37. When the plugin has been set up, its configuration asked for the static file. If SOME/IP is enabled, its
  routes are exactly the two between its host endpoint, on the Zenoh transport of the runtime's session, and
  its SOME/IP endpoint, on the SOME/IP transport its configuration asks for, whose authorities differ;
  otherwise it has none. Beside what they held before the transports hold exactly a listener of each route,
  under the filters of the route in the directory the streamer was created with.
\<close>

theorem plugin_setup_routes:
  assumes "transport_contract (e_ext E) regs fk supported" and quiet: "plugin_host_quiet regs H"
    and sup: "both_supported supported (sip_authority (pc_someip_config c)) (su_authority (pc_streamer_uuri c))"
    and "plugin_setup E H c w = Some (Inr st, w')"
  shows "uc_mode (pc_usubscription_config c) = StaticFile \<and>
    (\<exists>st0 w1 zenoh w2.
      ustreamer_new E (ph_static_provider H (uc_file_path (pc_usubscription_config c))) ''up-linux-streamer''
        (sc_message_queue_size (pc_up_streamer_config c)) w = (Inr st0, w1) \<and>
      us_directory st = us_directory st0 \<and> plugin_zenoh_of H c w1 zenoh w2 \<and>
      (if psc_enabled (pc_someip_config c)
       then sip_authority (pc_someip_config c) \<noteq> su_authority (pc_streamer_uuri c) \<and>
         (\<exists>someip. plugin_someip_of (e_uri E) H c w2 someip \<and>
           rs_table (us_routing st) = both_routes
             (endpoint_new ''mechatronics_endpoint'' (sip_authority (pc_someip_config c)) someip)
             (endpoint_new ''host_endpoint'' (su_authority (pc_streamer_uuri c)) zenoh)) \<and>
         card (rs_table (us_routing st)) = 2
       else rs_table (us_routing st) = {})) \<and>
    (\<forall>k\<in>rs_table (us_routing st). binding_view (rs_registry (us_routing st)) (rk_binding k) \<noteq> None) \<and>
    regs w' = regs w \<union> route_registrations E fk st"
proof -
  have mode: "uc_mode (pc_usubscription_config c) = StaticFile"
    using assms(4) unfolding plugin_setup_def act_bind_Ok
    by (auto simp: act_fail_run split: subscription_provider_mode.splits)
  let ?P = "ph_static_provider H (uc_file_path (pc_usubscription_config c))"
  let ?host = "endpoint_new ''host_endpoint'' (su_authority (pc_streamer_uuri c))"
  obtain st0 w1 session w2 b t w3 where
    new: "ustreamer_new E ?P ''up-linux-streamer'' (sc_message_queue_size (pc_up_streamer_config c)) w = (Inr st0, w1)"
    and session: "ph_session_init H w1 = (Inr session, w2)"
    and builder: "ph_zenoh_builder H (su_authority (pc_streamer_uuri c)) = Inr b"
    and build: "ph_zenoh_build H b session w2 = (Inr t, w3)"
    and rest: "(if psc_enabled (pc_someip_config c) then plugin_connect_someip E H c (?host t) st0
      else act_ret st0) w3 = Some (Inr st, w')"
    using assms(4) unfolding plugin_setup_def mode act_bind_Ok subscription_provider_mode.case act_ret_run
      context_do_Ok act_do_run zerr_Ok zerr_do_Ok Let_def by blast
  have P: "provider_quiet regs ?P" using quiet unfolding plugin_host_quiet_def by blast
  have zenoh: "plugin_zenoh_of H c w1 t w3" unfolding plugin_zenoh_of_def using session builder build by blast
  have same: "regs w3 = regs w1"
    using quiet session build unfolding plugin_host_quiet_def by (metis snd_conv)
  show ?thesis
  proof (cases "psc_enabled (pc_someip_config c)")
    case True
    then obtain s w4 where s: "plugin_someip_of (e_uri E) H c w3 s" and w4: "regs w4 = regs w3"
      and run: "connect_both E (endpoint_new ''mechatronics_endpoint'' (sip_authority (pc_someip_config c)) s)
        (?host t) st0 w4 = Some (Inr st, w')"
      using plugin_connect_someip_Ok [OF quiet, of E c "?host t" st0 w3 st w'] rest by auto
    have "regs w4 = regs w1" using w4 same by simp
    from fresh_streamer_connected [OF assms(1) P new this _ run] sup
    show ?thesis unfolding if_P [OF True] endpoint_new_authority using mode new zenoh s by blast
  next
    case False
    then have st: "st = st0" "w' = w3" using rest by (auto simp: act_ret_run)
    have "streamer_inv regs fk supported (regs w) E 1 st0 w1" by (rule ustreamer_new_inv [OF P new])
    from route_registrations_owned [OF streamer_inv_frame [OF same this] ustreamer_new_current [OF new]]
    show ?thesis unfolding if_not_P [OF False] st using mode new zenoh ustreamer_new_table [OF new] by blast
  qed
qed

section \<open>The task of the plugin\<close>

lemma plugin_loop_stops:
  "\<forall>k < d. flag (n + k) \<Longrightarrow> \<not> flag (n + d) \<Longrightarrow> plugin_loop flag n counter \<noteq> None"
proof (induction d arbitrary: n counter)
  case 0
  then show ?case by (subst plugin_loop.simps) simp
next
  case (Suc d)
  have "flag n" using Suc.prems(1) by force
  moreover have "plugin_loop flag (Suc n) (counter + 1) \<noteq> None"
    using Suc.prems by (intro Suc.IH) (auto simp: less_Suc_eq_0_disj)
  ultimately show ?case by (subst plugin_loop.simps) simp
qed

lemma plugin_loop_returned: "plugin_loop flag n counter = Some y \<Longrightarrow> \<exists>k \<ge> n. \<not> flag k"
proof (erule plugin_loop.raw_induct [rotated])
  fix loop :: "(nat \<Rightarrow> bool) \<Rightarrow> nat \<Rightarrow> 32 word \<Rightarrow> 32 word option" and flag n counter y
  assume "\<And>flag n counter y. loop flag n counter = Some y \<Longrightarrow> \<exists>k \<ge> n. \<not> flag k"
    and "(if flag n then loop flag (Suc n) (counter + 1) else Some counter) = Some y"
  then show "\<exists>k \<ge> n. \<not> flag k" by (metis Suc_leD order_refl)
qed

text \<open>The task of a plugin that could not be set up puts the flag down itself; that of one that could be
  ends, without touching the flag, exactly when it sees the flag down some time.\<close>

theorem plugin_task_ends:
  assumes "plugin_setup E H c w = Some (r, w1)"
  shows "plugin_task E H c flag w =
    (case r of Inl e \<Rightarrow> Some (True, w1) | Inr st \<Rightarrow> if \<exists>n. \<not> flag n then Some (False, w1) else None)"
proof (cases r)
  case (Inl e)
  then show ?thesis using assms by (simp add: plugin_task_def plugin_run_def act_bind_def)
next
  case (Inr st)
  have run: "plugin_task E H c flag w = map_option (\<lambda>counter. (False, w1)) (plugin_loop flag 0 1)"
    using assms Inr by (simp add: plugin_task_def plugin_run_def act_bind_def option.map_comp comp_def)
  show ?thesis
  proof (cases "\<exists>n. \<not> flag n")
    case True
    then obtain n where "\<not> flag n" "\<forall>k < n. flag k" using exists_least_iff [of "\<lambda>n. \<not> flag n"] by blast
    then have "plugin_loop flag 0 1 \<noteq> None" using plugin_loop_stops [of n flag 0 1] by simp
    then obtain y where "plugin_loop flag 0 1 = Some y" by (rule not_None_eq [THEN iffD1, elim_format]) blast
    then show ?thesis unfolding run Inr sum.case if_P [OF True] by simp
  next
    case False
    then have "plugin_loop flag 0 1 = None" using plugin_loop_returned [of flag 0 1] by (cases "plugin_loop flag 0 1") auto
    then show ?thesis unfolding run Inr sum.case if_not_P [OF False] by simp
  qed
qed

section \<open>Concrete start-ups\<close>

definition sample_someip_config :: someip_config where
  "sample_someip_config = \<lparr>sip_authority = ''b'', sip_config_file = ''vsomeip.json'', sip_default_application_id = 1\<rparr>"

definition sample_example_config :: example_config where
  "sample_example_config = \<lparr>xc_up_streamer_config = \<lparr>sc_message_queue_size = 16\<rparr>,
     xc_streamer_uuri = \<lparr>su_authority = ''a'', su_ue_id = 0, su_ue_version_major = 1\<rparr>,
     xc_usubscription_config = \<lparr>uc_mode = StaticFile, uc_file_path = ''subs''\<rparr>,
     xc_zenoh_config_file = ''z'', xc_host_transport = ZenohHost, xc_someip_config = sample_someip_config,
     xc_mqtt_config = \<lparr>xm_authority = ''c'', xm_hostname = ''h'', xm_port = 1883, xm_max_buffered_messages = 100,
       xm_max_subscriptions = 100, xm_session_expiry_interval = 3600, xm_username = ''u''\<rparr>\<rparr>"

definition sample_someip_startup :: "nat foo_world someip_startup" where
  "sample_someip_startup = \<lparr>so_open = Inr, so_read = Inr, so_parse_config = (\<lambda>s. Inr sample_config),
     so_mqtt_details = (\<lambda>s. Inr sample_mqtt_details), so_static_provider = (\<lambda>p. sample_provider),
     so_zenoh_config = Inr, so_zenoh_builder = Inr, so_zenoh_build = (\<lambda>b z w. (Inr foo_transport, w)),
     so_mqtt_new = (\<lambda>d a w. (Inr second_transport, w)), so_mqtt_connect = (\<lambda>t w. (Inr (), w)),
     so_ctrl_c = Pair (Inr ()), ss_parse_config = (\<lambda>s. Inr sample_example_config),
     ss_current_exe = Inr ''/opt/streamer'', ss_exists = (\<lambda>p w. p = ''/opt/vsomeip.json''),
     ss_vsomeip = (\<lambda>u a f w. (Inr second_transport, w)), ss_println = (\<lambda>s w. w)\<rparr>"

definition sample_plugin_config :: "subscription_provider_mode \<Rightarrow> bool \<Rightarrow> plugin_config" where
  "sample_plugin_config mode enabled = \<lparr>pc_required = True,
     pc_up_streamer_config = \<lparr>sc_message_queue_size = 16\<rparr>,
     pc_streamer_uuri = \<lparr>su_authority = ''a'', su_ue_id = 0, su_ue_version_major = 1\<rparr>,
     pc_usubscription_config = \<lparr>uc_mode = mode, uc_file_path = ''subs''\<rparr>,
     pc_someip_config = \<lparr>sip_authority = ''b'', sip_config_file = ''/etc/vsomeip.json'',
       sip_default_application_id = 1, psc_enabled = enabled\<rparr>\<rparr>"

definition sample_plugin_host :: "nat foo_world plugin_host" where
  "sample_plugin_host = \<lparr>ph_get_config = Inr, ph_parse_config = (\<lambda>s. Inr (sample_plugin_config StaticFile True)),
     ph_build_runtime = (\<lambda>n w. (Inr (), w)), ph_static_provider = (\<lambda>p. sample_provider),
     ph_session_init = (\<lambda>w. (Inr ''s'', w)), ph_zenoh_builder = Inr,
     ph_zenoh_build = (\<lambda>b s w. (Inr foo_transport, w)), ph_current_dir = Inr ''/'',
     ph_exists = (\<lambda>p w. p = ''/etc/vsomeip.json''), ph_vsomeip = (\<lambda>u a f w. (Inr second_transport, w)),
     ph_display = status_message, ph_debug = status_message\<rparr>"

lemma sample_someip_startup_quiet: "someip_startup_quiet regs sample_someip_startup"
  by (simp add: someip_startup_quiet_def sample_someip_startup_def sample_provider_quiet)

lemma sample_plugin_host_quiet: "plugin_host_quiet regs sample_plugin_host"
  by (simp add: plugin_host_quiet_def sample_plugin_host_def sample_provider_quiet)

lemma sample_both_supported:
  "both_supported (foo_supported (sample_uuri_api [])) ''a'' ''b''"
  "both_supported (foo_supported (sample_uuri_api [])) ''b'' ''a''"
  by code_simp+

lemma act_succeeded: "map_option (\<lambda>(r, w). is_ok r) x = Some True \<Longrightarrow> \<exists>y w. x = Some (Inr y, w)"
  by (cases x) (auto simp: is_ok_def split: sum.splits)

theorem example_streamer_ready_witness:
  "\<exists>st w'. example_streamer_start foo_env sample_someip_startup ''CONFIG'' streamer_world = Some (Inr st, w') \<and>
     card (rs_table (us_routing st)) = 2"
proof -
  have "map_option (\<lambda>(r, w). is_ok r)
      (example_streamer_start foo_env sample_someip_startup ''CONFIG'' streamer_world) = Some True"
    by code_simp
  from act_succeeded [OF this] obtain st w' where
    run: "example_streamer_start foo_env sample_someip_startup ''CONFIG'' streamer_world = Some (Inr st, w')"
    by blast
  have "both_supported (foo_supported (sample_uuri_api [])) (su_authority (xc_streamer_uuri c))
      (sip_authority (xc_someip_config c))" if "ss_parse_config sample_someip_startup contents = Inr c" for contents c
    using that sample_both_supported
    by (auto simp: sample_someip_startup_def sample_example_config_def sample_someip_config_def)
  then have sup: "\<forall>contents c. ss_parse_config sample_someip_startup contents = Inr c \<longrightarrow>
      both_supported (foo_supported (sample_uuri_api [])) (su_authority (xc_streamer_uuri c))
        (sip_authority (xc_someip_config c))" by (intro allI impI)
  from example_streamer_ready [OF foo_contract sample_someip_startup_quiet sup run]
  have "card (rs_table (us_routing st)) = 2" by (elim exE conjE)
  with run show ?thesis by blast
qed

theorem plugin_setup_routes_witness:
  "\<exists>st w'. plugin_setup foo_env sample_plugin_host (sample_plugin_config StaticFile True) streamer_world
       = Some (Inr st, w') \<and> card (rs_table (us_routing st)) = 2"
proof -
  let ?c = "sample_plugin_config StaticFile True"
  have "map_option (\<lambda>(r, w). is_ok r) (plugin_setup foo_env sample_plugin_host ?c streamer_world) = Some True"
    by code_simp
  from act_succeeded [OF this] obtain st w' where
    run: "plugin_setup foo_env sample_plugin_host ?c streamer_world = Some (Inr st, w')" by blast
  have sup: "both_supported (foo_supported (sample_uuri_api [])) (sip_authority (pc_someip_config ?c))
      (su_authority (pc_streamer_uuri ?c))"
    using sample_both_supported by (simp add: sample_plugin_config_def)
  have "psc_enabled (pc_someip_config ?c)" by (simp add: sample_plugin_config_def)
  with plugin_setup_routes [OF foo_contract sample_plugin_host_quiet sup run]
  have "card (rs_table (us_routing st)) = 2" by (elim exE conjE) simp
  with run show ?thesis by blast
qed

theorem plugin_task_ends_witness:
  "\<exists>w. plugin_task foo_env sample_plugin_host (sample_plugin_config LiveUsubscription True) (\<lambda>n. True)
     streamer_world = Some (True, w)"
proof -
  have "\<exists>e. plugin_setup foo_env sample_plugin_host (sample_plugin_config LiveUsubscription True) streamer_world
      = Some (Inl e, streamer_world)"
    by (simp add: plugin_setup_def act_bind_def act_fail_def sample_plugin_config_def)
  then obtain e where "plugin_setup foo_env sample_plugin_host (sample_plugin_config LiveUsubscription True)
      streamer_world = Some (Inl e, streamer_world)"
    by (elim exE)
  from plugin_task_ends [OF this, of "\<lambda>n. True"] show ?thesis by simp
qed

end
