(* ===== verification/Static_File.thy ===== *)
theory Static_File
  imports Subscription_Directory
begin

text \<open>
  The static subscription provider (utils/usubscription-static-file/src/lib.rs): a JSON file that maps
  topic URIs to arrays of subscriber URIs, read on every call or once.

  The file system and the JSON parser are parameters; of a parsed value the code asks whether it is
  an object, an array or a string, so these are the constructors here, and an object lists its entries
  in the order the parser iterates them.
\<close>

section \<open>Parameters\<close>

datatype json =
    JString string
  | JArray "json list"
  | JObject "(string \<times> json) list"
  | JOther string

text \<open>One state of the outside: what the three calls answer, an error as its \<open>Debug\<close> text.\<close>

record file_api =
  fs_canonicalize :: "string \<Rightarrow> string + string"
  fs_read_to_string :: "string \<Rightarrow> string + string"
  json_from_str :: "string \<Rightarrow> string + json"

section \<open>State\<close>

datatype static_file_reload_strategy = AlwaysReload | CacheOnFirstRead

record uri_projection_key =
  pj_authority_name :: string
  pj_ue_id :: "32 word"
  pj_ue_version_major :: "8 word"
  pj_resource_id :: "16 word"

definition projection_of_owned :: "uuri_api \<Rightarrow> uuri \<Rightarrow> uri_projection_key" where
  "projection_of_owned U uri =
     (let major = m_uentity_major_version U uri;
          resource = m_resource_id U uri
      in \<lparr>pj_authority_name = authority_name uri, pj_ue_id = ue_id uri,
          pj_ue_version_major = major, pj_resource_id = resource\<rparr>)"

definition projection_of :: "uuri_api \<Rightarrow> uuri \<Rightarrow> uri_projection_key" where
  "projection_of U uri =
     \<lparr>pj_authority_name = m_authority_name U uri, pj_ue_id = ue_id uri,
      pj_ue_version_major = m_uentity_major_version U uri, pj_resource_id = m_resource_id U uri\<rparr>"

record static_identity_key =
  st_topic :: uri_projection_key
  st_subscriber :: uri_projection_key

text \<open>\<open>sf_poisoned\<close> says that a thread has panicked while it held the cache's lock.\<close>

record usubscription_static_file =
  sf_static_file :: string
  sf_reload_strategy :: static_file_reload_strategy
  sf_cached_subscriptions :: "subscription list option"
  sf_poisoned :: bool

definition with_reload_strategy ::
  "string \<Rightarrow> static_file_reload_strategy \<Rightarrow> usubscription_static_file" where
  "with_reload_strategy file strategy =
     \<lparr>sf_static_file = file, sf_reload_strategy = strategy, sf_cached_subscriptions = None,
      sf_poisoned = False\<rparr>"

definition static_file_new :: "string \<Rightarrow> usubscription_static_file" where
  "static_file_new file = with_reload_strategy file AlwaysReload"

definition STATIC_RESOURCE_ID :: "32 word" where "STATIC_RESOURCE_ID = 0x8001"

section \<open>Reading and parsing\<close>

definition clear_cached_subscriptions ::
  "usubscription_static_file \<Rightarrow> (ustatus, unit) result \<times> usubscription_static_file" where
  "clear_cached_subscriptions sf =
     (if sf_poisoned sf then
        (Err (fail_with_code INTERNAL ''Static subscription cache write lock is poisoned''), sf)
      else (Ok (), sf\<lparr>sf_cached_subscriptions := None\<rparr>))"

definition unsupported_operation_status :: "string \<Rightarrow> ustatus" where
  "unsupported_operation_status operation =
     fail_with_code UNIMPLEMENTED
       (operation @ '' is not supported by USubscriptionStaticFile (read-only backend)'')"

definition canonicalized_static_file_path ::
  "file_api \<Rightarrow> usubscription_static_file \<Rightarrow> (ustatus, string) result" where
  "canonicalized_static_file_path F sf =
     (case fs_canonicalize F (sf_static_file sf) of
        Inl e \<Rightarrow> Err (fail_with_code INVALID_ARGUMENT (''Static subscription file not found: '' @ e))
      | Inr p \<Rightarrow> Ok p)"

definition read_static_config_json ::
  "file_api \<Rightarrow> usubscription_static_file \<Rightarrow> (ustatus, json) result" where
  "read_static_config_json F sf =
     (case canonicalized_static_file_path F sf of
        Inl e \<Rightarrow> Err e
      | Inr path \<Rightarrow>
          (case fs_read_to_string F path of
             Inl e \<Rightarrow> Err (fail_with_code INVALID_ARGUMENT (''Unable to read file: '' @ e))
           | Inr data \<Rightarrow>
               (case json_from_str F data of
                  Inl e \<Rightarrow> Err (fail_with_code INVALID_ARGUMENT (''Unable to parse JSON: '' @ e))
                | Inr v \<Rightarrow> Ok v)))"

type_synonym static_rows = "(static_identity_key, subscription) hashmap"

definition static_row :: "uuri \<Rightarrow> uuri \<Rightarrow> subscription" where
  "static_row topic subscriber =
     \<lparr>sub_topic = Some topic, sub_subscriber = Some \<lparr>subscriber_uri = Some subscriber\<rparr>\<rparr>"

definition static_identity :: "uuri_api \<Rightarrow> uuri \<Rightarrow> uuri \<Rightarrow> static_identity_key" where
  "static_identity U topic subscriber =
     \<lparr>st_topic = projection_of U topic, st_subscriber = projection_of U subscriber\<rparr>"

text \<open>The inner loop, over the subscribers of one topic.\<close>

fun parse_subscribers :: "uuri_api \<Rightarrow> uuri \<Rightarrow> json list \<Rightarrow> static_rows \<Rightarrow> static_rows" where
  "parse_subscribers U topic [] m = m"
| "parse_subscribers U topic (v # vs) m =
     (case v of
        JString s \<Rightarrow>
          (case m_from_str U s of
             Inl e \<Rightarrow> parse_subscribers U topic vs m
           | Inr subscriber \<Rightarrow>
               parse_subscribers U topic vs
                 (hm_or_insert (static_identity U topic subscriber) (static_row topic subscriber) m))
      | _ \<Rightarrow> parse_subscribers U topic vs m)"

definition fix_resource_id :: "uuri \<Rightarrow> uuri" where
  "fix_resource_id topic =
     (if resource_id topic \<noteq> STATIC_RESOURCE_ID then topic\<lparr>resource_id := STATIC_RESOURCE_ID\<rparr>
      else topic)"

fun parse_entries :: "uuri_api \<Rightarrow> (string \<times> json) list \<Rightarrow> static_rows \<Rightarrow> static_rows" where
  "parse_entries U [] m = m"
| "parse_entries U ((topic_key, values) # es) m =
     (case m_from_str U topic_key of
        Inl e \<Rightarrow> parse_entries U es m
      | Inr uri \<Rightarrow>
          (let topic = fix_resource_id uri in
           case values of
             JArray subscribers \<Rightarrow> parse_entries U es (parse_subscribers U topic subscribers m)
           | _ \<Rightarrow> parse_entries U es m))"

text \<open>\<open>ord\<close> is the order in which the map gives up its values.\<close>

definition parse_static_subscriptions ::
  "uuri_api \<Rightarrow> (static_rows \<Rightarrow> static_rows) \<Rightarrow> file_api \<Rightarrow> usubscription_static_file \<Rightarrow>
   (ustatus, subscription list) result" where
  "parse_static_subscriptions U ord F sf =
     (case read_static_config_json F sf of
        Inl e \<Rightarrow> Err e
      | Inr value \<Rightarrow>
          (case value of
             JObject entries \<Rightarrow> Ok (map snd (ord (parse_entries U entries [])))
           | _ \<Rightarrow> Err (fail_with_code INVALID_ARGUMENT
               ''Static subscription file must be a JSON object mapping topic URI keys to arrays of subscriber URI strings'')))"

text \<open>
  With \<open>CacheOnFirstRead\<close> the file is read between two critical sections; \<open>store_parsed\<close> is the second
  one, in which rows that another caller has stored meanwhile win.
\<close>

definition store_parsed ::
  "subscription list \<Rightarrow> usubscription_static_file \<Rightarrow>
   (ustatus, subscription list) result \<times> usubscription_static_file" where
  "store_parsed parsed sf =
     (if sf_poisoned sf then
        (Err (fail_with_code INTERNAL ''Static subscription cache write lock is poisoned''), sf)
      else (case sf_cached_subscriptions sf of
              Some cached \<Rightarrow> (Ok cached, sf)
            | None \<Rightarrow> (Ok parsed, sf\<lparr>sf_cached_subscriptions := Some parsed\<rparr>)))"

definition load_subscriptions ::
  "uuri_api \<Rightarrow> (static_rows \<Rightarrow> static_rows) \<Rightarrow> file_api \<Rightarrow> usubscription_static_file \<Rightarrow>
   (ustatus, subscription list) result \<times> usubscription_static_file" where
  "load_subscriptions U ord F sf =
     (case sf_reload_strategy sf of
        AlwaysReload \<Rightarrow> (parse_static_subscriptions U ord F sf, sf)
      | CacheOnFirstRead \<Rightarrow>
          if sf_poisoned sf then
            (Err (fail_with_code INTERNAL ''Static subscription cache read lock is poisoned''), sf)
          else
            (case sf_cached_subscriptions sf of
               Some cached \<Rightarrow> (Ok cached, sf)
             | None \<Rightarrow>
                 (case parse_static_subscriptions U ord F sf of
                    Inl e \<Rightarrow> (Err e, sf)
                  | Inr parsed \<Rightarrow> store_parsed parsed sf)))"

section \<open>The provider's operations\<close>

definition fetch_subscriptions ::
  "uuri_api \<Rightarrow> (static_rows \<Rightarrow> static_rows) \<Rightarrow> file_api \<Rightarrow> usubscription_static_file \<Rightarrow>
   (ustatus, fetch_subscriptions_response) result \<times> usubscription_static_file" where
  "fetch_subscriptions U ord F sf = load_subscriptions U ord F sf"

fun collect_subscribers ::
  "uuri_api \<Rightarrow> uri_projection_key \<Rightarrow> subscription list \<Rightarrow>
   (uri_projection_key, subscriber_info) hashmap \<Rightarrow> (uri_projection_key, subscriber_info) hashmap" where
  "collect_subscribers U requested [] m = m"
| "collect_subscribers U requested (s # ss) m =
     (case sub_topic s of
        None \<Rightarrow> collect_subscribers U requested ss m
      | Some topic \<Rightarrow>
          if projection_of_owned U topic \<noteq> requested then collect_subscribers U requested ss m
          else (case sub_subscriber s of
                  None \<Rightarrow> collect_subscribers U requested ss m
                | Some subscriber \<Rightarrow>
                    (case subscriber_uri subscriber of
                       None \<Rightarrow> collect_subscribers U requested ss m
                     | Some uri \<Rightarrow>
                         collect_subscribers U requested ss
                           (hm_or_insert (projection_of U uri) subscriber m))))"

definition fetch_subscribers ::
  "uuri_api \<Rightarrow> (static_rows \<Rightarrow> static_rows) \<Rightarrow>
   ((uri_projection_key, subscriber_info) hashmap \<Rightarrow> (uri_projection_key, subscriber_info) hashmap) \<Rightarrow>
   file_api \<Rightarrow> uuri option \<Rightarrow> usubscription_static_file \<Rightarrow>
   (ustatus, subscriber_info list) result \<times> usubscription_static_file" where
  "fetch_subscribers U ord ord' F topic sf =
     (case topic of
        None \<Rightarrow> (Err (fail_with_code INVALID_ARGUMENT ''fetch_subscribers requires a topic''), sf)
      | Some t \<Rightarrow>
          (let requested = projection_of_owned U (t\<lparr>resource_id := STATIC_RESOURCE_ID\<rparr>)
           in case load_subscriptions U ord F sf of
                (Inl e, sf') \<Rightarrow> (Err e, sf')
              | (Inr rows, sf') \<Rightarrow>
                  (Ok (map snd (ord' (collect_subscribers U requested rows []))), sf')))"

definition static_subscribe :: "(ustatus, unit) result" where
  "static_subscribe = Err (unsupported_operation_status ''subscribe'')"

definition static_unsubscribe :: "(ustatus, unit) result" where
  "static_unsubscribe = Err (unsupported_operation_status ''unsubscribe'')"

definition static_register_for_notifications :: "(ustatus, unit) result" where
  "static_register_for_notifications = Ok ()"

definition static_unregister_for_notifications :: "(ustatus, unit) result" where
  "static_unregister_for_notifications = Ok ()"

definition static_reset :: "(ustatus, unit) result" where
  "static_reset = Ok ()"

section \<open>What a file says\<close>

text \<open>The subscriptions of a file, in order and with repetitions.\<close>

fun subscriber_uris :: "uuri_api \<Rightarrow> json list \<Rightarrow> uuri list" where
  "subscriber_uris U [] = []"
| "subscriber_uris U (JString s # vs) =
     (case m_from_str U s of Inl e \<Rightarrow> subscriber_uris U vs | Inr u \<Rightarrow> u # subscriber_uris U vs)"
| "subscriber_uris U (v # vs) = subscriber_uris U vs"

fun static_pairs :: "uuri_api \<Rightarrow> (string \<times> json) list \<Rightarrow> (uuri \<times> uuri) list" where
  "static_pairs U [] = []"
| "static_pairs U ((k, v) # es) =
     (case (m_from_str U k, v) of
        (Inr t, JArray vs) \<Rightarrow> map (Pair (fix_resource_id t)) (subscriber_uris U vs) @ static_pairs U es
      | _ \<Rightarrow> static_pairs U es)"

definition keyed_rows :: "uuri_api \<Rightarrow> (uuri \<times> uuri) list \<Rightarrow> (static_identity_key \<times> subscription) list" where
  "keyed_rows U ps = map (\<lambda>(t, s). (static_identity U t s, static_row t s)) ps"

lemma keyed_rows_simps [simp]:
  "keyed_rows U [] = []" "keyed_rows U ((t, s) # ps) = (static_identity U t s, static_row t s) # keyed_rows U ps"
  "keyed_rows U (ps @ qs) = keyed_rows U ps @ keyed_rows U qs"
  by (simp_all add: keyed_rows_def)

lemma parse_subscribers_all:
  "parse_subscribers U t vs m = hm_or_insert_all (keyed_rows U (map (Pair t) (subscriber_uris U vs))) m"
  by (induction U vs arbitrary: m rule: subscriber_uris.induct) (auto split: sum.splits)

lemma parse_entries_all: "parse_entries U es m = hm_or_insert_all (keyed_rows U (static_pairs U es)) m"
proof (induction U es arbitrary: m rule: static_pairs.induct)
  case (1 U)
  then show ?case by simp
next
  case (2 U k v es)
  then show ?case
    by (cases v) (auto simp: parse_subscribers_all Let_def split: sum.splits)
qed

lemma parse_entries_get: "hm_get (parse_entries U es []) k = map_of (keyed_rows U (static_pairs U es)) k"
  by (simp add: parse_entries_all hm_get_or_insert_all)

lemma parse_entries_wf: "hm_wf (parse_entries U es [])"
  by (simp add: parse_entries_all hm_wf_or_insert_all)

definition row_identity :: "uuri_api \<Rightarrow> subscription \<Rightarrow> static_identity_key" where
  "row_identity U row =
     static_identity U (the (sub_topic row)) (the (subscriber_uri (the (sub_subscriber row))))"

lemma keyed_rows_row: "(k, row) \<in> set (keyed_rows U ps) \<Longrightarrow>
   k = row_identity U row \<and> complete_row row \<and> (\<exists>t s. (t, s) \<in> set ps \<and> row = static_row t s)"
  by (auto simp: keyed_rows_def row_identity_def static_row_def complete_row_def)

lemma static_pairs_resource: "(t, s) \<in> set (static_pairs U es) \<Longrightarrow> resource_id t = STATIC_RESOURCE_ID"
  by (induction U es rule: static_pairs.induct)
    (auto simp: fix_resource_id_def split: sum.splits json.splits)

lemma parsed_rows:
  assumes "order_ok ord"
  shows "row \<in> set (map snd (ord (parse_entries U es [])))
      \<longleftrightarrow> map_of (keyed_rows U (static_pairs U es)) (row_identity U row) = Some row"
    and "distinct (map (row_identity U) (map snd (ord (parse_entries U es []))))"
proof -
  let ?m = "parse_entries U es []"
  have wf: "hm_wf (ord ?m)" using order_wf [OF assms] parse_entries_wf by blast
  have key: "k = row_identity U r" if "(k, r) \<in> set (ord ?m)" for k r
  proof -
    from that have "(k, r) \<in> set ?m" by (simp add: order_set [OF assms])
    then have "map_of (keyed_rows U (static_pairs U es)) k = Some r"
      using hm_get_set_iff [OF parse_entries_wf, of U es k r] parse_entries_get [of U es k] by simp
    then show ?thesis using keyed_rows_row by (metis map_of_SomeD)
  qed
  have "row \<in> set (map snd (ord ?m)) \<longleftrightarrow> (row_identity U row, row) \<in> set (ord ?m)"
    using key by force
  also have "\<dots> \<longleftrightarrow> map_of (keyed_rows U (static_pairs U es)) (row_identity U row) = Some row"
    using hm_get_set_iff [OF parse_entries_wf, of U es "row_identity U row" row]
    by (simp add: order_set [OF assms] parse_entries_get)
  finally show "row \<in> set (map snd (ord ?m))
      \<longleftrightarrow> map_of (keyed_rows U (static_pairs U es)) (row_identity U row) = Some row" .
  have "map (row_identity U) (map snd (ord ?m)) = map fst (ord ?m)"
    using key by (auto intro!: map_cong)
  then show "distinct (map (row_identity U) (map snd (ord ?m)))"
    using wf by (simp add: hm_wf_def del: map_map)
qed

section \<open>Properties\<close>

text \<open>
  C29. What is parsed from a file is exactly the first row for each identity among the subscriptions
  the file lists with a parseable topic, an array and a parseable subscriber; every row is complete
  and has the fixed resource id, no identity occurs twice, and the streamer's directory never refuses
  such a snapshot.
\<close>

theorem static_file_rows_exact:
  assumes "order_ok ord" and "parse_static_subscriptions U ord F sf = Inr rows"
  shows "\<exists>entries. read_static_config_json F sf = Inr (JObject entries) \<and>
    (\<forall>row. row \<in> set rows \<longleftrightarrow>
       map_of (keyed_rows U (static_pairs U entries)) (row_identity U row) = Some row) \<and>
    distinct (map (row_identity U) rows) \<and>
    list_all (\<lambda>row. resource_id (the (sub_topic row)) = STATIC_RESOURCE_ID) rows \<and>
    is_ok (fst (apply_snapshot U H rows d))"
proof -
  obtain entries where read: "read_static_config_json F sf = Inr (JObject entries)"
    and rows: "rows = map snd (ord (parse_entries U entries []))"
    using assms(2) by (auto simp: parse_static_subscriptions_def split: sum.splits json.splits)
  note r = parsed_rows [OF assms(1), where U = U and es = entries]
  have src: "\<exists>t s. (t, s) \<in> set (static_pairs U entries) \<and> row = static_row t s"
    and "complete_row row" if "row \<in> set rows" for row
    using that r(1) [of row] keyed_rows_row [OF map_of_SomeD] unfolding rows by blast+
  then have "list_all complete_row rows"
    and "list_all (\<lambda>row. resource_id (the (sub_topic row)) = STATIC_RESOURCE_ID) rows"
    using static_pairs_resource by (fastforce simp: list_all_iff static_row_def)+
  with read r show ?thesis
    unfolding apply_snapshot_Ok_iff rows by blast
qed

definition sample_files :: file_api where
  "sample_files = \<lparr>fs_canonicalize = Inr, fs_read_to_string = Inr,
     json_from_str = (\<lambda>s. Inr (JObject
       [(''//a/1/1/9'', JArray [JString ''//b/2/1/3'', JOther ''7'', JString ''//b/2/1/3'']),
        (''bad'', JArray []), (''//a/1/1/9'', JOther ''null'')]))\<rparr>"

definition sample_parser :: uuri_api where
  "sample_parser = sample_uuri_api
     [(''//a/1/1/9'', \<lparr>authority_name = ''a'', ue_id = 1, ue_version_major = 1, resource_id = 9\<rparr>),
      (''//b/2/1/3'', \<lparr>authority_name = ''b'', ue_id = 2, ue_version_major = 1, resource_id = 3\<rparr>)]"

definition sample_static_row :: subscription where
  "sample_static_row = static_row
     \<lparr>authority_name = ''a'', ue_id = 1, ue_version_major = 1, resource_id = 0x8001\<rparr>
     \<lparr>authority_name = ''b'', ue_id = 2, ue_version_major = 1, resource_id = 3\<rparr>"

lemma sample_parse:
  "parse_static_subscriptions sample_parser rev sample_files (static_file_new ''f'') = Inr [sample_static_row]"
  by code_simp

theorem static_file_rows_exact_witness:
  "distinct (map (row_identity sample_parser) [sample_static_row]) \<and>
   is_ok (fst (apply_snapshot sample_parser plain_order [sample_static_row] directory_empty))"
  using static_file_rows_exact [OF order_ok_rev sample_parse, of plain_order directory_empty] by blast

text \<open>
  With \<open>AlwaysReload\<close> every call answers what the file says now and keeps nothing. With
  \<open>CacheOnFirstRead\<close> the first success is kept: later calls answer it whatever the file says by then,
  also those that had parsed the file before it was stored, until the cache is cleared; a failure
  keeps nothing.
\<close>

theorem static_file_reload_strategy:
  assumes "\<not> sf_poisoned sf"
  shows "case sf_reload_strategy sf of
      AlwaysReload \<Rightarrow> load_subscriptions U ord F sf = (parse_static_subscriptions U ord F sf, sf)
    | CacheOnFirstRead \<Rightarrow>
      (case load_subscriptions U ord F sf of
         (Inl e, sf') \<Rightarrow> sf' = sf \<and> sf_cached_subscriptions sf = None
       | (Inr rows, sf') \<Rightarrow>
           load_subscriptions U ord' F' sf' = (Inr rows, sf') \<and>
           store_parsed parsed sf' = (Inr rows, sf') \<and>
           load_subscriptions U ord' F' (snd (clear_cached_subscriptions sf'))
             = load_subscriptions U ord' F' (sf\<lparr>sf_cached_subscriptions := None\<rparr>))"
  using assms
  by (auto simp: load_subscriptions_def store_parsed_def clear_cached_subscriptions_def
      split: option.splits sum.splits static_file_reload_strategy.splits)

definition gone_files :: file_api where
  "gone_files = sample_files\<lparr>fs_canonicalize := (\<lambda>p. Inl ''NotFound'')\<rparr>"

theorem static_file_reload_strategy_witness:
  "load_subscriptions sample_parser rev gone_files
     (snd (load_subscriptions sample_parser rev sample_files (with_reload_strategy ''f'' CacheOnFirstRead)))
   = (Inr [sample_static_row],
      snd (load_subscriptions sample_parser rev sample_files (with_reload_strategy ''f'' CacheOnFirstRead)))"
proof -
  let ?sf = "with_reload_strategy ''f'' CacheOnFirstRead"
  have first: "fst (load_subscriptions sample_parser rev sample_files ?sf) = Inr [sample_static_row]"
    by code_simp
  have sf: "\<not> sf_poisoned ?sf" "sf_reload_strategy ?sf = CacheOnFirstRead"
    by (simp_all add: with_reload_strategy_def)
  show ?thesis
    using static_file_reload_strategy [OF sf(1), of sample_parser rev sample_files rev gone_files "[]"]
      first sf(2)
    by (cases "load_subscriptions sample_parser rev sample_files ?sf") simp
qed

text \<open>
  The subscribers answered for a topic are, for each subscriber identity, those of the first row
  whose topic agrees with it in authority, entity id and the low 8 bits of the version: the resource
  id that is asked for does not matter.
\<close>

theorem fetch_subscribers_ignores_resource:
  assumes "uuri_api_ok U"
  shows "fetch_subscribers U ord ord' F (Some t) sf
      = fetch_subscribers U ord ord' F (Some (t\<lparr>resource_id := r\<rparr>)) sf \<and>
    hm_get (collect_subscribers U (projection_of_owned U (t\<lparr>resource_id := STATIC_RESOURCE_ID\<rparr>)) rows []) k
      = map_of (map (\<lambda>row. (projection_of U (the (subscriber_uri (the (sub_subscriber row)))),
                            the (sub_subscriber row)))
          (filter (\<lambda>row. complete_row row \<and>
             (let topic = the (sub_topic row) in
              authority_name topic = authority_name t \<and> ue_id topic = ue_id t \<and>
              (ucast (ue_version_major topic) :: 8 word) = ucast (ue_version_major t) \<and>
              (ucast (resource_id topic) :: 16 word) = 0x8001)) rows)) k"
proof -
  let ?q = "projection_of_owned U (t\<lparr>resource_id := STATIC_RESOURCE_ID\<rparr>)"
  let ?match = "\<lambda>topic. authority_name topic = authority_name t \<and> ue_id topic = ue_id t \<and>
      (ucast (ue_version_major topic) :: 8 word) = ucast (ue_version_major t) \<and>
      (ucast (resource_id topic) :: 16 word) = 0x8001"
  have match: "projection_of_owned U topic = ?q \<longleftrightarrow> ?match topic" for topic
    by (simp add: projection_of_owned_def uuri_api_simps [OF assms] STATIC_RESOURCE_ID_def Let_def)
  have "collect_subscribers U ?q rows m = hm_or_insert_all
      (map (\<lambda>row. (projection_of U (the (subscriber_uri (the (sub_subscriber row)))),
                   the (sub_subscriber row)))
        (filter (\<lambda>row. complete_row row \<and> ?match (the (sub_topic row))) rows)) m" for m
  proof (induction rows arbitrary: m)
    case Nil
    then show ?case by simp
  next
    case (Cons row rows)
    then show ?case
      by (auto simp: complete_row_def match split: option.splits)
  qed
  then show ?thesis
    by (simp add: hm_get_or_insert_all fetch_subscribers_def Let_def)
qed

theorem fetch_subscribers_ignores_resource_witness:
  "fst (fetch_subscribers sample_parser rev rev sample_files
      (Some \<lparr>authority_name = ''a'', ue_id = 1, ue_version_major = 1, resource_id = 77\<rparr>)
      (static_file_new ''f''))
   = Inr [the (sub_subscriber sample_static_row)]"
proof -
  have ok: "uuri_api_ok sample_parser" by (simp add: sample_parser_def sample_uuri_api_ok)
  have "fst (fetch_subscribers sample_parser rev rev sample_files
      (Some \<lparr>authority_name = ''a'', ue_id = 1, ue_version_major = 1, resource_id = 9\<rparr>)
      (static_file_new ''f'')) = Inr [the (sub_subscriber sample_static_row)]"
    by code_simp
  then show ?thesis
    using fetch_subscribers_ignores_resource [OF ok, of rev rev sample_files
        "\<lparr>authority_name = ''a'', ue_id = 1, ue_version_major = 1, resource_id = 9\<rparr>"
        "static_file_new ''f''" 77 "[]"]
    by simp
qed

end
