(* ===== verification/Smoke_Process.thy ===== *)
theory Smoke_Process
  imports Smoke_System
begin

text \<open>
  Child processes of the smoke suite (utils/transport-smoke-suite/src/process.rs): the shell command
  lines that are built for them, and a process from its start over the polling of its status to the
  escalation of signals at its end.
\<close>

section \<open>Command lines\<close>

fun str_replace_char :: "char \<Rightarrow> string \<Rightarrow> string \<Rightarrow> string" where
  "str_replace_char c by [] = []"
| "str_replace_char c by (x # xs) = (if x = c then by else [x]) @ str_replace_char c by xs"

definition single_quote :: char where "single_quote = CHR 0x27"
definition double_quote :: char where "double_quote = CHR 0x22"

definition shell_escape :: "string \<Rightarrow> string" where
  "shell_escape value =
     (let escaped = str_replace_char single_quote
        [single_quote, double_quote, single_quote, double_quote, single_quote] value
      in [single_quote] @ escaped @ [single_quote])"

definition render_env_prefix :: "(string \<times> string) list \<Rightarrow> string" where
  "render_env_prefix environment =
     str_join '' && '' (map (\<lambda>(key, v). ''export '' @ key @ ''='' @ shell_escape v) environment)"

definition render_exec_command :: "string \<Rightarrow> string list \<Rightarrow> string" where
  "render_exec_command executable args =
     ''exec '' @ str_join '' '' (shell_escape executable # map shell_escape args)"

definition with_optional_bootstrap :: "string \<Rightarrow> string \<Rightarrow> bool \<Rightarrow> string" where
  "with_optional_bootstrap root command no_bootstrap =
     (if no_bootstrap then command
      else ''source '' @ shell_escape (path_join (path_join root ''build'') ''envsetup.sh'') @
           '' highest >/dev/null 2>&1 && '' @ command)"

section \<open>Commands that are run to their end\<close>

record command_outcome =
  cmd_command :: string
  cmd_status_code :: "int option"
  cmd_stdout :: string
  cmd_stderr :: string

definition run_shell_command ::
  "'w os \<Rightarrow> string \<Rightarrow> string \<Rightarrow> string \<Rightarrow> bool \<Rightarrow> ('w, command_outcome) act" where
  "run_shell_command OS root workdir command no_bootstrap =
     (let full_command = with_optional_bootstrap root command no_bootstrap in
      act_bind
        (act_context (''failed to execute shell command: '' @ full_command)
           (os_output OS ''bash'' [''-lc'', full_command] (Some workdir)))
        (\<lambda>out. act_ret \<lparr>cmd_command = full_command, cmd_status_code = co_code out,
           cmd_stdout = co_stdout out, cmd_stderr = co_stderr out\<rparr>))"

section \<open>Managed processes\<close>

record process_spec =
  ps_name :: string
  ps_workdir :: string
  ps_executable :: string
  ps_args :: "string list"
  ps_env :: "(string \<times> string) list"
  ps_log_file_name :: string

record managed_process =
  mp_name :: string
  mp_pid :: int
  mp_process_group_id :: int
  mp_command_line :: string
  mp_workdir :: string
  mp_log_path :: string
  mp_started_at :: nat
  mp_ended_at :: "nat option"
  mp_exit_status_code :: "int option"
  mp_child :: nat

definition managed_spawn ::
  "'w os \<Rightarrow> process_spec \<Rightarrow> string \<Rightarrow> string \<Rightarrow> bool \<Rightarrow> ('w, managed_process) act" where
  "managed_spawn OS spec root artifacts_dir no_bootstrap =
     (let log_path = path_join artifacts_dir (ps_log_file_name spec);
          exec_command = render_exec_command (ps_executable spec) (ps_args spec);
          env_prefix = render_env_prefix (ps_env spec);
          shell_body = (if env_prefix = [] then exec_command else env_prefix @ '' && '' @ exec_command);
          full_command = with_optional_bootstrap root shell_body no_bootstrap
      in act_then
           (act_context (''unable to open log file '' @ log_path) (effect (os_open_append OS log_path)))
        (act_then
           (act_context (''unable to clone log file '' @ log_path) (effect (os_try_clone OS log_path)))
        (act_bind
           (act_context (''unable to spawn process '' @ quoted (ps_name spec) @ '' with command '' @
                quoted full_command @ '': in '' @ ps_workdir spec)
              (effect (os_spawn OS ''bash'' [''-lc'', full_command] (ps_workdir spec) log_path)))
        (\<lambda>child. act_bind (act_get (os_child_id OS child))
        (\<lambda>id. case id of
             None \<Rightarrow> act_fail (''spawned process '' @ quoted (ps_name spec) @ '' has no pid'')
           | Some pid \<Rightarrow>
               act_bind (value_of (os_utc OS)) (\<lambda>t.
                 act_ret \<lparr>mp_name = ps_name spec, mp_pid = pid, mp_process_group_id = pid,
                   mp_command_line = full_command, mp_workdir = ps_workdir spec, mp_log_path = log_path,
                   mp_started_at = t, mp_ended_at = None, mp_exit_status_code = None,
                   mp_child = child\<rparr>))))))"

definition has_exited :: "managed_process \<Rightarrow> bool" where
  "has_exited p \<longleftrightarrow> mp_ended_at p \<noteq> None"

text \<open>The methods with \<open>&mut self\<close> act on the process and the world.\<close>

definition in_world :: "('w, 'a) act \<Rightarrow> ('p \<times> 'w, 'a) act" where
  "in_world m s = (case m (snd s) of None \<Rightarrow> None | Some (r, w) \<Rightarrow> Some (r, (fst s, w)))"

text \<open>A program's output, the lines so far with the world.\<close>

definition println :: "string \<Rightarrow> (string list \<times> 'w, unit) act" where
  "println line = act_modify (apfst (\<lambda>out. out @ [line]))"

definition record_exit :: "'w os \<Rightarrow> int option \<Rightarrow> (managed_process \<times> 'w, unit) act" where
  "record_exit OS code =
     act_then (act_modify (apfst (\<lambda>p. p\<lparr>mp_exit_status_code := code\<rparr>)))
       (act_bind (in_world (value_of (os_utc OS))) (\<lambda>t.
          act_modify (apfst (\<lambda>p. p\<lparr>mp_ended_at := Some t\<rparr>))))"

definition process_error :: "string \<Rightarrow> managed_process \<Rightarrow> string" where
  "process_error what p = what @ quoted (mp_name p) @ ''(pid='' @ show_int (mp_pid p) @ '')''"

definition refresh_exit_status :: "'w os \<Rightarrow> (managed_process \<times> 'w, unit) act" where
  "refresh_exit_status OS =
     act_bind (act_get fst) (\<lambda>p.
       if mp_exit_status_code p \<noteq> None then act_ret ()
       else act_bind
         (act_context (process_error ''unable to query process status for '' p)
            (in_world (effect (os_try_wait OS (mp_child p)))))
         (\<lambda>status. case status of None \<Rightarrow> act_ret () | Some code \<Rightarrow> record_exit OS code))"

definition wait_with_timeout :: "'w os \<Rightarrow> nanos \<Rightarrow> (managed_process \<times> 'w, bool) act" where
  "wait_with_timeout OS timeout =
     act_then (refresh_exit_status OS)
       (act_bind (act_get fst) (\<lambda>p.
          if mp_exit_status_code p \<noteq> None then act_ret True
          else act_bind (in_world (value_of (os_wait_timeout OS timeout (mp_child p)))) (\<lambda>outcome.
            case outcome of
              None \<Rightarrow> act_ret False
            | Some waited \<Rightarrow>
                act_bind
                  (act_context (process_error ''unable to wait on process '' p) (act_lift waited))
                  (\<lambda>code. act_then (record_exit OS code) (act_ret True)))))"

definition SIGINT :: int where "SIGINT = 2"
definition SIGTERM :: int where "SIGTERM = 15"
definition ESRCH :: int where "ESRCH = 3"

definition signal_process_group :: "'w os \<Rightarrow> int \<Rightarrow> (managed_process \<times> 'w, unit) act" where
  "signal_process_group OS signal =
     act_bind (act_get fst) (\<lambda>p.
       act_bind (in_world (value_of (os_kill OS (- mp_process_group_id p) signal))) (\<lambda>err.
         if err = 0 \<or> err = ESRCH then act_ret ()
         else act_fail (''unable to send signal '' @ show_int signal @ '' to process group '' @
                show_int (mp_process_group_id p) @ '': '' @ os_error_text OS err)))"

definition not_terminated_error :: "managed_process \<Rightarrow> string" where
  "not_terminated_error p =
     ''process '' @ quoted (mp_name p) @ '' (pid='' @ show_int (mp_pid p) @ '', pgid='' @
     show_int (mp_process_group_id p) @ '') did not terminate after SIGINT/SIGTERM grace windows''"

definition terminate_gracefully ::
  "'w os \<Rightarrow> nanos \<Rightarrow> nanos \<Rightarrow> (managed_process \<times> 'w, unit) act" where
  "terminate_gracefully OS sigint_grace sigterm_grace =
     act_then (refresh_exit_status OS)
       (act_bind (act_get fst) (\<lambda>p.
          if mp_exit_status_code p \<noteq> None then act_ret ()
          else act_then (signal_process_group OS SIGINT)
            (act_bind (wait_with_timeout OS sigint_grace) (\<lambda>gone.
               if gone then act_ret ()
               else act_then (signal_process_group OS SIGTERM)
                 (act_bind (wait_with_timeout OS sigterm_grace) (\<lambda>gone'.
                    if gone' then act_ret ()
                    else act_then (refresh_exit_status OS)
                      (act_bind (act_get fst) (\<lambda>q.
                         act_ensure (mp_exit_status_code q \<noteq> None) (not_terminated_error q)))))))))"

section \<open>How a shell reads the command lines\<close>

text \<open>
  The words of a command line as the POSIX shell forms them, for lines of plain characters, spaces and
  quoted text; \<open>None\<close> for anything that has another meaning to the shell or an open quotation.
\<close>

datatype quoting = Unquoted | In_Single | In_Double

definition plain_shell_char :: "char \<Rightarrow> bool" where
  "plain_shell_char c \<longleftrightarrow> (let n = of_char c :: nat in
     (48 \<le> n \<and> n \<le> 57) \<or> (65 \<le> n \<and> n \<le> 90) \<or> (97 \<le> n \<and> n \<le> 122) \<or>
     c \<in> set ''_-./:='')"

definition word_so_far :: "string option \<Rightarrow> string" where
  "word_so_far cur = (case cur of None \<Rightarrow> [] | Some w \<Rightarrow> w)"

fun shell_words :: "quoting \<Rightarrow> string option \<Rightarrow> string \<Rightarrow> string list option" where
  "shell_words Unquoted cur [] = Some (case cur of None \<Rightarrow> [] | Some w \<Rightarrow> [w])"
| "shell_words In_Single cur [] = None"
| "shell_words In_Double cur [] = None"
| "shell_words Unquoted cur (c # cs) =
     (if c = CHR '' '' then
        (case cur of None \<Rightarrow> shell_words Unquoted None cs
         | Some w \<Rightarrow> map_option (Cons w) (shell_words Unquoted None cs))
      else if c = single_quote then shell_words In_Single (Some (word_so_far cur)) cs
      else if c = double_quote then shell_words In_Double (Some (word_so_far cur)) cs
      else if plain_shell_char c then shell_words Unquoted (Some (word_so_far cur @ [c])) cs
      else None)"
| "shell_words In_Single cur (c # cs) =
     (if c = single_quote then shell_words Unquoted cur cs
      else shell_words In_Single (Some (word_so_far cur @ [c])) cs)"
| "shell_words In_Double cur (c # cs) =
     (if c = double_quote then shell_words Unquoted cur cs
      else if c \<in> {CHR ''$'', CHR 0x60, CHR 0x5C} then None
      else shell_words In_Double (Some (word_so_far cur @ [c])) cs)"

lemma quotes_differ [simp]:
  "single_quote \<noteq> double_quote" "double_quote \<noteq> single_quote"
  "single_quote \<noteq> CHR '' ''" "double_quote \<noteq> CHR '' ''"
  "single_quote \<notin> {CHR ''$'', CHR 0x60, CHR 0x5C}"
  by (simp_all add: single_quote_def double_quote_def)

lemma word_so_far_simps [simp]: "word_so_far None = []" "word_so_far (Some w) = w"
  by (simp_all add: word_so_far_def)

lemma shell_words_escaped:
  "shell_words In_Single (Some w)
     (str_replace_char single_quote [single_quote, double_quote, single_quote, double_quote, single_quote] v
        @ single_quote # rest)
   = shell_words Unquoted (Some (w @ v)) rest"
  by (induction v arbitrary: w) (use quotes_differ(5) in auto)

lemma shell_words_escape:
  "shell_words Unquoted cur (shell_escape v @ rest) = shell_words Unquoted (Some (word_so_far cur @ v)) rest"
  using shell_words_escaped [of "word_so_far cur" v rest] by (simp add: shell_escape_def Let_def)

lemma shell_words_escape_all:
  "shell_words Unquoted None (str_join '' '' (map shell_escape vs)) = Some vs"
proof (induction vs rule: induct_list012)
  case 1
  then show ?case by simp
next
  case (2 v)
  then show ?case using shell_words_escape [of None v "[]"] by simp
next
  case (3 v u vs)
  then show ?case
    using shell_words_escape [of None v "'' '' @ str_join '' '' (map shell_escape (u # vs))"] by simp
qed

lemma word_exec:
  "shell_words Unquoted None (''exec '' @ rest) = map_option (Cons ''exec'') (shell_words Unquoted None rest)"
  by (simp add: plain_shell_char_def single_quote_def double_quote_def)

section \<open>Properties\<close>

text \<open>
  C23. The command line of a managed process means to the shell what was asked for: read by the quoting
  rules of the shell it is \<open>exec\<close> followed by the executable and exactly the given arguments,
  whatever characters these contain.
\<close>

theorem exec_command_roundtrip:
  "shell_words Unquoted None (render_exec_command executable args) = Some (''exec'' # executable # args)"
proof -
  have "render_exec_command executable args = ''exec '' @ str_join '' '' (map shell_escape (executable # args))"
    by (simp add: render_exec_command_def)
  then show ?thesis by (simp only: word_exec shell_words_escape_all option.map)
qed

section \<open>The end of a process\<close>

text \<open>An exit code is recorded together with the end.\<close>

definition process_wf :: "managed_process \<Rightarrow> bool" where
  "process_wf p \<longleftrightarrow> (mp_exit_status_code p \<noteq> None \<longrightarrow> has_exited p)"

lemma in_world_run [act_runs, act_Ok]:
  "in_world m s = Some (r, s') \<longleftrightarrow> (\<exists>w. m (snd s) = Some (r, w) \<and> s' = (fst s, w))"
  by (auto simp: in_world_def split: option.splits)

lemma managed_spawn_wf:
  "managed_spawn OS spec root dir nb w = Some (Inr p, w') \<Longrightarrow> process_wf p \<and> \<not> has_exited p"
  by (auto simp: managed_spawn_def Let_def act_Ok process_wf_def has_exited_def split: option.splits)

lemma record_exit_run:
  "record_exit OS code s = Some (r, s') \<Longrightarrow>
     r = Inr () \<and> has_exited (fst s') \<and> process_wf (fst s') \<and> mp_exit_status_code (fst s') = code"
  by (auto simp: record_exit_def act_runs has_exited_def process_wf_def)

abbreviation of_wf :: "managed_process \<times> 'w \<Rightarrow> bool" where
  "of_wf s \<equiv> process_wf (fst s)"

lemma refresh_exit_status_spec:
  "act_spec of_wf (refresh_exit_status OS) (\<lambda>_. of_wf) of_wf"
  by (rule act_specI)
    (auto simp: refresh_exit_status_def act_runs dest: record_exit_run split: if_splits option.splits)

lemma wait_with_timeout_spec:
  "act_spec of_wf (wait_with_timeout OS d) (\<lambda>gone s. of_wf s \<and> (gone \<longrightarrow> has_exited (fst s))) of_wf"
proof -
  have "act_spec of_wf (act_bind (act_get fst) (\<lambda>p.
      if mp_exit_status_code p \<noteq> None then act_ret True
      else act_bind (in_world (value_of (os_wait_timeout OS d (mp_child p)))) (\<lambda>outcome.
        case outcome of None \<Rightarrow> act_ret False
        | Some waited \<Rightarrow> act_bind (act_context (process_error ''unable to wait on process '' p)
            (act_lift waited)) (\<lambda>code. act_then (record_exit OS code) (act_ret True)))))
     (\<lambda>gone s. of_wf s \<and> (gone \<longrightarrow> has_exited (fst s))) of_wf"
    by (rule act_specI)
      (auto simp: act_runs process_wf_def dest: record_exit_run split: if_splits option.splits)
  then show ?thesis
    unfolding wait_with_timeout_def by (rule act_spec_then [OF refresh_exit_status_spec])
qed

lemma signal_process_group_spec:
  "act_spec of_wf (signal_process_group OS sig) (\<lambda>_. of_wf) of_wf"
  by (rule act_specI) (auto simp: signal_process_group_def act_runs split: if_splits)

lemmas process_specs = refresh_exit_status_spec wait_with_timeout_spec signal_process_group_spec

lemma terminate_gracefully_spec:
  "act_spec of_wf (terminate_gracefully OS d1 d2) (\<lambda>_ s. of_wf s \<and> has_exited (fst s)) of_wf"
proof -
  have last: "act_spec of_wf (act_then (refresh_exit_status OS) (act_bind (act_get fst)
       (\<lambda>q. act_ensure (mp_exit_status_code q \<noteq> None) (not_terminated_error q))))
     (\<lambda>_ s. of_wf s \<and> has_exited (fst s)) of_wf"
    by (rule act_spec_then [OF refresh_exit_status_spec], rule act_specI)
      (auto simp: act_runs process_wf_def split: if_splits)
  have escalate: "act_spec (\<lambda>s. of_wf s \<and> (gone \<longrightarrow> has_exited (fst s)))
      (if gone then act_ret () else m) (\<lambda>_ s. of_wf s \<and> has_exited (fst s)) of_wf"
    if m: "act_spec of_wf m (\<lambda>_ s. of_wf s \<and> has_exited (fst s)) of_wf"
    for gone and m :: "(managed_process \<times> 'a, unit) act"
  proof (rule act_spec_if)
    show "act_spec (\<lambda>s. of_wf s \<and> (gone \<longrightarrow> has_exited (fst s))) (act_ret ())
        (\<lambda>_ s. of_wf s \<and> has_exited (fst s)) of_wf" if gone
      using that by (intro act_spec_ret) auto
    show "act_spec (\<lambda>s. of_wf s \<and> (gone \<longrightarrow> has_exited (fst s))) m
        (\<lambda>_ s. of_wf s \<and> has_exited (fst s)) of_wf"
      by (rule act_spec_weaken [OF m]) auto
  qed
  note wait = act_spec_bind [OF wait_with_timeout_spec]
  note signal = act_spec_then [OF signal_process_group_spec]
  have kill: "act_spec of_wf (act_then (signal_process_group OS SIGINT)
            (act_bind (wait_with_timeout OS d1) (\<lambda>gone.
               if gone then act_ret ()
               else act_then (signal_process_group OS SIGTERM)
                 (act_bind (wait_with_timeout OS d2) (\<lambda>gone'.
                    if gone' then act_ret ()
                    else act_then (refresh_exit_status OS)
                      (act_bind (act_get fst) (\<lambda>q.
                         act_ensure (mp_exit_status_code q \<noteq> None) (not_terminated_error q))))))))
     (\<lambda>_ s. of_wf s \<and> has_exited (fst s)) of_wf"
    by (intro signal wait escalate last)
  have "act_spec (\<lambda>s. of_wf s \<and> fst s = p) (if mp_exit_status_code p \<noteq> None then act_ret () else m)
     (\<lambda>_ s. of_wf s \<and> has_exited (fst s)) of_wf"
    if m: "act_spec of_wf m (\<lambda>_ s. of_wf s \<and> has_exited (fst s)) of_wf"
    for p and m :: "(managed_process \<times> 'a, unit) act"
  proof (rule act_spec_if)
    show "act_spec (\<lambda>s. of_wf s \<and> fst s = p) (act_ret ()) (\<lambda>_ s. of_wf s \<and> has_exited (fst s)) of_wf"
      if "mp_exit_status_code p \<noteq> None"
      using that by (intro act_spec_ret) (auto simp: process_wf_def)
    show "act_spec (\<lambda>s. of_wf s \<and> fst s = p) m (\<lambda>_ s. of_wf s \<and> has_exited (fst s)) of_wf"
      by (rule act_spec_weaken [OF m]) auto
  qed
  from act_spec_get_bind [OF this [OF kill]] show ?thesis
    unfolding terminate_gracefully_def by (rule act_spec_then [OF refresh_exit_status_spec])
qed

end
