(* ===== verification/Smoke_Templates.thy ===== *)
theory Smoke_Templates
  imports Smoke_System
begin

text \<open>
  The scenarios of the smoke suite (utils/transport-smoke-suite/src/scenario.rs): which processes each
  of them starts, how, and what it needs before.
\<close>

section \<open>Data\<close>

datatype transport_family = Mqtt | Someip

definition transport_family_as_str :: "transport_family \<Rightarrow> string" where
  "transport_family_as_str f = (case f of Mqtt \<Rightarrow> ''mqtt'' | Someip \<Rightarrow> ''someip'')"

record process_template =
  pt_name :: string
  pt_workdir :: string
  pt_binary :: string
  pt_args :: "string list"
  pt_env :: "(string \<times> string) list"
  pt_log_file :: string
  pt_readiness_marker :: "string option"
  pt_readiness_timeout_secs :: "nat option"
  pt_bounded_sender :: bool

record scenario_template_t =
  st_id :: string
  st_transport_family :: transport_family
  st_build_commands :: "string list"
  st_required_paths :: "string list"
  st_stale_process_signatures :: "string list"
  st_requires_docker :: bool
  st_requires_vsomeip_runtime :: bool
  st_streamer :: process_template
  st_passive :: process_template
  st_active :: process_template
  st_hard_timeout_secs_default :: nat

section \<open>The scenarios\<close>

definition SCENARIO_IDS :: "string list" where
  "SCENARIO_IDS =
     [''smoke-zenoh-mqtt-rr-zenoh-client-mqtt-service'',
      ''smoke-zenoh-mqtt-rr-mqtt-client-zenoh-service'',
      ''smoke-zenoh-mqtt-ps-zenoh-publisher-mqtt-subscriber'',
      ''smoke-zenoh-mqtt-ps-mqtt-publisher-zenoh-subscriber'',
      ''smoke-zenoh-someip-rr-zenoh-client-someip-service'',
      ''smoke-zenoh-someip-rr-someip-client-zenoh-service'',
      ''smoke-zenoh-someip-ps-zenoh-publisher-someip-subscriber'',
      ''smoke-zenoh-someip-ps-someip-publisher-zenoh-subscriber'']"

definition NO_ARGS :: "string list" where
  "NO_ARGS = []"

definition PASSIVE_MQTT_SUBSCRIBER_ARGS_A :: "string list" where
  "PASSIVE_MQTT_SUBSCRIBER_ARGS_A =
     [''--uauthority'', ''authority-a'', ''--uentity'', ''0x5678'', ''--uversion'', ''0x1'',
      ''--resource'', ''0x1234'', ''--source-authority'', ''authority-b'', ''--source-uentity'',
      ''0x3039'', ''--source-uversion'', ''0x1'', ''--source-resource'', ''0x8001'',
      ''--broker-uri'', ''localhost:1883'']"

definition PASSIVE_ZENOH_SUBSCRIBER_ARGS_B :: "string list" where
  "PASSIVE_ZENOH_SUBSCRIBER_ARGS_B =
     [''--uauthority'', ''authority-b'', ''--uentity'', ''0x5678'', ''--uversion'', ''0x1'',
      ''--resource'', ''0x1234'', ''--source-authority'', ''authority-a'', ''--source-uentity'',
      ''0x5BA0'', ''--source-uversion'', ''0x1'', ''--source-resource'', ''0x8001'']"

definition PASSIVE_SOMEIP_SUBSCRIBER_ARGS_A :: "string list" where
  "PASSIVE_SOMEIP_SUBSCRIBER_ARGS_A =
     [''--uauthority'', ''authority-a'', ''--uentity'', ''0x5678'', ''--uversion'', ''0x1'',
      ''--resource'', ''0x0'', ''--source-authority'', ''authority-b'', ''--source-uentity'',
      ''0x3039'', ''--source-uversion'', ''0x1'', ''--source-resource'', ''0x8001'',
      ''--remote-authority'', ''authority-b'', ''--vsomeip-config'',
      ''example-streamer-uses/vsomeip-configs/someip_client.json'']"

definition BUILD_MQTT_RR_ZENOH_CLIENT :: "string list" where
  "BUILD_MQTT_RR_ZENOH_CLIENT =
     [''cargo build -p configurable-streamer'',
      ''cargo build -p example-streamer-uses --bin zenoh_client --features zenoh-transport'',
      ''cargo build -p example-streamer-uses --bin mqtt_service --features mqtt-transport'']"

definition BUILD_MQTT_RR_MQTT_CLIENT :: "string list" where
  "BUILD_MQTT_RR_MQTT_CLIENT =
     [''cargo build -p configurable-streamer'',
      ''cargo build -p example-streamer-uses --bin mqtt_client --features mqtt-transport'',
      ''cargo build -p example-streamer-uses --bin zenoh_service --features zenoh-transport'']"

definition BUILD_MQTT_PS_ZENOH_PUBLISHER :: "string list" where
  "BUILD_MQTT_PS_ZENOH_PUBLISHER =
     [''cargo build -p configurable-streamer'',
      ''cargo build -p example-streamer-uses --bin zenoh_publisher --features zenoh-transport'',
      ''cargo build -p example-streamer-uses --bin mqtt_subscriber --features mqtt-transport'']"

definition BUILD_MQTT_PS_MQTT_PUBLISHER :: "string list" where
  "BUILD_MQTT_PS_MQTT_PUBLISHER =
     [''cargo build -p configurable-streamer'',
      ''cargo build -p example-streamer-uses --bin mqtt_publisher --features mqtt-transport'',
      ''cargo build -p example-streamer-uses --bin zenoh_subscriber --features zenoh-transport'']"

definition BUILD_SOMEIP_RR_ZENOH_CLIENT :: "string list" where
  "BUILD_SOMEIP_RR_ZENOH_CLIENT =
     [''cargo build -p up-linux-streamer --bin zenoh_someip --features zenoh-transport,vsomeip-transport,bundled-vsomeip'',
      ''cargo build -p example-streamer-uses --bin zenoh_client --features zenoh-transport'',
      ''cargo build -p example-streamer-uses --bin someip_service --features vsomeip-transport,bundled-vsomeip'']"

definition BUILD_SOMEIP_RR_SOMEIP_CLIENT :: "string list" where
  "BUILD_SOMEIP_RR_SOMEIP_CLIENT =
     [''cargo build -p up-linux-streamer --bin zenoh_someip --features zenoh-transport,vsomeip-transport,bundled-vsomeip'',
      ''cargo build -p example-streamer-uses --bin someip_client --features vsomeip-transport,bundled-vsomeip'',
      ''cargo build -p example-streamer-uses --bin zenoh_service --features zenoh-transport'']"

definition BUILD_SOMEIP_PS_ZENOH_PUBLISHER :: "string list" where
  "BUILD_SOMEIP_PS_ZENOH_PUBLISHER =
     [''cargo build -p up-linux-streamer --bin zenoh_someip --features zenoh-transport,vsomeip-transport,bundled-vsomeip'',
      ''cargo build -p example-streamer-uses --bin zenoh_publisher --features zenoh-transport'',
      ''cargo build -p example-streamer-uses --bin someip_subscriber --features vsomeip-transport,bundled-vsomeip'']"

definition BUILD_SOMEIP_PS_SOMEIP_PUBLISHER :: "string list" where
  "BUILD_SOMEIP_PS_SOMEIP_PUBLISHER =
     [''cargo build -p up-linux-streamer --bin zenoh_someip --features zenoh-transport,vsomeip-transport,bundled-vsomeip'',
      ''cargo build -p example-streamer-uses --bin someip_publisher --features vsomeip-transport,bundled-vsomeip'',
      ''cargo build -p example-streamer-uses --bin zenoh_subscriber --features zenoh-transport'']"

definition REQUIRED_MQTT_PATHS :: "string list" where
  "REQUIRED_MQTT_PATHS =
     [''configurable-streamer/CONFIG.json5'', ''configurable-streamer/ZENOH_CONFIG.json5'',
      ''utils/mosquitto/docker-compose.yaml'']"

definition REQUIRED_SOMEIP_PATHS :: "string list" where
  "REQUIRED_SOMEIP_PATHS =
     [''example-streamer-implementations/DEFAULT_CONFIG.json5'',
      ''example-streamer-uses/vsomeip-configs/someip_client.json'',
      ''example-streamer-uses/vsomeip-configs/someip_publisher.json'',
      ''example-streamer-uses/vsomeip-configs/someip_service.json'',
      ''example-streamer-uses/vsomeip-configs/someip_subscriber.json'']"

definition MQTT_STREAMER_ENV :: "(string \<times> string) list" where
  "MQTT_STREAMER_ENV =
     [(''RUST_LOG'', ''up_streamer=debug,up_transport_mqtt5=debug,configurable_streamer=debug'')]"

definition SOMEIP_STREAMER_ENV :: "(string \<times> string) list" where
  "SOMEIP_STREAMER_ENV =
     [(''RUST_LOG'', ''up_transport_vsomeip=trace,up_streamer=debug,up_linux_streamer=debug,example_streamer_uses=debug'')]"

definition ACTIVE_DEBUG_ENV :: "(string \<times> string) list" where
  "ACTIVE_DEBUG_ENV =
     [(''RUST_LOG'', ''info,example_streamer_uses=debug'')]"

definition PASSIVE_INFO_ENV :: "(string \<times> string) list" where
  "PASSIVE_INFO_ENV =
     [(''RUST_LOG'', ''info,example_streamer_uses=debug'')]"

definition SCENARIO_MQTT_RR_ZENOH_CLIENT_MQTT_SERVICE :: scenario_template_t where
  "SCENARIO_MQTT_RR_ZENOH_CLIENT_MQTT_SERVICE =
     \<lparr>st_id = ''smoke-zenoh-mqtt-rr-zenoh-client-mqtt-service'',
      st_transport_family = Mqtt,
      st_build_commands = BUILD_MQTT_RR_ZENOH_CLIENT,
      st_required_paths = REQUIRED_MQTT_PATHS,
      st_stale_process_signatures = [''configurable-streamer'', ''mqtt_service'', ''zenoh_client''],
      st_requires_docker = True,
      st_requires_vsomeip_runtime = False,
      st_streamer = \<lparr>pt_name = ''streamer'',
        pt_workdir = ''configurable-streamer'',
        pt_binary = ''configurable-streamer'',
        pt_args = [''--config'', ''CONFIG.json5''],
        pt_env = MQTT_STREAMER_ENV,
        pt_log_file = ''streamer.log'',
        pt_readiness_marker = Some READY_STREAMER_INITIALIZED,
        pt_readiness_timeout_secs = Some STREAMER_READY_TIMEOUT_SECS,
        pt_bounded_sender = False\<rparr>,
      st_passive = \<lparr>pt_name = ''service'',
        pt_workdir = ''.'',
        pt_binary = ''mqtt_service'',
        pt_args = [''--broker-uri'', ''localhost:1883''],
        pt_env = PASSIVE_INFO_ENV,
        pt_log_file = ''service.log'',
        pt_readiness_marker = Some READY_LISTENER_REGISTERED,
        pt_readiness_timeout_secs = Some PASSIVE_READY_TIMEOUT_SECS,
        pt_bounded_sender = False\<rparr>,
      st_active = \<lparr>pt_name = ''client'',
        pt_workdir = ''.'',
        pt_binary = ''zenoh_client'',
        pt_args = NO_ARGS,
        pt_env = ACTIVE_DEBUG_ENV,
        pt_log_file = ''client.log'',
        pt_readiness_marker = None,
        pt_readiness_timeout_secs = None,
        pt_bounded_sender = True\<rparr>,
      st_hard_timeout_secs_default = MQTT_HARD_TIMEOUT_SECS\<rparr>"

definition SCENARIO_MQTT_RR_MQTT_CLIENT_ZENOH_SERVICE :: scenario_template_t where
  "SCENARIO_MQTT_RR_MQTT_CLIENT_ZENOH_SERVICE =
     \<lparr>st_id = ''smoke-zenoh-mqtt-rr-mqtt-client-zenoh-service'',
      st_transport_family = Mqtt,
      st_build_commands = BUILD_MQTT_RR_MQTT_CLIENT,
      st_required_paths = REQUIRED_MQTT_PATHS,
      st_stale_process_signatures = [''configurable-streamer'', ''zenoh_service'', ''mqtt_client''],
      st_requires_docker = True,
      st_requires_vsomeip_runtime = False,
      st_streamer = \<lparr>pt_name = ''streamer'',
        pt_workdir = ''configurable-streamer'',
        pt_binary = ''configurable-streamer'',
        pt_args = [''--config'', ''CONFIG.json5''],
        pt_env = MQTT_STREAMER_ENV,
        pt_log_file = ''streamer.log'',
        pt_readiness_marker = Some READY_STREAMER_INITIALIZED,
        pt_readiness_timeout_secs = Some STREAMER_READY_TIMEOUT_SECS,
        pt_bounded_sender = False\<rparr>,
      st_passive = \<lparr>pt_name = ''service'',
        pt_workdir = ''.'',
        pt_binary = ''zenoh_service'',
        pt_args = NO_ARGS,
        pt_env = PASSIVE_INFO_ENV,
        pt_log_file = ''service.log'',
        pt_readiness_marker = Some READY_LISTENER_REGISTERED,
        pt_readiness_timeout_secs = Some PASSIVE_READY_TIMEOUT_SECS,
        pt_bounded_sender = False\<rparr>,
      st_active = \<lparr>pt_name = ''client'',
        pt_workdir = ''.'',
        pt_binary = ''mqtt_client'',
        pt_args = [''--broker-uri'', ''localhost:1883''],
        pt_env = ACTIVE_DEBUG_ENV,
        pt_log_file = ''client.log'',
        pt_readiness_marker = None,
        pt_readiness_timeout_secs = None,
        pt_bounded_sender = True\<rparr>,
      st_hard_timeout_secs_default = MQTT_HARD_TIMEOUT_SECS\<rparr>"

definition SCENARIO_MQTT_PS_ZENOH_PUBLISHER_MQTT_SUBSCRIBER :: scenario_template_t where
  "SCENARIO_MQTT_PS_ZENOH_PUBLISHER_MQTT_SUBSCRIBER =
     \<lparr>st_id = ''smoke-zenoh-mqtt-ps-zenoh-publisher-mqtt-subscriber'',
      st_transport_family = Mqtt,
      st_build_commands = BUILD_MQTT_PS_ZENOH_PUBLISHER,
      st_required_paths = REQUIRED_MQTT_PATHS,
      st_stale_process_signatures = [''configurable-streamer'', ''mqtt_subscriber'', ''zenoh_publisher''],
      st_requires_docker = True,
      st_requires_vsomeip_runtime = False,
      st_streamer = \<lparr>pt_name = ''streamer'',
        pt_workdir = ''configurable-streamer'',
        pt_binary = ''configurable-streamer'',
        pt_args = [''--config'', ''CONFIG.json5''],
        pt_env = MQTT_STREAMER_ENV,
        pt_log_file = ''streamer.log'',
        pt_readiness_marker = Some READY_STREAMER_INITIALIZED,
        pt_readiness_timeout_secs = Some STREAMER_READY_TIMEOUT_SECS,
        pt_bounded_sender = False\<rparr>,
      st_passive = \<lparr>pt_name = ''subscriber'',
        pt_workdir = ''.'',
        pt_binary = ''mqtt_subscriber'',
        pt_args = PASSIVE_MQTT_SUBSCRIBER_ARGS_A,
        pt_env = PASSIVE_INFO_ENV,
        pt_log_file = ''subscriber.log'',
        pt_readiness_marker = Some READY_LISTENER_REGISTERED,
        pt_readiness_timeout_secs = Some PASSIVE_READY_TIMEOUT_SECS,
        pt_bounded_sender = False\<rparr>,
      st_active = \<lparr>pt_name = ''publisher'',
        pt_workdir = ''.'',
        pt_binary = ''zenoh_publisher'',
        pt_args = NO_ARGS,
        pt_env = ACTIVE_DEBUG_ENV,
        pt_log_file = ''publisher.log'',
        pt_readiness_marker = None,
        pt_readiness_timeout_secs = None,
        pt_bounded_sender = True\<rparr>,
      st_hard_timeout_secs_default = MQTT_HARD_TIMEOUT_SECS\<rparr>"

definition SCENARIO_MQTT_PS_MQTT_PUBLISHER_ZENOH_SUBSCRIBER :: scenario_template_t where
  "SCENARIO_MQTT_PS_MQTT_PUBLISHER_ZENOH_SUBSCRIBER =
     \<lparr>st_id = ''smoke-zenoh-mqtt-ps-mqtt-publisher-zenoh-subscriber'',
      st_transport_family = Mqtt,
      st_build_commands = BUILD_MQTT_PS_MQTT_PUBLISHER,
      st_required_paths = REQUIRED_MQTT_PATHS,
      st_stale_process_signatures = [''configurable-streamer'', ''zenoh_subscriber'', ''mqtt_publisher''],
      st_requires_docker = True,
      st_requires_vsomeip_runtime = False,
      st_streamer = \<lparr>pt_name = ''streamer'',
        pt_workdir = ''configurable-streamer'',
        pt_binary = ''configurable-streamer'',
        pt_args = [''--config'', ''CONFIG.json5''],
        pt_env = MQTT_STREAMER_ENV,
        pt_log_file = ''streamer.log'',
        pt_readiness_marker = Some READY_STREAMER_INITIALIZED,
        pt_readiness_timeout_secs = Some STREAMER_READY_TIMEOUT_SECS,
        pt_bounded_sender = False\<rparr>,
      st_passive = \<lparr>pt_name = ''subscriber'',
        pt_workdir = ''.'',
        pt_binary = ''zenoh_subscriber'',
        pt_args = PASSIVE_ZENOH_SUBSCRIBER_ARGS_B,
        pt_env = PASSIVE_INFO_ENV,
        pt_log_file = ''subscriber.log'',
        pt_readiness_marker = Some READY_LISTENER_REGISTERED,
        pt_readiness_timeout_secs = Some PASSIVE_READY_TIMEOUT_SECS,
        pt_bounded_sender = False\<rparr>,
      st_active = \<lparr>pt_name = ''publisher'',
        pt_workdir = ''.'',
        pt_binary = ''mqtt_publisher'',
        pt_args = [''--broker-uri'', ''localhost:1883''],
        pt_env = ACTIVE_DEBUG_ENV,
        pt_log_file = ''publisher.log'',
        pt_readiness_marker = None,
        pt_readiness_timeout_secs = None,
        pt_bounded_sender = True\<rparr>,
      st_hard_timeout_secs_default = MQTT_HARD_TIMEOUT_SECS\<rparr>"

definition SCENARIO_SOMEIP_RR_ZENOH_CLIENT_SOMEIP_SERVICE :: scenario_template_t where
  "SCENARIO_SOMEIP_RR_ZENOH_CLIENT_SOMEIP_SERVICE =
     \<lparr>st_id = ''smoke-zenoh-someip-rr-zenoh-client-someip-service'',
      st_transport_family = Someip,
      st_build_commands = BUILD_SOMEIP_RR_ZENOH_CLIENT,
      st_required_paths = REQUIRED_SOMEIP_PATHS,
      st_stale_process_signatures = [''zenoh_someip'', ''someip_service'', ''zenoh_client''],
      st_requires_docker = False,
      st_requires_vsomeip_runtime = True,
      st_streamer = \<lparr>pt_name = ''streamer'',
        pt_workdir = ''example-streamer-implementations'',
        pt_binary = ''zenoh_someip'',
        pt_args = [''--config'', ''DEFAULT_CONFIG.json5''],
        pt_env = SOMEIP_STREAMER_ENV,
        pt_log_file = ''streamer.log'',
        pt_readiness_marker = Some READY_STREAMER_INITIALIZED,
        pt_readiness_timeout_secs = Some STREAMER_READY_TIMEOUT_SECS,
        pt_bounded_sender = False\<rparr>,
      st_passive = \<lparr>pt_name = ''service'',
        pt_workdir = ''.'',
        pt_binary = ''someip_service'',
        pt_args = NO_ARGS,
        pt_env = PASSIVE_INFO_ENV,
        pt_log_file = ''service.log'',
        pt_readiness_marker = Some READY_LISTENER_REGISTERED,
        pt_readiness_timeout_secs = Some PASSIVE_READY_TIMEOUT_SECS,
        pt_bounded_sender = False\<rparr>,
      st_active = \<lparr>pt_name = ''client'',
        pt_workdir = ''.'',
        pt_binary = ''zenoh_client'',
        pt_args = NO_ARGS,
        pt_env = ACTIVE_DEBUG_ENV,
        pt_log_file = ''client.log'',
        pt_readiness_marker = None,
        pt_readiness_timeout_secs = None,
        pt_bounded_sender = True\<rparr>,
      st_hard_timeout_secs_default = SOMEIP_HARD_TIMEOUT_SECS\<rparr>"

definition SCENARIO_SOMEIP_RR_SOMEIP_CLIENT_ZENOH_SERVICE :: scenario_template_t where
  "SCENARIO_SOMEIP_RR_SOMEIP_CLIENT_ZENOH_SERVICE =
     \<lparr>st_id = ''smoke-zenoh-someip-rr-someip-client-zenoh-service'',
      st_transport_family = Someip,
      st_build_commands = BUILD_SOMEIP_RR_SOMEIP_CLIENT,
      st_required_paths = REQUIRED_SOMEIP_PATHS,
      st_stale_process_signatures = [''zenoh_someip'', ''zenoh_service'', ''someip_client''],
      st_requires_docker = False,
      st_requires_vsomeip_runtime = True,
      st_streamer = \<lparr>pt_name = ''streamer'',
        pt_workdir = ''example-streamer-implementations'',
        pt_binary = ''zenoh_someip'',
        pt_args = [''--config'', ''DEFAULT_CONFIG.json5''],
        pt_env = SOMEIP_STREAMER_ENV,
        pt_log_file = ''streamer.log'',
        pt_readiness_marker = Some READY_STREAMER_INITIALIZED,
        pt_readiness_timeout_secs = Some STREAMER_READY_TIMEOUT_SECS,
        pt_bounded_sender = False\<rparr>,
      st_passive = \<lparr>pt_name = ''service'',
        pt_workdir = ''.'',
        pt_binary = ''zenoh_service'',
        pt_args = NO_ARGS,
        pt_env = PASSIVE_INFO_ENV,
        pt_log_file = ''service.log'',
        pt_readiness_marker = Some READY_LISTENER_REGISTERED,
        pt_readiness_timeout_secs = Some PASSIVE_READY_TIMEOUT_SECS,
        pt_bounded_sender = False\<rparr>,
      st_active = \<lparr>pt_name = ''client'',
        pt_workdir = ''.'',
        pt_binary = ''someip_client'',
        pt_args = NO_ARGS,
        pt_env = ACTIVE_DEBUG_ENV,
        pt_log_file = ''client.log'',
        pt_readiness_marker = None,
        pt_readiness_timeout_secs = None,
        pt_bounded_sender = True\<rparr>,
      st_hard_timeout_secs_default = SOMEIP_HARD_TIMEOUT_SECS\<rparr>"

definition SCENARIO_SOMEIP_PS_ZENOH_PUBLISHER_SOMEIP_SUBSCRIBER :: scenario_template_t where
  "SCENARIO_SOMEIP_PS_ZENOH_PUBLISHER_SOMEIP_SUBSCRIBER =
     \<lparr>st_id = ''smoke-zenoh-someip-ps-zenoh-publisher-someip-subscriber'',
      st_transport_family = Someip,
      st_build_commands = BUILD_SOMEIP_PS_ZENOH_PUBLISHER,
      st_required_paths = REQUIRED_SOMEIP_PATHS,
      st_stale_process_signatures = [''zenoh_someip'', ''someip_subscriber'', ''zenoh_publisher''],
      st_requires_docker = False,
      st_requires_vsomeip_runtime = True,
      st_streamer = \<lparr>pt_name = ''streamer'',
        pt_workdir = ''example-streamer-implementations'',
        pt_binary = ''zenoh_someip'',
        pt_args = [''--config'', ''DEFAULT_CONFIG.json5''],
        pt_env = SOMEIP_STREAMER_ENV,
        pt_log_file = ''streamer.log'',
        pt_readiness_marker = Some READY_STREAMER_INITIALIZED,
        pt_readiness_timeout_secs = Some STREAMER_READY_TIMEOUT_SECS,
        pt_bounded_sender = False\<rparr>,
      st_passive = \<lparr>pt_name = ''subscriber'',
        pt_workdir = ''.'',
        pt_binary = ''someip_subscriber'',
        pt_args = PASSIVE_SOMEIP_SUBSCRIBER_ARGS_A,
        pt_env = PASSIVE_INFO_ENV,
        pt_log_file = ''subscriber.log'',
        pt_readiness_marker = Some READY_LISTENER_REGISTERED,
        pt_readiness_timeout_secs = Some PASSIVE_READY_TIMEOUT_SECS,
        pt_bounded_sender = False\<rparr>,
      st_active = \<lparr>pt_name = ''publisher'',
        pt_workdir = ''.'',
        pt_binary = ''zenoh_publisher'',
        pt_args = NO_ARGS,
        pt_env = ACTIVE_DEBUG_ENV,
        pt_log_file = ''publisher.log'',
        pt_readiness_marker = None,
        pt_readiness_timeout_secs = None,
        pt_bounded_sender = True\<rparr>,
      st_hard_timeout_secs_default = SOMEIP_HARD_TIMEOUT_SECS\<rparr>"

definition SCENARIO_SOMEIP_PS_SOMEIP_PUBLISHER_ZENOH_SUBSCRIBER :: scenario_template_t where
  "SCENARIO_SOMEIP_PS_SOMEIP_PUBLISHER_ZENOH_SUBSCRIBER =
     \<lparr>st_id = ''smoke-zenoh-someip-ps-someip-publisher-zenoh-subscriber'',
      st_transport_family = Someip,
      st_build_commands = BUILD_SOMEIP_PS_SOMEIP_PUBLISHER,
      st_required_paths = REQUIRED_SOMEIP_PATHS,
      st_stale_process_signatures = [''zenoh_someip'', ''zenoh_subscriber'', ''someip_publisher''],
      st_requires_docker = False,
      st_requires_vsomeip_runtime = True,
      st_streamer = \<lparr>pt_name = ''streamer'',
        pt_workdir = ''example-streamer-implementations'',
        pt_binary = ''zenoh_someip'',
        pt_args = [''--config'', ''DEFAULT_CONFIG.json5''],
        pt_env = SOMEIP_STREAMER_ENV,
        pt_log_file = ''streamer.log'',
        pt_readiness_marker = Some READY_STREAMER_INITIALIZED,
        pt_readiness_timeout_secs = Some STREAMER_READY_TIMEOUT_SECS,
        pt_bounded_sender = False\<rparr>,
      st_passive = \<lparr>pt_name = ''subscriber'',
        pt_workdir = ''.'',
        pt_binary = ''zenoh_subscriber'',
        pt_args = PASSIVE_ZENOH_SUBSCRIBER_ARGS_B,
        pt_env = PASSIVE_INFO_ENV,
        pt_log_file = ''subscriber.log'',
        pt_readiness_marker = Some READY_LISTENER_REGISTERED,
        pt_readiness_timeout_secs = Some PASSIVE_READY_TIMEOUT_SECS,
        pt_bounded_sender = False\<rparr>,
      st_active = \<lparr>pt_name = ''publisher'',
        pt_workdir = ''.'',
        pt_binary = ''someip_publisher'',
        pt_args = NO_ARGS,
        pt_env = ACTIVE_DEBUG_ENV,
        pt_log_file = ''publisher.log'',
        pt_readiness_marker = None,
        pt_readiness_timeout_secs = None,
        pt_bounded_sender = True\<rparr>,
      st_hard_timeout_secs_default = SOMEIP_HARD_TIMEOUT_SECS\<rparr>"

section \<open>Looking a scenario up\<close>

definition scenario_ids :: "string list" where "scenario_ids = SCENARIO_IDS"

definition scenario_template :: "string \<Rightarrow> scenario_template_t option" where
  "scenario_template scenario_id =
     (if scenario_id = ''smoke-zenoh-mqtt-rr-zenoh-client-mqtt-service'' then
        Some SCENARIO_MQTT_RR_ZENOH_CLIENT_MQTT_SERVICE
      else if scenario_id = ''smoke-zenoh-mqtt-rr-mqtt-client-zenoh-service'' then
        Some SCENARIO_MQTT_RR_MQTT_CLIENT_ZENOH_SERVICE
      else if scenario_id = ''smoke-zenoh-mqtt-ps-zenoh-publisher-mqtt-subscriber'' then
        Some SCENARIO_MQTT_PS_ZENOH_PUBLISHER_MQTT_SUBSCRIBER
      else if scenario_id = ''smoke-zenoh-mqtt-ps-mqtt-publisher-zenoh-subscriber'' then
        Some SCENARIO_MQTT_PS_MQTT_PUBLISHER_ZENOH_SUBSCRIBER
      else if scenario_id = ''smoke-zenoh-someip-rr-zenoh-client-someip-service'' then
        Some SCENARIO_SOMEIP_RR_ZENOH_CLIENT_SOMEIP_SERVICE
      else if scenario_id = ''smoke-zenoh-someip-rr-someip-client-zenoh-service'' then
        Some SCENARIO_SOMEIP_RR_SOMEIP_CLIENT_ZENOH_SERVICE
      else if scenario_id = ''smoke-zenoh-someip-ps-zenoh-publisher-someip-subscriber'' then
        Some SCENARIO_SOMEIP_PS_ZENOH_PUBLISHER_SOMEIP_SUBSCRIBER
      else if scenario_id = ''smoke-zenoh-someip-ps-someip-publisher-zenoh-subscriber'' then
        Some SCENARIO_SOMEIP_PS_SOMEIP_PUBLISHER_ZENOH_SUBSCRIBER
      else None)"

definition scenario_ids_for_transport :: "transport_family \<Rightarrow> string list" where
  "scenario_ids_for_transport family =
     filter (\<lambda>i. case scenario_template i of None \<Rightarrow> False | Some t \<Rightarrow> st_transport_family t = family)
       SCENARIO_IDS"

section \<open>What the scenarios have in common\<close>

text \<open>
  The streamer and the passive side announce that they are ready, each in a log of its own and with the
  marker that is counted afterwards; only the active side sends a bounded number of messages; stale
  processes of all three binaries are looked for, and the runtime a family needs is asked for.
\<close>

definition template_ok :: "scenario_template_t \<Rightarrow> bool" where
  "template_ok t \<longleftrightarrow>
     pt_readiness_marker (st_streamer t) = Some READY_STREAMER_INITIALIZED \<and>
     pt_readiness_marker (st_passive t) = Some READY_LISTENER_REGISTERED \<and>
     pt_readiness_marker (st_active t) = None \<and>
     distinct [pt_log_file (st_streamer t), pt_log_file (st_passive t), pt_log_file (st_active t)] \<and>
     \<not> pt_bounded_sender (st_streamer t) \<and> \<not> pt_bounded_sender (st_passive t) \<and>
     pt_bounded_sender (st_active t) \<and>
     set (st_stale_process_signatures t)
       = {pt_binary (st_streamer t), pt_binary (st_passive t), pt_binary (st_active t)} \<and>
     (st_requires_docker t \<longleftrightarrow> st_transport_family t = Mqtt) \<and>
     (st_requires_vsomeip_runtime t \<longleftrightarrow> st_transport_family t = Someip)"

lemma templates_checked:
  "list_all (\<lambda>i. case scenario_template i of None \<Rightarrow> False | Some t \<Rightarrow> st_id t = i \<and> template_ok t)
     SCENARIO_IDS"
  by code_simp

lemma scenario_ids_distinct: "distinct SCENARIO_IDS"
  by code_simp

lemma scenario_template_id: "scenario_template i = Some t \<Longrightarrow> i \<in> set SCENARIO_IDS"
  by (simp add: scenario_template_def SCENARIO_IDS_def split: if_splits)

section \<open>Properties\<close>

text \<open>
  The table of scenarios is consistent: the ids are distinct, a scenario is found exactly under
  each of them and carries it, each belongs to one of the two families and is listed there, and the
  three processes of each are set up so that the run can tell them apart and wait for them.
\<close>

theorem scenario_table_consistent:
  "distinct SCENARIO_IDS \<and>
   (scenario_template i \<noteq> None) = (i \<in> set SCENARIO_IDS) \<and>
   (case scenario_template i of
      None \<Rightarrow> True
    | Some t \<Rightarrow> st_id t = i \<and> template_ok t \<and>
        i \<in> set (scenario_ids_for_transport (st_transport_family t)))"
proof -
  have "(scenario_template i \<noteq> None) = (i \<in> set SCENARIO_IDS)"
    using templates_checked scenario_template_id [of i]
    by (auto simp: list_all_iff split: option.splits)
  then show ?thesis
    using templates_checked scenario_ids_distinct scenario_template_id [of i]
    by (auto simp: list_all_iff scenario_ids_for_transport_def split: option.splits)
qed

end
