(* ===== verification/Smoke_Claims.thy ===== *)
theory Smoke_Claims
  imports Smoke_System
begin

text \<open>
  The claims of the smoke suite (utils/transport-smoke-suite/src/claims.rs): patterns that must or must
  not occur in the logs of a scenario, the file they are loaded from, and their verdict.

  Regular expressions (the regex crate) and the JSON parser (serde) are parameters, \<open>claims_api\<close>.
\<close>

section \<open>Data\<close>

definition DEFAULT_CLAIMS_DIRECTORY :: string where
  "DEFAULT_CLAIMS_DIRECTORY = ''utils/transport-smoke-suite/claims''"

datatype claims_path_kind = Claims_File | Claims_Directory
datatype claim_kind = MustMatch | MustNotMatch
datatype claim_category = EndpointCommunicationClaim | StreamerEgress | ForbiddenSignature | Readiness

datatype threshold_selector =
    EndpointCommunication
  | EgressSendAttempt
  | EgressSendOk
  | EgressWorkerCreateOrReuse
  | Fixed nat

record claim_template =
  ct_claim_id :: string
  ct_category :: claim_category
  ct_kind :: claim_kind
  ct_file :: string
  ct_pattern :: string
  ct_threshold :: threshold_selector

definition template_must_match ::
  "string \<Rightarrow> claim_category \<Rightarrow> string \<Rightarrow> string \<Rightarrow> threshold_selector \<Rightarrow> claim_template" where
  "template_must_match claim_id category file pattern threshold =
     \<lparr>ct_claim_id = claim_id, ct_category = category, ct_kind = MustMatch, ct_file = file,
      ct_pattern = pattern, ct_threshold = threshold\<rparr>"

definition template_must_not_match ::
  "string \<Rightarrow> claim_category \<Rightarrow> string \<Rightarrow> string \<Rightarrow> claim_template" where
  "template_must_not_match claim_id category file pattern =
     \<lparr>ct_claim_id = claim_id, ct_category = category, ct_kind = MustNotMatch, ct_file = file,
      ct_pattern = pattern, ct_threshold = Fixed 0\<rparr>"

record thresholds =
  th_endpoint_communication_min_count :: nat
  th_egress_send_attempt_min_count :: nat
  th_egress_send_ok_min_count :: nat
  th_egress_worker_create_or_reuse_min_count :: nat

definition thresholds_default :: thresholds where
  "thresholds_default =
     \<lparr>th_endpoint_communication_min_count = DEFAULT_ENDPOINT_CLAIM_MIN_COUNT,
      th_egress_send_attempt_min_count = DEFAULT_EGRESS_SEND_ATTEMPT_MIN_COUNT,
      th_egress_send_ok_min_count = DEFAULT_EGRESS_SEND_OK_MIN_COUNT,
      th_egress_worker_create_or_reuse_min_count = DEFAULT_EGRESS_WORKER_MIN_COUNT\<rparr>"

record claim_spec =
  cs_claim_id :: string
  cs_category :: claim_category
  cs_kind :: claim_kind
  cs_file :: string
  cs_pattern :: string
  cs_min_count :: nat

record claim_outcome = claim_spec +
  cl_observed_count :: nat
  cl_pass :: bool
  cl_first_match :: "string option"
  cl_error :: "string option"

record loaded_claims =
  lc_source_path :: string
  lc_schema_version :: string
  lc_claims :: "claim_spec list"

datatype threshold_selector_key =
    KeyEndpointCommunication | KeyEgressSendAttempt | KeyEgressSendOk | KeyEgressWorkerCreateOrReuse

datatype threshold_value = Selector threshold_selector_key | FixedValue nat

record claims_file_entry =
  ce_claim_id :: string
  ce_category :: claim_category
  ce_kind :: claim_kind
  ce_file :: string
  ce_pattern :: string
  ce_threshold :: "threshold_value option"

record claims_file =
  cf_schema_version :: string
  cf_scenario_id :: string
  cf_claims :: "claims_file_entry list"

record 're claims_api =
  ca_regex_new :: "string \<Rightarrow> (string, 're) result"
  ca_find_iter :: "'re \<Rightarrow> string \<Rightarrow> string list" \<comment> \<open>the matches, in order\<close>
  ca_parse_claims :: "string \<Rightarrow> (string, claims_file) result"

section \<open>Thresholds\<close>

definition resolve_threshold :: "threshold_selector \<Rightarrow> thresholds \<Rightarrow> nat" where
  "resolve_threshold selector t =
     (case selector of
        EndpointCommunication \<Rightarrow> th_endpoint_communication_min_count t
      | EgressSendAttempt \<Rightarrow> th_egress_send_attempt_min_count t
      | EgressSendOk \<Rightarrow> th_egress_send_ok_min_count t
      | EgressWorkerCreateOrReuse \<Rightarrow> th_egress_worker_create_or_reuse_min_count t
      | Fixed n \<Rightarrow> n)"

definition materialize_claims :: "claim_template list \<Rightarrow> thresholds \<Rightarrow> claim_spec list" where
  "materialize_claims templates t =
     map (\<lambda>c. \<lparr>cs_claim_id = ct_claim_id c, cs_category = ct_category c, cs_kind = ct_kind c,
               cs_file = ct_file c, cs_pattern = ct_pattern c,
               cs_min_count = resolve_threshold (ct_threshold c) t\<rparr>) templates"

definition resolve_selector_key :: "threshold_selector_key \<Rightarrow> thresholds \<Rightarrow> nat" where
  "resolve_selector_key key t =
     (case key of
        KeyEndpointCommunication \<Rightarrow> th_endpoint_communication_min_count t
      | KeyEgressSendAttempt \<Rightarrow> th_egress_send_attempt_min_count t
      | KeyEgressSendOk \<Rightarrow> th_egress_send_ok_min_count t
      | KeyEgressWorkerCreateOrReuse \<Rightarrow> th_egress_worker_create_or_reuse_min_count t)"

definition claim_in :: "string \<Rightarrow> string \<Rightarrow> string" where
  "claim_in claim_id source_path = ''claim '' @ quoted claim_id @ '' in '' @ source_path"

definition resolve_file_claim_threshold ::
  "claims_file_entry \<Rightarrow> thresholds \<Rightarrow> string \<Rightarrow> (string, nat) result" where
  "resolve_file_claim_threshold claim t source_path =
     (case ce_kind claim of
        MustMatch \<Rightarrow>
          (case ce_threshold claim of
             Some (Selector key) \<Rightarrow> Ok (resolve_selector_key key t)
           | Some (FixedValue n) \<Rightarrow> Ok n
           | None \<Rightarrow> Err (claim_in (ce_claim_id claim) source_path @
                         '' is must_match and requires a threshold''))
      | MustNotMatch \<Rightarrow>
          (if ce_threshold claim \<noteq> None then
             Err (claim_in (ce_claim_id claim) source_path @
                  '' is must_not_match and must not define a threshold'')
           else Ok 0))"

section \<open>Paths\<close>

definition default_claims_file_path :: "string \<Rightarrow> string \<Rightarrow> string" where
  "default_claims_file_path root scenario_id =
     path_join (path_join root DEFAULT_CLAIMS_DIRECTORY) (scenario_id @ ''.json'')"

definition resolve_override_path :: "string \<Rightarrow> string \<Rightarrow> string" where
  "resolve_override_path root claims_path =
     (if path_is_absolute claims_path then claims_path else path_join root claims_path)"

definition claims_override_kind :: "'w os \<Rightarrow> string \<Rightarrow> string \<Rightarrow> 'w \<Rightarrow> (string, claims_path_kind) result" where
  "claims_override_kind OS root claims_path w =
     (let candidate = resolve_override_path root claims_path in
      case os_metadata OS candidate w of
        Inl e \<Rightarrow> Err (''claims path does not exist or is not accessible: '' @ candidate)
      | Inr Directory \<Rightarrow> Ok Claims_Directory
      | Inr Regular_File \<Rightarrow> Ok Claims_File
      | Inr Other_File \<Rightarrow> Err (''claims path must be a file or directory: '' @ candidate))"

definition claims_candidate ::
  "'w os \<Rightarrow> string \<Rightarrow> string \<Rightarrow> string option \<Rightarrow> 'w \<Rightarrow> (string, string) result" where
  "claims_candidate OS root scenario_id override w =
     (case override of
        None \<Rightarrow> Ok (default_claims_file_path root scenario_id)
      | Some path \<Rightarrow>
          (let p = resolve_override_path root path in
           case os_metadata OS p w of
             Inl e \<Rightarrow> Err (''claims path does not exist or is not accessible: '' @ p)
           | Inr Directory \<Rightarrow> Ok (path_join p (scenario_id @ ''.json''))
           | Inr Regular_File \<Rightarrow> Ok p
           | Inr Other_File \<Rightarrow> Err (''claims path must be a file or directory: '' @ p)))"

definition resolve_claims_file_path ::
  "'w os \<Rightarrow> string \<Rightarrow> string \<Rightarrow> string option \<Rightarrow> 'w \<Rightarrow> (string, string) result" where
  "resolve_claims_file_path OS root scenario_id override w =
     (case claims_candidate OS root scenario_id override w of
        Inl e \<Rightarrow> Err e
      | Inr candidate \<Rightarrow>
          (case os_metadata OS candidate w of
             Inl e \<Rightarrow> Err (''resolved claims file does not exist or is not accessible: '' @ candidate)
           | Inr Regular_File \<Rightarrow> Ok candidate
           | Inr _ \<Rightarrow> Err (''resolved claims path is not a file: '' @ candidate)))"

section \<open>Loading\<close>

definition validate_claim_entry ::
  "'re claims_api \<Rightarrow> claims_file_entry \<Rightarrow> string \<Rightarrow> (string, unit) result" where
  "validate_claim_entry A claim source_path =
     (if trim (ce_claim_id claim) = [] then
        Err (''claims file '' @ source_path @ '' has a claim with empty claim_id'')
      else if trim (ce_file claim) = [] then
        Err (claim_in (ce_claim_id claim) source_path @ '' has empty file'')
      else if trim (ce_pattern claim) = [] then
        Err (claim_in (ce_claim_id claim) source_path @ '' has empty pattern'')
      else (case ca_regex_new A (ce_pattern claim) of
              Inl e \<Rightarrow> Err (claim_in (ce_claim_id claim) source_path @ '' has invalid regex '' @
                           quoted (ce_pattern claim))
            | Inr _ \<Rightarrow> Ok ()))"

fun materialize_entries ::
  "'re claims_api \<Rightarrow> claims_file_entry list \<Rightarrow> thresholds \<Rightarrow> string \<Rightarrow> string set \<Rightarrow> claim_spec list \<Rightarrow>
   (string, claim_spec list) result" where
  "materialize_entries A [] t source_path claim_ids claims = Ok claims"
| "materialize_entries A (claim # cs) t source_path claim_ids claims =
     (case validate_claim_entry A claim source_path of
        Inl e \<Rightarrow> Err e
      | Inr _ \<Rightarrow>
          (if ce_claim_id claim \<in> claim_ids then
             Err (''claims file '' @ source_path @ '' contains duplicate claim_id '' @
                  quoted (ce_claim_id claim))
           else (case resolve_file_claim_threshold claim t source_path of
                   Inl e \<Rightarrow> Err e
                 | Inr min_count \<Rightarrow>
                     materialize_entries A cs t source_path (insert (ce_claim_id claim) claim_ids)
                       (claims @ [\<lparr>cs_claim_id = ce_claim_id claim, cs_category = ce_category claim,
                          cs_kind = ce_kind claim, cs_file = ce_file claim,
                          cs_pattern = ce_pattern claim, cs_min_count = min_count\<rparr>]))))"

definition materialize_claim_specs_from_file ::
  "'re claims_api \<Rightarrow> claims_file \<Rightarrow> thresholds \<Rightarrow> string \<Rightarrow> (string, claim_spec list) result" where
  "materialize_claim_specs_from_file A f t source_path =
     materialize_entries A (cf_claims f) t source_path {} []"

definition load_claims_for_scenario ::
  "'w os \<Rightarrow> 're claims_api \<Rightarrow> string \<Rightarrow> string \<Rightarrow> string option \<Rightarrow> thresholds \<Rightarrow> 'w \<Rightarrow>
   (string, loaded_claims) result" where
  "load_claims_for_scenario OS A root scenario_id override t w =
     (case resolve_claims_file_path OS root scenario_id override w of
        Inl e \<Rightarrow> Err e
      | Inr source_path \<Rightarrow>
          (case os_read_to_string OS source_path w of
             Inl e \<Rightarrow> Err (''unable to read claims file '' @ source_path)
           | Inr payload \<Rightarrow>
               (case ca_parse_claims A payload of
                  Inl e \<Rightarrow> Err (''unable to parse claims file '' @ source_path)
                | Inr f \<Rightarrow>
                    if trim (cf_schema_version f) = [] then
                      Err (''claims file '' @ source_path @ '' has an empty schema_version'')
                    else if cf_scenario_id f \<noteq> scenario_id then
                      Err (''claims file '' @ source_path @ '' targets scenario '' @
                           quoted (cf_scenario_id f) @ '' but requested scenario is '' @
                           quoted scenario_id)
                    else if cf_claims f = [] then
                      Err (''claims file '' @ source_path @ '' contains no claims'')
                    else (case materialize_claim_specs_from_file A f t source_path of
                            Inl e \<Rightarrow> Err e
                          | Inr claims \<Rightarrow>
                              Ok \<lparr>lc_source_path = source_path,
                                  lc_schema_version = cf_schema_version f, lc_claims = claims\<rparr>))))"

section \<open>Evaluation\<close>

definition outcome_of ::
  "claim_spec \<Rightarrow> nat \<Rightarrow> bool \<Rightarrow> string option \<Rightarrow> string option \<Rightarrow> claim_outcome" where
  "outcome_of claim observed pass first_match err =
     \<lparr>cs_claim_id = cs_claim_id claim, cs_category = cs_category claim, cs_kind = cs_kind claim,
      cs_file = cs_file claim, cs_pattern = cs_pattern claim, cs_min_count = cs_min_count claim,
      cl_observed_count = observed, cl_pass = pass, cl_first_match = first_match, cl_error = err\<rparr>"

text \<open>The iterator is consumed: its first match, then the count of the rest.\<close>

definition evaluate_claim ::
  "'w os \<Rightarrow> 're claims_api \<Rightarrow> string \<Rightarrow> 'w \<Rightarrow> claim_spec \<Rightarrow> claim_outcome" where
  "evaluate_claim OS A artifacts_dir w claim =
     (let file_path = path_join artifacts_dir (cs_file claim) in
      case os_read_to_string OS file_path w of
        Inl e \<Rightarrow> outcome_of claim 0 False None (Some (''unable to read '' @ file_path @ '': '' @ e))
      | Inr content \<Rightarrow>
          (case ca_regex_new A (cs_pattern claim) of
             Inl e \<Rightarrow> outcome_of claim 0 False None
                        (Some (''invalid regex '' @ quoted (cs_pattern claim) @ '': '' @ e))
           | Inr regex \<Rightarrow>
               (let matches = ca_find_iter A regex content;
                    first_match = (case matches of [] \<Rightarrow> None | m # _ \<Rightarrow> Some m);
                    observed = (case matches of [] \<Rightarrow> 0 | _ # ms \<Rightarrow> 1 + length ms);
                    pass = (case cs_kind claim of
                              MustMatch \<Rightarrow> cs_min_count claim \<le> observed
                            | MustNotMatch \<Rightarrow> observed = 0)
                in outcome_of claim observed pass first_match None)))"

definition evaluate_claims ::
  "'w os \<Rightarrow> 're claims_api \<Rightarrow> string \<Rightarrow> claim_spec list \<Rightarrow> 'w \<Rightarrow> claim_outcome list" where
  "evaluate_claims OS A artifacts_dir claims w = map (evaluate_claim OS A artifacts_dir w) claims"

definition claim_failure_reason :: "claim_outcome \<Rightarrow> string" where
  "claim_failure_reason out =
     ''claim '' @ quoted (cs_claim_id out) @ '' failed (file='' @ quoted (cs_file out) @
     '', observed='' @ decimal (cl_observed_count out) @ '', min='' @ decimal (cs_min_count out) @
     '', pattern='' @ quoted (cs_pattern out) @ '')''"

fun split_loop ::
  "claim_outcome list \<Rightarrow> claim_outcome list \<Rightarrow> claim_outcome list \<Rightarrow> string option \<Rightarrow>
   claim_outcome list \<times> claim_outcome list \<times> string option" where
  "split_loop [] must forbidden reason = (must, forbidden, reason)"
| "split_loop (out # outs) must forbidden reason =
     (let reason' = (if \<not> cl_pass out \<and> reason = None then Some (claim_failure_reason out) else reason)
      in if cs_kind out = MustNotMatch then split_loop outs must (forbidden @ [out]) reason'
         else split_loop outs (must @ [out]) forbidden reason')"

definition split_claim_outcomes ::
  "claim_outcome list \<Rightarrow> claim_outcome list \<times> claim_outcome list \<times> string option" where
  "split_claim_outcomes outcomes = split_loop outcomes [] [] None"

section \<open>What a claims file asks for\<close>

definition entry_min_count :: "thresholds \<Rightarrow> claims_file_entry \<Rightarrow> nat option" where
  "entry_min_count t e =
     (case (ce_kind e, ce_threshold e) of
        (MustMatch, Some (Selector key)) \<Rightarrow> Some (resolve_selector_key key t)
      | (MustMatch, Some (FixedValue n)) \<Rightarrow> Some n
      | (MustNotMatch, None) \<Rightarrow> Some 0
      | _ \<Rightarrow> None)"

definition entry_ok :: "'re claims_api \<Rightarrow> thresholds \<Rightarrow> claims_file_entry \<Rightarrow> bool" where
  "entry_ok A t e \<longleftrightarrow>
     trim (ce_claim_id e) \<noteq> [] \<and> trim (ce_file e) \<noteq> [] \<and> trim (ce_pattern e) \<noteq> [] \<and>
     is_ok (ca_regex_new A (ce_pattern e)) \<and> entry_min_count t e \<noteq> None"

definition spec_of_entry :: "thresholds \<Rightarrow> claims_file_entry \<Rightarrow> claim_spec" where
  "spec_of_entry t e =
     \<lparr>cs_claim_id = ce_claim_id e, cs_category = ce_category e, cs_kind = ce_kind e,
      cs_file = ce_file e, cs_pattern = ce_pattern e, cs_min_count = the (entry_min_count t e)\<rparr>"

text \<open>The log has enough matches of the pattern, or none.\<close>

definition entry_holds ::
  "'w os \<Rightarrow> 're claims_api \<Rightarrow> string \<Rightarrow> 'w \<Rightarrow> thresholds \<Rightarrow> claims_file_entry \<Rightarrow> bool" where
  "entry_holds OS A dir w t e \<longleftrightarrow>
     (\<exists>content regex. os_read_to_string OS (path_join dir (ce_file e)) w = Inr content \<and>
        ca_regex_new A (ce_pattern e) = Inr regex \<and>
        (case ce_kind e of
           MustMatch \<Rightarrow> the (entry_min_count t e) \<le> length (ca_find_iter A regex content)
         | MustNotMatch \<Rightarrow> ca_find_iter A regex content = []))"

lemma resolve_threshold_entry:
  "resolve_file_claim_threshold e t p = Inr n \<longleftrightarrow> entry_min_count t e = Some n"
  by (auto simp: resolve_file_claim_threshold_def entry_min_count_def
      split: claim_kind.splits option.splits threshold_value.splits)

lemma validate_entry_Ok:
  "validate_claim_entry A e p = Inr u \<longleftrightarrow>
     trim (ce_claim_id e) \<noteq> [] \<and> trim (ce_file e) \<noteq> [] \<and> trim (ce_pattern e) \<noteq> [] \<and>
     is_ok (ca_regex_new A (ce_pattern e))"
  by (auto simp: validate_claim_entry_def is_ok_def split: sum.splits)

lemma materialize_entries_Ok:
  "materialize_entries A es t p ids acc = Inr cs \<longleftrightarrow>
     list_all (entry_ok A t) es \<and> distinct (map ce_claim_id es) \<and>
     set (map ce_claim_id es) \<inter> ids = {} \<and> cs = acc @ map (spec_of_entry t) es"
proof (induction es arbitrary: ids acc)
  case Nil
  then show ?case by auto
next
  case (Cons e es)
  show ?case
  proof (cases "entry_ok A t e \<and> ce_claim_id e \<notin> ids")
    case True
    then have v: "validate_claim_entry A e p = Inr ()" by (simp add: validate_entry_Ok entry_ok_def)
    from True obtain n where n: "resolve_file_claim_threshold e t p = Inr n" "entry_min_count t e = Some n"
      by (auto simp: entry_ok_def resolve_threshold_entry)
    with True v Cons show ?thesis by (auto simp: spec_of_entry_def)
  next
    case False
    have "materialize_entries A (e # es) t p ids acc \<noteq> Inr cs"
    proof
      assume run: "materialize_entries A (e # es) t p ids acc = Inr cs"
      then obtain u n where "validate_claim_entry A e p = Inr u" "ce_claim_id e \<notin> ids"
        "resolve_file_claim_threshold e t p = Inr n"
        by (auto split: sum.splits if_splits)
      then have "entry_ok A t e \<and> ce_claim_id e \<notin> ids"
        by (simp add: entry_ok_def validate_entry_Ok resolve_threshold_entry)
      with False show False by simp
    qed
    with False show ?thesis by auto
  qed
qed

lemma evaluate_claim_fields [simp]:
  "cs_claim_id (evaluate_claim OS A dir w c) = cs_claim_id c"
  "cs_kind (evaluate_claim OS A dir w c) = cs_kind c"
  by (simp_all add: evaluate_claim_def outcome_of_def Let_def split: sum.splits)

lemma evaluate_claim_pass:
  "entry_ok A t e \<Longrightarrow> cl_pass (evaluate_claim OS A dir w (spec_of_entry t e)) \<longleftrightarrow> entry_holds OS A dir w t e"
  by (auto simp: evaluate_claim_def outcome_of_def entry_holds_def spec_of_entry_def entry_ok_def Let_def
      split: sum.splits claim_kind.splits list.splits)

lemma split_loop_result:
  "split_loop outs must forbidden reason =
     (must @ filter (\<lambda>out. cs_kind out \<noteq> MustNotMatch) outs,
      forbidden @ filter (\<lambda>out. cs_kind out = MustNotMatch) outs,
      case reason of Some x \<Rightarrow> Some x
        | None \<Rightarrow> map_option claim_failure_reason (find (\<lambda>out. \<not> cl_pass out) outs))"
  by (induction outs arbitrary: must forbidden reason) (auto simp: Let_def split: option.splits)

lemma split_reason_None:
  assumes "split_claim_outcomes outs = (must, forbidden, reason)"
  shows "reason = None \<longleftrightarrow> (\<forall>out \<in> set outs. cl_pass out)"
    and "set must \<union> set forbidden = set outs"
  using assms by (auto simp: split_claim_outcomes_def split_loop_result find_None_iff)

lemma load_claims_Ok:
  assumes "load_claims_for_scenario OS A root scenario_id override t w = Inr l"
  shows "\<exists>payload f. resolve_claims_file_path OS root scenario_id override w = Inr (lc_source_path l) \<and>
    os_read_to_string OS (lc_source_path l) w = Inr payload \<and> ca_parse_claims A payload = Inr f \<and>
    cf_scenario_id f = scenario_id \<and> cf_claims f \<noteq> [] \<and> list_all (entry_ok A t) (cf_claims f) \<and>
    distinct (map ce_claim_id (cf_claims f)) \<and> lc_claims l = map (spec_of_entry t) (cf_claims f)"
  using assms
  by (auto simp: load_claims_for_scenario_def materialize_claim_specs_from_file_def
      materialize_entries_Ok split: sum.splits if_splits)

section \<open>A concrete claims file\<close>

text \<open>Patterns that are matched as plain lines of a log.\<close>

definition sample_claims_api :: "string claims_api" where
  "sample_claims_api =
     \<lparr>ca_regex_new = Inr,
      ca_find_iter = (\<lambda>p content. filter (\<lambda>l. l = p) (str_lines content)),
      ca_parse_claims = (\<lambda>payload. Ok
        \<lparr>cf_schema_version = ''1.0'', cf_scenario_id = payload,
         cf_claims = [\<lparr>ce_claim_id = ''sent'', ce_category = StreamerEgress, ce_kind = MustMatch,
                       ce_file = ''streamer.log'', ce_pattern = ''sent'',
                       ce_threshold = Some (Selector KeyEgressSendOk)\<rparr>,
                      \<lparr>ce_claim_id = ''calm'', ce_category = ForbiddenSignature, ce_kind = MustNotMatch,
                       ce_file = ''streamer.log'', ce_pattern = ''panicked'', ce_threshold = None\<rparr>]\<rparr>)\<rparr>"

definition claims_world :: sim_world where
  "claims_world = \<lparr>sw_time = 0,
     sw_files = [(''/c'', ''s''), (''/a/streamer.log'', ''sent'' @ [newline] @ ''sent'' @ [newline])],
     sw_children = []\<rparr>"

section \<open>Properties\<close>

text \<open>
  C20. The verdict on a scenario's claims is what its file asks for. A file that loads names the
  scenario, has claims with distinct ids, and each is complete; evaluating the loaded claims reports no
  failure exactly when, for every entry of the file, its log can be read and has at least the required
  number of matches, or none for a forbidden pattern. The outcomes are those of the entries, in their
  order, forbidden ones apart.
\<close>

theorem claims_verdict:
  assumes "load_claims_for_scenario OS A root scenario_id override t w0 = Inr l"
    and "split_claim_outcomes (evaluate_claims OS A dir (lc_claims l) w) = (must, forbidden, reason)"
  shows "\<exists>payload f. os_read_to_string OS (lc_source_path l) w0 = Inr payload \<and>
    ca_parse_claims A payload = Inr f \<and> cf_scenario_id f = scenario_id \<and> cf_claims f \<noteq> [] \<and>
    distinct (map ce_claim_id (cf_claims f)) \<and>
    (reason = None \<longleftrightarrow> list_all (entry_holds OS A dir w t) (cf_claims f)) \<and>
    map cs_claim_id must = map ce_claim_id (filter (\<lambda>e. ce_kind e = MustMatch) (cf_claims f)) \<and>
    map cs_claim_id forbidden = map ce_claim_id (filter (\<lambda>e. ce_kind e = MustNotMatch) (cf_claims f))"
proof -
  from load_claims_Ok [OF assms(1)] obtain payload f where
    src: "os_read_to_string OS (lc_source_path l) w0 = Inr payload" "ca_parse_claims A payload = Inr f"
      "cf_scenario_id f = scenario_id" "cf_claims f \<noteq> []" "distinct (map ce_claim_id (cf_claims f))"
    and ok: "list_all (entry_ok A t) (cf_claims f)"
    and claims: "lc_claims l = map (spec_of_entry t) (cf_claims f)" by blast
  let ?eval = "\<lambda>e. evaluate_claim OS A dir w (spec_of_entry t e)"
  have outs: "evaluate_claims OS A dir (lc_claims l) w = map ?eval (cf_claims f)"
    by (simp add: evaluate_claims_def claims)
  have kinds: "cs_kind (?eval e) = ce_kind e" "cs_claim_id (?eval e) = ce_claim_id e" for e
    by (simp_all add: spec_of_entry_def)
  have "map cs_claim_id (filter (\<lambda>out. cs_kind out \<noteq> MustNotMatch) (map ?eval es))
        = map ce_claim_id (filter (\<lambda>e. ce_kind e = MustMatch) es)"
    "map cs_claim_id (filter (\<lambda>out. cs_kind out = MustNotMatch) (map ?eval es))
        = map ce_claim_id (filter (\<lambda>e. ce_kind e = MustNotMatch) es)" for es
    by (induction es) (use kinds claim_kind.exhaust in auto)
  moreover have "(\<forall>out \<in> set (map ?eval (cf_claims f)). cl_pass out)
      \<longleftrightarrow> list_all (entry_holds OS A dir w t) (cf_claims f)"
    using ok evaluate_claim_pass [of A t _ OS dir w] by (auto simp: list_all_iff)
  ultimately show ?thesis
    using src assms(2) split_reason_None(1) [OF assms(2)]
    by (auto simp: outs split_claim_outcomes_def split_loop_result)
qed

theorem claims_verdict_witness:
  "\<exists>l must forbidden. load_claims_for_scenario sim_idle sample_claims_api ''/'' ''s'' (Some ''/c'')
       thresholds_default claims_world = Inr l \<and>
     split_claim_outcomes (evaluate_claims sim_idle sample_claims_api ''/a'' (lc_claims l) claims_world)
       = (must, forbidden, None) \<and>
     map cs_claim_id must = [''sent''] \<and> map cs_claim_id forbidden = [''calm'']"
proof -
  have "is_ok (load_claims_for_scenario sim_idle sample_claims_api ''/'' ''s'' (Some ''/c'')
      thresholds_default claims_world)"
    by code_simp
  then obtain l where load: "load_claims_for_scenario sim_idle sample_claims_api ''/'' ''s'' (Some ''/c'')
      thresholds_default claims_world = Inr l"
    by (auto simp: is_ok_def split: sum.splits)
  obtain must forbidden reason where split: "split_claim_outcomes (evaluate_claims sim_idle
      sample_claims_api ''/a'' (lc_claims l) claims_world) = (must, forbidden, reason)"
    by (metis prod_cases3)
  from claims_verdict [OF load split] obtain payload f where
    f: "ca_parse_claims sample_claims_api payload = Inr f"
    and out: "reason = None \<longleftrightarrow> list_all (entry_holds sim_idle sample_claims_api ''/a''
        claims_world thresholds_default) (cf_claims f)"
      "map cs_claim_id must = map ce_claim_id (filter (\<lambda>e. ce_kind e = MustMatch) (cf_claims f))"
      "map cs_claim_id forbidden = map ce_claim_id (filter (\<lambda>e. ce_kind e = MustNotMatch) (cf_claims f))"
    by blast
  have log: "str_lines (''sent'' @ [newline] @ ''sent'' @ [newline]) = [''sent'', ''sent'']" by code_simp
  have path: "path_join ''/a'' ''streamer.log'' = ''/a/streamer.log''" by code_simp
  have "list_all (entry_holds sim_idle sample_claims_api ''/a'' claims_world thresholds_default) (cf_claims f)"
    using f by (auto simp: sample_claims_api_def entry_holds_def path sim_idle_def sim_os_def
        claims_world_def log [simplified] entry_min_count_def resolve_selector_key_def
        thresholds_default_def DEFAULT_EGRESS_SEND_OK_MIN_COUNT_def)
  with out f load split show ?thesis by (auto simp: sample_claims_api_def)
qed

end
