(* ===== verification/Smoke_Report.thy ===== *)
theory Smoke_Report
  imports Smoke_Claims
begin

text \<open>
  The reports of the smoke suite (utils/transport-smoke-suite/src/report.rs): what a scenario and a
  matrix of scenarios leave behind, as JSON (serde, a parameter) and as text.
\<close>

section \<open>Data\<close>

definition SCENARIO_REPORT_SCHEMA_VERSION :: string where "SCENARIO_REPORT_SCHEMA_VERSION = ''1.1''"

record phase_timing =
  ph_phase :: string
  ph_start_ts :: string
  ph_end_ts :: string
  ph_duration_ms :: nat

record process_metadata =
  pm_name :: string
  pm_pid :: int
  pm_process_group_id :: int
  pm_command :: string
  pm_workdir :: string
  pm_log_file :: string
  pm_exit_status :: "int option"

record scenario_report =
  sr_schema_version :: string
  sr_scenario_id :: string
  sr_transport_family :: string
  sr_pass :: bool
  sr_exit_code :: int
  sr_phase_timings :: "phase_timing list"
  sr_processes :: "process_metadata list"
  sr_claim_outcomes :: "claim_outcome list"
  sr_forbidden_claim_outcomes :: "claim_outcome list"
  sr_failure_reason :: "string option"
  sr_repro_command :: string
  sr_artifact_dir :: string
  sr_claims_source_path :: "string option"
  sr_start_ts :: string
  sr_end_ts :: string
  sr_duration_ms :: nat

record matrix_scenario_summary =
  ms_scenario_id :: string
  ms_pass :: bool
  ms_exit_code :: int
  ms_artifact_dir :: "string option"
  ms_failure_reason :: "string option"
  ms_duration_ms :: nat

record failed_scenario_summary =
  fs_scenario_id :: string
  fs_failure_reason :: string

record matrix_summary =
  mx_schema_version :: string
  mx_selected_scenarios :: "string list"
  mx_pass_count :: nat
  mx_fail_count :: nat
  mx_total_duration_ms :: nat
  mx_scenarios :: "matrix_scenario_summary list"
  mx_failed_scenarios :: "failed_scenario_summary list"
  mx_aggregate_exit_rationale :: string
  mx_start_ts :: string
  mx_end_ts :: string

record report_api =
  ra_scenario_json :: "scenario_report \<Rightarrow> (string, string) result"
  ra_matrix_json :: "matrix_summary \<Rightarrow> (string, string) result"
  ra_parse_scenario :: "string \<Rightarrow> (string, scenario_report) result"

section \<open>Text\<close>

definition pass_text :: "bool \<Rightarrow> string" where
  "pass_text b = (if b then ''PASS'' else ''FAIL'')"

definition or_text :: "string option \<Rightarrow> string \<Rightarrow> string" where
  "or_text x d = (case x of None \<Rightarrow> d | Some s \<Rightarrow> s)"

definition timestamp_to_string :: "'w os \<Rightarrow> nat \<Rightarrow> string" where
  "timestamp_to_string OS t = os_utc_rfc3339 OS t"

definition render_scenario_summary_text :: "scenario_report \<Rightarrow> string" where
  "render_scenario_summary_text r =
     str_join [newline]
       ([''scenario_id: '' @ sr_scenario_id r,
         ''transport_family: '' @ sr_transport_family r,
         ''status: '' @ pass_text (sr_pass r),
         ''exit_code: '' @ show_int (sr_exit_code r),
         ''artifact_dir: '' @ sr_artifact_dir r,
         ''claims_source_path: '' @ or_text (sr_claims_source_path r) ''<not available>'',
         ''duration_ms: '' @ decimal (sr_duration_ms r),
         ''repro_command: '' @ sr_repro_command r] @
        (case sr_failure_reason r of None \<Rightarrow> [] | Some reason \<Rightarrow> [''failure_reason: '' @ reason]) @
        [''phase_timings:''] @
        map (\<lambda>p. ''  - '' @ ph_phase p @ '' (duration_ms='' @ decimal (ph_duration_ms p) @ '')'')
          (sr_phase_timings r) @
        [''claim_outcomes:''] @
        map (\<lambda>out. ''  - '' @ cs_claim_id out @ '': '' @ pass_text (cl_pass out) @ '' (observed='' @
             decimal (cl_observed_count out) @ '', min='' @ decimal (cs_min_count out) @
             '', pattern='' @ quoted (cs_pattern out) @ '')'')
          (sr_claim_outcomes r @ sr_forbidden_claim_outcomes r))"

definition render_matrix_summary_text :: "matrix_summary \<Rightarrow> string" where
  "render_matrix_summary_text m =
     str_join [newline]
       ([''selected_scenarios: '' @ str_join '', '' (mx_selected_scenarios m),
         ''pass_count: '' @ decimal (mx_pass_count m),
         ''fail_count: '' @ decimal (mx_fail_count m),
         ''total_duration_ms: '' @ decimal (mx_total_duration_ms m),
         ''aggregate_exit_rationale: '' @ mx_aggregate_exit_rationale m,
         ''scenarios:''] @
        map (\<lambda>s. ''  - '' @ ms_scenario_id s @ '': '' @ pass_text (ms_pass s) @ '' (exit_code='' @
             show_int (ms_exit_code s) @ '', duration_ms='' @ decimal (ms_duration_ms s) @
             '', artifact_dir='' @ or_text (ms_artifact_dir s) ''<not available>'' @ '')'')
          (mx_scenarios m) @
        map (\<lambda>f. ''failed: '' @ fs_scenario_id f @ '' -> '' @ fs_failure_reason f)
          (mx_failed_scenarios m))"

section \<open>Files\<close>

definition write_scenario_report ::
  "'w os \<Rightarrow> report_api \<Rightarrow> scenario_report \<Rightarrow> string \<Rightarrow> ('w, string \<times> string) act" where
  "write_scenario_report OS RA r artifacts_dir =
     (let json = path_join artifacts_dir ''scenario-report.json'';
          txt = path_join artifacts_dir ''scenario-report.txt''
      in act_then
           (act_context (''unable to create artifact dir '' @ artifacts_dir)
              (effect (os_create_dir_all OS artifacts_dir)))
        (act_bind (act_context ''serialize scenario report'' (act_lift (ra_scenario_json RA r)))
        (\<lambda>payload. act_then
           (act_context (''unable to write scenario report JSON '' @ json)
              (effect (os_write OS json payload)))
        (act_then
           (act_context (''unable to write scenario report text '' @ txt)
              (effect (os_write OS txt (render_scenario_summary_text r))))
           (act_ret (json, txt))))))"

definition write_matrix_summary ::
  "'w os \<Rightarrow> report_api \<Rightarrow> matrix_summary \<Rightarrow> string \<Rightarrow> ('w, string \<times> string) act" where
  "write_matrix_summary OS RA m artifacts_dir =
     (let json = path_join artifacts_dir ''matrix-summary.json'';
          txt = path_join artifacts_dir ''matrix-summary.txt''
      in act_then
           (act_context (''unable to create artifact dir '' @ artifacts_dir)
              (effect (os_create_dir_all OS artifacts_dir)))
        (act_bind (act_context ''serialize matrix summary'' (act_lift (ra_matrix_json RA m)))
        (\<lambda>payload. act_then
           (act_context (''unable to write matrix summary JSON '' @ json)
              (effect (os_write OS json payload)))
        (act_then
           (act_context (''unable to write matrix summary text '' @ txt)
              (effect (os_write OS txt (render_matrix_summary_text m))))
           (act_ret (json, txt))))))"

definition load_scenario_report :: "'w os \<Rightarrow> report_api \<Rightarrow> string \<Rightarrow> 'w \<Rightarrow> (string, scenario_report) result" where
  "load_scenario_report OS RA report_path w =
     (case os_read_to_string OS report_path w of
        Inl e \<Rightarrow> Err (''unable to read scenario report '' @ report_path)
      | Inr payload \<Rightarrow>
          result_context (''unable to parse scenario report '' @ report_path) (ra_parse_scenario RA payload))"

end
