(* ===== verification/Smoke_Scenario.thy ===== *)
theory Smoke_Scenario
  imports Smoke_Process Smoke_Templates Smoke_Report
begin

text \<open>
  A run of a scenario (utils/transport-smoke-suite/src/scenario.rs): the phases from the preflight over
  the start of infrastructure, streamer, passive and active side, the validation of the claims and the
  teardown to the report.

  The variables the phases share are the record \<open>scenario_run\<close>; a phase acts on it and on the world, and
  what it had changed when it failed stays changed.
\<close>

section \<open>Arguments, state and result\<close>

record scenario_cli_args =
  sa_skip_build :: bool
  sa_artifacts_root :: "string option"
  sa_claims_path :: "string option"
  sa_send_count :: nat
  sa_send_interval_ms :: nat
  sa_scenario_timeout_secs :: "nat option"
  sa_expected_branch :: "string option"
  sa_no_bootstrap :: bool
  sa_endpoint_claim_min_count :: nat
  sa_egress_send_attempt_min_count :: nat
  sa_egress_send_ok_min_count :: nat
  sa_egress_worker_min_count :: nat

record scenario_run_result =
  rr_pass :: bool
  rr_exit_code :: int
  rr_artifact_dir :: string
  rr_report_json :: string
  rr_report_txt :: string
  rr_failure_reason :: "string option"

record scenario_run =
  rn_phase_timings :: "phase_timing list"
  rn_failure_reason :: "string option"
  rn_claim_outcomes :: "claim_outcome list"
  rn_forbidden_claim_outcomes :: "claim_outcome list"
  rn_loaded_claims :: "claim_spec list"
  rn_claims_source_path :: "string option"
  rn_streamer :: "managed_process option"
  rn_passive :: "managed_process option"
  rn_active :: "managed_process option"
  rn_mqtt_broker_started :: bool
  rn_vsomeip_runtime_lib :: "string option"

definition run_start :: scenario_run where
  "run_start = \<lparr>rn_phase_timings = [], rn_failure_reason = None, rn_claim_outcomes = [],
     rn_forbidden_claim_outcomes = [], rn_loaded_claims = [], rn_claims_source_path = None,
     rn_streamer = None, rn_passive = None, rn_active = None, rn_mqtt_broker_started = False,
     rn_vsomeip_runtime_lib = None\<rparr>"

record ('w, 're) suite =
  su_os :: "'w os"
  su_claims :: "'re claims_api"
  su_reports :: report_api
  su_manifest_dir :: string

text \<open>What stays the same during a run.\<close>

record run_context =
  rc_template :: scenario_template_t
  rc_args :: scenario_cli_args
  rc_root :: string
  rc_expected_branch :: "string option"
  rc_artifact_dir :: string
  rc_deadline :: nanos

section \<open>Steps\<close>

definition ensure_remaining_timeout :: "'w os \<Rightarrow> nanos \<Rightarrow> string \<Rightarrow> ('w, nanos) act" where
  "ensure_remaining_timeout OS deadline phase =
     act_bind (value_of (os_now OS)) (\<lambda>now.
       if now \<le> deadline then act_ret (deadline - now)
       else act_fail (''scenario hard timeout reached in phase '' @ quoted phase))"

definition assert_command_success :: "command_outcome \<Rightarrow> string \<Rightarrow> (string, unit) result" where
  "assert_command_success out label =
     (if cmd_status_code out = Some 0 then Ok ()
      else Err (label @ '' failed (status='' @ debug_option_int (cmd_status_code out) @ '')'' @ [newline] @
             ''command: '' @ cmd_command out @ [newline] @ ''stdout:'' @ [newline] @ cmd_stdout out @
             [newline] @ ''stderr:'' @ [newline] @ cmd_stderr out))"

definition ensure_no_stale_processes :: "'w os \<Rightarrow> string list \<Rightarrow> ('w, unit) act" where
  "ensure_no_stale_processes OS signatures =
     (if signatures = [] then act_ret ()
      else act_bind
        (act_context ''failed to run stale-process preflight check''
           (os_output OS ''pgrep'' [''-fa'', str_join ''|'' signatures] None))
        (\<lambda>out.
           if co_code out = Some 1 then act_ret ()
           else if trim (co_stdout out) \<noteq> [] then
             act_fail (''stale process check failed; matching processes still running: '' @
               trim (co_stdout out))
           else act_fail (''stale process check failed with status '' @
               debug_option_int (co_code out) @ '': '' @ co_stderr out)))"

definition compose_file :: "string \<Rightarrow> string" where
  "compose_file root =
     shell_escape (path_join (path_join (path_join root ''utils'') ''mosquitto'') ''docker-compose.yaml'')"

definition broker_running :: "command_outcome \<Rightarrow> bool" where
  "broker_running out \<longleftrightarrow> cmd_status_code out = Some 0 \<and>
     list_ex (\<lambda>line. trim line = ''mosquitto'') (str_lines (cmd_stdout out))"

partial_function (option) broker_loop ::
  "'w os \<Rightarrow> string \<Rightarrow> nanos \<Rightarrow> nanos \<Rightarrow> ('w, unit) act" where
  "broker_loop OS root broker_deadline deadline w =
     act_bind (run_shell_command OS root root
       (''docker compose -f '' @ compose_file root @ '' ps --status running --services'') True) (\<lambda>out w1.
       if broker_running out then act_ret () w1
       else act_bind (value_of (os_now OS)) (\<lambda>now w2.
         if broker_deadline \<le> now then
           act_fail (''timed out waiting for MQTT broker readiness (stdout='' @
             quoted (trim (cmd_stdout out)) @ '', stderr='' @ quoted (trim (cmd_stderr out)) @ '')'') w2
         else act_bind (value_of (os_now OS)) (\<lambda>now' w3.
           if deadline \<le> now' then
             act_fail ''scenario hard timeout reached while waiting for MQTT broker readiness'' w3
           else act_bind (sleep OS (millis LOG_POLL_INTERVAL_MS)) (\<lambda>_ w4.
             broker_loop OS root broker_deadline deadline w4) w3) w2) w1) w"

definition compose_down :: "string \<Rightarrow> string" where
  "compose_down root = ''docker compose -f '' @ compose_file root @ '' down --remove-orphans''"

text \<open>The result of the first command is dropped.\<close>

definition start_mqtt_broker :: "'w os \<Rightarrow> string \<Rightarrow> bool \<Rightarrow> nanos \<Rightarrow> ('w, unit) act" where
  "start_mqtt_broker OS root no_bootstrap deadline =
     act_then (act_try (run_shell_command OS root root (compose_down root) no_bootstrap))
    (act_bind (run_shell_command OS root root (''docker compose -f '' @ compose_file root @ '' up -d'')
        no_bootstrap) (\<lambda>out.
     act_then (act_lift (assert_command_success out ''docker compose up -d''))
    (act_bind (value_of (os_now OS)) (\<lambda>now.
     broker_loop OS root (now + secs BROKER_READY_TIMEOUT_SECS) deadline))))"

definition stop_mqtt_broker :: "'w os \<Rightarrow> string \<Rightarrow> bool \<Rightarrow> ('w, unit) act" where
  "stop_mqtt_broker OS root no_bootstrap =
     act_bind (run_shell_command OS root root (compose_down root) no_bootstrap) (\<lambda>out.
       act_lift (assert_command_success out ''docker compose down''))"

definition sender_args :: "scenario_cli_args \<Rightarrow> process_template \<Rightarrow> string list" where
  "sender_args args pt =
     pt_args pt @
     (if pt_bounded_sender pt then
        [''--send-count'', decimal (sa_send_count args),
         ''--send-interval-ms'', decimal (sa_send_interval_ms args)]
      else [])"

definition merged_library_path :: "'w os \<Rightarrow> string \<Rightarrow> 'w \<Rightarrow> string" where
  "merged_library_path OS lib w =
     (let existing = or_text (os_env_var OS ''LD_LIBRARY_PATH'' w) []
      in if existing = [] then lib else lib @ '':'' @ existing)"

definition spawn_template_process ::
  "'w os \<Rightarrow> run_context \<Rightarrow> process_template \<Rightarrow> string option \<Rightarrow> ('w, managed_process) act" where
  "spawn_template_process OS C pt vsomeip_lib =
     act_bind
       (if st_requires_vsomeip_runtime (rc_template C) then
          (case vsomeip_lib of
             None \<Rightarrow> act_fail ''vsomeip runtime library was required but no path was resolved''
           | Some lib \<Rightarrow>
               act_get (\<lambda>w. pt_env pt @ [(''LD_LIBRARY_PATH'', merged_library_path OS lib w)]))
        else act_ret (pt_env pt))
       (\<lambda>env_pairs. managed_spawn OS
          \<lparr>ps_name = pt_name pt, ps_workdir = path_join (rc_root C) (pt_workdir pt),
           ps_executable = path_join (path_join (path_join (rc_root C) ''target'') ''debug'') (pt_binary pt),
           ps_args = sender_args (rc_args C) pt, ps_env = env_pairs,
           ps_log_file_name = pt_log_file pt\<rparr>
          (rc_root C) (rc_artifact_dir C) (sa_no_bootstrap (rc_args C)))"

section \<open>Phases\<close>

definition of_run :: "(scenario_run \<Rightarrow> 'a) \<Rightarrow> (scenario_run \<times> 'w, 'a) act" where
  "of_run f = act_get (\<lambda>s. f (fst s))"

definition set_run :: "(scenario_run \<Rightarrow> scenario_run) \<Rightarrow> (scenario_run \<times> 'w, unit) act" where
  "set_run f = act_modify (apfst f)"

text \<open>The timing of a phase is recorded whether it fails or not.\<close>

definition execute_phase ::
  "'w os \<Rightarrow> string \<Rightarrow> (scenario_run \<times> 'w, unit) act \<Rightarrow> (scenario_run \<times> 'w, unit) act" where
  "execute_phase OS name m =
     act_bind (in_world (value_of (os_utc OS))) (\<lambda>start_wall.
     act_bind (in_world (value_of (os_now OS))) (\<lambda>start.
     act_bind (act_try m) (\<lambda>result.
     act_bind (in_world (value_of (os_utc OS))) (\<lambda>end_wall.
     act_bind (in_world (value_of (os_now OS))) (\<lambda>now.
     act_then (set_run (\<lambda>run. run\<lparr>rn_phase_timings := rn_phase_timings run @
         [\<lparr>ph_phase = name, ph_start_ts = timestamp_to_string OS start_wall,
           ph_end_ts = timestamp_to_string OS end_wall, ph_duration_ms = as_millis (now - start)\<rparr>]\<rparr>))
       (act_lift result))))))"

definition note_failure :: "(string, unit) result \<Rightarrow> (scenario_run \<times> 'w, unit) act" where
  "note_failure result =
     set_run (\<lambda>run. case result of
       Inr _ \<Rightarrow> run
     | Inl e \<Rightarrow> if rn_failure_reason run = None then run\<lparr>rn_failure_reason := Some e\<rparr> else run)"

definition always_phase ::
  "'w os \<Rightarrow> string \<Rightarrow> (scenario_run \<times> 'w, unit) act \<Rightarrow> (scenario_run \<times> 'w, unit) act" where
  "always_phase OS name m = act_bind (act_try (execute_phase OS name m)) note_failure"

text \<open>A phase that is skipped after a failure.\<close>

definition next_phase ::
  "'w os \<Rightarrow> string \<Rightarrow> (scenario_run \<times> 'w, unit) act \<Rightarrow> (scenario_run \<times> 'w, unit) act" where
  "next_phase OS name m =
     act_bind (of_run rn_failure_reason) (\<lambda>reason.
       act_when (reason = None) (always_phase OS name m))"

definition in_time :: "'w os \<Rightarrow> run_context \<Rightarrow> string \<Rightarrow> (scenario_run \<times> 'w, nanos) act" where
  "in_time OS C name = in_world (ensure_remaining_timeout OS (rc_deadline C) name)"

definition run_thresholds :: "scenario_cli_args \<Rightarrow> thresholds" where
  "run_thresholds args =
     \<lparr>th_endpoint_communication_min_count = sa_endpoint_claim_min_count args,
      th_egress_send_attempt_min_count = sa_egress_send_attempt_min_count args,
      th_egress_send_ok_min_count = sa_egress_send_ok_min_count args,
      th_egress_worker_create_or_reuse_min_count = sa_egress_worker_min_count args\<rparr>"

definition checked_command :: "'w os \<Rightarrow> run_context \<Rightarrow> bool \<Rightarrow> string \<Rightarrow> (scenario_run \<times> 'w, unit) act" where
  "checked_command OS C no_bootstrap command =
     act_bind (in_world (run_shell_command OS (rc_root C) (rc_root C) command no_bootstrap)) (\<lambda>out.
       act_lift (assert_command_success out command))"

definition preflight :: "('w, 're) suite \<Rightarrow> run_context \<Rightarrow> (scenario_run \<times> 'w, unit) act" where
  "preflight SU C =
     (let OS = su_os SU; T = rc_template C; args = rc_args C in
      act_then (in_time OS C ''Preflight'')
     (act_then (in_world (enforce_expected_branch OS (rc_root C) (rc_expected_branch C)))
     (act_then (in_world (looked_up (ensure_paths_exist OS (rc_root C) (st_required_paths T))))
     (act_bind (in_world (looked_up (load_claims_for_scenario OS (su_claims SU) (rc_root C) (st_id T)
         (sa_claims_path args) (run_thresholds args)))) (\<lambda>loaded.
      act_then (set_run (\<lambda>run. run\<lparr>rn_claims_source_path := Some (lc_source_path loaded),
         rn_loaded_claims := lc_claims loaded\<rparr>))
     (act_then (in_world (ensure_no_stale_processes OS (st_stale_process_signatures T)))
     (act_then (act_when (st_requires_docker T)
        (act_then (checked_command OS C True ''docker --version'')
           (checked_command OS C True ''docker compose version'')))
     (act_then (act_when (st_requires_vsomeip_runtime T)
        (act_bind (in_world (looked_up (detect_vsomeip_runtime_lib OS (rc_root C)))) (\<lambda>lib.
           set_run (\<lambda>run. run\<lparr>rn_vsomeip_runtime_lib := Some lib\<rparr>))))
     (act_when (\<not> sa_skip_build args)
        (act_each (checked_command OS C (sa_no_bootstrap args)) (st_build_commands T)))))))))))"

definition spawn_for_run ::
  "'w os \<Rightarrow> run_context \<Rightarrow> process_template \<Rightarrow> (scenario_run \<times> 'w, managed_process) act" where
  "spawn_for_run OS C pt =
     act_bind (of_run rn_vsomeip_runtime_lib) (\<lambda>lib. in_world (spawn_template_process OS C pt lib))"

definition start_infra :: "'w os \<Rightarrow> run_context \<Rightarrow> (scenario_run \<times> 'w, unit) act" where
  "start_infra OS C =
     act_then (in_time OS C ''StartInfra'')
    (act_then (act_when (st_requires_docker (rc_template C))
        (act_then (in_world (start_mqtt_broker OS (rc_root C) (sa_no_bootstrap (rc_args C)) (rc_deadline C)))
           (set_run (\<lambda>run. run\<lparr>rn_mqtt_broker_started := True\<rparr>))))
    (act_bind (spawn_for_run OS C (st_streamer (rc_template C))) (\<lambda>p.
       set_run (\<lambda>run. run\<lparr>rn_streamer := Some p\<rparr>))))"

text \<open>The two waits differ in the process, its template and the names.\<close>

definition wait_ready ::
  "'w os \<Rightarrow> run_context \<Rightarrow> string \<Rightarrow> string \<Rightarrow> (scenario_run \<Rightarrow> managed_process option) \<Rightarrow>
   process_template \<Rightarrow> nat \<Rightarrow> (scenario_run \<times> 'w, unit) act" where
  "wait_ready OS C phase role process pt default_secs =
     act_then (in_time OS C phase)
    (act_bind (of_run process) (\<lambda>p.
     case p of
       None \<Rightarrow> act_fail (role @ '' process missing before readiness wait'')
     | Some p \<Rightarrow>
         (case pt_readiness_marker pt of
            None \<Rightarrow> act_fail (role @ '' readiness marker not configured'')
          | Some marker \<Rightarrow>
              act_bind (in_time OS C phase) (\<lambda>remaining.
                in_world (wait_for_exact_marker OS (mp_log_path p) marker
                  (min (secs (case pt_readiness_timeout_secs pt of None \<Rightarrow> default_secs | Some n \<Rightarrow> n))
                     remaining)
                  (millis LOG_POLL_INTERVAL_MS))))))"

definition start_passive :: "'w os \<Rightarrow> run_context \<Rightarrow> (scenario_run \<times> 'w, unit) act" where
  "start_passive OS C =
     act_then (in_time OS C ''StartPassive'')
    (act_bind (spawn_for_run OS C (st_passive (rc_template C))) (\<lambda>p.
       set_run (\<lambda>run. run\<lparr>rn_passive := Some p\<rparr>)))"

datatype role = Streamer_Role | Passive_Role | Active_Role

fun process_of :: "role \<Rightarrow> scenario_run \<Rightarrow> managed_process option" where
  "process_of Streamer_Role run = rn_streamer run"
| "process_of Passive_Role run = rn_passive run"
| "process_of Active_Role run = rn_active run"

fun put_process :: "role \<Rightarrow> managed_process \<Rightarrow> scenario_run \<Rightarrow> scenario_run" where
  "put_process Streamer_Role p run = run\<lparr>rn_streamer := Some p\<rparr>"
| "put_process Passive_Role p run = run\<lparr>rn_passive := Some p\<rparr>"
| "put_process Active_Role p run = run\<lparr>rn_active := Some p\<rparr>"

text \<open>A method with \<open>&mut self\<close> on the process of a role; nothing is done without one.\<close>

definition on_process ::
  "role \<Rightarrow> (managed_process \<times> 'w, 'a) act \<Rightarrow> 'a \<Rightarrow> (scenario_run \<times> 'w, 'a) act" where
  "on_process rl m absent s =
     (case process_of rl (fst s) of
        None \<Rightarrow> Some (Ok absent, s)
      | Some p \<Rightarrow>
          (case m (p, snd s) of
             None \<Rightarrow> None
           | Some (r, (p', w)) \<Rightarrow> Some (r, (put_process rl p' (fst s), w))))"

definition start_active :: "'w os \<Rightarrow> run_context \<Rightarrow> (scenario_run \<times> 'w, unit) act" where
  "start_active OS C =
     act_then (in_time OS C ''StartActive'')
    (act_bind (spawn_for_run OS C (st_active (rc_template C))) (\<lambda>p.
     act_then (set_run (put_process Active_Role p))
    (act_bind (in_time OS C ''StartActive'') (\<lambda>remaining.
     act_bind (on_process Active_Role (wait_with_timeout OS remaining) False) (\<lambda>exited.
     act_then (act_ensure exited
       ''scenario hard timeout reached while waiting for bounded active sender completion'')
    (act_bind (of_run (\<lambda>run. Option.bind (rn_active run) mp_exit_status_code)) (\<lambda>code.
     act_ensure (code = Some 0)
       (''active process '' @ quoted (mp_name p) @ '' exited with status '' @ debug_option_int code))))))))"

definition marker_once ::
  "'w os \<Rightarrow> string \<Rightarrow> managed_process \<Rightarrow> string \<Rightarrow> (scenario_run \<times> 'w, unit) act" where
  "marker_once OS role p marker =
     act_bind (in_world (looked_up (count_exact_marker OS (mp_log_path p) marker))) (\<lambda>n.
       act_ensure (n = 1) (role @ '' readiness marker '' @ quoted marker @ '' observed '' @ decimal n @
         '' times (expected exactly 1)''))"

definition validate_claims :: "('w, 're) suite \<Rightarrow> run_context \<Rightarrow> (scenario_run \<times> 'w, unit) act" where
  "validate_claims SU C =
     (let OS = su_os SU in
      act_then (in_time OS C ''ValidateClaims'')
     (act_bind (of_run rn_loaded_claims) (\<lambda>claims.
      act_then (act_ensure (claims \<noteq> [])
        (''no claims were loaded before validation for scenario '' @ quoted (st_id (rc_template C))))
     (act_bind (in_world (act_get (\<lambda>w. split_claim_outcomes
         (evaluate_claims OS (su_claims SU) (rc_artifact_dir C) claims w)))) (\<lambda>(must, forbidden, reason).
      act_then (set_run (\<lambda>run. run\<lparr>rn_claim_outcomes := must, rn_forbidden_claim_outcomes := forbidden\<rparr>))
     (act_bind (of_run rn_streamer) (\<lambda>sp. case sp of
        None \<Rightarrow> act_fail ''streamer process missing during claim validation''
      | Some streamer \<Rightarrow>
     act_bind (of_run rn_passive) (\<lambda>pp. case pp of
        None \<Rightarrow> act_fail ''passive process missing during claim validation''
      | Some passive \<Rightarrow>
      act_then (marker_once OS ''streamer'' streamer READY_STREAMER_INITIALIZED)
     (act_then (marker_once OS ''passive'' passive READY_LISTENER_REGISTERED)
     (case reason of None \<Rightarrow> act_ret () | Some e \<Rightarrow> act_fail e))))))))))"

definition ensure_process_exited :: "role \<Rightarrow> string \<Rightarrow> (scenario_run \<times> 'w, unit) act" where
  "ensure_process_exited rl role =
     act_bind (of_run (process_of rl)) (\<lambda>p. case p of
       None \<Rightarrow> act_ret ()
     | Some p \<Rightarrow> act_ensure (has_exited p)
         (role @ '' process '' @ quoted (mp_name p) @ '' remained alive after teardown''))"

definition terminate_role :: "'w os \<Rightarrow> role \<Rightarrow> (scenario_run \<times> 'w, unit) act" where
  "terminate_role OS rl =
     on_process rl (terminate_gracefully OS (secs SIGINT_GRACE_SECS) (secs SIGTERM_GRACE_SECS)) ()"

definition teardown :: "'w os \<Rightarrow> run_context \<Rightarrow> (scenario_run \<times> 'w, unit) act" where
  "teardown OS C =
     act_then (terminate_role OS Active_Role)
    (act_then (terminate_role OS Passive_Role)
    (act_then (terminate_role OS Streamer_Role)
    (act_then (act_bind (of_run rn_mqtt_broker_started) (\<lambda>started.
        act_when (st_requires_docker (rc_template C) \<and> started)
          (in_world (stop_mqtt_broker OS (rc_root C) (sa_no_bootstrap (rc_args C))))))
    (act_then (ensure_process_exited Active_Role ''active'')
    (act_then (ensure_process_exited Passive_Role ''passive'')
       (ensure_process_exited Streamer_Role ''streamer''))))))"

definition scenario_phases :: "('w, 're) suite \<Rightarrow> run_context \<Rightarrow> (scenario_run \<times> 'w, unit) act" where
  "scenario_phases SU C =
     (let OS = su_os SU; T = rc_template C in
      act_then (always_phase OS ''Preflight'' (preflight SU C))
     (act_then (next_phase OS ''StartInfra'' (start_infra OS C))
     (act_then (next_phase OS ''WaitStreamerReady''
        (wait_ready OS C ''WaitStreamerReady'' ''streamer'' rn_streamer (st_streamer T)
           STREAMER_READY_TIMEOUT_SECS))
     (act_then (next_phase OS ''StartPassive'' (start_passive OS C))
     (act_then (next_phase OS ''WaitPassiveReady''
        (wait_ready OS C ''WaitPassiveReady'' ''passive'' rn_passive (st_passive T)
           PASSIVE_READY_TIMEOUT_SECS))
     (act_then (next_phase OS ''StartActive'' (start_active OS C))
     (act_then (next_phase OS ''ValidateClaims'' (validate_claims SU C))
     (act_then (always_phase OS ''Teardown'' (teardown OS C))
        (always_phase OS ''FinalizeReport'' (act_ret ()))))))))))"

section \<open>The run\<close>

definition gather_process_metadata :: "scenario_run \<Rightarrow> process_metadata list" where
  "gather_process_metadata run =
     map (\<lambda>p. \<lparr>pm_name = mp_name p, pm_pid = mp_pid p, pm_process_group_id = mp_process_group_id p,
               pm_command = mp_command_line p, pm_workdir = mp_workdir p, pm_log_file = mp_log_path p,
               pm_exit_status = mp_exit_status_code p\<rparr>)
       (List.map_filter (\<lambda>p. p) [rn_streamer run, rn_passive run, rn_active run])"

definition render_repro_command :: "string \<Rightarrow> scenario_cli_args \<Rightarrow> string \<Rightarrow> string" where
  "render_repro_command scenario_id args artifact_dir =
     str_join '' ''
       ([''cargo run -p transport-smoke-suite --bin'', scenario_id, ''--'',
         ''--artifacts-root '' @ shell_escape (or_text (path_parent artifact_dir) artifact_dir),
         ''--send-count '' @ decimal (sa_send_count args),
         ''--send-interval-ms '' @ decimal (sa_send_interval_ms args)] @
        (if sa_skip_build args then [''--skip-build''] else []) @
        (if sa_no_bootstrap args then [''--no-bootstrap''] else []) @
        (case sa_claims_path args of None \<Rightarrow> [] | Some p \<Rightarrow> [''--claims-path '' @ shell_escape p]) @
        (case sa_expected_branch args of None \<Rightarrow> [] | Some b \<Rightarrow> [''--expected-branch '' @ shell_escape b]) @
        (case sa_scenario_timeout_secs args of None \<Rightarrow> []
         | Some n \<Rightarrow> [''--scenario-timeout-secs '' @ decimal n]))"

definition run_passed :: "scenario_run \<Rightarrow> bool" where
  "run_passed run \<longleftrightarrow> rn_failure_reason run = None \<and> list_all cl_pass (rn_claim_outcomes run) \<and>
     list_all cl_pass (rn_forbidden_claim_outcomes run)"

definition report_of_run ::
  "'w os \<Rightarrow> run_context \<Rightarrow> scenario_run \<Rightarrow> nat \<Rightarrow> nat \<Rightarrow> nat \<Rightarrow> scenario_report" where
  "report_of_run OS C run start_wall end_wall duration_ms =
     (let T = rc_template C; pass = run_passed run in
      \<lparr>sr_schema_version = SCENARIO_REPORT_SCHEMA_VERSION, sr_scenario_id = st_id T,
       sr_transport_family = transport_family_as_str (st_transport_family T), sr_pass = pass,
       sr_exit_code = (if pass then 0 else 1), sr_phase_timings = rn_phase_timings run,
       sr_processes = gather_process_metadata run, sr_claim_outcomes = rn_claim_outcomes run,
       sr_forbidden_claim_outcomes = rn_forbidden_claim_outcomes run,
       sr_failure_reason = rn_failure_reason run,
       sr_repro_command = render_repro_command (st_id T) (rc_args C) (rc_artifact_dir C),
       sr_artifact_dir = rc_artifact_dir C, sr_claims_source_path = rn_claims_source_path run,
       sr_start_ts = timestamp_to_string OS start_wall, sr_end_ts = timestamp_to_string OS end_wall,
       sr_duration_ms = duration_ms\<rparr>)"

text \<open>Runs an action with variables of its own and answers them.\<close>

definition with_variables :: "'s \<Rightarrow> ('s \<times> 'w, 'a) act \<Rightarrow> ('w, 'a \<times> 's) act" where
  "with_variables s m w =
     (case m (s, w) of
        None \<Rightarrow> None
      | Some (Inl e, (t, w')) \<Rightarrow> Some (Err e, w')
      | Some (Inr x, (t, w')) \<Rightarrow> Some (Ok (x, t), w'))"

definition printed_lines :: "scenario_report \<Rightarrow> string \<Rightarrow> string list" where
  "printed_lines r json =
     [''SCENARIO_ID='' @ sr_scenario_id r,
      ''SCENARIO_STATUS='' @ pass_text (sr_pass r),
      ''SCENARIO_ARTIFACT_DIR='' @ sr_artifact_dir r,
      ''SCENARIO_REPORT_JSON='' @ json,
      ''SCENARIO_CLAIMS_SOURCE_PATH='' @ or_text (sr_claims_source_path r) ''<not-resolved>'']"

text \<open>From the directory for the artifacts on.\<close>

definition run_in_context ::
  "('w, 're) suite \<Rightarrow> run_context \<Rightarrow> nat \<Rightarrow> nanos \<Rightarrow> ('w, scenario_run_result \<times> string list) act" where
  "run_in_context SU C start_wall start =
     (let OS = su_os SU in
      act_bind (with_variables run_start (scenario_phases SU C)) (\<lambda>(_, run).
      act_bind (value_of (os_utc OS)) (\<lambda>end_wall.
      act_bind (value_of (os_now OS)) (\<lambda>now.
      (let r = report_of_run OS C run start_wall end_wall (as_millis (now - start)) in
       act_bind (write_scenario_report OS (su_reports SU) r (rc_artifact_dir C)) (\<lambda>(json, txt).
         act_ret (\<lparr>rr_pass = sr_pass r, rr_exit_code = sr_exit_code r,
                   rr_artifact_dir = rc_artifact_dir C, rr_report_json = json, rr_report_txt = txt,
                   rr_failure_reason = rn_failure_reason run\<rparr>, printed_lines r json)))))))"

text \<open>The result and the lines it prints.\<close>

definition run_scenario ::
  "('w, 're) suite \<Rightarrow> string \<Rightarrow> scenario_cli_args \<Rightarrow> ('w, scenario_run_result \<times> string list) act" where
  "run_scenario SU scenario_id args =
     (let OS = su_os SU in
      case scenario_template scenario_id of
        None \<Rightarrow> act_fail (''unknown scenario id '' @ quoted scenario_id)
      | Some T \<Rightarrow>
          act_bind (act_lift (repo_root (su_manifest_dir SU))) (\<lambda>root.
          act_bind (act_get (resolve_expected_branch OS (sa_expected_branch args))) (\<lambda>branch.
          act_bind (scenario_timestamp OS) (\<lambda>ts.
          (let artifact_dir = path_join (path_join (resolve_artifacts_root root (sa_artifacts_root args))
                 (st_id T)) ts in
           act_then (act_context (''unable to create artifact dir '' @ artifact_dir)
             (effect (os_create_dir_all OS artifact_dir)))
          (act_bind (value_of (os_utc OS)) (\<lambda>start_wall.
           act_bind (value_of (os_now OS)) (\<lambda>start.
             run_in_context SU
               \<lparr>rc_template = T, rc_args = args, rc_root = root, rc_expected_branch = branch,
                rc_artifact_dir = artifact_dir,
                rc_deadline = start + secs (case sa_scenario_timeout_secs args of
                  None \<Rightarrow> st_hard_timeout_secs_default T | Some n \<Rightarrow> n)\<rparr>
               start_wall start))))))))"

section \<open>The binaries\<close>

text \<open>
  The binaries under src/bin run one scenario each; their command line (clap) is read before. The exit
  code is 2 when no result was reached.
\<close>

definition scenario_main :: "('w, 're) suite \<Rightarrow> string \<Rightarrow> scenario_cli_args \<Rightarrow> ('w, nat) act" where
  "scenario_main SU scenario_id args =
     act_bind (act_try (run_scenario SU scenario_id args)) (\<lambda>result.
       act_ret (case result of
         Inr (res, _) \<Rightarrow> if rr_pass res then 0 else 1
       | Inl e \<Rightarrow> 2))"

definition main_mqtt_rr_zenoh_client :: "('w, 're) suite \<Rightarrow> scenario_cli_args \<Rightarrow> ('w, nat) act" where
  "main_mqtt_rr_zenoh_client SU args = scenario_main SU ''smoke-zenoh-mqtt-rr-zenoh-client-mqtt-service'' args"

definition main_mqtt_rr_mqtt_client :: "('w, 're) suite \<Rightarrow> scenario_cli_args \<Rightarrow> ('w, nat) act" where
  "main_mqtt_rr_mqtt_client SU args = scenario_main SU ''smoke-zenoh-mqtt-rr-mqtt-client-zenoh-service'' args"

definition main_mqtt_ps_zenoh_publisher :: "('w, 're) suite \<Rightarrow> scenario_cli_args \<Rightarrow> ('w, nat) act" where
  "main_mqtt_ps_zenoh_publisher SU args = scenario_main SU ''smoke-zenoh-mqtt-ps-zenoh-publisher-mqtt-subscriber'' args"

definition main_mqtt_ps_mqtt_publisher :: "('w, 're) suite \<Rightarrow> scenario_cli_args \<Rightarrow> ('w, nat) act" where
  "main_mqtt_ps_mqtt_publisher SU args = scenario_main SU ''smoke-zenoh-mqtt-ps-mqtt-publisher-zenoh-subscriber'' args"

definition main_someip_rr_zenoh_client :: "('w, 're) suite \<Rightarrow> scenario_cli_args \<Rightarrow> ('w, nat) act" where
  "main_someip_rr_zenoh_client SU args = scenario_main SU ''smoke-zenoh-someip-rr-zenoh-client-someip-service'' args"

definition main_someip_rr_someip_client :: "('w, 're) suite \<Rightarrow> scenario_cli_args \<Rightarrow> ('w, nat) act" where
  "main_someip_rr_someip_client SU args = scenario_main SU ''smoke-zenoh-someip-rr-someip-client-zenoh-service'' args"

definition main_someip_ps_zenoh_publisher :: "('w, 're) suite \<Rightarrow> scenario_cli_args \<Rightarrow> ('w, nat) act" where
  "main_someip_ps_zenoh_publisher SU args = scenario_main SU ''smoke-zenoh-someip-ps-zenoh-publisher-someip-subscriber'' args"

definition main_someip_ps_someip_publisher :: "('w, 're) suite \<Rightarrow> scenario_cli_args \<Rightarrow> ('w, nat) act" where
  "main_someip_ps_someip_publisher SU args = scenario_main SU ''smoke-zenoh-someip-ps-someip-publisher-zenoh-subscriber'' args"

end
