(* ===== verification/Smoke_Returns.thy ===== *)
theory Smoke_Returns
  imports Smoke_Scenario
begin

text \<open>
  The actions of the smoke suite return: the polling loops are left because the clock goes on, everything
  else is built from steps that return.
\<close>

section \<open>Runs return\<close>

abbreviation always_returns :: "('s, 'a) act \<Rightarrow> bool" where
  "always_returns \<equiv> act_returns (\<lambda>_. True)"

lemma marker_wait_total:
  assumes "clock_ok OS clock"
  shows "always_returns (wait_for_exact_marker OS log_path marker timeout (millis LOG_POLL_INTERVAL_MS))"
proof (rule act_returnsI)
  fix w
  obtain t w1 where now: "os_now OS w = (t, w1)" by fastforce
  have "0 < millis LOG_POLL_INTERVAL_MS" by (simp add: millis_def LOG_POLL_INTERVAL_MS_def)
  from marker_loop_returns [OF assms this, of log_path marker "t + timeout" w1] now
  show "\<exists>r s'. wait_for_exact_marker OS log_path marker timeout (millis LOG_POLL_INTERVAL_MS) w
      = Some (r, s') \<and> True"
    by (auto simp: wait_for_exact_marker_def act_bind_def value_of_def)
qed

lemma shell_command_clock:
  assumes "clock_ok OS clock" and "run_shell_command OS root dir c nb w = Some (r, w')"
  shows "clock w \<le> clock w'"
  using assms(2) clock_output [OF assms(1)]
  by (auto simp: run_shell_command_def Let_def act_runs)

lemma run_shell_command_total: "commands_end OS \<Longrightarrow> always_returns (run_shell_command OS root dir c nb)"
  unfolding run_shell_command_def Let_def by (intro act_total commands_end_total) simp_all

lemma shell_command_returns:
  "commands_end OS \<Longrightarrow> \<exists>r w'. run_shell_command OS root dir c nb w = Some (r, w')"
  using act_returnsD [OF run_shell_command_total, of OS] by blast

lemma broker_loop_returns:
  assumes "clock_ok OS clock" and ends: "commands_end OS"
  shows "\<exists>r w'. broker_loop OS root broker_deadline deadline w = Some (r, w')"
proof (induction "broker_deadline - clock w" arbitrary: w rule: less_induct)
  case less
  note unfold = broker_loop.simps [of OS root broker_deadline deadline w]
  let ?cmd = "''docker compose -f '' @ compose_file root @ '' ps --status running --services''"
  obtain r w1 where run: "run_shell_command OS root root ?cmd True w = Some (r, w1)"
    using shell_command_returns [OF ends] by blast
  note c1 = shell_command_clock [OF assms(1) run]
  show ?case
  proof (cases r)
    case (Inl e)
    with run show ?thesis by (simp add: unfold act_bind_def)
  next
    case (Inr out)
    show ?thesis
    proof (cases "broker_running out")
      case True
      with run Inr show ?thesis by (simp add: unfold act_bind_def act_ret_def)
    next
      case waiting: False
      obtain t w2 where now: "os_now OS w1 = (t, w2)" by fastforce
      obtain t' w3 where now': "os_now OS w2 = (t', w3)" by fastforce
      note c2 = clock_now [OF assms(1) now] and c3 = clock_now [OF assms(1) now']
      show ?thesis
      proof (cases "broker_deadline \<le> t \<or> deadline \<le> t'")
        case True
        with run Inr waiting now now' show ?thesis
          by (auto simp: unfold act_bind_def value_of_def act_fail_def)
      next
        case early: False
        let ?w4 = "os_sleep OS (millis LOG_POLL_INTERVAL_MS) w3"
        have "clock w3 + millis LOG_POLL_INTERVAL_MS \<le> clock ?w4" by (rule clock_sleep [OF assms(1)])
        moreover have "0 < millis LOG_POLL_INTERVAL_MS" by (simp add: millis_def LOG_POLL_INTERVAL_MS_def)
        ultimately have "broker_deadline - clock ?w4 < broker_deadline - clock w"
          using c1 c2 c3 early by linarith
        from less [OF this] run Inr waiting now now' early show ?thesis
          by (auto simp: unfold act_bind_def value_of_def sleep_def act_modify_def)
      qed
    qed
  qed
qed

lemma total_parts [act_total]:
  "always_returns (effect f)" "always_returns (value_of g)" "always_returns (looked_up h)"
  "always_returns (act_modify k)"
  by (auto intro: act_total)

lemma in_world_total [act_total]: "always_returns m \<Longrightarrow> always_returns (in_world m)"
  unfolding act_returns_def in_world_def by (metis (no_types, lifting) case_prod_conv option.simps(5))

lemma managed_process_total [act_total]:
  "always_returns (record_exit OS code)" "always_returns (refresh_exit_status OS)"
  "always_returns (wait_with_timeout OS d)" "always_returns (signal_process_group OS sig)"
  "always_returns (terminate_gracefully OS d1 d2)"
proof -
  show r: "always_returns (record_exit OS code)" for code
    unfolding record_exit_def by (intro act_total)
  show f: "always_returns (refresh_exit_status OS)"
    unfolding refresh_exit_status_def by (intro act_total r)
  show w: "always_returns (wait_with_timeout OS d)" for d
    unfolding wait_with_timeout_def by (intro act_total r f)
  show s: "always_returns (signal_process_group OS sig)" for sig
    unfolding signal_process_group_def by (intro act_total)
  show "always_returns (terminate_gracefully OS d1 d2)"
    unfolding terminate_gracefully_def by (intro act_total r f w s)
qed

lemma run_variables_total [act_total]: "always_returns (of_run f)" "always_returns (set_run g)"
  by (simp_all add: of_run_def set_run_def act_returns_basic act_returns_modify)

lemma on_process_total [act_total]:
  assumes "always_returns m"
  shows "always_returns (on_process rl m x)"
proof (rule act_returnsI)
  fix s
  show "\<exists>r s'. on_process rl m x s = Some (r, s') \<and> True"
  proof (cases "process_of rl (fst s)")
    case None
    then show ?thesis by (simp add: on_process_def)
  next
    case (Some p)
    obtain r q w where "m (p, snd s) = Some (r, (q, w))"
      using act_returnsD [OF assms, of "(p, snd s)"] by auto
    with Some show ?thesis by (simp add: on_process_def)
  qed
qed

lemma phase_total:
  assumes "always_returns m"
  shows "always_returns (always_phase OS name m)" and "always_returns (next_phase OS name m)"
proof -
  show r: "always_returns (always_phase OS name m)"
    unfolding always_phase_def execute_phase_def note_failure_def by (intro act_total assms)
  show "always_returns (next_phase OS name m)"
    unfolding next_phase_def by (intro act_total r)
qed

lemma steps_total:
  assumes ends: "commands_end OS"
  shows "always_returns (enforce_expected_branch OS root b)" "always_returns (ensure_remaining_timeout OS dl n)"
  "always_returns (ensure_no_stale_processes OS sigs)" "always_returns (in_time OS C n)"
  "always_returns (checked_command OS C nb c)" "always_returns (stop_mqtt_broker OS root nb)"
  "always_returns (managed_spawn OS spec root dir nb)" "always_returns (spawn_template_process OS C pt lib)"
  "always_returns (spawn_for_run OS C pt)" "always_returns (marker_once OS r p m)"
  "always_returns (ensure_process_exited rl r)" "always_returns (terminate_role OS rl)"
proof -
  show "always_returns (enforce_expected_branch OS root b)"
    unfolding enforce_expected_branch_def by (intro act_total commands_end_total ends) simp
  show t: "always_returns (ensure_remaining_timeout OS dl n)" for dl n
    unfolding ensure_remaining_timeout_def by (intro act_total)
  show "always_returns (ensure_no_stale_processes OS sigs)"
    unfolding ensure_no_stale_processes_def by (intro act_total commands_end_total ends) simp
  show "always_returns (in_time OS C n)" unfolding in_time_def by (intro act_total t)
  show "always_returns (checked_command OS C nb c)" 
    unfolding checked_command_def by (intro act_total run_shell_command_total ends)
  show "always_returns (stop_mqtt_broker OS root nb)" 
    unfolding stop_mqtt_broker_def by (intro act_total run_shell_command_total ends)
  show m: "always_returns (managed_spawn OS spec root dir nb)" for spec root dir nb
    unfolding managed_spawn_def Let_def by (intro act_total)
  show s: "always_returns (spawn_template_process OS C pt lib)" for C pt lib
    unfolding spawn_template_process_def by (intro act_total m)
  show "always_returns (spawn_for_run OS C pt)" unfolding spawn_for_run_def by (intro act_total s)
  show "always_returns (marker_once OS r p m)" unfolding marker_once_def by (intro act_total)
  show "always_returns (ensure_process_exited rl r)"
    unfolding ensure_process_exited_def by (intro act_total)
  show "always_returns (terminate_role OS rl)" unfolding terminate_role_def by (intro act_total)
qed

lemma phases_total:
  assumes clock: "clock_ok (su_os SU) clock" and ends: "commands_end (su_os SU)"
  shows "always_returns (scenario_phases SU C)"
proof -
  note steps = steps_total [OF ends] run_shell_command_total [OF ends]
  have broker: "always_returns (broker_loop (su_os SU) root bd dl)" for root bd dl
    using broker_loop_returns [OF clock ends, of root bd dl] by (simp add: act_returns_def)
  have start: "always_returns (start_mqtt_broker (su_os SU) root nb dl)" for root nb dl
    unfolding start_mqtt_broker_def by (intro act_total steps broker)
  have ready: "always_returns (wait_ready (su_os SU) C ph role f pt n)" for ph role f pt n
    unfolding wait_ready_def by (intro act_total steps marker_wait_total [OF clock])
  have validate: "always_returns (validate_claims SU C)"
    unfolding validate_claims_def Let_def
    by (intro act_total steps) (auto intro!: act_total steps split: prod.splits)
  have pre: "always_returns (preflight SU C)" unfolding preflight_def Let_def by (intro act_total steps)
  have infra: "always_returns (start_infra (su_os SU) C)"
    unfolding start_infra_def by (intro act_total steps start)
  have pas: "always_returns (start_passive (su_os SU) C)" unfolding start_passive_def by (intro act_total steps)
  have active: "always_returns (start_active (su_os SU) C)" unfolding start_active_def by (intro act_total steps)
  have down: "always_returns (teardown (su_os SU) C)" unfolding teardown_def by (intro act_total steps)
  show ?thesis
    unfolding scenario_phases_def Let_def
    by (intro act_returns_then phase_total pre infra ready pas active validate down act_returns_basic)
qed

lemma with_variables_total:
  assumes "always_returns m"
  shows "always_returns (with_variables s m)"
proof (rule act_returnsI)
  fix w
  obtain r t w' where "m (s, w) = Some (r, (t, w'))" using act_returnsD [OF assms, of "(s, w)"] by auto
  then show "\<exists>r s'. with_variables s m w = Some (r, s') \<and> True"
    by (cases r) (auto simp: with_variables_def)
qed

lemma write_report_total [act_total]: "always_returns (write_scenario_report OS RA r dir)"
  unfolding write_scenario_report_def Let_def by (intro act_total)

lemma run_in_context_total:
  assumes "clock_ok (su_os SU) clock" and "commands_end (su_os SU)"
  shows "always_returns (run_in_context SU C start_wall start)"
  unfolding run_in_context_def Let_def case_prod_beta
  by (intro act_total with_variables_total phases_total [OF assms])

end
