(* ===== verification/Smoke_Stages.thy ===== *)
theory Smoke_Stages
  imports Smoke_Scenario
begin

text \<open>
  What the phases of a smoke scenario establish, one stage after the other, and in which order they run.
\<close>

section \<open>What a passing run has done\<close>

text \<open>What holds of the variables as long as no phase has failed.\<close>

definition so_far :: "(scenario_run \<Rightarrow> bool) \<Rightarrow> scenario_run \<times> 'w \<Rightarrow> bool" where
  "so_far P s \<longleftrightarrow> (rn_failure_reason (fst s) = None \<longrightarrow> P (fst s))"

definition timing_free :: "(scenario_run \<Rightarrow> bool) \<Rightarrow> bool" where
  "timing_free P \<longleftrightarrow> (\<forall>run ts. P (run\<lparr>rn_phase_timings := ts\<rparr>) = P run)"

lemma act_spec_try:
  "act_spec P m Q E \<Longrightarrow>
     act_spec P (act_try m) (\<lambda>r s. case r of Inr x \<Rightarrow> Q x s | Inl e \<Rightarrow> E s) (\<lambda>_. False)"
  by (rule act_specI) (auto simp: act_runs split: sum.splits dest: act_specD)

lemma act_spec_world:
  "act_spec (\<lambda>s. P (fst s)) (in_world (value_of f)) (\<lambda>_ s. P (fst s)) E"
  by (rule act_specI) (auto simp: act_runs)

lemma act_spec_lift_result:
  "act_spec (\<lambda>s. case r of Inr x \<Rightarrow> Q x s | Inl e \<Rightarrow> E s) (act_lift r) Q E"
  by (rule act_specI) (auto simp: act_runs)

lemma so_far_fst: "so_far P = (\<lambda>s. rn_failure_reason (fst s) = None \<longrightarrow> P (fst s))"
  by (simp add: so_far_def fun_eq_iff)

lemma execute_phase_spec:
  assumes m: "act_spec (so_far P) m (\<lambda>_. so_far Q) (\<lambda>_. True)" and "timing_free Q"
  shows "act_spec (so_far P) (execute_phase OS name m) (\<lambda>_. so_far Q) (\<lambda>_. True)"
proof -
  note clock = act_spec_bind [OF act_spec_world [where P = "\<lambda>run. rn_failure_reason run = None \<longrightarrow> P run"]]
  let ?R = "\<lambda>(r :: (string, unit) result) run. case r of Inr x \<Rightarrow> rn_failure_reason run = None \<longrightarrow> Q run | Inl e \<Rightarrow> True"
  note later = act_spec_bind [OF act_spec_world [where P = "?R _"]]
  have tried: "act_spec (so_far P) (act_try m) (\<lambda>r s. ?R r (fst s)) (\<lambda>_. True)"
    by (rule act_spec_weaken [OF act_spec_try [OF m]]) (auto simp: so_far_def split: sum.splits)
  have set: "act_spec (\<lambda>s. ?R r (fst s)) (set_run (\<lambda>run. run\<lparr>rn_phase_timings := f run\<rparr>))
      (\<lambda>_ s. ?R r (fst s)) (\<lambda>_. True)" for r f
    unfolding set_run_def
    by (rule act_spec_modify) (use assms(2) in \<open>auto simp: timing_free_def split: sum.splits\<close>)
  have last: "act_spec (\<lambda>s. ?R r (fst s)) (act_lift r) (\<lambda>_. so_far Q) (\<lambda>_. True)" for r
    by (rule act_spec_weaken [OF act_spec_lift_result [where Q = "\<lambda>_. so_far Q" and E = "\<lambda>_. True"]])
      (auto simp: so_far_def split: sum.splits)
  show ?thesis
    unfolding execute_phase_def so_far_fst [of P]
    by (rule clock, rule clock, rule act_spec_bind [OF tried [unfolded so_far_fst [of P]]], rule later,
        rule later, rule act_spec_then [OF set], rule last)
qed

lemma always_phase_spec:
  assumes "act_spec (so_far P) m (\<lambda>_. so_far Q) (\<lambda>_. True)" and "timing_free Q"
  shows "act_spec (so_far P) (always_phase OS name m) (\<lambda>_. so_far Q) (\<lambda>_. False)"
  unfolding always_phase_def
proof (rule act_spec_bind [OF act_spec_try [OF execute_phase_spec [OF assms]]])
  fix r :: "(string, unit) result"
  show "act_spec (\<lambda>s. case r of Inr x \<Rightarrow> so_far Q s | Inl e \<Rightarrow> True) (note_failure r)
      (\<lambda>_. so_far Q) (\<lambda>_. False)"
    unfolding note_failure_def set_run_def
    by (rule act_spec_modify) (auto simp: so_far_def split: sum.splits)
qed

lemma next_phase_spec:
  assumes "act_spec (so_far P) m (\<lambda>_. so_far Q) (\<lambda>_. True)" and "timing_free Q"
  shows "act_spec (so_far P) (next_phase OS name m) (\<lambda>_. so_far Q) (\<lambda>_. False)"
  unfolding next_phase_def of_run_def
proof (rule act_spec_get_bind)
  fix reason
  show "act_spec (\<lambda>s. so_far P s \<and> rn_failure_reason (fst s) = reason)
     (act_when (reason = None) (always_phase OS name m)) (\<lambda>_. so_far Q) (\<lambda>_. False)"
  proof (rule act_spec_when)
    show "act_spec (\<lambda>s. so_far P s \<and> rn_failure_reason (fst s) = reason)
        (always_phase OS name m) (\<lambda>_. so_far Q) (\<lambda>_. False)"
      by (rule act_spec_weaken [OF always_phase_spec [OF assms]]) auto
  qed (auto simp: so_far_def)
qed

text \<open>The facts a run collects, each at the world in which it was looked at.\<close>

definition run_wf :: "scenario_run \<Rightarrow> bool" where
  "run_wf run \<longleftrightarrow> (\<forall>rl p. process_of rl run = Some p \<longrightarrow> process_wf p)"

definition claims_loaded :: "('w, 're) suite \<Rightarrow> run_context \<Rightarrow> scenario_run \<Rightarrow> bool" where
  "claims_loaded SU C run \<longleftrightarrow>
     (\<exists>w l. load_claims_for_scenario (su_os SU) (su_claims SU) (rc_root C) (st_id (rc_template C))
        (sa_claims_path (rc_args C)) (run_thresholds (rc_args C)) w = Inr l \<and>
        rn_loaded_claims run = lc_claims l)"

definition log_of :: "run_context \<Rightarrow> process_template \<Rightarrow> string" where
  "log_of C pt = path_join (rc_artifact_dir C) (pt_log_file pt)"

definition is_up :: "string \<Rightarrow> managed_process option \<Rightarrow> bool" where
  "is_up log p \<longleftrightarrow> (\<exists>q. p = Some q \<and> mp_log_path q = log)"

definition active_done :: "scenario_run \<Rightarrow> bool" where
  "active_done run \<longleftrightarrow> (\<exists>p. rn_active run = Some p \<and> mp_exit_status_code p = Some 0)"

definition validated :: "('w, 're) suite \<Rightarrow> run_context \<Rightarrow> scenario_run \<Rightarrow> bool" where
  "validated SU C run \<longleftrightarrow>
     (\<exists>w. split_claim_outcomes (evaluate_claims (su_os SU) (su_claims SU) (rc_artifact_dir C)
          (rn_loaded_claims run) w)
        = (rn_claim_outcomes run, rn_forbidden_claim_outcomes run, None) \<and>
      count_exact_marker (su_os SU) (log_of C (st_streamer (rc_template C))) READY_STREAMER_INITIALIZED w
        = Inr 1 \<and>
      count_exact_marker (su_os SU) (log_of C (st_passive (rc_template C))) READY_LISTENER_REGISTERED w
        = Inr 1)"

definition all_exited :: "scenario_run \<Rightarrow> bool" where
  "all_exited run \<longleftrightarrow> (\<forall>rl p. process_of rl run = Some p \<longrightarrow> has_exited p)"

text \<open>The stages: after the preflight, with the streamer, the passive side, the active side.\<close>

definition stage1 :: "('w, 're) suite \<Rightarrow> run_context \<Rightarrow> scenario_run \<Rightarrow> bool" where
  "stage1 SU C run \<longleftrightarrow> run_wf run \<and> claims_loaded SU C run"

definition stage2 :: "('w, 're) suite \<Rightarrow> run_context \<Rightarrow> scenario_run \<Rightarrow> bool" where
  "stage2 SU C run \<longleftrightarrow> stage1 SU C run \<and> is_up (log_of C (st_streamer (rc_template C))) (rn_streamer run)"

definition stage3 :: "('w, 're) suite \<Rightarrow> run_context \<Rightarrow> scenario_run \<Rightarrow> bool" where
  "stage3 SU C run \<longleftrightarrow> stage2 SU C run \<and> is_up (log_of C (st_passive (rc_template C))) (rn_passive run)"

definition stage4 :: "('w, 're) suite \<Rightarrow> run_context \<Rightarrow> scenario_run \<Rightarrow> bool" where
  "stage4 SU C run \<longleftrightarrow> stage3 SU C run \<and> active_done run"

definition stage5 :: "('w, 're) suite \<Rightarrow> run_context \<Rightarrow> scenario_run \<Rightarrow> bool" where
  "stage5 SU C run \<longleftrightarrow> stage4 SU C run \<and> validated SU C run"

lemmas stages = stage1_def stage2_def stage3_def stage4_def stage5_def

lemma process_of_timings [simp]: "process_of rl (run\<lparr>rn_phase_timings := ts\<rparr>) = process_of rl run"
  by (cases rl) simp_all

lemma timing_free_stages [simp]:
  "timing_free (stage1 SU C)" "timing_free (stage2 SU C)" "timing_free (stage3 SU C)"
  "timing_free (stage4 SU C)" "timing_free (stage5 SU C)"
  "timing_free (\<lambda>run. stage5 SU C run \<and> all_exited run)" "timing_free (\<lambda>run. True)"
  by (simp_all add: timing_free_def stages run_wf_def claims_loaded_def active_done_def validated_def
      all_exited_def)

lemma spawn_result:
  assumes "spawn_template_process OS C pt lib w = Some (Inr p, w')"
  shows "process_wf p \<and> mp_log_path p = log_of C pt"
proof -
  from assms obtain spec w1 where "managed_spawn OS spec (rc_root C) (rc_artifact_dir C)
      (sa_no_bootstrap (rc_args C)) w1 = Some (Inr p, w')" and "ps_log_file_name spec = pt_log_file pt"
    by (auto simp: spawn_template_process_def act_Ok split: if_splits option.splits)
  then show ?thesis
    by (auto simp: managed_spawn_def Let_def act_Ok log_of_def process_wf_def split: option.splits)
qed

lemma spawn_for_run_result:
  "spawn_for_run OS C pt s = Some (Inr p, s') \<Longrightarrow>
     fst s' = fst s \<and> process_wf p \<and> mp_log_path p = log_of C pt"
  by (auto simp: spawn_for_run_def of_run_def act_Ok dest: spawn_result)

lemma in_time_result: "in_time OS C n s = Some (Inr r, s') \<Longrightarrow> fst s' = fst s"
  by (auto simp: in_time_def act_Ok)

lemma so_farI: "(\<And>s s' x. m s = Some (Inr x, s') \<Longrightarrow> rn_failure_reason (fst s') = None \<Longrightarrow>
    rn_failure_reason (fst s) = None \<and> (P (fst s) \<longrightarrow> Q (fst s'))) \<Longrightarrow>
  act_spec (so_far P) m (\<lambda>_. so_far Q) (\<lambda>_. True)"
  by (rule act_specI) (auto simp: so_far_def)

lemma process_of_put [simp]:
  "process_of rl' (put_process rl p run) = (if rl' = rl then Some p else process_of rl' run)"
  by (cases rl; cases rl') simp_all

lemma run_wf_put: "run_wf run \<Longrightarrow> process_wf p \<Longrightarrow> run_wf (put_process rl p run)"
  by (auto simp: run_wf_def)

lemma put_process_simps [simp]:
  "rn_failure_reason (put_process rl p run) = rn_failure_reason run"
  "rn_loaded_claims (put_process rl p run) = rn_loaded_claims run"
  "rn_claim_outcomes (put_process rl p run) = rn_claim_outcomes run"
  "rn_forbidden_claim_outcomes (put_process rl p run) = rn_forbidden_claim_outcomes run"
  "rn_mqtt_broker_started (put_process rl p run) = rn_mqtt_broker_started run"
  by (cases rl; simp)+

lemma stage_put:
  "claims_loaded SU C (put_process rl p run) = claims_loaded SU C run"
  "validated SU C (put_process rl p run) = validated SU C run"
  by (simp_all add: claims_loaded_def validated_def)

subsection \<open>Steps that leave the variables alone\<close>

definition act_keeps :: "(scenario_run \<times> 'w, 'a) act \<Rightarrow> bool" where
  "act_keeps m \<longleftrightarrow> (\<forall>s x s'. m s = Some (Inr x, s') \<longrightarrow> fst s' = fst s)"

named_theorems keeps "steps that leave the variables of the run as they are when they succeed"

lemma act_keepsD: "act_keeps m \<Longrightarrow> m s = Some (Inr x, s') \<Longrightarrow> fst s' = fst s"
  unfolding act_keeps_def by blast

lemma keeps_basic [keeps]:
  "act_keeps (in_world n)" "act_keeps (act_ret x)" "act_keeps (act_fail e)" "act_keeps (act_lift r)"
  "act_keeps (act_ensure b e)" "act_keeps (of_run f)"
  by (auto simp: act_keeps_def of_run_def act_Ok)

lemma keeps_bind [keeps]:
  "act_keeps m \<Longrightarrow> (\<And>x. act_keeps (f x)) \<Longrightarrow> act_keeps (act_bind m f)"
  unfolding act_keeps_def act_bind_Ok by metis

lemma keeps_then [keeps]: "act_keeps m \<Longrightarrow> act_keeps n \<Longrightarrow> act_keeps (act_then m n)"
  by (simp add: act_then_def keeps_bind)

lemma keeps_cases [keeps]:
  "act_keeps m \<Longrightarrow> act_keeps (act_when b m)"
  "act_keeps m \<Longrightarrow> (\<And>y. act_keeps (f y)) \<Longrightarrow> act_keeps (case z of None \<Rightarrow> m | Some y \<Rightarrow> f y)"
  by (auto simp: act_when_def keeps_basic split: option.splits)

lemma keeps_each [keeps]: "(\<And>x. act_keeps (f x)) \<Longrightarrow> act_keeps (act_each f xs)"
proof (induction xs)
  case Nil
  show ?case by (simp add: keeps_basic)
next
  case (Cons x xs)
  then show ?case by (simp add: keeps_then)
qed

lemma keeps_steps [keeps]:
  "act_keeps (in_time OS C n)" "act_keeps (checked_command OS C nb c)" "act_keeps (marker_once OS r p m)"
  "act_keeps (ensure_process_exited rl r)" "act_keeps (spawn_for_run OS C pt)"
  unfolding in_time_def checked_command_def marker_once_def ensure_process_exited_def spawn_for_run_def
  by (intro keeps)+

lemma keeps_spec: "act_keeps m \<Longrightarrow> act_spec (so_far P) m (\<lambda>_. so_far P) (\<lambda>_. True)"
  by (rule act_specI) (auto simp: so_far_def dest: act_keepsD)

lemmas keep_then = act_spec_then [OF keeps_spec]

lemma set_run_spec:
  "(\<And>run. rn_failure_reason (f run) = None \<Longrightarrow> rn_failure_reason run = None \<and> (P run \<longrightarrow> Q (f run))) \<Longrightarrow>
     act_spec (so_far P) (set_run f) (\<lambda>_. so_far Q) (\<lambda>_. True)"
  unfolding set_run_def by (rule act_spec_modify) (auto simp: so_far_def)

text \<open>A value found in the world, with the facts about it.\<close>

lemma looked_up_spec:
  "act_spec (so_far P) (in_world (looked_up f)) (\<lambda>x. so_far (\<lambda>run. P run \<and> (\<exists>w. f w = Inr x))) (\<lambda>_. True)"
  by (rule act_specI) (auto simp: so_far_def act_Ok)

lemma spawn_spec:
  "act_spec (so_far P) (spawn_for_run OS C pt)
     (\<lambda>p. so_far (\<lambda>run. P run \<and> process_wf p \<and> mp_log_path p = log_of C pt)) (\<lambda>_. True)"
  by (rule act_specI) (auto simp: so_far_def dest: spawn_for_run_result)

section \<open>The stages are reached\<close>

lemma stage1_lib: "stage1 SU C (run\<lparr>rn_vsomeip_runtime_lib := l\<rparr>) = stage1 SU C run"
proof -
  have "process_of rl (run\<lparr>rn_vsomeip_runtime_lib := l\<rparr>) = process_of rl run" for rl by (cases rl) auto
  then show ?thesis by (simp add: stage1_def run_wf_def claims_loaded_def)
qed

lemma stage1_broker: "stage1 SU C (run\<lparr>rn_mqtt_broker_started := l\<rparr>) = stage1 SU C run"
proof -
  have "process_of rl (run\<lparr>rn_mqtt_broker_started := l\<rparr>) = process_of rl run" for rl by (cases rl) auto
  then show ?thesis by (simp add: stage1_def run_wf_def claims_loaded_def)
qed

lemma preflight_stage:
  "act_spec (so_far run_wf) (preflight SU C) (\<lambda>_. so_far (stage1 SU C)) (\<lambda>_. True)"
proof -
  have loaded: "act_spec (so_far (\<lambda>run. run_wf run \<and> (\<exists>w. load_claims_for_scenario (su_os SU) (su_claims SU)
        (rc_root C) (st_id (rc_template C)) (sa_claims_path (rc_args C))
        (run_thresholds (rc_args C)) w = Inr l)))
      (set_run (\<lambda>run. run\<lparr>rn_claims_source_path := Some (lc_source_path l), rn_loaded_claims := lc_claims l\<rparr>))
      (\<lambda>_. so_far (stage1 SU C)) (\<lambda>_. True)" for l
  proof (rule set_run_spec)
    fix run :: scenario_run
    let ?run = "run\<lparr>rn_claims_source_path := Some (lc_source_path l), rn_loaded_claims := lc_claims l\<rparr>"
    have "process_of rl ?run = process_of rl run" for rl by (cases rl) auto
    then show "rn_failure_reason run = None \<and> (run_wf run \<and> (\<exists>w. load_claims_for_scenario (su_os SU)
        (su_claims SU) (rc_root C) (st_id (rc_template C)) (sa_claims_path (rc_args C))
        (run_thresholds (rc_args C)) w = Inr l) \<longrightarrow> stage1 SU C ?run)"
      if "rn_failure_reason ?run = None"
      using that by (auto simp: stage1_def run_wf_def claims_loaded_def)
  qed
  have lib: "act_spec (so_far (stage1 SU C)) (act_when b (act_bind (in_world (looked_up f)) (\<lambda>lib.
        set_run (\<lambda>run. run\<lparr>rn_vsomeip_runtime_lib := Some lib\<rparr>)))) (\<lambda>_. so_far (stage1 SU C)) (\<lambda>_. True)"
    for b f
    by (rule act_spec_when, rule act_spec_bind [OF looked_up_spec], rule set_run_spec)
      (auto simp: stage1_lib)
  show ?thesis
    unfolding preflight_def Let_def
    by (rule keep_then, intro keeps, rule keep_then, intro keeps, rule keep_then, intro keeps,
        rule act_spec_bind [OF looked_up_spec], rule act_spec_then [OF loaded], rule keep_then,
        intro keeps, rule keep_then, intro keeps, rule act_spec_then [OF lib], rule keeps_spec, intro keeps)
qed

lemma start_infra_stage:
  "act_spec (so_far (stage1 SU C)) (start_infra OS C) (\<lambda>_. so_far (stage2 SU C)) (\<lambda>_. True)"
proof -
  have broker: "act_spec (so_far (stage1 SU C)) (act_when b (act_then (in_world m)
        (set_run (\<lambda>run. run\<lparr>rn_mqtt_broker_started := True\<rparr>)))) (\<lambda>_. so_far (stage1 SU C)) (\<lambda>_. True)" for b m
    by (rule act_spec_when, rule keep_then, intro keeps, rule set_run_spec) (auto simp: stage1_broker)
  have put: "act_spec (so_far (\<lambda>run. stage1 SU C run \<and> process_wf p \<and>
        mp_log_path p = log_of C (st_streamer (rc_template C))))
      (set_run (\<lambda>run. run\<lparr>rn_streamer := Some p\<rparr>)) (\<lambda>_. so_far (stage2 SU C)) (\<lambda>_. True)" for p
    using run_wf_put [of _ p Streamer_Role] stage_put(1) [of SU C Streamer_Role p]
    by (intro set_run_spec) (auto simp: stages is_up_def)
  show ?thesis
    unfolding start_infra_def
    by (rule keep_then, intro keeps, rule act_spec_then [OF broker], rule act_spec_bind [OF spawn_spec],
        rule put)
qed

lemma wait_ready_stage:
  "act_spec (so_far P) (wait_ready OS C ph role f pt n) (\<lambda>_. so_far P) (\<lambda>_. True)"
  unfolding wait_ready_def by (rule keeps_spec) (intro keeps)

lemma start_passive_stage:
  "act_spec (so_far (stage2 SU C)) (start_passive OS C) (\<lambda>_. so_far (stage3 SU C)) (\<lambda>_. True)"
proof -
  have put: "act_spec (so_far (\<lambda>run. stage2 SU C run \<and> process_wf p \<and>
        mp_log_path p = log_of C (st_passive (rc_template C))))
      (set_run (\<lambda>run. run\<lparr>rn_passive := Some p\<rparr>)) (\<lambda>_. so_far (stage3 SU C)) (\<lambda>_. True)" for p
    using run_wf_put [of _ p Passive_Role] stage_put(1) [of SU C Passive_Role p]
    by (intro set_run_spec) (auto simp: stages is_up_def)
  show ?thesis
    unfolding start_passive_def
    by (rule keep_then, intro keeps, rule act_spec_bind [OF spawn_spec], rule put)
qed

lemma stage3_put_active: "stage3 SU C run \<Longrightarrow> process_wf p \<Longrightarrow> stage3 SU C (put_process Active_Role p run)"
  using run_wf_put [of run p Active_Role] stage_put(1) [of SU C Active_Role p run]
  by (auto simp: stages)

lemma start_active_stage:
  "act_spec (so_far (stage3 SU C)) (start_active OS C) (\<lambda>_. so_far (stage4 SU C)) (\<lambda>_. True)"
proof -
  have put: "act_spec (so_far (\<lambda>run. stage3 SU C run \<and> process_wf p \<and>
        mp_log_path p = log_of C (st_active (rc_template C))))
      (set_run (put_process Active_Role p)) (\<lambda>_. so_far (stage3 SU C)) (\<lambda>_. True)" for p
    using stage3_put_active [of SU C _ p] by (intro set_run_spec) auto
  have wait: "act_spec (so_far (stage3 SU C)) (on_process Active_Role (wait_with_timeout OS d) False)
      (\<lambda>_. so_far (stage3 SU C)) (\<lambda>_. True)" for d
  proof (rule so_farI)
    fix s s' :: "scenario_run \<times> 'a" and x
    assume run: "on_process Active_Role (wait_with_timeout OS d) False s = Some (Inr x, s')"
      and none: "rn_failure_reason (fst s') = None"
    show "rn_failure_reason (fst s) = None \<and> (stage3 SU C (fst s) \<longrightarrow> stage3 SU C (fst s'))"
    proof (cases "rn_active (fst s)")
      case None
      with run none show ?thesis by (simp add: on_process_def)
    next
      case (Some p)
      with run obtain q w where q: "wait_with_timeout OS d (p, snd s) = Some (Inr x, (q, w))"
        "fst s' = put_process Active_Role q (fst s)"
        by (auto simp: on_process_def split: option.splits prod.splits)
      have "process_wf q" if "stage3 SU C (fst s)"
      proof -
        have "process_of Active_Role (fst s) = Some p" using Some by simp
        with that have "process_wf p" unfolding stages run_wf_def by blast
        with act_specD(1) [OF wait_with_timeout_spec _ q(1)] show ?thesis by simp
      qed
      with q(2) none stage3_put_active [of SU C "fst s" q] show ?thesis by auto
    qed
  qed
  have code: "act_spec (\<lambda>s. so_far (stage3 SU C) s \<and>
        Option.bind (rn_active (fst s)) mp_exit_status_code = code)
      (act_ensure (code = Some 0) e) (\<lambda>_. so_far (stage4 SU C)) (\<lambda>_. True)" for code e
    by (rule act_spec_ensure) (auto simp: so_far_def stage4_def active_done_def split: bind_splits)
  show ?thesis
    unfolding start_active_def
    by (rule keep_then, intro keeps, rule act_spec_bind [OF spawn_spec], rule act_spec_then [OF put],
        rule act_spec_bind [OF keeps_spec], intro keeps, rule act_spec_bind [OF wait], rule keep_then,
        intro keeps, unfold of_run_def, rule act_spec_get_bind, rule code)
qed

lemma present_Ok:
  "(case z of None \<Rightarrow> act_fail e | Some y \<Rightarrow> f y) s = Some (Inr x, s') \<longleftrightarrow>
     (\<exists>y. z = Some y \<and> f y s = Some (Inr x, s'))"
  by (auto simp: act_Ok split: option.splits)

lemma no_reason_Ok:
  "(case z of None \<Rightarrow> act_ret () | Some e \<Rightarrow> act_fail e) s = Some (Inr x, s') \<longleftrightarrow> z = None \<and> s' = s"
  by (auto simp: act_Ok split: option.splits)

lemma marker_once_Ok:
  "marker_once OS r p m s = Some (Inr x, s') \<longleftrightarrow>
     count_exact_marker OS (mp_log_path p) m (snd s) = Inr 1 \<and> s' = s"
  by (cases s) (auto simp: marker_once_def act_Ok split: if_splits)

lemma validate_claims_stage:
  "act_spec (so_far (stage4 SU C)) (validate_claims SU C) (\<lambda>_. so_far (stage5 SU C)) (\<lambda>_. True)"
proof (rule so_farI)
  fix s s' :: "scenario_run \<times> 'a" and x
  assume run: "validate_claims SU C s = Some (Inr x, s')" and none: "rn_failure_reason (fst s') = None"
  let ?split = "\<lambda>t. split_claim_outcomes (evaluate_claims (su_os SU) (su_claims SU) (rc_artifact_dir C)
      (rn_loaded_claims (fst t)) (snd t))"
  from run obtain t u sp pp where
    t: "in_time (su_os SU) C ''ValidateClaims'' s = Some (Inr u, t)"
    and s': "s' = ((fst t)\<lparr>rn_claim_outcomes := fst (?split t),
      rn_forbidden_claim_outcomes := fst (snd (?split t))\<rparr>, snd t)"
    and up: "rn_streamer (fst t) = Some sp" "rn_passive (fst t) = Some pp"
    and markers: "count_exact_marker (su_os SU) (mp_log_path sp) READY_STREAMER_INITIALIZED (snd t) = Inr 1"
      "count_exact_marker (su_os SU) (mp_log_path pp) READY_LISTENER_REGISTERED (snd t) = Inr 1"
    and reason: "snd (snd (?split t)) = None"
    by (auto simp: validate_claims_def Let_def of_run_def set_run_def act_Ok present_Ok no_reason_Ok
        marker_once_Ok case_prod_beta)
  have same: "fst t = fst s" by (rule in_time_result [OF t])
  have procs: "process_of rl (fst s') = process_of rl (fst s)" for rl
    using s' same by (cases rl) auto
  have "stage5 SU C (fst s')" if "stage4 SU C (fst s)"
  proof -
    have "stage4 SU C (fst s')"
      using that s' same procs
      by (auto simp: stages run_wf_def claims_loaded_def active_done_def)
    moreover have "validated SU C (fst s')"
      unfolding validated_def
      using that s' same up markers reason
      by (intro exI [of _ "snd t"]) (auto simp: stages is_up_def prod_eq_iff)
    ultimately show ?thesis by (simp add: stage5_def)
  qed
  with none s' same show "rn_failure_reason (fst s) = None \<and> (stage4 SU C (fst s) \<longrightarrow> stage5 SU C (fst s'))"
    by auto
qed

text \<open>What remains true while the processes are terminated.\<close>

definition stage6 :: "('w, 're) suite \<Rightarrow> run_context \<Rightarrow> scenario_run \<Rightarrow> bool" where
  "stage6 SU C run \<longleftrightarrow> run_wf run \<and> claims_loaded SU C run \<and> rn_streamer run \<noteq> None \<and>
     rn_passive run \<noteq> None \<and> active_done run \<and> validated SU C run"

lemma stage5_stage6: "stage5 SU C run \<Longrightarrow> stage6 SU C run"
  by (auto simp: stages stage6_def is_up_def)

lemma terminate_done:
  assumes "mp_exit_status_code p \<noteq> None"
  shows "terminate_gracefully OS d1 d2 (p, w) = Some (Inr (), (p, w))"
proof -
  have "refresh_exit_status OS (p, w) = Some (Inr (), (p, w))"
    using assms by (simp add: refresh_exit_status_def act_bind_def act_get_def act_ret_def)
  with assms show ?thesis
    by (simp add: terminate_gracefully_def act_then_def act_bind_def act_get_def act_ret_def)
qed

lemma stage6_put:
  assumes "stage6 SU C run" and "process_wf q"
    and "rl = Active_Role \<Longrightarrow> mp_exit_status_code q = Some 0"
  shows "stage6 SU C (put_process rl q run)"
  using assms run_wf_put [of run q rl] stage_put [of SU C rl q run]
  by (cases rl) (auto simp: stage6_def active_done_def)

lemma terminate_role_stage:
  "act_spec (so_far (stage6 SU C)) (terminate_role OS rl) (\<lambda>_. so_far (stage6 SU C)) (\<lambda>_. True)"
proof (rule so_farI)
  fix s s' :: "scenario_run \<times> 'a" and x
  assume run: "terminate_role OS rl s = Some (Inr x, s')" and none: "rn_failure_reason (fst s') = None"
  show "rn_failure_reason (fst s) = None \<and> (stage6 SU C (fst s) \<longrightarrow> stage6 SU C (fst s'))"
  proof (cases "process_of rl (fst s)")
    case None
    with run none show ?thesis by (simp add: terminate_role_def on_process_def)
  next
    case (Some p)
    with run obtain q w where
      q: "terminate_gracefully OS (secs SIGINT_GRACE_SECS) (secs SIGTERM_GRACE_SECS) (p, snd s)
        = Some (Inr x, (q, w))" and s': "fst s' = put_process rl q (fst s)"
      by (auto simp: terminate_role_def on_process_def split: option.splits prod.splits)
    have "stage6 SU C (fst s')" if st: "stage6 SU C (fst s)"
    proof -
      have "process_wf p" using st Some unfolding stage6_def run_wf_def by blast
      then have "process_wf q" using act_specD(1) [OF terminate_gracefully_spec _ q] by simp
      moreover have "mp_exit_status_code q = Some 0" if "rl = Active_Role"
      proof -
        have "mp_exit_status_code p = Some 0" using st Some that by (auto simp: stage6_def active_done_def)
        with q terminate_done [of p OS "secs SIGINT_GRACE_SECS" "secs SIGTERM_GRACE_SECS" "snd s"]
        show ?thesis by simp
      qed
      ultimately show ?thesis unfolding s' by (rule stage6_put [OF st])
    qed
    with s' none show ?thesis by simp
  qed
qed

lemma ensure_exited_spec:
  "act_spec (so_far P) (ensure_process_exited rl r)
     (\<lambda>_. so_far (\<lambda>run. P run \<and> (\<forall>p. process_of rl run = Some p \<longrightarrow> has_exited p))) (\<lambda>_. True)"
  by (rule act_specI)
    (auto simp: so_far_def ensure_process_exited_def of_run_def act_Ok split: option.splits if_splits)

lemma so_far_all_exited:
  "so_far (\<lambda>run. ((P run \<and> (\<forall>p. process_of Active_Role run = Some p \<longrightarrow> has_exited p)) \<and>
      (\<forall>p. process_of Passive_Role run = Some p \<longrightarrow> has_exited p)) \<and>
      (\<forall>p. process_of Streamer_Role run = Some p \<longrightarrow> has_exited p)) s \<Longrightarrow>
    so_far (\<lambda>run. P run \<and> all_exited run) s"
  unfolding so_far_def all_exited_def by (metis role.exhaust)

lemma teardown_stage:
  "act_spec (so_far (stage5 SU C)) (teardown OS C)
     (\<lambda>_. so_far (\<lambda>run. stage6 SU C run \<and> all_exited run)) (\<lambda>_. True)"
proof -
  have exits: "act_spec (so_far (stage6 SU C))
      (act_then (ensure_process_exited Active_Role ''active'')
         (act_then (ensure_process_exited Passive_Role ''passive'')
            (ensure_process_exited Streamer_Role ''streamer'')))
      (\<lambda>_. so_far (\<lambda>run. stage6 SU C run \<and> all_exited run)) (\<lambda>_. True)"
  proof (rule act_spec_weaken)
    show "act_spec (so_far (stage6 SU C))
      (act_then (ensure_process_exited Active_Role ''active'')
         (act_then (ensure_process_exited Passive_Role ''passive'')
            (ensure_process_exited Streamer_Role ''streamer'')))
      (\<lambda>_. so_far (\<lambda>run. ((stage6 SU C run \<and>
         (\<forall>p. process_of Active_Role run = Some p \<longrightarrow> has_exited p)) \<and>
         (\<forall>p. process_of Passive_Role run = Some p \<longrightarrow> has_exited p)) \<and>
         (\<forall>p. process_of Streamer_Role run = Some p \<longrightarrow> has_exited p))) (\<lambda>_. True)"
      by (rule act_spec_then [OF ensure_exited_spec], rule act_spec_then [OF ensure_exited_spec],
          rule ensure_exited_spec)
  qed (simp_all only: so_far_all_exited TrueI)
  have "act_spec (so_far (stage6 SU C)) (teardown OS C)
     (\<lambda>_. so_far (\<lambda>run. stage6 SU C run \<and> all_exited run)) (\<lambda>_. True)"
    unfolding teardown_def
    by (rule act_spec_then [OF terminate_role_stage], rule act_spec_then [OF terminate_role_stage],
        rule act_spec_then [OF terminate_role_stage], rule keep_then, intro keeps, rule exits)
  then show ?thesis
    by (rule act_spec_weaken) (auto simp: so_far_def intro: stage5_stage6)
qed

lemma teardown_exited:
  assumes "teardown OS C s = Some (Inr x, s')"
  shows "all_exited (fst s')"
proof -
  have ended: "\<forall>p. process_of rl (fst t) = Some p \<longrightarrow> has_exited p"
    if "ensure_process_exited rl name t = Some (Inr x, t')" for rl name t x t'
    using that by (auto simp: ensure_process_exited_def of_run_def act_Ok split: option.splits if_splits)
  have same: "t' = t" if "ensure_process_exited rl name t = Some (Inr x, t')" for rl name t x t'
    using that by (auto simp: ensure_process_exited_def of_run_def act_Ok split: option.splits if_splits)
  from assms obtain t1 t2 t3 where ends:
    "ensure_process_exited Active_Role ''active'' t1 = Some (Inr (), t2)"
    "ensure_process_exited Passive_Role ''passive'' t2 = Some (Inr (), t3)"
    "ensure_process_exited Streamer_Role ''streamer'' t3 = Some (Inr (), s')"
    unfolding teardown_def act_then_Ok by auto
  from same [OF ends(1)] same [OF ends(2)] same [OF ends(3)] have "t1 = s'" "t2 = s'" "t3 = s'"
    by simp_all
  with ended [OF ends(1)] ended [OF ends(2)] ended [OF ends(3)]
  have "\<forall>p. process_of rl (fst s') = Some p \<longrightarrow> has_exited p" for rl by (cases rl) auto
  then show ?thesis unfolding all_exited_def by blast
qed

lemma timing_free_stage6 [simp]: "timing_free (\<lambda>run. stage6 SU C run \<and> all_exited run)"
  by (simp add: timing_free_def stage6_def run_wf_def claims_loaded_def active_done_def validated_def
      all_exited_def)

lemma scenario_phases_stage:
  "act_spec (so_far run_wf) (scenario_phases SU C)
     (\<lambda>_. so_far (\<lambda>run. stage6 SU C run \<and> all_exited run)) (\<lambda>_. False)"
  unfolding scenario_phases_def Let_def
  by (rule act_spec_then [OF always_phase_spec [OF preflight_stage]], simp,
      rule act_spec_then [OF next_phase_spec [OF start_infra_stage]], simp,
      rule act_spec_then [OF next_phase_spec [OF wait_ready_stage]], simp,
      rule act_spec_then [OF next_phase_spec [OF start_passive_stage]], simp,
      rule act_spec_then [OF next_phase_spec [OF wait_ready_stage]], simp,
      rule act_spec_then [OF next_phase_spec [OF start_active_stage]], simp,
      rule act_spec_then [OF next_phase_spec [OF validate_claims_stage]], simp,
      rule act_spec_then [OF always_phase_spec [OF teardown_stage]], simp,
      rule always_phase_spec, rule act_spec_ret, assumption, simp)

lemma run_scenario_Ok:
  assumes "run_scenario SU scenario_id args w = Some (Inr (res, out), w')"
  shows "\<exists>T C start_wall start w0. scenario_template scenario_id = Some T \<and> rc_template C = T \<and>
    rc_args C = args \<and> repo_root (su_manifest_dir SU) = Inr (rc_root C) \<and>
    run_in_context SU C start_wall start w0 = Some (Inr (res, out), w')"
proof -
  obtain T where T: "scenario_template scenario_id = Some T"
    using assms by (auto simp: run_scenario_def Let_def act_fail_def split: option.splits)
  from assms have "\<exists>root b dir dl w0 sw st. repo_root (su_manifest_dir SU) = Inr root \<and>
      run_in_context SU \<lparr>rc_template = T, rc_args = args, rc_root = root,
        rc_expected_branch = b, rc_artifact_dir = dir, rc_deadline = dl\<rparr> sw st w0 = Some (Inr (res, out), w')"
    unfolding run_scenario_def Let_def T option.case act_Ok
    by (elim exE conjE) (intro exI conjI, rule sym, assumption+)
  then obtain root b dir dl w0 sw st where root: "repo_root (su_manifest_dir SU) = Inr root"
    and run: "run_in_context SU \<lparr>rc_template = T, rc_args = args, rc_root = root,
      rc_expected_branch = b, rc_artifact_dir = dir, rc_deadline = dl\<rparr> sw st w0 = Some (Inr (res, out), w')"
    by blast
  show ?thesis
    by (rule exI [of _ T], rule exI [of _ "\<lparr>rc_template = T, rc_args = args, rc_root = root,
      rc_expected_branch = b, rc_artifact_dir = dir, rc_deadline = dl\<rparr>"]) (use T root run in auto)
qed

lemma run_in_context_Ok:
  assumes "run_in_context SU C start_wall start w = Some (Inr (res, out), w')"
  shows "\<exists>run w1 r json. with_variables run_start (scenario_phases SU C) w = Some (Inr ((), run), w1) \<and>
    rr_pass res = run_passed run \<and> rr_exit_code res = (if run_passed run then 0 else 1) \<and>
    rr_failure_reason res = rn_failure_reason run \<and> rr_artifact_dir res = rc_artifact_dir C \<and>
    rr_report_json res = json \<and> json = path_join (rc_artifact_dir C) ''scenario-report.json'' \<and>
    out = printed_lines r json \<and> sr_pass r = run_passed run"
proof -
  let ?r = "\<lambda>run ew n. report_of_run (su_os SU) C run start_wall ew (as_millis (n - start))"
  from assms obtain run w1 ew n json tp w2 where
    "with_variables run_start (scenario_phases SU C) w = Some (Inr ((), run), w1)"
    and report: "write_scenario_report (su_os SU) (su_reports SU) (?r run ew n) (rc_artifact_dir C) w2
      = Some (Inr (json, tp), w')"
    and "res = \<lparr>rr_pass = sr_pass (?r run ew n), rr_exit_code = sr_exit_code (?r run ew n),
       rr_artifact_dir = rc_artifact_dir C, rr_report_json = json, rr_report_txt = tp,
       rr_failure_reason = rn_failure_reason run\<rparr>"
    and "out = printed_lines (?r run ew n) json"
    unfolding run_in_context_def Let_def act_Ok case_prod_beta by auto
  moreover from report have "json = path_join (rc_artifact_dir C) ''scenario-report.json''"
    by (auto simp: write_scenario_report_def Let_def act_Ok)
  ultimately show ?thesis
    by (intro exI [of _ run] exI [of _ w1] exI [of _ "?r run ew n"] exI [of _ json])
      (simp add: report_of_run_def Let_def)
qed

section \<open>The order of the phases\<close>

text \<open>A step that leaves a part of the variables as it is, whether it succeeds or fails.\<close>

definition act_leaves :: "(scenario_run \<Rightarrow> 'b) \<Rightarrow> (scenario_run \<times> 'w, 'a) act \<Rightarrow> bool" where
  "act_leaves f m \<longleftrightarrow> (\<forall>s r s'. m s = Some (r, s') \<longrightarrow> f (fst s') = f (fst s))"

named_theorems leaves "steps that leave the timings and the reason of a failure alone"

lemma act_leavesI: "(\<And>s r s'. m s = Some (r, s') \<Longrightarrow> f (fst s') = f (fst s)) \<Longrightarrow> act_leaves f m"
  by (simp add: act_leaves_def)

lemma act_leavesD: "act_leaves f m \<Longrightarrow> m s = Some (r, s') \<Longrightarrow> f (fst s') = f (fst s)"
  unfolding act_leaves_def by blast

lemma act_leaves_steps [leaves]:
  "act_leaves f (act_ret x)" "act_leaves f (act_fail e)" "act_leaves f (act_ensure b e)"
  "act_leaves f (of_run g)" "act_leaves f (in_world m)" "act_leaves f (act_lift q)"
  by (auto intro!: act_leavesI simp: act_runs of_run_def)

lemma act_leaves_bind [leaves]:
  assumes "act_leaves f m" and "\<And>x. act_leaves f (n x)"
  shows "act_leaves f (act_bind m n)"
proof (rule act_leavesI)
  fix s r s'
  assume "act_bind m n s = Some (r, s')"
  then show "f (fst s') = f (fst s)"
    unfolding act_bind_run by (metis act_leavesD assms)
qed

lemma act_leaves_then [leaves]: "act_leaves f m \<Longrightarrow> act_leaves f n \<Longrightarrow> act_leaves f (act_then m n)"
  by (simp add: act_then_def act_leaves_bind)

lemma act_leaves_when [leaves]: "act_leaves f m \<Longrightarrow> act_leaves f (act_when b m)"
  by (simp add: act_when_def act_leaves_steps)

lemma act_leaves_each [leaves]: "(\<And>x. act_leaves f (g x)) \<Longrightarrow> act_leaves f (act_each g xs)"
  by (induction xs) (auto intro: leaves)

lemma act_leaves_option [leaves]:
  "act_leaves f m \<Longrightarrow> (\<And>x. act_leaves f (n x)) \<Longrightarrow> act_leaves f (case z of None \<Rightarrow> m | Some x \<Rightarrow> n x)"
  by (cases z) simp_all

definition phase_state :: "scenario_run \<Rightarrow> phase_timing list \<times> string option" where
  "phase_state run = (rn_phase_timings run, rn_failure_reason run)"

lemma phase_state_put [simp]: "phase_state (put_process rl p run) = phase_state run"
  by (cases rl) (simp_all add: phase_state_def)

lemma act_leaves_set [leaves]: "(\<And>run. f (g run) = f run) \<Longrightarrow> act_leaves f (set_run g)"
  by (rule act_leavesI) (auto simp: set_run_def act_runs)

lemma act_leaves_process [leaves]: "act_leaves phase_state (on_process rl m x)"
  by (rule act_leavesI) (auto simp: on_process_def split: option.splits prod.splits)

lemma phases_leave [leaves]:
  "act_leaves phase_state (preflight SU C)" "act_leaves phase_state (start_infra OS C)"
  "act_leaves phase_state (wait_ready OS C ph role f pt n)" "act_leaves phase_state (start_passive OS C)"
  "act_leaves phase_state (start_active OS C)" "act_leaves phase_state (validate_claims SU C)"
  "act_leaves phase_state (teardown OS C)"
proof -
  note set = act_leaves_set [of phase_state, unfolded phase_state_def, folded phase_state_def]
  note steps = preflight_def start_infra_def wait_ready_def start_passive_def start_active_def
    teardown_def in_time_def spawn_for_run_def checked_command_def ensure_process_exited_def
    terminate_role_def marker_once_def
  show "act_leaves phase_state (preflight SU C)" "act_leaves phase_state (start_infra OS C)"
    "act_leaves phase_state (wait_ready OS C ph role f pt n)" "act_leaves phase_state (start_passive OS C)"
    "act_leaves phase_state (start_active OS C)" "act_leaves phase_state (teardown OS C)"
    unfolding steps Let_def by (intro leaves; simp add: phase_state_def)+
  show "act_leaves phase_state (validate_claims SU C)"
    unfolding validate_claims_def in_time_def marker_once_def Let_def case_prod_beta
    by (intro leaves; simp add: phase_state_def)
qed

text \<open>A phase adds its timing and never removes the reason of a failure.\<close>

definition phase_names :: "scenario_run \<Rightarrow> string list" where
  "phase_names run = map ph_phase (rn_phase_timings run)"

lemma always_phase_run:
  assumes "act_leaves phase_state m" and "always_phase OS name m s = Some (r, s')"
  shows "r = Inr () \<and> phase_names (fst s') = phase_names (fst s) @ [name] \<and>
    (rn_failure_reason (fst s') = None \<longrightarrow> rn_failure_reason (fst s) = None)"
proof -
  from assms(2) obtain q t where q: "execute_phase OS name m s = Some (q, t)"
    and note_: "note_failure q t = Some (r, s')"
    by (auto simp: always_phase_def act_runs)
  from q obtain s1 q1 s2 where body: "m s1 = Some (q1, s2)" "fst s1 = fst s"
    and t: "phase_names (fst t) = phase_names (fst s2) @ [name]"
      "rn_failure_reason (fst t) = rn_failure_reason (fst s2)"
    by (auto simp: execute_phase_def set_run_def act_runs phase_names_def)
  from act_leavesD [OF assms(1) body(1)] body(2) have "phase_state (fst s2) = phase_state (fst s)" by simp
  with t note_ show ?thesis
    by (auto simp: phase_state_def phase_names_def note_failure_def set_run_def act_runs
        split: sum.splits if_splits)
qed

lemma next_phase_run:
  assumes "act_leaves phase_state m" and "next_phase OS name m s = Some (r, s')"
  shows "r = Inr () \<and>
    (if rn_failure_reason (fst s) = None then phase_names (fst s') = phase_names (fst s) @ [name]
     else phase_names (fst s') = phase_names (fst s) \<and> rn_failure_reason (fst s') \<noteq> None)"
  using assms(2) always_phase_run [OF assms(1)]
  by (auto simp: next_phase_def of_run_def act_runs split: if_splits)

definition middle_phases :: "string list" where
  "middle_phases = [''StartInfra'', ''WaitStreamerReady'', ''StartPassive'', ''WaitPassiveReady'',
     ''StartActive'', ''ValidateClaims'']"

definition phases_up_to :: "nat \<Rightarrow> scenario_run \<times> 'w \<Rightarrow> bool" where
  "phases_up_to n s \<longleftrightarrow> (\<exists>k \<le> n. phase_names (fst s) = ''Preflight'' # take k middle_phases \<and>
     (rn_failure_reason (fst s) = None \<longrightarrow> k = n))"

definition phases_done :: "scenario_run \<times> 'w \<Rightarrow> bool" where
  "phases_done s \<longleftrightarrow> (\<exists>k \<le> 6. phase_names (fst s) =
     ''Preflight'' # take k middle_phases @ [''Teardown'', ''FinalizeReport''] \<and>
     (rn_failure_reason (fst s) = None \<longrightarrow> k = 6))"

lemma next_phase_order:
  assumes "act_leaves phase_state m" and "n < length middle_phases" and "middle_phases ! n = name"
  shows "act_spec (phases_up_to n) (next_phase OS name m) (\<lambda>_. phases_up_to (Suc n)) (\<lambda>_. False)"
proof -
  have more: "phases_up_to (Suc n) s' \<and> r = Inr ()"
    if "phases_up_to n s" and run: "next_phase OS name m s = Some (r, s')" for s s' r
  proof -
    from that(1) obtain k where k: "k \<le> n" "phase_names (fst s) = ''Preflight'' # take k middle_phases"
      "rn_failure_reason (fst s) = None \<longrightarrow> k = n" unfolding phases_up_to_def by (elim exE conjE)
    note step = next_phase_run [OF assms(1) run]
    show ?thesis
    proof (cases "rn_failure_reason (fst s) = None")
      case True
      with k step assms(2,3) have "phase_names (fst s') = ''Preflight'' # take (Suc n) middle_phases"
        by (simp add: take_Suc_conv_app_nth)
      with step show ?thesis unfolding phases_up_to_def by blast
    next
      case False
      with k step show ?thesis unfolding phases_up_to_def by (intro conjI exI [of _ k]) auto
    qed
  qed
  show ?thesis by (rule act_specI; drule (1) more; elim conjE; simp)
qed

lemma first_phase_order:
  assumes "act_leaves phase_state m"
  shows "act_spec (\<lambda>s. phase_names (fst s) = []) (always_phase OS ''Preflight'' m)
    (\<lambda>_. phases_up_to 0) (\<lambda>_. False)"
  by (rule act_specI) (auto simp: phases_up_to_def dest: always_phase_run [OF assms])

lemma last_phases_order:
  assumes m: "act_leaves phase_state m" and m': "act_leaves phase_state m'"
  shows "act_spec (phases_up_to 6) (act_then (always_phase OS ''Teardown'' m)
    (always_phase OS ''FinalizeReport'' m')) (\<lambda>_. phases_done) (\<lambda>_. False)"
proof -
  have "phases_done s' \<and> r = Inr ()"
    if up: "phases_up_to 6 s" and run: "act_then (always_phase OS ''Teardown'' m)
      (always_phase OS ''FinalizeReport'' m') s = Some (r, s')" for s s' r
  proof -
    from run obtain t where t: "always_phase OS ''Teardown'' m s = Some (Inr (), t)"
      "always_phase OS ''FinalizeReport'' m' t = Some (r, s')"
      using always_phase_run [OF m] unfolding act_then_run by (metis Inl_Inr_False old.unit.exhaust)
    with up always_phase_run [OF m t(1)] always_phase_run [OF m' t(2)] show ?thesis
      unfolding phases_up_to_def phases_done_def by auto
  qed
  then show ?thesis by (intro act_specI) (blast, metis Inl_Inr_False)
qed

lemma scenario_phases_order:
  "act_spec (\<lambda>s. phase_names (fst s) = []) (scenario_phases SU C) (\<lambda>_. phases_done) (\<lambda>_. False)"
proof -
  note nxt = act_spec_then [OF next_phase_order]
  have six: "(6::nat) = Suc (Suc (Suc (Suc (Suc (Suc 0)))))" by simp
  show ?thesis
    unfolding scenario_phases_def Let_def
    by (rule act_spec_then [OF first_phase_order [OF phases_leave(1)]],
      rule nxt [OF phases_leave(2)], (simp add: middle_phases_def; fail)+,
      rule nxt [OF phases_leave(3)], (simp add: middle_phases_def; fail)+,
      rule nxt [OF phases_leave(4)], (simp add: middle_phases_def; fail)+,
      rule nxt [OF phases_leave(3)], (simp add: middle_phases_def; fail)+,
      rule nxt [OF phases_leave(5)], (simp add: middle_phases_def; fail)+,
      rule nxt [OF phases_leave(6)], (simp add: middle_phases_def; fail)+,
      rule last_phases_order [OF phases_leave(7) act_leaves_steps(1), unfolded six])
qed

end
