(* ===== verification/Smoke_Run.thy ===== *)
theory Smoke_Run
  imports Smoke_Returns Smoke_Stages "HOL-Library.Code_Target_Nat"
begin

text \<open>
  What a run of a smoke scenario guarantees: it returns, a run that passes has done everything, the
  phases run in their order, and what is left when the teardown fails.
\<close>

section \<open>A run on a simulated system\<close>

text \<open>The polling loops, read from their first round.\<close>

lemma marker_loop_code [code]:
  "marker_loop OS log_path marker deadline poll_interval w =
     (case has_exact_marker OS log_path marker w of
        Inl e \<Rightarrow> Some (Inl e, w)
      | Inr found \<Rightarrow>
          if found then Some (Inr (), w)
          else (case os_now OS w of (now, w2) \<Rightarrow>
            if deadline \<le> now then Some (Inl (marker_timeout_error OS log_path marker w2), w2)
            else marker_loop OS log_path marker deadline poll_interval (os_sleep OS poll_interval w2)))"
  by (subst marker_loop.simps)
    (auto simp: act_bind_def looked_up_def value_of_def sleep_def act_ret_def act_fail_def act_modify_def
      split: sum.splits prod.splits)

lemma broker_loop_code [code]:
  "broker_loop OS root broker_deadline deadline w =
     (case run_shell_command OS root root
         (''docker compose -f '' @ compose_file root @ '' ps --status running --services'') True w of
        None \<Rightarrow> None
      | Some (Inl e, w1) \<Rightarrow> Some (Inl e, w1)
      | Some (Inr out, w1) \<Rightarrow>
          if broker_running out then Some (Inr (), w1)
          else (case os_now OS w1 of (now, w2) \<Rightarrow>
            if broker_deadline \<le> now then
              Some (Inl (''timed out waiting for MQTT broker readiness (stdout='' @
                quoted (trim (cmd_stdout out)) @ '', stderr='' @ quoted (trim (cmd_stderr out)) @ '')''), w2)
            else (case os_now OS w2 of (now', w3) \<Rightarrow>
              if deadline \<le> now' then
                Some (Inl ''scenario hard timeout reached while waiting for MQTT broker readiness'', w3)
              else broker_loop OS root broker_deadline deadline
                (os_sleep OS (millis LOG_POLL_INTERVAL_MS) w3))))"
  by (subst broker_loop.simps)
    (auto simp: act_bind_def looked_up_def value_of_def sleep_def act_ret_def act_fail_def act_modify_def
      split: option.splits sum.splits prod.splits)

definition sample_log :: string where
  "sample_log = READY_STREAMER_INITIALIZED @ [newline] @ READY_LISTENER_REGISTERED @ [newline] @
     ''sent'' @ [newline] @ ''sent'' @ [newline]"

definition sample_os :: "sim_world os" where
  "sample_os = (sim_os (\<lambda>log_path. sample_log) (\<lambda>program args.
       \<lparr>co_code = Some (if program = ''pgrep'' then 1 else 0), co_stdout = ''mosquitto'' @ [newline],
        co_stderr = [], co_status_display = []\<rparr>))
     \<lparr>os_metadata := \<lambda>p w. Ok Regular_File\<rparr>"

definition sample_suite :: "(sim_world, string) suite" where
  "sample_suite = \<lparr>su_os = sample_os, su_claims = sample_claims_api,
     su_reports = \<lparr>ra_scenario_json = (\<lambda>r. Ok (sr_scenario_id r)), ra_matrix_json = (\<lambda>m. Ok []),
       ra_parse_scenario = (\<lambda>p. Err [])\<rparr>,
     su_manifest_dir = ''/r/u/s''\<rparr>"

definition sample_args :: scenario_cli_args where
  "sample_args = \<lparr>sa_skip_build = True, sa_artifacts_root = Some ''/a'', sa_claims_path = Some ''/c'',
     sa_send_count = 12, sa_send_interval_ms = 1000, sa_scenario_timeout_secs = None,
     sa_expected_branch = None, sa_no_bootstrap = True, sa_endpoint_claim_min_count = 4,
     sa_egress_send_attempt_min_count = 2, sa_egress_send_ok_min_count = 2,
     sa_egress_worker_min_count = 1\<rparr>"

text \<open>A world in which the first scenario passes.\<close>

definition sample_id :: string where
  "sample_id = ''smoke-zenoh-mqtt-rr-zenoh-client-mqtt-service''"

definition sample_world :: sim_world where
  "sample_world = \<lparr>sw_time = 0, sw_files = [(''/c'', sample_id)], sw_children = []\<rparr>"

lemma sample_clock_ok: "clock_ok (su_os sample_suite) sw_time"
  by (simp add: sample_suite_def sample_os_def clock_ok_def sim_os_def)

lemma sample_commands_end: "commands_end (su_os sample_suite)"
  by (simp add: sample_suite_def sample_os_def commands_end_def sim_os_def)

lemma sample_run: "case run_scenario sample_suite sample_id sample_args sample_world of
   Some (Inr (res, out), w) \<Rightarrow> rr_pass res | _ \<Rightarrow> False"
  by code_simp

section \<open>Properties\<close>

text \<open>
  C18. A run of a scenario returns as long as the clock goes on and the commands it awaits without a
  timeout, git, the shell and pgrep, end: whatever they, the processes it starts and waits for and the
  files answer, both polling loops are left and every phase, the teardown and the report are reached.
\<close>

theorem run_scenario_returns:
  assumes "clock_ok (su_os SU) clock" and ends: "commands_end (su_os SU)"
  shows "\<exists>r w'. run_scenario SU scenario_id args w = Some (r, w')"
proof -
  have "always_returns (run_scenario SU scenario_id args)"
    unfolding run_scenario_def Let_def scenario_timestamp_def
    by (intro act_total run_in_context_total [OF assms])
  then show ?thesis by (simp add: act_returns_def)
qed

theorem run_scenario_returns_witness:
  "\<exists>r w'. run_scenario sample_suite sample_id sample_args sample_world = Some (r, w')"
  using run_scenario_returns [OF sample_clock_ok sample_commands_end, of sample_id sample_args sample_world] .

text \<open>
  The condition on the commands is needed: the timeout of a scenario is looked at between its steps and
  does not end a command. A run whose pgrep never ends does not return, however short its timeout.
\<close>

definition stalled_suite :: "(sim_world, string) suite" where
  "stalled_suite = sample_suite\<lparr>su_os := sample_os\<lparr>os_output := \<lambda>program args d w.
     if program = ''pgrep'' then None else os_output sample_os program args d w\<rparr>\<rparr>"

theorem timeout_does_not_end_commands:
  "run_scenario stalled_suite sample_id (sample_args\<lparr>sa_scenario_timeout_secs := Some 1\<rparr>) sample_world = None"
  by code_simp

text \<open>
  C17. A run that passes has done everything. The exit code is 0 exactly for a pass; a pass has no
  failure reason, all claims of the scenario's file hold of the logs of this run at one moment, at
  which the streamer and the passive side had announced themselves exactly once, the active side has
  ended with code 0, and all three processes have ended.
\<close>

theorem passing_run_is_genuine:
  assumes "run_scenario SU scenario_id args w = Some (Inr (res, out), w')"
  shows "rr_exit_code res = (if rr_pass res then 0 else 1) \<and>
    (rr_pass res \<longrightarrow> rr_failure_reason res = None \<and>
      (\<exists>T C run w0 w1 wl wv l.
        scenario_template scenario_id = Some T \<and> rc_template C = T \<and> rc_artifact_dir C = rr_artifact_dir res \<and>
        with_variables run_start (scenario_phases SU C) w0 = Some (Inr ((), run), w1) \<and>
        load_claims_for_scenario (su_os SU) (su_claims SU) (rc_root C) (st_id T) (sa_claims_path args)
          (run_thresholds args) wl = Inr l \<and>
        snd (snd (split_claim_outcomes (evaluate_claims (su_os SU) (su_claims SU) (rr_artifact_dir res)
          (lc_claims l) wv))) = None \<and>
        count_exact_marker (su_os SU) (log_of C (st_streamer T)) READY_STREAMER_INITIALIZED wv = Inr 1 \<and>
        count_exact_marker (su_os SU) (log_of C (st_passive T)) READY_LISTENER_REGISTERED wv = Inr 1 \<and>
        active_done run \<and> rn_streamer run \<noteq> None \<and> rn_passive run \<noteq> None \<and> all_exited run))"
proof -
  from run_scenario_Ok [OF assms] obtain T C sw st w0 where
    T: "scenario_template scenario_id = Some T" and C: "rc_template C = T" "rc_args C = args"
    and ctx: "run_in_context SU C sw st w0 = Some (Inr (res, out), w')" by blast
  from run_in_context_Ok [OF ctx] obtain run w1 where
    vars: "with_variables run_start (scenario_phases SU C) w0 = Some (Inr ((), run), w1)"
    and res: "rr_pass res = run_passed run" "rr_exit_code res = (if run_passed run then 0 else 1)"
      "rr_failure_reason res = rn_failure_reason run" "rr_artifact_dir res = rc_artifact_dir C" by blast
  have "scenario_phases SU C (run_start, w0) = Some (Inr (), (run, w1))"
    using vars by (auto simp: with_variables_def split: option.splits prod.splits sum.splits)
  moreover have "so_far run_wf (run_start, w0)"
  proof -
    have "process_of rl run_start = None" for rl by (cases rl) (simp_all add: run_start_def)
    then show ?thesis by (simp add: so_far_def run_wf_def)
  qed
  ultimately have "so_far (\<lambda>run. stage6 SU C run \<and> all_exited run) (run, w1)"
    using act_specD(1) [OF scenario_phases_stage] by blast
  then have facts: "stage6 SU C run \<and> all_exited run" if "run_passed run"
    using that by (simp add: so_far_def run_passed_def)
  have "rr_failure_reason res = None \<and>
      (\<exists>wl wv l. load_claims_for_scenario (su_os SU) (su_claims SU) (rc_root C) (st_id T) (sa_claims_path args)
          (run_thresholds args) wl = Inr l \<and>
        snd (snd (split_claim_outcomes (evaluate_claims (su_os SU) (su_claims SU) (rr_artifact_dir res)
          (lc_claims l) wv))) = None \<and>
        count_exact_marker (su_os SU) (log_of C (st_streamer T)) READY_STREAMER_INITIALIZED wv = Inr 1 \<and>
        count_exact_marker (su_os SU) (log_of C (st_passive T)) READY_LISTENER_REGISTERED wv = Inr 1) \<and>
      active_done run \<and> rn_streamer run \<noteq> None \<and> rn_passive run \<noteq> None \<and> all_exited run"
    if "rr_pass res"
  proof -
    from that res(1) facts have f: "stage6 SU C run" "all_exited run" "rn_failure_reason run = None"
      by (simp_all add: run_passed_def)
    from f(1) obtain wl l where "load_claims_for_scenario (su_os SU) (su_claims SU) (rc_root C) (st_id T)
        (sa_claims_path args) (run_thresholds args) wl = Inr l" "rn_loaded_claims run = lc_claims l"
      using C by (auto simp: stage6_def claims_loaded_def)
    moreover have "validated SU C run" using f(1) by (simp add: stage6_def)
    then obtain wv where "snd (snd (split_claim_outcomes (evaluate_claims (su_os SU)
        (su_claims SU) (rc_artifact_dir C) (rn_loaded_claims run) wv))) = None"
      "count_exact_marker (su_os SU) (log_of C (st_streamer T)) READY_STREAMER_INITIALIZED wv = Inr 1"
      "count_exact_marker (su_os SU) (log_of C (st_passive T)) READY_LISTENER_REGISTERED wv = Inr 1"
      unfolding validated_def C by (metis snd_conv)
    ultimately show ?thesis using f res(3,4) by (metis stage6_def)
  qed
  with T C vars res show ?thesis by metis
qed

theorem passing_run_is_genuine_witness:
  "\<exists>res out w'. run_scenario sample_suite sample_id sample_args sample_world = Some (Inr (res, out), w') \<and>
     rr_exit_code res = 0 \<and> rr_failure_reason res = None"
proof -
  from sample_run obtain res out w' where
    run: "run_scenario sample_suite sample_id sample_args sample_world = Some (Inr (res, out), w')"
    and "rr_pass res"
    by (auto split: option.splits prod.splits sum.splits)
  with passing_run_is_genuine [OF run] show ?thesis by auto
qed

text \<open>
  C19. The phases run in their order and the run is always torn down. Whatever fails, the phases of a run
  never fail as a whole; the timings they leave are those of the preflight, of the first \<open>n\<close> of the
  six phases between, and of the teardown and the report, and \<open>n\<close> is less than six only when a
  failure has been recorded.
\<close>

theorem phases_run_in_order:
  assumes "with_variables run_start (scenario_phases SU C) w = Some (r, w')"
  shows "\<exists>run n. r = Inr ((), run) \<and> n \<le> 6 \<and>
    map ph_phase (rn_phase_timings run) =
      ''Preflight'' # take n [''StartInfra'', ''WaitStreamerReady'', ''StartPassive'',
        ''WaitPassiveReady'', ''StartActive'', ''ValidateClaims''] @ [''Teardown'', ''FinalizeReport''] \<and>
    (rn_failure_reason run = None \<longrightarrow> n = 6)"
proof -
  from assms obtain q t where run: "scenario_phases SU C (run_start, w) = Some (q, t)"
    and r: "q = Inr () \<Longrightarrow> r = Inr ((), fst t)"
    by (auto simp: with_variables_def split: option.splits prod.splits sum.splits)
  have start: "phase_names (fst (run_start, w)) = []" by (simp add: phase_names_def run_start_def)
  have q: "q = Inr ()"
  proof (cases q)
    case (Inl e)
    with act_specD(2) [OF scenario_phases_order start, of SU C e t] run show ?thesis by simp
  qed simp
  have t: "phases_done t" using act_specD(1) [OF scenario_phases_order start, of SU C "()" t] run q by simp
  from t obtain n where "n \<le> 6" "phase_names (fst t) = ''Preflight'' # take n middle_phases @
      [''Teardown'', ''FinalizeReport'']" "rn_failure_reason (fst t) = None \<longrightarrow> n = 6"
    unfolding phases_done_def by (elim exE conjE)
  with r [OF q] show ?thesis
    unfolding phase_names_def middle_phases_def by (intro exI [of _ "fst t"] exI [of _ n] conjI)
qed

text \<open>
  C22. What the teardown leaves. When it succeeds every process of the run has ended; when the active
  process cannot be ended it fails at once, and the passive process, the streamer and the broker are left
  as they were: nothing else is done.
\<close>

theorem teardown_outcome:
  assumes "teardown OS C s = Some (r, s')"
  shows "(r = Inr () \<longrightarrow> all_exited (fst s')) \<and>
    (\<forall>e s1. terminate_role OS Active_Role s = Some (Inl e, s1) \<longrightarrow>
       r = Inl e \<and> s' = s1 \<and> rn_passive (fst s') = rn_passive (fst s) \<and>
       rn_streamer (fst s') = rn_streamer (fst s) \<and>
       rn_mqtt_broker_started (fst s') = rn_mqtt_broker_started (fst s))"
proof (intro conjI allI impI)
  assume "r = Inr ()"
  with assms show "all_exited (fst s')" using teardown_exited by blast
next
  fix e s1 assume fail: "terminate_role OS Active_Role s = Some (Inl e, s1)"
  with assms show "r = Inl e" and s1: "s' = s1" by (simp_all add: teardown_def act_then_run)
  have "fst s1 = fst s \<or> (\<exists>p. fst s1 = put_process Active_Role p (fst s))"
    using fail by (auto simp: terminate_role_def on_process_def split: option.splits prod.splits)
  with s1 show "rn_passive (fst s') = rn_passive (fst s)" "rn_streamer (fst s') = rn_streamer (fst s)"
    "rn_mqtt_broker_started (fst s') = rn_mqtt_broker_started (fst s)" by auto
qed

text \<open>Two processes are up, and no signal may be sent to the group of the active one.\<close>

definition denied_os :: "sim_world os" where
  "denied_os = sample_os\<lparr>os_kill := \<lambda>g sig w. (if g = - 102 then 1 else 0, w)\<rparr>"

definition up_process :: "nat \<Rightarrow> managed_process" where
  "up_process n = \<lparr>mp_name = [], mp_pid = 100 + int n, mp_process_group_id = 100 + int n,
     mp_command_line = [], mp_workdir = [], mp_log_path = [], mp_started_at = 0, mp_ended_at = None,
     mp_exit_status_code = None, mp_child = n\<rparr>"

definition run_up :: scenario_run where
  "run_up = run_start\<lparr>rn_streamer := Some (up_process 0), rn_active := Some (up_process 2)\<rparr>"

definition any_context :: run_context where
  "any_context = \<lparr>rc_template = SCENARIO_MQTT_RR_ZENOH_CLIENT_MQTT_SERVICE, rc_args = sample_args,
     rc_root = ''/r'', rc_expected_branch = None, rc_artifact_dir = ''/a'', rc_deadline = 0\<rparr>"

theorem teardown_outcome_witness:
  "\<exists>e s'. teardown denied_os any_context (run_up, sample_world) = Some (Inl e, s') \<and>
     rn_streamer (fst s') = Some (up_process 0) \<and> \<not> has_exited (up_process 0)"
proof -
  have "case teardown denied_os any_context (run_up, sample_world) of Some (Inl e, s') \<Rightarrow> True | _ \<Rightarrow> False"
    by code_simp
  then obtain e s' where down: "teardown denied_os any_context (run_up, sample_world) = Some (Inl e, s')"
    by (auto split: option.splits sum.splits prod.splits)
  have "case terminate_role denied_os Active_Role (run_up, sample_world) of
      Some (Inl e, s') \<Rightarrow> True | _ \<Rightarrow> False"
    by code_simp
  then obtain e1 s1 where "terminate_role denied_os Active_Role (run_up, sample_world) = Some (Inl e1, s1)"
    by (auto split: option.splits sum.splits prod.splits)
  with teardown_outcome [OF down] have "rn_streamer (fst s') = rn_streamer run_up"
    by (metis fst_conv)
  with down show ?thesis by (auto simp: run_up_def has_exited_def up_process_def)
qed

theorem phases_run_in_order_witness:
  "\<exists>run n w'. with_variables run_start (scenario_phases sample_suite any_context) sample_world
       = Some (Inr ((), run), w') \<and>
     map ph_phase (rn_phase_timings run) =
      ''Preflight'' # take n [''StartInfra'', ''WaitStreamerReady'', ''StartPassive'',
        ''WaitPassiveReady'', ''StartActive'', ''ValidateClaims''] @ [''Teardown'', ''FinalizeReport'']"
proof -
  obtain r w' where run: "with_variables run_start (scenario_phases sample_suite any_context) sample_world
      = Some (r, w')"
    using act_returnsD [OF with_variables_total [OF phases_total [OF sample_clock_ok sample_commands_end]]] by blast
  from phases_run_in_order [OF run] obtain run' n where "r = Inr ((), run')" and
    "map ph_phase (rn_phase_timings run') =
      ''Preflight'' # take n [''StartInfra'', ''WaitStreamerReady'', ''StartPassive'',
        ''WaitPassiveReady'', ''StartActive'', ''ValidateClaims''] @ [''Teardown'', ''FinalizeReport'']"
    by (elim exE conjE)
  then show ?thesis using run by (intro exI [of _ run'] exI [of _ n] exI [of _ w'] conjI) simp_all
qed

end
