(* ===== verification/Smoke_Repro.thy ===== *)
theory Smoke_Repro
  imports Smoke_Scenario "HOL-Library.Code_Target_Nat"
begin

text \<open>
  The command a scenario's report gives for running it again (render_repro_command of
  utils/transport-smoke-suite/src/scenario.rs), as a shell reads it.
\<close>

section \<open>Pieces of a command line\<close>

text \<open>Text that stands for words of its own wherever it is put in a command line.\<close>

definition shell_piece :: "string \<Rightarrow> string list \<Rightarrow> bool" where
  "shell_piece p ws \<longleftrightarrow> shell_words Unquoted None p = Some ws \<and>
     (\<forall>rest. shell_words Unquoted None (p @ '' '' @ rest) =
        map_option (append ws) (shell_words Unquoted None rest))"

lemma shell_words_plain:
  "list_all plain_shell_char w \<Longrightarrow>
     shell_words Unquoted (Some v) (w @ rest) = shell_words Unquoted (Some (v @ w)) rest"
proof (induction w arbitrary: v)
  case (Cons c w)
  then have "c \<noteq> CHR '' ''" "c \<noteq> single_quote" "c \<noteq> double_quote"
    by (auto simp: plain_shell_char_def single_quote_def double_quote_def)
  with Cons show ?case by simp
qed simp

lemma shell_words_plain_start:
  "list_all plain_shell_char w \<Longrightarrow> w \<noteq> [] \<Longrightarrow>
     shell_words Unquoted None (w @ rest) = shell_words Unquoted (Some w) rest"
proof (cases w)
  case (Cons c v)
  assume "list_all plain_shell_char w"
  with Cons have "c \<noteq> CHR '' ''" "c \<noteq> single_quote" "c \<noteq> double_quote" "plain_shell_char c"
    "list_all plain_shell_char v"
    by (auto simp: plain_shell_char_def single_quote_def double_quote_def)
  with Cons show ?thesis using shell_words_plain [of v "[c]" rest] by simp
qed simp

lemma plain_piece: "list_all plain_shell_char w \<Longrightarrow> w \<noteq> [] \<Longrightarrow> shell_piece w [w]"
  using shell_words_plain_start [of w "[]"] shell_words_plain_start [of w "'' '' @ rest" for rest]
  by (auto simp: shell_piece_def fun_eq_iff intro!: option.map_cong0)

lemma escaped_piece: "shell_piece (shell_escape v) [v]"
  using shell_words_escape [of None v "[]"] shell_words_escape [of None v "'' '' @ rest" for rest]
  by (auto simp: shell_piece_def intro!: option.map_cong0)

lemma join_piece:
  assumes "shell_piece p ws" and "shell_piece q vs"
  shows "shell_piece (p @ '' '' @ q) (ws @ vs)"
proof -
  have "shell_words Unquoted None ((p @ '' '' @ q) @ '' '' @ rest)
      = map_option (append (ws @ vs)) (shell_words Unquoted None rest)" for rest
    using assms by (simp add: shell_piece_def option.map_comp comp_def) (intro option.map_cong0, simp)
  with assms show ?thesis unfolding shell_piece_def by simp
qed

lemma flag_piece:
  assumes "list_all plain_shell_char flag" and "flag \<noteq> []" and "shell_piece q vs"
  shows "shell_piece ((flag @ '' '') @ q) (flag # vs)"
  using join_piece [OF plain_piece [OF assms(1,2)] assms(3)] by simp

lemma join_pieces:
  "list_all2 shell_piece ps wss \<Longrightarrow> ps \<noteq> [] \<Longrightarrow> shell_piece (str_join '' '' ps) (concat wss)"
proof (induction ps arbitrary: wss rule: induct_list012)
  case (2 p)
  then show ?case by (auto simp: list_all2_Cons1)
next
  case (3 p q ps)
  then obtain ws wss' where wss: "wss = ws # wss'" and p: "shell_piece p ws"
    and rest: "list_all2 shell_piece (q # ps) wss'" by (auto simp: list_all2_Cons1)
  from join_piece [OF p "3.IH"(2) [OF rest]] show ?case by (simp add: wss)
qed simp

lemma digit_plain: "plain_shell_char (decimal_digit n)"
proof -
  have "list_all plain_shell_char ''0123456789''" by code_simp
  then show ?thesis unfolding decimal_digit_def list_all_length by simp
qed

lemma decimal_plain: "list_all plain_shell_char (decimal n) \<and> decimal n \<noteq> []"
proof (induction n rule: decimal.induct)
  case (1 n)
  then show ?case by (subst (1 2) decimal.simps) (simp add: digit_plain)
qed

lemma number_piece: "shell_piece (decimal n) [decimal n]"
  by (rule plain_piece) (use decimal_plain in auto)

lemma flag_number: "list_all plain_shell_char flag \<Longrightarrow> flag \<noteq> [] \<Longrightarrow>
    shell_piece ((flag @ '' '') @ decimal n) [flag, decimal n]"
  by (rule flag_piece [OF _ _ number_piece])

lemma flag_text: "list_all plain_shell_char flag \<Longrightarrow> flag \<noteq> [] \<Longrightarrow>
    shell_piece ((flag @ '' '') @ shell_escape v) [flag, v]"
  by (rule flag_piece [OF _ _ escaped_piece])

lemma flag_literals:
  "''--artifacts-root'' @ '' '' = ''--artifacts-root ''" "''--send-count'' @ '' '' = ''--send-count ''"
  "''--send-interval-ms'' @ '' '' = ''--send-interval-ms ''" "''--claims-path'' @ '' '' = ''--claims-path ''"
  "''--expected-branch'' @ '' '' = ''--expected-branch ''"
  "''--scenario-timeout-secs'' @ '' '' = ''--scenario-timeout-secs ''"
  by simp_all

section \<open>The command\<close>

definition repro_words :: "string \<Rightarrow> scenario_cli_args \<Rightarrow> string \<Rightarrow> string list" where
  "repro_words scenario_id args artifacts_root =
     [''cargo'', ''run'', ''-p'', ''transport-smoke-suite'', ''--bin'', scenario_id, ''--'',
      ''--artifacts-root'', artifacts_root, ''--send-count'', decimal (sa_send_count args),
      ''--send-interval-ms'', decimal (sa_send_interval_ms args)] @
     (if sa_skip_build args then [''--skip-build''] else []) @
     (if sa_no_bootstrap args then [''--no-bootstrap''] else []) @
     (case sa_claims_path args of None \<Rightarrow> [] | Some p \<Rightarrow> [''--claims-path'', p]) @
     (case sa_expected_branch args of None \<Rightarrow> [] | Some b \<Rightarrow> [''--expected-branch'', b]) @
     (case sa_scenario_timeout_secs args of None \<Rightarrow> []
      | Some n \<Rightarrow> [''--scenario-timeout-secs'', decimal n])"

lemma repro_command_words:
  assumes "list_all plain_shell_char scenario_id" and "scenario_id \<noteq> []"
  shows "shell_words Unquoted None (render_repro_command scenario_id args dir)
    = Some (repro_words scenario_id args (or_text (path_parent dir) dir))"
proof -
  let ?root = "or_text (path_parent dir) dir"
  let ?opts = "(if sa_skip_build args then [''--skip-build''] else []) @
     (if sa_no_bootstrap args then [''--no-bootstrap''] else []) @
     (case sa_claims_path args of None \<Rightarrow> [] | Some p \<Rightarrow> [(''--claims-path'' @ '' '') @ shell_escape p]) @
     (case sa_expected_branch args of None \<Rightarrow> []
      | Some b \<Rightarrow> [(''--expected-branch'' @ '' '') @ shell_escape b]) @
     (case sa_scenario_timeout_secs args of None \<Rightarrow> []
      | Some n \<Rightarrow> [(''--scenario-timeout-secs'' @ '' '') @ decimal n])"
  let ?wopts = "(if sa_skip_build args then [[''--skip-build'']] else []) @
     (if sa_no_bootstrap args then [[''--no-bootstrap'']] else []) @
     (case sa_claims_path args of None \<Rightarrow> [] | Some p \<Rightarrow> [[''--claims-path'', p]]) @
     (case sa_expected_branch args of None \<Rightarrow> [] | Some b \<Rightarrow> [[''--expected-branch'', b]]) @
     (case sa_scenario_timeout_secs args of None \<Rightarrow> []
      | Some n \<Rightarrow> [[''--scenario-timeout-secs'', decimal n]])"
  have flags: "list_all plain_shell_char ''--artifacts-root''" "list_all plain_shell_char ''--send-count''"
    "list_all plain_shell_char ''--send-interval-ms''" "list_all plain_shell_char ''--skip-build''"
    "list_all plain_shell_char ''--no-bootstrap''" "list_all plain_shell_char ''--claims-path''"
    "list_all plain_shell_char ''--expected-branch''" "list_all plain_shell_char ''--scenario-timeout-secs''"
    "list_all plain_shell_char ''--''"
    by code_simp+
  have cargo: "shell_piece ''cargo run -p transport-smoke-suite --bin''
      [''cargo'', ''run'', ''-p'', ''transport-smoke-suite'', ''--bin'']"
    using join_pieces [of "[''cargo'', ''run'', ''-p'', ''transport-smoke-suite'', ''--bin'']"
      "[[''cargo''], [''run''], [''-p''], [''transport-smoke-suite''], [''--bin'']]"]
    by (simp add: plain_piece plain_shell_char_def)
  have plain: "shell_piece ''--skip-build'' [''--skip-build'']"
    "shell_piece ''--no-bootstrap'' [''--no-bootstrap'']" "shell_piece ''--'' [''--'']"
    "shell_piece scenario_id [scenario_id]"
    by (rule plain_piece [OF flags(4)], simp, rule plain_piece [OF flags(5)], simp,
        rule plain_piece [OF flags(9)], simp, rule plain_piece [OF assms])
  have texts: "shell_piece ((''--artifacts-root'' @ '' '') @ shell_escape v) [''--artifacts-root'', v]"
    "shell_piece ((''--claims-path'' @ '' '') @ shell_escape v) [''--claims-path'', v]"
    "shell_piece ((''--expected-branch'' @ '' '') @ shell_escape v) [''--expected-branch'', v]" for v
    by (rule flag_text [OF flags(1)], simp, rule flag_text [OF flags(6)], simp,
        rule flag_text [OF flags(7)], simp)
  have numbers: "shell_piece ((''--send-count'' @ '' '') @ decimal n) [''--send-count'', decimal n]"
    "shell_piece ((''--send-interval-ms'' @ '' '') @ decimal n) [''--send-interval-ms'', decimal n]"
    "shell_piece ((''--scenario-timeout-secs'' @ '' '') @ decimal n) [''--scenario-timeout-secs'', decimal n]"
    for n
    by (rule flag_number [OF flags(2)], simp, rule flag_number [OF flags(3)], simp,
        rule flag_number [OF flags(8)], simp)
  have opts: "list_all2 shell_piece ?opts ?wopts"
    by (intro list_all2_appendI;
        cases "sa_claims_path args"; cases "sa_expected_branch args"; cases "sa_scenario_timeout_secs args";
        simp add: plain texts numbers del: append.simps append_Cons append_assoc)
  have "list_all2 shell_piece
     ([''cargo run -p transport-smoke-suite --bin'', scenario_id, ''--'',
       (''--artifacts-root'' @ '' '') @ shell_escape ?root,
       (''--send-count'' @ '' '') @ decimal (sa_send_count args),
       (''--send-interval-ms'' @ '' '') @ decimal (sa_send_interval_ms args)] @ ?opts)
     ([[''cargo'', ''run'', ''-p'', ''transport-smoke-suite'', ''--bin''], [scenario_id], [''--''],
       [''--artifacts-root'', ?root], [''--send-count'', decimal (sa_send_count args)],
       [''--send-interval-ms'', decimal (sa_send_interval_ms args)]] @ ?wopts)"
    by (intro list_all2_appendI [OF _ opts])
      (simp add: cargo plain texts numbers del: append.simps append_Cons append_assoc)
  from join_pieces [OF this [unfolded flag_literals]]
  have piece: "shell_piece (render_repro_command scenario_id args dir)
      (concat ([[''cargo'', ''run'', ''-p'', ''transport-smoke-suite'', ''--bin''], [scenario_id], [''--''],
       [''--artifacts-root'', ?root], [''--send-count'', decimal (sa_send_count args)],
       [''--send-interval-ms'', decimal (sa_send_interval_ms args)]] @ ?wopts))"
    unfolding render_repro_command_def by blast
  have "concat ([[''cargo'', ''run'', ''-p'', ''transport-smoke-suite'', ''--bin''], [scenario_id], [''--''],
       [''--artifacts-root'', ?root], [''--send-count'', decimal (sa_send_count args)],
       [''--send-interval-ms'', decimal (sa_send_interval_ms args)]] @ ?wopts)
     = repro_words scenario_id args ?root"
    unfolding repro_words_def by (simp split: option.split)
  with piece show ?thesis unfolding shell_piece_def by presburger
qed

section \<open>The directory it names\<close>

lemma strip_slashes_end: "p \<noteq> [] \<Longrightarrow> last p \<noteq> CHR ''/'' \<Longrightarrow> strip_slashes p = p"
  by (cases p rule: rev_cases) (simp_all add: strip_slashes_def)

lemma dropWhile_segment:
  "c \<notin> set ts \<Longrightarrow> dropWhile (\<lambda>x. x \<noteq> c) (rev ts @ c # xs) = c # xs"
  by (subst dropWhile_append2) auto

lemma path_parent_join:
  assumes "b \<noteq> []" and "last b \<noteq> CHR ''/''" and "ts \<noteq> []" and "CHR ''/'' \<notin> set ts"
  shows "path_parent (path_join b ts) = Some b"
proof -
  have "\<not> path_is_absolute ts"
    using assms(3,4) by (cases ts) (auto simp: path_is_absolute_def starts_with_def)
  with assms have join: "path_join b ts = b @ ''/'' @ ts" by (simp add: path_join_def)
  have "strip_slashes (b @ ''/'' @ ts) = b @ ''/'' @ ts"
    using assms(3,4) by (intro strip_slashes_end) (auto dest: last_in_set)
  moreover have "rev (dropWhile (\<lambda>c. c \<noteq> CHR ''/'') (rev (b @ ''/'' @ ts))) = b @ ''/''"
    using dropWhile_segment [OF assms(4), of "rev b"] by simp
  moreover have "strip_slashes (b @ ''/'') = b"
    using strip_slashes_end [OF assms(1,2)] by (simp add: strip_slashes_def)
  ultimately show ?thesis using assms(1) by (simp add: path_parent_def Let_def join)
qed

section \<open>Properties\<close>

text \<open>
  C24. The command for running a scenario again means to the shell what its words say: the binary of the
  scenario with its send count and interval, the flags that were set and the claims path, branch and
  timeout that were given, in this order and whatever characters they contain. The artifacts root it
  names is the directory of the scenario below the root the run was given, not that root; and the four
  thresholds of the claims are not among the words.
\<close>

theorem repro_command_roundtrip:
  assumes "list_all plain_shell_char scenario_id" and "scenario_id \<noteq> []" and "CHR ''/'' \<notin> set scenario_id"
    and "ts \<noteq> []" and "CHR ''/'' \<notin> set ts"
  shows "shell_words Unquoted None
      (render_repro_command scenario_id args (path_join (path_join root scenario_id) ts))
    = Some (repro_words scenario_id args (path_join root scenario_id))"
proof -
  have id: "last scenario_id \<noteq> CHR ''/''" using assms(2,3) by (auto dest: last_in_set)
  have "\<not> path_is_absolute scenario_id"
    using assms(2,3) by (cases scenario_id) (auto simp: path_is_absolute_def starts_with_def)
  with id assms(2) have "path_join root scenario_id \<noteq> []" "last (path_join root scenario_id) \<noteq> CHR ''/''"
    by (auto simp: path_join_def)
  from path_parent_join [OF this assms(4,5)] repro_command_words [OF assms(1,2)]
  show ?thesis by (simp add: or_text_def)
qed

definition repro_args :: scenario_cli_args where
  "repro_args = \<lparr>sa_skip_build = False, sa_artifacts_root = Some ''/a'', sa_claims_path = Some ''my claims'',
     sa_send_count = 12, sa_send_interval_ms = 1000, sa_scenario_timeout_secs = None,
     sa_expected_branch = None, sa_no_bootstrap = True, sa_endpoint_claim_min_count = 9,
     sa_egress_send_attempt_min_count = 9, sa_egress_send_ok_min_count = 9,
     sa_egress_worker_min_count = 9\<rparr>"

theorem repro_command_roundtrip_witness:
  "shell_words Unquoted None (render_repro_command ''smoke'' repro_args
      (path_join (path_join ''/a'' ''smoke'') ''20260101T000000Z''))
    = Some [''cargo'', ''run'', ''-p'', ''transport-smoke-suite'', ''--bin'', ''smoke'', ''--'',
        ''--artifacts-root'', ''/a/smoke'', ''--send-count'', ''12'', ''--send-interval-ms'', ''1000'',
        ''--no-bootstrap'', ''--claims-path'', ''my claims'']"
proof -
  have "list_all plain_shell_char ''smoke''" by code_simp
  note words = repro_command_roundtrip [OF this, of "''20260101T000000Z''" repro_args "''/a''"]
  have "repro_words ''smoke'' repro_args (path_join ''/a'' ''smoke'')
    = [''cargo'', ''run'', ''-p'', ''transport-smoke-suite'', ''--bin'', ''smoke'', ''--'',
        ''--artifacts-root'', ''/a/smoke'', ''--send-count'', ''12'', ''--send-interval-ms'', ''1000'',
        ''--no-bootstrap'', ''--claims-path'', ''my claims'']"
    by code_simp
  with words show ?thesis by simp
qed

end
