(* ===== verification/Smoke_Matrix.thy ===== *)
theory Smoke_Matrix
  imports Smoke_Scenario "HOL-Library.Char_ord" "HOL-Library.List_Lexorder"
    "HOL-Library.Code_Target_Nat"
begin

text \<open>
  The matrix of smoke scenarios (utils/transport-smoke-suite/src/bin/transport-smoke-matrix.rs): the
  selected scenarios are run one after the other as processes of their own, their reports are found and
  read, and the summary decides the exit code.

  The state is the list of the lines printed so far and the world.
\<close>

section \<open>Arguments\<close>

record matrix_cli =
  mc_all :: bool
  mc_only :: "string list"
  mc_skip_build :: bool
  mc_artifacts_root :: "string option"
  mc_claims_path :: "string option"
  mc_send_count :: nat
  mc_send_interval_ms :: nat
  mc_scenario_timeout_secs :: "nat option"
  mc_expected_branch :: "string option"
  mc_no_bootstrap :: bool
  mc_endpoint_claim_min_count :: nat
  mc_egress_send_attempt_min_count :: nat
  mc_egress_send_ok_min_count :: nat
  mc_egress_worker_min_count :: nat

fun select_known :: "string list \<Rightarrow> string list \<Rightarrow> (string, string list) result" where
  "select_known [] selected = Ok selected"
| "select_known (scenario_id # ids) selected =
     (if scenario_template scenario_id = None then
        Err (''unknown scenario id '' @ quoted scenario_id @ ''; valid ids: '' @
             str_join '', '' scenario_ids)
      else select_known ids (selected @ [scenario_id]))"

definition resolve_selected_scenarios :: "string list \<Rightarrow> (string, string list) result" where
  "resolve_selected_scenarios only =
     (if only = [] then Ok scenario_ids else select_known only [])"

section \<open>One scenario\<close>

fun find_report_line :: "string list \<Rightarrow> string option" where
  "find_report_line [] = None"
| "find_report_line (line # ls) =
     (case strip_prefix ''SCENARIO_REPORT_JSON='' line of
        Some v \<Rightarrow> Some v
      | None \<Rightarrow> find_report_line ls)"

definition parse_scenario_report_path :: "string \<Rightarrow> string option" where
  "parse_scenario_report_path output = map_option trim (find_report_line (str_lines output))"

definition report_candidate :: "'w os \<Rightarrow> 'w \<Rightarrow> (string, string) result \<Rightarrow> (string \<times> string) option" where
  "report_candidate OS w entry =
     (case entry of
        Inl e \<Rightarrow> None
      | Inr path \<Rightarrow>
          if os_metadata OS path w \<noteq> Ok Directory then None
          else if \<not> path_exists OS (path_join path ''scenario-report.json'') w then None
          else Some (path_file_name path, path_join path ''scenario-report.json''))"

definition find_latest_scenario_report :: "'w os \<Rightarrow> string \<Rightarrow> string \<Rightarrow> 'w \<Rightarrow> string option" where
  "find_latest_scenario_report OS artifacts_root scenario_id w =
     (let scenario_root = path_join artifacts_root scenario_id in
      if \<not> path_exists OS scenario_root w then None
      else (case os_read_dir OS scenario_root w of
              Inl e \<Rightarrow> None
            | Inr entries \<Rightarrow>
                (case sort_key fst (List.map_filter (report_candidate OS w) entries) of
                   [] \<Rightarrow> None
                 | c # cs \<Rightarrow> Some (snd (last (c # cs))))))"

definition scenario_command_args ::
  "matrix_cli \<Rightarrow> string \<Rightarrow> string option \<Rightarrow> string list" where
  "scenario_command_args cli artifacts_root expected_branch =
     [''--artifacts-root'', artifacts_root, ''--send-count'', decimal (mc_send_count cli),
      ''--send-interval-ms'', decimal (mc_send_interval_ms cli)] @
     (case mc_claims_path cli of None \<Rightarrow> [] | Some p \<Rightarrow> [''--claims-path'', p]) @
     [''--endpoint-claim-min-count'', decimal (mc_endpoint_claim_min_count cli),
      ''--egress-send-attempt-min-count'', decimal (mc_egress_send_attempt_min_count cli),
      ''--egress-send-ok-min-count'', decimal (mc_egress_send_ok_min_count cli),
      ''--egress-worker-min-count'', decimal (mc_egress_worker_min_count cli)] @
     (if mc_skip_build cli then [''--skip-build''] else []) @
     (if mc_no_bootstrap cli then [''--no-bootstrap''] else []) @
     (case mc_scenario_timeout_secs cli of None \<Rightarrow> []
      | Some n \<Rightarrow> [''--scenario-timeout-secs'', decimal n]) @
     (case expected_branch of None \<Rightarrow> [] | Some b \<Rightarrow> [''--expected-branch'', b])"

definition or_else :: "'a option \<Rightarrow> 'a option \<Rightarrow> 'a option" where
  "or_else x y = (case x of None \<Rightarrow> y | Some a \<Rightarrow> Some a)"

definition output_text :: "command_output \<Rightarrow> string" where
  "output_text out = [newline] @ ''stdout:'' @ [newline] @ co_stdout out @ [newline] @ ''stderr:'' @
     [newline] @ co_stderr out"

definition run_single_scenario ::
  "'w os \<Rightarrow> report_api \<Rightarrow> string \<Rightarrow> string \<Rightarrow> string \<Rightarrow> matrix_cli \<Rightarrow> string option \<Rightarrow>
   ('w, scenario_report) act" where
  "run_single_scenario OS RA root artifacts_root scenario_id cli expected_branch =
     (let binary_path = path_join (path_join (path_join root ''target'') ''debug'') scenario_id in
      act_bind (act_get (path_exists OS binary_path)) (\<lambda>found.
      act_then (act_ensure found (''scenario binary not found: '' @ binary_path @
        ''. Build with `cargo build -p transport-smoke-suite --bins`''))
     (act_bind
        (act_context_with (\<lambda>e. ''unable to execute scenario '' @ quoted scenario_id @ '': '' @ e)
           (os_output OS binary_path
              (scenario_command_args cli artifacts_root expected_branch) (Some root))) (\<lambda>out.
      act_bind (act_get (\<lambda>w.
        or_else (or_else (parse_scenario_report_path (co_stdout out))
           (parse_scenario_report_path (co_stderr out)))
          (find_latest_scenario_report OS artifacts_root scenario_id w))) (\<lambda>report_path.
      case report_path of
        None \<Rightarrow> act_fail (''scenario '' @ quoted scenario_id @
          '' did not emit SCENARIO_REPORT_JSON and no report was found under '' @
          shell_escape artifacts_root @ output_text out)
      | Some report_json_path \<Rightarrow>
          act_bind (looked_up (load_scenario_report OS RA report_json_path)) (\<lambda>r.
          act_then (act_ensure (\<not> (\<not> status_success out \<and> sr_pass r))
             (''scenario '' @ quoted scenario_id @ '' exited non-zero but report marked PASS'' @
              output_text out))
            (act_ret r)))))))"

definition build_summary_from_report :: "scenario_report \<Rightarrow> nat \<Rightarrow> matrix_scenario_summary" where
  "build_summary_from_report r duration_ms =
     \<lparr>ms_scenario_id = sr_scenario_id r, ms_pass = sr_pass r, ms_exit_code = sr_exit_code r,
      ms_artifact_dir = Some (sr_artifact_dir r), ms_failure_reason = sr_failure_reason r,
      ms_duration_ms = duration_ms\<rparr>"

definition summary_of_result ::
  "string \<Rightarrow> (string, scenario_report) result \<Rightarrow> nat \<Rightarrow> matrix_scenario_summary" where
  "summary_of_result scenario_id result duration_ms =
     (case result of
        Inr r \<Rightarrow> build_summary_from_report r duration_ms
      | Inl e \<Rightarrow> \<lparr>ms_scenario_id = scenario_id, ms_pass = False, ms_exit_code = 1,
                 ms_artifact_dir = None, ms_failure_reason = Some e, ms_duration_ms = duration_ms\<rparr>)"

section \<open>The matrix\<close>

definition run_and_summarize ::
  "'w os \<Rightarrow> report_api \<Rightarrow> string \<Rightarrow> string \<Rightarrow> matrix_cli \<Rightarrow> string option \<Rightarrow> string \<Rightarrow>
   (string list \<times> 'w, matrix_scenario_summary) act" where
  "run_and_summarize OS RA root artifacts_root cli expected_branch scenario_id =
     act_bind (in_world (value_of (os_now OS))) (\<lambda>start.
     act_then (println (''RUNNING '' @ scenario_id))
    (act_bind (act_try (in_world (run_single_scenario OS RA root artifacts_root scenario_id cli
        expected_branch))) (\<lambda>result.
     act_bind (in_world (value_of (os_now OS))) (\<lambda>now.
     (let summary = summary_of_result scenario_id result (as_millis (now - start)) in
      act_then (println (ms_scenario_id summary @ '' -> '' @ pass_text (ms_pass summary)))
        (act_ret summary))))))"

fun run_each_scenario ::
  "'w os \<Rightarrow> report_api \<Rightarrow> string \<Rightarrow> string \<Rightarrow> matrix_cli \<Rightarrow> string option \<Rightarrow> string list \<Rightarrow>
   matrix_scenario_summary list \<Rightarrow> (string list \<times> 'w, matrix_scenario_summary list) act" where
  "run_each_scenario OS RA root artifacts_root cli expected_branch [] summaries = act_ret summaries"
| "run_each_scenario OS RA root artifacts_root cli expected_branch (i # ids) summaries =
     act_bind (run_and_summarize OS RA root artifacts_root cli expected_branch i) (\<lambda>summary.
       run_each_scenario OS RA root artifacts_root cli expected_branch ids (summaries @ [summary]))"

definition failed_scenarios :: "matrix_scenario_summary list \<Rightarrow> failed_scenario_summary list" where
  "failed_scenarios summaries =
     map (\<lambda>s. \<lparr>fs_scenario_id = ms_scenario_id s,
               fs_failure_reason = or_text (ms_failure_reason s) ''unknown failure''\<rparr>)
       (filter (\<lambda>s. \<not> ms_pass s) summaries)"

definition summarize_matrix ::
  "'w os \<Rightarrow> string list \<Rightarrow> matrix_scenario_summary list \<Rightarrow> nat \<Rightarrow> nat \<Rightarrow> nat \<Rightarrow> matrix_summary" where
  "summarize_matrix OS selected summaries start_wall end_wall total_duration_ms =
     (let pass_count = length (filter ms_pass summaries);
          fail_count = length summaries - pass_count
      in \<lparr>mx_schema_version = ''1.0'', mx_selected_scenarios = selected, mx_pass_count = pass_count,
          mx_fail_count = fail_count, mx_total_duration_ms = total_duration_ms,
          mx_scenarios = summaries, mx_failed_scenarios = failed_scenarios summaries,
          mx_aggregate_exit_rationale =
            (if fail_count = 0 then ''all selected scenarios passed''
             else decimal fail_count @ '' of '' @ decimal (length summaries) @
                  '' scenarios failed; matrix exits non-zero''),
          mx_start_ts = timestamp_to_string OS start_wall,
          mx_end_ts = timestamp_to_string OS end_wall\<rparr>)"

definition check_claims_selection ::
  "'w os \<Rightarrow> string \<Rightarrow> string option \<Rightarrow> string list \<Rightarrow> ('w, unit) act" where
  "check_claims_selection OS root claims_path selected =
     (case claims_path of
        None \<Rightarrow> act_ret ()
      | Some p \<Rightarrow>
          act_bind (looked_up (claims_override_kind OS root p)) (\<lambda>kind.
            act_ensure (\<not> (kind = Claims_File \<and> 1 < length selected))
              (''--claims-path points to a file but '' @ decimal (length selected) @
               '' scenarios are selected. Use a directory override for multi-scenario matrix runs or '' @
               ''select a single scenario with --only'')))"

definition build_smoke_binaries :: "'w os \<Rightarrow> string \<Rightarrow> bool \<Rightarrow> ('w, unit) act" where
  "build_smoke_binaries OS root no_bootstrap =
     act_bind (run_shell_command OS root root ''cargo build -p transport-smoke-suite --bins'' no_bootstrap)
       (\<lambda>out. act_ensure (cmd_status_code out = Some 0)
          (''failed to build transport-smoke-suite binaries'' @ [newline] @ ''command: '' @
           cmd_command out @ [newline] @ ''stdout:'' @ [newline] @ cmd_stdout out @ [newline] @
           ''stderr:'' @ [newline] @ cmd_stderr out))"

text \<open>From the directory for the artifacts on.\<close>

definition run_selected ::
  "'w os \<Rightarrow> report_api \<Rightarrow> string \<Rightarrow> matrix_cli \<Rightarrow> string option \<Rightarrow> string list \<Rightarrow>
   (string list \<times> 'w, int) act" where
  "run_selected OS RA root cli expected_branch selected =
     (let artifacts_root = resolve_artifacts_root root (mc_artifacts_root cli) in
      act_bind (in_world (scenario_timestamp OS)) (\<lambda>ts.
      (let matrix_artifact_dir = path_join (path_join artifacts_root ''matrix'') ts in
       act_then (in_world (effect (os_create_dir_all OS matrix_artifact_dir)))
      (act_then (in_world (act_when (\<not> mc_skip_build cli)
         (build_smoke_binaries OS root (mc_no_bootstrap cli))))
      (act_bind (in_world (value_of (os_utc OS))) (\<lambda>start_wall.
       act_bind (in_world (value_of (os_now OS))) (\<lambda>start.
       act_bind (run_each_scenario OS RA root artifacts_root cli expected_branch selected []) (\<lambda>summaries.
       act_bind (in_world (value_of (os_utc OS))) (\<lambda>end_wall.
       act_bind (in_world (value_of (os_now OS))) (\<lambda>now.
       (let m = summarize_matrix OS selected summaries start_wall end_wall (as_millis (now - start)) in
        act_bind (in_world (write_matrix_summary OS RA m matrix_artifact_dir)) (\<lambda>(json, txt_path).
        act_then (println (''MATRIX_ARTIFACT_DIR='' @ matrix_artifact_dir))
       (act_then (println (''MATRIX_SUMMARY_JSON='' @ json))
       (act_then (println (''MATRIX_SUMMARY_TXT='' @ txt_path))
          (act_ret (if mx_fail_count m = 0 then 0 else 1))))))))))))))))"

definition matrix_run ::
  "'w os \<Rightarrow> report_api \<Rightarrow> string \<Rightarrow> matrix_cli \<Rightarrow> (string list \<times> 'w, int) act" where
  "matrix_run OS RA manifest_dir cli =
     act_bind (act_lift (repo_root manifest_dir)) (\<lambda>root.
     act_bind (in_world (act_get (resolve_expected_branch OS (mc_expected_branch cli)))) (\<lambda>branch.
     act_then (in_world (enforce_expected_branch OS root branch))
    (act_bind (act_lift (resolve_selected_scenarios (mc_only cli))) (\<lambda>selected.
     act_then (in_world (check_claims_selection OS root (mc_claims_path cli) selected))
       (run_selected OS RA root cli branch selected)))))"

text \<open>The exit code of the process.\<close>

definition matrix_main ::
  "'w os \<Rightarrow> report_api \<Rightarrow> string \<Rightarrow> matrix_cli \<Rightarrow> (string list \<times> 'w, nat) act" where
  "matrix_main OS RA manifest_dir cli =
     act_bind (act_try (matrix_run OS RA manifest_dir cli)) (\<lambda>result.
       act_ret (case result of
         Inr code \<Rightarrow> if code = 0 then 0 else 1
       | Inl e \<Rightarrow> 2))"

section \<open>What a matrix has seen\<close>

text \<open>
  A scenario passes in the world its process is started in: its binary is there, the process ends with
  code 0, and the report whose path it announces on its output, on its error output if not there, or
  else the latest one in its directory, is read in the world after the process and is marked as passed.
\<close>

definition scenario_binary :: "string \<Rightarrow> string \<Rightarrow> string" where
  "scenario_binary root i = path_join (path_join (path_join root ''target'') ''debug'') i"

definition reported_path :: "'w os \<Rightarrow> string \<Rightarrow> string \<Rightarrow> command_output \<Rightarrow> 'w \<Rightarrow> string option" where
  "reported_path OS ar i out w =
     (if parse_scenario_report_path (co_stdout out) \<noteq> None then parse_scenario_report_path (co_stdout out)
      else if parse_scenario_report_path (co_stderr out) \<noteq> None then parse_scenario_report_path (co_stderr out)
      else find_latest_scenario_report OS ar i w)"

definition report_passes :: "'w os \<Rightarrow> report_api \<Rightarrow> string option \<Rightarrow> 'w \<Rightarrow> bool" where
  "report_passes OS RA path w \<longleftrightarrow>
     (\<exists>p r. path = Some p \<and> load_scenario_report OS RA p w = Inr r \<and> sr_pass r)"

definition scenario_passes ::
  "'w os \<Rightarrow> report_api \<Rightarrow> string \<Rightarrow> string \<Rightarrow> matrix_cli \<Rightarrow> string option \<Rightarrow> string \<Rightarrow> 'w \<Rightarrow> bool" where
  "scenario_passes OS RA root ar cli br i w \<longleftrightarrow>
     path_exists OS (scenario_binary root i) w \<and>
     (\<exists>out w1. os_output OS (scenario_binary root i) (scenario_command_args cli ar br) (Some root) w
          = Some (Inr out, w1) \<and>
        status_success out \<and> report_passes OS RA (reported_path OS ar i out w1) w1)"

text \<open>The worlds the scenarios are started in, one after the other, and the world after the last.\<close>

definition after_scenario ::
  "'w os \<Rightarrow> string \<Rightarrow> string \<Rightarrow> matrix_cli \<Rightarrow> string option \<Rightarrow> string \<Rightarrow> 'w \<Rightarrow> 'w" where
  "after_scenario OS root ar cli br i w =
     (if path_exists OS (scenario_binary root i) w
      then (case os_output OS (scenario_binary root i) (scenario_command_args cli ar br) (Some root) w of
              None \<Rightarrow> w
            | Some (r, w1) \<Rightarrow> w1)
      else w)"

fun scenario_worlds ::
  "'w os \<Rightarrow> string \<Rightarrow> string \<Rightarrow> matrix_cli \<Rightarrow> string option \<Rightarrow> string list \<Rightarrow> 'w \<Rightarrow> 'w list \<times> 'w" where
  "scenario_worlds OS root ar cli br [] w = ([], w)"
| "scenario_worlds OS root ar cli br (i # ids) w =
     (let w1 = snd (os_now OS w);
          (ws, w2) = scenario_worlds OS root ar cli br ids
            (snd (os_now OS (after_scenario OS root ar cli br i w1)))
      in (w1 # ws, w2))"

lemma scenario_worlds_length:
  "scenario_worlds OS root ar cli br ids w = (ws, w') \<Longrightarrow> length ws = length ids"
  by (induction ids arbitrary: w ws) (auto simp: Let_def split: prod.splits)

lemma run_single_scenario_outcome:
  assumes "run_single_scenario OS RA root ar i cli br w = Some (q, w')"
  shows "w' = after_scenario OS root ar cli br i w"
    and "(\<exists>r. q = Inr r \<and> sr_pass r) \<longleftrightarrow> scenario_passes OS RA root ar cli br i w"
proof -
  note defs = run_single_scenario_def Let_def act_bind_def act_then_def act_get_def act_ensure_def
    act_context_with_def act_fail_def act_ret_def looked_up_def scenario_binary_def [symmetric]
  have "w' = after_scenario OS root ar cli br i w \<and>
    ((\<exists>r. q = Inr r \<and> sr_pass r) \<longleftrightarrow> scenario_passes OS RA root ar cli br i w)"
  proof (cases "path_exists OS (scenario_binary root i) w")
    case False
    with assms show ?thesis
      by (auto simp: defs after_scenario_def scenario_passes_def)
  next
    case there: True
    obtain p w1 where run: "os_output OS (scenario_binary root i) (scenario_command_args cli ar br)
        (Some root) w = Some (p, w1)"
      using assms there by (auto simp: defs split: option.splits)
    show ?thesis
    proof (cases p)
      case (Inl e)
      with assms there run show ?thesis
        by (auto simp: defs after_scenario_def scenario_passes_def)
    next
      case (Inr out)
      have path: "or_else (or_else (parse_scenario_report_path (co_stdout out))
           (parse_scenario_report_path (co_stderr out))) (find_latest_scenario_report OS ar i w1)
         = reported_path OS ar i out w1"
        by (auto simp: or_else_def reported_path_def split: option.splits)
      show ?thesis
      proof (cases "reported_path OS ar i out w1")
        case None
        with assms there run Inr path show ?thesis
          by (auto simp: defs after_scenario_def scenario_passes_def report_passes_def)
      next
        case (Some f)
        show ?thesis
        proof (cases "load_scenario_report OS RA f w1")
          case load: (Inl e)
          with assms there run Inr path Some show ?thesis
            by (auto simp: defs after_scenario_def scenario_passes_def report_passes_def)
        next
          case load: (Inr r)
          with assms there run Inr path Some show ?thesis
            by (auto simp: defs after_scenario_def scenario_passes_def report_passes_def split: if_splits)
              metis
        qed
      qed
    qed
  qed
  then show "w' = after_scenario OS root ar cli br i w"
    and "(\<exists>r. q = Inr r \<and> sr_pass r) \<longleftrightarrow> scenario_passes OS RA root ar cli br i w" by blast+
qed

lemma run_and_summarize_result:
  assumes "run_and_summarize OS RA root ar cli br i s = Some (Inr sm, s')"
  shows "ms_pass sm \<longleftrightarrow> scenario_passes OS RA root ar cli br i (snd (os_now OS (snd s)))"
    and "snd s' = snd (os_now OS (after_scenario OS root ar cli br i (snd (os_now OS (snd s)))))"
proof -
  from assms obtain q d w' where
    q: "run_single_scenario OS RA root ar i cli br (snd (os_now OS (snd s))) = Some (q, w')"
    and sm: "sm = summary_of_result i q d" and s': "snd s' = snd (os_now OS w')"
    by (auto simp: run_and_summarize_def Let_def act_Ok println_def)
  note run = run_single_scenario_outcome [OF q]
  from run(1) s' show "snd s' = snd (os_now OS (after_scenario OS root ar cli br i (snd (os_now OS (snd s)))))"
    by simp
  have "ms_pass sm \<longleftrightarrow> (\<exists>r. q = Inr r \<and> sr_pass r)"
    using sm by (cases q) (simp_all add: summary_of_result_def build_summary_from_report_def)
  with run(2) show "ms_pass sm \<longleftrightarrow> scenario_passes OS RA root ar cli br i (snd (os_now OS (snd s)))" by blast
qed

lemma run_each_scenario_result:
  "run_each_scenario OS RA root ar cli br ids sums s = Some (Inr out, s') \<Longrightarrow>
   scenario_worlds OS root ar cli br ids (snd s) = (ws, w) \<Longrightarrow>
     snd s' = w \<and> (\<exists>new. out = sums @ new \<and> length new = length ids \<and>
       map ms_pass new = map2 (scenario_passes OS RA root ar cli br) ids ws)"
proof (induction ids arbitrary: sums s ws)
  case Nil
  then show ?case by (simp add: act_Ok)
next
  case (Cons i ids)
  from Cons.prems(1) obtain sm t where sm: "run_and_summarize OS RA root ar cli br i s = Some (Inr sm, t)"
    and rest: "run_each_scenario OS RA root ar cli br ids (sums @ [sm]) t = Some (Inr out, s')"
    by (auto simp: act_Ok)
  note this_one = run_and_summarize_result [OF sm]
  obtain vs where vs: "scenario_worlds OS root ar cli br ids (snd t) = (vs, w)"
    and ws: "ws = snd (os_now OS (snd s)) # vs"
    using Cons.prems(2) this_one(2) by (auto simp: Let_def split: prod.splits)
  from Cons.IH [OF rest vs] obtain new where "snd s' = w" "out = (sums @ [sm]) @ new"
    "length new = length ids" "map ms_pass new = map2 (scenario_passes OS RA root ar cli br) ids vs" by blast
  with this_one(1) ws show ?case by (intro conjI exI [of _ "sm # new"]) simp_all
qed

lemma select_known_Ok:
  "select_known ids sel = Inr out \<Longrightarrow> out = sel @ ids \<and> list_all (\<lambda>i. scenario_template i \<noteq> None) ids"
  by (induction ids sel rule: select_known.induct) (auto split: if_splits)

lemma scenario_ids_known: "list_all (\<lambda>i. scenario_template i \<noteq> None) scenario_ids"
  by code_simp

lemma resolve_selected_Ok:
  assumes "resolve_selected_scenarios only = Inr selected"
  shows "selected = (if only = [] then scenario_ids else only) \<and>
    list_all (\<lambda>i. scenario_template i \<noteq> None) selected"
  using assms scenario_ids_known select_known_Ok [of only "[]" selected]
  by (auto simp: resolve_selected_scenarios_def split: if_splits)

text \<open>
  What comes before the scenarios: the branch guard, the check of the claims, the directory for the
  artifacts, which is given back with the world the first scenario begins in, and the build.
\<close>

definition matrix_prepared ::
  "'w os \<Rightarrow> string \<Rightarrow> matrix_cli \<Rightarrow> string option \<Rightarrow> string list \<Rightarrow> 'w \<Rightarrow> string \<Rightarrow> 'w \<Rightarrow> bool" where
  "matrix_prepared OS root cli br selected w dir w' \<longleftrightarrow>
     (\<exists>w1 w2 ts w3 w4 w5. enforce_expected_branch OS root br w = Some (Inr (), w1) \<and>
        check_claims_selection OS root (mc_claims_path cli) selected w1 = Some (Inr (), w2) \<and>
        scenario_timestamp OS w2 = Some (Inr ts, w3) \<and>
        dir = path_join (path_join (resolve_artifacts_root root (mc_artifacts_root cli)) ''matrix'') ts \<and>
        os_create_dir_all OS dir w3 = (Inr (), w4) \<and>
        (if mc_skip_build cli then w5 = w4
         else build_smoke_binaries OS root (mc_no_bootstrap cli) w4 = Some (Inr (), w5)) \<and>
        w' = snd (os_now OS (snd (os_utc OS w5))))"

lemma run_selected_Ok:
  assumes "run_selected OS RA root cli br selected s = Some (Inr code, s')"
  shows "\<exists>ts w3 dir w4 w5 s0 s1 sums m txt_json. scenario_timestamp OS (snd s) = Some (Inr ts, w3) \<and>
    dir = path_join (path_join (resolve_artifacts_root root (mc_artifacts_root cli)) ''matrix'') ts \<and>
    os_create_dir_all OS dir w3 = (Inr (), w4) \<and>
    (if mc_skip_build cli then w5 = w4
     else build_smoke_binaries OS root (mc_no_bootstrap cli) w4 = Some (Inr (), w5)) \<and>
    snd s0 = snd (os_now OS (snd (os_utc OS w5))) \<and>
    run_each_scenario OS RA root (resolve_artifacts_root root (mc_artifacts_root cli)) cli br selected [] s0
      = Some (Inr sums, s1) \<and>
    (\<exists>start_wall end_wall d. m = summarize_matrix OS selected sums start_wall end_wall d) \<and>
    write_matrix_summary OS RA m dir (snd (os_now OS (snd (os_utc OS (snd s1))))) = Some (Inr txt_json, snd s') \<and>
    code = (if mx_fail_count m = 0 then 0 else 1)"
proof -
  have skip: "act_when (\<not> mc_skip_build cli) (build_smoke_binaries OS root (mc_no_bootstrap cli)) w4
      = Some (Inr u, w5) \<Longrightarrow> (if mc_skip_build cli then w5 = w4
     else build_smoke_binaries OS root (mc_no_bootstrap cli) w4 = Some (Inr (), w5))" for w4 u w5
    by (auto simp: act_when_def act_ret_def)
  show ?thesis
    using assms unfolding run_selected_def Let_def case_prod_beta
    by (auto simp: act_Ok println_def dest!: skip split del: if_split)
      (metis snd_conv)
qed

section \<open>Properties\<close>

text \<open>
  C21. The verdict of the matrix. When a matrix finishes, every selected scenario is known, is run once,
  in order, each in the world the one before has left, and has one entry in the summary that is written
  at the end, which says that the scenario passes exactly when its process, started in that world, ended
  with code 0 and the report it left says so. Passes and failures add up, the failed scenarios listed are
  those that did not pass, and the exit code is 0 exactly when every selected scenario passes and 1
  otherwise.
\<close>

theorem matrix_verdict:
  assumes "matrix_run OS RA manifest_dir cli s = Some (Inr code, s')"
  shows "\<exists>root selected branch ar dir w ws w' m jt.
    repo_root manifest_dir = Inr root \<and>
    selected = (if mc_only cli = [] then scenario_ids else mc_only cli) \<and>
    list_all (\<lambda>i. scenario_template i \<noteq> None) selected \<and>
    branch = resolve_expected_branch OS (mc_expected_branch cli) (snd s) \<and>
    ar = resolve_artifacts_root root (mc_artifacts_root cli) \<and>
    matrix_prepared OS root cli branch selected (snd s) dir w \<and>
    scenario_worlds OS root ar cli branch selected w = (ws, w') \<and>
    map ms_pass (mx_scenarios m) = map2 (scenario_passes OS RA root ar cli branch) selected ws \<and>
    length (mx_scenarios m) = length selected \<and> mx_selected_scenarios m = selected \<and>
    mx_pass_count m + mx_fail_count m = length selected \<and>
    map fs_scenario_id (mx_failed_scenarios m)
      = map ms_scenario_id (filter (\<lambda>sm. \<not> ms_pass sm) (mx_scenarios m)) \<and>
    write_matrix_summary OS RA m dir (snd (os_now OS (snd (os_utc OS w')))) = Some (Inr jt, snd s') \<and>
    code = (if list_all2 (scenario_passes OS RA root ar cli branch) selected ws then 0 else 1)"
proof -
  let ?br = "resolve_expected_branch OS (mc_expected_branch cli) (snd s)"
  from assms obtain root selected w1 t where root: "repo_root manifest_dir = Inr root"
    and guard: "enforce_expected_branch OS root ?br (snd s) = Some (Inr (), w1)"
    and sel: "resolve_selected_scenarios (mc_only cli) = Inr selected"
    and claims: "check_claims_selection OS root (mc_claims_path cli) selected w1 = Some (Inr (), snd t)"
    and run: "run_selected OS RA root cli ?br selected t = Some (Inr code, s')"
    unfolding matrix_run_def by (auto simp: act_Ok) metis
  let ?ar = "resolve_artifacts_root root (mc_artifacts_root cli)"
  from run_selected_Ok [OF run] obtain ts w3 dir w4 w5 s0 s1 sums m jt sw ew d where
    parts: "scenario_timestamp OS (snd t) = Some (Inr ts, w3)"
    "dir = path_join (path_join ?ar ''matrix'') ts" "os_create_dir_all OS dir w3 = (Inr (), w4)"
    "if mc_skip_build cli then w5 = w4
     else build_smoke_binaries OS root (mc_no_bootstrap cli) w4 = Some (Inr (), w5)"
    "snd s0 = snd (os_now OS (snd (os_utc OS w5)))"
    and each: "run_each_scenario OS RA root ?ar cli ?br selected [] s0 = Some (Inr sums, s1)"
    and m: "m = summarize_matrix OS selected sums sw ew d"
    and out: "write_matrix_summary OS RA m dir (snd (os_now OS (snd (os_utc OS (snd s1))))) = Some (Inr jt, snd s')"
    and code: "code = (if mx_fail_count m = 0 then 0 else 1)"
    by (elim exE conjE) (rule that)
  have prepared: "matrix_prepared OS root cli ?br selected (snd s) dir (snd s0)"
    unfolding matrix_prepared_def using guard claims parts by blast
  obtain ws w' where worlds: "scenario_worlds OS root ?ar cli ?br selected (snd s0) = (ws, w')" by fastforce
  from run_each_scenario_result [OF each worlds]
  have last: "snd s1 = w'" and len: "length sums = length selected"
    and pass: "map ms_pass sums = map2 (scenario_passes OS RA root ?ar cli ?br) selected ws" by auto
  have le: "length (filter ms_pass sums) \<le> length sums" by simp
  have all: "length sums \<le> length (filter ms_pass sums) \<longleftrightarrow> list_all ms_pass sums"
    using le length_filter_less [of _ sums ms_pass] by (fastforce simp: list_all_iff not_le filter_id_conv)
  have wlen: "length ws = length selected"
    using worlds by (rule scenario_worlds_length)
  have "list_all ms_pass sums \<longleftrightarrow> list_all id (map ms_pass sums)" by (simp add: list.pred_map comp_def)
  also have "\<dots> \<longleftrightarrow> list_all2 (scenario_passes OS RA root ?ar cli ?br) selected ws"
    unfolding pass using wlen by (auto simp: list_all2_iff list_all_iff)
  finally have verdict: "code = (if list_all2 (scenario_passes OS RA root ?ar cli ?br) selected ws then 0 else 1)"
    using code all le by (simp add: m summarize_matrix_def Let_def)
  have scenarios: "mx_scenarios m = sums" "mx_selected_scenarios m = selected"
    by (simp_all add: m summarize_matrix_def Let_def)
  have counts: "mx_pass_count m + mx_fail_count m = length selected"
    "map fs_scenario_id (mx_failed_scenarios m) = map ms_scenario_id (filter (\<lambda>sm. \<not> ms_pass sm) sums)"
    using len le by (simp_all add: m summarize_matrix_def Let_def failed_scenarios_def)
  note known = resolve_selected_Ok [OF sel]
  show ?thesis
    by (intro exI [of _ root] exI [of _ selected] exI [of _ ?br] exI [of _ ?ar] exI [of _ dir]
        exI [of _ "snd s0"] exI [of _ ws] exI [of _ w'] exI [of _ m] exI [of _ jt] conjI)
      (rule root known [THEN conjunct1] known [THEN conjunct2] refl prepared worlds pass [folded scenarios(1)]
        len [folded scenarios(1)] scenarios(2) counts(1) counts(2) [folded scenarios(1)]
        out [unfolded last] verdict)+
qed

text \<open>A system on which the process of a scenario ends well and leaves a report.\<close>

definition matrix_os :: "sim_world os" where
  "matrix_os = (sim_os (\<lambda>l. []) (\<lambda>p args. \<lparr>co_code = Some 0,
       co_stdout = ''SCENARIO_REPORT_JSON=/x'' @ [newline], co_stderr = [], co_status_display = []\<rparr>))
     \<lparr>os_metadata := \<lambda>p w. Ok Regular_File, os_read_to_string := \<lambda>p w. Ok p\<rparr>"

definition matrix_reports :: report_api where
  "matrix_reports = \<lparr>ra_scenario_json = (\<lambda>r. Ok []), ra_matrix_json = (\<lambda>m. Ok []),
     ra_parse_scenario = (\<lambda>payload. Ok \<lparr>sr_schema_version = [], sr_scenario_id = payload,
       sr_transport_family = [], sr_pass = True, sr_exit_code = 0, sr_phase_timings = [],
       sr_processes = [], sr_claim_outcomes = [], sr_forbidden_claim_outcomes = [],
       sr_failure_reason = None, sr_repro_command = [], sr_artifact_dir = [],
       sr_claims_source_path = None, sr_start_ts = [], sr_end_ts = [], sr_duration_ms = 0\<rparr>)\<rparr>"

definition matrix_sample_cli :: matrix_cli where
  "matrix_sample_cli = \<lparr>mc_all = False, mc_only = [''smoke-zenoh-mqtt-rr-zenoh-client-mqtt-service''],
     mc_skip_build = True, mc_artifacts_root = None, mc_claims_path = None, mc_send_count = 1,
     mc_send_interval_ms = 1, mc_scenario_timeout_secs = None, mc_expected_branch = None,
     mc_no_bootstrap = True, mc_endpoint_claim_min_count = 1, mc_egress_send_attempt_min_count = 1,
     mc_egress_send_ok_min_count = 1, mc_egress_worker_min_count = 1\<rparr>"

definition matrix_world :: "string list \<times> sim_world" where
  "matrix_world = ([], \<lparr>sw_time = 0, sw_files = [], sw_children = []\<rparr>)"

theorem matrix_verdict_witness:
  "\<exists>s' root w. matrix_run matrix_os matrix_reports ''/r/u/s'' matrix_sample_cli matrix_world
       = Some (Inr 0, s') \<and>
     repo_root ''/r/u/s'' = Inr root \<and>
     scenario_passes matrix_os matrix_reports root (resolve_artifacts_root root None) matrix_sample_cli None
       ''smoke-zenoh-mqtt-rr-zenoh-client-mqtt-service'' w"
proof -
  have "case matrix_run matrix_os matrix_reports ''/r/u/s'' matrix_sample_cli matrix_world of
      Some (Inr code, s') \<Rightarrow> code = 0 | _ \<Rightarrow> False"
    by code_simp
  then obtain s' where run: "matrix_run matrix_os matrix_reports ''/r/u/s'' matrix_sample_cli matrix_world
      = Some (Inr 0, s')"
    by (auto split: option.splits sum.splits prod.splits)
  have args: "resolve_expected_branch matrix_os (mc_expected_branch matrix_sample_cli) (snd matrix_world) = None"
    "mc_artifacts_root matrix_sample_cli = None"
    "mc_only matrix_sample_cli = [''smoke-zenoh-mqtt-rr-zenoh-client-mqtt-service'']"
    by code_simp+
  from matrix_verdict [OF run] obtain root selected branch ar ws where root: "repo_root ''/r/u/s'' = Inr root"
    and sel: "selected = (if mc_only matrix_sample_cli = [] then scenario_ids else mc_only matrix_sample_cli)"
    and br: "branch = resolve_expected_branch matrix_os (mc_expected_branch matrix_sample_cli) (snd matrix_world)"
    and ar: "ar = resolve_artifacts_root root (mc_artifacts_root matrix_sample_cli)"
    and code: "0 = (if list_all2 (scenario_passes matrix_os matrix_reports root ar matrix_sample_cli branch)
      selected ws then 0 else 1 :: int)"
    by (elim exE conjE) (rule that)
  have zero: "P" if "(0 :: int) = (if P then 0 else 1)" for P
    using that by (simp split: if_splits)
  have sel': "selected = [''smoke-zenoh-mqtt-rr-zenoh-client-mqtt-service'']"
    unfolding sel args by (simp only: list.distinct if_False)
  have "list_all2 (scenario_passes matrix_os matrix_reports root (resolve_artifacts_root root None)
      matrix_sample_cli None) [''smoke-zenoh-mqtt-rr-zenoh-client-mqtt-service''] ws"
    using zero [OF code] unfolding sel' br ar args .
  then obtain w where "scenario_passes matrix_os matrix_reports root (resolve_artifacts_root root None)
      matrix_sample_cli None ''smoke-zenoh-mqtt-rr-zenoh-client-mqtt-service'' w"
    by (auto simp: list_all2_Cons1)
  with run root show ?thesis by (intro exI conjI)
qed

section \<open>From the report line of a scenario to the matrix\<close>

lemma split_on_line:
  "c \<notin> set l \<Longrightarrow> split_on c (l @ c # rest) = l # split_on c rest"
  by (induction l) auto

lemma split_on_nonempty [simp]: "split_on c s \<noteq> []"
  by (induction s) (auto split: list.splits)

lemma str_lines_cons:
  "newline \<notin> set l \<Longrightarrow>
     str_lines (l @ newline # rest) = strip_suffix_char carriage_return l # str_lines rest"
  by (simp add: str_lines_def Let_def split_on_line)

lemma trim_fixed:
  assumes "trim s = s" and "s \<noteq> []"
  shows "\<not> is_white (last s)"
proof -
  let ?a = "dropWhile is_white s"
  have "length s = length (dropWhile is_white (rev ?a))" using assms(1) by (metis length_rev trim_def)
  also have "\<dots> \<le> length ?a" using length_dropWhile_le [of is_white "rev ?a"] by simp
  finally have "length s \<le> length ?a" .
  moreover have "length (takeWhile is_white s) + length ?a = length s"
    by (metis length_append takeWhile_dropWhile_id)
  ultimately have "length (takeWhile is_white s) = 0" by linarith
  then have "takeWhile is_white s = []" by blast
  then have "?a = s" by (metis append_Nil takeWhile_dropWhile_id)
  with assms(1) have "dropWhile is_white (rev s) = rev s" unfolding trim_def by (metis rev_rev_ident)
  with assms(2) show ?thesis by (metis dropWhile_eq_self_iff hd_rev rev_is_Nil_conv)
qed

lemma strip_after_prefix:
  "p \<noteq> [] \<Longrightarrow> last p \<noteq> c \<Longrightarrow> strip_suffix_char c (p @ s) = p @ strip_suffix_char c s"
  by (simp add: strip_suffix_char_def butlast_append last_append)

lemma str_lines_concat:
  "\<forall>l \<in> set ls. newline \<notin> set l \<Longrightarrow>
     str_lines (concat (map (\<lambda>l. l @ [newline]) ls) @ rest)
       = map (strip_suffix_char carriage_return) ls @ str_lines rest"
  by (induction ls) (simp_all add: str_lines_cons)

lemma report_line_strips:
  "strip_suffix_char carriage_return (''SCENARIO_ID='' @ x)
      = ''SCENARIO_ID='' @ strip_suffix_char carriage_return x"
  "strip_suffix_char carriage_return (''SCENARIO_STATUS='' @ x)
      = ''SCENARIO_STATUS='' @ strip_suffix_char carriage_return x"
  "strip_suffix_char carriage_return (''SCENARIO_ARTIFACT_DIR='' @ x)
      = ''SCENARIO_ARTIFACT_DIR='' @ strip_suffix_char carriage_return x"
  "strip_suffix_char carriage_return (''SCENARIO_REPORT_JSON='' @ x)
      = ''SCENARIO_REPORT_JSON='' @ strip_suffix_char carriage_return x"
  by (rule strip_after_prefix; simp add: carriage_return_def)+

lemma report_line_found:
  "find_report_line ([''SCENARIO_ID='' @ a, ''SCENARIO_STATUS='' @ b, ''SCENARIO_ARTIFACT_DIR='' @ c,
     ''SCENARIO_REPORT_JSON='' @ d] @ ls) = Some d"
  by (simp add: strip_prefix_def starts_with_def)

definition any_matrix_context :: run_context where
  "any_matrix_context = \<lparr>rc_template = SCENARIO_MQTT_RR_ZENOH_CLIENT_MQTT_SERVICE,
     rc_args = \<lparr>sa_skip_build = True, sa_artifacts_root = None, sa_claims_path = None, sa_send_count = 1,
       sa_send_interval_ms = 1, sa_scenario_timeout_secs = None, sa_expected_branch = None,
       sa_no_bootstrap = True, sa_endpoint_claim_min_count = 1, sa_egress_send_attempt_min_count = 1,
       sa_egress_send_ok_min_count = 1, sa_egress_worker_min_count = 1\<rparr>,
     rc_root = ''/r'', rc_expected_branch = None, rc_artifact_dir = ''/a'', rc_deadline = 0\<rparr>"

text \<open>
  C40. The matrix finds the report a scenario announces. From the lines a scenario prints, whatever else
  they say, the path that is read back is the path of the report that was written, for a path without
  line feeds and without white space at its ends.
\<close>

theorem report_path_roundtrip:
  assumes "newline \<notin> set (sr_scenario_id r)" and "newline \<notin> set (sr_artifact_dir r)"
    and "newline \<notin> set json" and "trim json = json"
  shows "parse_scenario_report_path (concat (map (\<lambda>line. line @ [newline]) (printed_lines r json))) = Some json"
proof -
  define lines where "lines = [''SCENARIO_ID='' @ sr_scenario_id r, ''SCENARIO_STATUS='' @ pass_text (sr_pass r),
    ''SCENARIO_ARTIFACT_DIR='' @ sr_artifact_dir r, ''SCENARIO_REPORT_JSON='' @ json]"
  define rest where "rest = (''SCENARIO_CLAIMS_SOURCE_PATH='' @
    or_text (sr_claims_source_path r) ''<not-resolved>'') @ [newline]"
  have "\<forall>l \<in> set lines. newline \<notin> set l"
    using assms by (auto simp: lines_def newline_def pass_text_def)
  then have "str_lines (concat (map (\<lambda>l. l @ [newline]) lines) @ rest)
      = map (strip_suffix_char carriage_return) lines @ str_lines rest"
    by (rule str_lines_concat)
  moreover have "concat (map (\<lambda>l. l @ [newline]) (printed_lines r json))
      = concat (map (\<lambda>l. l @ [newline]) lines) @ rest"
    by (simp add: printed_lines_def lines_def rest_def)
  moreover have "strip_suffix_char carriage_return json = json"
  proof (cases "json = []")
    case False
    have "is_white carriage_return" by (simp add: is_white_def carriage_return_def)
    with trim_fixed [OF assms(4) False] have "last json \<noteq> carriage_return" by metis
    then show ?thesis by (simp add: strip_suffix_char_def)
  qed (simp add: strip_suffix_char_def)
  ultimately have "parse_scenario_report_path (concat (map (\<lambda>l. l @ [newline]) (printed_lines r json)))
      = Some (trim json)"
    by (simp add: parse_scenario_report_path_def lines_def report_line_strips report_line_found
        del: append.simps append_Cons)
  with assms(4) show ?thesis by simp
qed

theorem report_path_roundtrip_witness:
  "parse_scenario_report_path (concat (map (\<lambda>line. line @ [newline])
     (printed_lines (report_of_run matrix_os any_matrix_context run_start 0 0 0) ''/a/scenario-report.json'')))
   = Some ''/a/scenario-report.json''"
proof (rule report_path_roundtrip)
  show "trim ''/a/scenario-report.json'' = ''/a/scenario-report.json''" by code_simp
qed (code_simp)+

end
