(* ===== verification/Float64.thy ===== *)
theory Float64
  imports Smoke_System "HOL-Library.Log_Nat" "HOL-Library.Product_Lexorder"
begin

text \<open>
  The 64-bit floating point numbers (\<open>f64\<close>) as the guardrail uses them: IEEE 754 binary64 with rounding
  to the nearest, ties to even; parsing, the total order and the display with three decimals. A number
  is a sign and a rational magnitude. The sign of a NaN that an operation produces is not specified by
  Rust; here it is positive.
\<close>

section \<open>Numbers and rounding\<close>

datatype f64 = NaN bool | Infinite bool | Finite bool rat \<comment> \<open>whether negative, magnitude\<close>

definition pow2 :: "int \<Rightarrow> rat" where
  "pow2 k = (if 0 \<le> k then 2 ^ nat k else 1 / 2 ^ nat (- k))"

definition round_half_even :: "rat \<Rightarrow> int" where
  "round_half_even x =
     (let k = \<lfloor>x\<rfloor>; r = x - of_int k in
      if r < 1 / 2 then k else if 1 / 2 < r then k + 1 else if even k then k else k + 1)"

text \<open>The exponent of a positive number: \<open>2 ^ e \<le> x < 2 ^ (e + 1)\<close>.\<close>

definition binary_exponent :: "rat \<Rightarrow> int" where
  "binary_exponent x =
     (let (p, q) = quotient_of x; e = int (floorlog 2 (nat p)) - int (floorlog 2 (nat q)) in
      if pow2 e \<le> x then e else e - 1)"

definition round_magnitude :: "rat \<Rightarrow> rat" where
  "round_magnitude x =
     (if x = 0 then 0
      else (let u = max (binary_exponent x - 52) (- 1074) in of_int (round_half_even (x / pow2 u)) * pow2 u))"

definition f64_of :: "bool \<Rightarrow> rat \<Rightarrow> f64" where
  "f64_of neg x =
     (let m = round_magnitude x in if m < pow2 1024 then Finite neg m else Infinite neg)"

section \<open>Operations\<close>

fun f64_val :: "bool \<Rightarrow> rat \<Rightarrow> rat" where
  "f64_val neg m = (if neg then - m else m)"

fun f64_neg :: "f64 \<Rightarrow> f64" where
  "f64_neg (NaN s) = NaN (\<not> s)"
| "f64_neg (Infinite s) = Infinite (\<not> s)"
| "f64_neg (Finite s m) = Finite (\<not> s) m"

definition f64_sum :: "bool \<Rightarrow> rat \<Rightarrow> bool \<Rightarrow> rat \<Rightarrow> f64" where
  "f64_sum s m t n =
     (let x = f64_val s m + f64_val t n in
      if x = 0 then Finite (s \<and> t) 0 else f64_of (x < 0) \<bar>x\<bar>)"

fun f64_add :: "f64 \<Rightarrow> f64 \<Rightarrow> f64" where
  "f64_add (NaN s) y = NaN s"
| "f64_add (Infinite s) (NaN t) = NaN t"
| "f64_add (Finite s m) (NaN t) = NaN t"
| "f64_add (Infinite s) (Infinite t) = (if s = t then Infinite s else NaN False)"
| "f64_add (Infinite s) (Finite t n) = Infinite s"
| "f64_add (Finite s m) (Infinite t) = Infinite t"
| "f64_add (Finite s m) (Finite t n) = f64_sum s m t n"

text \<open>The subtraction of a NaN keeps it as it is.\<close>

definition f64_sub :: "f64 \<Rightarrow> f64 \<Rightarrow> f64" where
  "f64_sub x y = (case y of NaN t \<Rightarrow> f64_add x y | _ \<Rightarrow> f64_add x (f64_neg y))"

fun f64_mul :: "f64 \<Rightarrow> f64 \<Rightarrow> f64" where
  "f64_mul (NaN s) y = NaN s"
| "f64_mul (Infinite s) (NaN t) = NaN t"
| "f64_mul (Finite s m) (NaN t) = NaN t"
| "f64_mul (Infinite s) (Infinite t) = Infinite (s \<noteq> t)"
| "f64_mul (Infinite s) (Finite t n) = (if n = 0 then NaN False else Infinite (s \<noteq> t))"
| "f64_mul (Finite s m) (Infinite t) = (if m = 0 then NaN False else Infinite (s \<noteq> t))"
| "f64_mul (Finite s m) (Finite t n) = f64_of (s \<noteq> t) (m * n)"

fun f64_div :: "f64 \<Rightarrow> f64 \<Rightarrow> f64" where
  "f64_div (NaN s) y = NaN s"
| "f64_div (Infinite s) (NaN t) = NaN t"
| "f64_div (Finite s m) (NaN t) = NaN t"
| "f64_div (Infinite s) (Infinite t) = NaN False"
| "f64_div (Infinite s) (Finite t n) = Infinite (s \<noteq> t)"
| "f64_div (Finite s m) (Infinite t) = Finite (s \<noteq> t) 0"
| "f64_div (Finite s m) (Finite t n) =
     (if n = 0 then (if m = 0 then NaN False else Infinite (s \<noteq> t)) else f64_of (s \<noteq> t) (m / n))"

text \<open>\<open><=\<close>: false when a NaN is involved; the two zeros are equal.\<close>

fun f64_le :: "f64 \<Rightarrow> f64 \<Rightarrow> bool" where
  "f64_le (NaN s) y = False"
| "f64_le (Infinite s) (NaN t) = False"
| "f64_le (Finite s m) (NaN t) = False"
| "f64_le (Infinite s) (Infinite t) = (s \<or> \<not> t)"
| "f64_le (Infinite s) (Finite t n) = s"
| "f64_le (Finite s m) (Infinite t) = (\<not> t)"
| "f64_le (Finite s m) (Finite t n) = (f64_val s m \<le> f64_val t n)"

definition f64_zero :: f64 where "f64_zero = Finite False 0"

text \<open>\<open>total_cmp\<close> as the order of a key.\<close>

fun total_key :: "f64 \<Rightarrow> int \<times> rat" where
  "total_key (NaN s) = ((if s then -3 else 3), 0)"
| "total_key (Infinite s) = ((if s then -2 else 2), 0)"
| "total_key (Finite s m) = ((if s then -1 else 1), f64_val s m)"

lemma total_key_inj: "inj total_key"
proof (rule injI)
  fix x y assume "total_key x = total_key y"
  then show "x = y" by (cases x; cases y) (auto split: if_splits)
qed

section \<open>Text\<close>

definition is_digit :: "char \<Rightarrow> bool" where
  "is_digit c \<longleftrightarrow> (let n = of_char c :: nat in 48 \<le> n \<and> n \<le> 57)"

definition digits_value :: "string \<Rightarrow> int" where
  "digits_value ds = foldl (\<lambda>n c. n * 10 + (of_char c - 48)) 0 ds"

definition to_lower :: "char \<Rightarrow> char" where
  "to_lower c = (let n = of_char c :: nat in if 65 \<le> n \<and> n \<le> 90 then char_of (n + 32) else c)"

definition pow10 :: "int \<Rightarrow> rat" where
  "pow10 k = (if 0 \<le> k then 10 ^ nat k else 1 / 10 ^ nat (- k))"

text \<open>The exponent of a literal: none when there is none, and no literal when it has no digits.\<close>

definition parse_exponent :: "string \<Rightarrow> int option" where
  "parse_exponent s =
     (case s of
        [] \<Rightarrow> Some 0
      | e # r \<Rightarrow>
          if to_lower e \<noteq> CHR ''e'' then None
          else (let neg = (r \<noteq> [] \<and> hd r = CHR ''-'');
                    ds = (if r \<noteq> [] \<and> hd r \<in> {CHR ''-'', CHR ''+''} then tl r else r)
                in if ds \<noteq> [] \<and> list_all is_digit ds
                   then Some (if neg then - digits_value ds else digits_value ds) else None))"

definition parse_magnitude :: "string \<Rightarrow> rat option" where
  "parse_magnitude s =
     (let whole = takeWhile is_digit s; r = dropWhile is_digit s;
          dotted = (r \<noteq> [] \<and> hd r = CHR ''.'');
          fraction = (if dotted then takeWhile is_digit (tl r) else []);
          rest = (if dotted then dropWhile is_digit (tl r) else r)
      in if whole = [] \<and> fraction = [] then None
         else map_option (\<lambda>e. of_int (digits_value (whole @ fraction)) * pow10 (e - int (length fraction)))
                (parse_exponent rest))"

definition parse_unsigned :: "bool \<Rightarrow> string \<Rightarrow> f64 option" where
  "parse_unsigned neg s =
     (let l = map to_lower s in
      if l = ''nan'' then Some (NaN neg)
      else if l = ''inf'' \<or> l = ''infinity'' then Some (Infinite neg)
      else map_option (f64_of neg) (parse_magnitude s))"

text \<open>\<open>str::parse::<f64>\<close>\<close>

definition parse_f64 :: "string \<Rightarrow> (string, f64) result" where
  "parse_f64 s =
     (if s = [] then Err ''cannot parse float from empty string''
      else (let neg = (hd s = CHR ''-'');
                r = (if hd s \<in> {CHR ''-'', CHR ''+''} then tl s else s)
            in case parse_unsigned neg r of
                 None \<Rightarrow> Err ''invalid float literal''
               | Some x \<Rightarrow> Ok x))"

definition pad_left :: "nat \<Rightarrow> string \<Rightarrow> string" where
  "pad_left n s = replicate (n - length s) (CHR '' '') @ s"

definition pad_right :: "nat \<Rightarrow> string \<Rightarrow> string" where
  "pad_right n s = s @ replicate (n - length s) (CHR '' '')"

text \<open>\<open>{:.3}\<close>\<close>

fun f64_show3 :: "f64 \<Rightarrow> string" where
  "f64_show3 (NaN s) = ''NaN''"
| "f64_show3 (Infinite s) = (if s then ''-inf'' else ''inf'')"
| "f64_show3 (Finite s m) =
     (let n = nat (round_half_even (m * 1000)); f = decimal (n mod 1000) in
      (if s then ''-'' else []) @ decimal (n div 1000) @ ''.'' @ replicate (3 - length f) (CHR ''0'') @ f)"

section \<open>Facts\<close>

lemma f64_sub_self: "f64_sub (Finite s m) (Finite s m) = f64_zero"
  by (simp add: f64_sub_def f64_sum_def f64_zero_def)

lemma round_magnitude_zero [simp]: "round_magnitude 0 = 0"
  by (simp add: round_magnitude_def)

lemma f64_of_zero [simp]: "f64_of s 0 = Finite s 0"
  by (simp add: f64_of_def Let_def pow2_def)

lemma f64_not_le: "f64_le x y \<or> f64_le y x \<or> (\<exists>s. x = NaN s) \<or> (\<exists>s. y = NaN s)"
  by (cases x; cases y) auto

text \<open>Natural numbers below \<open>2 ^ 53\<close> are exact.\<close>

lemma round_half_even_int [simp]: "round_half_even (of_int k) = k"
  by (simp add: round_half_even_def)

lemma binary_exponent_nat:
  assumes "0 < n" and "n < 2 ^ 53"
  shows "binary_exponent (of_nat n) \<le> 52"
proof -
  have "floorlog 2 n \<le> 53" using assms by (simp add: floorlog_leI)
  moreover have "quotient_of (of_nat n) = (int n, 1)"
    by (simp add: of_nat_rat quotient_of_Fract Rat.normalize_def)
  moreover have "floorlog 2 1 = 1" by (simp add: compute_floorlog)
  ultimately show ?thesis by (simp add: binary_exponent_def Let_def)
qed

lemma round_magnitude_nat:
  assumes "n < 2 ^ 53"
  shows "round_magnitude (of_nat n) = of_nat n"
proof (cases "n = 0")
  case False
  let ?u = "max (binary_exponent (of_nat n) - 52) (- 1074)"
  have u: "?u \<le> 0" using binary_exponent_nat [of n] assms False by simp
  define k where "k = nat (- ?u)"
  have pow: "pow2 ?u = 1 / 2 ^ k"
    using u unfolding k_def pow2_def by (cases "?u = 0") simp_all
  have "of_nat n / pow2 ?u = of_int (int n * 2 ^ k)" by (simp add: pow)
  then have "round_half_even (of_nat n / pow2 ?u) = int n * 2 ^ k" by (metis round_half_even_int)
  then show ?thesis using False by (simp add: round_magnitude_def Let_def pow)
qed simp

lemma f64_of_nat:
  assumes "n < 2 ^ 53"
  shows "f64_of s (of_nat n) = Finite s (of_nat n)"
proof -
  have "(of_nat n :: rat) < 2 ^ 53" using assms by (metis of_nat_less_iff of_nat_numeral of_nat_power)
  also have "\<dots> \<le> pow2 1024" by (simp add: pow2_def power_increasing)
  finally show ?thesis by (simp add: f64_of_def round_magnitude_nat [OF assms])
qed

section \<open>Rounding is monotone\<close>

lemma pow2_int: "pow2 k = 2 powi k"
  by (simp add: pow2_def power_int_def inverse_eq_divide power_divide)

lemma pow2_pos [simp]: "0 < pow2 k"
  by (simp add: pow2_def)

lemma pow2_nonzero [simp]: "pow2 k \<noteq> 0"
  using pow2_pos [of k] by (metis less_irrefl)

lemma pow2_add: "pow2 (a + b) = pow2 a * pow2 b"
  by (simp add: pow2_int power_int_add)

lemma pow2_nat: "0 \<le> k \<Longrightarrow> pow2 k = of_int (2 ^ nat k)"
  by (simp add: pow2_def)

lemma pow2_mono: "a \<le> b \<Longrightarrow> pow2 a \<le> pow2 b"
  by (simp add: pow2_int power_int_increasing)

lemma round_half_even_mono: "x \<le> y \<Longrightarrow> round_half_even x \<le> round_half_even y"
proof -
  assume le: "x \<le> y"
  then have fl: "\<lfloor>x\<rfloor> \<le> \<lfloor>y\<rfloor>" by (rule floor_mono)
  have up: "round_half_even x \<le> \<lfloor>x\<rfloor> + 1" "\<lfloor>y\<rfloor> \<le> round_half_even y"
    by (simp_all add: round_half_even_def Let_def)
  show ?thesis
  proof (cases "\<lfloor>x\<rfloor> = \<lfloor>y\<rfloor>")
    case True
    with le show ?thesis by (simp add: round_half_even_def Let_def)
  next
    case False
    with fl up show ?thesis by linarith
  qed
qed

lemma round_half_even_nonneg: "0 \<le> x \<Longrightarrow> 0 \<le> round_half_even x"
  using round_half_even_mono [of 0 x] round_half_even_int [of 0] by simp

lemma round_magnitude_nonneg: "0 \<le> x \<Longrightarrow> 0 \<le> round_magnitude x"
  by (simp add: round_magnitude_def Let_def round_half_even_nonneg less_imp_le [OF pow2_pos])

lemma binary_exponent_bounds:
  assumes "0 < x"
  shows "pow2 (binary_exponent x) \<le> x \<and> x < pow2 (binary_exponent x + 1)"
proof -
  obtain p q where pq: "quotient_of x = (p, q)" by fastforce
  have q: "0 < q" using pq by (rule quotient_of_denom_pos)
  have x: "x = of_int p / of_int q" using pq by (rule quotient_of_div)
  then have p: "0 < p" using assms q by (simp add: zero_less_divide_iff)
  define a where "a = floorlog 2 (nat p)"
  define b where "b = floorlog 2 (nat q)"
  have bounds: "2 ^ (a - 1) \<le> nat p \<and> nat p < 2 ^ a" "2 ^ (b - 1) \<le> nat q \<and> nat q < 2 ^ b"
    unfolding a_def b_def using p q floorlog_bounds [of "nat p" 2] floorlog_bounds [of "nat q" 2] by simp_all
  have ab: "0 < a" "0 < b" using bounds p q by (auto intro!: Nat.gr0I)
  have of: "of_int p = (of_nat (nat p) :: rat)" "of_int q = (of_nat (nat q) :: rat)" using p q by simp_all
  have two: "pow2 (int c) = of_nat (2 ^ c)" "0 < c \<Longrightarrow> pow2 (int c - 1) = of_nat (2 ^ (c - 1))" for c
    by (simp_all add: pow2_def nat_diff_distrib)
  have P: "pow2 (int a - 1) \<le> of_int p" "of_int p < pow2 (int a)"
    unfolding of two(1) two(2) [OF ab(1)] using bounds(1) by (simp_all only: of_nat_le_iff of_nat_less_iff)
  have Q: "pow2 (int b - 1) \<le> of_int q" "of_int q < pow2 (int b)"
    unfolding of two(1) two(2) [OF ab(2)] using bounds(2) by (simp_all only: of_nat_le_iff of_nat_less_iff)
  define e where "e = int a - int b"
  have "x < pow2 (int a) / pow2 (int b - 1)"
    unfolding x using P Q p q by (intro frac_less) simp_all
  also have "\<dots> = pow2 (e + 1)"
    using pow2_add [of "e + 1" "int b - 1"] by (simp add: e_def field_simps)
  finally have upper: "x < pow2 (e + 1)" .
  have "pow2 (e - 1) = pow2 (int a - 1) / pow2 (int b)"
    using pow2_add [of "e - 1" "int b"] by (simp add: e_def field_simps)
  also have "\<dots> \<le> x"
    unfolding x using P Q p q by (intro frac_le) simp_all
  finally have lower: "pow2 (e - 1) \<le> x" .
  have "binary_exponent x = (if pow2 e \<le> x then e else e - 1)"
    by (simp add: binary_exponent_def pq Let_def e_def a_def b_def)
  with upper lower show ?thesis by (simp add: not_le)
qed

lemma round_magnitude_mono:
  assumes "0 \<le> x" and "x \<le> y"
  shows "round_magnitude x \<le> round_magnitude y"
proof (cases "x = 0")
  case True
  then show ?thesis using round_magnitude_nonneg [of y] assms(2) by simp
next
  case False
  then have x: "0 < x" and y: "0 < y" using assms by simp_all
  define u where "u = max (binary_exponent x - 52) (- 1074)"
  define v where "v = max (binary_exponent y - 52) (- 1074)"
  have rx: "round_magnitude x = of_int (round_half_even (x / pow2 u)) * pow2 u"
    and ry: "round_magnitude y = of_int (round_half_even (y / pow2 v)) * pow2 v"
    using x y by (simp_all add: round_magnitude_def Let_def u_def v_def)
  note bx = binary_exponent_bounds [OF x] and b = binary_exponent_bounds [OF y]
  have "pow2 (binary_exponent x) < pow2 (binary_exponent y + 1)" using bx b assms(2) by linarith
  then have "binary_exponent x < binary_exponent y + 1" using pow2_mono by (metis not_le)
  then have le: "u \<le> v" by (simp add: u_def v_def)
  show ?thesis
  proof (cases "u = v")
    case True
    have "x / pow2 v \<le> y / pow2 v" using assms(2) by (intro divide_right_mono) (simp_all add: less_imp_le)
    then show ?thesis
      unfolding rx ry True using round_half_even_mono by (intro mult_right_mono) (simp_all add: less_imp_le)
  next
    case False
    with le have less: "u < v" by simp
    then have v: "v = binary_exponent y - 52" and ex: "binary_exponent x + 1 \<le> binary_exponent y"
      by (auto simp: u_def v_def)
    let ?e = "binary_exponent y"
    have eu: "0 \<le> ?e - u" using less v by simp
    have "x \<le> pow2 ?e" using bx pow2_mono [OF ex] by linarith
    then have "x / pow2 u \<le> pow2 ?e / pow2 u" by (intro divide_right_mono) (simp_all add: less_imp_le)
    also have "\<dots> = of_int (2 ^ nat (?e - u))"
      using pow2_add [of "?e - u" u] pow2_nat [OF eu] by simp
    finally have "round_half_even (x / pow2 u) \<le> 2 ^ nat (?e - u)"
      using round_half_even_mono round_half_even_int by metis
    then have "round_magnitude x \<le> of_int (2 ^ nat (?e - u)) * pow2 u"
      unfolding rx by (intro mult_right_mono) (simp_all only: of_int_le_iff less_imp_le [OF pow2_pos])
    also have "\<dots> = pow2 ?e" using pow2_add [of "?e - u" u] pow2_nat [OF eu] by simp
    finally have one: "round_magnitude x \<le> pow2 ?e" .
    have fifty: "pow2 ?e = of_int (2 ^ 52) * pow2 v" using pow2_add [of 52 v] pow2_nat [of 52] v by simp
    have "of_int (2 ^ 52) \<le> y / pow2 v" using b fifty by (simp add: pos_le_divide_eq)
    then have "2 ^ 52 \<le> round_half_even (y / pow2 v)"
      using round_half_even_mono round_half_even_int by metis
    then have "of_int (2 ^ 52) * pow2 v \<le> round_magnitude y"
      unfolding ry by (intro mult_right_mono) (simp_all only: of_int_le_iff less_imp_le [OF pow2_pos])
    with one fifty show ?thesis by linarith
  qed
qed

text \<open>Numbers whose magnitude is not negative, and the signs of results.\<close>

fun f64_ok :: "f64 \<Rightarrow> bool" where
  "f64_ok (Finite s m) = (0 \<le> m)"
| "f64_ok x = True"

fun f64_is_nan :: "f64 \<Rightarrow> bool" where
  "f64_is_nan (NaN s) = True"
| "f64_is_nan x = False"

fun f64_negative :: "f64 \<Rightarrow> bool" where
  "f64_negative (NaN s) = s"
| "f64_negative (Infinite s) = s"
| "f64_negative (Finite s m) = s"

lemma f64_of_ok: "0 \<le> x \<Longrightarrow> f64_ok (f64_of s x)"
  by (simp add: f64_of_def Let_def round_magnitude_nonneg)

lemma f64_ok_add: "f64_ok x \<Longrightarrow> f64_ok y \<Longrightarrow> f64_ok (f64_add x y)"
  by (cases x; cases y) (simp_all add: f64_sum_def Let_def f64_of_ok)

lemma f64_ok_div: "f64_ok x \<Longrightarrow> f64_ok y \<Longrightarrow> f64_ok (f64_div x y)"
  by (cases x; cases y) (simp_all add: f64_of_ok)

lemma f64_ok_sub: "f64_ok x \<Longrightarrow> f64_ok y \<Longrightarrow> f64_ok (f64_sub x y)"
  by (cases y) (simp_all add: f64_sub_def f64_ok_add)

lemma f64_of_le:
  assumes "0 \<le> x" and "x \<le> y"
  shows "f64_le (f64_of False x) (f64_of False y)"
  using round_magnitude_mono [OF assms] by (simp add: f64_of_def Let_def)

definition f64_nonpos :: "f64 \<Rightarrow> bool" where
  "f64_nonpos x \<longleftrightarrow> f64_is_nan x \<or> f64_le x f64_zero"

lemma f64_of_nonpos: "0 \<le> x \<Longrightarrow> f64_nonpos (f64_of True x)"
  by (simp add: f64_of_def Let_def f64_nonpos_def f64_zero_def round_magnitude_nonneg)

lemma f64_sub_nonpos: "f64_le x y \<Longrightarrow> f64_nonpos (f64_sub x y)"
  by (cases x; cases y)
    (auto simp: f64_sub_def f64_sum_def Let_def f64_nonpos_def f64_zero_def f64_of_def round_magnitude_nonneg
      split: if_splits)

lemma f64_nonpos_cases:
  "f64_nonpos x \<Longrightarrow> f64_ok x \<Longrightarrow> (\<exists>s. x = NaN s) \<or> x = Infinite True \<or> (\<exists>m. 0 \<le> m \<and> x = Finite True m) \<or>
     x = Finite False 0"
  by (cases x) (auto simp: f64_nonpos_def f64_zero_def split: if_splits)

lemma f64_div_nonpos:
  assumes "f64_nonpos x" and "f64_ok x" and "f64_ok y" and "\<not> f64_negative y \<or> f64_is_nan y"
  shows "f64_nonpos (f64_div x y)"
  using f64_nonpos_cases [OF assms(1,2)] assms(3,4)
  by (cases y) (auto simp: f64_of_nonpos, auto simp: f64_nonpos_def f64_zero_def)

lemma f64_mul_nonpos:
  assumes "f64_nonpos x" and "f64_ok x"
  shows "f64_nonpos (f64_mul x (Finite False 100))"
  using f64_nonpos_cases [OF assms(1,2)]
  by (auto simp: f64_of_nonpos, auto simp: f64_nonpos_def f64_zero_def)

end
