(* ===== verification/Criterion_Guardrail.thy ===== *)
theory Criterion_Guardrail
  imports Smoke_Process Float64
begin

text \<open>
  The guardrail of the benchmarks (utils/criterion-guardrail/src): it finds the raw measurements of a
  baseline and a candidate below a directory, takes their medians and compares the changes with
  thresholds.

  The CSV reader (csv), the walk over a directory (walkdir) and the serialisation of the report
  (serde_json) are parameters, \<open>guardrail_api\<close>.
\<close>

section \<open>Data\<close>

definition REQUIRED_BENCHMARK_IDS :: "string list" where
  "REQUIRED_BENCHMARK_IDS =
     [''routing_lookup/exact_authority'', ''routing_lookup/wildcard_authority'',
      ''publish_resolution/source_filter_derivation'', ''ingress_registry/register_route'',
      ''ingress_registry/unregister_route'', ''egress_forwarding/single_route_dispatch'']"

definition THROUGHPUT_GROUPS :: "string list" where
  "THROUGHPUT_GROUPS = [''egress_forwarding'', ''ingress_registry'']"

definition LATENCY_GROUPS :: "string list" where
  "LATENCY_GROUPS = [''routing_lookup'', ''publish_resolution'']"

definition ALLOC_PROXY_BENCHMARK_IDS :: "string list" where
  "ALLOC_PROXY_BENCHMARK_IDS =
     [''routing_lookup/wildcard_authority'', ''publish_resolution/source_filter_derivation'']"

definition REQUIRED_HEADER_COLUMNS :: "string list" where
  "REQUIRED_HEADER_COLUMNS = [''sample_measured_value'', ''iteration_count'']"

record guardrail_input =
  gi_criterion_root :: string
  gi_baseline :: string
  gi_candidate :: string
  gi_throughput_threshold_pct :: f64
  gi_latency_threshold_pct :: f64
  gi_alloc_proxy_threshold_pct :: f64

record threshold_config =
  tc_throughput_threshold_pct :: f64
  tc_latency_threshold_pct :: f64
  tc_alloc_proxy_threshold_pct :: f64

datatype metric_kind = Throughput | Latency | AllocProxy

definition metric_label :: "metric_kind \<Rightarrow> string" where
  "metric_label k =
     (case k of Throughput \<Rightarrow> ''throughput'' | Latency \<Rightarrow> ''latency'' | AllocProxy \<Rightarrow> ''alloc_proxy'')"

record benchmark_result =
  br_benchmark_id :: string
  br_metric_kind :: metric_kind
  br_baseline_ns_per_iter :: f64
  br_candidate_ns_per_iter :: f64
  br_delta_pct :: f64
  br_threshold_pct :: f64
  br_pass :: bool

record guardrail_report =
  gr_timestamp_utc :: string
  gr_criterion_root :: string
  gr_baseline :: string
  gr_candidate :: string
  gr_thresholds :: threshold_config
  gr_pass :: bool
  gr_failures :: "string list"
  gr_results :: "benchmark_result list"

record walk_entry =
  we_path :: string
  we_is_file :: bool

record ('w, 'r) guardrail_api =
  ga_os :: "'w os"
  ga_walk :: "string \<Rightarrow> 'w \<Rightarrow> (string, walk_entry) result list"
  ga_csv_open :: "string \<Rightarrow> 'w \<Rightarrow> (string, 'r) result"
  ga_csv_headers :: "'r \<Rightarrow> (string, string list) result"
  ga_csv_records :: "'r \<Rightarrow> (string, string list) result list"
  ga_report_json :: "guardrail_report \<Rightarrow> (string, string) result"

definition ticked :: "string \<Rightarrow> string" where
  "ticked s = ''`'' @ s @ ''`''"

section \<open>Finding the measurements\<close>

definition file_name_is :: "string \<Rightarrow> string \<Rightarrow> bool" where
  "file_name_is p name \<longleftrightarrow> path_file_name p \<noteq> [] \<and> path_file_name p = name"

definition path_components :: "string \<Rightarrow> string list" where
  "path_components p = filter (\<lambda>c. c \<noteq> [] \<and> c \<noteq> ''.'') (split_on (CHR ''/'') p)"

text \<open>\<open>Path::strip_prefix\<close>, the components that are left.\<close>

definition path_strip_prefix :: "string \<Rightarrow> string \<Rightarrow> string list option" where
  "path_strip_prefix croot p =
     (let r = path_components croot; c = path_components p in
      if path_is_absolute croot = path_is_absolute p \<and> take (length r) c = r
      then Some (drop (length r) c) else None)"

definition benchmark_dir_of :: "string \<Rightarrow> string \<Rightarrow> (string \<times> bool) option" where
  "benchmark_dir_of parent comparison_name =
     (if file_name_is parent comparison_name then map_option (\<lambda>d. (d, True)) (path_parent parent)
      else if file_name_is parent ''new'' \<and>
           (case path_parent parent of None \<Rightarrow> False | Some q \<Rightarrow> file_name_is q comparison_name)
      then map_option (\<lambda>d. (d, False)) (Option.bind (path_parent parent) path_parent)
      else None)"

definition classify_named_raw_csv_path ::
  "string \<Rightarrow> string \<Rightarrow> string \<Rightarrow> (string, (string \<times> string \<times> bool) option) result" where
  "classify_named_raw_csv_path croot csv_path comparison_name =
     (case Option.bind (path_parent csv_path) (\<lambda>parent. benchmark_dir_of parent comparison_name) of
        None \<Rightarrow> Ok None
      | Some (dir, is_direct_layout) \<Rightarrow>
          (case path_strip_prefix croot dir of
             None \<Rightarrow> Err (''failed to derive benchmark id from '' @ ticked dir @
                         '' under criterion root '' @ ticked croot @ '': prefix not found'')
           | Some relative \<Rightarrow>
               (let benchmark_id = str_join ''/'' relative in
                if benchmark_id = [] then Ok None
                else Ok (Some (benchmark_id, csv_path, is_direct_layout)))))"

fun str_contains :: "string \<Rightarrow> string \<Rightarrow> bool" where
  "str_contains p [] = (p = [])"
| "str_contains p (c # cs) = (starts_with p (c # cs) \<or> str_contains p cs)"

definition note_csv ::
  "(string \<Rightarrow> string option) \<Rightarrow> string \<times> string \<times> bool \<Rightarrow> (string \<Rightarrow> string option)" where
  "note_csv discovered found =
     (case found of (benchmark_id, csv_path, is_direct_layout) \<Rightarrow>
        (case discovered benchmark_id of
           None \<Rightarrow> discovered(benchmark_id \<mapsto> csv_path)
         | Some existing \<Rightarrow>
             if is_direct_layout \<and> str_contains ''/new/raw.csv'' existing
             then discovered(benchmark_id \<mapsto> csv_path) else discovered))"

fun discover_loop ::
  "string \<Rightarrow> string \<Rightarrow> (string, walk_entry) result list \<Rightarrow> (string \<Rightarrow> string option) \<Rightarrow>
   (string, string \<Rightarrow> string option) result" where
  "discover_loop croot comparison_name [] discovered = Ok discovered"
| "discover_loop croot comparison_name (Inl e # es) discovered =
     Err (''failed to walk criterion directory '' @ ticked croot @ '': '' @ e)"
| "discover_loop croot comparison_name (Inr entry # es) discovered =
     (if \<not> we_is_file entry \<or> \<not> file_name_is (we_path entry) ''raw.csv''
      then discover_loop croot comparison_name es discovered
      else (case classify_named_raw_csv_path croot (we_path entry) comparison_name of
              Inl e \<Rightarrow> Err e
            | Inr None \<Rightarrow> discover_loop croot comparison_name es discovered
            | Inr (Some found) \<Rightarrow> discover_loop croot comparison_name es (note_csv discovered found)))"

definition discover_named_raw_csvs ::
  "('w, 'r) guardrail_api \<Rightarrow> string \<Rightarrow> string \<Rightarrow> 'w \<Rightarrow> (string, string \<Rightarrow> string option) result" where
  "discover_named_raw_csvs G croot comparison_name w =
     (if os_metadata (ga_os G) croot w \<noteq> Ok Directory then
        Err (''criterion root '' @ ticked croot @ '' does not exist or is not a directory'')
      else discover_loop croot comparison_name (ga_walk G croot w) (\<lambda>_. None))"

section \<open>Reading the measurements\<close>

fun position :: "'a \<Rightarrow> 'a list \<Rightarrow> nat option" where
  "position x [] = None"
| "position x (y # ys) = (if y = x then Some 0 else map_option Suc (position x ys))"

definition nth_option :: "'a list \<Rightarrow> nat \<Rightarrow> 'a option" where
  "nth_option xs i = (if i < length xs then Some (xs ! i) else None)"

definition parse_cell :: "string \<Rightarrow> string list \<Rightarrow> nat \<Rightarrow> string \<Rightarrow> (string, f64) result" where
  "parse_cell csv_path row i column =
     (case nth_option row i of
        None \<Rightarrow> Err (''CSV row in '' @ ticked csv_path @ '' is missing '' @ ticked column @
                    '' at expected index'')
      | Some cell \<Rightarrow>
          (case parse_f64 cell of
             Inl e \<Rightarrow> Err (''failed to parse '' @ ticked column @ '' in '' @ ticked csv_path @ '': '' @ e)
           | Inr x \<Rightarrow> Ok x))"

definition sample_of_row :: "string \<Rightarrow> nat \<Rightarrow> nat \<Rightarrow> string list \<Rightarrow> (string, f64) result" where
  "sample_of_row csv_path measured_index iteration_index row =
     (case parse_cell csv_path row measured_index ''sample_measured_value'' of
        Inl e \<Rightarrow> Err e
      | Inr measured_value \<Rightarrow>
          (case parse_cell csv_path row iteration_index ''iteration_count'' of
             Inl e \<Rightarrow> Err e
           | Inr iteration_count \<Rightarrow>
               if f64_le iteration_count f64_zero
               then Err (''invalid `iteration_count` <= 0 in '' @ ticked csv_path)
               else Ok (f64_div measured_value iteration_count)))"

fun read_samples ::
  "string \<Rightarrow> nat \<Rightarrow> nat \<Rightarrow> (string, string list) result list \<Rightarrow> f64 list \<Rightarrow> (string, f64 list) result" where
  "read_samples csv_path mi ii [] samples = Ok samples"
| "read_samples csv_path mi ii (Inl e # rs) samples =
     Err (''failed to parse CSV row from '' @ ticked csv_path @ '': '' @ e)"
| "read_samples csv_path mi ii (Inr row # rs) samples =
     (case sample_of_row csv_path mi ii row of
        Inl e \<Rightarrow> Err e
      | Inr x \<Rightarrow> read_samples csv_path mi ii rs (samples @ [x]))"

definition median :: "f64 list \<Rightarrow> f64" where
  "median sorted_values =
     (let len = length sorted_values in
      if len mod 2 = 1 then sorted_values ! (len div 2)
      else f64_div (f64_add (sorted_values ! (len div 2 - 1)) (sorted_values ! (len div 2)))
             (Finite False 2))"

fun missing_column :: "string list \<Rightarrow> string list \<Rightarrow> string option" where
  "missing_column [] headers = None"
| "missing_column (c # cs) headers = (if c \<in> set headers then missing_column cs headers else Some c)"

definition header_index :: "string \<Rightarrow> string list \<Rightarrow> string \<Rightarrow> (string, nat) result" where
  "header_index csv_path headers column =
     (case position column headers of
        None \<Rightarrow> Err (''internal header index error for '' @ ticked column @ '' in '' @ ticked csv_path)
      | Some i \<Rightarrow> Ok i)"

definition median_of_records ::
  "string \<Rightarrow> nat \<Rightarrow> nat \<Rightarrow> (string, string list) result list \<Rightarrow> (string, f64) result" where
  "median_of_records csv_path mi ii records =
     (case read_samples csv_path mi ii records [] of
        Inl e \<Rightarrow> Err e
      | Inr samples \<Rightarrow>
          if samples = [] then Err (''no benchmark samples found in '' @ ticked csv_path)
          else Ok (median (sort_key total_key samples)))"

definition parse_median_ns_per_iter ::
  "('w, 'r) guardrail_api \<Rightarrow> string \<Rightarrow> 'w \<Rightarrow> (string, f64) result" where
  "parse_median_ns_per_iter G csv_path w =
     (case ga_csv_open G csv_path w of
        Inl e \<Rightarrow> Err (''failed to open '' @ ticked csv_path @ '': '' @ e)
      | Inr reader \<Rightarrow>
     (case ga_csv_headers G reader of
        Inl e \<Rightarrow> Err (''failed to read CSV headers from '' @ ticked csv_path @ '': '' @ e)
      | Inr headers \<Rightarrow>
     (case missing_column REQUIRED_HEADER_COLUMNS headers of
        Some c \<Rightarrow> Err (''unsupported Criterion raw.csv header layout in '' @ ticked csv_path @
          ''; missing required column '' @ ticked c @
          ''. Expected headers to include `sample_measured_value` and `iteration_count` for the pinned Criterion output.'')
      | None \<Rightarrow>
     (case header_index csv_path headers ''sample_measured_value'' of
        Inl e \<Rightarrow> Err e
      | Inr mi \<Rightarrow>
     (case header_index csv_path headers ''iteration_count'' of
        Inl e \<Rightarrow> Err e
      | Inr ii \<Rightarrow> median_of_records csv_path mi ii (ga_csv_records G reader))))))"

section \<open>Comparing\<close>

definition benchmark_group :: "string \<Rightarrow> string" where
  "benchmark_group benchmark_id = hd (split_on (CHR ''/'') benchmark_id)"

definition benchmark_threshold :: "string \<Rightarrow> threshold_config \<Rightarrow> (string, metric_kind \<times> f64) result" where
  "benchmark_threshold benchmark_id t =
     (if benchmark_id \<in> set ALLOC_PROXY_BENCHMARK_IDS then Ok (AllocProxy, tc_alloc_proxy_threshold_pct t)
      else (let g = benchmark_group benchmark_id in
            if g \<in> set THROUGHPUT_GROUPS then Ok (Throughput, tc_throughput_threshold_pct t)
            else if g \<in> set LATENCY_GROUPS then Ok (Latency, tc_latency_threshold_pct t)
            else Err (''benchmark group '' @ ticked g @ '' is not mapped to a threshold for '' @
                      ticked benchmark_id)))"

definition latency_delta_pct :: "f64 \<Rightarrow> f64 \<Rightarrow> (string, f64) result" where
  "latency_delta_pct baseline candidate =
     (if f64_le baseline f64_zero then Err ''baseline ns/iter must be > 0 for latency delta''
      else Ok (f64_mul (f64_div (f64_sub candidate baseline) baseline) (Finite False 100)))"

definition throughput_delta_pct :: "f64 \<Rightarrow> f64 \<Rightarrow> (string, f64) result" where
  "throughput_delta_pct baseline candidate =
     (if f64_le baseline f64_zero \<or> f64_le candidate f64_zero
      then Err ''baseline and candidate ns/iter must be > 0 for throughput delta''
      else (let baseline_ops = f64_div (Finite False 1000000000) baseline;
                candidate_ops = f64_div (Finite False 1000000000) candidate
            in Ok (f64_mul (f64_div (f64_sub baseline_ops candidate_ops) baseline_ops)
                     (Finite False 100))))"

definition metric_delta :: "metric_kind \<Rightarrow> f64 \<Rightarrow> f64 \<Rightarrow> (string, f64) result" where
  "metric_delta k baseline candidate =
     (case k of
        Throughput \<Rightarrow> throughput_delta_pct baseline candidate
      | _ \<Rightarrow> latency_delta_pct baseline candidate)"

definition missing_ids ::
  "(string \<Rightarrow> string option) \<Rightarrow> (string \<Rightarrow> string option) \<Rightarrow> string list" where
  "missing_ids baseline_map candidate_map =
     concat (map (\<lambda>i.
       (if baseline_map i = None then [i @ '' (missing baseline CSV)''] else []) @
       (if candidate_map i = None then [i @ '' (missing candidate CSV)''] else []))
       REQUIRED_BENCHMARK_IDS)"

definition result_bind :: "('e, 'a) result \<Rightarrow> ('a \<Rightarrow> ('e, 'b) result) \<Rightarrow> ('e, 'b) result" where
  "result_bind r f = (case r of Inl e \<Rightarrow> Err e | Inr x \<Rightarrow> f x)"

definition mapped_path ::
  "(string \<Rightarrow> string option) \<Rightarrow> string \<Rightarrow> string \<Rightarrow> (string, string) result" where
  "mapped_path m what benchmark_id =
     (case m benchmark_id of
        None \<Rightarrow> Err (''internal error: '' @ what @ '' missing for '' @ ticked benchmark_id)
      | Some p \<Rightarrow> Ok p)"

definition compare_benchmark ::
  "('w, 'r) guardrail_api \<Rightarrow> threshold_config \<Rightarrow> (string \<Rightarrow> string option) \<Rightarrow>
   (string \<Rightarrow> string option) \<Rightarrow> 'w \<Rightarrow> string \<Rightarrow> (string, benchmark_result) result" where
  "compare_benchmark G t baseline_map candidate_map w benchmark_id =
     result_bind (mapped_path baseline_map ''baseline'' benchmark_id) (\<lambda>baseline_path.
     result_bind (mapped_path candidate_map ''candidate'' benchmark_id) (\<lambda>candidate_path.
     result_bind (parse_median_ns_per_iter G baseline_path w) (\<lambda>baseline.
     result_bind (parse_median_ns_per_iter G candidate_path w) (\<lambda>candidate.
     result_bind (benchmark_threshold benchmark_id t) (\<lambda>(kind, threshold).
     result_bind (metric_delta kind baseline candidate) (\<lambda>delta.
       Ok \<lparr>br_benchmark_id = benchmark_id, br_metric_kind = kind, br_baseline_ns_per_iter = baseline,
           br_candidate_ns_per_iter = candidate, br_delta_pct = delta, br_threshold_pct = threshold,
           br_pass = f64_le delta threshold\<rparr>))))))"

definition failure_text :: "benchmark_result \<Rightarrow> string" where
  "failure_text r =
     br_benchmark_id r @ '': regression '' @ f64_show3 (br_delta_pct r) @ ''% exceeds threshold '' @
     f64_show3 (br_threshold_pct r) @ ''%''"

fun compare_loop ::
  "('w, 'r) guardrail_api \<Rightarrow> threshold_config \<Rightarrow> (string \<Rightarrow> string option) \<Rightarrow>
   (string \<Rightarrow> string option) \<Rightarrow> 'w \<Rightarrow> string list \<Rightarrow> benchmark_result list \<Rightarrow> string list \<Rightarrow>
   (string, benchmark_result list \<times> string list) result" where
  "compare_loop G t bm cm w [] results failures = Ok (results, failures)"
| "compare_loop G t bm cm w (i # ids) results failures =
     (case compare_benchmark G t bm cm w i of
        Inl e \<Rightarrow> Err e
      | Inr r \<Rightarrow> compare_loop G t bm cm w ids (results @ [r])
                  (if br_pass r then failures else failures @ [failure_text r]))"

definition thresholds_of :: "guardrail_input \<Rightarrow> threshold_config" where
  "thresholds_of inp =
     \<lparr>tc_throughput_threshold_pct = gi_throughput_threshold_pct inp,
      tc_latency_threshold_pct = gi_latency_threshold_pct inp,
      tc_alloc_proxy_threshold_pct = gi_alloc_proxy_threshold_pct inp\<rparr>"

definition compare_all ::
  "('w, 'r) guardrail_api \<Rightarrow> guardrail_input \<Rightarrow> 'w \<Rightarrow>
   (string, benchmark_result list \<times> string list) result" where
  "compare_all G inp w =
     result_bind (discover_named_raw_csvs G (gi_criterion_root inp) (gi_baseline inp) w) (\<lambda>bm.
     result_bind (discover_named_raw_csvs G (gi_criterion_root inp) (gi_candidate inp) w) (\<lambda>cm.
       if missing_ids bm cm \<noteq> [] then
         Err (''missing required benchmark IDs in criterion data: '' @ str_join '', '' (missing_ids bm cm) @
              ''. Ensure '' @ ticked (gi_baseline inp) @ '' and '' @ ticked (gi_candidate inp) @
              '' exist under '' @ ticked (gi_criterion_root inp) @
              '' using Criterion baseline naming and the required benchmark IDs.'')
       else compare_loop G (thresholds_of inp) bm cm w REQUIRED_BENCHMARK_IDS [] []))"

definition evaluate_guardrail ::
  "('w, 'r) guardrail_api \<Rightarrow> guardrail_input \<Rightarrow> ('w, guardrail_report) act" where
  "evaluate_guardrail G inp =
     act_bind (looked_up (compare_all G inp)) (\<lambda>(results, failures).
     act_bind (value_of (os_utc (ga_os G))) (\<lambda>now.
       act_ret \<lparr>gr_timestamp_utc = os_utc_rfc3339 (ga_os G) now, gr_criterion_root = gi_criterion_root inp,
         gr_baseline = gi_baseline inp, gr_candidate = gi_candidate inp,
         gr_thresholds = thresholds_of inp, gr_pass = (failures = []), gr_failures = failures,
         gr_results = results\<rparr>))"

section \<open>The report\<close>

definition write_report ::
  "('w, 'r) guardrail_api \<Rightarrow> guardrail_report \<Rightarrow> string \<Rightarrow> ('w, unit) act" where
  "write_report G r report_path =
     act_then
       (case path_parent report_path of
          None \<Rightarrow> act_ret ()
        | Some parent \<Rightarrow>
            act_context_with (\<lambda>e. ''failed to create report parent directory '' @ ticked parent @ '': '' @ e)
              (effect (os_create_dir_all (ga_os G) parent)))
    (act_bind
       (act_context_with (\<lambda>e. ''failed to serialize guardrail JSON report: '' @ e)
          (act_lift (ga_report_json G r)))
       (\<lambda>payload.
          act_context_with (\<lambda>e. ''failed to write guardrail JSON report to '' @ ticked report_path @ '': '' @ e)
            (effect (os_write (ga_os G) report_path payload))))"

definition summary_row :: "string \<Rightarrow> string \<Rightarrow> string \<Rightarrow> string \<Rightarrow> string \<Rightarrow> string \<Rightarrow> string" where
  "summary_row a b c d e f =
     str_join '' '' [pad_right 48 a, pad_left 12 b, pad_left 12 c, pad_left 10 d, pad_left 10 e, pad_left 10 f]"

definition render_summary_table :: "guardrail_report \<Rightarrow> string" where
  "render_summary_table r =
     str_join [newline]
       (summary_row ''benchmark_id'' ''baseline_ns'' ''candidate_ns'' ''delta_%'' ''threshold'' ''result'' #
        replicate 108 (CHR ''-'') #
        map (\<lambda>b. summary_row (br_benchmark_id b @ '' ('' @ metric_label (br_metric_kind b) @ '')'')
               (f64_show3 (br_baseline_ns_per_iter b)) (f64_show3 (br_candidate_ns_per_iter b))
               (f64_show3 (br_delta_pct b)) (f64_show3 (br_threshold_pct b))
               (if br_pass b then ''PASS'' else ''FAIL''))
          (gr_results r))"

text \<open>The exit code; the state is the standard output with the world.\<close>

definition guardrail_main ::
  "('w, 'r) guardrail_api \<Rightarrow> guardrail_input \<Rightarrow> string \<Rightarrow> (string list \<times> 'w, nat) act" where
  "guardrail_main G inp report_path =
     act_bind (act_try (in_world (evaluate_guardrail G inp))) (\<lambda>result.
     case result of
       Inl err \<Rightarrow> act_ret 1
     | Inr r \<Rightarrow>
         act_then (println (render_summary_table r))
        (act_bind (act_try (in_world (write_report G r report_path))) (\<lambda>written.
         case written of
           Inl err \<Rightarrow> act_ret 1
         | Inr _ \<Rightarrow>
             act_then (println (''JSON report: '' @ report_path))
               (if gr_pass r then act_then (println ''criterion-guardrail: PASS'') (act_ret 0)
                else act_ret 2))))"

end
