(* ===== verification/Guardrail_Properties.thy ===== *)
theory Guardrail_Properties
  imports Criterion_Guardrail "HOL-Library.Multiset"
begin

text \<open>
  What the guardrail of the benchmarks guarantees: which measurements it compares, what its exit code
  says, and what it makes of unusual measurements.
\<close>

section \<open>Which file is found\<close>

text \<open>The raw measurements in the order of the walk: benchmark, path and whether in the direct layout.\<close>

definition csvs_found ::
  "string \<Rightarrow> string \<Rightarrow> (string, walk_entry) result list \<Rightarrow> (string \<times> string \<times> bool) list" where
  "csvs_found croot name es =
     List.map_filter (\<lambda>e. case e of
        Inl _ \<Rightarrow> None
      | Inr entry \<Rightarrow>
          if we_is_file entry \<and> file_name_is (we_path entry) ''raw.csv''
          then (case classify_named_raw_csv_path croot (we_path entry) name of
                  Inr (Some found) \<Rightarrow> Some found | _ \<Rightarrow> None)
          else None) es"

lemma discover_loop_fold:
  "discover_loop croot name es m = Inr m' \<Longrightarrow> m' = foldl note_csv m (csvs_found croot name es)"
  by (induction croot name es m rule: discover_loop.induct)
    (auto simp: csvs_found_def map_filter_simps split: if_splits sum.splits option.splits)

text \<open>A path that is written without repeated separators.\<close>

definition tidy_path :: "string \<Rightarrow> bool" where
  "tidy_path p \<longleftrightarrow> \<not> str_contains ''//'' p"

lemma str_contains_append: "str_contains p (a @ p @ b)"
proof (induction a)
  case Nil
  have "starts_with p (p @ b)" by (simp add: starts_with_def)
  then show ?case by (cases "p @ b") (auto simp: starts_with_def)
qed simp

lemma strip_slashes_split: "\<exists>k. p = strip_slashes p @ replicate k (CHR ''/'')"
proof -
  let ?t = "takeWhile (\<lambda>c. c = CHR ''/'') (rev p)"
  have "\<forall>c \<in> set ?t. c = CHR ''/''" by (auto dest: set_takeWhileD)
  then obtain k where "?t = replicate k (CHR ''/'')" by (metis replicate_eqI)
  moreover have "p = strip_slashes p @ rev ?t"
    unfolding strip_slashes_def by (metis rev_append rev_rev_ident takeWhile_dropWhile_id)
  ultimately show ?thesis by (metis rev_replicate)
qed

lemma strip_slashes_last: "strip_slashes p \<noteq> [] \<Longrightarrow> last (strip_slashes p) \<noteq> CHR ''/''"
  using hd_dropWhile [of "\<lambda>c. c = CHR ''/''" "rev p"] by (simp add: strip_slashes_def last_rev)

lemma strip_slashes_idem [simp]: "strip_slashes (strip_slashes p) = strip_slashes p"
  by (simp add: strip_slashes_def dropWhile_idem)

definition dir_part :: "string \<Rightarrow> string" where
  "dir_part s = rev (dropWhile (\<lambda>c. c \<noteq> CHR ''/'') (rev s))"

lemma dir_part_file: "strip_slashes p = dir_part (strip_slashes p) @ path_file_name p"
  unfolding dir_part_def path_file_name_def
  by (metis rev_append rev_rev_ident takeWhile_dropWhile_id)

lemma dir_part_last: "dir_part s \<noteq> [] \<Longrightarrow> last (dir_part s) = CHR ''/''"
  using hd_dropWhile [of "\<lambda>c. c \<noteq> CHR ''/''" "rev s"] by (simp add: dir_part_def last_rev)

text \<open>A path with a file name and a parent with one is the parent, a separator and the name.\<close>

lemma path_parent_split:
  assumes "tidy_path p" and "path_parent p = Some q" and "path_file_name q \<noteq> []"
  shows "strip_slashes p = q @ ''/'' @ path_file_name p \<and> strip_slashes q = q"
proof -
  let ?s = "strip_slashes p" and ?d = "dir_part (strip_slashes p)"
  from assms(2) have s: "?s \<noteq> []" and q: "q = (if ?d \<noteq> [] \<and> strip_slashes ?d = [] then ''/'' else strip_slashes ?d)"
    by (auto simp: path_parent_def Let_def dir_part_def split: if_splits)
  have "path_file_name ''/'' = []" by (simp add: path_file_name_def strip_slashes_def)
  with q assms(3) have q: "q = strip_slashes ?d" by (auto split: if_splits)
  have "path_file_name [] = []" by (simp add: path_file_name_def strip_slashes_def)
  with assms(3) q have d: "?d \<noteq> []" by (auto simp: strip_slashes_def)
  obtain k where k: "?d = q @ replicate k (CHR ''/'')" using strip_slashes_split q by metis
  obtain j where j: "p = ?s @ replicate j (CHR ''/'')" using strip_slashes_split by metis
  have p: "p = q @ replicate k (CHR ''/'') @ path_file_name p @ replicate j (CHR ''/'')"
    using j k dir_part_file [of p] by (metis append.assoc)
  have qn: "q \<noteq> []" using assms(3) \<open>path_file_name [] = []\<close> by auto
  have "k \<noteq> 0"
  proof
    assume "k = 0"
    with k d qn have "last q = CHR ''/''" using dir_part_last [of ?s] by simp
    with strip_slashes_last [of ?d] q qn show False by metis
  qed
  moreover have "\<not> 2 \<le> k"
  proof
    assume "2 \<le> k"
    then obtain m where "k = Suc (Suc m)" by (metis Suc_le_D numeral_2_eq_2 Suc_le_mono)
    with p have "p = q @ ''//'' @ replicate m (CHR ''/'') @ path_file_name p @ replicate j (CHR ''/'')" by simp
    with assms(1) str_contains_append [of "''//''" q] show False unfolding tidy_path_def by metis
  qed
  ultimately have "k = 1" by linarith
  with k have "?d = q @ ''/''" by simp
  with dir_part_file [of p] q show ?thesis by (metis append.assoc strip_slashes_idem)
qed

lemma tidy_prefix: "tidy_path (a @ b) \<Longrightarrow> tidy_path a"
proof -
  have "str_contains p x \<longleftrightarrow> (\<exists>u v. x = u @ p @ v)" for p x
  proof (induction x)
    case (Cons c x)
    have "starts_with p (c # x) \<longleftrightarrow> (\<exists>v. c # x = p @ v)"
      unfolding starts_with_def by (metis append_eq_conv_conj append_take_drop_id)
    with Cons show ?case by (auto simp: Cons_eq_append_conv)
  qed simp
  then show "tidy_path (a @ b) \<Longrightarrow> tidy_path a" unfolding tidy_path_def by (metis append.assoc)
qed

lemma nested_layout_contains:
  assumes "tidy_path p" and "file_name_is p ''raw.csv''"
    and "classify_named_raw_csv_path croot p name = Inr (Some (i, p', False))"
  shows "str_contains ''/new/raw.csv'' p \<and> p' = p"
proof -
  from assms(3) obtain q where q: "path_parent p = Some q" and new: "file_name_is q ''new''"
    and q2: "\<exists>q2. path_parent q = Some q2 \<and> file_name_is q2 name" and p': "p' = p"
    by (auto simp: classify_named_raw_csv_path_def benchmark_dir_of_def Let_def
        split: option.splits if_splits bind_splits)
  have s: "strip_slashes p = q @ ''/'' @ ''raw.csv''" "strip_slashes q = q"
    using path_parent_split [OF assms(1) q] new assms(2) by (auto simp: file_name_is_def)
  obtain b where b: "p = (q @ ''/'' @ ''raw.csv'') @ b" using strip_slashes_split [of p] s(1) by metis
  from q2 obtain r where r: "path_parent q = Some r" "path_file_name r \<noteq> []" by (auto simp: file_name_is_def)
  from b assms(1) have "tidy_path q" by (metis append.assoc tidy_prefix)
  from path_parent_split [OF this r] new s(2) have "q = r @ ''/'' @ ''new''"
    by (simp add: file_name_is_def)
  with b have "p = r @ ''/new/raw.csv'' @ b" by simp
  with p' show ?thesis using str_contains_append by metis
qed

lemma csvs_found_nested:
  assumes "\<forall>entry. Inr entry \<in> set es \<longrightarrow> tidy_path (we_path entry)"
    and "(i, p, False) \<in> set (csvs_found croot name es)"
  shows "str_contains ''/new/raw.csv'' p"
proof -
  from assms(2) obtain entry where e: "Inr entry \<in> set es" "file_name_is (we_path entry) ''raw.csv''"
    "classify_named_raw_csv_path croot (we_path entry) name = Inr (Some (i, p, False))"
    by (induction es) (auto simp: csvs_found_def map_filter_simps split: sum.splits if_splits option.splits)
  with nested_layout_contains [of "we_path entry" croot name i p] assms(1) show ?thesis by auto
qed

definition chosen_ok :: "(string \<times> string \<times> bool) set \<Rightarrow> (string \<Rightarrow> string option) \<Rightarrow> bool" where
  "chosen_ok F m \<longleftrightarrow> (\<forall>i. case m i of
       None \<Rightarrow> \<forall>p d. (i, p, d) \<notin> F
     | Some p \<Rightarrow> \<exists>d. (i, p, d) \<in> F \<and> (d \<or> (\<forall>p' d'. (i, p', d') \<in> F \<longrightarrow> \<not> d')))"

lemma note_csv_chosen:
  assumes "chosen_ok F m" and "\<And>i p. (i, p, False) \<in> F \<Longrightarrow> str_contains ''/new/raw.csv'' p"
  shows "chosen_ok (insert f F) (note_csv m f)"
proof -
  obtain i p d where f: "f = (i, p, d)" by (cases f) auto
  note at_i = assms(1) [unfolded chosen_ok_def, THEN spec, of i]
  have "case note_csv m f j of
      None \<Rightarrow> \<forall>p d. (j, p, d) \<notin> insert f F
    | Some p \<Rightarrow> \<exists>d. (j, p, d) \<in> insert f F \<and> (d \<or> (\<forall>p' d'. (j, p', d') \<in> insert f F \<longrightarrow> \<not> d'))" for j
  proof (cases "j = i")
    case False
    then have same: "note_csv m f j = m j" by (auto simp: note_csv_def f split: option.splits)
    have others: "(j, p', d') \<in> insert f F \<longleftrightarrow> (j, p', d') \<in> F" for p' d' using False f by simp
    from assms(1) have "case m j of
        None \<Rightarrow> \<forall>p d. (j, p, d) \<notin> F
      | Some p \<Rightarrow> \<exists>d. (j, p, d) \<in> F \<and> (d \<or> (\<forall>p' d'. (j, p', d') \<in> F \<longrightarrow> \<not> d'))"
      unfolding chosen_ok_def by blast
    then show ?thesis unfolding same others .
  next
    case True
    show ?thesis
    proof (cases "m i")
      case None
      with at_i have "(i, p', d') \<notin> F" for p' d' by simp
      with None f True show ?thesis by (auto simp: note_csv_def)
    next
      case (Some q)
      with at_i obtain e where e: "(i, q, e) \<in> F" "e \<or> (\<forall>p' d'. (i, p', d') \<in> F \<longrightarrow> \<not> d')" by auto
      with Some f True assms(2) show ?thesis by (cases e; cases d) (auto simp: note_csv_def)
    qed
  qed
  then show ?thesis unfolding chosen_ok_def by blast
qed

lemma foldl_note_csv_chosen:
  assumes "\<And>i p. (i, p, False) \<in> F \<union> set fs \<Longrightarrow> str_contains ''/new/raw.csv'' p" and "chosen_ok F m"
  shows "chosen_ok (F \<union> set fs) (foldl note_csv m fs)"
  using assms
proof (induction fs arbitrary: F m)
  case (Cons f fs)
  have "chosen_ok (insert f F) (note_csv m f)" by (rule note_csv_chosen) (use Cons.prems in auto)
  with Cons.IH [of "insert f F" "note_csv m f"] Cons.prems(1) show ?case by simp
qed simp

section \<open>What a verdict rests on\<close>

text \<open>The medians of a benchmark that were measured for the baseline and the candidate.\<close>

definition measured ::
  "('w, 'r) guardrail_api \<Rightarrow> guardrail_input \<Rightarrow> 'w \<Rightarrow> string \<Rightarrow> f64 \<Rightarrow> f64 \<Rightarrow> bool" where
  "measured G inp w i b c \<longleftrightarrow>
     (\<exists>bm cm bp cp.
        discover_named_raw_csvs G (gi_criterion_root inp) (gi_baseline inp) w = Inr bm \<and>
        discover_named_raw_csvs G (gi_criterion_root inp) (gi_candidate inp) w = Inr cm \<and>
        bm i = Some bp \<and> cm i = Some cp \<and>
        parse_median_ns_per_iter G bp w = Inr b \<and> parse_median_ns_per_iter G cp w = Inr c)"

text \<open>
  The guardrail's contract, benchmark by benchmark: the two benchmarks that stand for allocations have a
  limit of their own, the other routing look-ups and the publish resolution the limit for latencies and
  the registry and the forwarding that for throughputs. The slow-down of a throughput is the share of
  the operations per second that is lost, that of the others the time that is added in proportion to
  the baseline, in per cent. Medians that are not above 0 cannot be compared: the baseline's, and for a
  throughput also the candidate's.
\<close>

definition is_throughput :: "string \<Rightarrow> bool" where
  "is_throughput i \<longleftrightarrow> i \<in> {''ingress_registry/register_route'', ''ingress_registry/unregister_route'',
     ''egress_forwarding/single_route_dispatch''}"

definition limit_of :: "guardrail_input \<Rightarrow> string \<Rightarrow> f64" where
  "limit_of inp i =
     (if i \<in> {''routing_lookup/wildcard_authority'', ''publish_resolution/source_filter_derivation''}
      then gi_alloc_proxy_threshold_pct inp
      else if is_throughput i then gi_throughput_threshold_pct inp
      else gi_latency_threshold_pct inp)"

definition slowdown :: "string \<Rightarrow> f64 \<Rightarrow> f64 \<Rightarrow> f64" where
  "slowdown i b c =
     (let billion = Finite False 1000000000; hundred = Finite False 100 in
      if is_throughput i
      then f64_mul (f64_div (f64_sub (f64_div billion b) (f64_div billion c)) (f64_div billion b)) hundred
      else f64_mul (f64_div (f64_sub c b) b) hundred)"

definition comparable :: "string \<Rightarrow> f64 \<Rightarrow> f64 \<Rightarrow> bool" where
  "comparable i b c \<longleftrightarrow> \<not> f64_le b f64_zero \<and> \<not> (is_throughput i \<and> f64_le c f64_zero)"

text \<open>What all the rest rests on: every required benchmark can be compared; none is over its limit.\<close>

definition all_comparable :: "('w, 'r) guardrail_api \<Rightarrow> guardrail_input \<Rightarrow> 'w \<Rightarrow> bool" where
  "all_comparable G inp w \<longleftrightarrow>
     (\<forall>i \<in> set REQUIRED_BENCHMARK_IDS. \<exists>b c. measured G inp w i b c \<and> comparable i b c)"

definition all_within :: "('w, 'r) guardrail_api \<Rightarrow> guardrail_input \<Rightarrow> 'w \<Rightarrow> bool" where
  "all_within G inp w \<longleftrightarrow>
     (\<forall>i \<in> set REQUIRED_BENCHMARK_IDS. \<forall>b c. measured G inp w i b c \<longrightarrow>
        f64_le (slowdown i b c) (limit_of inp i))"

lemma measured_fun: "measured G inp w i b c \<Longrightarrow> measured G inp w i b' c' \<Longrightarrow> b' = b \<and> c' = c"
  by (auto simp: measured_def)

lemma required_cases:
  "i \<in> set REQUIRED_BENCHMARK_IDS \<longleftrightarrow>
     i = ''routing_lookup/exact_authority'' \<or> i = ''routing_lookup/wildcard_authority'' \<or>
     i = ''publish_resolution/source_filter_derivation'' \<or> i = ''ingress_registry/register_route'' \<or>
     i = ''ingress_registry/unregister_route'' \<or> i = ''egress_forwarding/single_route_dispatch''"
  by (simp only: REQUIRED_BENCHMARK_IDS_def list.set insert_iff empty_iff simp_thms)

text \<open>The code's tables and formulas agree with the contract on the required benchmarks.\<close>

lemma required_threshold:
  assumes "i \<in> set REQUIRED_BENCHMARK_IDS"
  shows "\<exists>kind. benchmark_threshold i (thresholds_of inp) = Inr (kind, limit_of inp i) \<and>
    (kind = Throughput \<longleftrightarrow> is_throughput i)"
  using assms unfolding required_cases
  by (elim disjE)
    (simp_all add: benchmark_threshold_def ALLOC_PROXY_BENCHMARK_IDS_def THROUGHPUT_GROUPS_def
      LATENCY_GROUPS_def benchmark_group_def Let_def limit_of_def is_throughput_def thresholds_of_def)

lemma metric_delta_slowdown:
  assumes "kind = Throughput \<longleftrightarrow> is_throughput i"
  shows "metric_delta kind b c = Inr delta \<longleftrightarrow> comparable i b c \<and> delta = slowdown i b c"
  using assms
  by (cases kind) (auto simp: metric_delta_def latency_delta_pct_def throughput_delta_pct_def Let_def
      comparable_def slowdown_def)

lemma result_bind_Ok: "result_bind r f = Inr y \<longleftrightarrow> (\<exists>x. r = Inr x \<and> f x = Inr y)"
  by (simp add: result_bind_def split: sum.splits)

lemma mapped_path_Ok: "mapped_path m what i = Inr p \<longleftrightarrow> m i = Some p"
  by (simp add: mapped_path_def split: option.splits)

lemma compare_benchmark_outcome:
  assumes found: "discover_named_raw_csvs G (gi_criterion_root inp) (gi_baseline inp) w = Inr bm"
      "discover_named_raw_csvs G (gi_criterion_root inp) (gi_candidate inp) w = Inr cm"
    and i: "i \<in> set REQUIRED_BENCHMARK_IDS"
  shows "(\<exists>r. compare_benchmark G (thresholds_of inp) bm cm w i = Inr r \<and> br_pass r = p) \<longleftrightarrow>
    (\<exists>b c. measured G inp w i b c \<and> comparable i b c \<and> f64_le (slowdown i b c) (limit_of inp i) = p)"
proof -
  obtain kind where t: "benchmark_threshold i (thresholds_of inp) = Inr (kind, limit_of inp i)"
    and kind: "kind = Throughput \<longleftrightarrow> is_throughput i"
    using required_threshold [OF i, of inp] by blast
  show ?thesis
    by (auto simp: compare_benchmark_def result_bind_Ok mapped_path_Ok t metric_delta_slowdown [OF kind]
        measured_def found)
qed

lemma compare_loop_results:
  "compare_loop G t bm cm w ids rs fs = Inr (rs', fs') \<Longrightarrow>
     \<exists>new. rs' = rs @ new \<and> list_all2 (\<lambda>i r. compare_benchmark G t bm cm w i = Inr r) ids new \<and>
       fs' = fs @ map failure_text (filter (\<lambda>r. \<not> br_pass r) new)"
proof (induction ids arbitrary: rs fs)
  case (Cons i ids)
  from Cons.prems obtain r where r: "compare_benchmark G t bm cm w i = Inr r"
    and rest: "compare_loop G t bm cm w ids (rs @ [r]) (if br_pass r then fs else fs @ [failure_text r])
      = Inr (rs', fs')"
    by (auto split: sum.splits)
  from Cons.IH [OF rest] obtain new where "rs' = (rs @ [r]) @ new"
    "list_all2 (\<lambda>i r. compare_benchmark G t bm cm w i = Inr r) ids new"
    "fs' = (if br_pass r then fs else fs @ [failure_text r]) @ map failure_text (filter (\<lambda>r. \<not> br_pass r) new)"
    by blast
  with r show ?case by (intro exI [of _ "r # new"]) simp
qed simp

lemma evaluate_guardrail_Ok:
  assumes "evaluate_guardrail G inp w = Some (Inr r, w')"
  shows "\<exists>bm cm results.
    discover_named_raw_csvs G (gi_criterion_root inp) (gi_baseline inp) w = Inr bm \<and>
    discover_named_raw_csvs G (gi_criterion_root inp) (gi_candidate inp) w = Inr cm \<and>
    missing_ids bm cm = [] \<and> gr_results r = results \<and>
    list_all2 (\<lambda>i b. compare_benchmark G (thresholds_of inp) bm cm w i = Inr b) REQUIRED_BENCHMARK_IDS results \<and>
    gr_failures r = map failure_text (filter (\<lambda>b. \<not> br_pass b) results) \<and>
    gr_pass r = list_all br_pass results"
proof -
  from assms obtain results failures where all: "compare_all G inp w = Inr (results, failures)"
    and r: "gr_results r = results" "gr_failures r = failures" "gr_pass r = (failures = [])"
    by (auto simp: evaluate_guardrail_def act_Ok) metis
  from all obtain bm cm where
    found: "discover_named_raw_csvs G (gi_criterion_root inp) (gi_baseline inp) w = Inr bm"
      "discover_named_raw_csvs G (gi_criterion_root inp) (gi_candidate inp) w = Inr cm"
      "missing_ids bm cm = []"
    and loop: "compare_loop G (thresholds_of inp) bm cm w REQUIRED_BENCHMARK_IDS [] [] = Inr (results, failures)"
    by (auto simp: compare_all_def result_bind_Ok split: if_splits)
  from compare_loop_results [OF loop] have
    "list_all2 (\<lambda>i b. compare_benchmark G (thresholds_of inp) bm cm w i = Inr b) REQUIRED_BENCHMARK_IDS results"
    "failures = map failure_text (filter (\<lambda>b. \<not> br_pass b) results)" by auto
  with found r show ?thesis by (auto simp: filter_empty_conv list_all_iff)
qed

lemma list_all2_left: "list_all2 P xs ys \<Longrightarrow> x \<in> set xs \<Longrightarrow> \<exists>y \<in> set ys. P x y"
  by (induction xs ys rule: list_all2_induct) auto

lemma list_all2_right: "list_all2 P xs ys \<Longrightarrow> y \<in> set ys \<Longrightarrow> \<exists>x \<in> set xs. P x y"
  by (induction xs ys rule: list_all2_induct) auto

lemma guardrail_main_code:
  assumes "guardrail_main G inp report_path s = Some (Inr code, s')"
  shows "\<exists>q w. evaluate_guardrail G inp (snd s) = Some (q, w) \<and>
    (case q of Inl e \<Rightarrow> code = 1 | Inr r \<Rightarrow> (\<exists>p w2. write_report G r report_path w = Some (p, w2) \<and>
      code = (if \<not> is_ok p then 1 else if gr_pass r then 0 else 2)))"
proof -
  from assms obtain q t where q: "in_world (evaluate_guardrail G inp) s = Some (q, t)"
    and rest: "(case q of
       Inl err \<Rightarrow> act_ret 1
     | Inr r \<Rightarrow>
         act_then (println (render_summary_table r))
        (act_bind (act_try (in_world (write_report G r report_path))) (\<lambda>written.
         case written of
           Inl err \<Rightarrow> act_ret 1
         | Inr _ \<Rightarrow>
             act_then (println (''JSON report: '' @ report_path))
               (if gr_pass r then act_then (println ''criterion-guardrail: PASS'') (act_ret 0)
                else act_ret 2)))) t = Some (Inr code, s')"
    unfolding guardrail_main_def act_bind_Ok act_try_run by auto
  have "case q of Inl e \<Rightarrow> code = 1 | Inr r \<Rightarrow> (\<exists>p w2. write_report G r report_path (snd t) = Some (p, w2) \<and>
      code = (if \<not> is_ok p then 1 else if gr_pass r then 0 else 2))"
  proof (cases q)
    case (Inl e)
    with rest show ?thesis by (simp add: act_ret_def)
  next
    case (Inr r)
    let ?t1 = "apfst (\<lambda>out. out @ [render_summary_table r]) t"
    have printed: "println x y = Some (z, y') \<longleftrightarrow> z = Inr () \<and> y' = apfst (\<lambda>out. out @ [x]) y"
      for x z and y y' :: "string list \<times> 'a"
      by (auto simp: println_def act_modify_def)
    from rest obtain v u where v: "in_world (write_report G r report_path) ?t1 = Some (v, u)"
      and last: "(case v of Inl (err :: string) \<Rightarrow> act_ret 1 | Inr (_ :: unit) \<Rightarrow>
        act_then (println (''JSON report: '' @ report_path))
          (if gr_pass r then act_then (println ''criterion-guardrail: PASS'') (act_ret 0)
           else act_ret 2)) u = Some (Inr code, s')"
      unfolding Inr sum.case act_bind_Ok act_then_Ok act_try_run printed
      by (elim exE conjE) (simp only: sum.inject)
    from v obtain w2 where "write_report G r report_path (snd t) = Some (v, w2)"
      by (auto simp: in_world_def split: option.splits)
    with last show ?thesis unfolding Inr by (cases v) (auto simp: act_Ok split: if_splits)
  qed
  moreover from q have "evaluate_guardrail G inp (snd s) = Some (q, snd t)"
    by (auto simp: in_world_def split: option.splits)
  ultimately show ?thesis by blast
qed

lemma guardrail_main_evaluates:
  "guardrail_main G inp report_path s = Some (Inr code, s') \<Longrightarrow>
     \<exists>q w. evaluate_guardrail G inp (snd s) = Some (q, w)"
  using guardrail_main_code by blast

section \<open>Properties\<close>

text \<open>
  The measurements that are compared do not depend on the order of the walk. For each benchmark for
  which there is a file of the comparison a path is found; it is one of the direct layout whenever there
  is one, and otherwise one of the nested layout.
\<close>

theorem discover_prefers_direct:
  assumes "discover_named_raw_csvs G croot name w = Inr m"
    and "\<forall>entry. Inr entry \<in> set (ga_walk G croot w) \<longrightarrow> tidy_path (we_path entry)"
  shows "case m i of
      None \<Rightarrow> \<forall>p d. (i, p, d) \<notin> set (csvs_found croot name (ga_walk G croot w))
    | Some p \<Rightarrow> \<exists>d. (i, p, d) \<in> set (csvs_found croot name (ga_walk G croot w)) \<and>
        (d \<or> (\<forall>p' d'. (i, p', d') \<in> set (csvs_found croot name (ga_walk G croot w)) \<longrightarrow> \<not> d'))"
proof -
  let ?fs = "csvs_found croot name (ga_walk G croot w)"
  have "discover_loop croot name (ga_walk G croot w) (\<lambda>_. None) = Inr m"
    using assms(1) by (simp add: discover_named_raw_csvs_def split: if_splits)
  then have m: "m = foldl note_csv (\<lambda>_. None) ?fs" by (rule discover_loop_fold)
  have "chosen_ok ({} \<union> set ?fs) (foldl note_csv (\<lambda>_. None) ?fs)"
  proof (rule foldl_note_csv_chosen)
    show "chosen_ok {} (\<lambda>_. None)" by (simp add: chosen_ok_def)
  qed (use csvs_found_nested [OF assms(2)] in blast)
  then have "chosen_ok (set ?fs) m" by (simp add: m)
  then show ?thesis unfolding chosen_ok_def by (elim allE)
qed

lemma compare_loop_complete:
  "\<forall>i \<in> set ids. \<exists>r. compare_benchmark G t bm cm w i = Inr r \<Longrightarrow>
     \<exists>out. compare_loop G t bm cm w ids rs fs = Inr out"
  by (induction ids arbitrary: rs fs) auto

lemma evaluate_guardrail_comparable:
  "(\<exists>r w'. evaluate_guardrail G inp w = Some (Inr r, w')) \<longleftrightarrow> all_comparable G inp w"
  and evaluate_guardrail_pass:
  "evaluate_guardrail G inp w = Some (Inr r, w') \<Longrightarrow> gr_pass r \<longleftrightarrow> all_within G inp w"
proof -
  show pass: "gr_pass r \<longleftrightarrow> all_within G inp w" if run: "evaluate_guardrail G inp w = Some (Inr r, w')" for r w'
  proof -
    from evaluate_guardrail_Ok [OF run] obtain bm cm results where
      found: "discover_named_raw_csvs G (gi_criterion_root inp) (gi_baseline inp) w = Inr bm"
        "discover_named_raw_csvs G (gi_criterion_root inp) (gi_candidate inp) w = Inr cm"
      and all: "list_all2 (\<lambda>i b. compare_benchmark G (thresholds_of inp) bm cm w i = Inr b)
        REQUIRED_BENCHMARK_IDS results"
      and pass: "gr_pass r = list_all br_pass results" by (elim exE conjE)
    note out = compare_benchmark_outcome [OF found]
    show ?thesis
    proof
      assume "gr_pass r"
      with pass have "\<forall>b \<in> set results. br_pass b" by (simp add: list_all_iff)
      then have "\<exists>b c. measured G inp w i b c \<and> comparable i b c \<and> f64_le (slowdown i b c) (limit_of inp i) = True"
        if i: "i \<in> set REQUIRED_BENCHMARK_IDS" for i
        using list_all2_left [OF all i] out [OF i, of True] by blast
      then have at: "\<exists>b c. measured G inp w i b c \<and> f64_le (slowdown i b c) (limit_of inp i)"
        if "i \<in> set REQUIRED_BENCHMARK_IDS" for i
        using that by simp blast
      show "all_within G inp w"
        unfolding all_within_def
      proof (intro ballI allI impI)
        fix i b c assume i: "i \<in> set REQUIRED_BENCHMARK_IDS" and m: "measured G inp w i b c"
        from at [OF i] obtain b' c' where "measured G inp w i b' c'"
          "f64_le (slowdown i b' c') (limit_of inp i)" by blast
        with measured_fun [OF m] show "f64_le (slowdown i b c) (limit_of inp i)" by simp
      qed
    next
      assume within: "all_within G inp w"
      have "br_pass b" if b: "b \<in> set results" for b
      proof -
        from list_all2_right [OF all b] obtain i where i: "i \<in> set REQUIRED_BENCHMARK_IDS"
          and r: "compare_benchmark G (thresholds_of inp) bm cm w i = Inr b" by blast
        with out [OF i, of "br_pass b"] within show ?thesis unfolding all_within_def by blast
      qed
      then show "gr_pass r" unfolding pass by (simp add: list_all_iff)
    qed
  qed
  show "(\<exists>r w'. evaluate_guardrail G inp w = Some (Inr r, w')) \<longleftrightarrow> all_comparable G inp w"
  proof
    assume "\<exists>r w'. evaluate_guardrail G inp w = Some (Inr r, w')"
    then obtain r w' where run: "evaluate_guardrail G inp w = Some (Inr r, w')" by blast
    from evaluate_guardrail_Ok [OF run] obtain bm cm results where
      found: "discover_named_raw_csvs G (gi_criterion_root inp) (gi_baseline inp) w = Inr bm"
        "discover_named_raw_csvs G (gi_criterion_root inp) (gi_candidate inp) w = Inr cm"
      and all: "list_all2 (\<lambda>i b. compare_benchmark G (thresholds_of inp) bm cm w i = Inr b)
        REQUIRED_BENCHMARK_IDS results" by (elim exE conjE)
    have "\<exists>b c. measured G inp w i b c \<and> comparable i b c" if i: "i \<in> set REQUIRED_BENCHMARK_IDS" for i
    proof -
      from list_all2_left [OF all i] obtain r where "compare_benchmark G (thresholds_of inp) bm cm w i = Inr r"
        by blast
      with compare_benchmark_outcome [OF found i, of "br_pass r"] show ?thesis by blast
    qed
    then show "all_comparable G inp w" unfolding all_comparable_def by (rule ballI)
  next
    assume ok: "all_comparable G inp w"
    obtain bm cm where
      found: "discover_named_raw_csvs G (gi_criterion_root inp) (gi_baseline inp) w = Inr bm"
        "discover_named_raw_csvs G (gi_criterion_root inp) (gi_candidate inp) w = Inr cm"
      using bspec [OF ok [unfolded all_comparable_def], of "''routing_lookup/exact_authority''"]
      unfolding measured_def required_cases by blast
    have each: "\<forall>i \<in> set REQUIRED_BENCHMARK_IDS. \<exists>r. compare_benchmark G (thresholds_of inp) bm cm w i = Inr r"
      using ok compare_benchmark_outcome [OF found] unfolding all_comparable_def by blast
    have "\<forall>i \<in> set REQUIRED_BENCHMARK_IDS. bm i \<noteq> None \<and> cm i \<noteq> None"
      using ok found unfolding all_comparable_def measured_def by fastforce
    then have "missing_ids bm cm = []" by (auto simp: missing_ids_def)
    moreover obtain rs fs where "compare_loop G (thresholds_of inp) bm cm w REQUIRED_BENCHMARK_IDS [] []
        = Inr (rs, fs)"
      using compare_loop_complete [OF each, of "[]" "[]"] by auto
    ultimately have all: "compare_all G inp w = Inr (rs, fs)"
      by (simp add: compare_all_def result_bind_def found)
    obtain t v where "os_utc (ga_os G) w = (t, v)" by fastforce
    with all show "\<exists>r w'. evaluate_guardrail G inp w = Some (Inr r, w')"
      by (auto simp: evaluate_guardrail_def act_bind_def looked_up_def value_of_def act_ret_def
          split: prod.splits)
  qed
qed

text \<open>A candidate that does not take longer has no slow-down above 0, unless it is not a number.\<close>

lemma digits_value_nonneg: "list_all is_digit ds \<Longrightarrow> 0 \<le> digits_value ds"
proof -
  have "0 \<le> n \<Longrightarrow> list_all is_digit ds \<Longrightarrow> 0 \<le> foldl (\<lambda>n c. n * 10 + (of_char c - 48)) n ds" for n :: int
  proof (induction ds arbitrary: n)
    case (Cons c ds)
    have "48 \<le> (of_char c :: nat)" using Cons.prems(2) by (simp add: is_digit_def Let_def)
    then have "48 \<le> (of_char c :: int)" by (metis of_nat_of_char of_nat_le_iff of_nat_numeral)
    with Cons show ?case by simp
  qed simp
  then show "list_all is_digit ds \<Longrightarrow> 0 \<le> digits_value ds" by (simp add: digits_value_def)
qed

lemma parse_f64_ok: "parse_f64 s = Inr x \<Longrightarrow> f64_ok x"
proof -
  have mag: "0 \<le> m" if "parse_magnitude s = Some m" for s m
  proof -
    let ?whole = "takeWhile is_digit s" and ?r = "dropWhile is_digit s"
    let ?fraction = "if ?r \<noteq> [] \<and> hd ?r = CHR ''.'' then takeWhile is_digit (tl ?r) else []"
    have "list_all is_digit (?whole @ ?fraction)" by (auto simp: list_all_iff dest: set_takeWhileD)
    then have "0 \<le> digits_value (?whole @ ?fraction)" by (rule digits_value_nonneg)
    moreover have "0 < pow10 k" for k by (simp add: pow10_def)
    ultimately show ?thesis
      using that by (auto simp: parse_magnitude_def Let_def less_imp_le split: if_splits)
  qed
  then have "f64_ok y" if "parse_unsigned neg s = Some y" for neg s y
    using that by (auto simp: parse_unsigned_def Let_def f64_of_ok split: if_splits)
  then show "parse_f64 s = Inr x \<Longrightarrow> f64_ok x"
    by (auto simp: parse_f64_def Let_def split: if_splits option.splits)
qed

lemma read_samples_ok:
  "read_samples p mi ii rows acc = Inr out \<Longrightarrow> \<forall>x \<in> set acc. f64_ok x \<Longrightarrow> \<forall>x \<in> set out. f64_ok x"
proof (induction p mi ii rows acc rule: read_samples.induct)
  case (3 p mi ii row rs acc)
  then obtain x where x: "sample_of_row p mi ii row = Inr x"
    and rest: "read_samples p mi ii rs (acc @ [x]) = Inr out" by (auto split: sum.splits)
  from x have "f64_ok x"
    by (auto simp: sample_of_row_def parse_cell_def f64_ok_div dest!: parse_f64_ok
        split: sum.splits option.splits if_splits)
  with 3 x rest show ?case by simp
qed simp_all

lemma median_ok:
  assumes "\<forall>x \<in> set xs. f64_ok x" and "xs \<noteq> []"
  shows "f64_ok (median xs)"
proof (cases "length xs mod 2 = 1")
  case True
  then have "length xs div 2 < length xs" by presburger
  with True assms show ?thesis by (simp add: median_def Let_def)
next
  case False
  have "0 < length xs" using assms(2) by simp
  then have "length xs div 2 < length xs" "length xs div 2 - 1 < length xs" by linarith+
  with False assms show ?thesis by (simp add: median_def Let_def f64_ok_div f64_ok_add)
qed

lemma measured_ok:
  assumes "measured G inp w i b c"
  shows "f64_ok b \<and> f64_ok c"
proof -
  have "f64_ok x" if run: "parse_median_ns_per_iter G p w = Inr x" for p x
  proof -
    from run obtain mi ii rows where "median_of_records p mi ii rows = Inr x"
      by (auto simp: parse_median_ns_per_iter_def split: sum.splits option.splits)
    then obtain samples where "read_samples p mi ii rows [] = Inr samples" "samples \<noteq> []"
      "x = median (sort_key total_key samples)"
      by (auto simp: median_of_records_def split: sum.splits if_splits)
    moreover from this(2) have "sort_key total_key samples \<noteq> []" by (metis length_0_conv length_sort)
    ultimately show ?thesis
      using read_samples_ok [of p mi ii rows "[]" samples] median_ok [of "sort_key total_key samples"] by simp
  qed
  with assms show ?thesis by (auto simp: measured_def)
qed

lemma above_zero_cases:
  assumes "f64_ok x" and "\<not> f64_le x f64_zero"
  obtains s where "x = NaN s" | "x = Infinite False" | m where "x = Finite False m" "0 < m"
  using assms by (cases x) (auto simp: f64_zero_def split: if_splits)

lemma per_unit_antimono:
  assumes ok: "f64_ok b" "f64_ok c" and b: "\<not> f64_le b f64_zero" and c: "\<not> f64_le c f64_zero"
    and le: "f64_le c b"
  shows "f64_le (f64_div (Finite False 1000000000) b) (f64_div (Finite False 1000000000) c)"
proof (rule above_zero_cases [OF ok(1) b])
  fix s assume "b = NaN s"
  with le show ?thesis by (cases c) auto
next
  assume inf: "b = Infinite False"
  show ?thesis
  proof (rule above_zero_cases [OF ok(2) c])
    fix m assume c: "c = Finite False m" "0 < m"
    then have "f64_le (f64_of False 0) (f64_of False (1000000000 / m))" by (intro f64_of_le) simp_all
    with c inf show ?thesis by simp
  qed (use le inf in auto)
next
  fix m assume b: "b = Finite False m" "0 < m"
  show ?thesis
  proof (rule above_zero_cases [OF ok(2) c])
    fix n assume c: "c = Finite False n" "0 < n"
    with le b have "1000000000 / m \<le> 1000000000 / n" by (intro frac_le) simp_all
    then have "f64_le (f64_of False (1000000000 / m)) (f64_of False (1000000000 / n))"
      using b by (intro f64_of_le) simp_all
    with b c show ?thesis by simp
  qed (use le b in auto)
qed

lemma not_slower_nonpos:
  assumes ok: "f64_ok b" "f64_ok c" and "comparable i b c" and le: "f64_le c b"
  shows "f64_nonpos (slowdown i b c)"
proof -
  have b: "\<not> f64_le b f64_zero" and c: "is_throughput i \<Longrightarrow> \<not> f64_le c f64_zero"
    using assms(3) by (simp_all add: comparable_def)
  have sign: "\<not> f64_negative b \<or> f64_is_nan b"
    using b ok(1) by (cases b) (auto simp: f64_zero_def)
  let ?B = "f64_div (Finite False 1000000000) b" and ?C = "f64_div (Finite False 1000000000) c"
  show ?thesis
  proof (cases "is_throughput i")
    case False
    have "f64_nonpos (f64_div (f64_sub c b) b)"
      by (rule f64_div_nonpos [OF f64_sub_nonpos [OF le] f64_ok_sub [OF ok(2,1)] ok(1) sign])
    from f64_mul_nonpos [OF this] False show ?thesis
      by (simp add: slowdown_def f64_ok_div f64_ok_sub ok)
  next
    case True
    have ops: "f64_le ?B ?C" by (rule per_unit_antimono [OF ok b c [OF True] le])
    have okB: "f64_ok ?B" "f64_ok ?C" using ok by (simp_all add: f64_ok_div)
    have signB: "\<not> f64_negative ?B \<or> f64_is_nan ?B"
      using b ok(1) by (cases b) (auto simp: f64_zero_def f64_of_def Let_def)
    have "f64_nonpos (f64_div (f64_sub ?B ?C) ?B)"
      by (rule f64_div_nonpos [OF f64_sub_nonpos [OF ops] f64_ok_sub [OF okB] okB(1) signB])
    from f64_mul_nonpos [OF this] True show ?thesis
      by (simp add: slowdown_def Let_def f64_ok_div f64_ok_sub ok)
  qed
qed

lemma f64_nonpos_within: "f64_nonpos x \<Longrightarrow> f64_le f64_zero y \<Longrightarrow> f64_is_nan x \<or> f64_le x y"
  by (cases x; cases y) (auto simp: f64_nonpos_def f64_zero_def split: if_splits)

text \<open>
  C25. The verdict of the guardrail. The process ends with 1 unless every required benchmark was measured
  for the baseline and the candidate with medians that can be compared, and the report could be written;
  then it ends with 0 exactly when the slow-down of every required benchmark is within its limit, and
  with 2 otherwise. A benchmark over a limit that is not negative has become slower: its candidate's
  median is above the baseline's, or its slow-down is not a number, which no limit allows.
\<close>

theorem guardrail_verdict:
  assumes "guardrail_main G inp report_path s = Some (Inr code, s')"
  shows "(\<not> all_comparable G inp (snd s) \<longrightarrow> code = 1) \<and>
    (all_comparable G inp (snd s) \<longrightarrow>
      (\<exists>r w1. evaluate_guardrail G inp (snd s) = Some (Inr r, w1) \<and>
        (\<exists>q w2. write_report G r report_path w1 = Some (q, w2) \<and>
          code = (if \<not> is_ok q then 1 else if all_within G inp (snd s) then 0 else 2)))) \<and>
    (\<forall>i b c. measured G inp (snd s) i b c \<and> comparable i b c \<and> f64_le f64_zero (limit_of inp i) \<and>
      \<not> f64_le (slowdown i b c) (limit_of inp i) \<longrightarrow>
        \<not> f64_le c b \<or> f64_is_nan (slowdown i b c))"
proof -
  have code: "case q of Inl e \<Rightarrow> code = 1 | Inr r \<Rightarrow> (\<exists>p w2. write_report G r report_path w1 = Some (p, w2) \<and>
      code = (if \<not> is_ok p then 1 else if gr_pass r then 0 else 2))"
    if "evaluate_guardrail G inp (snd s) = Some (q, w1)" for q w1
    using guardrail_main_code [OF assms] that by simp
  obtain q w1 where run: "evaluate_guardrail G inp (snd s) = Some (q, w1)"
    using guardrail_main_evaluates [OF assms] by blast
  note comparable = evaluate_guardrail_comparable [of G inp "snd s"]
  show ?thesis
  proof (intro conjI impI allI)
    assume "\<not> all_comparable G inp (snd s)"
    then obtain e where "q = Inl e" using comparable run by (cases q) auto
    with code [OF run] show "code = 1" by simp
  next
    assume "all_comparable G inp (snd s)"
    then obtain r where r: "q = Inr r" using comparable run by auto
    have pass: "gr_pass r \<longleftrightarrow> all_within G inp (snd s)" by (rule evaluate_guardrail_pass [OF run [unfolded r]])
    have "\<exists>q w2. write_report G r report_path w1 = Some (q, w2) \<and>
        code = (if \<not> is_ok q then 1 else if all_within G inp (snd s) then 0 else 2)"
      using code [OF run] unfolding r pass sum.case .
    with run r show "\<exists>r w1. evaluate_guardrail G inp (snd s) = Some (Inr r, w1) \<and>
        (\<exists>q w2. write_report G r report_path w1 = Some (q, w2) \<and>
          code = (if \<not> is_ok q then 1 else if all_within G inp (snd s) then 0 else 2))"
      by (intro exI [of _ r] exI [of _ w1] conjI) (rule run [unfolded r])
  next
    fix i b c
    assume at: "measured G inp (snd s) i b c \<and> comparable i b c \<and> f64_le f64_zero (limit_of inp i) \<and>
      \<not> f64_le (slowdown i b c) (limit_of inp i)"
    have "f64_le c b \<Longrightarrow> f64_is_nan (slowdown i b c)"
      using not_slower_nonpos [of b c i] f64_nonpos_within [of "slowdown i b c" "limit_of inp i"]
        measured_ok [of G inp "snd s" i b c] at by blast
    then show "\<not> f64_le c b \<or> f64_is_nan (slowdown i b c)" by blast
  qed
qed

section \<open>Measurements that change nothing\<close>

lemma f64_le_zero_five: "f64_le f64_zero (Finite False 5)"
  by (simp add: f64_zero_def)

lemma same_hundred: "metric_delta k (Finite False 100) (Finite False 100) = Inr f64_zero"
proof -
  have "f64_of False 10000000 = Finite False 10000000" using f64_of_nat [of 10000000 False] by simp
  then show ?thesis
    by (cases k) (simp_all add: metric_delta_def latency_delta_pct_def throughput_delta_pct_def Let_def
        f64_sub_self, simp_all add: f64_zero_def)
qed

lemma thousand_by_ten:
  "parse_f64 ''1000'' = Inr (Finite False 1000)" "parse_f64 ''10'' = Inr (Finite False 10)"
proof -
  have "parse_magnitude ''1000'' = Some 1000" "parse_magnitude ''10'' = Some 10" by code_simp+
  then show "parse_f64 ''1000'' = Inr (Finite False 1000)" "parse_f64 ''10'' = Inr (Finite False 10)"
    using f64_of_nat [of 1000 False] f64_of_nat [of 10 False]
    by (simp_all add: parse_f64_def parse_unsigned_def Let_def to_lower_def)
qed

text \<open>Two sets of equal measurements, the candidate's in the nested layout.\<close>

definition sample_walk :: "(string, walk_entry) result list" where
  "sample_walk = concat (map (\<lambda>i.
     [Inr \<lparr>we_path = ''/c/'' @ i @ ''/base/raw.csv'', we_is_file = True\<rparr>,
      Inr \<lparr>we_path = ''/c/'' @ i @ ''/cand/new/raw.csv'', we_is_file = True\<rparr>]) REQUIRED_BENCHMARK_IDS)"

definition sample_guardrail :: "(sim_world, string) guardrail_api" where
  "sample_guardrail =
     \<lparr>ga_os = sim_idle\<lparr>os_metadata := \<lambda>p w. Ok Directory\<rparr>, ga_walk = (\<lambda>p w. sample_walk),
      ga_csv_open = (\<lambda>p w. Ok p), ga_csv_headers = (\<lambda>r. Ok [''iteration_count'', ''sample_measured_value'']),
      ga_csv_records = (\<lambda>r. [Ok [''10'', ''1000'']]), ga_report_json = (\<lambda>r. Ok [])\<rparr>"

definition sample_input :: guardrail_input where
  "sample_input = \<lparr>gi_criterion_root = ''/c'', gi_baseline = ''base'', gi_candidate = ''cand'',
     gi_throughput_threshold_pct = Finite False 5, gi_latency_threshold_pct = Finite False 5,
     gi_alloc_proxy_threshold_pct = Finite False 5\<rparr>"

lemma sample_median: "parse_median_ns_per_iter sample_guardrail p w = Inr (Finite False 100)"
proof -
  have "f64_of False 100 = Finite False 100" using f64_of_nat [of 100 False] by simp
  then show ?thesis
    by (simp add: parse_median_ns_per_iter_def sample_guardrail_def REQUIRED_HEADER_COLUMNS_def
        header_index_def median_of_records_def sample_of_row_def parse_cell_def nth_option_def
        thousand_by_ten f64_zero_def median_def)
qed

definition found_all :: "(string, string \<Rightarrow> string option) result \<Rightarrow> bool" where
  "found_all r = (case r of Inl e \<Rightarrow> False | Inr m \<Rightarrow> list_all (\<lambda>i. m i \<noteq> None) REQUIRED_BENCHMARK_IDS)"

lemma sample_found:
  "found_all (discover_named_raw_csvs sample_guardrail ''/c'' ''base'' sim_start)"
  "found_all (discover_named_raw_csvs sample_guardrail ''/c'' ''cand'' sim_start)"
  by code_simp+

lemma sample_thresholds:
  "list_all (\<lambda>i. case benchmark_threshold i (thresholds_of sample_input) of
     Inl e \<Rightarrow> False | Inr (k, t) \<Rightarrow> t = Finite False 5) REQUIRED_BENCHMARK_IDS"
  by code_simp

lemma compare_loop_pass:
  "\<forall>i \<in> set ids. \<exists>r. compare_benchmark G t bm cm w i = Inr r \<and> br_pass r \<Longrightarrow>
     \<exists>rs'. compare_loop G t bm cm w ids rs fs = Inr (rs', fs)"
  by (induction ids arbitrary: rs) auto

lemma sample_passes: "\<exists>s'. guardrail_main sample_guardrail sample_input ''r.json'' ([], sim_start) = Some (Inr 0, s')"
proof -
  from sample_found obtain bm cm where
    found: "discover_named_raw_csvs sample_guardrail ''/c'' ''base'' sim_start = Inr bm"
      "discover_named_raw_csvs sample_guardrail ''/c'' ''cand'' sim_start = Inr cm"
    and all: "\<forall>i \<in> set REQUIRED_BENCHMARK_IDS. bm i \<noteq> None \<and> cm i \<noteq> None"
    by (auto simp: found_all_def list_all_iff split: sum.splits)
  have "\<exists>r. compare_benchmark sample_guardrail (thresholds_of sample_input) bm cm sim_start i = Inr r \<and> br_pass r"
    if i: "i \<in> set REQUIRED_BENCHMARK_IDS" for i
  proof -
    obtain k where "benchmark_threshold i (thresholds_of sample_input) = Inr (k, Finite False 5)"
      using sample_thresholds i
      by (cases "benchmark_threshold i (thresholds_of sample_input)") (auto simp: list_all_iff)
    moreover obtain bp cp where "bm i = Some bp" "cm i = Some cp" using all i by auto
    ultimately show ?thesis
      by (simp add: compare_benchmark_def result_bind_def mapped_path_def sample_median same_hundred
          f64_le_zero_five)
  qed
  then have each: "\<forall>i \<in> set REQUIRED_BENCHMARK_IDS. \<exists>r. compare_benchmark sample_guardrail
      (thresholds_of sample_input) bm cm sim_start i = Inr r \<and> br_pass r" by (rule ballI)
  obtain rs where "compare_loop sample_guardrail (thresholds_of sample_input) bm cm sim_start
      REQUIRED_BENCHMARK_IDS [] [] = Inr (rs, [])"
    using compare_loop_pass [OF each, of "[]" "[]"] by (elim exE)
  moreover have "missing_ids bm cm = []" using all by (auto simp: missing_ids_def)
  ultimately have "compare_all sample_guardrail sample_input sim_start = Inr (rs, [])"
    by (simp add: compare_all_def result_bind_def sample_input_def found [unfolded sample_input_def])
  then show ?thesis
    by (simp add: guardrail_main_def evaluate_guardrail_def act_bind_def act_try_def act_then_def in_world_def
        looked_up_def value_of_def act_ret_def println_def act_modify_def write_report_def effect_def
        act_context_with_def act_lift_def sample_guardrail_def sim_idle_def sim_os_def
        split: option.splits)
qed

theorem guardrail_verdict_witness:
  "\<exists>s'. guardrail_main sample_guardrail sample_input ''r.json'' ([], sim_start) = Some (Inr 0, s') \<and>
     all_comparable sample_guardrail sample_input sim_start \<and>
     all_within sample_guardrail sample_input sim_start"
proof -
  from sample_passes obtain s' where
    run: "guardrail_main sample_guardrail sample_input ''r.json'' ([], sim_start) = Some (Inr 0, s')" by blast
  note verdict = guardrail_verdict [OF run, unfolded snd_conv]
  have all: "all_comparable sample_guardrail sample_input sim_start"
    using verdict [THEN conjunct1] by (cases "all_comparable sample_guardrail sample_input sim_start") simp_all
  from verdict [THEN conjunct2, THEN conjunct1, THEN mp, OF all] obtain q :: "(string, unit) result" where
    "0 = (if \<not> is_ok q then 1 else if all_within sample_guardrail sample_input sim_start then 0 else 2 :: nat)"
    by (elim exE conjE) (rule that)
  then have "all_within sample_guardrail sample_input sim_start" by (simp split: if_splits)
  with run all show ?thesis by (intro exI conjI)
qed

theorem discover_prefers_direct_witness:
  "\<exists>m p. discover_named_raw_csvs sample_guardrail ''/c'' ''cand'' sim_start = Inr m \<and>
     m ''routing_lookup/exact_authority'' = Some p \<and>
     (\<exists>d. (''routing_lookup/exact_authority'', p, d) \<in> set (csvs_found ''/c'' ''cand'' sample_walk))"
proof -
  from sample_found(2) obtain m p where m: "discover_named_raw_csvs sample_guardrail ''/c'' ''cand'' sim_start = Inr m"
    and p: "m ''routing_lookup/exact_authority'' = Some p"
    by (auto simp: found_all_def REQUIRED_BENCHMARK_IDS_def split: sum.splits)
  have walk: "ga_walk sample_guardrail ''/c'' sim_start = sample_walk" by (simp add: sample_guardrail_def)
  have "list_all (\<lambda>e. case e of Inl _ \<Rightarrow> True | Inr entry \<Rightarrow> tidy_path (we_path entry)) sample_walk" by code_simp
  then have tidy: "\<forall>entry. Inr entry \<in> set (ga_walk sample_guardrail ''/c'' sim_start) \<longrightarrow> tidy_path (we_path entry)"
    unfolding walk list_all_iff by (metis sum.case(2))
  from discover_prefers_direct [OF m tidy, of "''routing_lookup/exact_authority''"] p m walk
  show ?thesis by auto
qed

text \<open>
  The median of a file does not depend on the order of its rows: if the rows of one file are those
  of another in a different order and the first has a median, the other has the same.
\<close>

theorem median_order_independent:
  assumes "mset rows = mset rows'" and "median_of_records p mi ii (map Inr rows) = Inr x"
  shows "median_of_records p mi ii (map Inr rows') = Inr x"
proof -
  have read: "read_samples p mi ii (map Inr rs) acc = Inr out \<longleftrightarrow>
      (\<exists>xs. map (sample_of_row p mi ii) rs = map Inr xs \<and> out = acc @ xs)" for rs acc out
  proof (induction rs arbitrary: acc)
    case (Cons r rs)
    then show ?case by (cases "sample_of_row p mi ii r") (auto simp: Cons_eq_map_conv)
  qed auto
  from assms(2) obtain xs where xs: "map (sample_of_row p mi ii) rows = map Inr xs" "xs \<noteq> []"
    "x = median (sort_key total_key xs)"
    by (auto simp: median_of_records_def read split: sum.splits if_splits)
  define ys where "ys = map (projr \<circ> sample_of_row p mi ii) rows'"
  have "set (map (sample_of_row p mi ii) rows') = Inr ` set xs"
    using assms(1) xs(1) by (metis image_set mset_eq_setD set_map)
  then have ys: "map (sample_of_row p mi ii) rows' = map Inr ys"
    unfolding ys_def by (auto simp: map_eq_conv) (metis imageE imageI sum.sel(2))
  have "mset (map (projr \<circ> sample_of_row p mi ii) rows) = mset ys"
    unfolding ys_def by (simp add: assms(1) mset_map)
  moreover have "map (projr \<circ> sample_of_row p mi ii) rows = xs"
    using xs(1) by (metis (no_types, lifting) list.map_comp map_idI sum.sel(2) comp_apply)
  ultimately have perm: "mset xs = mset ys" by simp
  then have "sort_key total_key xs = sort_key total_key ys"
    by (intro sort_key_inj_key_eq) (auto intro: inj_on_subset [OF total_key_inj])
  moreover from perm xs(2) have "ys \<noteq> []" by auto
  ultimately show ?thesis using xs(3) ys read [of rows' "[]" ys] by (simp add: median_of_records_def)
qed

definition sample_rows :: "string list list" where
  "sample_rows = [[''1000'', ''10''], [''10'', ''10''], [''10'', ''10'']]"

theorem median_order_independent_witness:
  "median_of_records ''raw.csv'' 0 1 (map Inr (rev sample_rows)) = Inr (Finite False 1)"
proof -
  have "f64_of False 100 = Finite False 100" "f64_of False 1 = Finite False 1"
    using f64_of_nat [of 100 False] f64_of_nat [of 1 False] by simp_all
  then have "median_of_records ''raw.csv'' 0 1 (map Inr sample_rows) = Inr (Finite False 1)"
    by (simp add: median_of_records_def sample_of_row_def parse_cell_def nth_option_def sample_rows_def
        thousand_by_ten f64_zero_def median_def less_eq_prod_def less_prod_def)
  moreover have "mset sample_rows = mset (rev sample_rows)" by simp
  ultimately show ?thesis by (rule median_order_independent [rotated])
qed

section \<open>Unusual iteration counts\<close>

text \<open>
  A count that is not a number is not rejected: the comparison with 0 is false. The sample is then not a
  number either, and a change that is not one is never within its threshold.
\<close>

lemma nan_iteration_count_accepted:
  "sample_of_row p 0 1 [''1000'', ''nan''] = Inr (NaN False) \<and> \<not> f64_le (NaN False) threshold"
proof -
  have "parse_f64 ''nan'' = Inr (NaN False)" by code_simp
  then show ?thesis
    by (simp add: sample_of_row_def parse_cell_def nth_option_def thousand_by_ten f64_zero_def)
qed

end
