(* ===== verification/Text_Numbers.thy ===== *)
theory Text_Numbers
  imports Smoke_System
begin

text \<open>
  Numbers as text: the upper case hexadecimal of Rust's \<open>{:X}\<close>, and \<open>u128::from_str_radix\<close>, to which
  \<open>str::parse::<u128>\<close> is the call with radix 10. Reading back what \<open>decimal\<close> and \<open>hex_upper\<close> print is
  shown once for both radices.
\<close>

section \<open>Printing\<close>

definition upper_hex_digit :: "nat \<Rightarrow> char" where
  "upper_hex_digit n = ''0123456789ABCDEF'' ! (n mod 16)"

fun hex_upper :: "nat \<Rightarrow> string" where
  "hex_upper n = (if n < 16 then [upper_hex_digit n] else hex_upper (n div 16) @ [upper_hex_digit n])"

declare hex_upper.simps [simp del]

section \<open>Reading\<close>

text \<open>\<open>char::to_digit\<close>\<close>

definition to_digit :: "nat \<Rightarrow> char \<Rightarrow> nat option" where
  "to_digit radix c =
     (let n = of_char c :: nat;
          d = (if 48 \<le> n \<and> n \<le> 57 then Some (n - 48)
               else if 65 \<le> n \<and> n \<le> 90 then Some (n - 55)
               else if 97 \<le> n \<and> n \<le> 122 then Some (n - 87)
               else None)
      in case d of None \<Rightarrow> None | Some v \<Rightarrow> if v < radix then Some v else None)"

text \<open>The digits with the accumulator: \<open>None\<close> for an invalid digit and for a value of \<open>2\<^sup>1\<^sup>2\<^sup>8\<close> or more.\<close>

fun read_digits :: "nat \<Rightarrow> string \<Rightarrow> nat \<Rightarrow> nat option" where
  "read_digits radix [] acc = Some acc"
| "read_digits radix (c # cs) acc =
     (case to_digit radix c of
        None \<Rightarrow> None
      | Some d \<Rightarrow> if acc * radix + d < 2 ^ 128 then read_digits radix cs (acc * radix + d) else None)"

text \<open>No digit and a lone sign are errors, a leading plus sign is taken off.\<close>

definition u128_from_str_radix :: "string \<Rightarrow> nat \<Rightarrow> nat option" where
  "u128_from_str_radix src radix =
     (case src of
        [] \<Rightarrow> None
      | c # cs \<Rightarrow>
          if c = CHR ''+'' then (if cs = [] then None else read_digits radix cs 0)
          else read_digits radix src 0)"

section \<open>The value of a sequence of digits\<close>

definition is_radix_digit :: "nat \<Rightarrow> char \<Rightarrow> bool" where
  "is_radix_digit radix c \<longleftrightarrow> to_digit radix c \<noteq> None"

definition digits_number :: "nat \<Rightarrow> string \<Rightarrow> nat" where
  "digits_number radix ds = foldl (\<lambda>n c. n * radix + the (to_digit radix c)) 0 ds"

lemma foldl_digits_mono:
  assumes "1 \<le> (radix :: nat)"
  shows "acc \<le> foldl (\<lambda>n c. n * radix + f c) acc ds"
proof (induction ds arbitrary: acc)
  case (Cons c cs)
  have "acc * 1 \<le> acc * radix" using assms by (rule mult_le_mono2)
  then have "acc \<le> acc * radix + f c" by linarith
  also have "\<dots> \<le> foldl (\<lambda>n c. n * radix + f c) (acc * radix + f c) cs" by (rule Cons)
  finally show ?case by simp
qed simp

lemma read_digits_iff:
  assumes "1 \<le> radix" and "acc < 2 ^ 128"
  shows "read_digits radix ds acc = Some n \<longleftrightarrow>
     list_all (is_radix_digit radix) ds \<and>
     n = foldl (\<lambda>n c. n * radix + the (to_digit radix c)) acc ds \<and> n < 2 ^ 128"
  using assms(2)
proof (induction ds arbitrary: acc)
  case Nil
  then show ?case by auto
next
  case (Cons c cs)
  show ?case
  proof (cases "to_digit radix c")
    case None
    then show ?thesis by (simp add: is_radix_digit_def)
  next
    case (Some d)
    let ?acc = "acc * radix + d"
    show ?thesis
    proof (cases "?acc < 2 ^ 128")
      case True
      with Cons.IH [OF True] Some show ?thesis by (simp add: is_radix_digit_def)
    next
      case False
      have "?acc \<le> foldl (\<lambda>n c. n * radix + the (to_digit radix c)) ?acc cs"
        by (rule foldl_digits_mono [OF assms(1)])
      with False Some show ?thesis by auto
    qed
  qed
qed

lemma read_digits_zero:
  "1 \<le> radix \<Longrightarrow> read_digits radix ds 0 = Some n \<longleftrightarrow>
     list_all (is_radix_digit radix) ds \<and> n = digits_number radix ds \<and> n < 2 ^ 128"
  using read_digits_iff [of radix 0 ds n] by (simp add: digits_number_def)

lemma plus_no_digit: "\<not> is_radix_digit radix (CHR ''+'')"
  by (simp add: is_radix_digit_def to_digit_def)

text \<open>What the reader accepts: digits, with a plus sign in front or without.\<close>

definition numeral_text :: "nat \<Rightarrow> string \<Rightarrow> nat \<Rightarrow> bool" where
  "numeral_text radix s n \<longleftrightarrow>
     (let ds = (if s \<noteq> [] \<and> hd s = CHR ''+'' then tl s else s)
      in ds \<noteq> [] \<and> list_all (is_radix_digit radix) ds \<and> n = digits_number radix ds)"

lemma u128_from_str_radix_iff:
  "1 \<le> radix \<Longrightarrow> u128_from_str_radix s radix = Some n \<longleftrightarrow> numeral_text radix s n \<and> n < 2 ^ 128"
  supply read_digits.simps(2) [simp del]
  by (cases s) (auto simp: u128_from_str_radix_def numeral_text_def read_digits_zero)

section \<open>Printing and reading back\<close>

lemma to_digit_tables:
  "\<forall>k\<in>set [0..<10]. to_digit 10 (''0123456789'' ! k) = Some k"
  "\<forall>k\<in>set [0..<16]. to_digit 16 (''0123456789ABCDEF'' ! k) = Some k"
  by code_simp+

lemma to_digit_decimal: "to_digit 10 (decimal_digit n) = Some (n mod 10)"
  using to_digit_tables(1) by (simp add: decimal_digit_def)

lemma to_digit_hex: "to_digit 16 (upper_hex_digit n) = Some (n mod 16)"
  using to_digit_tables(2) by (simp add: upper_hex_digit_def)

lemma digits_number_snoc [simp]:
  "digits_number radix (ds @ [c]) = digits_number radix ds * radix + the (to_digit radix c)"
  by (simp add: digits_number_def)

lemma digits_number_single [simp]: "digits_number radix [c] = the (to_digit radix c)"
  by (simp add: digits_number_def)

lemma decimal_numeral:
  "decimal n \<noteq> [] \<and> list_all (is_radix_digit 10) (decimal n) \<and> digits_number 10 (decimal n) = n"
proof (induction n rule: decimal.induct)
  case (1 n)
  then show ?case
    by (cases "n < 10") (simp_all add: decimal.simps [of n] is_radix_digit_def to_digit_decimal)
qed

lemma hex_numeral:
  "hex_upper n \<noteq> [] \<and> list_all (is_radix_digit 16) (hex_upper n) \<and> digits_number 16 (hex_upper n) = n"
proof (induction n rule: hex_upper.induct)
  case (1 n)
  then show ?case
    by (cases "n < 16") (simp_all add: hex_upper.simps [of n] is_radix_digit_def to_digit_hex)
qed

lemma digits_numeral_text:
  assumes "ds \<noteq> []" and "list_all (is_radix_digit radix) ds"
  shows "numeral_text radix ds (digits_number radix ds)"
proof -
  have "hd ds \<noteq> CHR ''+''" using assms plus_no_digit [of radix] by (cases ds) auto
  with assms show ?thesis by (simp add: numeral_text_def)
qed

lemma read_decimal: "n < 2 ^ 128 \<Longrightarrow> u128_from_str_radix (decimal n) 10 = Some n"
  using decimal_numeral [of n] digits_numeral_text [of "decimal n" 10]
  by (simp add: u128_from_str_radix_iff)

lemma read_hex: "n < 2 ^ 128 \<Longrightarrow> u128_from_str_radix (hex_upper n) 16 = Some n"
  using hex_numeral [of n] digits_numeral_text [of "hex_upper n" 16]
  by (simp add: u128_from_str_radix_iff)

lemma is_radix_digit_free:
  "is_radix_digit radix c \<Longrightarrow> c \<noteq> CHR ''_'' \<and> \<not> is_white c \<and> c \<noteq> CHR ''/'' \<and> c \<noteq> CHR ''+''"
  by (auto simp: is_radix_digit_def to_digit_def is_white_def Let_def split: if_splits option.splits)

end
