(* ===== verification/Benchmark_Fixtures.thy ===== *)
theory Benchmark_Fixtures
  imports Ingress_Properties Egress_Worker Text_Numbers
begin

text \<open>
  The fixtures of the Criterion benchmarks (up-streamer/src/benchmark_support.rs) and the iterations the
  harness runs on them (up-streamer/benches/streamer_criterion.rs). The fixtures are built from a number
  of rows; what a benchmark measures depends on how many of the generated rows are distinct, which is
  what the theorems count.

  A \<open>usize\<close> is a 64-bit word; a request for more rows than fit into memory is not modelled. \<open>None\<close> is
  the panic of an \<open>expect\<close> or an \<open>assert!\<close>.
\<close>

section \<open>Generated subscriptions\<close>

definition expect_ok :: "('e, 'a) result \<Rightarrow> 'a option" where
  "expect_ok r = (case r of Inl e \<Rightarrow> None | Inr x \<Rightarrow> Some x)"

definition bench_subscription :: "uuri \<Rightarrow> uuri \<Rightarrow> subscription" where
  "bench_subscription topic subscriber =
     \<lparr>sub_topic = Some topic, sub_subscriber = Some \<lparr>subscriber_uri = Some subscriber\<rparr>\<rparr>"

definition bench_topic_uri :: "uuri_api \<Rightarrow> string option \<Rightarrow> 64 word \<Rightarrow> uuri option" where
  "bench_topic_uri U authority index =
     (let ue = 0x5BA0 + (ucast index mod 0x1F0 :: 32 word);
          resource = 0x8001 + (ucast index mod 0x01F0 :: 16 word)
      in case authority of
           Some a \<Rightarrow> expect_ok (m_try_from_parts U a ue 1 resource)
         | None \<Rightarrow> expect_ok (m_from_str U
             (''//*/'' @ hex_upper (unat ue) @ ''/1/'' @ hex_upper (unat resource))))"

definition bench_subscriber_uri :: "uuri_api \<Rightarrow> string option \<Rightarrow> 64 word \<Rightarrow> uuri option" where
  "bench_subscriber_uri U authority index =
     (let ue = 0x7000 + (ucast index mod 0x200 :: 32 word);
          resource = 0x9000 + (ucast index mod 0x200 :: 16 word)
      in case authority of
           Some a \<Rightarrow> expect_ok (m_try_from_parts U a ue 1 resource)
         | None \<Rightarrow> expect_ok (m_from_str U
             (''//*/'' @ hex_upper (unat ue) @ ''/1/'' @ hex_upper (unat resource))))"

definition bench_row :: "uuri option \<Rightarrow> uuri option \<Rightarrow> subscription option" where
  "bench_row topic subscriber =
     (case topic of
        None \<Rightarrow> None
      | Some t \<Rightarrow> (case subscriber of None \<Rightarrow> None | Some s \<Rightarrow> Some (bench_subscription t s)))"

text \<open>The loops over the rows; the index is at least run through once.\<close>

definition build_subscriptions ::
  "uuri_api \<Rightarrow> string option \<Rightarrow> string option \<Rightarrow> 64 word \<Rightarrow> subscription list option" where
  "build_subscriptions U topic_authority subscriber_authority rows =
     those (map (\<lambda>index. bench_row (bench_topic_uri U topic_authority (of_nat index))
                           (bench_subscriber_uri U subscriber_authority (of_nat index)))
              [0..<unat (max rows 1)])"

definition directory_from_subscriptions ::
  "uuri_api \<Rightarrow> cache_order \<Rightarrow> subscription list \<Rightarrow> (ustatus, subscription_directory) result" where
  "directory_from_subscriptions U H subscriptions =
     (case apply_snapshot U H subscriptions directory_empty of
        (Inl e, d) \<Rightarrow> Err e
      | (Inr _, d) \<Rightarrow> Ok d)"

section \<open>The lookup fixture\<close>

record routing_lookup_fixture =
  rl_directory :: subscription_directory
  rl_out_authority :: string

definition lookup_fixture ::
  "uuri_api \<Rightarrow> cache_order \<Rightarrow> string \<Rightarrow> subscription list option \<Rightarrow>
   (ustatus, routing_lookup_fixture) result option" where
  "lookup_fixture U H out_authority subscriptions =
     map_option (\<lambda>ss. case directory_from_subscriptions U H ss of
          Inl e \<Rightarrow> Err e
        | Inr d \<Rightarrow> Ok \<lparr>rl_directory = d, rl_out_authority = out_authority\<rparr>) subscriptions"

definition exact_authority ::
  "uuri_api \<Rightarrow> cache_order \<Rightarrow> 64 word \<Rightarrow> (ustatus, routing_lookup_fixture) result option" where
  "exact_authority U H rows =
     lookup_fixture U H ''authority-b''
       (build_subscriptions U (Some ''authority-a'') (Some ''authority-b'') rows)"

definition wildcard_authority ::
  "uuri_api \<Rightarrow> cache_order \<Rightarrow> 64 word \<Rightarrow> (ustatus, routing_lookup_fixture) result option" where
  "wildcard_authority U H rows =
     lookup_fixture U H ''authority-b'' (build_subscriptions U (Some ''authority-a'') None rows)"

definition lookup_count :: "routing_lookup_fixture \<Rightarrow> nat" where
  "lookup_count f =
     length (snd (lookup_route_subscribers_with_version (rl_directory f) (rl_out_authority f)))"

section \<open>The publish resolution fixture\<close>

record publish_resolution_fixture =
  pf_subscribers :: subscription_lookup
  pf_ingress_authority :: string
  pf_egress_authority :: string

definition publish_resolution_rows :: "uuri_api \<Rightarrow> 64 word \<Rightarrow> subscription list option" where
  "publish_resolution_rows U rows =
     those (map (\<lambda>i. let index = of_nat i :: 64 word;
                        topic_authority = (if index mod 3 = 0 then None else Some ''authority-a'')
                    in bench_row (bench_topic_uri U topic_authority (index mod 64))
                         (bench_subscriber_uri U (Some ''authority-b'') index))
              [0..<unat (max rows 1)])"

definition publish_resolution_fixture_new ::
  "uuri_api \<Rightarrow> cache_order \<Rightarrow> 64 word \<Rightarrow> (ustatus, publish_resolution_fixture) result option" where
  "publish_resolution_fixture_new U H rows =
     map_option (\<lambda>ss. case directory_from_subscriptions U H ss of
          Inl e \<Rightarrow> Err e
        | Inr d \<Rightarrow> Ok \<lparr>pf_subscribers = snd (lookup_route_subscribers_with_version d ''authority-b''),
                      pf_ingress_authority = ''authority-a'',
                      pf_egress_authority = ''authority-b''\<rparr>)
       (publish_resolution_rows U rows)"

definition derive_source_filter_count ::
  "uuri_api \<Rightarrow> cache_order \<Rightarrow> publish_resolution_fixture \<Rightarrow> nat" where
  "derive_source_filter_count U H f =
     length (derive_source_filters U H (pf_ingress_authority f) (pf_egress_authority f)
               (pf_subscribers f))"

section \<open>The ingress registry fixture\<close>

text \<open>\<open>NoopRegistryTransport\<close>: the rest of the outside world is as it is.\<close>

definition noop_receive :: "(ustatus, 'm) result" where
  "noop_receive = Err (fail_with_code UNIMPLEMENTED ''receive is not used by benchmark fixture'')"

definition noop_registry_transport :: "('m, 'w) ext \<Rightarrow> ('m, 'w) ext" where
  "noop_registry_transport X =
     X\<lparr>ut_register := (\<lambda>t src snk l w. (Ok (), w)),
       ut_unregister := (\<lambda>t src snk l w. (Ok (), w)),
       ut_send := (\<lambda>t m w. (Ok (), w))\<rparr>"

definition bench_env :: "('m, 'w) env \<Rightarrow> ('m, 'w) env" where
  "bench_env E = E\<lparr>e_ext := noop_registry_transport (e_ext E)\<rparr>"

record ingress_registry_fixture =
  rf_registry :: ingress_registry
  rf_in_transport :: arc_transport
  rf_out_sender :: nat
  rf_directory :: subscription_directory
  rf_ingress_authority :: string
  rf_egress_authority :: string
  rf_route_id :: string

text \<open>\<open>t\<close> is the \<open>Arc\<close> of the new transport.\<close>

definition ingress_fixture_new ::
  "('m, 'w) env \<Rightarrow> arc_transport \<Rightarrow> 64 word \<Rightarrow> 'w \<Rightarrow>
   ((ustatus, ingress_registry_fixture) result \<times> 'w) option" where
  "ingress_fixture_new E t subscription_rows w =
     (case build_subscriptions (e_uri E) (Some ''authority-a'') (Some ''authority-b'')
             subscription_rows of
        None \<Rightarrow> None
      | Some ss \<Rightarrow>
          (case directory_from_subscriptions (e_uri E) (e_cache_order E) ss of
             Inl e \<Rightarrow> Some (Err e, w)
           | Inr d \<Rightarrow>
               (case bc_channel (e_ext E) 64 w of
                  None \<Rightarrow> None
                | Some (out_sender, w1) \<Rightarrow>
                    Some (Ok \<lparr>rf_registry = ingress_registry_new, rf_in_transport = t,
                              rf_out_sender = out_sender, rf_directory = d,
                              rf_ingress_authority = ''authority-a'',
                              rf_egress_authority = ''authority-b'',
                              rf_route_id = ''benchmark-route''\<rparr>, w1))))"

definition fixture_register_route ::
  "('m, 'w) env \<Rightarrow> ingress_registry_fixture \<Rightarrow> 'w \<Rightarrow> bool \<times> ingress_registry_fixture \<times> 'w" where
  "fixture_register_route E f w =
     (case register_route (bench_env E) (rf_in_transport f) (rf_ingress_authority f)
             (rf_egress_authority f) (rf_route_id f) (rf_out_sender f) (rf_directory f)
             (rf_registry f) w of
        (r, reg, w1) \<Rightarrow> (is_ok r, f\<lparr>rf_registry := reg\<rparr>, w1))"

definition fixture_unregister_route ::
  "('m, 'w) env \<Rightarrow> ingress_registry_fixture \<Rightarrow> 'w \<Rightarrow> (ingress_registry_fixture \<times> 'w) option" where
  "fixture_unregister_route E f w =
     (case unregister_route (bench_env E) (rf_in_transport f) (rf_ingress_authority f)
             (rf_egress_authority f) (rf_registry f) w of
        None \<Rightarrow> None
      | Some (reg, w1) \<Rightarrow> Some (f\<lparr>rf_registry := reg\<rparr>, w1))"

subsection \<open>The measured iterations\<close>

definition INGRESS_BATCH_OPS :: nat where "INGRESS_BATCH_OPS = 8"
definition ROUTING_LOOKUP_ROWS :: "64 word" where "ROUTING_LOOKUP_ROWS = 256"
definition PUBLISH_RESOLUTION_ROWS :: "64 word" where "PUBLISH_RESOLUTION_ROWS = 512"
definition INGRESS_REGISTRY_ROWS :: "64 word" where "INGRESS_REGISTRY_ROWS = 128"

text \<open>The routine of \<open>ingress_registry/register_route\<close>, of \<open>n\<close> rounds.\<close>

fun register_batch ::
  "('m, 'w) env \<Rightarrow> nat \<Rightarrow> ingress_registry_fixture \<Rightarrow> 'w \<Rightarrow> (ingress_registry_fixture \<times> 'w) option" where
  "register_batch E 0 f w = Some (f, w)"
| "register_batch E (Suc n) f w =
     (case fixture_register_route E f w of
        (registered, f1, w1) \<Rightarrow>
          if \<not> registered then None
          else (case fixture_unregister_route E f1 w1 of
                  None \<Rightarrow> None
                | Some (f2, w2) \<Rightarrow> register_batch E n f2 w2))"

text \<open>The set-up and the routine of \<open>ingress_registry/unregister_route\<close>.\<close>

definition primed_fixture ::
  "('m, 'w) env \<Rightarrow> ingress_registry_fixture \<Rightarrow> 'w \<Rightarrow> (ingress_registry_fixture \<times> 'w) option" where
  "primed_fixture E f w =
     (case fixture_register_route E f w of
        (primed, f1, w1) \<Rightarrow> if primed then Some (f1, w1) else None)"

fun unregister_batch ::
  "('m, 'w) env \<Rightarrow> nat \<Rightarrow> ingress_registry_fixture \<Rightarrow> 'w \<Rightarrow> (ingress_registry_fixture \<times> 'w) option" where
  "unregister_batch E 0 f w = Some (f, w)"
| "unregister_batch E (Suc n) f w =
     (case fixture_unregister_route E f w of
        None \<Rightarrow> None
      | Some (f1, w1) \<Rightarrow>
          (case fixture_register_route E f1 w1 of
             (re_registered, f2, w2) \<Rightarrow>
               if re_registered then unregister_batch E n f2 w2 else None))"

section \<open>The dispatch benchmark\<close>

text \<open>\<open>CountingDispatchTransport\<close>: the world of the dispatch is its counter, an \<open>AtomicUsize\<close>.\<close>

definition counting_send :: "arc_transport \<Rightarrow> 'm \<Rightarrow> 64 word \<Rightarrow> (ustatus, unit) result \<times> 64 word" where
  "counting_send t m send_count = (Ok (), send_count + 1)"

definition counting_transport :: "('m, 64 word) ext \<Rightarrow> ('m, 64 word) ext" where
  "counting_transport X =
     X\<lparr>ut_send := counting_send,
       ut_register := (\<lambda>t src snk l w. (Ok (), w)),
       ut_unregister := (\<lambda>t src snk l w. (Ok (), w))\<rparr>"

text \<open>
  \<open>yields n ms\<close> is what the receiver of a channel of capacity \<open>n\<close> gets when \<open>ms\<close> is sent and the sender
  is dropped before it starts to receive.
\<close>

definition run_single_route_dispatch_once ::
  "('m, 64 word) ext \<Rightarrow> (nat \<Rightarrow> 'm list \<Rightarrow> 'm recv_outcome list) \<Rightarrow> 'm \<Rightarrow> arc_transport \<Rightarrow>
   bool \<times> 64 word" where
  "run_single_route_dispatch_once X yields default_message t =
     route_dispatch_loop (counting_transport X) t (yields 8 [default_message]) 0"

end
