(* ===== verification/Benchmark_Properties.thy ===== *)
theory Benchmark_Properties
  imports Benchmark_Fixtures
begin

text \<open>
  What the benchmark fixtures contain: the number of distinct rows and topics they generate, which is
  what the lookup and derivation benchmarks work on, and the outcome of the measured iterations.
\<close>

section \<open>The generated URIs\<close>

text \<open>
  What the fixtures rely on of \<open>up_rust\<close>: the URIs of the two authorities can be built, and a wildcard URI
  in its textual form is parsed as such.
\<close>

definition fixture_uris_ok :: "uuri_api \<Rightarrow> bool" where
  "fixture_uris_ok U \<longleftrightarrow> uuri_api_ok U \<and>
     (\<forall>a e v r. a \<in> {''authority-a'', ''authority-b''} \<longrightarrow> is_ok (m_try_from_parts U a e v r)) \<and>
     (\<forall>(e :: 32 word) (r :: 16 word).
        m_from_str U (''//*/'' @ hex_upper (unat e) @ ''/1/'' @ hex_upper (unat r))
        = Inr \<lparr>authority_name = ''*'', ue_id = e, ue_version_major = 1, resource_id = ucast r\<rparr>)"

definition generated_uri :: "string \<Rightarrow> nat \<Rightarrow> nat \<Rightarrow> nat \<Rightarrow> nat \<Rightarrow> uuri" where
  "generated_uri a ue resource m i =
     \<lparr>authority_name = a, ue_id = of_nat (ue + i mod m), ue_version_major = 1,
      resource_id = ucast (of_nat (resource + i mod m) :: 16 word)\<rparr>"

definition authority_or_wildcard :: "string option \<Rightarrow> string" where
  "authority_or_wildcard a = (case a of None \<Rightarrow> ''*'' | Some s \<Rightarrow> s)"

lemma ucast_of_nat_small: "i < 65536 \<Longrightarrow> (ucast (of_nat i :: 64 word) :: 'a::len word) = of_nat i"
  by (simp add: unsigned_of_nat take_bit_nat_eq_self)

lemma of_nat_mod_word:
  assumes "i < 2 ^ LENGTH('a::len)" and "m < 2 ^ LENGTH('a)"
  shows "(of_nat i :: 'a word) mod of_nat m = of_nat (i mod m)"
proof -
  have "i mod m < 2 ^ LENGTH('a)"
    using assms(1) mod_less_eq_dividend [of i m] by (rule order_le_less_trans [rotated])
  with assms show ?thesis
    by (intro word_unat_eq_iff [THEN iffD2])
      (simp add: unat_mod unat_of_nat take_bit_nat_eq_self)
qed

lemma generated_index:
  assumes "i < 65536" and "m < 65536"
  shows "(ucast (of_nat i :: 64 word) :: 32 word) mod of_nat m = of_nat (i mod m)"
    and "(ucast (of_nat i :: 64 word) :: 16 word) mod of_nat m = of_nat (i mod m)"
  using assms by (simp_all add: ucast_of_nat_small of_nat_mod_word)

lemma built_uri:
  assumes "fixture_uris_ok U" and "a \<in> {''authority-a'', ''authority-b''}"
  shows "expect_ok (m_try_from_parts U a e 1 r)
     = Some \<lparr>authority_name = a, ue_id = e, ue_version_major = 1, resource_id = ucast r\<rparr>"
proof -
  have "is_ok (m_try_from_parts U a e 1 r)" using assms unfolding fixture_uris_ok_def by blast
  then obtain u where u: "m_try_from_parts U a e 1 r = Inr u"
    by (cases "m_try_from_parts U a e 1 r") simp_all
  from assms(1) have "uuri_api_ok U" by (simp add: fixture_uris_ok_def)
  from try_from_parts_Ok [OF this u] u show ?thesis by (simp add: expect_ok_def)
qed

lemma bench_topic:
  assumes "fixture_uris_ok U" and "i < 65536" and "a \<in> {None, Some ''authority-a'', Some ''authority-b''}"
  shows "bench_topic_uri U a (of_nat i)
     = Some (generated_uri (authority_or_wildcard a) 0x5BA0 0x8001 496 i)"
  using generated_index [OF assms(2), of 496] assms(1,3) built_uri [OF assms(1)]
  by (auto simp: bench_topic_uri_def generated_uri_def authority_or_wildcard_def Let_def
      fixture_uris_ok_def expect_ok_def)

lemma bench_subscriber:
  assumes "fixture_uris_ok U" and "i < 65536" and "a \<in> {None, Some ''authority-a'', Some ''authority-b''}"
  shows "bench_subscriber_uri U a (of_nat i)
     = Some (generated_uri (authority_or_wildcard a) 0x7000 0x9000 512 i)"
  using generated_index [OF assms(2), of 512] assms(1,3) built_uri [OF assms(1)]
  by (auto simp: bench_subscriber_uri_def generated_uri_def authority_or_wildcard_def Let_def
      fixture_uris_ok_def expect_ok_def)

lemma generated_key_eq_iff:
  assumes "uuri_api_ok U" and "0 < m" and "m \<le> 512" and "e \<le> 0x8000" and "r \<le> 0x9000"
  shows "uri_key U (generated_uri a e r m i) = uri_key U (generated_uri b e r m j) \<longleftrightarrow>
     a = b \<and> i mod m = j mod m"
proof -
  have i: "i mod m < 512" "j mod m < 512" using assms(2,3) by (meson mod_less_divisor order_less_le_trans)+
  then have "(of_nat (e + i mod m) :: 32 word) = of_nat (e + j mod m) \<longleftrightarrow> i mod m = j mod m"
    using assms(4) by (simp only: word_of_nat_eq_iff) (simp add: take_bit_nat_eq_self)
  then show ?thesis
    by (auto simp: uri_key_eq_iff [OF assms(1)] generated_uri_def)
qed

section \<open>Counting\<close>

text \<open>Indices with the same pair of remainders: the 496 topics and the 512 subscribers repeat together.\<close>

lemma remainder_pair_inj: "inj_on (\<lambda>i. (i mod 496, i mod 512 :: nat)) {..<15872}"
proof (rule linorder_inj_onI)
  fix i j :: nat
  assume less: "i < j" and "j \<in> {..<15872}"
  show "(i mod 496, i mod 512) \<noteq> (j mod 496, j mod 512)"
  proof
    assume "(i mod 496, i mod 512) = (j mod 496, j mod 512)"
    then have d496: "496 dvd j - i" and d512: "512 dvd j - i"
      using less mod_eq_dvd_iff_nat [of i j 496] mod_eq_dvd_iff_nat [of i j 512] by simp_all
    have "31 dvd (496 :: nat)" by simp
    then have "31 dvd j - i" using d496 by (rule dvd_trans)
    moreover have "coprime (31 :: nat) 512" by (simp add: coprime_iff_gcd_eq_1 gcd_non_0_nat)
    ultimately have "31 * 512 dvd j - i" using d512 by (intro divides_mult)
    then show False using less \<open>j \<in> {..<15872}\<close> by (auto dest!: dvd_imp_le)
  qed
qed auto

lemma periodic_image:
  assumes "\<And>i. f (i mod p) = f (i :: nat)" and "0 < p"
  shows "f ` {..<n} = f ` {..<min n p}"
proof
  show "f ` {..<n} \<subseteq> f ` {..<min n p}"
  proof
    fix y assume "y \<in> f ` {..<n}"
    then obtain i where "i < n" "y = f (i mod p)" using assms(1) by auto
    moreover have "i mod p < min n p"
      using \<open>i < n\<close> assms(2) mod_less_eq_dividend [of i p] by (simp del: mod_less_eq_dividend)
    ultimately show "y \<in> f ` {..<min n p}" by auto
  qed
qed auto

lemma periodic_card:
  assumes "\<And>i. f (i mod p) = f (i :: nat)" and "0 < p" and "inj_on f {..<p}"
  shows "card (f ` {..<n}) = min n p"
proof -
  have "card (f ` {..<n}) = card (f ` {..<min n p})"
    using periodic_image [of f p n] assms(1,2) by simp
  also have "\<dots> = min n p"
    using assms(3) by (subst card_image) (auto elim: inj_on_subset)
  finally show ?thesis .
qed

lemma count_pairs: "card ((\<lambda>i. (i mod 496, i mod 512 :: nat)) ` {..<n}) = min n 15872"
  by (rule periodic_card [OF _ _ remainder_pair_inj])
    (simp_all add: mod_mod_cancel)

lemma count_remainders: "0 < m \<Longrightarrow> card ((\<lambda>i. i mod m :: nat) ` {..<n}) = min n m"
  by (rule periodic_card) (auto simp: inj_on_def)

lemma hm_length: "hm_wf m \<Longrightarrow> length m = card {k. hm_get m k \<noteq> None}"
proof -
  assume "hm_wf m"
  then have "length m = card (set (map fst m))"
    by (metis distinct_card hm_wf_def length_map)
  moreover have "{k. hm_get m k \<noteq> None} = set (map fst m)"
    by (auto simp: hm_get_def dom_map_of_conv_image_fst [symmetric] dom_def)
  ultimately show ?thesis by simp
qed

lemma card_image_kernel:
  assumes "\<And>x y. x \<in> A \<Longrightarrow> y \<in> A \<Longrightarrow> f x = f y \<longleftrightarrow> g x = g y"
  shows "card (f ` A) = card (g ` A)"
proof -
  let ?h = "\<lambda>v. g (inv_into A f v)"
  have h: "?h (f x) = g x" if "x \<in> A" for x
    using assms [of "inv_into A f (f x)" x] that by (simp add: inv_into_into f_inv_into_f)
  then have "inj_on ?h (f ` A)" using assms by (auto simp: inj_on_def)
  moreover have "?h ` f ` A = g ` A" using h by (force simp: image_iff)
  ultimately show ?thesis by (metis card_image)
qed

lemma those_map_Some: "(\<And>x. x \<in> set xs \<Longrightarrow> f x = Some (g x)) \<Longrightarrow> those (map f xs) = Some (map g xs)"
  by (induction xs) auto

section \<open>The directory of the generated rows\<close>

lemma fixture_directory:
  assumes "uuri_api_ok U" and "cache_order_ok H" and "list_all complete_row ss"
  shows "\<exists>d. directory_from_subscriptions U H ss = Inr d \<and> directory_reflects U ss d"
proof -
  obtain r d where rd: "apply_snapshot U H ss directory_empty = (r, d)" by (cases "apply_snapshot U H ss directory_empty")
  then have "is_ok r" using apply_snapshot_Ok_iff [of U H ss directory_empty] assms(3) by simp
  then obtain x where "r = Inr x" by (cases r) simp_all
  with rd apply_snapshot_lookup [OF assms(1,2)] show ?thesis
    by (auto simp: directory_from_subscriptions_def)
qed

lemma reflected_keys:
  assumes "directory_reflects U ss d" and "\<And>s. s \<in> set ss \<Longrightarrow> row_authority s \<in> {a, ''*''}"
  shows "{k. hm_get (snd (lookup_route_subscribers_with_version d a)) k \<noteq> None}
     = (\<lambda>s. subscription_identity U (row_info s)) ` set ss"
proof -
  have all: "filter (\<lambda>s. row_authority s = a \<or> row_authority s = ''*'') ss = ss"
    using assms(2) by (auto simp: filter_id_conv)
  have "snapshot_rows U ss a k \<noteq> None \<longleftrightarrow> k \<in> (\<lambda>s. subscription_identity U (row_info s)) ` set ss" for k
    unfolding snapshot_rows_def rows_of_def all
    by (simp add: map_of_eq_None_iff image_image)
  with assms(1) show ?thesis by (simp add: directory_reflects_def)
qed

lemma bench_row_facts [simp]:
  "complete_row (bench_subscription t s)"
  "row_authority (bench_subscription t s) = authority_name s"
  "row_info (bench_subscription t s) = \<lparr>info_topic = t, info_subscriber = \<lparr>subscriber_uri = Some s\<rparr>\<rparr>"
  "subscription_identity U \<lparr>info_topic = t, info_subscriber = \<lparr>subscriber_uri = Some s\<rparr>\<rparr>
     = \<lparr>sik_topic = uri_key U t, sik_subscriber = Some (uri_key U s)\<rparr>"
  by (simp_all add: complete_row_def bench_subscription_def row_authority_def row_info_def
      subscription_identity_def)

text \<open>Rows with topic \<open>j i\<close> of the authority \<open>ta i\<close> and subscriber \<open>i\<close> of the authority \<open>sa\<close>.\<close>

definition generated_rows :: "(nat \<Rightarrow> string) \<Rightarrow> (nat \<Rightarrow> nat) \<Rightarrow> string \<Rightarrow> nat \<Rightarrow> subscription list" where
  "generated_rows ta j sa n =
     map (\<lambda>i. bench_subscription (generated_uri (ta i) 0x5BA0 0x8001 496 (j i))
                (generated_uri sa 0x7000 0x9000 512 i)) [0..<n]"

lemma generated_rows_directory:
  assumes "uuri_api_ok U" and "cache_order_ok H"
  shows "\<exists>d. directory_from_subscriptions U H (generated_rows ta j sa n) = Inr d \<and>
     directory_reflects U (generated_rows ta j sa n) d"
  by (rule fixture_directory [OF assms]) (auto simp: generated_rows_def list_all_iff)

lemma generated_rows_keys:
  assumes "directory_reflects U (generated_rows ta j sa n) d" and "sa \<in> {a, ''*''}"
  shows "{k. hm_get (snd (lookup_route_subscribers_with_version d a)) k \<noteq> None}
     = (\<lambda>i. \<lparr>sik_topic = uri_key U (generated_uri (ta i) 0x5BA0 0x8001 496 (j i)),
             sik_subscriber = Some (uri_key U (generated_uri sa 0x7000 0x9000 512 i))\<rparr>) ` {..<n}"
proof -
  have "row_authority s \<in> {a, ''*''}" if "s \<in> set (generated_rows ta j sa n)" for s
    using that assms(2) by (auto simp: generated_rows_def generated_uri_def)
  from reflected_keys [OF assms(1) this] show ?thesis
    by (simp add: generated_rows_def image_image lessThan_atLeast0)
qed

lemma rows_bound:
  assumes "unat (rows :: 64 word) \<le> 65536"
  shows "unat (max rows 1) = max (unat rows) 1" and "i < unat (max rows 1) \<Longrightarrow> i < 65536"
proof -
  show eq: "unat (max rows 1) = max (unat rows) 1"
    by (auto simp: max_def word_le_nat_alt)
  show "i < unat (max rows 1) \<Longrightarrow> i < 65536" using assms unfolding eq by auto
qed

lemma build_subscriptions_rows:
  assumes "fixture_uris_ok U" and "unat rows \<le> 65536"
    and "ta \<in> {None, Some ''authority-a'', Some ''authority-b''}"
    and "sa \<in> {None, Some ''authority-a'', Some ''authority-b''}"
  shows "build_subscriptions U ta sa rows
     = Some (generated_rows (\<lambda>_. authority_or_wildcard ta) (\<lambda>i. i) (authority_or_wildcard sa)
               (max (unat rows) 1))"
  unfolding build_subscriptions_def generated_rows_def rows_bound(1) [OF assms(2), symmetric]
  by (rule those_map_Some)
    (use rows_bound(2) [OF assms(2)] bench_topic [OF assms(1) _ assms(3)]
       bench_subscriber [OF assms(1) _ assms(4)] in \<open>simp add: bench_row_def\<close>)

lemma lookup_fixture_count:
  assumes "fixture_uris_ok U" and "cache_order_ok H" and "sa \<in> {''authority-b'', ''*''}"
  shows "\<exists>f. lookup_fixture U H ''authority-b'' (Some (generated_rows (\<lambda>_. ta) (\<lambda>i. i) sa n))
       = Some (Inr f) \<and> lookup_count f = min n 15872"
proof -
  have api: "uuri_api_ok U" using assms(1) by (simp add: fixture_uris_ok_def)
  obtain d where d: "directory_from_subscriptions U H (generated_rows (\<lambda>_. ta) (\<lambda>i. i) sa n) = Inr d"
    and refl: "directory_reflects U (generated_rows (\<lambda>_. ta) (\<lambda>i. i) sa n) d"
    using generated_rows_directory [OF api assms(2)] by blast
  let ?key = "\<lambda>i. \<lparr>sik_topic = uri_key U (generated_uri ta 0x5BA0 0x8001 496 i),
             sik_subscriber = Some (uri_key U (generated_uri sa 0x7000 0x9000 512 i))\<rparr>"
  have "?key i = ?key j \<longleftrightarrow> (i mod 496, i mod 512) = (j mod 496, j mod 512)" for i j
    by (simp add: generated_key_eq_iff [OF api])
  then have "card (?key ` {..<n}) = card ((\<lambda>i. (i mod 496, i mod 512 :: nat)) ` {..<n})"
    by (intro card_image_kernel)
  moreover have "hm_wf (snd (lookup_route_subscribers_with_version d ''authority-b''))"
    using refl by (simp add: directory_reflects_def)
  ultimately have "length (snd (lookup_route_subscribers_with_version d ''authority-b'')) = min n 15872"
    by (simp only: hm_length generated_rows_keys [OF refl assms(3)] count_pairs)
  with d show ?thesis by (simp add: lookup_fixture_def lookup_count_def)
qed

section \<open>The filters of the generated rows\<close>

lemma generated_filter:
  assumes "fixture_uris_ok U" and "ta \<in> {''*'', ''authority-a''}"
  shows "derive_source_filter_for_topic U ''authority-a'' [] (generated_uri ta e r m i)
     = Some (generated_uri ''authority-a'' e r m i)"
proof -
  have api: "uuri_api_ok U" using assms(1) by (simp add: fixture_uris_ok_def)
  have "m_try_from_parts U ''authority-a'' (of_nat (e + i mod m)) 1 (of_nat (r + i mod m))
      = Inr (generated_uri ''authority-a'' e r m i)"
    using built_uri [OF assms(1), of "''authority-a''" "of_nat (e + i mod m)" "of_nat (r + i mod m)"]
    by (simp add: expect_ok_def generated_uri_def split: sum.splits)
  then show ?thesis
    unfolding derive_for_topic_iff [OF api] using assms(2) by (simp add: generated_uri_def)
qed

lemma generated_lookup_value:
  assumes "directory_reflects U (generated_rows ta j sa n) d"
    and "hm_get (snd (lookup_route_subscribers_with_version d a)) k = Some info"
  shows "\<exists>i<n. info_topic info = generated_uri (ta i) 0x5BA0 0x8001 496 (j i) \<and>
     sik_topic k = uri_key U (info_topic info)"
  using assms
proof -
  have "snapshot_rows U (generated_rows ta j sa n) a k = Some info"
    using assms by (simp add: directory_reflects_def)
  then obtain s where "s \<in> set (generated_rows ta j sa n)" "k = subscription_identity U (row_info s)"
    "info = row_info s"
    unfolding snapshot_rows_def rows_of_def by (auto dest!: map_of_SomeD)
  then obtain i where "i < n" "s = bench_subscription (generated_uri (ta i) 0x5BA0 0x8001 496 (j i))
      (generated_uri sa 0x7000 0x9000 512 i)"
    by (auto simp: generated_rows_def)
  with \<open>k = _\<close> \<open>info = _\<close> show ?thesis by (intro exI [of _ i]) simp
qed

lemma generated_filter_keys:
  assumes "fixture_uris_ok U" and "cache_order_ok H" and "\<And>i. ta i \<in> {''*'', ''authority-a''}"
    and "directory_reflects U (generated_rows ta j sa n) d" and "sa \<in> {b, ''*''}"
  shows "{k. hm_get (derive_source_filters U H ''authority-a'' b
              (snd (lookup_route_subscribers_with_version d b))) k \<noteq> None}
     = (\<lambda>i. uri_key U (generated_uri ''authority-a'' 0x5BA0 0x8001 496 (j i))) ` {..<n}"
    (is "?K = ?f ` _")
proof -
  let ?L = "snd (lookup_route_subscribers_with_version d b)"
  have api: "uuri_api_ok U" using assms(1) by (simp add: fixture_uris_ok_def)
  have wf: "hm_wf ?L" using assms(4) by (simp add: directory_reflects_def)
  have K: "k \<in> ?K \<longleftrightarrow> (\<exists>u. filters_of U ''authority-a'' (snd ` set ?L) k u)" for k
    using derive_source_filters_get(1) [OF api assms(2), of "''authority-a''" b ?L k] by auto
  have row: "\<exists>i<n. derive_source_filter_for_topic U ''authority-a'' [] (info_topic info)
       = Some (generated_uri ''authority-a'' 0x5BA0 0x8001 496 (j i)) \<and>
       sik_topic k = uri_key U (generated_uri (ta i) 0x5BA0 0x8001 496 (j i))"
    if "hm_get ?L k = Some info" for k info
    using generated_lookup_value [OF assms(4) that] generated_filter [OF assms(1,3)] by metis
  show ?thesis
  proof
    show "?K \<subseteq> ?f ` {..<n}"
    proof
      fix k assume "k \<in> ?K"
      then obtain u k' info where "k = uri_key U u" "hm_get ?L k' = Some info"
        "derive_source_filter_for_topic U ''authority-a'' [] (info_topic info) = Some u"
        unfolding K filters_of_def by (auto simp: hm_get_set_iff [OF wf])
      with row show "k \<in> ?f ` {..<n}" by fastforce
    qed
    show "?f ` {..<n} \<subseteq> ?K"
    proof
      fix k assume "k \<in> ?f ` {..<n}"
      then obtain i where i: "i < n" "k = ?f i" by auto
      let ?k = "\<lparr>sik_topic = uri_key U (generated_uri (ta i) 0x5BA0 0x8001 496 (j i)),
             sik_subscriber = Some (uri_key U (generated_uri sa 0x7000 0x9000 512 i))\<rparr>"
      have "?k \<in> {k. hm_get ?L k \<noteq> None}"
        unfolding generated_rows_keys [OF assms(4,5)] using i(1) by (intro image_eqI) auto
      then obtain info where info: "hm_get ?L ?k = Some info" by auto
      from row [OF info] obtain i' where
        some: "derive_source_filter_for_topic U ''authority-a'' [] (info_topic info)
          = Some (generated_uri ''authority-a'' 0x5BA0 0x8001 496 (j i'))"
        and "uri_key U (generated_uri (ta i) 0x5BA0 0x8001 496 (j i))
          = uri_key U (generated_uri (ta i') 0x5BA0 0x8001 496 (j i'))" by auto
      then have "?f i' = k" using i(2) by (simp add: generated_key_eq_iff [OF api])
      moreover have "info \<in> snd ` set ?L" using info by (force simp: hm_get_set_iff [OF wf])
      ultimately show "k \<in> ?K" unfolding K filters_of_def using some by auto
    qed
  qed
qed

lemma generated_filter_count:
  assumes "fixture_uris_ok U" and "cache_order_ok H" and "\<And>i. ta i \<in> {''*'', ''authority-a''}"
    and "directory_reflects U (generated_rows ta j sa n) d" and "sa \<in> {b, ''*''}"
  shows "length (derive_source_filters U H ''authority-a'' b
              (snd (lookup_route_subscribers_with_version d b)))
     = card ((\<lambda>i. j i mod 496) ` {..<n})"
proof -
  have api: "uuri_api_ok U" using assms(1) by (simp add: fixture_uris_ok_def)
  have "card ((\<lambda>i. uri_key U (generated_uri ''authority-a'' 0x5BA0 0x8001 496 (j i))) ` {..<n})
      = card ((\<lambda>i. j i mod 496) ` {..<n})"
    by (rule card_image_kernel) (simp add: generated_key_eq_iff [OF api])
  then show ?thesis
    unfolding hm_length [OF derive_source_filters_get(2) [OF api assms(2)]]
      generated_filter_keys [OF assms] .
qed

lemma publish_rows:
  assumes "fixture_uris_ok U" and "unat rows \<le> 65536"
  shows "publish_resolution_rows U rows
     = Some (generated_rows (\<lambda>i. if i mod 3 = 0 then ''*'' else ''authority-a'') (\<lambda>i. i mod 64)
               ''authority-b'' (max (unat rows) 1))"
  unfolding publish_resolution_rows_def generated_rows_def rows_bound(1) [OF assms(2), symmetric]
proof (rule those_map_Some)
  fix i assume "i \<in> set [0..<unat (max rows 1)]"
  then have i: "i < 65536" using rows_bound(2) [OF assms(2)] by simp
  then have m: "(of_nat i :: 64 word) mod 3 = of_nat (i mod 3)" "(of_nat i :: 64 word) mod 64 = of_nat (i mod 64)"
    using of_nat_mod_word [of i 3, where 'a = 64] of_nat_mod_word [of i 64, where 'a = 64] by simp_all
  have z: "(of_nat (i mod 3) :: 64 word) = 0 \<longleftrightarrow> i mod 3 = 0"
  proof -
    have "i mod 3 = 0 \<or> i mod 3 = 1 \<or> i mod 3 = 2" by auto
    then show ?thesis by auto
  qed
  have "i mod 64 < 65536" by (rule order_less_trans [OF mod_less_divisor]) simp_all
  then show "(let index = of_nat i :: 64 word;
             topic_authority = (if index mod 3 = 0 then None else Some ''authority-a'')
         in bench_row (bench_topic_uri U topic_authority (index mod 64))
              (bench_subscriber_uri U (Some ''authority-b'') index))
      = Some (bench_subscription
           (generated_uri (if i mod 3 = 0 then ''*'' else ''authority-a'') 0x5BA0 0x8001 496 (i mod 64))
           (generated_uri ''authority-b'' 0x7000 0x9000 512 i))"
    using bench_subscriber [OF assms(1) i, of "Some ''authority-b''"]
      bench_topic [OF assms(1), of "i mod 64" "if i mod 3 = 0 then None else Some ''authority-a''"]
    by (simp add: Let_def m z bench_row_def authority_or_wildcard_def)
qed

section \<open>Rounds on the ingress registry\<close>

definition bench_filters :: "('m, 'w) env \<Rightarrow> ingress_registry_fixture \<Rightarrow> source_filter_lookup" where
  "bench_filters E f =
     derive_source_filters (e_uri E) (e_cache_order E) (rf_ingress_authority f)
       (rf_egress_authority f)
       (snd (lookup_route_subscribers_with_version (rf_directory f) (rf_egress_authority f)))"

definition bench_listener_filters ::
  "('m, 'w) env \<Rightarrow> ingress_registry_fixture \<Rightarrow> listener_filter list" where
  "bench_listener_filters E f =
     (authority_to_wildcard_filter (rf_ingress_authority f),
      Some (authority_to_wildcard_filter (rf_egress_authority f))) #
     map (\<lambda>u. (u, None)) (map snd (e_filter_order E (bench_filters E f)))"

text \<open>The registry between two rounds and within one: the filters stay cached.\<close>

definition idle_registry :: "('m, 'w) env \<Rightarrow> ingress_registry_fixture \<Rightarrow> ingress_registry" where
  "idle_registry E f =
     \<lparr>ir_bindings = [],
      ir_publish_filter_cache =
        [(publish_cache_key (rf_ingress_authority f) (rf_egress_authority f)
            (snapshot_version (directory_snapshot (rf_directory f))), bench_filters E f)]\<rparr>"

definition bound_registry ::
  "('m, 'w) env \<Rightarrow> ingress_registry_fixture \<Rightarrow> route_listener \<Rightarrow> ingress_registry" where
  "bound_registry E f l =
     (idle_registry E f)\<lparr>ir_bindings :=
        [(ingress_binding_key_new (rf_in_transport f) (rf_ingress_authority f) (rf_egress_authority f),
          \<lparr>ib_ref_count = 1, ib_listener = l, ib_registered_filters = bench_listener_filters E f\<rparr>)]\<rparr>"

lemma bench_env_simps [simp]:
  "e_ext (bench_env E) = noop_registry_transport (e_ext E)" "e_uri (bench_env E) = e_uri E"
  "e_cache_order (bench_env E) = e_cache_order E" "e_filter_order (bench_env E) = e_filter_order E"
  "ut_register (noop_registry_transport X) t src snk l w = (Inr (), w)"
  "ut_unregister (noop_registry_transport X) t src snk l w = (Inr (), w)"
  by (simp_all add: bench_env_def noop_registry_transport_def)

lemma noop_register_publish:
  "register_publish_listeners (noop_registry_transport X) t l us rb w
     = (Inr (rb @ map (\<lambda>u. (u, None)) us), w)"
  by (induction us arbitrary: rb) simp_all

lemma noop_unregister: "unregister_filters (noop_registry_transport X) t fs l w = w"
  by (induction fs) auto

lemma bench_derive:
  assumes "ir_bindings (rf_registry f) = []"
    and "rf_registry f = ingress_registry_new \<or> rf_registry f = idle_registry E f"
  shows "derive_publish_filters_cached (bench_env E) (rf_ingress_authority f) (rf_egress_authority f)
      (rf_directory f) (rf_registry f) = (bench_filters E f, idle_registry E f)"
  using assms
  by (auto simp: derive_publish_filters_cached_def lookup_route_subscribers_with_version_def
      bench_filters_def idle_registry_def ingress_registry_new_def hm_or_insert_def hm_insert_def Let_def)

lemma fixture_register:
  assumes "rf_registry f = ingress_registry_new \<or> rf_registry f = idle_registry E f"
  shows "\<exists>l w'. fixture_register_route E f w = (True, f\<lparr>rf_registry := bound_registry E f l\<rparr>, w')"
proof -
  have empty: "ir_bindings (rf_registry f) = []"
    using assms by (auto simp: ingress_registry_new_def idle_registry_def)
  have idle: "ir_bindings (idle_registry E f) = []" by (simp add: idle_registry_def)
  show ?thesis
    using bench_derive [OF empty assms] empty idle
    by (auto simp: fixture_register_route_def register_route_def bump_binding_def Let_def
        register_listeners_def noop_register_publish commit_binding_def bound_registry_def
        bench_listener_filters_def hm_insert_def split: prod.splits)
qed

lemma fixture_unregister:
  "fixture_unregister_route E (f\<lparr>rf_registry := bound_registry E f l\<rparr>) w
     = Some (f\<lparr>rf_registry := idle_registry E f\<rparr>, w)"
  by (simp add: fixture_unregister_route_def unregister_route_def release_binding_def
      bound_registry_def noop_unregister hm_remove_def idle_registry_def)

lemma registry_replaced [simp]:
  "idle_registry E (f\<lparr>rf_registry := r\<rparr>) = idle_registry E f"
  "bound_registry E (f\<lparr>rf_registry := r\<rparr>) = bound_registry E f"
  by (simp_all add: idle_registry_def bound_registry_def bench_filters_def bench_listener_filters_def
      fun_eq_iff)

lemma register_batch_idle:
  "\<exists>w'. register_batch E n (f\<lparr>rf_registry := idle_registry E f\<rparr>) w
     = Some (f\<lparr>rf_registry := idle_registry E f\<rparr>, w')"
proof (induction n arbitrary: w)
  case (Suc n)
  obtain l w1 where "fixture_register_route E (f\<lparr>rf_registry := idle_registry E f\<rparr>) w
      = (True, f\<lparr>rf_registry := bound_registry E f l\<rparr>, w1)"
    using fixture_register [of "f\<lparr>rf_registry := idle_registry E f\<rparr>" E w] by auto
  with Suc [of w1] fixture_unregister [of E f l w1] show ?case by auto
qed simp

lemma register_batch_new:
  assumes "rf_registry f = ingress_registry_new"
  shows "\<exists>w'. register_batch E (Suc n) f w = Some (f\<lparr>rf_registry := idle_registry E f\<rparr>, w')"
proof -
  obtain l w1 where "fixture_register_route E f w = (True, f\<lparr>rf_registry := bound_registry E f l\<rparr>, w1)"
    using fixture_register [of f E w] assms by auto
  then show ?thesis using register_batch_idle [of E n f w1] fixture_unregister [of E f l w1] by auto
qed

lemma unregister_batch_bound:
  "\<exists>l' w'. unregister_batch E n (f\<lparr>rf_registry := bound_registry E f l\<rparr>) w
     = Some (f\<lparr>rf_registry := bound_registry E f l'\<rparr>, w')"
proof (induction n arbitrary: l w)
  case (Suc n)
  obtain l1 w1 where "fixture_register_route E (f\<lparr>rf_registry := idle_registry E f\<rparr>) w
      = (True, f\<lparr>rf_registry := bound_registry E f l1\<rparr>, w1)"
    using fixture_register [of "f\<lparr>rf_registry := idle_registry E f\<rparr>" E w] by auto
  with Suc [of l1 w1] fixture_unregister [of E f l w] show ?case by auto
qed auto

lemma fixture_new_Ok:
  assumes "ingress_fixture_new E t rows w = Some (Inr f, w')" and "fixture_uris_ok (e_uri E)"
    and "unat rows \<le> 65536" and "cache_order_ok (e_cache_order E)"
  shows "rf_registry f = ingress_registry_new"
    and "length (bench_filters E f) = min (max (unat rows) 1) 496"
proof -
  have api: "uuri_api_ok (e_uri E)" using assms(2) by (simp add: fixture_uris_ok_def)
  let ?rows = "generated_rows (\<lambda>_. ''authority-a'') (\<lambda>i. i) ''authority-b'' (max (unat rows) 1)"
  have built: "build_subscriptions (e_uri E) (Some ''authority-a'') (Some ''authority-b'') rows = Some ?rows"
    using build_subscriptions_rows [OF assms(2,3), of "Some ''authority-a''" "Some ''authority-b''"]
    by (simp add: authority_or_wildcard_def)
  obtain d where "directory_from_subscriptions (e_uri E) (e_cache_order E) ?rows = Inr d"
    and refl: "directory_reflects (e_uri E) ?rows d"
    using generated_rows_directory [OF api assms(4)] by blast
  with assms(1) built have f: "rf_registry f = ingress_registry_new" "rf_directory f = d"
    "rf_ingress_authority f = ''authority-a''" "rf_egress_authority f = ''authority-b''"
    by (auto simp: ingress_fixture_new_def split: option.splits)
  show "rf_registry f = ingress_registry_new" by (rule f(1))
  show "length (bench_filters E f) = min (max (unat rows) 1) 496"
    using generated_filter_count [OF assms(2,4) _ refl, of "''authority-b''"]
    by (simp add: bench_filters_def f count_remainders)
qed

section \<open>A concrete parser of wildcard URIs\<close>

definition wildcard_from_str :: "string \<Rightarrow> string + uuri" where
  "wildcard_from_str s =
     (case split_on (CHR ''/'') s of
        [_, _, a, e, v, r] \<Rightarrow>
          (case (u128_from_str_radix e 16, u128_from_str_radix v 16, u128_from_str_radix r 16) of
             (Some ue, Some major, Some resource) \<Rightarrow>
               Inr \<lparr>authority_name = a, ue_id = of_nat ue, ue_version_major = of_nat major,
                    resource_id = of_nat resource\<rparr>
           | _ \<Rightarrow> Inl ''parse error'')
      | _ \<Rightarrow> Inl ''parse error'')"

definition fixture_uuri_api :: uuri_api where
  "fixture_uuri_api = (sample_uuri_api [])\<lparr>m_from_str := wildcard_from_str\<rparr>"

lemma split_on_free: "c \<notin> set s \<Longrightarrow> split_on c s = [s]"
  by (induction s) auto

lemma split_on_append: "c \<notin> set p \<Longrightarrow> split_on c (p @ c # s) = p # split_on c s"
  by (induction p) auto

lemma hex_no_slash: "CHR ''/'' \<notin> set (hex_upper n)"
  using hex_numeral [of n] is_radix_digit_free [of 16 "CHR ''/''"] by (auto simp: list_all_iff)

lemma unat_word_bound: "LENGTH('a::len) \<le> 128 \<Longrightarrow> unat (x :: 'a word) < 2 ^ 128"
proof -
  assume "LENGTH('a) \<le> 128"
  then have "(2 :: nat) ^ LENGTH('a) \<le> 2 ^ 128" by (rule power_increasing) simp
  moreover have "unat x < 2 ^ LENGTH('a)" by (rule unsigned_less)
  ultimately show "unat x < 2 ^ 128" by (rule order_less_le_trans [rotated])
qed

lemma wildcard_from_str_generated:
  "wildcard_from_str (''//*/'' @ hex_upper (unat (e :: 32 word)) @ ''/1/'' @ hex_upper (unat (r :: 16 word)))
     = Inr \<lparr>authority_name = ''*'', ue_id = e, ue_version_major = 1, resource_id = ucast r\<rparr>"
proof -
  have "split_on (CHR ''/'') (''//*/'' @ hex_upper (unat e) @ ''/1/'' @ hex_upper (unat r))
      = [[], [], ''*'', hex_upper (unat e), ''1'', hex_upper (unat r)]"
    using split_on_append [OF hex_no_slash, of "unat e" "''1/'' @ hex_upper (unat r)"]
    by (simp add: split_on_free [OF hex_no_slash])
  moreover have "u128_from_str_radix (hex_upper (unat e)) 16 = Some (unat e)"
    "u128_from_str_radix (hex_upper (unat r)) 16 = Some (unat r)"
    by (rule read_hex, rule unat_word_bound, simp)+
  moreover have "u128_from_str_radix ''1'' 16 = Some 1"
    using read_hex [of 1] by (simp add: hex_upper.simps [of "Suc 0"] upper_hex_digit_def)
  moreover have "of_nat (unat r) = (ucast r :: 32 word)" by simp
  ultimately show ?thesis by (simp add: wildcard_from_str_def)
qed

lemma fixture_uuri_api_ok: "fixture_uris_ok fixture_uuri_api"
proof -
  have "uuri_api_ok fixture_uuri_api"
    using sample_uuri_api_ok [of "[]"] by (simp add: uuri_api_ok_def fixture_uuri_api_def)
  moreover have "is_ok (m_try_from_parts fixture_uuri_api a e v r)"
    if "a \<in> {''authority-a'', ''authority-b''}" for a e v r
    using that by (auto simp: fixture_uuri_api_def sample_uuri_api_def)
  moreover have "m_from_str fixture_uuri_api = wildcard_from_str" by (simp add: fixture_uuri_api_def)
  ultimately show ?thesis unfolding fixture_uris_ok_def using wildcard_from_str_generated by simp
qed

section \<open>Properties\<close>

text \<open>
  The lookup benchmarks work on as many rows as they were asked for (one at least), up to 15872: the
  496 generated topics and the 512 generated subscribers repeat together only after that many rows. It
  makes no difference whether the subscribers have the egress authority or the wildcard authority.
\<close>

theorem lookup_benchmark_rows:
  assumes "fixture_uris_ok U" and "cache_order_ok H" and "unat rows \<le> 65536"
  shows "(\<exists>f. exact_authority U H rows = Some (Inr f) \<and> lookup_count f = min (max (unat rows) 1) 15872) \<and>
    (\<exists>f. wildcard_authority U H rows = Some (Inr f) \<and> lookup_count f = min (max (unat rows) 1) 15872)"
proof
  show "\<exists>f. exact_authority U H rows = Some (Inr f) \<and> lookup_count f = min (max (unat rows) 1) 15872"
    using lookup_fixture_count [OF assms(1,2), of "''authority-b''" "''authority-a''"]
      build_subscriptions_rows [OF assms(1,3), of "Some ''authority-a''" "Some ''authority-b''"]
    by (simp add: exact_authority_def authority_or_wildcard_def)
  show "\<exists>f. wildcard_authority U H rows = Some (Inr f) \<and> lookup_count f = min (max (unat rows) 1) 15872"
    using lookup_fixture_count [OF assms(1,2), of "''*''" "''authority-a''"]
      build_subscriptions_rows [OF assms(1,3), of "Some ''authority-a''" None]
    by (simp add: wildcard_authority_def authority_or_wildcard_def)
qed

theorem lookup_benchmark_rows_witness:
  "\<exists>f. wildcard_authority fixture_uuri_api plain_order ROUTING_LOOKUP_ROWS = Some (Inr f) \<and>
     lookup_count f = 256"
  using lookup_benchmark_rows [OF fixture_uuri_api_ok plain_order_ok, of ROUTING_LOOKUP_ROWS, THEN conjunct2]
  by (simp add: ROUTING_LOOKUP_ROWS_def)

text \<open>
  The derivation benchmark derives one filter for each of its topics, of which there are 64 at most,
  however many rows it is given: the rows with a wildcard topic and those with the ingress authority's
  topic of the same index lead to the same filter.
\<close>

theorem publish_benchmark_topics:
  assumes "fixture_uris_ok U" and "cache_order_ok H" and "unat rows \<le> 65536"
  shows "\<exists>f. publish_resolution_fixture_new U H rows = Some (Inr f) \<and>
    derive_source_filter_count U H f = min (max (unat rows) 1) 64"
proof -
  have api: "uuri_api_ok U" using assms(1) by (simp add: fixture_uris_ok_def)
  let ?rows = "generated_rows (\<lambda>i. if i mod 3 = 0 then ''*'' else ''authority-a'') (\<lambda>i. i mod 64)
                 ''authority-b'' (max (unat rows) 1)"
  obtain d where d: "directory_from_subscriptions U H ?rows = Inr d"
    and refl: "directory_reflects U ?rows d"
    using generated_rows_directory [OF api assms(2)] by blast
  have small: "i mod 64 mod 496 = i mod 64" for i :: nat
    by (rule mod_less, rule order_less_trans [OF mod_less_divisor]) simp_all
  from generated_filter_count [OF assms(1,2) _ refl, of "''authority-b''"]
  have "length (derive_source_filters U H ''authority-a'' ''authority-b''
      (snd (lookup_route_subscribers_with_version d ''authority-b''))) = min (max (unat rows) 1) 64"
    by (simp add: small count_remainders)
  then show ?thesis
    using d by (simp add: publish_resolution_fixture_new_def publish_rows [OF assms(1,3)]
        derive_source_filter_count_def)
qed

theorem publish_benchmark_topics_witness:
  "\<exists>f. publish_resolution_fixture_new fixture_uuri_api plain_order PUBLISH_RESOLUTION_ROWS = Some (Inr f) \<and>
     derive_source_filter_count fixture_uuri_api plain_order f = 64"
  using publish_benchmark_topics [OF fixture_uuri_api_ok plain_order_ok, of PUBLISH_RESOLUTION_ROWS]
  by (simp add: PUBLISH_RESOLUTION_ROWS_def)

text \<open>
  The rounds of both registry benchmarks run to their end without a failed assertion. After the
  first benchmark no binding is left, after the second exactly the primed one, with a count of 1 and one
  listener filter per generated topic beside the request filter. The derived filters are in the cache
  after the first registration, so only the first of the rounds derives any.
\<close>

theorem ingress_benchmark_rounds:
  assumes "cache_order_ok (e_cache_order E)" and "order_ok (e_filter_order E)"
    and "fixture_uris_ok (e_uri E)" and "unat rows \<le> 65536"
    and "ingress_fixture_new E t rows w = Some (Inr f, w0)"
  shows "(\<exists>w1. register_batch E INGRESS_BATCH_OPS f w0 = Some (f\<lparr>rf_registry := idle_registry E f\<rparr>, w1)) \<and>
    (\<exists>f1 w1 l w2. primed_fixture E f w0 = Some (f1, w1) \<and>
       unregister_batch E INGRESS_BATCH_OPS f1 w1 = Some (f\<lparr>rf_registry := bound_registry E f l\<rparr>, w2)) \<and>
    ir_bindings (idle_registry E f) = [] \<and>
    (\<forall>l. map (\<lambda>(k, b). (ib_ref_count b, length (ib_registered_filters b))) (ir_bindings (bound_registry E f l))
       = [(1, 1 + min (max (unat rows) 1) 496)])"
proof -
  note new = fixture_new_Ok [OF assms(5,3,4,1)]
  have "\<exists>w1. register_batch E INGRESS_BATCH_OPS f w0 = Some (f\<lparr>rf_registry := idle_registry E f\<rparr>, w1)"
    using register_batch_new [OF new(1), of E 7 w0] by (simp add: INGRESS_BATCH_OPS_def)
  moreover obtain l w1 where "fixture_register_route E f w0 = (True, f\<lparr>rf_registry := bound_registry E f l\<rparr>, w1)"
    using fixture_register [of f E w0] new(1) by auto
  then have "primed_fixture E f w0 = Some (f\<lparr>rf_registry := bound_registry E f l\<rparr>, w1)"
    by (simp add: primed_fixture_def)
  then have "\<exists>f1 w1 l w2. primed_fixture E f w0 = Some (f1, w1) \<and>
       unregister_batch E INGRESS_BATCH_OPS f1 w1 = Some (f\<lparr>rf_registry := bound_registry E f l\<rparr>, w2)"
    using unregister_batch_bound [of E INGRESS_BATCH_OPS f l w1] by blast
  moreover have "ir_bindings (idle_registry E f) = []" by (simp add: idle_registry_def)
  moreover have "length (bench_listener_filters E f) = 1 + min (max (unat rows) 1) 496"
    using new(2) assms(2) by (simp add: bench_listener_filters_def order_length)
  ultimately show ?thesis by (simp add: bound_registry_def)
qed

lemma fixture_new_returns:
  assumes "fixture_uris_ok (e_uri E)" and "cache_order_ok (e_cache_order E)" and "unat rows \<le> 65536"
    and "bc_channel (e_ext E) 64 w = Some (c, w')"
  shows "\<exists>f. ingress_fixture_new E t rows w = Some (Inr f, w')"
proof -
  have api: "uuri_api_ok (e_uri E)" using assms(1) by (simp add: fixture_uris_ok_def)
  obtain d where "directory_from_subscriptions (e_uri E) (e_cache_order E)
      (generated_rows (\<lambda>_. ''authority-a'') (\<lambda>i. i) ''authority-b'' (max (unat rows) 1)) = Inr d"
    using generated_rows_directory [OF api assms(2)] by blast
  then show ?thesis
    using build_subscriptions_rows [OF assms(1,3), of "Some ''authority-a''" "Some ''authority-b''"] assms(4)
    by (simp add: ingress_fixture_new_def authority_or_wildcard_def)
qed

definition bench_foo_env :: "(nat, nat foo_world) env" where
  "bench_foo_env = \<lparr>e_ext = foo_ext fixture_uuri_api, e_uri = fixture_uuri_api,
     e_cache_order = plain_order, e_filter_order = (\<lambda>xs. xs)\<rparr>"

definition bench_foo_world :: "nat foo_world" where
  "bench_foo_world = \<lparr>fw_clients = [], fw_sent = [], fw_next_address = 0, fw_channels = [],
     fw_broadcast = [], fw_next_uuid = 0, fw_in_runtime = True, fw_tasks = [], fw_threads = []\<rparr>"

theorem ingress_benchmark_rounds_witness:
  "\<exists>f w0 w1. ingress_fixture_new bench_foo_env \<lparr>arc_addr = 1, arc_vtable = 1\<rparr> INGRESS_REGISTRY_ROWS
       bench_foo_world = Some (Inr f, w0) \<and>
     register_batch bench_foo_env INGRESS_BATCH_OPS f w0
       = Some (f\<lparr>rf_registry := idle_registry bench_foo_env f\<rparr>, w1)"
proof -
  have env: "fixture_uris_ok (e_uri bench_foo_env)" "cache_order_ok (e_cache_order bench_foo_env)"
    "order_ok (e_filter_order bench_foo_env)"
    by (simp_all add: bench_foo_env_def fixture_uuri_api_ok plain_order_ok)
  have rows: "unat INGRESS_REGISTRY_ROWS \<le> 65536" by (simp add: INGRESS_REGISTRY_ROWS_def)
  have "bc_channel (e_ext bench_foo_env) 64 bench_foo_world
      = Some (0, bench_foo_world\<lparr>fw_channels := [64]\<rparr>)"
    by (simp add: bench_foo_env_def foo_ext_def bench_foo_world_def)
  from fixture_new_returns [OF env(1,2) rows this] obtain f where
    new: "ingress_fixture_new bench_foo_env \<lparr>arc_addr = 1, arc_vtable = 1\<rparr> INGRESS_REGISTRY_ROWS
       bench_foo_world = Some (Inr f, bench_foo_world\<lparr>fw_channels := [64]\<rparr>)" by blast
  from ingress_benchmark_rounds [OF env(2,3,1) rows new] new show ?thesis by auto
qed

text \<open>One dispatch sends one message, and the loop stops: its count is 1.\<close>

theorem dispatch_benchmark_sends_once:
  assumes "\<And>n ms. length ms \<le> n \<Longrightarrow> yields n ms = map RecvOk ms @ [RecvClosed]"
  shows "run_single_route_dispatch_once X yields m t = (True, 1)"
  using assms [of "[m]" 8]
  by (simp add: run_single_route_dispatch_once_def counting_transport_def counting_send_def)

end
