(* ===== verification/Example_Cli.thy ===== *)
theory Example_Cli
  imports Text_Numbers Uri_Identity
begin

text \<open>
  The command line helpers of the example entities (example-streamer-uses/src/bin/common/cli.rs): numbers
  in decimal or hexadecimal notation, with a range, and URIs built from them.

  A character beyond ASCII is refused by the code as white space or as an invalid digit, with the same
  message; \<open>is_white\<close> need not know the white space among them.
\<close>

section \<open>Parsing a number\<close>

definition format_parse_error :: "string \<Rightarrow> string \<Rightarrow> string \<Rightarrow> nat \<Rightarrow> string" where
  "format_parse_error flag raw expected max_value =
     ''invalid value for '' @ flag @ '': '' @ quoted raw @ '' (expected '' @ expected
     @ '' in decimal or 0x-prefixed hex, range 0..='' @ decimal max_value @ '')''"

definition hex_part :: "string \<Rightarrow> string option" where
  "hex_part raw =
     (case strip_prefix ''0x'' raw of Some ds \<Rightarrow> Some ds | None \<Rightarrow> strip_prefix ''0X'' raw)"

definition cli_parse_unsigned :: "string \<Rightarrow> string \<Rightarrow> string \<Rightarrow> nat \<Rightarrow> (string, nat) result" where
  "cli_parse_unsigned flag raw expected max_value =
     (let refused = Err (format_parse_error flag raw expected max_value) in
      if raw = [] \<or> list_ex is_white raw \<or> CHR ''_'' \<in> set raw then refused
      else (case (case hex_part raw of
                    Some hex_digits \<Rightarrow>
                      if hex_digits = [] then None else u128_from_str_radix hex_digits 16
                  | None \<Rightarrow> u128_from_str_radix raw 10) of
              None \<Rightarrow> refused
            | Some parsed \<Rightarrow> if parsed > max_value then refused else Ok parsed))"

definition map_ok :: "('a \<Rightarrow> 'b) \<Rightarrow> ('e, 'a) result \<Rightarrow> ('e, 'b) result" where
  "map_ok f r = (case r of Inl e \<Rightarrow> Err e | Inr x \<Rightarrow> Ok (f x))"

definition map_err :: "('d \<Rightarrow> 'e) \<Rightarrow> ('d, 'a) result \<Rightarrow> ('e, 'a) result" where
  "map_err f r = (case r of Inl e \<Rightarrow> Err (f e) | Inr x \<Rightarrow> Ok x)"

definition parse_u32_flag :: "string \<Rightarrow> string \<Rightarrow> (string, 32 word) result" where
  "parse_u32_flag flag raw =
     map_ok of_nat (cli_parse_unsigned flag raw ''u32'' (unat (- 1 :: 32 word)))"

definition parse_u16_flag :: "string \<Rightarrow> string \<Rightarrow> (string, 16 word) result" where
  "parse_u16_flag flag raw =
     map_ok of_nat (cli_parse_unsigned flag raw ''u16'' (unat (- 1 :: 16 word)))"

definition parse_u8_flag :: "string \<Rightarrow> string \<Rightarrow> (string, 8 word) result" where
  "parse_u8_flag flag raw =
     map_ok of_nat (cli_parse_unsigned flag raw ''u8'' (unat (- 1 :: 8 word)))"

section \<open>Statuses, URIs, paths\<close>

definition invalid_argument_status :: "string \<Rightarrow> ustatus" where
  "invalid_argument_status message = fail_with_code INVALID_ARGUMENT message"

definition parse_u32_status :: "string \<Rightarrow> string \<Rightarrow> (ustatus, 32 word) result" where
  "parse_u32_status flag raw = map_err invalid_argument_status (parse_u32_flag flag raw)"

definition parse_u16_status :: "string \<Rightarrow> string \<Rightarrow> (ustatus, 16 word) result" where
  "parse_u16_status flag raw = map_err invalid_argument_status (parse_u16_flag flag raw)"

definition parse_u8_status :: "string \<Rightarrow> string \<Rightarrow> (ustatus, 8 word) result" where
  "parse_u8_status flag raw = map_err invalid_argument_status (parse_u8_flag flag raw)"

text \<open>\<open>{:#X}\<close>\<close>

definition alt_hex :: "nat \<Rightarrow> string" where
  "alt_hex n = ''0x'' @ hex_upper n"

definition build_uuri ::
  "uuri_api \<Rightarrow> string \<Rightarrow> 32 word \<Rightarrow> 8 word \<Rightarrow> 16 word \<Rightarrow> (ustatus, uuri) result" where
  "build_uuri U authority uentity uversion resource =
     map_err (\<lambda>error. invalid_argument_status
         (''unable to build UUri from authority='' @ quoted authority @ '', uentity='' @ alt_hex (unat uentity)
          @ '', uversion='' @ alt_hex (unat uversion) @ '', resource='' @ alt_hex (unat resource) @ '': ''
          @ error))
       (m_try_from_parts U authority uentity uversion resource)"

text \<open>\<open>canonicalize\<close> is the operating system's.\<close>

definition canonicalize_cli_path ::
  "(string \<Rightarrow> (string, string) result) \<Rightarrow> string \<Rightarrow> string \<Rightarrow> (ustatus, string) result" where
  "canonicalize_cli_path canonicalize flag raw =
     map_err (\<lambda>error. invalid_argument_status
         (''invalid value for '' @ flag @ '': '' @ quoted raw @ '' (expected an existing file path): '' @ error))
       (canonicalize raw)"

section \<open>What is accepted\<close>

text \<open>
  The language of the parser: a prefix \<open>0x\<close> or \<open>0X\<close> with hexadecimal digits, or decimal digits without
  one; the digits may have a plus sign in front.
\<close>

definition cli_number :: "string \<Rightarrow> nat \<Rightarrow> bool" where
  "cli_number raw n \<longleftrightarrow>
     (case raw of
        z # x # ds \<Rightarrow>
          if z = CHR ''0'' \<and> (x = CHR ''x'' \<or> x = CHR ''X'') then numeral_text 16 ds n
          else numeral_text 10 raw n
      | _ \<Rightarrow> numeral_text 10 raw n)"

lemma hex_part_Cons:
  "hex_part (z # x # ds) = (if z = CHR ''0'' \<and> (x = CHR ''x'' \<or> x = CHR ''X'') then Some ds else None)"
  by (auto simp: hex_part_def strip_prefix_def starts_with_def)

lemma hex_part_short: "hex_part [] = None" "hex_part [c] = None"
  by (simp_all add: hex_part_def strip_prefix_def starts_with_def)

lemma hex_part_Some:
  "hex_part raw = Some ds \<longleftrightarrow> raw = CHR ''0'' # CHR ''x'' # ds \<or> raw = CHR ''0'' # CHR ''X'' # ds"
proof (cases raw)
  case (Cons z r)
  then show ?thesis by (cases r) (auto simp: hex_part_Cons hex_part_short)
qed (simp add: hex_part_short)

lemma cli_number_iff:
  "cli_number raw n \<longleftrightarrow>
     (case hex_part raw of Some ds \<Rightarrow> numeral_text 16 ds n | None \<Rightarrow> numeral_text 10 raw n)"
proof (cases raw)
  case (Cons z r)
  then show ?thesis by (cases r) (auto simp: cli_number_def hex_part_Cons hex_part_short)
qed (simp add: cli_number_def hex_part_short)

lemma numeral_text_free:
  assumes "numeral_text radix s n"
  shows "\<not> list_ex is_white s \<and> CHR ''_'' \<notin> set s \<and> s \<noteq> []"
proof -
  have plus: "\<not> is_white (CHR ''+'')" by (simp add: is_white_def)
  have free: "\<not> list_ex is_white ds \<and> CHR ''_'' \<notin> set ds"
    if "list_all (is_radix_digit radix) ds" for ds
    using that is_radix_digit_free by (fastforce simp: list_all_iff list_ex_iff)
  show ?thesis
  proof (cases s)
    case Nil
    with assms show ?thesis by (simp add: numeral_text_def)
  next
    case (Cons c cs)
    with assms free [of cs] free [of s] plus show ?thesis
      by (cases "c = CHR ''+''") (auto simp: numeral_text_def)
  qed
qed

lemma cli_number_free:
  assumes "cli_number raw n"
  shows "\<not> list_ex is_white raw \<and> CHR ''_'' \<notin> set raw \<and> raw \<noteq> []"
proof -
  have white: "\<not> is_white (CHR ''0'')" "\<not> is_white (CHR ''x'')" "\<not> is_white (CHR ''X'')"
    by (simp_all add: is_white_def)
  show ?thesis
  proof (cases "hex_part raw")
    case None
    then have "numeral_text 10 raw n" using assms by (simp add: cli_number_iff)
    then show ?thesis by (rule numeral_text_free)
  next
    case (Some ds)
    with assms have "numeral_text 16 ds n" by (simp add: cli_number_iff)
    moreover have "raw = CHR ''0'' # CHR ''x'' # ds \<or> raw = CHR ''0'' # CHR ''X'' # ds"
      using Some by (simp add: hex_part_Some)
    ultimately show ?thesis using numeral_text_free [of 16 ds n] white by auto
  qed
qed

lemma cli_parse_Ok:
  assumes "max_value < 2 ^ 128"
  shows "cli_parse_unsigned flag raw expected max_value = Inr n \<longleftrightarrow> cli_number raw n \<and> n \<le> max_value"
proof -
  have parsed: "(case hex_part raw of
         Some hex_digits \<Rightarrow> if hex_digits = [] then None else u128_from_str_radix hex_digits 16
       | None \<Rightarrow> u128_from_str_radix raw 10) = Some n \<longleftrightarrow> cli_number raw n \<and> n < 2 ^ 128" for n
  proof (cases "hex_part raw")
    case None
    then show ?thesis by (simp add: cli_number_iff u128_from_str_radix_iff)
  next
    case (Some ds)
    then show ?thesis
      by (cases "ds = []") (simp_all add: cli_number_iff u128_from_str_radix_iff numeral_text_def)
  qed
  show ?thesis
    using parsed [of n] cli_number_free [of raw n] assms
    by (auto simp: cli_parse_unsigned_def Let_def split: option.splits if_splits)
qed

lemma cli_parse_Err:
  "cli_parse_unsigned flag raw expected max_value = Inl e \<Longrightarrow>
     e = format_parse_error flag raw expected max_value"
  by (auto simp: cli_parse_unsigned_def Let_def split: option.splits if_splits)

lemma unat_largest: "unat (- 1 :: 'a::len word) = 2 ^ LENGTH('a) - 1"
  by (simp add: unsigned_minus_1_eq_mask mask_eq_exp_minus_1)

lemma flag_Ok:
  fixes v :: "'a::len word"
  assumes "LENGTH('a) < 128"
  shows "map_ok of_nat (cli_parse_unsigned flag raw expected (unat (- 1 :: 'a word))) = Inr v \<longleftrightarrow>
     cli_number raw (unat v)"
proof -
  have top: "unat (- 1 :: 'a word) = 2 ^ LENGTH('a) - 1" by (rule unat_largest)
  have "(2 :: nat) ^ LENGTH('a) < 2 ^ 128" using assms by (rule power_strict_increasing) simp
  then have max_value: "unat (- 1 :: 'a word) < 2 ^ 128" unfolding top by linarith
  have small: "unat v \<le> unat (- 1 :: 'a word)" by (simp add: word_le_nat_alt [symmetric])
  have inverse: "unat (of_nat n :: 'a word) = n" if "n \<le> unat (- 1 :: 'a word)" for n
  proof -
    have "n < 2 ^ LENGTH('a)" using that unfolding top by (simp add: le_diff_conv2 Suc_le_lessD)
    then show ?thesis by (simp add: unat_of_nat take_bit_nat_eq_self)
  qed
  show ?thesis
  proof
    assume "map_ok of_nat (cli_parse_unsigned flag raw expected (unat (- 1 :: 'a word))) = Inr v"
    then obtain n where "cli_parse_unsigned flag raw expected (unat (- 1 :: 'a word)) = Inr n"
      and v: "v = of_nat n"
      by (auto simp: map_ok_def split: sum.splits)
    then show "cli_number raw (unat v)" using cli_parse_Ok [OF max_value] inverse [of n] by simp
  next
    assume "cli_number raw (unat v)"
    then have "cli_parse_unsigned flag raw expected (unat (- 1 :: 'a word)) = Inr (unat v)"
      using cli_parse_Ok [OF max_value] small by blast
    then show "map_ok of_nat (cli_parse_unsigned flag raw expected (unat (- 1 :: 'a word))) = Inr v"
      by (simp add: map_ok_def)
  qed
qed

lemma flags_Ok:
  "parse_u32_flag flag raw = Inr v \<longleftrightarrow> cli_number raw (unat v)"
  "parse_u16_flag flag raw = Inr v16 \<longleftrightarrow> cli_number raw (unat v16)"
  "parse_u8_flag flag raw = Inr v8 \<longleftrightarrow> cli_number raw (unat v8)"
  by (simp_all add: parse_u32_flag_def parse_u16_flag_def parse_u8_flag_def flag_Ok)

lemma map_err_Ok [simp]: "map_err f r = Inr x \<longleftrightarrow> r = Inr x"
  by (auto simp: map_err_def split: sum.splits)

lemma statuses_Ok:
  "parse_u32_status flag raw = Inr v \<longleftrightarrow> cli_number raw (unat v)"
  "parse_u16_status flag raw = Inr v16 \<longleftrightarrow> cli_number raw (unat v16)"
  "parse_u8_status flag raw = Inr v8 \<longleftrightarrow> cli_number raw (unat v8)"
  by (simp_all add: parse_u32_status_def parse_u16_status_def parse_u8_status_def flags_Ok)

lemma printed_number:
  "cli_number (decimal n) n" "cli_number (alt_hex n) n"
proof -
  have "hex_part (decimal n) = None"
  proof (rule ccontr)
    assume "hex_part (decimal n) \<noteq> None"
    then obtain x ds where "decimal n = CHR ''0'' # x # ds" "x = CHR ''x'' \<or> x = CHR ''X''"
      by (auto simp: hex_part_Some)
    then have "is_radix_digit 10 x" using decimal_numeral [of n] by simp
    with \<open>x = _ \<or> _\<close> show False by (auto simp: is_radix_digit_def to_digit_def)
  qed
  then show "cli_number (decimal n) n"
    using decimal_numeral [of n] digits_numeral_text [of "decimal n" 10] by (simp add: cli_number_iff)
  show "cli_number (alt_hex n) n"
    using hex_numeral [of n] digits_numeral_text [of "hex_upper n" 16]
    by (simp add: cli_number_def alt_hex_def)
qed

section \<open>Properties\<close>

text \<open>
  C31. Each of the three parsers accepts exactly the texts of the numbers of its type: after \<open>0x\<close> or \<open>0X\<close>
  hexadecimal digits of either case, otherwise decimal digits, with an optional plus sign before the
  digits, and nothing else. The result is the number itself; the cast to the type loses nothing.
\<close>

theorem cli_numbers_exact:
  "(parse_u32_flag flag raw = Inr v32 \<longleftrightarrow> cli_number raw (unat v32)) \<and>
   (parse_u16_flag flag raw = Inr v16 \<longleftrightarrow> cli_number raw (unat v16)) \<and>
   (parse_u8_flag flag raw = Inr v8 \<longleftrightarrow> cli_number raw (unat v8))"
  by (simp add: flags_Ok)

text \<open>
  What is printed in decimal or with \<open>{:#X}\<close> is read back as the same number, up to and including the
  largest of the type; a number one larger is refused.
\<close>

theorem cli_numbers_roundtrip:
  "parse_u32_flag flag (decimal (unat v32)) = Inr v32 \<and> parse_u32_flag flag (alt_hex (unat v32)) = Inr v32 \<and>
   parse_u16_flag flag (decimal (unat v16)) = Inr v16 \<and> parse_u16_flag flag (alt_hex (unat v16)) = Inr v16 \<and>
   parse_u8_flag flag (decimal (unat v8)) = Inr v8 \<and> parse_u8_flag flag (alt_hex (unat v8)) = Inr v8 \<and>
   parse_u8_flag flag (decimal 256) = Inl (format_parse_error flag (decimal 256) ''u8'' 255)"
proof -
  have "parse_u8_flag flag (decimal 256) \<noteq> Inr v" for v
  proof
    assume "parse_u8_flag flag (decimal 256) = Inr v"
    then have "cli_number (decimal 256) (unat v)" by (simp add: flags_Ok)
    moreover have "n = m" if "cli_number s n" "cli_number s m" for s n m
      using that by (auto simp: cli_number_iff numeral_text_def Let_def split: option.splits)
    ultimately have "unat v = 256" using printed_number(1) by blast
    moreover have "unat v < 2 ^ 8" using unsigned_less [of v] by simp
    ultimately show False by simp
  qed
  moreover have "unat (- 1 :: 8 word) = 255" by (simp add: unat_largest)
  ultimately have "parse_u8_flag flag (decimal 256) = Inl (format_parse_error flag (decimal 256) ''u8'' 255)"
    using cli_parse_Err [of flag "decimal 256" "''u8''" 255]
    by (cases "cli_parse_unsigned flag (decimal 256) ''u8'' 255")
      (auto simp: parse_u8_flag_def map_ok_def)
  then show ?thesis by (simp add: flags_Ok printed_number)
qed

end
