(* ===== verification/Example_Entities.thy ===== *)
theory Example_Entities
  imports Example_Cli
begin

text \<open>
  The example entities (example-streamer-uses/src/bin): clients, services, publishers and subscribers over
  Zenoh, SOME/IP and MQTT, with the listeners of common/mod.rs. The transports, the message builders, the
  clock and the terminal are parameters (\<open>entity_env\<close>). An action that answers \<open>None\<close> panics or does not
  return. The argument parser and the log records are not modelled; the arguments are records.

  The counters of messages are 64-bit words; in a run without a bound they wrap after \<open>2\<^sup>6\<^sup>4\<close> messages.
\<close>

section \<open>What the entities use\<close>

record time_of_day =
  tod_hours :: "32 word"
  tod_minutes :: "32 word"
  tod_seconds :: "32 word"
  tod_nanos :: "32 word"

datatype entity_listener =
    ServiceResponseListener
  | ServiceRequestResponder arc_transport
  | PublishReceiver

record ('m, 'w) entity_env =
  en_uri :: uuri_api
  en_any :: uuri \<comment> \<open>\<open>UUri::any()\<close>\<close>
  en_canonicalize :: "string \<Rightarrow> 'w \<Rightarrow> (string, string) result"
  en_endpoint_ok :: "string \<Rightarrow> bool" \<comment> \<open>\<open>EndPoint::from_str\<close> succeeds\<close>
  en_zenoh :: "string \<Rightarrow> string option \<Rightarrow> 'w \<Rightarrow> (arc_transport \<times> 'w) option"
  en_vsomeip :: "uuri \<Rightarrow> string \<Rightarrow> string \<Rightarrow> 'w \<Rightarrow> (arc_transport \<times> 'w) option"
  en_mqtt_new :: "string \<Rightarrow> string \<Rightarrow> 'w \<Rightarrow> (ustatus, arc_transport) result \<times> 'w"
  en_mqtt_connect :: "arc_transport \<Rightarrow> 'w \<Rightarrow> (ustatus, unit) result \<times> 'w"
  en_register :: "arc_transport \<Rightarrow> uuri \<Rightarrow> uuri option \<Rightarrow> entity_listener \<Rightarrow> 'w \<Rightarrow> (ustatus, unit) result \<times> 'w"
  en_send :: "arc_transport \<Rightarrow> 'm \<Rightarrow> 'w \<Rightarrow> (ustatus, unit) result \<times> 'w"
  en_sleep_ms :: "64 word \<Rightarrow> 'w \<Rightarrow> 'w"
  en_now :: "'w \<Rightarrow> time_of_day \<times> 'w"
  en_request :: "uuri \<Rightarrow> uuri \<Rightarrow> 32 word \<Rightarrow> string \<Rightarrow> 'm option" \<comment> \<open>sink, source, ttl, name\<close>
  en_publish :: "uuri \<Rightarrow> time_of_day \<Rightarrow> 'm option"
  en_show :: "'m \<Rightarrow> string"
  en_println :: "string \<Rightarrow> 'w \<Rightarrow> 'w"
  en_park :: "'w \<Rightarrow> 'w option" \<comment> \<open>\<open>None\<close>: it does not return\<close>

section \<open>Arguments\<close>

record entity_args =
  ea_uauthority :: string
  ea_uentity :: string
  ea_uversion :: string
  ea_resource :: string

record send_args =
  sa_send_count :: "64 word"
  sa_send_interval_ms :: "64 word"

text \<open>The entity a client calls, or the publisher a subscriber listens to.\<close>

record peer_args =
  pa_authority :: string
  pa_uentity :: string
  pa_uversion :: string
  pa_resource :: string

record someip_args =
  so_remote_authority :: string
  so_vsomeip_config :: string

record zenoh_client_args = zc_endpoint :: string zc_local :: entity_args zc_target :: peer_args zc_send :: send_args
record someip_client_args = sc_local :: entity_args sc_target :: peer_args sc_someip :: someip_args sc_send :: send_args
record mqtt_client_args = mc_local :: entity_args mc_target :: peer_args mc_broker_uri :: string mc_send :: send_args
record zenoh_publisher_args = zp_endpoint :: string zp_local :: entity_args zp_send :: send_args
record someip_publisher_args = sp_local :: entity_args sp_someip :: someip_args sp_send :: send_args
record mqtt_publisher_args = mp_local :: entity_args mp_broker_uri :: string mp_send :: send_args
record zenoh_service_args = zv_endpoint :: string zv_local :: entity_args
record someip_service_args = sv_local :: entity_args sv_someip :: someip_args
record mqtt_service_args = mv_local :: entity_args mv_broker_uri :: string
record zenoh_subscriber_args = zs_endpoint :: string zs_local :: entity_args zs_source :: peer_args
record someip_subscriber_args = ss_local :: entity_args ss_source :: peer_args ss_someip :: someip_args
record mqtt_subscriber_args = ms_local :: entity_args ms_source :: peer_args ms_broker_uri :: string

section \<open>Shared steps\<close>

definition parse_local :: "entity_args \<Rightarrow> (ustatus, 'w, 32 word \<times> 8 word \<times> 16 word) eact" where
  "parse_local a =
     act_bind (act_lift (parse_u32_status ''--uentity'' (ea_uentity a))) (\<lambda>uentity.
     act_bind (act_lift (parse_u8_status ''--uversion'' (ea_uversion a))) (\<lambda>uversion.
     act_bind (act_lift (parse_u16_status ''--resource'' (ea_resource a))) (\<lambda>resource.
     act_ret (uentity, uversion, resource))))"

text \<open>\<open>role\<close> is \<open>target\<close> or \<open>source\<close>.\<close>

definition parse_peer :: "string \<Rightarrow> peer_args \<Rightarrow> (ustatus, 'w, 32 word \<times> 8 word \<times> 16 word) eact" where
  "parse_peer role a =
     act_bind (act_lift (parse_u32_status (''--'' @ role @ ''-uentity'') (pa_uentity a))) (\<lambda>uentity.
     act_bind (act_lift (parse_u8_status (''--'' @ role @ ''-uversion'') (pa_uversion a))) (\<lambda>uversion.
     act_bind (act_lift (parse_u16_status (''--'' @ role @ ''-resource'') (pa_resource a))) (\<lambda>resource.
     act_ret (uentity, uversion, resource))))"

definition entity_uuri ::
  "('m, 'w) entity_env \<Rightarrow> string \<Rightarrow> 32 word \<times> 8 word \<times> 16 word \<Rightarrow> (ustatus, 'w, uuri) eact" where
  "entity_uuri N authority p =
     (case p of (uentity, uversion, resource) \<Rightarrow>
        act_lift (build_uuri (en_uri N) authority uentity uversion resource))"

text \<open>The same entity with resource 0.\<close>

definition without_resource :: "32 word \<times> 8 word \<times> 16 word \<Rightarrow> 32 word \<times> 8 word \<times> 16 word" where
  "without_resource p = (case p of (uentity, uversion, resource) \<Rightarrow> (uentity, uversion, 0))"

text \<open>\<open>zenoh_config\<close>: an endpoint that is given and cannot be parsed is a panic.\<close>

definition entity_endpoint :: "('m, 'w) entity_env \<Rightarrow> string \<Rightarrow> (ustatus, 'w, string option) eact" where
  "entity_endpoint N endpoint =
     (if endpoint = [] then act_ret None
      else act_unwrap (if en_endpoint_ok N endpoint then Some (Some endpoint) else None))"

definition entity_zenoh ::
  "('m, 'w) entity_env \<Rightarrow> uuri \<Rightarrow> string option \<Rightarrow> (ustatus, 'w, arc_transport) eact" where
  "entity_zenoh N uri endpoint = act_expect (en_zenoh N (m_authority_name (en_uri N) uri) endpoint)"

definition vsomeip_config :: "('m, 'w) entity_env \<Rightarrow> someip_args \<Rightarrow> (ustatus, 'w, string) eact" where
  "vsomeip_config N a w =
     act_lift (canonicalize_cli_path (\<lambda>p. en_canonicalize N p w) ''--vsomeip-config'' (so_vsomeip_config a)) w"

definition entity_vsomeip ::
  "('m, 'w) entity_env \<Rightarrow> uuri \<Rightarrow> someip_args \<Rightarrow> string \<Rightarrow> (ustatus, 'w, arc_transport) eact" where
  "entity_vsomeip N uri a config = act_expect (en_vsomeip N uri (so_remote_authority a) config)"

definition entity_mqtt ::
  "('m, 'w) entity_env \<Rightarrow> string \<Rightarrow> string \<Rightarrow> (ustatus, 'w, arc_transport) eact" where
  "entity_mqtt N broker_uri authority =
     act_bind (act_do (en_mqtt_new N broker_uri authority)) (\<lambda>t.
     act_then (act_do (en_mqtt_connect N t)) (act_ret t))"

section \<open>Sending\<close>

definition REQUEST_TTL :: "32 word" where "REQUEST_TTL = 1000"

text \<open>The loop over rounds; \<open>i\<close> numbers the requests, a publisher has no such counter.\<close>

partial_function (option) send_loop ::
  "(64 word \<Rightarrow> (ustatus, 'w, unit) eact) \<Rightarrow> 64 word \<Rightarrow> 64 word \<Rightarrow> 64 word \<Rightarrow> 'w \<Rightarrow>
   ((ustatus, unit) result \<times> 'w) option" where
  "send_loop body send_count i sent_count w =
     (if 0 < send_count \<and> send_count \<le> sent_count then Some (Ok (), w)
      else act_bind (body i) (\<lambda>_. send_loop body send_count (i + 1) (sent_count + 1)) w)"

definition request_round ::
  "('m, 'w) entity_env \<Rightarrow> arc_transport \<Rightarrow> string \<Rightarrow> uuri \<Rightarrow> uuri \<Rightarrow> 64 word \<Rightarrow> 64 word \<Rightarrow>
   (ustatus, 'w, unit) eact" where
  "request_round N t name source sink interval i =
     act_then (act_modify (en_sleep_ms N interval))
     (act_bind (act_unwrap (en_request N sink source REQUEST_TTL (name @ ''@i='' @ decimal (unat i)))) (\<lambda>request_msg.
      act_do (en_send N t request_msg)))"

definition publish_round ::
  "('m, 'w) entity_env \<Rightarrow> arc_transport \<Rightarrow> bool \<Rightarrow> uuri \<Rightarrow> 64 word \<Rightarrow> 64 word \<Rightarrow> (ustatus, 'w, unit) eact" where
  "publish_round N t on_terminal source interval i =
     act_then (act_modify (en_sleep_ms N interval))
     (act_bind (act_expect (\<lambda>w. Some (en_now N w))) (\<lambda>time.
      act_bind (act_unwrap (en_publish N source time)) (\<lambda>publish_msg.
      act_then (act_when on_terminal
        (act_modify (en_println N (''Sending Publish message:'' @ [newline] @ en_show N publish_msg))))
      (act_do (en_send N t publish_msg)))))"

text \<open>From the registration of the response listener on.\<close>

definition client_run ::
  "('m, 'w) entity_env \<Rightarrow> arc_transport \<Rightarrow> string \<Rightarrow> uuri \<Rightarrow> uuri \<Rightarrow> send_args \<Rightarrow> (ustatus, 'w, unit) eact" where
  "client_run N t name source sink a =
     act_then (act_do (en_register N t sink (Some source) ServiceResponseListener))
       (send_loop (request_round N t name source sink (sa_send_interval_ms a)) (sa_send_count a) 0 0)"

definition publisher_run ::
  "('m, 'w) entity_env \<Rightarrow> arc_transport \<Rightarrow> bool \<Rightarrow> uuri \<Rightarrow> send_args \<Rightarrow> (ustatus, 'w, unit) eact" where
  "publisher_run N t on_terminal source a =
     act_then (send_loop (publish_round N t on_terminal source (sa_send_interval_ms a)) (sa_send_count a) 0 0)
       (act_when on_terminal (act_modify (en_println N
          (''Completed bounded send run: sent_count='' @ decimal (unat (sa_send_count a))))))"

section \<open>Clients\<close>

definition zenoh_client :: "('m, 'w) entity_env \<Rightarrow> zenoh_client_args \<Rightarrow> (ustatus, 'w, unit) eact" where
  "zenoh_client N a =
     act_bind (parse_local (zc_local a)) (\<lambda>p.
     act_bind (parse_peer ''target'' (zc_target a)) (\<lambda>target.
     act_bind (entity_endpoint N (zc_endpoint a)) (\<lambda>endpoint.
     act_bind (entity_uuri N (ea_uauthority (zc_local a)) p) (\<lambda>source.
     act_bind (entity_zenoh N source endpoint) (\<lambda>client.
     act_bind (entity_uuri N (pa_authority (zc_target a)) target) (\<lambda>sink.
     client_run N client ''ue_client'' source sink (zc_send a)))))))"

definition someip_client :: "('m, 'w) entity_env \<Rightarrow> someip_client_args \<Rightarrow> (ustatus, 'w, unit) eact" where
  "someip_client N a =
     act_bind (parse_local (sc_local a)) (\<lambda>p.
     act_bind (parse_peer ''target'' (sc_target a)) (\<lambda>target.
     act_bind (vsomeip_config N (sc_someip a)) (\<lambda>config.
     act_bind (entity_uuri N (ea_uauthority (sc_local a)) (without_resource p)) (\<lambda>client_uuri.
     act_bind (entity_vsomeip N client_uuri (sc_someip a) config) (\<lambda>client.
     act_bind (entity_uuri N (ea_uauthority (sc_local a)) p) (\<lambda>source.
     act_bind (entity_uuri N (pa_authority (sc_target a)) target) (\<lambda>sink.
     client_run N client ''me_client'' source sink (sc_send a))))))))"

definition mqtt_client :: "('m, 'w) entity_env \<Rightarrow> mqtt_client_args \<Rightarrow> (ustatus, 'w, unit) eact" where
  "mqtt_client N a =
     act_bind (parse_local (mc_local a)) (\<lambda>p.
     act_bind (parse_peer ''target'' (mc_target a)) (\<lambda>target.
     act_bind (entity_uuri N (ea_uauthority (mc_local a)) p) (\<lambda>source.
     act_bind (entity_uuri N (pa_authority (mc_target a)) target) (\<lambda>sink.
     act_bind (entity_mqtt N (mc_broker_uri a) (ea_uauthority (mc_local a))) (\<lambda>client.
     client_run N client ''mqtt_client'' source sink (mc_send a))))))"

section \<open>Publishers\<close>

definition zenoh_publisher :: "('m, 'w) entity_env \<Rightarrow> zenoh_publisher_args \<Rightarrow> (ustatus, 'w, unit) eact" where
  "zenoh_publisher N a =
     act_bind (parse_local (zp_local a)) (\<lambda>p.
     act_then (act_modify (en_println N ''uE_publisher''))
     (act_bind (entity_endpoint N (zp_endpoint a)) (\<lambda>endpoint.
     act_bind (entity_uuri N (ea_uauthority (zp_local a)) (without_resource p)) (\<lambda>publisher_uuri.
     act_bind (entity_zenoh N publisher_uuri endpoint) (\<lambda>publisher.
     act_bind (entity_uuri N (ea_uauthority (zp_local a)) p) (\<lambda>source.
     publisher_run N publisher True source (zp_send a)))))))"

definition someip_publisher :: "('m, 'w) entity_env \<Rightarrow> someip_publisher_args \<Rightarrow> (ustatus, 'w, unit) eact" where
  "someip_publisher N a =
     act_bind (parse_local (sp_local a)) (\<lambda>p.
     act_bind (vsomeip_config N (sp_someip a)) (\<lambda>config.
     act_bind (entity_uuri N (ea_uauthority (sp_local a)) (without_resource p)) (\<lambda>publisher_uuri.
     act_bind (entity_vsomeip N publisher_uuri (sp_someip a) config) (\<lambda>publisher.
     act_bind (entity_uuri N (ea_uauthority (sp_local a)) p) (\<lambda>source.
     publisher_run N publisher False source (sp_send a))))))"

definition mqtt_publisher :: "('m, 'w) entity_env \<Rightarrow> mqtt_publisher_args \<Rightarrow> (ustatus, 'w, unit) eact" where
  "mqtt_publisher N a =
     act_bind (parse_local (mp_local a)) (\<lambda>p.
     act_bind (entity_uuri N (ea_uauthority (mp_local a)) p) (\<lambda>source.
     act_bind (entity_mqtt N (mp_broker_uri a) (ea_uauthority (mp_local a))) (\<lambda>publisher.
     publisher_run N publisher False source (mp_send a))))"

section \<open>Services and subscribers\<close>

text \<open>From the registration on: the marker the smoke suite waits for, and waiting.\<close>

definition listen_run ::
  "('m, 'w) entity_env \<Rightarrow> arc_transport \<Rightarrow> uuri \<Rightarrow> uuri option \<Rightarrow> entity_listener \<Rightarrow> (ustatus, 'w, unit) eact" where
  "listen_run N t source_filter sink_filter l =
     act_then (act_do (en_register N t source_filter sink_filter l))
     (act_modify (en_println N READY_LISTENER_REGISTERED))"

definition park :: "('m, 'w) entity_env \<Rightarrow> (ustatus, 'w, unit) eact" where
  "park N = act_expect (\<lambda>w. map_option (Pair ()) (en_park N w))"

definition zenoh_service_start :: "('m, 'w) entity_env \<Rightarrow> zenoh_service_args \<Rightarrow> (ustatus, 'w, unit) eact" where
  "zenoh_service_start N a =
     act_bind (parse_local (zv_local a)) (\<lambda>p.
     act_bind (entity_endpoint N (zv_endpoint a)) (\<lambda>endpoint.
     act_bind (entity_uuri N (ea_uauthority (zv_local a)) (without_resource p)) (\<lambda>service_uuri.
     act_bind (entity_zenoh N service_uuri endpoint) (\<lambda>service.
     act_bind (entity_uuri N (ea_uauthority (zv_local a)) p) (\<lambda>sink_filter.
     listen_run N service (en_any N) (Some sink_filter) (ServiceRequestResponder service))))))"

definition someip_service_start :: "('m, 'w) entity_env \<Rightarrow> someip_service_args \<Rightarrow> (ustatus, 'w, unit) eact" where
  "someip_service_start N a =
     act_bind (parse_local (sv_local a)) (\<lambda>p.
     act_bind (vsomeip_config N (sv_someip a)) (\<lambda>config.
     act_bind (entity_uuri N (ea_uauthority (sv_local a)) (without_resource p)) (\<lambda>service_uuri.
     act_bind (entity_vsomeip N service_uuri (sv_someip a) config) (\<lambda>service.
     act_bind (entity_uuri N (ea_uauthority (sv_local a)) p) (\<lambda>sink_filter.
     listen_run N service (en_any N) (Some sink_filter) (ServiceRequestResponder service))))))"

definition mqtt_service_start :: "('m, 'w) entity_env \<Rightarrow> mqtt_service_args \<Rightarrow> (ustatus, 'w, unit) eact" where
  "mqtt_service_start N a =
     act_bind (parse_local (mv_local a)) (\<lambda>p.
     act_bind (entity_uuri N (ea_uauthority (mv_local a)) p) (\<lambda>sink_filter.
     act_bind (entity_mqtt N (mv_broker_uri a) (ea_uauthority (mv_local a))) (\<lambda>service.
     listen_run N service (en_any N) (Some sink_filter) (ServiceRequestResponder service))))"

definition zenoh_subscriber_start :: "('m, 'w) entity_env \<Rightarrow> zenoh_subscriber_args \<Rightarrow> (ustatus, 'w, unit) eact" where
  "zenoh_subscriber_start N a =
     act_bind (parse_local (zs_local a)) (\<lambda>p.
     act_bind (parse_peer ''source'' (zs_source a)) (\<lambda>source.
     act_bind (entity_endpoint N (zs_endpoint a)) (\<lambda>endpoint.
     act_bind (entity_uuri N (ea_uauthority (zs_local a)) p) (\<lambda>subscriber_uuri.
     act_bind (entity_zenoh N subscriber_uuri endpoint) (\<lambda>subscriber.
     act_bind (entity_uuri N (pa_authority (zs_source a)) source) (\<lambda>source_filter.
     listen_run N subscriber source_filter None PublishReceiver))))))"

definition someip_subscriber_start :: "('m, 'w) entity_env \<Rightarrow> someip_subscriber_args \<Rightarrow> (ustatus, 'w, unit) eact" where
  "someip_subscriber_start N a =
     act_then (act_modify (en_println N ''mE_subscriber''))
     (act_bind (parse_local (ss_local a)) (\<lambda>p.
     act_bind (parse_peer ''source'' (ss_source a)) (\<lambda>source.
     act_bind (vsomeip_config N (ss_someip a)) (\<lambda>config.
     act_bind (entity_uuri N (ea_uauthority (ss_local a)) p) (\<lambda>subscriber_uuri.
     act_bind (entity_vsomeip N subscriber_uuri (ss_someip a) config) (\<lambda>subscriber.
     act_bind (entity_uuri N (pa_authority (ss_source a)) source) (\<lambda>source_filter.
     listen_run N subscriber source_filter None PublishReceiver)))))))"

definition mqtt_subscriber_start :: "('m, 'w) entity_env \<Rightarrow> mqtt_subscriber_args \<Rightarrow> (ustatus, 'w, unit) eact" where
  "mqtt_subscriber_start N a =
     act_bind (parse_local (ms_local a)) (\<lambda>p.
     act_bind (entity_uuri N (ea_uauthority (ms_local a)) p) (\<lambda>local_uuri.
     act_bind (parse_peer ''source'' (ms_source a)) (\<lambda>source.
     act_bind (entity_uuri N (pa_authority (ms_source a)) source) (\<lambda>source_filter.
     act_bind (entity_mqtt N (ms_broker_uri a) (m_authority_name (en_uri N) local_uuri)) (\<lambda>subscriber.
     listen_run N subscriber source_filter None PublishReceiver)))))"

text \<open>The main functions: started, an entity waits.\<close>

definition passive_main :: "('m, 'w) entity_env \<Rightarrow> (ustatus, 'w, unit) eact \<Rightarrow> (ustatus, 'w, unit) eact" where
  "passive_main N start = act_then start (park N)"

section \<open>The listeners\<close>

text \<open>
  The accessors of a message and the protobuf messages \<open>HelloRequest\<close>, \<open>HelloResponse\<close> and \<open>Timer\<close>. A
  listener that panics answers \<open>None\<close>.
\<close>

record 'm hello_api =
  hello_payload :: "'m \<Rightarrow> string option"
  hello_has_attributes :: "'m \<Rightarrow> bool"
  hello_request_name :: "string \<Rightarrow> string option"
  hello_parses_response :: "string \<Rightarrow> bool"
  hello_response_to :: "'m \<Rightarrow> string \<Rightarrow> 'm option" \<comment> \<open>the response to a request, with a message text\<close>

definition service_response_on_receive :: "'m hello_api \<Rightarrow> 'm \<Rightarrow> 'w \<Rightarrow> 'w option" where
  "service_response_on_receive A msg w =
     (case hello_payload A msg of
        None \<Rightarrow> None
      | Some payload_bytes \<Rightarrow> if hello_parses_response A payload_bytes then Some w else None)"

definition service_request_on_receive ::
  "('m, 'w) entity_env \<Rightarrow> 'm hello_api \<Rightarrow> arc_transport \<Rightarrow> 'm \<Rightarrow> 'w \<Rightarrow> 'w option" where
  "service_request_on_receive N A client msg w =
     (case hello_payload A msg of
        None \<Rightarrow> None
      | Some payload_bytes \<Rightarrow>
          (case hello_request_name A payload_bytes of
             None \<Rightarrow> Some w
           | Some name \<Rightarrow>
               if \<not> hello_has_attributes A msg then Some w
               else (case hello_response_to A msg (''The response to the request: '' @ name) of
                       None \<Rightarrow> None
                     | Some response_msg \<Rightarrow>
                         (case en_send N client response_msg w of
                            (Inl e, w1) \<Rightarrow> None
                          | (Inr _, w1) \<Rightarrow> Some w1))))"

definition publish_on_receive :: "'m hello_api \<Rightarrow> 'm \<Rightarrow> 'w \<Rightarrow> 'w option" where
  "publish_on_receive A msg w =
     (case hello_payload A msg of None \<Rightarrow> None | Some payload_bytes \<Rightarrow> Some w)"

definition entity_on_receive ::
  "('m, 'w) entity_env \<Rightarrow> 'm hello_api \<Rightarrow> entity_listener \<Rightarrow> 'm \<Rightarrow> 'w \<Rightarrow> 'w option" where
  "entity_on_receive N A l msg w =
     (case l of
        ServiceResponseListener \<Rightarrow> service_response_on_receive A msg w
      | ServiceRequestResponder client \<Rightarrow> service_request_on_receive N A client msg w
      | PublishReceiver \<Rightarrow> publish_on_receive A msg w)"

section \<open>The default arguments\<close>

text \<open>\<open>CARGO_MANIFEST_DIR\<close> is the directory the crate was built in.\<close>

definition manifest_config :: "string \<Rightarrow> string \<Rightarrow> string" where
  "manifest_config manifest_dir name = manifest_dir @ ''/vsomeip-configs/'' @ name @ ''.json''"

definition entity_args_of :: "string \<Rightarrow> string \<Rightarrow> string \<Rightarrow> string \<Rightarrow> entity_args" where
  "entity_args_of a e v r = \<lparr>ea_uauthority = a, ea_uentity = e, ea_uversion = v, ea_resource = r\<rparr>"

definition peer_args_of :: "string \<Rightarrow> string \<Rightarrow> string \<Rightarrow> string \<Rightarrow> peer_args" where
  "peer_args_of a e v r = \<lparr>pa_authority = a, pa_uentity = e, pa_uversion = v, pa_resource = r\<rparr>"

definition send_defaults :: send_args where
  "send_defaults = \<lparr>sa_send_count = 0, sa_send_interval_ms = 1000\<rparr>"

definition someip_defaults :: "string \<Rightarrow> string \<Rightarrow> someip_args" where
  "someip_defaults manifest_dir name =
     \<lparr>so_remote_authority = ''authority-b'', so_vsomeip_config = manifest_config manifest_dir name\<rparr>"

definition zenoh_client_defaults :: zenoh_client_args where
  "zenoh_client_defaults =
     \<lparr>zc_endpoint = ''tcp/127.0.0.1:7447'',
      zc_local = entity_args_of ''authority-b'' ''0x1236'' ''0x1'' ''0x0'',
      zc_target = peer_args_of ''authority-a'' ''0x4321'' ''0x1'' ''0x0421'', zc_send = send_defaults\<rparr>"

definition someip_client_defaults :: "string \<Rightarrow> someip_client_args" where
  "someip_client_defaults manifest_dir =
     \<lparr>sc_local = entity_args_of ''authority-a'' ''0x5678'' ''0x1'' ''0x0'',
      sc_target = peer_args_of ''authority-b'' ''0x1236'' ''0x1'' ''0x0421'',
      sc_someip = someip_defaults manifest_dir ''someip_client'', sc_send = send_defaults\<rparr>"

definition mqtt_client_defaults :: mqtt_client_args where
  "mqtt_client_defaults =
     \<lparr>mc_local = entity_args_of ''authority-a'' ''0x4321'' ''0x1'' ''0x0'',
      mc_target = peer_args_of ''authority-b'' ''0x1236'' ''0x1'' ''0x0421'',
      mc_broker_uri = ''localhost:1883'', mc_send = send_defaults\<rparr>"

definition zenoh_publisher_defaults :: zenoh_publisher_args where
  "zenoh_publisher_defaults =
     \<lparr>zp_endpoint = ''tcp/127.0.0.1:7447'',
      zp_local = entity_args_of ''authority-b'' ''0x3039'' ''0x1'' ''0x8001'', zp_send = send_defaults\<rparr>"

definition someip_publisher_defaults :: "string \<Rightarrow> someip_publisher_args" where
  "someip_publisher_defaults manifest_dir =
     \<lparr>sp_local = entity_args_of ''authority-a'' ''0x5BA0'' ''0x1'' ''0x8001'',
      sp_someip = someip_defaults manifest_dir ''someip_publisher'', sp_send = send_defaults\<rparr>"

definition mqtt_publisher_defaults :: mqtt_publisher_args where
  "mqtt_publisher_defaults =
     \<lparr>mp_local = entity_args_of ''authority-a'' ''0x5BA0'' ''0x1'' ''0x8001'',
      mp_broker_uri = ''localhost:1883'', mp_send = send_defaults\<rparr>"

definition zenoh_service_defaults :: zenoh_service_args where
  "zenoh_service_defaults =
     \<lparr>zv_endpoint = ''tcp/localhost:7447'',
      zv_local = entity_args_of ''authority-b'' ''0x1236'' ''0x1'' ''0x0421''\<rparr>"

definition someip_service_defaults :: "string \<Rightarrow> someip_service_args" where
  "someip_service_defaults manifest_dir =
     \<lparr>sv_local = entity_args_of ''authority-a'' ''0x4321'' ''0x1'' ''0x0421'',
      sv_someip = someip_defaults manifest_dir ''someip_service''\<rparr>"

definition mqtt_service_defaults :: mqtt_service_args where
  "mqtt_service_defaults =
     \<lparr>mv_local = entity_args_of ''authority-a'' ''0x4321'' ''0x1'' ''0x0421'',
      mv_broker_uri = ''localhost:1883''\<rparr>"

definition zenoh_subscriber_defaults :: zenoh_subscriber_args where
  "zenoh_subscriber_defaults =
     \<lparr>zs_endpoint = ''tcp/127.0.0.1:7447'',
      zs_local = entity_args_of ''authority-b'' ''0x5BB0'' ''0x1'' ''0x0'',
      zs_source = peer_args_of ''authority-a'' ''0x5BA0'' ''0x1'' ''0x8001''\<rparr>"

definition someip_subscriber_defaults :: "string \<Rightarrow> someip_subscriber_args" where
  "someip_subscriber_defaults manifest_dir =
     \<lparr>ss_local = entity_args_of ''authority-b'' ''0x5BB0'' ''0x1'' ''0x0'',
      ss_source = peer_args_of ''authority-b'' ''0x3039'' ''0x1'' ''0x8001'',
      ss_someip = someip_defaults manifest_dir ''someip_subscriber''\<rparr>"

definition mqtt_subscriber_defaults :: mqtt_subscriber_args where
  "mqtt_subscriber_defaults =
     \<lparr>ms_local = entity_args_of ''authority-a'' ''0x5678'' ''0x1'' ''0x1234'',
      ms_source = peer_args_of ''authority-b'' ''0x3039'' ''0x1'' ''0x8001'',
      ms_broker_uri = ''localhost:1883''\<rparr>"

end
