(* ===== verification/Example_Properties.thy ===== *)
theory Example_Properties
  imports Example_Entities
begin

text \<open>
  What a run of the example entities amounts to: a bounded sender sends the messages it was asked for, an
  unbounded one ends only with an error, and a listening entity prints its marker only when it listens.
\<close>

section \<open>The loop of the senders\<close>

lemma send_loop_rounds:
  assumes "0 < send_count" and "sent_count \<le> send_count"
  shows "send_loop body send_count i sent_count w
     = act_each body (map (\<lambda>k. i + of_nat k) [0..<unat (send_count - sent_count)]) w"
  using assms(2)
proof (induction "unat (send_count - sent_count)" arbitrary: i sent_count w)
  case 0
  then have "send_count - sent_count = 0" using unat_eq_0 by metis
  then have "sent_count = send_count" by simp
  with assms(1) show ?case by (simp add: send_loop.simps act_ret_def)
next
  case (Suc n)
  have less: "sent_count < send_count"
  proof -
    have "sent_count \<noteq> send_count" using Suc.hyps(2) by auto
    with Suc.prems show ?thesis by simp
  qed
  have one: "unat (send_count - (sent_count + 1)) = n"
  proof -
    have "unat (send_count - sent_count - 1) = unat (send_count - sent_count) - 1"
      using Suc.hyps(2) by (intro unat_minus_one) auto
    with Suc.hyps(2) show ?thesis by (simp add: algebra_simps)
  qed
  have "sent_count + 1 \<le> send_count" using less by (rule inc_le)
  with Suc.hyps(1) [of "sent_count + 1"] one
  have rest: "send_loop body send_count (i + 1) (sent_count + 1)
      = act_each body (map (\<lambda>k. i + 1 + of_nat k) [0..<n])" by (intro ext) auto
  have "map (\<lambda>k. i + of_nat k) [0..<Suc n] = i # map (\<lambda>k. i + 1 + of_nat k) [0..<n]"
    by (simp add: upt_conv_Cons map_Suc_upt [symmetric] algebra_simps del: upt_Suc map_Suc_upt)
  with Suc.hyps(2) rest less_le_not_le [THEN iffD1, OF less] assms(1) show ?case
    by (simp add: send_loop.simps [of body send_count i sent_count] act_then_def)
qed

lemma send_loop_unbounded:
  assumes "send_loop body send_count i sent_count w = Some y"
  shows "send_count = 0 \<longrightarrow> (\<exists>e. fst y = Inl e)"
proof (rule send_loop.raw_induct [OF _ assms])
  fix loop :: "(64 word \<Rightarrow> (ustatus, 'a, unit) eact) \<Rightarrow> 64 word \<Rightarrow> 64 word \<Rightarrow> 64 word \<Rightarrow> 'a \<Rightarrow>
     ((ustatus, unit) result \<times> 'a) option"
    and body send_count i sent_count w y
  assume IH: "\<And>body send_count i sent_count w y. loop body send_count i sent_count w = Some y \<Longrightarrow>
      send_count = 0 \<longrightarrow> (\<exists>e. fst y = Inl e)"
    and run: "(if 0 < send_count \<and> send_count \<le> sent_count then Some (Inr (), w)
      else act_bind (body i) (\<lambda>_. loop body send_count (i + 1) (sent_count + 1)) w) = Some y"
  show "send_count = 0 \<longrightarrow> (\<exists>e. fst y = Inl e)"
    using run IH by (cases y) (fastforce simp: act_bind_run)
qed

section \<open>Readiness\<close>

text \<open>A URI made from arguments: the numbers are those the arguments denote.\<close>

definition uri_of_args :: "string \<Rightarrow> string \<Rightarrow> string \<Rightarrow> string \<Rightarrow> uuri \<Rightarrow> bool" where
  "uri_of_args a e v r u \<longleftrightarrow>
     (\<exists>(ue :: 32 word) (major :: 8 word) (resource :: 16 word).
        cli_number e (unat ue) \<and> cli_number v (unat major) \<and> cli_number r (unat resource) \<and>
        u = \<lparr>authority_name = a, ue_id = ue, ue_version_major = ucast major, resource_id = ucast resource\<rparr>)"

definition local_uri :: "entity_args \<Rightarrow> uuri \<Rightarrow> bool" where
  "local_uri a = uri_of_args (ea_uauthority a) (ea_uentity a) (ea_uversion a) (ea_resource a)"

definition peer_uri :: "peer_args \<Rightarrow> uuri \<Rightarrow> bool" where
  "peer_uri a = uri_of_args (pa_authority a) (pa_uentity a) (pa_uversion a) (pa_resource a)"

text \<open>
  Whenever the start succeeds, the last two things done are a registration the transport has accepted
  and the line with the marker, and the registration is one of those described.
\<close>

definition ready_means_registered ::
  "('m, 'w) entity_env \<Rightarrow> (arc_transport \<Rightarrow> uuri \<Rightarrow> uuri option \<Rightarrow> entity_listener \<Rightarrow> bool) \<Rightarrow>
   (ustatus, 'w, unit) eact \<Rightarrow> bool" where
  "ready_means_registered N P start \<longleftrightarrow>
     (\<forall>w w'. start w = Some (Inr (), w') \<longrightarrow>
        (\<exists>t src snk l w1 w2. P t src snk l \<and> en_register N t src snk l w1 = (Inr (), w2) \<and>
           w' = en_println N READY_LISTENER_REGISTERED w2))"

lemma ready_bind:
  "(\<And>x. \<exists>w w1. m w = Some (Inr x, w1) \<Longrightarrow> ready_means_registered N P (f x)) \<Longrightarrow>
     ready_means_registered N P (act_bind m f)"
  by (fastforce simp: ready_means_registered_def act_bind_Ok)

lemma ready_then: "ready_means_registered N P n \<Longrightarrow> ready_means_registered N P (act_then m n)"
  by (simp add: act_then_def ready_bind)

lemma ready_listen: "P t src snk l \<Longrightarrow> ready_means_registered N P (listen_run N t src snk l)"
  unfolding ready_means_registered_def listen_run_def act_then_Ok act_do_run act_modify_run
  by (elim exE conjE allI impI | intro allI impI)+ (intro exI conjI; (assumption | simp))

lemma lift_Ok: "act_lift q s = Some (Inr x, s') \<longleftrightarrow> q = Inr x \<and> s' = s"
  by (auto simp: act_lift_run)

lemma parse_local_Ok:
  "\<exists>w w1. parse_local a w = Some (Inr (e, v, r), w1) \<Longrightarrow>
     cli_number (ea_uentity a) (unat e) \<and> cli_number (ea_uversion a) (unat v) \<and>
     cli_number (ea_resource a) (unat r)"
  unfolding parse_local_def act_bind_Ok lift_Ok act_ret_run statuses_Ok
  by clarify

lemma parse_peer_Ok:
  "\<exists>w w1. parse_peer role a w = Some (Inr (e, v, r), w1) \<Longrightarrow>
     cli_number (pa_uentity a) (unat e) \<and> cli_number (pa_uversion a) (unat v) \<and>
     cli_number (pa_resource a) (unat r)"
  unfolding parse_peer_def act_bind_Ok lift_Ok act_ret_run statuses_Ok
  by clarify

lemma entity_uuri_Ok:
  assumes "uuri_api_ok (en_uri N)" and "\<exists>w w1. entity_uuri N a (e, v, r) w = Some (Inr u, w1)"
  shows "u = \<lparr>authority_name = a, ue_id = e, ue_version_major = ucast v, resource_id = ucast r\<rparr>"
proof -
  have "m_try_from_parts (en_uri N) a e v r = Inr u"
    using assms(2) by (simp add: entity_uuri_def lift_Ok build_uuri_def)
  with assms(1) show ?thesis by (rule try_from_parts_Ok)
qed

lemma local_uri_built:
  assumes "uuri_api_ok (en_uri N)" and "\<exists>w w1. parse_local a w = Some (Inr p, w1)"
    and "\<exists>w w1. entity_uuri N (ea_uauthority a) p w = Some (Inr u, w1)"
  shows "local_uri a u"
proof -
  obtain e v r where p: "p = (e, v, r)" by (cases p)
  note numbers = parse_local_Ok [OF assms(2) [unfolded p]]
    and uri = entity_uuri_Ok [OF assms(1) assms(3) [unfolded p]]
  show ?thesis
    unfolding local_uri_def uri_of_args_def
    by (rule exI [of _ e], rule exI [of _ v], rule exI [of _ r]) (simp add: numbers uri)
qed

lemma peer_uri_built:
  assumes "uuri_api_ok (en_uri N)" and "\<exists>w w1. parse_peer role a w = Some (Inr p, w1)"
    and "\<exists>w w1. entity_uuri N (pa_authority a) p w = Some (Inr u, w1)"
  shows "peer_uri a u"
proof -
  obtain e v r where p: "p = (e, v, r)" by (cases p)
  note numbers = parse_peer_Ok [OF assms(2) [unfolded p]]
    and uri = entity_uuri_Ok [OF assms(1) assms(3) [unfolded p]]
  show ?thesis
    unfolding peer_uri_def uri_of_args_def
    by (rule exI [of _ e], rule exI [of _ v], rule exI [of _ r]) (simp add: numbers uri)
qed

section \<open>A concrete environment\<close>

text \<open>The world is the list of what was done; a message is its text.\<close>

definition sample_entity_env :: "(string, string list) entity_env" where
  "sample_entity_env =
     \<lparr>en_uri = sample_uuri_api [],
      en_any = authority_to_wildcard_filter ''*'',
      en_canonicalize = (\<lambda>p w. Ok p),
      en_endpoint_ok = (\<lambda>e. True),
      en_zenoh = (\<lambda>a e w. Some (\<lparr>arc_addr = 1, arc_vtable = 1\<rparr>, w @ [''zenoh'', a])),
      en_vsomeip = (\<lambda>u r c w. Some (\<lparr>arc_addr = 2, arc_vtable = 2\<rparr>, w @ [''vsomeip'', authority_name u])),
      en_mqtt_new = (\<lambda>b a w. (Ok \<lparr>arc_addr = 3, arc_vtable = 3\<rparr>, w @ [''mqtt'', a])),
      en_mqtt_connect = (\<lambda>t w. (Ok (), w @ [''connect''])),
      en_register = (\<lambda>t src snk l w. (Ok (), w @ [''register'', authority_name src])),
      en_send = (\<lambda>t m w. (Ok (), w @ [''send'', m])),
      en_sleep_ms = (\<lambda>d w. w @ [''sleep'']),
      en_now = (\<lambda>w. (\<lparr>tod_hours = 0, tod_minutes = 0, tod_seconds = 0, tod_nanos = 0\<rparr>, w)),
      en_request = (\<lambda>sink source ttl name. Some name),
      en_publish = (\<lambda>source time. Some ''timer''),
      en_show = (\<lambda>m. m),
      en_println = (\<lambda>l w. w @ [l]),
      en_park = Some\<rparr>"

section \<open>Properties\<close>

text \<open>
  A client or publisher with a message count registers its listener and then makes exactly so many
  rounds, the client's numbered from 0, and ends; the loop with its two counters is the plain iteration.
\<close>

theorem bounded_run_is_count_rounds:
  assumes "0 < sa_send_count a"
  shows "client_run N t name source sink a w =
      act_then (act_do (en_register N t sink (Some source) ServiceResponseListener))
        (act_each (request_round N t name source sink (sa_send_interval_ms a))
           (map of_nat [0..<unat (sa_send_count a)])) w \<and>
    publisher_run N t False source a w =
      act_each (publish_round N t False source (sa_send_interval_ms a))
        (map of_nat [0..<unat (sa_send_count a)]) w"
proof -
  have loop: "send_loop body (sa_send_count a) 0 0 = act_each body (map of_nat [0..<unat (sa_send_count a)])"
    for body :: "64 word \<Rightarrow> (ustatus, 'a, unit) eact"
    using send_loop_rounds [OF assms, of 0 body 0] by (intro ext) simp
  have same: "act_then m (act_ret ()) v = m v" for m :: "(ustatus, 'a, unit) eact" and v
    by (auto simp: act_then_def act_bind_def act_ret_def split: option.splits sum.splits)
  show ?thesis
    by (simp add: client_run_def publisher_run_def loop act_when_def same)
qed

lemma two_rounds: "map of_nat [0..<2] = [0, 1 :: 64 word]"
  by code_simp

theorem bounded_run_is_count_rounds_witness:
  "client_run sample_entity_env \<lparr>arc_addr = 1, arc_vtable = 1\<rparr> ''ue_client''
      (authority_to_wildcard_filter ''a'') (authority_to_wildcard_filter ''b'')
      \<lparr>sa_send_count = 2, sa_send_interval_ms = 5\<rparr> []
   = Some (Inr (), [''register'', ''b'', ''sleep'', ''send'', ''ue_client@i=0'', ''sleep'', ''send'', ''ue_client@i=1''])"
  using bounded_run_is_count_rounds [of "\<lparr>sa_send_count = 2, sa_send_interval_ms = 5\<rparr>" sample_entity_env
      "\<lparr>arc_addr = 1, arc_vtable = 1\<rparr>" "''ue_client''" "authority_to_wildcard_filter ''a''"
      "authority_to_wildcard_filter ''b''" "[]", THEN conjunct1]
  by (simp add: two_rounds act_then_def act_bind_def act_do_def act_ret_def act_modify_def act_unwrap_def
      request_round_def sample_entity_env_def decimal.simps decimal_digit_def)

text \<open>
  Without a message count a client or publisher that ends does so because the transport refused its
  registration or a message: it never ends successfully.
\<close>

theorem unbounded_run_ends_with_error:
  assumes "sa_send_count a = 0"
  shows "client_run N t name source sink a w \<noteq> Some (Inr (), w') \<and>
    publisher_run N t on_terminal source a w \<noteq> Some (Inr (), w')"
  using send_loop_unbounded assms
  by (fastforce simp: client_run_def publisher_run_def act_then_Ok)

text \<open>
  C30. A listening entity prints the marker the smoke suite waits for only after the transport has accepted
  its listener: a service listens for requests from anywhere to the URI its arguments name and answers on
  the same transport, a subscriber listens to the URI of the publisher its arguments name.
\<close>

theorem marker_means_listening:
  assumes "uuri_api_ok (en_uri N)"
  shows "ready_means_registered N (\<lambda>t src snk l. src = en_any N \<and> l = ServiceRequestResponder t \<and>
       (\<exists>u. snk = Some u \<and> local_uri (zv_local zv) u)) (zenoh_service_start N zv)
   \<and> ready_means_registered N (\<lambda>t src snk l. src = en_any N \<and> l = ServiceRequestResponder t \<and>
       (\<exists>u. snk = Some u \<and> local_uri (sv_local sv) u)) (someip_service_start N sv)
   \<and> ready_means_registered N (\<lambda>t src snk l. src = en_any N \<and> l = ServiceRequestResponder t \<and>
       (\<exists>u. snk = Some u \<and> local_uri (mv_local mv) u)) (mqtt_service_start N mv)
   \<and> ready_means_registered N (\<lambda>t src snk l. peer_uri (zs_source zs) src \<and> snk = None \<and> l = PublishReceiver)
       (zenoh_subscriber_start N zs)
   \<and> ready_means_registered N (\<lambda>t src snk l. peer_uri (ss_source ss) src \<and> snk = None \<and> l = PublishReceiver)
       (someip_subscriber_start N ss)
   \<and> ready_means_registered N (\<lambda>t src snk l. peer_uri (ms_source ms) src \<and> snk = None \<and> l = PublishReceiver)
       (mqtt_subscriber_start N ms)"
  unfolding zenoh_service_start_def someip_service_start_def mqtt_service_start_def
    zenoh_subscriber_start_def someip_subscriber_start_def mqtt_subscriber_start_def
  by (intro conjI ready_bind ready_then ready_listen refl; (rule exI, rule conjI, rule refl)?;
      (rule local_uri_built [OF assms] peer_uri_built [OF assms]; assumption))

lemma default_mqtt_service_numbers:
  "parse_u32_status ''--uentity'' ''0x4321'' = Inr 0x4321" "parse_u8_status ''--uversion'' ''0x1'' = Inr 1"
  "parse_u16_status ''--resource'' ''0x0421'' = Inr 0x421"
  by (simp_all add: statuses_Ok cli_number_def numeral_text_def digits_number_def is_radix_digit_def
      to_digit_def)

lemma default_mqtt_service_starts:
  "mqtt_service_start sample_entity_env mqtt_service_defaults []
     = Some (Inr (), [''mqtt'', ''authority-a'', ''connect'', ''register'', ''*'', ''READY listener_registered''])"
  by (simp add: mqtt_service_start_def mqtt_service_defaults_def entity_args_of_def parse_local_def
      default_mqtt_service_numbers act_bind_def act_lift_def act_ret_def entity_uuri_def build_uuri_def
      map_err_def entity_mqtt_def act_do_def act_then_def listen_run_def act_modify_def
      sample_entity_env_def sample_uuri_api_def READY_LISTENER_REGISTERED_def)

theorem marker_means_listening_witness:
  "\<exists>t src snk l w1 w2. src = en_any sample_entity_env \<and> l = ServiceRequestResponder t \<and> snk \<noteq> None \<and>
     en_register sample_entity_env t src snk l w1 = (Inr (), w2) \<and>
     [''mqtt'', ''authority-a'', ''connect'', ''register'', ''*'', ''READY listener_registered'']
       = en_println sample_entity_env READY_LISTENER_REGISTERED w2"
proof -
  have "uuri_api_ok (en_uri sample_entity_env)" by (simp add: sample_entity_env_def sample_uuri_api_ok)
  from marker_means_listening [OF this, THEN conjunct2, THEN conjunct2, THEN conjunct1, of mqtt_service_defaults]
    default_mqtt_service_starts
  show ?thesis unfolding ready_means_registered_def by fastforce
qed

text \<open>
  What a service does with a request: it sends exactly one response, with the name it was asked with,
  provided the payload is a request and the message has attributes, and otherwise nothing; it panics
  exactly when there is no payload, no response can be built or the transport refuses it.
\<close>

theorem service_answers_requests:
  "entity_on_receive N A (ServiceRequestResponder t) msg w =
     (if hello_payload A msg = None then None
      else if Option.bind (hello_payload A msg) (hello_request_name A) = None \<or> \<not> hello_has_attributes A msg
      then Some w
      else (case hello_response_to A msg (''The response to the request: '' @
                 the (Option.bind (hello_payload A msg) (hello_request_name A))) of
              None \<Rightarrow> None
            | Some response \<Rightarrow>
                if is_ok (fst (en_send N t response w)) then Some (snd (en_send N t response w)) else None))"
  by (auto simp: entity_on_receive_def service_request_on_receive_def is_ok_def
      split: option.splits prod.splits sum.splits)

text \<open>
  The default SOME/IP subscriber and the publisher it listens to have the same authority, which is also the
  remote authority of its own transport; the arguments the smoke suite passes differ.
\<close>

lemma someip_subscriber_default_authority:
  "ea_uauthority (ss_local (someip_subscriber_defaults d)) = ea_uauthority (zp_local zenoh_publisher_defaults)"
  "ea_uauthority (ss_local (someip_subscriber_defaults d)) = so_remote_authority (ss_someip (someip_subscriber_defaults d))"
  "ea_uauthority (sc_local (someip_client_defaults d)) \<noteq> so_remote_authority (sc_someip (someip_client_defaults d))"
  by (simp_all add: someip_subscriber_defaults_def zenoh_publisher_defaults_def someip_client_defaults_def
      someip_defaults_def entity_args_of_def)

end
