(* ===== verification/Test_Driver.thy ===== *)
theory Test_Driver
  imports Up_Client_Foo Smoke_Base Float64
begin

text \<open>
  The driver of the integration tests (utils/integration-test-utils/src): the messages and listeners of its
  clients, the loop of a client, and the checks the tests make of what was sent and received.

  A \<open>UMessage\<close> is modelled by its attributes, which is all the tests build of it. \<open>None\<close> is a panic, or,
  for a loop, that it does not return. Debug output is not modelled.
\<close>

section \<open>Messages, URIs and listeners\<close>

type_synonym uuid = "64 word \<times> 64 word" \<comment> \<open>\<open>msb\<close> and \<open>lsb\<close>\<close>

record test_attributes = uattributes +
  at_id :: "uuid option"

record test_message =
  tm_attributes :: "test_attributes option"

definition local_authority :: string where "local_authority = ''local_authority''"
definition remote_authority_a :: string where "remote_authority_a = ''remote_authority_a''"
definition remote_authority_b :: string where "remote_authority_b = ''remote_authority_b''"

definition remote_client_uuri :: "string \<Rightarrow> 32 word \<Rightarrow> uuri" where
  "remote_client_uuri authority client_id =
     \<lparr>authority_name = authority, ue_id = client_id, ue_version_major = 1, resource_id = 2\<rparr>"

definition local_client_uuri :: "32 word \<Rightarrow> uuri" where
  "local_client_uuri client_id =
     \<lparr>authority_name = local_authority, ue_id = client_id, ue_version_major = 1, resource_id = 2\<rparr>"

definition test_msg :: "umessage_type \<Rightarrow> uuri \<Rightarrow> uuri option \<Rightarrow> test_message" where
  "test_msg type source sink =
     \<lparr>tm_attributes = Some \<lparr>at_type = Some type, at_source = Some source, at_sink = sink, at_id = None\<rparr>\<rparr>"

definition publish_from_local_client_for_remote_client :: "32 word \<Rightarrow> test_message" where
  "publish_from_local_client_for_remote_client local_id =
     test_msg UMESSAGE_TYPE_PUBLISH (local_client_uuri local_id) None"

definition notification_from_local_client_for_remote_client :: "32 word \<Rightarrow> uuri \<Rightarrow> test_message" where
  "notification_from_local_client_for_remote_client local_id remote_uuri =
     test_msg UMESSAGE_TYPE_NOTIFICATION (local_client_uuri local_id) (Some remote_uuri)"

definition request_from_local_client_for_remote_client :: "32 word \<Rightarrow> uuri \<Rightarrow> test_message" where
  "request_from_local_client_for_remote_client local_id remote_uuri =
     test_msg UMESSAGE_TYPE_REQUEST (local_client_uuri local_id) (Some remote_uuri)"

definition response_from_local_client_for_remote_client :: "32 word \<Rightarrow> uuri \<Rightarrow> test_message" where
  "response_from_local_client_for_remote_client local_id remote_uuri =
     test_msg UMESSAGE_TYPE_RESPONSE (local_client_uuri local_id) (Some remote_uuri)"

definition publish_from_remote_client_for_local_client :: "uuri \<Rightarrow> test_message" where
  "publish_from_remote_client_for_local_client remote_uuri = test_msg UMESSAGE_TYPE_PUBLISH remote_uuri None"

definition notification_from_remote_client_for_local_client :: "uuri \<Rightarrow> 32 word \<Rightarrow> test_message" where
  "notification_from_remote_client_for_local_client remote_uuri local_id =
     test_msg UMESSAGE_TYPE_NOTIFICATION remote_uuri (Some (local_client_uuri local_id))"

definition request_from_remote_client_for_local_client :: "uuri \<Rightarrow> 32 word \<Rightarrow> test_message" where
  "request_from_remote_client_for_local_client remote_uuri local_id =
     test_msg UMESSAGE_TYPE_REQUEST remote_uuri (Some (local_client_uuri local_id))"

definition response_from_remote_client_for_local_client :: "uuri \<Rightarrow> 32 word \<Rightarrow> test_message" where
  "response_from_remote_client_for_local_client remote_uuri local_id =
     test_msg UMESSAGE_TYPE_RESPONSE remote_uuri (Some (local_client_uuri local_id))"

text \<open>The accessors of a message.\<close>

definition msg_source_uri :: "test_message \<Rightarrow> uuri option" where
  "msg_source_uri msg = Option.bind (tm_attributes msg) at_source"

definition msg_uuid :: "test_message \<Rightarrow> uuid option" where
  "msg_uuid msg = Option.bind (tm_attributes msg) at_id"

text \<open>\<open>LocalClientListener\<close> and \<open>RemoteClientListener\<close> keep what they receive.\<close>

type_synonym message_store = "test_message list"

definition client_listener_new :: message_store where "client_listener_new = []"

definition client_listener_on_receive :: "test_message \<Rightarrow> message_store \<Rightarrow> message_store" where
  "client_listener_on_receive msg store = store @ [msg]"

section \<open>The checks\<close>

definition f64_abs :: "f64 \<Rightarrow> f64" where
  "f64_abs x = (case x of NaN s \<Rightarrow> NaN False | Infinite s \<Rightarrow> Infinite False | Finite s m \<Rightarrow> Finite False m)"

definition f64_gt :: "f64 \<Rightarrow> f64 \<Rightarrow> bool" where
  "f64_gt x y \<longleftrightarrow> f64_le y x \<and> \<not> f64_le x y"

definition f64_of_u64 :: "64 word \<Rightarrow> f64" where
  "f64_of_u64 n = f64_of False (of_nat (unat n))"

text \<open>\<open>None\<close> is a failed assertion or the panic for a discrepancy beyond the slack.\<close>

definition check_send_receive_message_discrepancy :: "64 word \<Rightarrow> 64 word \<Rightarrow> f64 \<Rightarrow> unit option" where
  "check_send_receive_message_discrepancy sent received percentage_slack =
     (if \<not> sent > 0 then None
      else if \<not> received > 0 then None
      else let slack_in_message_count = f64_mul (f64_of_u64 sent) percentage_slack
           in if f64_gt (f64_abs (f64_sub (f64_of_u64 sent) (f64_of_u64 received))) slack_in_message_count
              then None else Some ())"

text \<open>The panics of the order check.\<close>

datatype order_failure =
    MissingSource nat
  | MissingId nat uuri
  | OutOfOrder uuri "64 word" "64 word" nat

type_synonym grouped_messages = "(uuri, (nat \<times> test_message) list) hashmap"

fun group_by_source ::
  "(nat \<times> test_message) list \<Rightarrow> grouped_messages \<Rightarrow> (order_failure, grouped_messages) result" where
  "group_by_source [] grouped = Ok grouped"
| "group_by_source ((index, msg) # ms) grouped =
     (case msg_source_uri msg of
        None \<Rightarrow> Err (MissingSource index)
      | Some source_uuri \<Rightarrow>
          (let entries = (case hm_get grouped source_uuri of None \<Rightarrow> [] | Some es \<Rightarrow> es)
           in group_by_source ms (hm_insert source_uuri (entries @ [(index, msg)]) grouped)))"

text \<open>The 48 bits of the time stamp in an id.\<close>

definition message_timestamp :: "test_message \<Rightarrow> 64 word option" where
  "message_timestamp msg = map_option (\<lambda>(msb, lsb). drop_bit 16 msb) (msg_uuid msg)"

fun check_group_rest ::
  "uuri \<Rightarrow> 64 word \<Rightarrow> (nat \<times> test_message) list \<Rightarrow> (order_failure, unit) result" where
  "check_group_rest source_uuri prev_timestamp [] = Ok ()"
| "check_group_rest source_uuri prev_timestamp ((msg_index, msg) # ms) =
     (case message_timestamp msg of
        None \<Rightarrow> Err (MissingId msg_index source_uuri)
      | Some curr_timestamp \<Rightarrow>
          if curr_timestamp < prev_timestamp
          then Err (OutOfOrder source_uuri prev_timestamp curr_timestamp msg_index)
          else check_group_rest source_uuri curr_timestamp ms)"

fun check_group :: "uuri \<Rightarrow> (nat \<times> test_message) list \<Rightarrow> (order_failure, unit) result" where
  "check_group source_uuri [] = Ok ()"
| "check_group source_uuri ((first_index, first_msg) # ms) =
     (case message_timestamp first_msg of
        None \<Rightarrow> Err (MissingId first_index source_uuri)
      | Some timestamp \<Rightarrow> check_group_rest source_uuri timestamp ms)"

fun check_groups :: "(uuri \<times> (nat \<times> test_message) list) list \<Rightarrow> (order_failure, unit) result" where
  "check_groups [] = Ok ()"
| "check_groups ((source_uuri, ms) # gs) =
     (case check_group source_uuri ms of Inl e \<Rightarrow> Err e | Inr _ \<Rightarrow> check_groups gs)"

text \<open>\<open>ord\<close> is the order in which the map of the groups is iterated.\<close>

definition check_messages_in_order ::
  "(grouped_messages \<Rightarrow> grouped_messages) \<Rightarrow> test_message list \<Rightarrow> (order_failure, unit) result" where
  "check_messages_in_order ord messages =
     (if messages = [] then Ok ()
      else case group_by_source (zip [0..<length messages] messages) [] of
             Inl e \<Rightarrow> Err e
           | Inr grouped \<Rightarrow> check_groups (ord grouped))"

section \<open>Waiting for counters\<close>

text \<open>
  The counter as it is seen at the n-th time the waiting task runs, and whether the timer has expired
  when it yields for the n-th time. \<open>tokio::time::timeout\<close> asks the task before the timer.
\<close>

partial_function (option) wait_loop ::
  "(nat \<Rightarrow> 64 word) \<Rightarrow> (nat \<Rightarrow> bool) \<Rightarrow> 64 word \<Rightarrow> nat \<Rightarrow> (64 word, 64 word) result option" where
  "wait_loop counter expired target n =
     (if target \<le> counter n then Some (Ok (counter n))
      else if expired n then Some (Err (counter (Suc n)))
      else wait_loop counter expired target (Suc n))"

text \<open>\<open>Inl\<close> is the panic, with the value it reports.\<close>

definition wait_for_send_count ::
  "(nat \<Rightarrow> 64 word) \<Rightarrow> (nat \<Rightarrow> bool) \<Rightarrow> 64 word \<Rightarrow> (64 word, 64 word) result option" where
  "wait_for_send_count counter expired target = wait_loop counter expired target 0"

definition saturating_add :: "64 word \<Rightarrow> 64 word \<Rightarrow> 64 word" where
  "saturating_add x y = (if unat x + unat y < 2 ^ 64 then x + y else - 1)"

definition wait_for_send_delta ::
  "(nat \<Rightarrow> 64 word) \<Rightarrow> (nat \<Rightarrow> bool) \<Rightarrow> 64 word \<Rightarrow> 64 word \<Rightarrow> (64 word, 64 word) result option" where
  "wait_for_send_delta counter expired baseline minimum_delta =
     (let target = saturating_add baseline minimum_delta
      in wait_for_send_count counter expired target)"

text \<open>\<open>clock n\<close> is the time, in milliseconds, when the settling task runs for the n-th time.\<close>

partial_function (option) settle_loop ::
  "(nat \<Rightarrow> 64 word) \<Rightarrow> (nat \<Rightarrow> nat) \<Rightarrow> (nat \<Rightarrow> bool) \<Rightarrow> 64 word \<Rightarrow> nat \<Rightarrow> nat \<Rightarrow> 64 word option option" where
  "settle_loop counter clock expired last_count stable_since n =
     (if expired n then Some None
      else if counter (Suc n) = last_count then
        (if 50 \<le> clock (Suc n) - stable_since then Some (Some (counter (Suc n)))
         else settle_loop counter clock expired last_count stable_since (Suc n))
      else settle_loop counter clock expired (counter (Suc n)) (clock (Suc n)) (Suc n))"

text \<open>\<open>None\<close> inside is the time-out, which is only logged.\<close>

definition wait_for_receive_settle ::
  "(nat \<Rightarrow> 64 word) \<Rightarrow> (nat \<Rightarrow> nat) \<Rightarrow> (nat \<Rightarrow> bool) \<Rightarrow> 64 word option option" where
  "wait_for_receive_settle counter clock expired = settle_loop counter clock expired (counter 0) (clock 0) 0"

section \<open>A client\<close>

datatype client_command =
    NoOp
  | Stop
  | DisconnectedFromStreamer "bool list"
  | ConnectedToStreamer "bool list"

text \<open>Registers the listener \<open>l\<close> on a new client; a refusal is a panic.\<close>

definition configure_client :: "uuri_api \<Rightarrow> string \<Rightarrow> uuri \<Rightarrow> route_listener \<Rightarrow> foo_client option" where
  "configure_client U name my_client_uuri l =
     (case foo_register_listener U any_uuri (Some my_client_uuri) l (foo_new name) of
        (Inl e, client) \<Rightarrow> None
      | (Inr _, client) \<Rightarrow> Some client)"

text \<open>
  What the client does under the lock of \<open>pause_execution\<close>, given the flag and the command it finds: it
  goes on, it stops, or it has taken over the connections of the command and waits.
\<close>

datatype poll_outcome = Proceed | Stopped | Paused

definition command_connections :: "client_command \<Rightarrow> bool list \<Rightarrow> bool list" where
  "command_connections command active =
     (case command of
        NoOp \<Rightarrow> active
      | ConnectedToStreamer connections \<Rightarrow> connections
      | DisconnectedFromStreamer connections \<Rightarrow> connections
      | Stop \<Rightarrow> active)"

definition poll_section ::
  "bool \<Rightarrow> client_command \<Rightarrow> bool list \<Rightarrow> poll_outcome \<times> bool list" where
  "poll_section should_pause command active =
     (if \<not> should_pause then (Proceed, active)
      else if command = Stop then (Stopped, active)
      else (Paused, command_connections command active))"

text \<open>
  The world of a client: what it finds when it has the lock (\<open>dw_control\<close>), the flag by which it says that
  it has paused, waiting for a notification, ids, its transport and the pacer of its rounds. Other tasks
  act on the world in between.
\<close>

record 'w driver_world =
  dw_control :: "'w \<Rightarrow> (bool \<times> client_command) \<times> 'w"
  dw_paused :: "'w \<Rightarrow> 'w"
  dw_wait :: "'w \<Rightarrow> 'w option"
  dw_settle :: "'w \<Rightarrow> 'w"
  dw_uuid :: "'w \<Rightarrow> uuid \<times> 'w"
  dw_send :: "test_message \<Rightarrow> 'w \<Rightarrow> (ustatus, unit) result \<times> 'w"
  dw_tick :: "'w \<Rightarrow> 'w"

partial_function (option) poll_for_new_command ::
  "'w driver_world \<Rightarrow> bool list \<Rightarrow> 'w \<Rightarrow> ((bool \<times> bool list) \<times> 'w) option" where
  "poll_for_new_command D active w =
     (case dw_control D w of ((should_pause, command), w1) \<Rightarrow>
        (case poll_section should_pause command active of
           (Proceed, active1) \<Rightarrow> Some ((False, active1), w1)
         | (Stopped, active1) \<Rightarrow> Some ((True, active1), dw_settle D w1)
         | (Paused, active1) \<Rightarrow>
             (case dw_wait D (dw_paused D w1) of
                None \<Rightarrow> None
              | Some w2 \<Rightarrow> poll_for_new_command D active1 w2)))"

definition give_new_id :: "uuid \<Rightarrow> test_message \<Rightarrow> test_message" where
  "give_new_id new_id msg =
     msg\<lparr>tm_attributes := map_option (\<lambda>a. a\<lparr>at_id := Some new_id\<rparr>) (tm_attributes msg)\<rparr>"

text \<open>\<open>active_connection_listing.get(index).copied().unwrap_or(true)\<close>\<close>

definition should_send :: "bool list \<Rightarrow> nat \<Rightarrow> bool" where
  "should_send active index = (if index < length active then active ! index else True)"

record send_context =
  sx_sent_messages :: "test_message list"
  sx_number_of_sends :: "64 word"

text \<open>The messages with their indices; the set is changed in place, so it is answered as well.\<close>

fun send_message_set ::
  "'w driver_world \<Rightarrow> bool list \<Rightarrow> nat \<Rightarrow> test_message list \<Rightarrow> send_context \<Rightarrow> 'w \<Rightarrow>
   test_message list \<times> send_context \<times> 'w" where
  "send_message_set D active index [] cx w = ([], cx, w)"
| "send_message_set D active index (msg # ms) cx w =
     (if \<not> should_send active index then
        (case send_message_set D active (Suc index) ms cx w of (ms1, cx1, w1) \<Rightarrow> (msg # ms1, cx1, w1))
      else
        (let (msg1, w1) = (if tm_attributes msg = None then (msg, w)
                           else case dw_uuid D w of (new_id, w1) \<Rightarrow> (give_new_id new_id msg, w1));
             (send_res, w2) = dw_send D msg1 w1;
             cx1 = (if is_ok send_res
                    then cx\<lparr>sx_sent_messages := sx_sent_messages cx @ [msg1],
                            sx_number_of_sends := sx_number_of_sends cx + 1\<rparr>
                    else cx)
         in (case send_message_set D active (Suc index) ms cx1 w2 of
               (ms1, cx2, w3) \<Rightarrow> (msg1 # ms1, cx2, w3))))"

record client_messages =
  cm_notification_msgs :: "test_message list"
  cm_request_msgs :: "test_message list"
  cm_response_msgs :: "test_message list"

definition send_all_sets ::
  "'w driver_world \<Rightarrow> bool list \<Rightarrow> client_messages \<Rightarrow> send_context \<Rightarrow> 'w \<Rightarrow>
   client_messages \<times> send_context \<times> 'w" where
  "send_all_sets D active msgs cx w =
     (let (notifications, cx1, w1) = send_message_set D active 0 (cm_notification_msgs msgs) cx w;
          (requests, cx2, w2) = send_message_set D active 0 (cm_request_msgs msgs) cx1 w1;
          (responses, cx3, w3) = send_message_set D active 0 (cm_response_msgs msgs) cx2 w2
      in (\<lparr>cm_notification_msgs = notifications, cm_request_msgs = requests,
           cm_response_msgs = responses\<rparr>, cx3, w3))"

text \<open>The loop of a client; \<open>number_of_sends\<close> in the context is the counter the tests read.\<close>

partial_function (option) client_loop ::
  "'w driver_world \<Rightarrow> bool list \<Rightarrow> client_messages \<Rightarrow> send_context \<Rightarrow> 'w \<Rightarrow> (send_context \<times> 'w) option" where
  "client_loop D active msgs cx w =
     (case poll_for_new_command D active w of
        None \<Rightarrow> None
      | Some ((stop, active1), w1) \<Rightarrow>
          if stop then Some (cx, w1)
          else (case send_all_sets D active1 msgs cx w1 of
                  (msgs1, cx1, w2) \<Rightarrow> client_loop D active1 msgs1 cx1 (dw_tick D w2)))"

text \<open>The thread of a client: what it answers is what it has sent.\<close>

definition run_client ::
  "uuri_api \<Rightarrow> 'w driver_world \<Rightarrow> string \<Rightarrow> uuri \<Rightarrow> route_listener \<Rightarrow> client_messages \<Rightarrow> 64 word \<Rightarrow>
   (foo_client \<Rightarrow> 'w) \<Rightarrow> (test_message list \<times> 64 word \<times> 'w) option" where
  "run_client U D name my_client_uuri l msgs number_of_sends start =
     (case configure_client U name my_client_uuri l of
        None \<Rightarrow> None
      | Some client \<Rightarrow>
          map_option (\<lambda>(cx, w). (sx_sent_messages cx, sx_number_of_sends cx, w))
            (client_loop D [] msgs \<lparr>sx_sent_messages = [], sx_number_of_sends = number_of_sends\<rparr>
               (start client)))"

end
