(* ===== verification/Test_Driver_Properties.thy ===== *)
theory Test_Driver_Properties
  imports Test_Driver
begin

text \<open>
  What the checks of the integration tests decide, that their waits return, and that a client reports what
  it has sent.
\<close>

section \<open>The order check\<close>

lemma group_by_source_Ok_iff:
  "is_ok (group_by_source xs g) \<longleftrightarrow> (\<forall>(i, m) \<in> set xs. msg_source_uri m \<noteq> None)"
  by (induction xs g rule: group_by_source.induct) (auto simp: Let_def split: option.splits)

lemma group_by_source_get:
  "group_by_source xs g = Inr g' \<Longrightarrow>
     hm_get g' u = (let new = filter (\<lambda>(i, m). msg_source_uri m = Some u) xs
       in case hm_get g u of Some es \<Rightarrow> Some (es @ new) | None \<Rightarrow> if new = [] then None else Some new)"
proof (induction xs g rule: group_by_source.induct)
  case (1 g)
  then show ?case by (auto split: option.splits)
next
  case (2 i m ms g)
  then obtain s where s: "msg_source_uri m = Some s" by (auto split: option.splits)
  with 2 show ?case by (auto simp: Let_def split: option.splits if_splits)
qed

lemma group_by_source_wf: "group_by_source xs g = Inr g' \<Longrightarrow> hm_wf g \<Longrightarrow> hm_wf g'"
  by (induction xs g rule: group_by_source.induct) (auto simp: Let_def split: option.splits)

definition timestamp_of :: "test_message \<Rightarrow> 64 word" where
  "timestamp_of m = the (message_timestamp m)"

lemma check_group_rest_iff:
  "check_group_rest u prev ms = Inr () \<longleftrightarrow>
     (\<forall>(i, m) \<in> set ms. msg_uuid m \<noteq> None) \<and> sorted (prev # map (timestamp_of \<circ> snd) ms)"
proof (induction u prev ms rule: check_group_rest.induct)
  case (1 u prev)
  then show ?case by simp
next
  case (2 u prev i m ms)
  then show ?case
    by (cases "msg_uuid m") (force simp: message_timestamp_def timestamp_of_def)+
qed

lemma check_group_iff:
  "check_group u ms = Inr () \<longleftrightarrow>
     (\<forall>(i, m) \<in> set ms. msg_uuid m \<noteq> None) \<and> sorted (map (timestamp_of \<circ> snd) ms)"
proof (cases "(u, ms)" rule: check_group.cases)
  case (2 s i m rest)
  then show ?thesis
    by (cases "msg_uuid m") (auto simp: message_timestamp_def timestamp_of_def check_group_rest_iff)
qed simp

lemma check_groups_iff: "check_groups gs = Inr () \<longleftrightarrow> (\<forall>(u, ms) \<in> set gs. check_group u ms = Inr ())"
  by (induction gs rule: check_groups.induct) (auto split: sum.splits)

lemma sorted_wrt_filter_iff:
  "sorted_wrt P (filter Q xs) \<longleftrightarrow> sorted_wrt (\<lambda>x y. Q x \<longrightarrow> Q y \<longrightarrow> P x y) xs"
  by (induction xs) auto

lemma sorted_wrt_all: "(\<forall>u. sorted_wrt (P u) xs) \<longleftrightarrow> sorted_wrt (\<lambda>x y. \<forall>u. P u x y) xs"
  by (induction xs) auto

lemma check_grouped:
  assumes "group_by_source xs [] = Inr g" and "order_ok ord"
  shows "check_groups (ord g) = Inr () \<longleftrightarrow>
     (\<forall>(i, m) \<in> set xs. msg_uuid m \<noteq> None) \<and>
     sorted_wrt (\<lambda>x y. msg_source_uri (snd x) = msg_source_uri (snd y) \<longrightarrow>
        timestamp_of (snd x) \<le> timestamp_of (snd y)) xs"
proof -
  let ?of = "\<lambda>u. filter (\<lambda>(i, m). msg_source_uri m = Some u) xs"
  have source: "msg_source_uri m \<noteq> None" if "(i, m) \<in> set xs" for i m
    using group_by_source_Ok_iff [of xs "[]"] assms(1) that by fastforce
  have get: "hm_get g u = (if ?of u = [] then None else Some (?of u))" for u
    using group_by_source_get [OF assms(1), of u] by (simp add: Let_def)
  have wf: "hm_wf g" using group_by_source_wf [OF assms(1)] by simp
  have "check_groups (ord g) = Inr () \<longleftrightarrow> (\<forall>u. check_group u (?of u) = Inr ())"
  proof -
    have member: "(u, ms) \<in> set (ord g) \<longleftrightarrow> ?of u \<noteq> [] \<and> ms = ?of u" for u ms
      using get [of u] by (auto simp: order_set [OF assms(2)] hm_get_set_iff [OF wf, symmetric] split: if_splits)
    show ?thesis
    proof (intro iffI allI)
      fix u assume ok: "check_groups (ord g) = Inr ()"
      show "check_group u (?of u) = Inr ()"
      proof (cases "?of u = []")
        case False
        then have "(u, ?of u) \<in> set (ord g)" by (simp add: member)
        then show ?thesis using ok unfolding check_groups_iff by blast
      qed simp
    next
      assume all: "\<forall>u. check_group u (?of u) = Inr ()"
      show "check_groups (ord g) = Inr ()" unfolding check_groups_iff
      proof clarify
        fix u ms assume "(u, ms) \<in> set (ord g)"
        then show "check_group u ms = Inr ()" using all [rule_format, of u] by (simp only: member)
      qed
    qed
  qed
  also have "\<dots> \<longleftrightarrow> (\<forall>u. \<forall>(i, m) \<in> set (?of u). msg_uuid m \<noteq> None) \<and>
      (\<forall>u. sorted_wrt (\<lambda>x y. timestamp_of (snd x) \<le> timestamp_of (snd y)) (?of u))"
    by (simp add: check_group_iff all_conj_distrib sorted_wrt_map comp_def)
  also have "(\<forall>u. \<forall>(i, m) \<in> set (?of u). msg_uuid m \<noteq> None) \<longleftrightarrow> (\<forall>(i, m) \<in> set xs. msg_uuid m \<noteq> None)"
    using source by fastforce
  also have "(\<forall>u. sorted_wrt (\<lambda>x y. timestamp_of (snd x) \<le> timestamp_of (snd y)) (?of u)) \<longleftrightarrow>
      sorted_wrt (\<lambda>x y. msg_source_uri (snd x) = msg_source_uri (snd y) \<longrightarrow>
        timestamp_of (snd x) \<le> timestamp_of (snd y)) xs"
    unfolding sorted_wrt_filter_iff sorted_wrt_all
  proof (rule iffI)
    assume "sorted_wrt (\<lambda>x y. \<forall>u. (case x of (i, m) \<Rightarrow> msg_source_uri m = Some u) \<longrightarrow>
        (case y of (i, m) \<Rightarrow> msg_source_uri m = Some u) \<longrightarrow> timestamp_of (snd x) \<le> timestamp_of (snd y)) xs"
    then show "sorted_wrt (\<lambda>x y. msg_source_uri (snd x) = msg_source_uri (snd y) \<longrightarrow>
        timestamp_of (snd x) \<le> timestamp_of (snd y)) xs"
      by (rule sorted_wrt_mono_rel [rotated]) (use source in fastforce)
  qed (erule sorted_wrt_mono_rel [rotated], auto)
  finally show ?thesis .
qed

lemma zip_indices: "sorted_wrt (\<lambda>x y. P (snd x) (snd y)) (zip [k..<k + length xs] xs) = sorted_wrt P xs"
proof -
  have "sorted_wrt P (map snd (zip [k..<k + length xs] xs)) \<longleftrightarrow>
      sorted_wrt (\<lambda>x y. P (snd x) (snd y)) (zip [k..<k + length xs] xs)"
    by (rule sorted_wrt_map)
  moreover have "map snd (zip [k..<k + length xs] xs) = xs" by (simp add: map_snd_zip)
  ultimately show ?thesis by (simp only:)
qed

lemma zip_indices_all: "(\<forall>(i, m) \<in> set (zip [k..<k + length xs] xs). P m) \<longleftrightarrow> (\<forall>m \<in> set xs. P m)"
proof -
  have "(\<forall>(i, m) \<in> set (zip [k..<k + length xs] xs). P m) \<longleftrightarrow>
      (\<forall>m \<in> set (map snd (zip [k..<k + length xs] xs)). P m)"
    unfolding set_map by (auto simp: split_beta)
  then show ?thesis by (simp add: map_snd_zip)
qed

text \<open>C32. The order check passes exactly when every message names its source and has an id, and of any two
  messages of one source the later one has not the smaller time stamp, in whatever order the map of the
  groups is iterated.\<close>

theorem messages_in_order_iff:
  assumes "order_ok ord"
  shows "check_messages_in_order ord messages = Inr () \<longleftrightarrow>
     (\<forall>m \<in> set messages. msg_source_uri m \<noteq> None \<and> msg_uuid m \<noteq> None) \<and>
     sorted_wrt (\<lambda>x y. msg_source_uri x = msg_source_uri y \<longrightarrow> timestamp_of x \<le> timestamp_of y) messages"
proof (cases "messages = []")
  case True
  then show ?thesis by (simp add: check_messages_in_order_def)
next
  case False
  let ?xs = "zip [0..<length messages] messages"
  have all: "(\<forall>(i, m) \<in> set ?xs. P m) \<longleftrightarrow> (\<forall>m \<in> set messages. P m)" for P
    using zip_indices_all [of 0 messages P] by simp
  show ?thesis
  proof (cases "group_by_source ?xs []")
    case (Inl e)
    then have "\<not> (\<forall>m \<in> set messages. msg_source_uri m \<noteq> None)"
      using group_by_source_Ok_iff [of ?xs "[]"] unfolding all by simp
    then show ?thesis using Inl False by (auto simp: check_messages_in_order_def)
  next
    case (Inr g)
    then have "\<forall>m \<in> set messages. msg_source_uri m \<noteq> None"
      using group_by_source_Ok_iff [of ?xs "[]"] unfolding all by simp
    then have "(\<forall>m \<in> set messages. msg_source_uri m \<noteq> None \<and> msg_uuid m \<noteq> None) \<longleftrightarrow>
        (\<forall>m \<in> set messages. msg_uuid m \<noteq> None)"
      by (simp add: ball_conj_distrib)
    moreover have "check_messages_in_order ord messages = check_groups (ord g)"
      using Inr False by (simp add: check_messages_in_order_def)
    moreover note check_grouped [OF Inr assms]
    moreover have "sorted_wrt (\<lambda>x y. msg_source_uri (snd x) = msg_source_uri (snd y) \<longrightarrow>
        timestamp_of (snd x) \<le> timestamp_of (snd y)) ?xs \<longleftrightarrow>
      sorted_wrt (\<lambda>x y. msg_source_uri x = msg_source_uri y \<longrightarrow> timestamp_of x \<le> timestamp_of y) messages"
      using zip_indices [of "\<lambda>x y. msg_source_uri x = msg_source_uri y \<longrightarrow> timestamp_of x \<le> timestamp_of y" 0 messages]
      by simp
    ultimately show ?thesis unfolding all by (simp only:)
  qed
qed

text \<open>Messages of two sources with their time stamps; the third is older than the first, of the same source.\<close>

definition stamped :: "32 word \<Rightarrow> 64 word \<Rightarrow> test_message" where
  "stamped client stamp = give_new_id (push_bit 16 stamp, 0) (publish_from_local_client_for_remote_client client)"

lemmas stamped_defs = stamped_def give_new_id_def publish_from_local_client_for_remote_client_def test_msg_def
  local_client_uuri_def

lemma stamped_simps [simp]:
  "msg_source_uri (stamped c t) = Some (local_client_uuri c)"
  "msg_uuid (stamped c t) = Some (push_bit 16 t, 0)"
  "timestamp_of (stamped c t) = drop_bit 16 (push_bit 16 t)"
  by (simp_all add: stamped_def give_new_id_def publish_from_local_client_for_remote_client_def test_msg_def
      msg_source_uri_def msg_uuid_def timestamp_of_def message_timestamp_def)

theorem messages_in_order_iff_witness:
  "check_messages_in_order rev [stamped 1 7, stamped 2 5, stamped 1 7, stamped 2 9] = Inr () \<and>
   check_messages_in_order rev [stamped 1 7, stamped 2 5, stamped 1 6] \<noteq> Inr ()"
proof -
  have rev: "order_ok (rev :: grouped_messages \<Rightarrow> grouped_messages)" by (simp add: order_ok_def)
  show ?thesis unfolding messages_in_order_iff [OF rev] by (simp add: local_client_uuri_def)
qed

section \<open>Waiting for the counters\<close>

lemma wait_loop_result:
  assumes "target \<le> counter (n + d) \<or> expired (n + d)"
    and "\<forall>k < d. counter (n + k) < target \<and> \<not> expired (n + k)"
  shows "wait_loop counter expired target n =
     Some (if target \<le> counter (n + d) then Inr (counter (n + d)) else Inl (counter (Suc (n + d))))"
  using assms
proof (induction d arbitrary: n)
  case 0
  then show ?case by (subst wait_loop.simps) auto
next
  case (Suc d)
  have "wait_loop counter expired target (Suc n) =
      Some (if target \<le> counter (Suc n + d) then Inr (counter (Suc n + d)) else Inl (counter (Suc (Suc n + d))))"
  proof (rule Suc.IH)
    show "target \<le> counter (Suc n + d) \<or> expired (Suc n + d)" using Suc.prems(1) by simp
    show "\<forall>k < d. counter (Suc n + k) < target \<and> \<not> expired (Suc n + k)"
      using Suc.prems(2) by (metis Suc_less_eq add_Suc add_Suc_right)
  qed
  moreover have "\<not> target \<le> counter n" "\<not> expired n" using Suc.prems(2) by (force simp: not_le)+
  ultimately show ?case by (subst wait_loop.simps) simp
qed

lemma saturating_add_min: "unat (saturating_add x y) = min (unat x + unat y) (2 ^ 64 - 1)"
proof (cases "unat x + unat y < 2 ^ 64")
  case True
  then have "unat (x + y) = unat x + unat y" by (simp add: unat_word_ariths)
  then show ?thesis using True by (simp add: saturating_add_def)
next
  case False
  then show ?thesis by (simp add: saturating_add_def unsigned_minus_1_eq_mask mask_eq_exp_minus_1)
qed

text \<open>C34. Waiting for a number of further messages ends as soon as the timer expires or the counter has got
  there, whichever the task sees first; it succeeds only at a value that is the requested number above
  the baseline, or the largest value of the counter where that sum does not fit.\<close>

theorem wait_for_send_delta_returns:
  assumes "expired m"
  shows "\<exists>n \<le> m. \<exists>r. wait_for_send_delta counter expired baseline delta = Some r \<and>
     (\<forall>k < n. unat (counter k) < min (unat baseline + unat delta) (2 ^ 64 - 1)) \<and>
     (case r of
        Inr v \<Rightarrow> v = counter n \<and> min (unat baseline + unat delta) (2 ^ 64 - 1) \<le> unat v
      | Inl v \<Rightarrow> v = counter (Suc n) \<and> unat (counter n) < min (unat baseline + unat delta) (2 ^ 64 - 1))"
proof -
  let ?t = "saturating_add baseline delta"
  let ?stop = "\<lambda>k. ?t \<le> counter k \<or> expired k"
  define n where "n = (LEAST k. ?stop k)"
  have stop: "?stop n" unfolding n_def using assms by (intro LeastI [of ?stop m]) simp
  have le: "n \<le> m" unfolding n_def using assms by (intro Least_le) simp
  have before: "counter k < ?t \<and> \<not> expired k" if "k < n" for k
    using not_less_Least [of k ?stop] that unfolding n_def by auto
  have run: "wait_for_send_delta counter expired baseline delta =
      Some (if ?t \<le> counter n then Inr (counter n) else Inl (counter (Suc n)))"
    using wait_loop_result [of ?t counter 0 n expired] stop before
    by (simp add: wait_for_send_delta_def wait_for_send_count_def)
  have t: "?t \<le> v \<longleftrightarrow> min (unat baseline + unat delta) (2 ^ 64 - 1) \<le> unat v" for v
    unfolding word_le_nat_alt saturating_add_min ..
  have below: "unat (counter k) < min (unat baseline + unat delta) (2 ^ 64 - 1)" if "k < n" for k
    using before [OF that] by (simp add: t not_le [symmetric])
  have result: "case (if ?t \<le> counter n then Inr (counter n) else Inl (counter (Suc n))) of
      Inr v \<Rightarrow> v = counter n \<and> min (unat baseline + unat delta) (2 ^ 64 - 1) \<le> unat v
    | Inl v \<Rightarrow> v = counter (Suc n) \<and> unat (counter n) < min (unat baseline + unat delta) (2 ^ 64 - 1)"
  proof (cases "?t \<le> counter n")
    case True
    then show ?thesis unfolding if_P [OF True] sum.case using t [of "counter n"] by simp
  next
    case False
    then show ?thesis unfolding if_not_P [OF False] sum.case using t [of "counter n"] by (simp add: not_le)
  qed
  show ?thesis using le run below result by blast
qed

theorem wait_for_send_delta_returns_witness:
  "\<exists>r. wait_for_send_delta of_nat (\<lambda>n. n = 5) 2 (- 1) = Some r"
  using wait_for_send_delta_returns [of "\<lambda>n. n = 5" 5 of_nat 2 "- 1"] by blast

section \<open>What a client sends\<close>

text \<open>A message of a set after some rounds: itself, or itself with another id.\<close>

definition same_but_id :: "test_message \<Rightarrow> test_message \<Rightarrow> bool" where
  "same_but_id m m' \<longleftrightarrow> m' = m \<or> (\<exists>i. m' = give_new_id i m)"

lemma give_new_id_twice [simp]: "give_new_id i (give_new_id j m) = give_new_id i m"
  by (cases m) (auto simp: give_new_id_def option.map_comp comp_def)

lemma same_but_id_refl [simp]: "same_but_id m m"
  by (simp add: same_but_id_def)

lemma same_but_id_trans: "same_but_id m m1 \<Longrightarrow> same_but_id m1 m2 \<Longrightarrow> same_but_id m m2"
  unfolding same_but_id_def by (metis give_new_id_twice)

lemma same_sets_refl [simp]: "list_all2 same_but_id ms ms"
  by (simp add: list_all2_same)

lemma same_sets_trans:
  "list_all2 same_but_id ms ms1 \<Longrightarrow> list_all2 same_but_id ms1 ms2 \<Longrightarrow> list_all2 same_but_id ms ms2"
  by (rule list_all2_trans [OF same_but_id_trans])

text \<open>The context after sending: some further messages, all from \<open>source\<close>, each counted once.\<close>

definition sent_from :: "test_message set \<Rightarrow> send_context \<Rightarrow> send_context \<Rightarrow> bool" where
  "sent_from source cx cx' \<longleftrightarrow> (\<exists>new. sx_sent_messages cx' = sx_sent_messages cx @ new \<and>
     sx_number_of_sends cx' = sx_number_of_sends cx + of_nat (length new) \<and>
     (\<forall>m' \<in> set new. \<exists>m \<in> source. same_but_id m m'))"

lemma sent_from_refl [simp]: "sent_from source cx cx"
  by (simp add: sent_from_def)

lemma sent_from_trans: "sent_from source cx cx1 \<Longrightarrow> sent_from source cx1 cx2 \<Longrightarrow> sent_from source cx cx2"
  unfolding sent_from_def
proof (elim exE conjE)
  fix new new'
  assume "sx_sent_messages cx1 = sx_sent_messages cx @ new" "sx_sent_messages cx2 = sx_sent_messages cx1 @ new'"
    "sx_number_of_sends cx1 = sx_number_of_sends cx + of_nat (length new)"
    "sx_number_of_sends cx2 = sx_number_of_sends cx1 + of_nat (length new')"
    "\<forall>m' \<in> set new. \<exists>m \<in> source. same_but_id m m'" "\<forall>m' \<in> set new'. \<exists>m \<in> source. same_but_id m m'"
  then show "\<exists>new. sx_sent_messages cx2 = sx_sent_messages cx @ new \<and>
      sx_number_of_sends cx2 = sx_number_of_sends cx + of_nat (length new) \<and>
      (\<forall>m' \<in> set new. \<exists>m \<in> source. same_but_id m m')"
    by (intro exI [of _ "new @ new'"]) (auto simp: algebra_simps)
qed

lemma sent_from_source:
  assumes "sent_from source cx cx'" and "\<forall>m1 \<in> source. \<exists>m \<in> source'. same_but_id m m1"
  shows "sent_from source' cx cx'"
  using assms(1) unfolding sent_from_def
proof (elim exE conjE)
  fix new
  assume "sx_sent_messages cx' = sx_sent_messages cx @ new"
    "sx_number_of_sends cx' = sx_number_of_sends cx + of_nat (length new)"
    and new: "\<forall>m' \<in> set new. \<exists>m \<in> source. same_but_id m m'"
  moreover have "\<forall>m' \<in> set new. \<exists>m \<in> source'. same_but_id m m'"
  proof
    fix m' assume "m' \<in> set new"
    then obtain m1 where m1: "m1 \<in> source" "same_but_id m1 m'" using new by blast
    then obtain m where "m \<in> source'" "same_but_id m m1" using assms(2) by blast
    then show "\<exists>m \<in> source'. same_but_id m m'" using same_but_id_trans [OF _ m1(2)] by blast
  qed
  ultimately show "\<exists>new. sx_sent_messages cx' = sx_sent_messages cx @ new \<and>
      sx_number_of_sends cx' = sx_number_of_sends cx + of_nat (length new) \<and>
      (\<forall>m' \<in> set new. \<exists>m \<in> source'. same_but_id m m')"
    by blast
qed

lemma same_sets_source: "list_all2 same_but_id ms ms1 \<Longrightarrow> \<forall>m1 \<in> set ms1. \<exists>m \<in> set ms. same_but_id m m1"
  by (induction rule: list_all2_induct) auto

text \<open>One attempt to send.\<close>

definition stamp_message :: "'w driver_world \<Rightarrow> test_message \<Rightarrow> 'w \<Rightarrow> test_message \<times> 'w" where
  "stamp_message D msg w =
     (if tm_attributes msg = None then (msg, w) else case dw_uuid D w of (i, w1) \<Rightarrow> (give_new_id i msg, w1))"

definition count_send :: "(ustatus, unit) result \<Rightarrow> test_message \<Rightarrow> send_context \<Rightarrow> send_context" where
  "count_send r msg cx =
     (if is_ok r then cx\<lparr>sx_sent_messages := sx_sent_messages cx @ [msg],
                         sx_number_of_sends := sx_number_of_sends cx + 1\<rparr> else cx)"

lemma send_message_set_send:
  "should_send active index \<Longrightarrow> send_message_set D active index (msg # ms) cx w =
     (let (msg1, w1) = stamp_message D msg w; (r, w2) = dw_send D msg1 w1;
          (ms1, cx2, w3) = send_message_set D active (Suc index) ms (count_send r msg1 cx) w2
      in (msg1 # ms1, cx2, w3))"
  by (simp add: stamp_message_def count_send_def Let_def split_beta)

lemma stamp_same: "stamp_message D msg w = (msg1, w1) \<Longrightarrow> same_but_id msg msg1"
  by (auto simp: stamp_message_def same_but_id_def split: if_splits prod.splits)

lemma count_send_from: "same_but_id msg msg1 \<Longrightarrow> msg \<in> source \<Longrightarrow> sent_from source cx (count_send r msg1 cx)"
  by (auto simp: count_send_def sent_from_def intro!: exI [of _ "[msg1]"] exI [of _ "[]"])

lemma send_message_set_from:
  "send_message_set D active index ms cx w = (ms', cx', w') \<Longrightarrow> set ms \<subseteq> source \<Longrightarrow>
     list_all2 same_but_id ms ms' \<and> sent_from source cx cx'"
proof (induction ms arbitrary: index cx w ms' cx' w')
  case Nil
  then show ?case by simp
next
  case (Cons msg ms)
  show ?case
  proof (cases "should_send active index")
    case False
    then obtain ms1 where "send_message_set D active (Suc index) ms cx w = (ms1, cx', w')" "ms' = msg # ms1"
      using Cons.prems(1) by (auto split: prod.splits)
    then show ?thesis using Cons.IH [of "Suc index" cx w ms1 cx' w'] Cons.prems(2) by simp
  next
    case True
    obtain msg1 w1 where stamp: "stamp_message D msg w = (msg1, w1)" by fastforce
    obtain r w2 where send: "dw_send D msg1 w1 = (r, w2)" by fastforce
    obtain ms1 cx2 w3 where
      rest: "send_message_set D active (Suc index) ms (count_send r msg1 cx) w2 = (ms1, cx2, w3)"
      by (cases "send_message_set D active (Suc index) ms (count_send r msg1 cx) w2") auto
    have res: "ms' = msg1 # ms1" "cx' = cx2"
      using Cons.prems(1) unfolding send_message_set_send [OF True] stamp Let_def prod.case send rest by auto
    have "sent_from source cx (count_send r msg1 cx)"
      using count_send_from [OF stamp_same [OF stamp]] Cons.prems(2) by simp
    then show ?thesis
      using Cons.IH [OF rest] Cons.prems(2) stamp_same [OF stamp] sent_from_trans unfolding res by auto
  qed
qed

definition client_sources :: "client_messages \<Rightarrow> test_message set" where
  "client_sources msgs =
     set (cm_notification_msgs msgs) \<union> set (cm_request_msgs msgs) \<union> set (cm_response_msgs msgs)"

lemma send_all_sets_from:
  assumes "send_all_sets D active msgs cx w = (msgs', cx', w')"
  shows "(\<forall>m1 \<in> client_sources msgs'. \<exists>m \<in> client_sources msgs. same_but_id m m1) \<and>
     sent_from (client_sources msgs) cx cx'"
proof -
  obtain n cx1 w1 where n: "send_message_set D active 0 (cm_notification_msgs msgs) cx w = (n, cx1, w1)"
    by (rule prod_cases3)
  obtain q cx2 w2 where q: "send_message_set D active 0 (cm_request_msgs msgs) cx1 w1 = (q, cx2, w2)"
    by (rule prod_cases3)
  obtain p cx3 w3 where p: "send_message_set D active 0 (cm_response_msgs msgs) cx2 w2 = (p, cx3, w3)"
    by (rule prod_cases3)
  have res: "msgs' = \<lparr>cm_notification_msgs = n, cm_request_msgs = q, cm_response_msgs = p\<rparr>" "cx' = cx3"
    using assms unfolding send_all_sets_def n Let_def prod.case q p by auto
  have subs: "set (cm_notification_msgs msgs) \<subseteq> client_sources msgs"
    "set (cm_request_msgs msgs) \<subseteq> client_sources msgs" "set (cm_response_msgs msgs) \<subseteq> client_sources msgs"
    by (auto simp: client_sources_def)
  note steps = send_message_set_from [OF n subs(1)] send_message_set_from [OF q subs(2)]
    send_message_set_from [OF p subs(3)]
  have "\<forall>m1 \<in> client_sources msgs'. \<exists>m \<in> client_sources msgs. same_but_id m m1"
    using steps same_sets_source unfolding client_sources_def res by simp blast
  moreover have "sent_from (client_sources msgs) cx cx'"
    using steps sent_from_trans unfolding res by blast
  ultimately show ?thesis by blast
qed

lemma client_loop_from:
  assumes "client_loop D active msgs cx w = Some y"
  shows "sent_from (client_sources msgs) cx (fst y)"
proof (rule client_loop.raw_induct [OF _ assms])
  fix loop :: "'w driver_world \<Rightarrow> bool list \<Rightarrow> client_messages \<Rightarrow> send_context \<Rightarrow> 'w \<Rightarrow> (send_context \<times> 'w) option"
  fix D active msgs cx w and y :: "send_context \<times> 'w"
  assume IH: "\<And>D active msgs cx w y. loop D active msgs cx w = Some y \<Longrightarrow>
      sent_from (client_sources msgs) cx (fst y)"
    and run: "(case poll_for_new_command D active w of
        None \<Rightarrow> None
      | Some ((stop, active1), w1) \<Rightarrow>
          if stop then Some (cx, w1)
          else (case send_all_sets D active1 msgs cx w1 of
                  (msgs1, cx1, w2) \<Rightarrow> loop D active1 msgs1 cx1 (dw_tick D w2))) = Some y"
  then obtain stop active1 w1 where poll: "poll_for_new_command D active w = Some ((stop, active1), w1)"
    by (auto split: option.splits)
  show "sent_from (client_sources msgs) cx (fst y)"
  proof (cases stop)
    case True
    then show ?thesis using run poll by auto
  next
    case False
    obtain msgs1 cx1 w2 where send: "send_all_sets D active1 msgs cx w1 = (msgs1, cx1, w2)"
      by (rule prod_cases3)
    then have loop: "loop D active1 msgs1 cx1 (dw_tick D w2) = Some y" using run poll False by simp
    show ?thesis
      using IH [OF loop] send_all_sets_from [OF send] sent_from_source sent_from_trans by blast
  qed
qed

text \<open>C33. When the thread of a client has returned, the counter the tests read has advanced, modulo its width,
  by exactly the number of messages the thread answers, and each of these is one of the messages it was
  given, but for its id: a refused send is neither counted nor kept.\<close>

theorem run_client_accounts:
  assumes "run_client U D name uuri l msgs number_of_sends start = Some (sent, number_of_sends', w)"
  shows "number_of_sends' = number_of_sends + of_nat (length sent) \<and>
     (\<forall>m' \<in> set sent. \<exists>m \<in> set (cm_notification_msgs msgs) \<union> set (cm_request_msgs msgs) \<union> set (cm_response_msgs msgs).
        same_but_id m m')"
proof -
  obtain client cx where
    "client_loop D [] msgs \<lparr>sx_sent_messages = [], sx_number_of_sends = number_of_sends\<rparr> (start client) = Some (cx, w)"
    and res: "sent = sx_sent_messages cx" "number_of_sends' = sx_number_of_sends cx"
    using assms unfolding run_client_def by (auto split: option.splits)
  from client_loop_from [OF this(1)] show ?thesis
    unfolding sent_from_def client_sources_def res by auto
qed

lemma send_message_set_enabled:
  assumes "\<And>m w. is_ok (fst (dw_send D m w))"
    and "send_message_set D active index ms cx w = (ms', cx', w')"
  shows "sx_sent_messages cx' = sx_sent_messages cx @
      map snd (filter (\<lambda>(i, m). should_send active i) (zip [index..<index + length ms] ms'))"
  using assms(2)
proof (induction ms arbitrary: index cx w ms' cx' w')
  case Nil
  then show ?case by simp
next
  case (Cons msg ms)
  have ixs: "[index..<index + length (msg # ms)] = index # [Suc index..<Suc index + length ms]"
    by (simp add: upt_rec)
  show ?case
  proof (cases "should_send active index")
    case False
    then obtain ms1 where "send_message_set D active (Suc index) ms cx w = (ms1, cx', w')" "ms' = msg # ms1"
      using Cons.prems by (auto split: prod.splits)
    then show ?thesis using Cons.IH [of "Suc index" cx w ms1 cx' w'] False unfolding ixs by simp
  next
    case True
    obtain msg1 w1 where stamp: "stamp_message D msg w = (msg1, w1)" by fastforce
    obtain r w2 where send: "dw_send D msg1 w1 = (r, w2)" by fastforce
    obtain ms1 cx2 w3 where
      rest: "send_message_set D active (Suc index) ms (count_send r msg1 cx) w2 = (ms1, cx2, w3)"
      by (rule prod_cases3)
    have res: "ms' = msg1 # ms1" "cx' = cx2"
      using Cons.prems unfolding send_message_set_send [OF True] stamp Let_def prod.case send rest by auto
    have "is_ok r" using assms(1) [of msg1 w1] send by simp
    then show ?thesis using Cons.IH [OF rest] True unfolding ixs res by (simp add: count_send_def)
  qed
qed

text \<open>Where the transport takes every message, a round over a set sends the messages whose connection is
  not switched off, in the order of the set and with the ids they have afterwards; a message without an
  entry in the listing of connections counts as switched on.\<close>

theorem send_set_sends_enabled:
  assumes "\<And>m w. is_ok (fst (dw_send D m w))"
    and "send_message_set D active 0 ms cx w = (ms', cx', w')"
  shows "sx_sent_messages cx' = sx_sent_messages cx @
      map snd (filter (\<lambda>(i, m). i < length active \<longrightarrow> active ! i) (zip [0..<length ms] ms'))"
  using send_message_set_enabled [OF assms] by (simp add: should_send_def if_bool_eq_conj cong: conj_cong)

text \<open>A client that is told to stop when it looks for the third time, on a transport that refuses its second
  message.\<close>

definition sample_driver :: "bool \<Rightarrow> (nat \<times> nat) driver_world" where
  "sample_driver refuse =
     \<lparr>dw_control = (\<lambda>(polls, sends). ((2 \<le> polls, Stop), (Suc polls, sends))), dw_paused = (\<lambda>w. w),
      dw_wait = Some, dw_settle = (\<lambda>w. w), dw_uuid = (\<lambda>w. ((of_nat (snd w), 0), w)),
      dw_send = (\<lambda>m (polls, sends). (if refuse \<and> sends = 1 then Inl (fail_with_code UNIMPLEMENTED ''refused'') else Inr (), (polls, Suc sends))),
      dw_tick = (\<lambda>w. w)\<rparr>"

lemmas sample_driver_simps = sample_driver_def poll_section_def poll_for_new_command.simps send_all_sets_def
  Let_def should_send_def

theorem send_set_sends_enabled_witness:
  "let m = publish_from_local_client_for_remote_client 1
   in case send_message_set (sample_driver False) [True, False] 0 [m, m, m]
             \<lparr>sx_sent_messages = [], sx_number_of_sends = 0\<rparr> (0, 0)
      of (ms', cx', w') \<Rightarrow> sx_sent_messages cx' = [ms' ! 0, ms' ! 2] \<and> ms' ! 1 = m"
proof -
  let ?m = "publish_from_local_client_for_remote_client 1"
  let ?run = "send_message_set (sample_driver False) [True, False] 0 [?m, ?m, ?m]
    \<lparr>sx_sent_messages = [], sx_number_of_sends = 0\<rparr> (0, 0)"
  obtain ms' cx' w' where run: "?run = (ms', cx', w')" by (rule prod_cases3)
  have "is_ok (fst (dw_send (sample_driver False) m w))" for m w
    by (simp add: sample_driver_def split_beta)
  from send_set_sends_enabled [OF this run] have sent: "sx_sent_messages cx' =
      map snd (filter (\<lambda>(i, m). i < length [True, False] \<longrightarrow> [True, False] ! i) (zip [0..<3] ms'))"
    by (simp add: numeral_3_eq_3 del: upt.simps)
  have "list_all2 same_but_id [?m, ?m, ?m] ms'" using send_message_set_from [OF run subset_refl] by blast
  then obtain a b c where ms': "ms' = [a, b, c]" by (auto simp: list_all2_Cons1)
  have "b = ?m" using run unfolding ms' by (simp add: sample_driver_simps split_beta)
  then show ?thesis using sent run unfolding ms' Let_def by (simp add: upt_rec)
qed

lemma configure_client_succeeds: "\<exists>client. configure_client U name u l = Some client"
  by (simp add: configure_client_def foo_register_listener_def foo_new_def or_default_def
      listener_set_insert_def Let_def)

theorem run_client_accounts_witness:
  "\<forall>l. \<exists>sent w. run_client (sample_uuri_api []) (sample_driver True) ''local_client'' (local_client_uuri 1) l
     \<lparr>cm_notification_msgs = [publish_from_local_client_for_remote_client 1], cm_request_msgs = [],
      cm_response_msgs = [publish_from_local_client_for_remote_client 1]\<rparr> 5 (\<lambda>c. (0, 0))
     = Some (sent, 5 + of_nat (length sent), w) \<and> length sent = 3"
proof (intro allI)
  fix l
  let ?m = "publish_from_local_client_for_remote_client 1"
  let ?run = "run_client (sample_uuri_api []) (sample_driver True) ''local_client'' (local_client_uuri 1) l
    \<lparr>cm_notification_msgs = [?m], cm_request_msgs = [], cm_response_msgs = [?m]\<rparr> 5 (\<lambda>c. (0, 0))"
  obtain client where
    client: "configure_client (sample_uuri_api []) ''local_client'' (local_client_uuri 1) l = Some client"
    using configure_client_succeeds by blast
  have "\<exists>sent n w. ?run = Some (sent, n, w) \<and> length sent = 3"
    by (simp add: run_client_def client client_loop.simps sample_driver_simps)
  then obtain sent n w where run: "?run = Some (sent, n, w)" and "length sent = 3" by (elim exE conjE)
  moreover have "n = 5 + of_nat (length sent)" using run_client_accounts [OF run] by (elim conjE)
  ultimately show "\<exists>sent w. ?run = Some (sent, 5 + of_nat (length sent), w) \<and> length sent = 3" by simp
qed

end
