(* ===== verification/Test_Driver_Pause.thy ===== *)
theory Test_Driver_Pause
  imports Test_Driver
begin

text \<open>
  How a test pauses a client, gives it a command and lets it go on (\<open>signal_to_pause\<close>, \<open>wait_for_pause\<close>,
  \<open>reset_pause\<close>, \<open>signal_to_resume\<close> against \<open>poll_for_new_command\<close>): the interleavings of the task of the
  test with the thread of one client, as a step relation.

  A step of the client is what it does under the lock of \<open>pause_execution\<close>. It holds the lock of its
  command from when it has read it until it wakes up, so that the test cannot set a command while the
  client is parked. A waiting client runs again only after a notification.
\<close>

datatype tester_op =
    SetCommand client_command
  | SignalPause
  | WaitForPause
  | ResetPause
  | SignalResume

datatype client_pc =
    AtTop \<comment> \<open>about to look at the flag\<close>
  | Parked bool \<comment> \<open>waiting; whether it has been notified\<close>
  | Sending
  | Ended

record pause_state =
  ps_should_pause :: bool
  ps_has_paused :: bool
  ps_command :: client_command
  ps_client :: client_pc
  ps_active :: "bool list"

type_synonym pause_config = "tester_op list \<times> pause_state"

text \<open>Whether nobody holds the lock of the command.\<close>

definition command_free :: "client_pc \<Rightarrow> bool" where
  "command_free pc = (case pc of Parked _ \<Rightarrow> False | _ \<Rightarrow> True)"

text \<open>\<open>notify_all\<close>\<close>

definition wake_client :: "client_pc \<Rightarrow> client_pc" where
  "wake_client pc = (case pc of Parked _ \<Rightarrow> Parked True | _ \<Rightarrow> pc)"

definition signal_to_pause :: "pause_state \<Rightarrow> pause_state" where
  "signal_to_pause s = s\<lparr>ps_should_pause := True, ps_client := wake_client (ps_client s)\<rparr>"

definition signal_to_resume :: "pause_state \<Rightarrow> pause_state" where
  "signal_to_resume s = s\<lparr>ps_should_pause := False, ps_client := wake_client (ps_client s)\<rparr>"

definition reset_pause :: "pause_state \<Rightarrow> pause_state" where
  "reset_pause s = s\<lparr>ps_has_paused := False\<rparr>"

text \<open>The section of the client under the lock, once.\<close>

definition client_poll :: "pause_state \<Rightarrow> pause_state" where
  "client_poll s =
     (case poll_section (ps_should_pause s) (ps_command s) (ps_active s) of
        (Proceed, active) \<Rightarrow> s\<lparr>ps_client := Sending, ps_active := active\<rparr>
      | (Stopped, active) \<Rightarrow> s\<lparr>ps_client := Ended, ps_active := active\<rparr>
      | (Paused, active) \<Rightarrow> s\<lparr>ps_client := Parked False, ps_active := active, ps_has_paused := True\<rparr>)"

inductive pause_step :: "pause_config \<Rightarrow> pause_config \<Rightarrow> bool" where
  set_command: "command_free (ps_client s) \<Longrightarrow> pause_step (SetCommand c # ops, s) (ops, s\<lparr>ps_command := c\<rparr>)"
| signal_pause: "pause_step (SignalPause # ops, s) (ops, signal_to_pause s)"
| wait_for_pause: "ps_has_paused s \<Longrightarrow> pause_step (WaitForPause # ops, s) (ops, s)"
| reset: "pause_step (ResetPause # ops, s) (ops, reset_pause s)"
| signal_resume: "pause_step (SignalResume # ops, s) (ops, signal_to_resume s)"
| poll: "ps_client s = AtTop \<Longrightarrow> pause_step (ops, s) (ops, client_poll s)"
| wake: "ps_client s = Parked True \<Longrightarrow> pause_step (ops, s) (ops, s\<lparr>ps_client := AtTop\<rparr>)"
| send: "ps_client s = Sending \<Longrightarrow> pause_step (ops, s) (ops, s\<lparr>ps_client := AtTop\<rparr>)"

inductive_cases pause_step_cases: "pause_step (ops, s) cfg"

abbreviation pause_reachable :: "pause_config \<Rightarrow> pause_config \<Rightarrow> bool" where
  "pause_reachable \<equiv> pause_step\<^sup>*\<^sup>*"

definition pause_start :: "client_command \<Rightarrow> pause_state" where
  "pause_start c = \<lparr>ps_should_pause = True, ps_has_paused = False, ps_command = c, ps_client = AtTop,
     ps_active = []\<rparr>"

section \<open>The protocol of the tests\<close>

text \<open>
  A test starts with the flag set, so that the client pauses first; it ends with the command to stop. In
  between it may pause the client again, with a new command.
\<close>

definition pause_release :: "tester_op list" where
  "pause_release = [WaitForPause, ResetPause, SignalResume]"

definition pause_round :: "client_command \<Rightarrow> tester_op list" where
  "pause_round c = [SetCommand c, SignalPause] @ pause_release"

definition pause_program :: "client_command list \<Rightarrow> tester_op list" where
  "pause_program cs = pause_release @ concat (map pause_round cs) @ [SetCommand Stop, SignalPause]"

text \<open>
  The commands that are still to come, after a round or within one.
\<close>

fun rounds_left :: "client_command list \<Rightarrow> tester_op list" where
  "rounds_left [] = [SetCommand Stop, SignalPause]"
| "rounds_left (c # cs) = SetCommand c # SignalPause # WaitForPause # ResetPause # SignalResume # rounds_left cs"

lemma pause_program_eq: "pause_program cs = WaitForPause # ResetPause # SignalResume # rounds_left cs"
proof -
  have "concat (map pause_round cs) @ [SetCommand Stop, SignalPause] = rounds_left cs"
    by (induction cs) (simp_all add: pause_round_def pause_release_def)
  then show ?thesis by (simp add: pause_program_def pause_release_def)
qed

definition client_runs :: "pause_state \<Rightarrow> bool" where
  "client_runs s \<longleftrightarrow> ps_client s = AtTop \<or> ps_client s = Sending"

text \<open>
  The state of the protocol, by what the test has yet to do: \<open>con\<close> are the connections after the commands
  the client has taken over, \<open>cs\<close> the commands still to be given.
\<close>

inductive pause_phase :: "client_command list \<Rightarrow> bool list \<Rightarrow> pause_config \<Rightarrow> bool" where
  released: "\<lbrakk>ops = rounds_left cs;
     \<not> ps_should_pause s; \<not> ps_has_paused s; client_runs s \<or> ps_client s = Parked True; ps_active s = con\<rbrakk> \<Longrightarrow>
     pause_phase cs con (ops, s)"
| commanded: "\<lbrakk>ops = SignalPause # WaitForPause # ResetPause # SignalResume # rounds_left cs;
     \<not> ps_should_pause s; \<not> ps_has_paused s; client_runs s; ps_active s = con; ps_command s = c\<rbrakk> \<Longrightarrow>
     pause_phase (c # cs) con (ops, s)"
| signalled: "\<lbrakk>ops = WaitForPause # ResetPause # SignalResume # rounds_left cs;
     ps_should_pause s; \<not> ps_has_paused s; client_runs s; ps_active s = con; ps_command s = c\<rbrakk> \<Longrightarrow>
     pause_phase (c # cs) con (ops, s)"
| parked: "\<lbrakk>ops = WaitForPause # ResetPause # SignalResume # rounds_left cs;
     ps_should_pause s; ps_has_paused s; ps_client s = Parked False; ps_active s = con\<rbrakk> \<Longrightarrow>
     pause_phase cs con (ops, s)"
| seen: "\<lbrakk>ops = ResetPause # SignalResume # rounds_left cs;
     ps_should_pause s; ps_has_paused s; ps_client s = Parked False; ps_active s = con\<rbrakk> \<Longrightarrow>
     pause_phase cs con (ops, s)"
| cleared: "\<lbrakk>ops = SignalResume # rounds_left cs;
     ps_should_pause s; \<not> ps_has_paused s; ps_client s = Parked False; ps_active s = con\<rbrakk> \<Longrightarrow>
     pause_phase cs con (ops, s)"
| stopping: "\<lbrakk>ops = [SignalPause];
     \<not> ps_should_pause s; \<not> ps_has_paused s; client_runs s; ps_active s = con; ps_command s = Stop\<rbrakk> \<Longrightarrow>
     pause_phase [] con (ops, s)"
| stopped: "\<lbrakk>ops = [];
     ps_should_pause s; \<not> ps_has_paused s; client_runs s \<or> ps_client s = Ended; ps_active s = con;
     ps_command s = Stop\<rbrakk> \<Longrightarrow>
     pause_phase [] con (ops, s)"

inductive_simps pause_phase_simps: "pause_phase cs con (ops, s)"

lemmas pause_defs = signal_to_pause_def signal_to_resume_def reset_pause_def client_poll_def poll_section_def
  wake_client_def command_free_def client_runs_def

lemma pause_phase_step:
  assumes "pause_phase cs con (ops, s)" and "pause_step (ops, s) (ops', s')" and "Stop \<notin> set cs"
  shows "pause_phase cs con (ops', s') \<or>
     (\<exists>c cs'. cs = c # cs' \<and> pause_phase cs' (command_connections c con) (ops', s'))"
  using assms(1)
proof (cases rule: pause_phase.cases)
  case released
  then show ?thesis using assms(2)
    by (cases cs) (auto elim!: pause_step_cases simp: pause_defs intro: pause_phase.intros)
next
  case (commanded c cs)
  then show ?thesis using assms(2)
    by (auto elim!: pause_step_cases simp: pause_defs intro: pause_phase.intros)
next
  case (signalled c cs)
  then show ?thesis using assms(2,3)
    by (auto elim!: pause_step_cases simp: pause_defs intro: pause_phase.intros)
next
  case parked
  then show ?thesis using assms(2)
    by (auto elim!: pause_step_cases simp: pause_defs intro: pause_phase.intros)
next
  case seen
  then show ?thesis using assms(2)
    by (auto elim!: pause_step_cases simp: pause_defs intro: pause_phase.intros)
next
  case cleared
  then show ?thesis using assms(2)
    by (auto elim!: pause_step_cases simp: pause_defs intro: pause_phase.intros)
next
  case stopping
  then show ?thesis using assms(2)
    by (auto elim!: pause_step_cases simp: pause_defs intro: pause_phase.intros)
next
  case stopped
  then show ?thesis using assms(2)
    by (auto elim!: pause_step_cases simp: pause_defs intro: pause_phase.intros)
qed

section \<open>What the protocol gives\<close>

lemma rounds_left_length: "length (rounds_left cs) = 5 * length cs + 2"
  by (induction cs) simp_all

lemma pause_phase_start: "c0 \<noteq> Stop \<Longrightarrow> pause_phase (c0 # cs) [] (pause_program cs, pause_start c0)"
  by (rule pause_phase.signalled) (simp_all add: pause_program_eq pause_start_def client_runs_def)

lemma pause_phase_reachable:
  assumes "pause_reachable (pause_program cs, pause_start c0) cfg" and "Stop \<notin> set (c0 # cs)"
  shows "\<exists>ds es. c0 # cs = ds @ es \<and> pause_phase es (fold command_connections ds []) cfg"
  using assms(1)
proof (induction rule: rtranclp_induct)
  case base
  have "c0 \<noteq> Stop" using assms(2) by auto
  from pause_phase_start [OF this] show ?case
    by (intro exI [of _ "[]"] exI [of _ "c0 # cs"] conjI) simp_all
next
  case (step cfg cfg')
  obtain ops s ops' s' where cfg: "cfg = (ops, s)" "cfg' = (ops', s')" by fastforce
  from step.IH obtain ds es where split: "c0 # cs = ds @ es"
    and phase: "pause_phase es (fold command_connections ds []) (ops, s)" unfolding cfg by blast
  have "Stop \<notin> set es" using assms(2) unfolding split by simp
  from pause_phase_step [OF phase step.hyps(2) [unfolded cfg] this] show ?case
  proof (elim disjE exE conjE)
    assume "pause_phase es (fold command_connections ds []) (ops', s')"
    then show ?thesis using split unfolding cfg by blast
  next
    fix c es'
    assume "es = c # es'" "pause_phase es' (command_connections c (fold command_connections ds [])) (ops', s')"
    then show ?thesis using split unfolding cfg by (intro exI [of _ "ds @ [c]"] exI [of _ es']) simp
  qed
qed

lemma pause_phase_resume:
  "pause_phase cs con (SignalResume # ops, s) \<Longrightarrow>
     rounds_left cs = ops \<and> ps_client s = Parked False \<and> ps_active s = con"
  unfolding pause_phase_simps by (cases cs) auto

text \<open>
  C35. A test that follows the protocol \<open>pause_program\<close>: after every wait for the client's flag it resets it
  before it lets the client go on, and none of the commands it gives before the end is to stop. Whenever it
  is about to let the client go on, the client is parked, and has taken over the connections of the last
  command that was given to it: no command is lost and none is taken late.
\<close>

theorem pause_rounds_deliver:
  assumes "Stop \<notin> set (c0 # cs1 @ cs2)"
    and "pause_reachable (pause_program (cs1 @ cs2), pause_start c0)
       (SignalResume # concat (map pause_round cs2) @ [SetCommand Stop, SignalPause], s)"
  shows "ps_client s = Parked False \<and> ps_active s = fold command_connections (c0 # cs1) []"
proof -
  have left: "concat (map pause_round cs2) @ [SetCommand Stop, SignalPause] = rounds_left cs2"
    using pause_program_eq [of cs2] by (simp add: pause_program_def pause_release_def)
  obtain ds es where split: "c0 # cs1 @ cs2 = ds @ es"
    and phase: "pause_phase es (fold command_connections ds []) (SignalResume # rounds_left cs2, s)"
    using pause_phase_reachable [OF assms(2,1)] unfolding left by blast
  note res = pause_phase_resume [OF phase]
  have "length es = length cs2" using arg_cong [OF conjunct1 [OF res], of length] unfolding rounds_left_length by simp
  moreover have "ds @ es = (c0 # cs1) @ cs2" using split by simp
  ultimately have "ds = c0 # cs1" using append_eq_append_conv [of ds "c0 # cs1" es cs2] by blast
  then show ?thesis using res by simp
qed

text \<open>From wherever the test and the client are, they can get to the end, where the client has stopped.\<close>

definition pause_rank :: "pause_config \<Rightarrow> nat" where
  "pause_rank cfg = (case cfg of (ops, s) \<Rightarrow> 4 * length ops +
     (case ps_client s of Parked b \<Rightarrow> if b then 3 else 0 | Sending \<Rightarrow> 2 | AtTop \<Rightarrow> 1 | Ended \<Rightarrow> 0))"

lemma pause_rank_tester: "pause_rank (ops, s') < pause_rank (op # ops, s)"
  by (simp add: pause_rank_def split: client_pc.split)

lemma pause_step_ranked:
  "pause_step (op # ops, s) (ops, s') \<Longrightarrow> \<exists>cfg. pause_step (op # ops, s) cfg \<and> pause_rank cfg < pause_rank (op # ops, s)"
  using pause_rank_tester by blast

lemma client_step_ranked:
  "ps_client s = Sending \<or> ps_client s = Parked True \<or> ps_client s = AtTop \<and> ps_should_pause s \<Longrightarrow>
     \<exists>cfg. pause_step (ops, s) cfg \<and> pause_rank cfg < pause_rank (ops, s)"
proof (elim disjE conjE)
  assume "ps_client s = Sending"
  then show ?thesis
    by (intro exI [of _ "(ops, s\<lparr>ps_client := AtTop\<rparr>)"] conjI pause_step.send) (simp_all add: pause_rank_def)
next
  assume "ps_client s = Parked True"
  then show ?thesis
    by (intro exI [of _ "(ops, s\<lparr>ps_client := AtTop\<rparr>)"] conjI pause_step.wake) (simp_all add: pause_rank_def)
next
  assume "ps_client s = AtTop" "ps_should_pause s"
  then show ?thesis
    by (intro exI [of _ "(ops, client_poll s)"] conjI pause_step.poll)
      (simp_all add: pause_rank_def client_poll_def poll_section_def)
qed

lemma pause_phase_progress:
  assumes "pause_phase cs con (ops, s)" and "ops = [] \<longrightarrow> ps_client s \<noteq> Ended"
  shows "\<exists>cfg. pause_step (ops, s) cfg \<and> pause_rank cfg < pause_rank (ops, s)"
  using assms(1)
proof (cases rule: pause_phase.cases)
  case released
  show ?thesis
  proof (cases "ps_client s = Parked True")
    case False
    then have free: "command_free (ps_client s)" using released by (auto simp: pause_defs)
    obtain c ops' where ops: "ops = SetCommand c # ops'" using released by (cases cs) auto
    show ?thesis unfolding ops by (rule pause_step_ranked [OF pause_step.set_command [OF free]])
  next
    case True
    show ?thesis by (rule client_step_ranked) (simp add: True)
  qed
next
  case commanded
  show ?thesis unfolding commanded(2) by (rule pause_step_ranked [OF pause_step.signal_pause])
next
  case signalled
  show ?thesis by (rule client_step_ranked) (use signalled in \<open>auto simp: client_runs_def\<close>)
next
  case parked
  show ?thesis unfolding parked(1) by (rule pause_step_ranked [OF pause_step.wait_for_pause [OF parked(3)]])
next
  case seen
  show ?thesis unfolding seen(1) by (rule pause_step_ranked [OF pause_step.reset])
next
  case cleared
  show ?thesis unfolding cleared(1) by (rule pause_step_ranked [OF pause_step.signal_resume])
next
  case stopping
  show ?thesis unfolding stopping(2) by (rule pause_step_ranked [OF pause_step.signal_pause])
next
  case stopped
  show ?thesis by (rule client_step_ranked) (use stopped assms(2) in \<open>auto simp: client_runs_def\<close>)
qed

lemma pause_phase_can_end:
  "pause_phase cs con cfg \<Longrightarrow> Stop \<notin> set cs \<Longrightarrow> \<exists>s'. pause_reachable cfg ([], s') \<and> ps_client s' = Ended"
proof (induction "pause_rank cfg" arbitrary: cs con cfg rule: less_induct)
  case less
  obtain ops s where cfg: "cfg = (ops, s)" by fastforce
  show ?case
  proof (cases "ops = [] \<and> ps_client s = Ended")
    case True
    then show ?thesis unfolding cfg by blast
  next
    case False
    then have "ops = [] \<longrightarrow> ps_client s \<noteq> Ended" by blast
    from pause_phase_progress [OF less.prems(1) [unfolded cfg] this]
    obtain ops' s' where step: "pause_step (ops, s) (ops', s')" and rank: "pause_rank (ops', s') < pause_rank cfg"
      unfolding cfg by auto
    have "\<exists>cs' con'. pause_phase cs' con' (ops', s') \<and> Stop \<notin> set cs'"
      using pause_phase_step [OF less.prems(1) [unfolded cfg] step less.prems(2)] less.prems(2) by auto
    then obtain s'' where "pause_reachable (ops', s') ([], s'')" "ps_client s'' = Ended"
      using less.hyps [OF rank] by blast
    then show ?thesis using converse_rtranclp_into_rtranclp [of pause_step, OF step] unfolding cfg by blast
  qed
qed

theorem pause_protocol_can_end:
  assumes "Stop \<notin> set (c0 # cs)" and "pause_reachable (pause_program cs, pause_start c0) cfg"
  shows "\<exists>s'. pause_reachable cfg ([], s') \<and> ps_client s' = Ended"
proof -
  obtain ds es where "c0 # cs = ds @ es" and phase: "pause_phase es (fold command_connections ds []) cfg"
    using pause_phase_reachable [OF assms(2,1)] by blast
  then have "Stop \<notin> set es" using assms(1) by simp
  then show ?thesis by (rule pause_phase_can_end [OF phase])
qed

text \<open>The steps of a round in which the client does what it is asked at once.\<close>

lemma pause_round_run:
  assumes "ps_client s = AtTop" and "\<not> ps_should_pause s" and "\<not> ps_has_paused s" and "c \<noteq> Stop"
  shows "pause_reachable (pause_round c @ ops, s)
     (SignalResume # ops, s\<lparr>ps_command := c, ps_should_pause := True, ps_client := Parked False,
        ps_active := command_connections c (ps_active s), ps_has_paused := False\<rparr>)"
proof -
  note step = converse_rtranclp_into_rtranclp [of pause_step]
  show ?thesis
    by (simp add: pause_round_def pause_release_def, rule step, rule pause_step.set_command,
        simp add: assms command_free_def, rule step, rule pause_step.signal_pause, rule step, rule pause_step.poll,
        simp add: assms pause_defs, rule step, rule pause_step.wait_for_pause, simp add: assms pause_defs,
        rule step, rule pause_step.reset)
      (use assms in \<open>simp add: pause_defs\<close>)
qed

lemma pause_first_run:
  assumes "c0 \<noteq> Stop"
  shows "pause_reachable (pause_release @ ops, pause_start c0)
     (ops, \<lparr>ps_should_pause = False, ps_has_paused = False, ps_command = c0, ps_client = AtTop,
        ps_active = command_connections c0 []\<rparr>)"
proof -
  note step = converse_rtranclp_into_rtranclp [of pause_step]
  show ?thesis
    by (simp add: pause_release_def, rule step, rule pause_step.poll,
        simp add: pause_start_def, rule step, rule pause_step.wait_for_pause, simp add: assms pause_start_def pause_defs,
        rule step, rule pause_step.reset, rule step, rule pause_step.signal_resume, rule step, rule pause_step.wake)
      (use assms in \<open>simp_all add: pause_start_def pause_defs\<close>)
qed

theorem pause_rounds_deliver_witness:
  "\<exists>s. pause_reachable (pause_program [DisconnectedFromStreamer [False]], pause_start (ConnectedToStreamer [True]))
         ([SignalResume, SetCommand Stop, SignalPause], s) \<and>
       ps_client s = Parked False \<and> ps_active s = [False]"
proof -
  let ?fin = "[SetCommand Stop, SignalPause]" and ?c = "DisconnectedFromStreamer [False]"
  let ?s = "\<lparr>ps_should_pause = False, ps_has_paused = False, ps_command = ConnectedToStreamer [True],
    ps_client = AtTop, ps_active = command_connections (ConnectedToStreamer [True]) []\<rparr>"
  have "pause_reachable (pause_release @ pause_round ?c @ ?fin, pause_start (ConnectedToStreamer [True]))
      (pause_round ?c @ ?fin, ?s)"
    by (rule pause_first_run) simp
  moreover have "\<exists>s. pause_reachable (pause_round ?c @ ?fin, ?s) (SignalResume # ?fin, s)"
    by (rule exI, rule pause_round_run) simp_all
  ultimately have "\<exists>s. pause_reachable (pause_release @ pause_round ?c @ ?fin, pause_start (ConnectedToStreamer [True]))
      (SignalResume # ?fin, s)"
    by (blast intro: rtranclp_trans)
  then obtain s where run:
    "pause_reachable (pause_program ([?c] @ []), pause_start (ConnectedToStreamer [True]))
       (SignalResume # concat (map pause_round []) @ ?fin, s)"
    by (auto simp: pause_program_def)
  have "Stop \<notin> set (ConnectedToStreamer [True] # [?c] @ [])" by simp
  from pause_rounds_deliver [OF this run] run show ?thesis by (auto simp: command_connections_def)
qed

theorem pause_protocol_can_end_witness:
  "\<exists>s'. pause_reachable (pause_program [NoOp], pause_start NoOp) ([], s') \<and> ps_client s' = Ended"
  by (rule pause_protocol_can_end [of NoOp "[NoOp]"]) simp_all

section \<open>Where the tests leave the protocol\<close>

lemma resumed_client_keeps_connections:
  assumes "pause_reachable ([], s) (ops, s')" and "\<not> ps_should_pause s"
  shows "ops = [] \<and> \<not> ps_should_pause s' \<and> ps_active s' = ps_active s"
  using assms(1)
proof (induction rule: rtranclp_induct2)
  case refl
  then show ?case using assms(2) by simp
next
  case (step ops1 s1 ops2 s2)
  then show ?case by (auto elim!: pause_step_cases simp: pause_defs)
qed

text \<open>
  Without \<open>reset_pause\<close> after the first pause, the wait of the second one passes at once: the test can
  let the client go on before it has seen the command, which it then never takes over.
\<close>

theorem unreset_pause_loses_command:
  assumes "c0 \<noteq> Stop"
  shows "\<exists>s. pause_reachable
       ([WaitForPause, SignalResume, SetCommand c, SignalPause, WaitForPause, SignalResume], pause_start c0) ([], s) \<and>
     (\<forall>ops s'. pause_reachable ([], s) (ops, s') \<longrightarrow> ps_active s' = command_connections c0 [])"
proof -
  note step = converse_rtranclp_into_rtranclp [of pause_step]
  let ?s = "\<lparr>ps_should_pause = False, ps_has_paused = True, ps_command = c, ps_client = AtTop,
    ps_active = command_connections c0 []\<rparr>"
  have "pause_reachable
      ([WaitForPause, SignalResume, SetCommand c, SignalPause, WaitForPause, SignalResume], pause_start c0) ([], ?s)"
    by (rule step, rule pause_step.poll, simp add: pause_start_def,
        rule step, rule pause_step.wait_for_pause, simp add: assms pause_start_def pause_defs,
        rule step, rule pause_step.signal_resume, rule step, rule pause_step.wake,
        simp add: assms pause_start_def pause_defs,
        rule step, rule pause_step.set_command, simp add: assms pause_start_def pause_defs,
        rule step, rule pause_step.signal_pause, rule step, rule pause_step.wait_for_pause,
        simp add: assms pause_start_def pause_defs, rule step, rule pause_step.signal_resume)
      (simp add: assms pause_start_def pause_defs)
  moreover have "ps_active s' = command_connections c0 []" if "pause_reachable ([], ?s) (ops, s')" for ops s'
    using resumed_client_keeps_connections [OF that] by simp
  ultimately show ?thesis by blast
qed

theorem unreset_pause_loses_command_witness:
  "\<exists>s. pause_reachable
       ([WaitForPause, SignalResume, SetCommand (ConnectedToStreamer [False, True]), SignalPause, WaitForPause,
         SignalResume], pause_start (ConnectedToStreamer [True, True])) ([], s) \<and> ps_active s = [True, True]"
proof -
  have "ConnectedToStreamer [True, True] \<noteq> Stop" by simp
  from unreset_pause_loses_command [OF this, of "ConnectedToStreamer [False, True]"]
  show ?thesis by (auto simp: command_connections_def)
qed

text \<open>A test that sets a command while the client is parked waits for ever: the client holds the lock of
  the command, and nothing wakes it.\<close>

theorem command_while_parked_blocks:
  "ps_client s = Parked False \<Longrightarrow> \<not> pause_step (SetCommand c # ops, s) cfg"
  by (auto elim!: pause_step_cases simp: pause_defs)

end
