(* ===== verification/Route_Wiring.thy ===== *)
theory Route_Wiring
  imports Streamer_Properties
begin

text \<open>
  How a route's parts are wired together: the listener of its ingress binding (ingress_registry.rs)
  holds the sending half of a channel, and the worker of its egress transport (egress_pool.rs,
  egress_worker.rs) runs a dispatch loop on the receiving half. Neither component knows the other, so
  that the two halves belong to the same channel is a property of the streamer's whole history.
\<close>

section \<open>Dispatch loops\<close>

context dispatch_contract
begin

definition running :: "'w \<Rightarrow> (arc_transport \<times> nat) set \<times> nat set" where
  "running w = (loops w, channels w)"

lemma running_frames:
  "ut_register X t src snk l w = (r, w') \<Longrightarrow> running w' = running w"
  "ut_unregister X t src snk l w = (r, w') \<Longrightarrow> running w' = running w"
  "arc_new X w = (p, w') \<Longrightarrow> running w' = running w"
  by (auto simp: running_def dest: register_keeps unregister_keeps arc_new_keeps)

lemma unregister_filters_running: "running (unregister_filters X t fs l w) = running w"
proof (induction fs arbitrary: w)
  case (Cons f fs)
  obtain src snk where f: "f = (src, snk)" by (cases f)
  have "running (snd (ut_unregister X t src snk l w)) = running w"
    by (rule running_frames(2) [OF prod.collapse [symmetric]])
  with Cons f show ?case by simp
qed simp

lemma register_publish_listeners_running:
  "register_publish_listeners X t l us rb w = (r, w') \<Longrightarrow> running w' = running w"
proof (induction us arbitrary: rb w)
  case (Cons u us)
  obtain q w1 where reg: "ut_register X t u None l w = (q, w1)" by fastforce
  note running_frames(1) [OF reg]
  with Cons reg show ?case by (auto simp: unregister_filters_running split: sum.splits)
qed simp

lemma register_listeners_running:
  assumes "register_listeners E t a b l d reg w = (r, reg', w')" and "e_ext E = X"
  shows "running w' = running w"
proof -
  obtain q w1 where reg: "ut_register X t (authority_to_wildcard_filter a)
      (Some (authority_to_wildcard_filter b)) l w = (q, w1)"
    by fastforce
  note frame = running_frames(1) [OF reg]
  show ?thesis
  proof (cases q)
    case (Inl e)
    with assms(1) reg frame show ?thesis
      by (auto simp: register_listeners_def Let_def unregister_filters_running assms(2)
          simp del: unregister_filters.simps)
  next
    case (Inr x)
    then obtain us rb where "register_publish_listeners X t l us rb w1 = (r, w')"
      using assms reg by (auto simp: register_listeners_def Let_def split: prod.splits)
    with frame show ?thesis by (auto dest: register_publish_listeners_running)
  qed
qed

lemma register_route_running:
  assumes res: "register_route E t a b label sender d reg w = (r, reg', w')" and X: "e_ext E = X"
  shows "running w' = running w"
proof (cases "bump_binding (ingress_binding_key_new t a b) reg")
  case (Some reg1)
  with res show ?thesis by (simp add: register_route_existing)
next
  case None
  then have none: "hm_get (ir_bindings reg) (ingress_binding_key_new t a b) = None"
    by (simp add: bump_binding_None)
  obtain ptr w1 where arc: "arc_new (e_ext E) w = (ptr, w1)" by fastforce
  obtain q reg1 w2 where lst: "register_listeners E t a b (ingress_listener_new ptr label sender)
      d reg w1 = (q, reg1, w2)"
    by (metis prod_cases3)
  from register_route_fresh [OF none arc lst] res have "w' = w2" by (cases q) auto
  then show ?thesis
    using register_listeners_running [OF lst X] running_frames(3) arc X by metis
qed

lemma unregister_route_running:
  assumes "unregister_route E t a b reg w = Some (reg', w')" and X: "e_ext E = X"
  shows "running w' = running w"
  using assms(1)
  by (auto simp: unregister_route_def X unregister_filters_running split: option.splits prod.splits)

text \<open>A worker that is started runs one loop, on the receiver it is given.\<close>

lemma egress_worker_running:
  assumes "egress_worker_new X t rx w = Some (wk, w')"
  shows "running w' = (insert (t, rx) (loops w), channels w)"
proof -
  obtain u w1 where uuid: "uuid_build X w = (u, w1)" by fastforce
  have "running w' = (insert (t, rx) (loops w1), channels w1)"
    using assms uuid task_starts [of t rx w1]
    by (auto simp: egress_worker_new_def spawn_route_dispatch_loop_def running_def Let_def
        split: prod.splits option.splits if_splits bool.splits dest: thread_starts)
  with uuid_keeps [OF uuid] show ?thesis by simp
qed

lemma attach_route_running:
  assumes "attach_route X t label pool w = Some (ch, pool', w')"
  shows "egress_view pool t \<noteq> None \<Longrightarrow> running w' = running w"
    and "egress_view pool t = None \<Longrightarrow>
      ch \<notin> channels w \<and> running w' = (insert (t, ch) (loops w), insert ch (channels w))"
proof -
  show "running w' = running w" if "egress_view pool t \<noteq> None"
    using that attach_route_existing [of pool t _ _ X label w] assms by auto
  assume "egress_view pool t = None"
  then obtain w1 wk where ch: "bc_channel X (ep_message_queue_size pool) w = Some (ch, w1)"
    and wk: "egress_worker_new X t ch w1 = Some (wk, w')"
    using assms by (auto simp: attach_route_def egress_view_def Let_def split: option.splits)
  show "ch \<notin> channels w \<and> running w' = (insert (t, ch) (loops w), insert ch (channels w))"
    using channel_new [OF ch] egress_worker_running [OF wk] by auto
qed

end

section \<open>The wiring\<close>

text \<open>
  What is read from the channel of a worker is sent on the worker's transport and on no other: exactly
  one loop runs on it.
\<close>

definition pool_fed :: "(arc_transport \<times> nat) set \<Rightarrow> nat set \<Rightarrow> egress_route_pool \<Rightarrow> bool" where
  "pool_fed L C pool \<longleftrightarrow> snd ` L \<subseteq> C \<and>
     (\<forall>t wk c. egress_view pool t = Some (wk, c) \<longrightarrow> {t'. (t', c) \<in> L} = {t})"

text \<open>
  The listener of the route's binding was registered under the route's request filter and filters for
  topics, and it sends to the channel of the worker of the route's egress transport.
\<close>

definition route_wired :: "routing_state \<Rightarrow> route_key \<Rightarrow> bool" where
  "route_wired s k \<longleftrightarrow>
     (\<exists>wk us l. egress_view (rs_pool s) (key_transport (rk_egress_transport k)) = Some (wk, lsn_sender l) \<and>
        binding_view (rs_registry s) (rk_binding k) =
          Some (request_filter (rk_ingress_authority k) (rk_egress_authority k) # publish_filters us, l))"

definition wiring_inv :: "(arc_transport \<times> nat) set \<Rightarrow> nat set \<Rightarrow> routing_state \<Rightarrow> bool" where
  "wiring_inv L C s \<longleftrightarrow> pool_fed L C (rs_pool s) \<and> inj_on rk_binding (rs_table s) \<and>
     (\<forall>k \<in> rs_table s. route_wired s k)"

lemma owned_entries:
  "v key = Some (fs, l) \<Longrightarrow> filter_entries fk (key_transport (bk_transport key)) fs l \<subseteq> owned_registrations fk v"
  by (auto simp: owned_registrations_def)

lemma rk_binding_transport [simp]: "bk_transport (rk_binding k) = rk_ingress_transport k"
  by (simp add: rk_binding_def)

lemma pool_fed_new: "snd ` L \<subseteq> C \<Longrightarrow> pool_fed L C (egress_pool_new n)"
  by (simp add: pool_fed_def egress_pool_new_def egress_view_def)

lemma wiring_inv_new: "snd ` L \<subseteq> C \<Longrightarrow> wiring_inv L C (routing_new n)"
  by (simp add: wiring_inv_def routing_new_def pool_fed_new route_table_new_def)

lemma pool_fed_view:
  "pool_fed L C pool \<Longrightarrow> egress_view pool' = egress_view pool \<Longrightarrow> pool_fed L C pool'"
  by (simp add: pool_fed_def)

lemma pool_fed_detach:
  assumes "pool_fed L C pool" and "egress_pool_wf pool" and "detach_route t pool = Some pool'"
  shows "pool_fed L C pool'"
  using detach_route_wf [OF assms(2), of t] assms(1,3) by (auto simp: pool_fed_def split: if_splits)

lemma pool_fed_start:
  assumes "pool_fed L C pool" and "ch \<notin> C" and "egress_view pool' = (egress_view pool)(t \<mapsto> (wk, ch))"
  shows "pool_fed (insert (t, ch) L) (insert ch C) pool'"
proof -
  have sub: "snd ` L \<subseteq> C" using assms(1) by (simp add: pool_fed_def)
  have "{t'. (t', c) \<in> insert (t, ch) L} = {u}" if view: "egress_view pool' u = Some (wk', c)" for u wk' c
  proof (cases "u = t")
    case True
    with view assms(3) have "c = ch" by simp
    with True sub assms(2) show ?thesis by force
  next
    case False
    with view assms(3) have old: "{t'. (t', c) \<in> L} = {u}"
      using assms(1) by (auto simp: pool_fed_def)
    then have "(u, c) \<in> L" by blast
    then have "c \<noteq> ch" using sub assms(2) by force
    with old show ?thesis by auto
  qed
  with sub show ?thesis by (auto simp: pool_fed_def)
qed

context dispatch_contract
begin

lemma attach_route_fed:
  assumes wf: "egress_pool_wf pool" and fed: "pool_fed (loops w) (channels w) pool"
    and att: "attach_route X t label pool w = Some (ch, pool', w')"
  shows "pool_fed (loops w') (channels w') pool'"
proof (cases "egress_view pool t")
  case None
  obtain wk where "egress_view pool' = (egress_view pool)(t \<mapsto> (wk, ch))"
    using attach_route_wf(3) [OF wf att] by blast
  with attach_route_running(2) [OF att None] pool_fed_start [OF fed, of ch pool' t wk] show ?thesis
    by (simp add: running_def)
next
  case (Some x)
  then have "running w' = running w" and "egress_view pool' = egress_view pool"
    using attach_route_running(1) [OF att] attach_existing_view [OF att] by simp_all
  with fed show ?thesis by (auto simp: running_def intro: pool_fed_view)
qed

text \<open>A route without a binding gets one whose listener sends where it was told to.\<close>

lemma register_route_wires:
  assumes res: "register_route E t a b label sender d reg w = (Inr (Some l), reg', w')"
    and wf: "bindings_wf reg" and X: "e_ext E = X"
    and sup: "supported (fst (request_filter a b)) (snd (request_filter a b))"
  shows "lsn_sender l = sender"
    and "\<exists>us. binding_view reg' = (binding_view reg)
      (ingress_binding_key_new t a b \<mapsto> (request_filter a b # publish_filters us, l))"
proof -
  let ?key = "ingress_binding_key_new t a b"
  note new = register_route_new_binding [OF res wf]
  obtain ptr w1 where arc: "arc_new (e_ext E) w = (ptr, w1)" by fastforce
  obtain q reg1 w2 where lst: "register_listeners E t a b (ingress_listener_new ptr label sender)
      d reg w1 = (q, reg1, w2)"
    by (metis prod_cases3)
  from register_route_fresh [OF new(1) arc lst] res obtain fs where q: "q = Inr fs"
    and l: "l = ingress_listener_new ptr label sender"
    and reg': "reg' = snd (commit_binding ?key l fs reg1)"
    by (cases q) auto
  show "lsn_sender l = sender" by (simp add: l ingress_listener_new_def)
  note bind = register_listeners_bindings [OF lst]
  have "hm_get (ir_bindings reg1) ?key = None" using new(1) bind by simp
  from commit_binding_new(2) [OF this, of l fs] reg' binding_view_cong [OF bind]
    register_listeners_Ok(2) [OF lst [unfolded q] X sup]
  show "\<exists>us. binding_view reg' = (binding_view reg)(?key \<mapsto> (request_filter a b # publish_filters us, l))"
    by auto
qed

text \<open>Whatever a call answers, every worker of the pool still has the only loop on its channel.\<close>

lemma add_route_fed:
  assumes inv: "routing_inv registrations filter_key supported R s w" and X: "e_ext E = X"
    and fed: "pool_fed (loops w) (channels w) (rs_pool s)"
    and res: "add_route E d i out label s w = (Some r, s', w')"
  shows "pool_fed (loops w') (channels w') (rs_pool s')"
proof (cases "ep_authority i = ep_authority out \<or> route_key_from_endpoints i out \<in> rs_table s")
  case True
  then have "rs_pool s' = rs_pool s" and "w' = w"
    using res by (auto simp: add_route_def insert_route_def Let_def split: if_splits)
  with fed show ?thesis by simp
next
  case False
  then have diff: "ep_authority i \<noteq> ep_authority out" and new: "route_key_from_endpoints i out \<notin> rs_table s"
    by auto
  have wf: "egress_pool_wf (rs_pool s)" using inv by (simp add: routing_inv_def)
  obtain ch pool w1 where att: "attach_route X (ep_transport out) label (rs_pool s) w = Some (ch, pool, w1)"
    using res diff new by (auto simp: add_route_def insert_route_def Let_def X split: option.splits)
  obtain q reg w2 where reg: "register_route E (ep_transport i) (ep_authority i)
      (ep_authority out) label ch d (rs_registry s) w1 = (q, reg, w2)"
    by (metis prod_cases3)
  have "pool_fed (loops w2) (channels w2) pool"
    using attach_route_fed [OF wf fed att] register_route_running [OF reg X] by (simp add: running_def)
  note fed2 = this pool_fed_detach [OF this attach_route_wf(1) [OF wf att]]
  show ?thesis
  proof (cases q)
    case (Inr x)
    have "rs_pool s' = pool" and "w' = w2"
      using res diff new att reg Inr by (auto simp: add_route_def insert_route_def Let_def X)
    with fed2(1) show ?thesis by simp
  next
    case (Inl e)
    have "detach_route (ep_transport out) pool = Some (rs_pool s')" and "w' = w2"
      using res diff new att reg Inl
      by (auto simp: add_route_def insert_route_def table_remove_route_def Let_def X split: option.splits)
    with fed2(2) show ?thesis by simp
  qed
qed

lemma routes_bound_pos_iff: "finite T \<Longrightarrow> 0 < routes_bound T b \<longleftrightarrow> (\<exists>k \<in> T. rk_binding k = b)"
  unfolding routes_bound_def routes_with_def by (subst card_gt_0_iff) auto

text \<open>
  A route whose binding no other route has gets a listener of its own, wired to its egress transport, and
  leaves the wiring of all others alone.
\<close>

lemma add_route_Ok_wires:
  assumes inv: "routing_inv registrations filter_key supported R s w" and X: "e_ext E = X"
    and sup: "supported (fst (request_filter (ep_authority i) (ep_authority out)))
      (snd (request_filter (ep_authority i) (ep_authority out)))"
    and free: "\<forall>k \<in> rs_table s. rk_binding k \<noteq> rk_binding (route_key_from_endpoints i out)"
    and res: "add_route E d i out label s w = (Some (Inr u), s', w')"
  shows "route_wired s' (route_key_from_endpoints i out)"
    and "k \<in> rs_table s \<Longrightarrow> route_wired s k \<Longrightarrow> route_wired s' k"
proof -
  let ?k = "route_key_from_endpoints i out"
  let ?b = "ingress_binding_key_new (ep_transport i) (ep_authority i) (ep_authority out)"
  have wf: "egress_pool_wf (rs_pool s)" and fin: "finite (rs_table s)"
    and bnd: "binding_count (rs_registry s) = routes_bound (rs_table s)"
    and bwf: "bindings_wf (rs_registry s)"
    using inv by (simp_all add: routing_inv_def registry_inv_def)
  from add_route_Ok_parts [OF res] obtain ch pool w1 x reg where
    att: "attach_route X (ep_transport out) label (rs_pool s) w = Some (ch, pool, w1)"
    and reg: "register_route E (ep_transport i) (ep_authority i) (ep_authority out) label ch d
      (rs_registry s) w1 = (Inr x, reg, w')"
    and s': "rs_pool s' = pool" "rs_registry s' = reg"
    using X by auto
  have "binding_count (rs_registry s) ?b = 0"
    using free bnd routes_bound_pos_iff [OF fin, of ?b] by auto
  then have "x \<noteq> None"
    using register_route_count(3) [OF reg bwf] binding_count_zero_iff [OF bwf, of ?b]
    by (auto simp: binding_view_None)
  then obtain l where x: "x = Some l" by blast
  note wires = register_route_wires [OF reg [unfolded x] bwf X sup]
  obtain us where view: "binding_view reg = (binding_view (rs_registry s))
      (?b \<mapsto> (request_filter (ep_authority i) (ep_authority out) # publish_filters us, l))"
    using wires(2) by blast
  obtain wk where eview: "egress_view pool = (egress_view (rs_pool s))(ep_transport out \<mapsto> (wk, ch))"
    using attach_route_wf(3) [OF wf att] by blast
  show "route_wired s' ?k"
    using view eview wires(1) s'
    by (auto simp: route_wired_def route_key_from_endpoints_def transport_key_new_def rk_binding_def
        ingress_binding_key_new_def)
  show "route_wired s' k" if "k \<in> rs_table s" and old: "route_wired s k"
  proof -
    have "rk_binding k \<noteq> ?b" using free that(1) by auto
    then have "binding_view reg (rk_binding k) = binding_view (rs_registry s) (rk_binding k)"
      using view by simp
    moreover have "egress_view pool (key_transport (rk_egress_transport k))
        = egress_view (rs_pool s) (key_transport (rk_egress_transport k))"
    proof (cases "key_transport (rk_egress_transport k) = ep_transport out")
      case True
      then have "egress_view (rs_pool s) (ep_transport out) \<noteq> None" using old by (auto simp: route_wired_def)
      from attach_existing_view [OF att this] show ?thesis by simp
    next
      case False
      with eview show ?thesis by simp
    qed
    ultimately show ?thesis using old s' by (simp add: route_wired_def)
  qed
qed

lemma add_route_wiring:
  assumes inv: "routing_inv registrations filter_key supported R s w" and X: "e_ext E = X"
    and sup: "supported (fst (request_filter (ep_authority i) (ep_authority out)))
      (snd (request_filter (ep_authority i) (ep_authority out)))"
    and wired: "wiring_inv (loops w) (channels w) s"
    and inj: "inj_on rk_binding (insert (route_key_from_endpoints i out) (rs_table s))"
    and res: "add_route E d i out label s w = (Some r, s', w')"
  shows "wiring_inv (loops w') (channels w') s'"
proof -
  let ?k = "route_key_from_endpoints i out"
  have fed: "pool_fed (loops w') (channels w') (rs_pool s')"
    using add_route_fed [OF inv X _ res] wired by (simp add: wiring_inv_def)
  note a = add_route_inv [OF inv X sup res]
  show ?thesis
  proof (cases r)
    case (Inl e)
    then have "\<not> is_ok r" by simp
    from a(3) [OF this] have "route_wired s' = route_wired s"
      by (simp add: route_wired_def fun_eq_iff binding_view_cong [of "rs_registry s'" "rs_registry s"])
    with fed wired a(3) Inl show ?thesis by (simp add: wiring_inv_def)
  next
    case (Inr u)
    then have tab: "rs_table s' = insert ?k (rs_table s)" and new: "?k \<notin> rs_table s" using a(2) by auto
    have free: "\<forall>k \<in> rs_table s. rk_binding k \<noteq> rk_binding ?k"
      using inj new by (metis inj_onD insertCI)
    note wires = add_route_Ok_wires [OF inv X sup free res [unfolded Inr]]
    show ?thesis using fed wired wires inj tab by (auto simp: wiring_inv_def)
  qed
qed

text \<open>Removing a route leaves the wiring of every route with another binding alone.\<close>

lemma remove_route_Ok_wires:
  assumes inv: "routing_inv registrations filter_key supported R s w"
    and k: "route_key_from_endpoints i out \<in> rs_table s"
    and k': "k \<in> rs_table s" "rk_binding k \<noteq> rk_binding (route_key_from_endpoints i out)"
    and old: "route_wired s k"
    and res: "remove_route E d i out label s w = (Some (Inr u), s', w')"
  shows "route_wired s' k"
proof -
  let ?k = "route_key_from_endpoints i out" and ?t = "key_transport (rk_egress_transport k)"
  have wf: "egress_pool_wf (rs_pool s)" and fin: "finite (rs_table s)"
    and cnt: "egress_count (rs_pool s) = routes_to (rs_table s)" and bwf: "bindings_wf (rs_registry s)"
    using inv by (simp_all add: routing_inv_def registry_inv_def)
  from remove_route_Ok_parts [OF res] have
    det: "detach_route (ep_transport out) (rs_pool s) = Some (rs_pool s')"
    and un: "unregister_route E (ep_transport i) (ep_authority i) (ep_authority out) (rs_registry s) w
      = Some (rs_registry s', w')"
    by auto
  note view = detach_route_wf [OF wf, of "ep_transport out"]
  have "binding_view (rs_registry s') (rk_binding k) = binding_view (rs_registry s) (rk_binding k)"
    using unregister_route_view [OF un bwf refl] k'(2) by simp
  moreover have "egress_view (rs_pool s') ?t = egress_view (rs_pool s) ?t"
  proof (cases "?t = ep_transport out")
    case True
    then have "rk_egress_transport k = transport_key_new (ep_transport out)"
      by (metis transport_identity_key.collapse transport_key_new_def)
    then have "0 < routes_to (rs_table s - {?k}) (ep_transport out)"
      unfolding routes_to_def using k' fin by (intro routes_with_pos [of _ k]) auto
    then have "1 < egress_count (rs_pool s) (ep_transport out)"
      using cnt routes_to_remove [OF fin k, of "ep_transport out"] by simp
    with view det show ?thesis by auto
  next
    case False
    with view det show ?thesis by (auto split: if_splits)
  qed
  ultimately show ?thesis using old by (simp add: route_wired_def)
qed

lemma remove_route_wiring:
  assumes inv: "routing_inv registrations filter_key supported R s w" and X: "e_ext E = X"
    and wired: "wiring_inv (loops w) (channels w) s"
    and res: "remove_route E d i out label s w = (Some r, s', w')"
  shows "wiring_inv (loops w') (channels w') s'"
proof -
  let ?k = "route_key_from_endpoints i out"
  have rem: "is_ok r \<longleftrightarrow> ?k \<in> rs_table s" "\<not> is_ok r \<longrightarrow> s' = s \<and> w' = w"
    "rs_table s' = rs_table s - {?k}"
    using remove_route_inv [OF inv X, of d i out label] res by auto
  show ?thesis
  proof (cases r)
    case (Inl e)
    with rem wired show ?thesis by simp
  next
    case (Inr u)
    then have k: "?k \<in> rs_table s" using rem by simp
    have wf: "egress_pool_wf (rs_pool s)" using inv by (simp add: routing_inv_def)
    from remove_route_Ok_parts [OF res [unfolded Inr]] have
      det: "detach_route (ep_transport out) (rs_pool s) = Some (rs_pool s')"
      and un: "unregister_route E (ep_transport i) (ep_authority i) (ep_authority out) (rs_registry s) w
        = Some (rs_registry s', w')"
      by auto
    have "running w' = running w" by (rule unregister_route_running [OF un X])
    then have "pool_fed (loops w') (channels w') (rs_pool s')"
      using pool_fed_detach [OF _ wf det] wired by (simp add: wiring_inv_def running_def)
    moreover have "rk_binding k \<noteq> rk_binding ?k" if "k \<in> rs_table s - {?k}" for k
      using wired k that by (metis DiffE inj_onD insertI1 wiring_inv_def)
    ultimately show ?thesis
      using wired rem(3) remove_route_Ok_wires [OF inv k _ _ _ res [unfolded Inr]]
      by (auto simp: wiring_inv_def inj_on_diff)
  qed
qed

end

section \<open>Histories\<close>

text \<open>The routes a client asks for, and a provider that neither makes channels nor starts loops.\<close>

definition added_routes :: "command list \<Rightarrow> route_key set" where
  "added_routes cs = {route_key_from_endpoints i out | i out. Add_Route i out \<in> set cs}"

definition provider_starts_nothing ::
  "('w \<Rightarrow> (arc_transport \<times> nat) set) \<Rightarrow> ('w \<Rightarrow> nat set) \<Rightarrow> 'w provider \<Rightarrow> bool" where
  "provider_starts_nothing loops channels P \<longleftrightarrow>
     (\<forall>w. loops (snd (pv_fetch P w)) = loops w \<and> channels (snd (pv_fetch P w)) = channels w)"

lemma added_routes_simps [simp]:
  "added_routes [] = {}"
  "added_routes (Add_Route i out # cs) = insert (route_key_from_endpoints i out) (added_routes cs)"
  "added_routes (Delete_Route i out # cs) = added_routes cs"
  "added_routes (Refresh # cs) = added_routes cs"
  by (auto simp: added_routes_def)

context dispatch_contract
begin

text \<open>One command, of a client that asks for no two routes with one binding.\<close>

lemma add_route_ref_wiring:
  assumes inv: "streamer_inv registrations filter_key supported R E n st w" and X: "e_ext E = X"
    and sup: "route_supported supported i out"
    and wired: "wiring_inv (loops w) (channels w) (us_routing st)"
    and inj: "inj_on rk_binding (insert (route_key_from_endpoints i out) (rs_table (us_routing st)))"
    and res: "add_route_ref E i out st w = (Some r, st', w')"
  shows "wiring_inv (loops w') (channels w') (us_routing st')"
proof -
  obtain q where "add_route E (us_directory st) i out (route_label i out) (us_routing st) w
      = (Some q, us_routing st', w')"
    using add_route_ref_routing(1) [OF res] by (metis not_Some_eq)
  moreover have "routing_inv registrations filter_key supported R (us_routing st) w"
    using inv by (simp add: streamer_inv_def)
  ultimately show ?thesis
    using add_route_wiring [OF _ X sup [unfolded route_supported_def] wired inj] by blast
qed

lemma delete_route_ref_wiring:
  assumes inv: "streamer_inv registrations filter_key supported R E n st w" and X: "e_ext E = X"
    and wired: "wiring_inv (loops w) (channels w) (us_routing st)"
    and res: "delete_route_ref E i out st w = (Some r, st', w')"
  shows "wiring_inv (loops w') (channels w') (us_routing st')"
proof -
  obtain q where "remove_route E (us_directory st) i out (route_label i out) (us_routing st) w
      = (Some q, us_routing st', w')"
    using delete_route_ref_routing(1) [OF res] by (metis not_Some_eq)
  moreover have "routing_inv registrations filter_key supported R (us_routing st) w"
    using inv by (simp add: streamer_inv_def)
  ultimately show ?thesis using remove_route_wiring [OF _ X wired] by blast
qed

lemma streamer_run_wiring:
  assumes "streamer_run E P cs st w = Some (st', w')"
    and "streamer_inv registrations filter_key supported R E n st w" and X: "e_ext E = X"
    and quiet: "provider_quiet registrations P" and idle: "provider_starts_nothing loops channels P"
    and "list_all (command_supported supported) cs" and "n + length cs + 2 < 2 ^ 64"
    and "wiring_inv (loops w) (channels w) (us_routing st)"
    and "inj_on rk_binding (added_routes cs \<union> rs_table (us_routing st))"
  shows "wiring_inv (loops w') (channels w') (us_routing st')"
  using assms(1,2,6-)
proof (induction cs arbitrary: st w n)
  case Nil
  then show ?case by simp
next
  case (Cons c cs)
  have mono: "streamer_inv registrations filter_key supported R E (n + 1) s v"
    if "streamer_inv registrations filter_key supported R E n s v" for s v
    using that by (simp add: streamer_inv_def)
  have "\<exists>st1 w1. streamer_run E P cs st1 w1 = Some (st', w') \<and>
      streamer_inv registrations filter_key supported R E (n + 1) st1 w1 \<and>
      wiring_inv (loops w1) (channels w1) (us_routing st1) \<and>
      added_routes cs \<union> rs_table (us_routing st1) \<subseteq> added_routes (c # cs) \<union> rs_table (us_routing st)"
  proof (cases c)
    case (Add_Route i out)
    with Cons.prems(1) obtain r st1 w1 where add: "add_route_ref E i out st w = (Some r, st1, w1)"
      and rest: "streamer_run E P cs st1 w1 = Some (st', w')"
      by (auto split: prod.splits option.splits)
    have sup: "route_supported supported i out"
      using Cons.prems(3) Add_Route by (simp add: command_supported_def)
    have "inj_on rk_binding (insert (route_key_from_endpoints i out) (rs_table (us_routing st)))"
      using Cons.prems(6) by (rule inj_on_subset) (auto simp: Add_Route)
    note wired = add_route_ref_wiring [OF Cons.prems(2) X sup Cons.prems(5) this add]
    note inv = add_route_ref_inv [OF Cons.prems(2) X sup add]
    have "rs_table (us_routing st1) \<subseteq> insert (route_key_from_endpoints i out) (rs_table (us_routing st))"
      using inv(2,3) by (cases "is_ok r") auto
    with rest mono [OF inv(1)] wired show ?thesis by (auto simp: Add_Route)
  next
    case (Delete_Route i out)
    obtain r st1 w1 where del: "delete_route_ref E i out st w = (Some r, st1, w1)"
      and inv: "streamer_inv registrations filter_key supported R E n st1 w1"
      and tab: "rs_table (us_routing st1) = rs_table (us_routing st) - {route_key_from_endpoints i out}"
      using delete_route_ref_inv [OF Cons.prems(2) X, of i out] by blast
    have "streamer_run E P cs st1 w1 = Some (st', w')" using Cons.prems(1) Delete_Route del by simp
    with mono [OF inv] delete_route_ref_wiring [OF Cons.prems(2) X Cons.prems(5) del] tab
    show ?thesis by (auto simp: Delete_Route)
  next
    case Refresh
    then obtain r st1 w1 where ref: "refresh_subscriptions E P st w = (r, st1, w1)"
      and rest: "streamer_run E P cs st1 w1 = Some (st', w')"
      using Cons.prems(1) by (auto split: prod.splits)
    have "loops w1 = loops w" and "channels w1 = channels w"
      using idle refresh_cases(3) [OF ref] by (simp_all add: provider_starts_nothing_def)
    with Cons.prems(4,5) refresh_inv [OF Cons.prems(2) quiet ref] refresh_cases(1) [OF ref] rest
    show ?thesis by (intro exI [of _ st1] exI [of _ w1]) (simp add: Refresh)
  qed
  then obtain st1 w1 where run: "streamer_run E P cs st1 w1 = Some (st', w')"
    and inv: "streamer_inv registrations filter_key supported R E (n + 1) st1 w1"
    and wired: "wiring_inv (loops w1) (channels w1) (us_routing st1)"
    and sub: "added_routes cs \<union> rs_table (us_routing st1) \<subseteq> added_routes (c # cs) \<union> rs_table (us_routing st)"
    by blast
  from Cons.IH [OF run inv _ _ wired inj_on_subset [OF Cons.prems(6) sub]] Cons.prems(3,4)
  show ?case by simp
qed

text \<open>
  A route that shares its binding with one in the table succeeds without touching the listener, and the
  worker of the other's egress transport keeps its channel.
\<close>

lemma add_shared_route:
  assumes inv: "streamer_inv registrations filter_key supported R E n st w" and X: "e_ext E = X"
    and fed: "pool_fed (loops w) (channels w) (rs_pool (us_routing st))"
    and k: "route_key_from_endpoints i out \<in> rs_table (us_routing st)"
    and k': "route_key_from_endpoints i out' \<notin> rs_table (us_routing st)"
    and auth: "ep_authority out' = ep_authority out" and ne: "ep_transport out' \<noteq> ep_transport out"
    and res: "add_route_ref E i out' st w = (Some r, st', w')"
  shows "r = Inr ()"
    and "binding_view (rs_registry (us_routing st')) = binding_view (rs_registry (us_routing st))"
    and "pool_fed (loops w') (channels w') (rs_pool (us_routing st'))"
    and "egress_view (rs_pool (us_routing st')) (ep_transport out)
      = egress_view (rs_pool (us_routing st)) (ep_transport out)"
proof -
  have rinv: "routing_inv registrations filter_key supported R (us_routing st) w"
    using inv by (simp add: streamer_inv_def)
  note second = second_egress_transport_not_fed [OF transport_contract_axioms [folded X] inv k k' auth res]
  then show r: "r = Inr ()"
    and "binding_view (rs_registry (us_routing st')) = binding_view (rs_registry (us_routing st))"
    by simp_all
  note add = add_route_ref_Ok [OF res [unfolded r]]
  show "pool_fed (loops w') (channels w') (rs_pool (us_routing st'))"
    by (rule add_route_fed [OF rinv X fed add])
  from add_route_Ok_parts [OF add] obtain ch w1 where
    "attach_route (e_ext E) (ep_transport out') (route_label i out') (rs_pool (us_routing st)) w
      = Some (ch, rs_pool (us_routing st'), w1)"
    by auto
  with attach_route_wf(3) [OF _ this] rinv ne
  show "egress_view (rs_pool (us_routing st')) (ep_transport out)
      = egress_view (rs_pool (us_routing st)) (ep_transport out)"
    by (auto simp: routing_inv_def)
qed

text \<open>Deleting one of two routes that share a binding leaves the listener and the loops alone.\<close>

lemma delete_shared_route:
  assumes inv: "streamer_inv registrations filter_key supported R E n st w" and X: "e_ext E = X"
    and k: "route_key_from_endpoints i out \<in> rs_table (us_routing st)"
    and k': "k' \<in> rs_table (us_routing st)" "k' \<noteq> route_key_from_endpoints i out"
      "rk_binding k' = rk_binding (route_key_from_endpoints i out)"
  shows "\<exists>st' w'. delete_route_ref E i out st w = (Some (Inr ()), st', w') \<and>
    streamer_inv registrations filter_key supported R E n st' w' \<and>
    rs_table (us_routing st') = rs_table (us_routing st) - {route_key_from_endpoints i out} \<and>
    binding_view (rs_registry (us_routing st')) = binding_view (rs_registry (us_routing st)) \<and>
    loops w' = loops w"
proof -
  let ?k = "route_key_from_endpoints i out"
  let ?b = "ingress_binding_key_new (ep_transport i) (ep_authority i) (ep_authority out)"
  let ?s = "us_routing st"
  obtain r st' w' where del: "delete_route_ref E i out st w = (Some r, st', w')"
    and inv': "streamer_inv registrations filter_key supported R E n st' w'"
    and r: "is_ok r" and tab: "rs_table (us_routing st') = rs_table ?s - {?k}"
    using delete_route_ref_inv [OF inv X, of i out] k by blast
  then obtain u where u: "r = Inr u" by (cases r) auto
  from remove_route_Ok_parts [OF delete_route_ref_Ok [OF del [unfolded u]]] have
    un: "unregister_route E (ep_transport i) (ep_authority i) (ep_authority out) (rs_registry ?s) w
      = Some (rs_registry (us_routing st'), w')"
    by auto
  have fin: "finite (rs_table ?s)" and bwf: "bindings_wf (rs_registry ?s)"
    and bnd: "binding_count (rs_registry ?s) = routes_bound (rs_table ?s)"
    using inv by (simp_all add: streamer_inv_def routing_inv_def registry_inv_def)
  have "0 < routes_bound (rs_table ?s - {?k}) ?b"
    using k' fin routes_bound_pos_iff [of "rs_table ?s - {?k}" ?b] by auto
  then have "1 < binding_count (rs_registry ?s) ?b"
    using bnd routes_bound_remove [OF fin k] by simp
  then have "binding_view (rs_registry (us_routing st')) = binding_view (rs_registry ?s)"
    using unregister_route_view [OF un bwf refl] by simp
  moreover have "loops w' = loops w" using unregister_route_running [OF un X] by (simp add: running_def)
  ultimately show ?thesis using del inv' tab u by auto
qed

end

section \<open>A concrete streamer\<close>

lemma foo_dispatch_contract:
  "dispatch_contract (e_ext foo_env) foo_registrations (foo_filter_key (sample_uuri_api []))
     (foo_supported (sample_uuri_api [])) foo_loops foo_channels"
  using foo_dispatch.dispatch_contract_axioms by (simp add: foo_env_def)

lemma sample_provider_idle: "provider_starts_nothing loops channels sample_provider"
  by (simp add: provider_starts_nothing_def sample_provider_def)

lemma streamer_world_idle: "snd ` foo_loops streamer_world \<subseteq> foo_channels streamer_world"
  by (simp add: foo_loops_def streamer_world_def foo_start_def)

section \<open>Properties\<close>

text \<open>
  C3. Every route of the table is wired from end to end. After any history of a client that asks for no
  two routes that differ in nothing but their egress transport, each route has a listener that the
  route's ingress transport holds under the route's request filter; the listener publishes what it
  receives, but for payloads in shared memory, to one channel; and exactly one dispatch loop takes
  messages out of this channel, which sends them on the route's egress transport.
\<close>

theorem routes_are_wired:
  assumes "dispatch_contract (e_ext E) regs fk supported loops channels"
    and "provider_quiet regs P" and "provider_starts_nothing loops channels P"
    and "snd ` loops w0 \<subseteq> channels w0"
    and "ustreamer_new E P name qsize w0 = (Inr st0, w1)"
    and "streamer_run E P cs st0 w1 = Some (st, w)"
    and "list_all (command_supported supported) cs" and "length cs + 3 < 2 ^ 64"
    and "inj_on rk_binding (added_routes cs)" and "k \<in> rs_table (us_routing st)"
  shows "\<exists>fs l. binding_view (rs_registry (us_routing st)) (rk_binding k) = Some (fs, l) \<and>
    request_filter (rk_ingress_authority k) (rk_egress_authority k) \<in> set fs \<and>
    filter_entries fk (key_transport (rk_ingress_transport k)) fs l \<subseteq> regs w \<and>
    (\<forall>ms w'. fold (on_receive M (e_ext E) l) ms w' =
       publish_all (e_ext E) (lsn_sender l) (filter (payload_supported M) ms) w') \<and>
    {t. (t, lsn_sender l) \<in> loops w} = {key_transport (rk_egress_transport k)}"
proof -
  note contract = dispatch_contract.axioms(1) [OF assms(1)]
  obtain r st' where ref: "refresh_subscriptions E P st' w0 = (r, st0, w1)"
    and st': "us_routing st' = routing_new (unat qsize)"
    using assms(5) by (auto simp: ustreamer_new_def Let_def split: prod.splits)
  have "loops w1 = loops w0" and "channels w1 = channels w0"
    using assms(3) refresh_cases(3) [OF ref] by (simp_all add: provider_starts_nothing_def)
  then have start: "wiring_inv (loops w1) (channels w1) (us_routing st0)"
    using wiring_inv_new [OF assms(4)] refresh_cases(1) [OF ref] st' by simp
  note inv0 = ustreamer_new_inv [OF assms(2,5)]
  have "inj_on rk_binding (added_routes cs \<union> rs_table (us_routing st0))"
    using assms(9) refresh_cases(1) [OF ref] st' by (simp add: routing_new_def route_table_new_def)
  then have "wiring_inv (loops w) (channels w) (us_routing st)"
    using dispatch_contract.streamer_run_wiring [OF assms(1,6) inv0 refl assms(2,3,7) _ start] assms(8)
    by simp
  then obtain wk us l where fed: "pool_fed (loops w) (channels w) (rs_pool (us_routing st))"
    and worker: "egress_view (rs_pool (us_routing st)) (key_transport (rk_egress_transport k))
      = Some (wk, lsn_sender l)"
    and view: "binding_view (rs_registry (us_routing st)) (rk_binding k) =
      Some (request_filter (rk_ingress_authority k) (rk_egress_authority k) # publish_filters us, l)"
    using assms(10) by (auto simp: wiring_inv_def route_wired_def)
  have "streamer_inv regs fk supported (regs w0) E (1 + length cs) st w"
    using transport_contract.streamer_run_inv [OF contract assms(6) inv0 refl assms(2,7)] assms(8) by simp
  then have "owned_registrations fk (binding_view (rs_registry (us_routing st))) \<subseteq> regs w"
    by (auto simp: streamer_inv_def routing_inv_def registry_inv_def)
  then have "filter_entries fk (key_transport (rk_ingress_transport k))
      (request_filter (rk_ingress_authority k) (rk_egress_authority k) # publish_filters us) l \<subseteq> regs w"
    using owned_entries [of "binding_view (rs_registry (us_routing st))", OF view, of fk] by simp
  moreover have "{t. (t, lsn_sender l) \<in> loops w} = {key_transport (rk_egress_transport k)}"
    using fed worker by (simp add: pool_fed_def)
  ultimately show ?thesis
    using view listener_drops_shm_only [of M "e_ext E" l] by auto
qed

theorem routes_are_wired_witness:
  "\<exists>st w fs l. streamer_run foo_env sample_provider [Add_Route endpoint_a endpoint_b]
       sample_streamer streamer_world = Some (st, w) \<and>
     binding_view (rs_registry (us_routing st)) (ingress_binding_key_new foo_transport ''a'' ''b'')
       = Some (fs, l) \<and>
     {t. (t, lsn_sender l) \<in> foo_loops w} = {second_transport}"
proof -
  have run: "streamer_run foo_env sample_provider [Add_Route endpoint_a endpoint_b]
      sample_streamer streamer_world = Some (fst sample_streamer_ab, snd sample_streamer_ab)"
    using sample_add_Ok by (simp add: case_prod_beta)
  have sup: "list_all (command_supported (foo_supported (sample_uuri_api []))) [Add_Route endpoint_a endpoint_b]"
    using sample_route_supported by (simp add: command_supported_def)
  have "route_key_from_endpoints endpoint_a endpoint_b \<in> rs_table (us_routing (fst sample_streamer_ab))"
    by code_simp
  note wired = routes_are_wired [OF foo_dispatch_contract sample_provider_quiet sample_provider_idle
      streamer_world_idle sample_streamer_new run sup _ _ this, of sample_message_api]
  have "key_transport (rk_egress_transport (route_key_from_endpoints endpoint_a endpoint_b)) = second_transport"
    and "rk_binding (route_key_from_endpoints endpoint_a endpoint_b)
      = ingress_binding_key_new foo_transport ''a'' ''b''"
    by (simp_all add: route_key_from_endpoints_def rk_binding_def ingress_binding_key_new_def
        transport_key_new_def endpoint_a_def endpoint_b_def endpoint_new_def)
  with wired obtain fs l where "binding_view (rs_registry (us_routing (fst sample_streamer_ab)))
      (ingress_binding_key_new foo_transport ''a'' ''b'') = Some (fs, l)"
    and "{t. (t, lsn_sender l) \<in> foo_loops (snd sample_streamer_ab)} = {second_transport}"
    by auto
  with run show ?thesis by blast
qed

text \<open>
  C7. Where two routes share a binding, one that has been deleted can go on forwarding, and the one that is
  left does not. Of two routes with one binding the first one's worker is what the listener feeds. Adding the
  second and deleting the first both report success, and the table holds the second only; but the
  listener stays registered, and what it publishes is still taken by the loop that sends on the egress
  transport of the deleted route, and by no other.
\<close>

theorem deleted_route_keeps_forwarding:
  assumes "dispatch_contract (e_ext E) regs fk supported loops channels"
    and "streamer_inv regs fk supported R E n st w"
    and "pool_fed (loops w) (channels w) (rs_pool (us_routing st))"
    and "\<forall>k \<in> rs_table (us_routing st). rk_binding k \<noteq> rk_binding (route_key_from_endpoints i out)"
    and "route_supported supported i out" and "ep_authority out' = ep_authority out"
    and "ep_transport out' \<noteq> ep_transport out"
    and "add_route_ref E i out st w = (Some (Inr u), st1, w1)"
    and "add_route_ref E i out' st1 w1 = (Some r, st2, w2)"
  shows "r = Inr () \<and>
    (\<exists>st3 w3 fs l. delete_route_ref E i out st2 w2 = (Some (Inr ()), st3, w3) \<and>
       rs_table (us_routing st3) = insert (route_key_from_endpoints i out') (rs_table (us_routing st)) \<and>
       binding_view (rs_registry (us_routing st3)) (rk_binding (route_key_from_endpoints i out')) = Some (fs, l) \<and>
       filter_entries fk (ep_transport i) fs l \<subseteq> regs w3 \<and>
       {t. (t, lsn_sender l) \<in> loops w3} = {ep_transport out})"
proof -
  let ?k = "route_key_from_endpoints i out" and ?k' = "route_key_from_endpoints i out'"
  note contract = dispatch_contract.axioms(1) [OF assms(1)]
  have rinv: "routing_inv regs fk supported R (us_routing st) w" using assms(2) by (simp add: streamer_inv_def)
  have bind: "rk_binding ?k' = rk_binding ?k" using assms(6) by simp
  have ne: "?k' \<noteq> ?k" using assms(7) by (simp add: route_key_from_endpoints_def)
  note add1 = add_route_ref_Ok [OF assms(8)]
  note inv1 = transport_contract.add_route_ref_inv [OF contract assms(2) refl assms(5,8)]
  have tab1: "rs_table (us_routing st1) = insert ?k (rs_table (us_routing st))" using inv1(2) by simp
  have fed1: "pool_fed (loops w1) (channels w1) (rs_pool (us_routing st1))"
    by (rule dispatch_contract.add_route_fed [OF assms(1) rinv refl assms(3) add1])
  obtain wk us l where
    worker: "egress_view (rs_pool (us_routing st1)) (ep_transport out) = Some (wk, lsn_sender l)"
    and view: "binding_view (rs_registry (us_routing st1)) (rk_binding ?k) =
      Some (request_filter (ep_authority i) (ep_authority out) # publish_filters us, l)"
    using dispatch_contract.add_route_Ok_wires(1) [OF assms(1) rinv refl
        assms(5) [unfolded route_supported_def] assms(4) add1]
    by (auto simp: route_wired_def route_key_from_endpoints_def transport_key_new_def)
  have new: "?k' \<notin> rs_table (us_routing st1)" and old: "?k \<in> rs_table (us_routing st1)"
    using tab1 ne bind assms(4) by auto
  note second = dispatch_contract.add_shared_route [OF assms(1) inv1(1) refl fed1 old new assms(6,7,9)]
  have sup2: "route_supported supported i out'" using assms(5,6) by (simp add: route_supported_def)
  note inv2 = transport_contract.add_route_ref_inv [OF contract inv1(1) refl sup2 assms(9)]
  have tab2: "rs_table (us_routing st2) = insert ?k' (rs_table (us_routing st1))"
    using inv2(2) second(1) by simp
  obtain st3 w3 where del: "delete_route_ref E i out st2 w2 = (Some (Inr ()), st3, w3)"
    and inv3: "streamer_inv regs fk supported R E n st3 w3"
    and tab3: "rs_table (us_routing st3) = rs_table (us_routing st2) - {?k}"
    and view3: "binding_view (rs_registry (us_routing st3)) = binding_view (rs_registry (us_routing st2))"
    and loops3: "loops w3 = loops w2"
    using dispatch_contract.delete_shared_route [OF assms(1) inv2(1) refl, of i out ?k'] tab2 old ne bind
    by auto
  have fin: "binding_view (rs_registry (us_routing st3)) (rk_binding ?k') =
      Some (request_filter (ep_authority i) (ep_authority out) # publish_filters us, l)"
    using view3 second(2) view bind by simp
  have "{t. (t, lsn_sender l) \<in> loops w3} = {ep_transport out}"
    using second(3,4) worker loops3 by (simp add: pool_fed_def)
  moreover have "rs_table (us_routing st3) = insert ?k' (rs_table (us_routing st))"
    using tab1 tab2 tab3 ne assms(4) by auto
  moreover have "owned_registrations fk (binding_view (rs_registry (us_routing st3))) \<subseteq> regs w3"
    using inv3 by (auto simp: streamer_inv_def routing_inv_def registry_inv_def)
  moreover have "key_transport (bk_transport (rk_binding ?k')) = ep_transport i"
    by (simp add: route_key_from_endpoints_def transport_key_new_def)
  moreover note owned_entries [of "binding_view (rs_registry (us_routing st3))", OF fin, of fk]
  ultimately show ?thesis using second(1) del fin by auto
qed

theorem deleted_route_keeps_forwarding_witness:
  "\<exists>st2 w2 st3 w3 fs l. add_route_ref foo_env endpoint_a endpoint_b' (fst sample_streamer_ab)
       (snd sample_streamer_ab) = (Some (Inr ()), st2, w2) \<and>
     delete_route_ref foo_env endpoint_a endpoint_b st2 w2 = (Some (Inr ()), st3, w3) \<and>
     rs_table (us_routing st3) = {route_key_from_endpoints endpoint_a endpoint_b'} \<and>
     binding_view (rs_registry (us_routing st3)) (rk_binding (route_key_from_endpoints endpoint_a endpoint_b'))
       = Some (fs, l) \<and>
     {t. (t, lsn_sender l) \<in> foo_loops w3} = {second_transport}"
proof -
  have add: "add_route_ref foo_env endpoint_a endpoint_b sample_streamer streamer_world
      = (Some (Inr ()), fst sample_streamer_ab, snd sample_streamer_ab)"
    using sample_add_Ok by simp
  have "fst (add_route_ref foo_env endpoint_a endpoint_b' (fst sample_streamer_ab)
      (snd sample_streamer_ab)) \<noteq> None"
    by code_simp
  then obtain r st2 w2 where second: "add_route_ref foo_env endpoint_a endpoint_b'
      (fst sample_streamer_ab) (snd sample_streamer_ab) = (Some r, st2, w2)"
    by (metis option.exhaust prod_cases3 fst_conv)
  have "egress_view (rs_pool (us_routing sample_streamer)) t = None" for t
  proof -
    have "ep_workers (rs_pool (us_routing sample_streamer)) = []" by code_simp
    then show ?thesis by (simp add: egress_view_def)
  qed
  then have fed: "pool_fed (foo_loops streamer_world) (foo_channels streamer_world)
      (rs_pool (us_routing sample_streamer))"
    using streamer_world_idle by (simp add: pool_fed_def)
  have empty: "rs_table (us_routing sample_streamer) = {}" by code_simp
  have same: "ep_authority endpoint_b' = ep_authority endpoint_b"
    and ne: "ep_transport endpoint_b' \<noteq> ep_transport endpoint_b"
    and t: "ep_transport endpoint_b = second_transport"
    by code_simp+
  have free: "\<forall>k \<in> rs_table (us_routing sample_streamer).
      rk_binding k \<noteq> rk_binding (route_key_from_endpoints endpoint_a endpoint_b)"
    using empty by simp
  from deleted_route_keeps_forwarding [OF foo_dispatch_contract sample_streamer_inv fed free
      sample_route_supported same ne add second] second empty t
  show ?thesis by auto
qed

end
