(* ===== verification/Observability.thy ===== *)
theory Observability
  imports Streamer_Properties
begin

text \<open>
  The structured log records of the data plane and of the route lifecycle: the event names
  (observability/events.rs), the values of the fields (observability/fields.rs) and, for each operation,
  which records it writes (data_plane/egress_worker.rs, egress_pool.rs, ingress_listener.rs,
  ingress_registry.rs, control_plane/route_lifecycle.rs). Other tools read them: the smoke suite counts
  event names in the streamer's log.

  A record is its level, event, component and the other fields in order, with values as text or numbers;
  the human-readable message is left out. \<open>tracing\<close> is a parameter: which levels are enabled and how an
  error is rendered.
\<close>

section \<open>Event names\<close>

definition EGRESS_SEND_ATTEMPT :: string where "EGRESS_SEND_ATTEMPT = ''egress_send_attempt''"
definition EGRESS_SEND_OK :: string where "EGRESS_SEND_OK = ''egress_send_ok''"
definition EGRESS_SEND_FAILED :: string where "EGRESS_SEND_FAILED = ''egress_send_failed''"
definition EGRESS_RECV_LAGGED :: string where "EGRESS_RECV_LAGGED = ''egress_recv_lagged''"
definition EGRESS_RECV_CLOSED :: string where "EGRESS_RECV_CLOSED = ''egress_recv_closed''"
definition EGRESS_WORKER_CREATE :: string where "EGRESS_WORKER_CREATE = ''egress_worker_create''"
definition EGRESS_WORKER_REUSE :: string where "EGRESS_WORKER_REUSE = ''egress_worker_reuse''"
definition EGRESS_WORKER_REMOVE :: string where "EGRESS_WORKER_REMOVE = ''egress_worker_remove''"
definition INGRESS_RECEIVE :: string where "INGRESS_RECEIVE = ''ingress_receive''"
definition INGRESS_DROP_UNSUPPORTED_PAYLOAD :: string where "INGRESS_DROP_UNSUPPORTED_PAYLOAD = ''ingress_drop_unsupported_payload''"
definition INGRESS_SEND_TO_POOL_FAILED :: string where "INGRESS_SEND_TO_POOL_FAILED = ''ingress_send_to_pool_failed''"
definition INGRESS_REGISTER_REQUEST_LISTENER_OK :: string where "INGRESS_REGISTER_REQUEST_LISTENER_OK = ''ingress_register_request_listener_ok''"
definition INGRESS_REGISTER_REQUEST_LISTENER_FAILED :: string where "INGRESS_REGISTER_REQUEST_LISTENER_FAILED = ''ingress_register_request_listener_failed''"
definition INGRESS_REGISTER_PUBLISH_LISTENER_OK :: string where "INGRESS_REGISTER_PUBLISH_LISTENER_OK = ''ingress_register_publish_listener_ok''"
definition INGRESS_REGISTER_PUBLISH_LISTENER_FAILED :: string where "INGRESS_REGISTER_PUBLISH_LISTENER_FAILED = ''ingress_register_publish_listener_failed''"
definition INGRESS_UNREGISTER_REQUEST_LISTENER_OK :: string where "INGRESS_UNREGISTER_REQUEST_LISTENER_OK = ''ingress_unregister_request_listener_ok''"
definition INGRESS_UNREGISTER_REQUEST_LISTENER_FAILED :: string where "INGRESS_UNREGISTER_REQUEST_LISTENER_FAILED = ''ingress_unregister_request_listener_failed''"
definition INGRESS_UNREGISTER_PUBLISH_LISTENER_OK :: string where "INGRESS_UNREGISTER_PUBLISH_LISTENER_OK = ''ingress_unregister_publish_listener_ok''"
definition INGRESS_UNREGISTER_PUBLISH_LISTENER_FAILED :: string where "INGRESS_UNREGISTER_PUBLISH_LISTENER_FAILED = ''ingress_unregister_publish_listener_failed''"
definition ROUTE_ADD_START :: string where "ROUTE_ADD_START = ''route_add_start''"
definition ROUTE_ADD_OK :: string where "ROUTE_ADD_OK = ''route_add_ok''"
definition ROUTE_ADD_FAILED :: string where "ROUTE_ADD_FAILED = ''route_add_failed''"
definition ROUTE_DELETE_START :: string where "ROUTE_DELETE_START = ''route_delete_start''"
definition ROUTE_DELETE_OK :: string where "ROUTE_DELETE_OK = ''route_delete_ok''"
definition ROUTE_DELETE_FAILED :: string where "ROUTE_DELETE_FAILED = ''route_delete_failed''"

section \<open>Records\<close>

datatype log_level = LevelDebug | LevelInfo | LevelWarn | LevelError

datatype log_value = Text string | Number nat

record log_record =
  lg_level :: log_level
  lg_event :: string
  lg_component :: string
  lg_fields :: "(string \<times> log_value) list"

record 'm log_api =
  la_on :: "log_level \<Rightarrow> bool"
  la_uri :: uuri_api
  la_msg :: "'m umessage_api"
  la_status_debug :: "ustatus \<Rightarrow> string"
  la_status_display :: "ustatus \<Rightarrow> string"

definition emit :: "'m log_api \<Rightarrow> log_level \<Rightarrow> string \<Rightarrow> string \<Rightarrow> (string \<times> log_value) list \<Rightarrow> log_record list" where
  "emit L level event component fs =
     (if la_on L level
      then [\<lparr>lg_level = level, lg_event = event, lg_component = component, lg_fields = fs\<rparr>] else [])"

text \<open>The levels of all records but errors.\<close>

definition log_everything :: "'m log_api \<Rightarrow> bool" where
  "log_everything L \<longleftrightarrow> la_on L LevelDebug \<and> la_on L LevelWarn"

definition message_log_fields :: "formatted_message_fields \<Rightarrow> (string \<times> log_value) list" where
  "message_log_fields f =
     [(''msg_id'', Text (ff_msg_id f)), (''msg_type'', Text (ff_msg_type f)), (''src'', Text (ff_src f)),
      (''sink'', Text (ff_sink f))]"

definition worker_log_fields :: "worker_context \<Rightarrow> (string \<times> log_value) list" where
  "worker_log_fields c =
     [(''worker_id'', Text (wc_worker_id c)), (''worker_thread'', Text (wc_worker_thread c))]"


subsection \<open>Fields of bare attributes\<close>

text \<open>The helpers for a message's attributes, whose accessors are parameters as those of a message are.\<close>

record 'a attributes_api =
  atr_id :: "'a \<Rightarrow> string option"
  atr_type :: "'a \<Rightarrow> string option"
  atr_source :: "'a \<Rightarrow> uuri option"
  atr_sink :: "'a \<Rightarrow> uuri option"

definition format_attributes_message_id :: "'a attributes_api \<Rightarrow> 'a option \<Rightarrow> string" where
  "format_attributes_message_id A attributes = unwrap_or (Option.bind attributes (atr_id A)) fields_NONE"

definition format_attributes_message_type :: "'a attributes_api \<Rightarrow> 'a option \<Rightarrow> string" where
  "format_attributes_message_type A attributes =
     unwrap_or (Option.bind attributes (atr_type A)) ''UMESSAGE_TYPE_UNSPECIFIED''"

definition format_attributes_source_uri :: "uuri_api \<Rightarrow> 'a attributes_api \<Rightarrow> 'a option \<Rightarrow> string" where
  "format_attributes_source_uri U A attributes = format_optional_uri U (Option.bind attributes (atr_source A))"

definition format_attributes_sink_uri :: "uuri_api \<Rightarrow> 'a attributes_api \<Rightarrow> 'a option \<Rightarrow> string" where
  "format_attributes_sink_uri U A attributes = format_optional_uri U (Option.bind attributes (atr_sink A))"

text \<open>The accessors of a message, given those of its attributes: both families of helpers agree.\<close>

definition message_of_attributes ::
  "'a attributes_api \<Rightarrow> ('m \<Rightarrow> 'a option) \<Rightarrow> ('m \<Rightarrow> payload_format option) \<Rightarrow> 'm umessage_api" where
  "message_of_attributes A attributes payload_format =
     \<lparr>msg_id = (\<lambda>m. Option.bind (attributes m) (atr_id A)), msg_type = (\<lambda>m. Option.bind (attributes m) (atr_type A)),
      msg_source = (\<lambda>m. Option.bind (attributes m) (atr_source A)),
      msg_sink = (\<lambda>m. Option.bind (attributes m) (atr_sink A)), msg_payload_format = payload_format\<rparr>"

lemma format_attributes_agree:
  "format_message_id (message_of_attributes A attributes p) m = format_attributes_message_id A (attributes m)"
  "format_message_type (message_of_attributes A attributes p) m = format_attributes_message_type A (attributes m)"
  "format_source_uri U (message_of_attributes A attributes p) m = format_attributes_source_uri U A (attributes m)"
  "format_sink_uri U (message_of_attributes A attributes p) m = format_attributes_sink_uri U A (attributes m)"
  by (simp_all add: message_of_attributes_def format_message_id_def format_message_type_def
    format_source_uri_def format_sink_uri_def format_attributes_message_id_def format_attributes_message_type_def
    format_attributes_source_uri_def format_attributes_sink_uri_def)

section \<open>The egress worker\<close>

text \<open>
  The fields of a message are only formatted when debug records are written, or when a failure is to be
  reported.
\<close>

definition message_fields :: "'m log_api \<Rightarrow> 'm \<Rightarrow> formatted_message_fields" where
  "message_fields L m = formatted_fields_from_message (la_uri L) (la_msg L) m"

definition send_records ::
  "'m log_api \<Rightarrow> worker_context \<Rightarrow> 'm \<Rightarrow> (ustatus, unit) result \<Rightarrow> log_record list" where
  "send_records L c m send_res =
     (let formatted = (if la_on L LevelDebug then Some (message_fields L m) else None);
          attempt = (case formatted of None \<Rightarrow> []
            | Some f \<Rightarrow> emit L LevelDebug EGRESS_SEND_ATTEMPT ''egress_worker''
                          (worker_log_fields c @ message_log_fields f));
          sent = (case send_res of
              Inl err \<Rightarrow>
                if la_on L LevelWarn then
                  emit L LevelWarn EGRESS_SEND_FAILED ''egress_worker''
                    (worker_log_fields c @ message_log_fields (unwrap_or formatted (message_fields L m)) @
                     [(''err'', Text (la_status_debug L err))])
                else []
            | Inr _ \<Rightarrow>
                (case formatted of None \<Rightarrow> []
                 | Some f \<Rightarrow> emit L LevelDebug EGRESS_SEND_OK ''egress_worker''
                               (worker_log_fields c @ message_log_fields f)))
      in attempt @ sent)"


section \<open>The ingress listener\<close>

definition on_receive_logged ::
  "'m log_api \<Rightarrow> ('m, 'w) ext \<Rightarrow> string \<Rightarrow> route_listener \<Rightarrow> 'm \<Rightarrow> 'w \<Rightarrow> log_record list \<times> 'w" where
  "on_receive_logged L X send_error l msg w =
     (let formatted = (if la_on L LevelDebug then Some (message_fields L msg) else None);
          label = (''route_label'', Text (lsn_route_id l));
          debug = (\<lambda>event extra. case formatted of None \<Rightarrow> []
            | Some f \<Rightarrow> emit L LevelDebug event ''ingress_listener'' (label # message_log_fields f @ extra));
          received = debug INGRESS_RECEIVE []
      in if unwrap_or (msg_payload_format (la_msg L) msg) UPAYLOAD_FORMAT_UNSPECIFIED = UPAYLOAD_FORMAT_SHM
         then (received @ debug INGRESS_DROP_UNSUPPORTED_PAYLOAD
                 [(''reason'', Text ''unsupported_payload_format_shm'')], w)
         else
           (case bc_send X (lsn_sender l) msg w of
              (True, w1) \<Rightarrow> (received, w1)
            | (False, w1) \<Rightarrow>
                (received @ emit L LevelError INGRESS_SEND_TO_POOL_FAILED ''ingress_listener''
                   [label, (''err'', Text send_error)], w1)))"

section \<open>The pool\<close>

text \<open>From the pool a route is attached to and the pool attaching answers.\<close>

definition attach_route_log ::
  "'m log_api \<Rightarrow> arc_transport \<Rightarrow> string \<Rightarrow> egress_route_pool \<Rightarrow> egress_route_pool \<Rightarrow> log_record list" where
  "attach_route_log L t label pool pool' =
     (let key = transport_key_new t in
      case hm_get (ep_workers pool) key of
        Some slot \<Rightarrow>
          emit L LevelDebug EGRESS_WORKER_REUSE ''egress_pool''
            [(''worker_id'', Text (ew_worker_id (eb_worker slot))), (''route_label'', Text label),
             (''ref_count'', Number (eb_ref_count slot + 1))]
      | None \<Rightarrow>
          (case hm_get (ep_workers pool') key of
             None \<Rightarrow> []
           | Some slot \<Rightarrow>
               emit L LevelDebug EGRESS_WORKER_CREATE ''egress_pool''
                 [(''worker_id'', Text (ew_worker_id (eb_worker slot))), (''route_label'', Text label),
                  (''ref_count'', Number 1)]))"

text \<open>From the pool a route is detached from; nothing when routes remain.\<close>

definition detach_route_log :: "'m log_api \<Rightarrow> arc_transport \<Rightarrow> egress_route_pool \<Rightarrow> log_record list" where
  "detach_route_log L t pool =
     (case hm_get (ep_workers pool) (transport_key_new t) of
        None \<Rightarrow>
          emit L LevelWarn EGRESS_WORKER_REMOVE ''egress_pool''
            [(''worker_id'', Text fields_NONE), (''ref_count'', Number 0),
             (''reason'', Text ''missing_transport_binding'')]
      | Some slot \<Rightarrow>
          if eb_ref_count slot - 1 = 0 then
            emit L LevelDebug EGRESS_WORKER_REMOVE ''egress_pool''
              [(''worker_id'', Text (ew_worker_id (eb_worker slot))), (''ref_count'', Number 0),
               (''worker_thread'', Text (runtime_thread (eb_worker slot)))]
          else [])"

section \<open>The ingress registry\<close>

definition format_sink_filter :: "uuri_api \<Rightarrow> uuri option \<Rightarrow> string" where
  "format_sink_filter U sink = unwrap_or (map_option (format_uri U) sink) fields_NONE"

definition unregister_event_name :: "uuri option \<Rightarrow> bool \<Rightarrow> string" where
  "unregister_event_name sink success =
     (case (sink \<noteq> None, success) of
        (True, True) \<Rightarrow> INGRESS_UNREGISTER_REQUEST_LISTENER_OK
      | (True, False) \<Rightarrow> INGRESS_UNREGISTER_REQUEST_LISTENER_FAILED
      | (False, True) \<Rightarrow> INGRESS_UNREGISTER_PUBLISH_LISTENER_OK
      | (False, False) \<Rightarrow> INGRESS_UNREGISTER_PUBLISH_LISTENER_FAILED)"

definition filter_log_fields ::
  "uuri_api \<Rightarrow> string \<Rightarrow> string \<Rightarrow> string \<Rightarrow> listener_filter \<Rightarrow> (string \<times> log_value) list" where
  "filter_log_fields U label a b f =
     [(''route_label'', Text label), (''in_authority'', Text a), (''out_authority'', Text b),
      (''source_filter'', Text (format_uri U (fst f))), (''sink_filter'', Text (format_sink_filter U (snd f)))]"

fun rollback_registered_filters ::
  "'m log_api \<Rightarrow> ('m, 'w) ext \<Rightarrow> arc_transport \<Rightarrow> listener_filter list \<Rightarrow> route_listener \<Rightarrow>
   string \<Rightarrow> string \<Rightarrow> string \<Rightarrow> 'w \<Rightarrow> log_record list \<times> 'w" where
  "rollback_registered_filters L X t [] l label a b w = ([], w)"
| "rollback_registered_filters L X t ((src, snk) # fs) l label a b w =
     (let common = filter_log_fields (la_uri L) label a b (src, snk);
          reason = (''reason'', Text ''rollback_after_register_failure'');
          (r, w1) = ut_unregister X t src snk l w;
          record = (case r of
              Inl err \<Rightarrow> emit L LevelWarn (unregister_event_name snk False) ''ingress_registry''
                (common @ [(''err'', Text (la_status_display L err)), reason])
            | Inr _ \<Rightarrow> emit L LevelDebug (unregister_event_name snk True) ''ingress_registry''
                (common @ [reason]));
          (log, w2) = rollback_registered_filters L X t fs l label a b w1
      in (record @ log, w2))"

section \<open>The route lifecycle\<close>

definition lifecycle_record ::
  "'m log_api \<Rightarrow> log_level \<Rightarrow> string \<Rightarrow> string \<Rightarrow> endpoint \<Rightarrow> endpoint \<Rightarrow> (string \<times> log_value) list \<Rightarrow> log_record list"
where
  "lifecycle_record L level event label i out extra =
     emit L level event ''route_lifecycle''
       ([(''route_label'', Text label), (''in_authority'', Text (ep_authority i)),
         (''out_authority'', Text (ep_authority out))] @ extra)"

text \<open>The lifecycle's own records, from what the call answers; a call that panics only has its start.\<close>

definition add_route_log ::
  "'m log_api \<Rightarrow> string \<Rightarrow> endpoint \<Rightarrow> endpoint \<Rightarrow> (add_route_error, unit) result option \<Rightarrow> log_record list" where
  "add_route_log L label i out r =
     lifecycle_record L LevelDebug ROUTE_ADD_START label i out [] @
     (case r of
        None \<Rightarrow> []
      | Some (Inl AddSameAuthority) \<Rightarrow>
          lifecycle_record L LevelError ROUTE_ADD_FAILED label i out [(''reason'', Text ''same_authority'')]
      | Some (Inl AlreadyExists) \<Rightarrow>
          lifecycle_record L LevelError ROUTE_ADD_FAILED label i out [(''reason'', Text ''already_exists'')]
      | Some (Inl (FailedToRegisterIngressRoute err)) \<Rightarrow>
          lifecycle_record L LevelError ROUTE_ADD_FAILED label i out
            [(''reason'', Text ''ingress_registration_failed''),
             (''err'', Text (ingress_error_display (la_uri L) err))]
      | Some (Inr _) \<Rightarrow> lifecycle_record L LevelDebug ROUTE_ADD_OK label i out [])"

definition remove_route_log ::
  "'m log_api \<Rightarrow> string \<Rightarrow> endpoint \<Rightarrow> endpoint \<Rightarrow> (remove_route_error, unit) result option \<Rightarrow> log_record list" where
  "remove_route_log L label i out r =
     lifecycle_record L LevelDebug ROUTE_DELETE_START label i out [] @
     (case r of
        None \<Rightarrow> []
      | Some (Inl RemoveSameAuthority) \<Rightarrow>
          lifecycle_record L LevelError ROUTE_DELETE_FAILED label i out [(''reason'', Text ''same_authority'')]
      | Some (Inl NotFound) \<Rightarrow>
          lifecycle_record L LevelError ROUTE_DELETE_FAILED label i out [(''reason'', Text ''not_found'')]
      | Some (Inr _) \<Rightarrow> lifecycle_record L LevelDebug ROUTE_DELETE_OK label i out [])"

text \<open>\<open>Display\<close> and \<open>source\<close> of the lifecycle's errors.\<close>

definition add_route_error_display :: "uuri_api \<Rightarrow> add_route_error \<Rightarrow> string" where
  "add_route_error_display U e =
     (case e of
        AddSameAuthority \<Rightarrow> ''ingress and egress authorities must differ''
      | AlreadyExists \<Rightarrow> ''route already exists''
      | FailedToRegisterIngressRoute err \<Rightarrow>
          ''failed to register ingress route listener: '' @ ingress_error_display U err)"

definition add_route_error_source :: "add_route_error \<Rightarrow> ingress_route_registration_error option" where
  "add_route_error_source e = (case e of FailedToRegisterIngressRoute err \<Rightarrow> Some err | _ \<Rightarrow> None)"

definition remove_route_error_display :: "remove_route_error \<Rightarrow> string" where
  "remove_route_error_display e =
     (case e of
        RemoveSameAuthority \<Rightarrow> ''ingress and egress authorities must differ''
      | NotFound \<Rightarrow> ''route not found'')"

section \<open>Writing records changes nothing else\<close>


lemma on_receive_unlogged: "on_receive (la_msg L) X l m w = snd (on_receive_logged L X e l m w)"
  by (simp add: on_receive_def on_receive_logged_def Let_def split: prod.splits bool.splits)

lemma rollback_unlogged:
  "unregister_filters X t fs l w = snd (rollback_registered_filters L X t fs l label a b w)"
proof (induction fs arbitrary: w)
  case (Cons f fs)
  then show ?case by (cases f) (simp add: Let_def split: prod.splits)
qed simp

section \<open>Counting records\<close>

definition event_count :: "string \<Rightarrow> log_record list \<Rightarrow> nat" where
  "event_count event log = length (filter (\<lambda>r. lg_event r = event) log)"



lemma event_count_simps [simp]:
  "event_count e [] = 0"
  "event_count e (xs @ ys) = event_count e xs + event_count e ys"
  "event_count e (emit L level e' component fs) = (if la_on L level \<and> e = e' then 1 else 0)"
  by (auto simp: event_count_def emit_def)

lemma egress_events_differ:
  "EGRESS_SEND_ATTEMPT \<noteq> EGRESS_SEND_OK" "EGRESS_SEND_ATTEMPT \<noteq> EGRESS_SEND_FAILED"
  "EGRESS_SEND_ATTEMPT \<noteq> EGRESS_RECV_LAGGED" "EGRESS_SEND_ATTEMPT \<noteq> EGRESS_RECV_CLOSED"
  "EGRESS_SEND_OK \<noteq> EGRESS_SEND_FAILED" "EGRESS_SEND_OK \<noteq> EGRESS_RECV_LAGGED"
  "EGRESS_SEND_OK \<noteq> EGRESS_RECV_CLOSED" "EGRESS_SEND_FAILED \<noteq> EGRESS_RECV_LAGGED"
  "EGRESS_SEND_FAILED \<noteq> EGRESS_RECV_CLOSED" "EGRESS_RECV_LAGGED \<noteq> EGRESS_RECV_CLOSED"
  by code_simp+

lemmas egress_events [simp] = egress_events_differ egress_events_differ [symmetric]

lemma send_records_counts [simp]:
  "event_count EGRESS_SEND_ATTEMPT (send_records L c m r) = (if la_on L LevelDebug then 1 else 0)"
  "event_count EGRESS_SEND_OK (send_records L c m r) = (if la_on L LevelDebug \<and> is_ok r then 1 else 0)"
  "event_count EGRESS_SEND_FAILED (send_records L c m r) = (if la_on L LevelWarn \<and> \<not> is_ok r then 1 else 0)"
  "event_count EGRESS_RECV_LAGGED (send_records L c m r) = 0"
  "event_count EGRESS_RECV_CLOSED (send_records L c m r) = 0"
  by (cases r; simp add: send_records_def)+


section \<open>Properties\<close>


end
