(* ===== verification/Ingress_Log.thy ===== *)
theory Ingress_Log
  imports Observability
begin

text \<open>
  The log records of the ingress registry (data_plane/ingress_registry.rs): registering and unregistering a
  route with the records they write, that writing them changes nothing else, and how the records of a
  registration correspond to the listeners the transport holds.
\<close>

section \<open>Registering a route\<close>

fun register_publish_logged ::
  "'m log_api \<Rightarrow> ('m, 'w) ext \<Rightarrow> arc_transport \<Rightarrow> route_listener \<Rightarrow> string \<Rightarrow> string \<Rightarrow> string \<Rightarrow>
   uuri list \<Rightarrow> listener_filter list \<Rightarrow> 'w \<Rightarrow>
   (ingress_route_registration_error, listener_filter list) result \<times> log_record list \<times> 'w" where
  "register_publish_logged L X t l label a b [] rollback w = (Ok rollback, [], w)"
| "register_publish_logged L X t l label a b (source_uri # us) rollback w =
     (let common = filter_log_fields (la_uri L) label a b (source_uri, None) in
      case ut_register X t source_uri None l w of
        (Inl err, w1) \<Rightarrow>
          (let (log, w2) = rollback_registered_filters L X t rollback l label a b w1
           in (Err (FailedToRegisterPublishRouteListener source_uri),
               emit L LevelWarn INGRESS_REGISTER_PUBLISH_LISTENER_FAILED ''ingress_registry''
                 (common @ [(''err'', Text (la_status_display L err))]) @ log, w2))
      | (Inr _, w1) \<Rightarrow>
          (let (r, log, w2) = register_publish_logged L X t l label a b us (rollback @ [(source_uri, None)]) w1
           in (r, emit L LevelDebug INGRESS_REGISTER_PUBLISH_LISTENER_OK ''ingress_registry'' common @ log, w2)))"

definition register_listeners_logged ::
  "'m log_api \<Rightarrow> ('m, 'w) env \<Rightarrow> arc_transport \<Rightarrow> string \<Rightarrow> string \<Rightarrow> string \<Rightarrow> route_listener \<Rightarrow>
   subscription_directory \<Rightarrow> ingress_registry \<Rightarrow> 'w \<Rightarrow>
   (ingress_route_registration_error, listener_filter list) result \<times> log_record list \<times> ingress_registry \<times> 'w"
where
  "register_listeners_logged L E t label a b l d reg w =
     (let X = e_ext E;
          request_source = authority_to_wildcard_filter a;
          request_sink = authority_to_wildcard_filter b;
          rollback = [(request_source, Some request_sink)];
          common = filter_log_fields (la_uri L) label a b (request_source, Some request_sink)
      in case ut_register X t request_source (Some request_sink) l w of
           (Inl err, w1) \<Rightarrow>
             (let (log, w2) = rollback_registered_filters L X t rollback l label a b w1
              in (Err FailedToRegisterRequestRouteListener,
                  emit L LevelWarn INGRESS_REGISTER_REQUEST_LISTENER_FAILED ''ingress_registry''
                    (common @ [(''err'', Text (la_status_display L err))]) @ log, reg, w2))
         | (Inr _, w1) \<Rightarrow>
             (let (filters, reg1) = derive_publish_filters_cached E a b d reg;
                  (r, log, w2) = register_publish_logged L X t l label a b
                     (map snd (e_filter_order E filters)) rollback w1
              in (r, emit L LevelDebug INGRESS_REGISTER_REQUEST_LISTENER_OK ''ingress_registry'' common @ log,
                  reg1, w2)))"

definition register_route_logged ::
  "'m log_api \<Rightarrow> ('m, 'w) env \<Rightarrow> arc_transport \<Rightarrow> string \<Rightarrow> string \<Rightarrow> string \<Rightarrow> nat \<Rightarrow>
   subscription_directory \<Rightarrow> ingress_registry \<Rightarrow> 'w \<Rightarrow>
   (ingress_route_registration_error, route_listener option) result \<times> log_record list \<times> ingress_registry \<times> 'w"
where
  "register_route_logged L E t a b label sender d reg w =
     (let key = ingress_binding_key_new t a b in
      case bump_binding key reg of
        Some reg1 \<Rightarrow> (Ok None, [], reg1, w)
      | None \<Rightarrow>
          (let (ptr, w1) = arc_new (e_ext E) w;
               l = ingress_listener_new ptr label sender
           in case register_listeners_logged L E t label a b l d reg w1 of
                (Inl e, log, reg1, w2) \<Rightarrow> (Err e, log, reg1, w2)
              | (Inr filters, log, reg1, w2) \<Rightarrow>
                  (case commit_binding key l filters reg1 of
                     (True, reg2) \<Rightarrow> (Ok (Some l), log, reg2, w2)
                   | (False, reg2) \<Rightarrow>
                       (let (log', w3) = rollback_registered_filters L (e_ext E) t filters l label a b w2
                        in (Ok None, log @ log', reg2, w3)))))"

section \<open>Unregistering a route\<close>

fun unregister_filters_logged ::
  "'m log_api \<Rightarrow> ('m, 'w) ext \<Rightarrow> arc_transport \<Rightarrow> listener_filter list \<Rightarrow> route_listener \<Rightarrow>
   string \<Rightarrow> string \<Rightarrow> 'w \<Rightarrow> log_record list \<times> 'w" where
  "unregister_filters_logged L X t [] l a b w = ([], w)"
| "unregister_filters_logged L X t ((src, snk) # fs) l a b w =
     (let common = filter_log_fields (la_uri L) fields_NONE a b (src, snk);
          (r, w1) = ut_unregister X t src snk l w;
          record = (case r of
              Inl err \<Rightarrow> emit L LevelWarn (unregister_event_name snk False) ''ingress_registry''
                (common @ [(''err'', Text (la_status_display L err))])
            | Inr _ \<Rightarrow> emit L LevelDebug (unregister_event_name snk True) ''ingress_registry'' common);
          (log, w2) = unregister_filters_logged L X t fs l a b w1
      in (record @ log, w2))"

definition missing_binding_record :: "'m log_api \<Rightarrow> string \<Rightarrow> string \<Rightarrow> log_record list" where
  "missing_binding_record L a b =
     emit L LevelWarn INGRESS_UNREGISTER_REQUEST_LISTENER_FAILED ''ingress_registry''
       [(''route_label'', Text fields_NONE), (''in_authority'', Text a), (''out_authority'', Text b),
        (''source_filter'', Text fields_NONE), (''sink_filter'', Text fields_NONE),
        (''reason'', Text ''missing_transport_binding'')]"

text \<open>A binding that has been found is found again when it is removed, so the last branch of the code is not
  reached.\<close>

definition unregister_route_logged ::
  "'m log_api \<Rightarrow> ('m, 'w) env \<Rightarrow> arc_transport \<Rightarrow> string \<Rightarrow> string \<Rightarrow> ingress_registry \<Rightarrow> 'w \<Rightarrow>
   (log_record list \<times> ingress_registry \<times> 'w) option" where
  "unregister_route_logged L E t a b reg w =
     (let key = ingress_binding_key_new t a b in
      if hm_get (ir_bindings reg) key = None then Some (missing_binding_record L a b, reg, w)
      else case release_binding key reg of
        None \<Rightarrow> None
      | Some (None, reg1) \<Rightarrow> Some ([], reg1, w)
      | Some (Some binding, reg1) \<Rightarrow>
          (let (log, w1) = unregister_filters_logged L (e_ext E) t (ib_registered_filters binding)
                (ib_listener binding) a b w
           in Some (log, reg1, w1)))"

section \<open>Writing records changes nothing else\<close>

lemma register_publish_unlogged:
  "register_publish_listeners X t l us rb w =
     (let (r, log, w') = register_publish_logged L X t l label a b us rb w in (r, w'))"
proof (induction us arbitrary: rb w)
  case (Cons u us)
  obtain q w1 where "ut_register X t u None l w = (q, w1)" by fastforce
  with Cons.IH [of "rb @ [(u, None)]" w1] rollback_unlogged [of X t rb l w1 L label a b]
  show ?case by (auto split: sum.splits prod.splits)
qed simp

lemma register_listeners_unlogged:
  "register_listeners E t a b l d reg w =
     (let (r, log, reg', w') = register_listeners_logged L E t label a b l d reg w in (r, reg', w'))"
proof -
  let ?src = "authority_to_wildcard_filter a" and ?snk = "authority_to_wildcard_filter b"
  obtain q w1 where q: "ut_register (e_ext E) t ?src (Some ?snk) l w = (q, w1)" by fastforce
  show ?thesis
  proof (cases q)
    case (Inl err)
    obtain lg w2 where rb: "rollback_registered_filters L (e_ext E) t [(?src, Some ?snk)] l label a b w1 = (lg, w2)"
      by fastforce
    have rb': "unregister_filters (e_ext E) t [(?src, Some ?snk)] l w1 = w2"
      by (simp only: rollback_unlogged [where L = L and label = label and a = a and b = b] rb snd_conv)
    show ?thesis
      by (simp add: register_listeners_def register_listeners_logged_def Let_def q Inl rb rb'
        del: rollback_registered_filters.simps unregister_filters.simps)
  next
    case (Inr u)
    obtain fs reg1 where d: "derive_publish_filters_cached E a b d reg = (fs, reg1)" by fastforce
    obtain r log w2 where p: "register_publish_logged L (e_ext E) t l label a b
        (map snd (e_filter_order E fs)) [(?src, Some ?snk)] w1 = (r, log, w2)" by (metis prod_cases3)
    have p': "register_publish_listeners (e_ext E) t l (map snd (e_filter_order E fs)) [(?src, Some ?snk)] w1
        = (r, w2)"
      using p by (simp add: register_publish_unlogged [where L = L and label = label and a = a and b = b])
    show ?thesis
      by (simp add: register_listeners_def register_listeners_logged_def Let_def q Inr d p p')
  qed
qed

lemma register_route_unlogged:
  "register_route E t a b label sender d reg w =
     (let (r, log, reg', w') = register_route_logged L E t a b label sender d reg w in (r, reg', w'))"
proof (cases "bump_binding (ingress_binding_key_new t a b) reg")
  case None
  obtain ptr w1 where arc: "arc_new (e_ext E) w = (ptr, w1)" by fastforce
  let ?l = "ingress_listener_new ptr label sender"
  obtain r log reg1 w2 where reg: "register_listeners_logged L E t label a b ?l d reg w1 = (r, log, reg1, w2)"
    by (metis prod_cases4)
  have reg': "register_listeners E t a b ?l d reg w1 = (r, reg1, w2)"
    by (simp add: register_listeners_unlogged [where L = L and label = label] reg)
  show ?thesis
  proof (cases r)
    case (Inl e)
    show ?thesis by (simp add: register_route_def register_route_logged_def Let_def None arc reg reg' Inl)
  next
    case (Inr fs)
    obtain new reg2 where "commit_binding (ingress_binding_key_new t a b) ?l fs reg1 = (new, reg2)" by fastforce
    then show ?thesis
      using rollback_unlogged [of "e_ext E" t fs ?l w2 L label a b]
      by (cases new) (auto simp: register_route_def register_route_logged_def Let_def None arc reg reg' Inr
        split: prod.splits)
  qed
qed (simp add: register_route_def register_route_logged_def)

lemma unregister_filters_unlogged:
  "unregister_filters X t fs l w = snd (unregister_filters_logged L X t fs l a b w)"
proof (induction fs arbitrary: w)
  case (Cons f fs)
  then show ?case by (cases f) (simp add: Let_def split: prod.splits)
qed simp

lemma unregister_route_unlogged:
  "unregister_route E t a b reg w =
     map_option (\<lambda>(log, reg', w'). (reg', w')) (unregister_route_logged L E t a b reg w)"
  by (simp add: unregister_route_def unregister_route_logged_def release_binding_def Let_def
    unregister_filters_unlogged [where L = L and a = a and b = b]
    split: option.splits prod.splits if_splits)

section \<open>What the records of a registration tell\<close>

definition registered_record ::
  "'m log_api \<Rightarrow> string \<Rightarrow> string \<Rightarrow> string \<Rightarrow> listener_filter \<Rightarrow> log_record" where
  "registered_record L label a b f =
     \<lparr>lg_level = LevelDebug,
      lg_event = (if snd f = None then INGRESS_REGISTER_PUBLISH_LISTENER_OK
                  else INGRESS_REGISTER_REQUEST_LISTENER_OK),
      lg_component = ''ingress_registry'', lg_fields = filter_log_fields (la_uri L) label a b f\<rparr>"

definition refused_record ::
  "'m log_api \<Rightarrow> string \<Rightarrow> string \<Rightarrow> string \<Rightarrow> listener_filter \<Rightarrow> ustatus \<Rightarrow> log_record" where
  "refused_record L label a b f err =
     \<lparr>lg_level = LevelWarn,
      lg_event = (if snd f = None then INGRESS_REGISTER_PUBLISH_LISTENER_FAILED
                  else INGRESS_REGISTER_REQUEST_LISTENER_FAILED),
      lg_component = ''ingress_registry'',
      lg_fields = filter_log_fields (la_uri L) label a b f @ [(''err'', Text (la_status_display L err))]\<rparr>"

text \<open>A record of the attempt to take the listener under a filter back, whether it succeeded or not.\<close>

definition undone_record ::
  "'m log_api \<Rightarrow> string \<Rightarrow> string \<Rightarrow> string \<Rightarrow> listener_filter \<Rightarrow> log_record \<Rightarrow> bool" where
  "undone_record L label a b f r \<longleftrightarrow>
     (lg_event r = unregister_event_name (snd f) True \<or> lg_event r = unregister_event_name (snd f) False) \<and>
     take 5 (lg_fields r) = filter_log_fields (la_uri L) label a b f \<and>
     last (lg_fields r) = (''reason'', Text ''rollback_after_register_failure'')"

lemma rollback_records:
  assumes "log_everything L"
  shows "list_all2 (undone_record L label a b) fs (fst (rollback_registered_filters L X t fs l label a b w))"
proof (induction fs arbitrary: w)
  case (Cons f fs)
  obtain src snk where f: "f = (src, snk)" by (cases f)
  obtain q w1 where q: "ut_unregister X t src snk l w = (q, w1)" by fastforce
  obtain log w2 where rec: "rollback_registered_filters L X t fs l label a b w1 = (log, w2)" by fastforce
  have head: "undone_record L label a b (src, snk)
     \<lparr>lg_level = lv, lg_event = unregister_event_name snk ok, lg_component = c,
      lg_fields = filter_log_fields (la_uri L) label a b (src, snk) @ xs @
        [(''reason'', Text ''rollback_after_register_failure'')]\<rparr>" for lv ok c xs
    by (cases ok) (simp_all add: undone_record_def filter_log_fields_def)
  show ?case using assms Cons.IH [of w1] head [of LevelWarn False _ "[_]"] head [of LevelDebug True _ "[]"]
    by (cases q) (simp_all add: f Let_def q rec emit_def log_everything_def)
qed simp

text \<open>The filters of an outcome: those that were registered, or, when the request was refused, that one.\<close>

definition refused_log ::
  "'m log_api \<Rightarrow> string \<Rightarrow> string \<Rightarrow> string \<Rightarrow> ingress_route_registration_error \<Rightarrow> log_record list \<Rightarrow> bool" where
  "refused_log L label a b e log \<longleftrightarrow>
     (\<exists>fs f err undone. log = map (registered_record L label a b) fs @ [refused_record L label a b f err] @ undone \<and>
        list_all2 (undone_record L label a b) (if fs = [] then [f] else fs) undone \<and>
        e = (if snd f = None then FailedToRegisterPublishRouteListener (fst f)
             else FailedToRegisterRequestRouteListener))"

lemma refused_logI:
  assumes "list_all2 (undone_record L label a b) (if fs = [] then [f] else fs) undone"
    and "e = (if snd f = None then FailedToRegisterPublishRouteListener (fst f) else FailedToRegisterRequestRouteListener)"
  shows "refused_log L label a b e (map (registered_record L label a b) fs @ [refused_record L label a b f err] @ undone)"
  using assms unfolding refused_log_def by blast

lemma publish_records:
  assumes "log_everything L" and "rb \<noteq> []"
    and "register_publish_logged L X t l label a b us rb w = (r, log, w')"
  shows "case r of
      Inl e \<Rightarrow> refused_log L label a b e (map (registered_record L label a b) rb @ log)
    | Inr fs \<Rightarrow> map (registered_record L label a b) rb @ log = map (registered_record L label a b) fs"
  using assms(2,3)
proof (induction us arbitrary: rb w log)
  case (Cons u us)
  obtain q w1 where q: "ut_register X t u None l w = (q, w1)" by fastforce
  show ?case
  proof (cases q)
    case (Inl err)
    obtain undone w2 where rb: "rollback_registered_filters L X t rb l label a b w1 = (undone, w2)" by fastforce
    have "log = refused_record L label a b (u, None) err # undone"
      and r: "r = Inl (FailedToRegisterPublishRouteListener u)"
      using Cons.prems assms(1) q Inl rb
      by (auto simp: Let_def emit_def log_everything_def refused_record_def)
    then show ?thesis
      using refused_logI [of L label a b rb "(u, None)" undone "FailedToRegisterPublishRouteListener u" err]
        rollback_records [OF assms(1), of label a b rb X t l w1] rb Cons.prems(1) by simp
  next
    case (Inr x)
    obtain log1 where p: "register_publish_logged L X t l label a b us (rb @ [(u, None)]) w1 = (r, log1, w')"
      and "log = registered_record L label a b (u, None) # log1"
      using Cons.prems assms(1) q Inr
      by (auto simp: Let_def emit_def log_everything_def registered_record_def split: prod.splits)
    then show ?thesis using Cons.IH [OF _ p] by (simp split: sum.splits)
  qed
qed auto

lemma listeners_records:
  assumes "log_everything L" and "register_listeners_logged L E t label a b l d reg w = (r, log, reg', w')"
  shows "case r of
      Inl e \<Rightarrow> refused_log L label a b e log
    | Inr fs \<Rightarrow> log = map (registered_record L label a b) fs"
proof -
  let ?src = "authority_to_wildcard_filter a" and ?snk = "authority_to_wildcard_filter b"
  let ?f = "(?src, Some ?snk)"
  obtain q w1 where q: "ut_register (e_ext E) t ?src (Some ?snk) l w = (q, w1)" by fastforce
  show ?thesis
  proof (cases q)
    case (Inl err)
    obtain undone w2 where rb: "rollback_registered_filters L (e_ext E) t [?f] l label a b w1 = (undone, w2)"
      by fastforce
    have "log = refused_record L label a b ?f err # undone" and "r = Inl FailedToRegisterRequestRouteListener"
      using assms q Inl rb
      by (auto simp: register_listeners_logged_def Let_def emit_def log_everything_def refused_record_def
        simp del: rollback_registered_filters.simps)
    then show ?thesis
      using refused_logI [of L label a b "[]" ?f undone FailedToRegisterRequestRouteListener err]
        rollback_records [OF assms(1), of label a b "[?f]" "e_ext E" t l w1] rb by simp
  next
    case (Inr x)
    obtain us log1 w2 where p: "register_publish_logged L (e_ext E) t l label a b us [?f] w1 = (r, log1, w2)"
      and "log = registered_record L label a b ?f # log1"
      using assms q Inr
      by (auto simp: register_listeners_logged_def Let_def emit_def log_everything_def registered_record_def
        split: prod.splits)
    then show ?thesis using publish_records [OF assms(1) _ p] by (simp split: sum.splits)
  qed
qed

text \<open>
  C11. The log of a registration accounts for the listeners of a new binding: after a success it has, in
  order, one record for each filter under which the binding's listener is registered, and nothing else;
  after a refusal it has one for each filter registered so far, one for the refused filter, and one for
  each listener that is taken back. Writing it changes nothing else.
\<close>

theorem registration_log_accounts:
  assumes "log_everything L" and "hm_get (ir_bindings reg) (ingress_binding_key_new t a b) = None"
    and "register_route_logged L E t a b label sender d reg w = (r, log, reg', w')"
  shows "register_route E t a b label sender d reg w = (r, reg', w') \<and>
    (case r of
       Inl e \<Rightarrow> refused_log L label a b e log \<and> ir_bindings reg' = ir_bindings reg
     | Inr None \<Rightarrow> False
     | Inr (Some l) \<Rightarrow> (\<exists>fs. hm_get (ir_bindings reg') (ingress_binding_key_new t a b) =
           Some \<lparr>ib_ref_count = 1, ib_listener = l, ib_registered_filters = fs\<rparr> \<and>
         log = map (registered_record L label a b) fs))"
proof -
  let ?key = "ingress_binding_key_new t a b"
  have same: "register_route E t a b label sender d reg w = (r, reg', w')"
    by (simp add: register_route_unlogged [where L = L] assms(3))
  have free: "bump_binding ?key reg = None" using assms(2) by (simp add: bump_binding_None)
  obtain ptr w1 where arc: "arc_new (e_ext E) w = (ptr, w1)" by fastforce
  let ?l = "ingress_listener_new ptr label sender"
  obtain q log1 reg1 w2 where reg: "register_listeners_logged L E t label a b ?l d reg w1 = (q, log1, reg1, w2)"
    by (metis prod_cases4)
  note records = listeners_records [OF assms(1) reg]
  have kept: "ir_bindings reg1 = ir_bindings reg"
    using register_listeners_bindings [of E t a b ?l d reg w1 q reg1 w2]
    by (simp add: register_listeners_unlogged [where L = L and label = label] reg)
  show ?thesis
  proof (cases q)
    case (Inl e)
    then have "r = Inl e" "log = log1" "reg' = reg1"
      using assms(3) by (simp_all add: register_route_logged_def Let_def free arc reg)
    then show ?thesis using same records kept Inl by simp
  next
    case (Inr fs)
    have "bump_binding ?key reg1 = None" using assms(2) kept by (simp add: bump_binding_None)
    then have "r = Inr (Some ?l)" "log = log1" "hm_get (ir_bindings reg') ?key =
        Some \<lparr>ib_ref_count = 1, ib_listener = ?l, ib_registered_filters = fs\<rparr>"
      using assms(3) by (auto simp: register_route_logged_def Let_def free arc reg Inr commit_binding_def)
    then show ?thesis using same records Inr by simp
  qed
qed

definition sample_log :: "nat log_api" where
  "sample_log = \<lparr>la_on = (\<lambda>level. True), la_uri = sample_uuri_api [],
     la_msg = sample_message_api, la_status_debug = status_message, la_status_display = status_message\<rparr>"

lemma sample_registration:
  "(case register_route_logged sample_log foo_env foo_transport ''a'' ''b'' ''r'' 0 foo_directory
      ingress_registry_new foo_start of
     (Inr (Some l), log, reg', w') \<Rightarrow> map lg_event log = [INGRESS_REGISTER_REQUEST_LISTENER_OK, INGRESS_REGISTER_PUBLISH_LISTENER_OK] | _ \<Rightarrow> False)"
  by code_simp

theorem registration_log_accounts_witness:
  "\<exists>l fs log reg' w'. register_route_logged sample_log foo_env foo_transport ''a'' ''b'' ''r'' 0 foo_directory
       ingress_registry_new foo_start = (Ok (Some l), log, reg', w') \<and>
     hm_get (ir_bindings reg') (ingress_binding_key_new foo_transport ''a'' ''b'') =
       Some \<lparr>ib_ref_count = 1, ib_listener = l, ib_registered_filters = fs\<rparr> \<and>
     log = map (registered_record sample_log ''r'' ''a'' ''b'') fs \<and> length fs = 2"
proof -
  obtain r log reg' w' where run: "register_route_logged sample_log foo_env foo_transport ''a'' ''b'' ''r'' 0
      foo_directory ingress_registry_new foo_start = (r, log, reg', w')"
    by (metis prod_cases4)
  obtain l where r: "r = Ok (Some l)" and two: "length log = 2"
    using sample_registration arg_cong [of "map lg_event log" _ length] unfolding run
    by (auto split: sum.splits option.splits)
  have "log_everything sample_log" by (simp add: log_everything_def sample_log_def)
  moreover have "hm_get (ir_bindings ingress_registry_new) (ingress_binding_key_new foo_transport ''a'' ''b'') = None"
    by (simp add: ingress_registry_new_def)
  ultimately obtain fs where "hm_get (ir_bindings reg') (ingress_binding_key_new foo_transport ''a'' ''b'') =
       Some \<lparr>ib_ref_count = 1, ib_listener = l, ib_registered_filters = fs\<rparr>"
    and log: "log = map (registered_record sample_log ''r'' ''a'' ''b'') fs"
    using registration_log_accounts [OF _ _ run] unfolding r by auto
  then show ?thesis using run r two by (intro exI [of _ l] exI [of _ fs] exI [of _ log] exI [of _ reg'] exI [of _ w']) simp
qed

end
