(* ===== verification/Streamer_Log.thy ===== *)
theory Streamer_Log
  imports Ingress_Log
begin

text \<open>
  The log records of the control plane: what the streamer (ustreamer.rs) writes around the records of the
  route lifecycle (control_plane/route_lifecycle.rs), which use the same event names, and what the two
  together tell of the routes a streamer has.
\<close>

section \<open>The records of the streamer\<close>

definition facade_record ::
  "'m log_api \<Rightarrow> log_level \<Rightarrow> string \<Rightarrow> ustreamer \<Rightarrow> endpoint \<Rightarrow> endpoint \<Rightarrow> (string \<times> log_value) list \<Rightarrow>
   log_record list" where
  "facade_record L level event st i out extra =
     emit L level event ''ustreamer''
       ([(''streamer_name'', Text (us_name st)), (''route_label'', Text (route_label i out)),
         (''in_authority'', Text (ep_authority i)), (''out_authority'', Text (ep_authority out))] @ extra)"

definition same_authority_log ::
  "'m log_api \<Rightarrow> string \<Rightarrow> ustreamer \<Rightarrow> endpoint \<Rightarrow> endpoint \<Rightarrow> string \<Rightarrow> log_record list" where
  "same_authority_log L failure_event st i out action =
     facade_record L LevelError failure_event st i out
       [(''reason'', Text ''same_authority''),
        (''err'', Text (la_status_debug L (fail_due_to_same_authority i out action)))]"

text \<open>In between are the records of the lifecycle; those of the pool and the registry are not repeated here.\<close>

definition add_route_ref_logged ::
  "'m log_api \<Rightarrow> ('m, 'w) env \<Rightarrow> endpoint \<Rightarrow> endpoint \<Rightarrow> ustreamer \<Rightarrow> 'w \<Rightarrow>
   log_record list \<times> (ustatus, unit) result option \<times> ustreamer \<times> 'w" where
  "add_route_ref_logged L E i out st w =
     (let label = route_label i out;
          start = facade_record L LevelDebug ROUTE_ADD_START st i out [];
          (r, s, w1) = add_route E (us_directory st) i out label (us_routing st) w;
          st1 = st\<lparr>us_routing := s\<rparr>;
          log = start @ add_route_log L label i out r
      in case r of
           None \<Rightarrow> (log, None, st1, w1)
         | Some (Inr _) \<Rightarrow> (log @ facade_record L LevelDebug ROUTE_ADD_OK st i out [], Some (Ok ()), st1, w1)
         | Some (Inl AddSameAuthority) \<Rightarrow>
             (log @ same_authority_log L ROUTE_ADD_FAILED st i out ''add'',
              Some (Err (fail_due_to_same_authority i out ''add'')), st1, w1)
         | Some (Inl AlreadyExists) \<Rightarrow>
             (log @ facade_record L LevelError ROUTE_ADD_FAILED st i out [(''reason'', Text ''already_exists'')],
              Some (Err (fail_with_code ALREADY_EXISTS ''already exists'')), st1, w1)
         | Some (Inl (FailedToRegisterIngressRoute err)) \<Rightarrow>
             (log @ facade_record L LevelError ROUTE_ADD_FAILED st i out
                [(''reason'', Text ''ingress_registration_failed''),
                 (''err'', Text (ingress_error_display (e_uri E) err))],
              Some (Err (fail_with_code INVALID_ARGUMENT (ingress_error_display (e_uri E) err))), st1, w1))"

definition delete_route_ref_logged ::
  "'m log_api \<Rightarrow> ('m, 'w) env \<Rightarrow> endpoint \<Rightarrow> endpoint \<Rightarrow> ustreamer \<Rightarrow> 'w \<Rightarrow>
   log_record list \<times> (ustatus, unit) result option \<times> ustreamer \<times> 'w" where
  "delete_route_ref_logged L E i out st w =
     (let label = route_label i out;
          start = facade_record L LevelDebug ROUTE_DELETE_START st i out [];
          (r, s, w1) = remove_route E (us_directory st) i out label (us_routing st) w;
          st1 = st\<lparr>us_routing := s\<rparr>;
          log = start @ remove_route_log L label i out r
      in case r of
           None \<Rightarrow> (log, None, st1, w1)
         | Some (Inr _) \<Rightarrow> (log @ facade_record L LevelDebug ROUTE_DELETE_OK st i out [], Some (Ok ()), st1, w1)
         | Some (Inl RemoveSameAuthority) \<Rightarrow>
             (log @ same_authority_log L ROUTE_DELETE_FAILED st i out ''delete'',
              Some (Err (fail_due_to_same_authority i out ''delete'')), st1, w1)
         | Some (Inl NotFound) \<Rightarrow>
             (log @ facade_record L LevelError ROUTE_DELETE_FAILED st i out [(''reason'', Text ''not_found'')],
              Some (Err (fail_with_code NOT_FOUND ''not found'')), st1, w1))"

text \<open>\<open>refreshed\<close> is what the first refresh answers.\<close>

definition ustreamer_new_log ::
  "'m log_api \<Rightarrow> string \<Rightarrow> (ustatus, subscription_sync_health) result \<Rightarrow> log_record list" where
  "ustreamer_new_log L name refreshed =
     emit L LevelDebug ''ustreamer_create'' ''ustreamer'' [(''streamer_name'', Text name)] @
     (case refreshed of
        Inr h \<Rightarrow> []
      | Inl err \<Rightarrow>
          emit L LevelWarn ''subscription_bootstrap_failed'' ''ustreamer''
            [(''streamer_name'', Text name), (''err'', Text (la_status_display L err))])"

fun streamer_run_logged ::
  "'m log_api \<Rightarrow> ('m, 'w) env \<Rightarrow> 'w provider \<Rightarrow> command list \<Rightarrow> ustreamer \<Rightarrow> 'w \<Rightarrow>
   (log_record list \<times> ustreamer \<times> 'w) option" where
  "streamer_run_logged L E P [] st w = Some ([], st, w)"
| "streamer_run_logged L E P (Add_Route i out # cs) st w =
     (case add_route_ref_logged L E i out st w of
        (_, None, _) \<Rightarrow> None
      | (log, Some r, st1, w1) \<Rightarrow>
          map_option (\<lambda>(log', st2, w2). (log @ log', st2, w2)) (streamer_run_logged L E P cs st1 w1))"
| "streamer_run_logged L E P (Delete_Route i out # cs) st w =
     (case delete_route_ref_logged L E i out st w of
        (_, None, _) \<Rightarrow> None
      | (log, Some r, st1, w1) \<Rightarrow>
          map_option (\<lambda>(log', st2, w2). (log @ log', st2, w2)) (streamer_run_logged L E P cs st1 w1))"
| "streamer_run_logged L E P (Refresh # cs) st w =
     (case refresh_subscriptions E P st w of (r, st1, w1) \<Rightarrow> streamer_run_logged L E P cs st1 w1)"

section \<open>Writing records changes nothing else\<close>

lemma add_route_ref_unlogged: "add_route_ref E i out st w = snd (add_route_ref_logged L E i out st w)"
  by (simp add: add_route_ref_def add_route_ref_logged_def Let_def
    split: prod.splits option.splits sum.splits add_route_error.splits)

lemma delete_route_ref_unlogged: "delete_route_ref E i out st w = snd (delete_route_ref_logged L E i out st w)"
  by (simp add: delete_route_ref_def delete_route_ref_logged_def Let_def
    split: prod.splits option.splits sum.splits remove_route_error.splits)

lemma streamer_run_unlogged: "streamer_run E P cs st w = map_option snd (streamer_run_logged L E P cs st w)"
proof (induction cs arbitrary: st w)
  case (Cons c cs)
  show ?case
  proof (cases c)
    case (Add_Route i out)
    obtain log r st1 w1 where "add_route_ref_logged L E i out st w = (log, r, st1, w1)" by (metis prod_cases4)
    then show ?thesis using Cons.IH [of st1 w1]
      by (cases r) (simp_all add: Add_Route add_route_ref_unlogged [where L = L] option.map_comp o_def case_prod_beta)
  next
    case (Delete_Route i out)
    obtain log r st1 w1 where "delete_route_ref_logged L E i out st w = (log, r, st1, w1)" by (metis prod_cases4)
    then show ?thesis using Cons.IH [of st1 w1]
      by (cases r) (simp_all add: Delete_Route delete_route_ref_unlogged [where L = L] option.map_comp o_def case_prod_beta)
  next
    case Refresh
    show ?thesis using Cons.IH by (simp add: Refresh split: prod.split)
  qed
qed simp

section \<open>Counting the records of routes\<close>

lemma route_events_differ:
  "ROUTE_ADD_OK \<noteq> ROUTE_ADD_START" "ROUTE_ADD_OK \<noteq> ROUTE_ADD_FAILED" "ROUTE_ADD_OK \<noteq> ROUTE_DELETE_START"
  "ROUTE_ADD_OK \<noteq> ROUTE_DELETE_OK" "ROUTE_ADD_OK \<noteq> ROUTE_DELETE_FAILED"
  "ROUTE_DELETE_OK \<noteq> ROUTE_ADD_START" "ROUTE_DELETE_OK \<noteq> ROUTE_ADD_FAILED"
  "ROUTE_DELETE_OK \<noteq> ROUTE_DELETE_START" "ROUTE_DELETE_OK \<noteq> ROUTE_DELETE_FAILED"
  by code_simp+

lemmas route_log_defs = add_route_ref_logged_def delete_route_ref_logged_def same_authority_log_def
  facade_record_def add_route_log_def remove_route_log_def lifecycle_record_def

lemma add_log_counts:
  assumes "la_on L LevelDebug" and "add_route_ref_logged L E i out st w = (log, r, st', w')"
  shows "event_count ROUTE_ADD_OK log = (if r = Some (Ok ()) then 2 else 0)"
    and "event_count ROUTE_DELETE_OK log = 0"
  using assms route_events_differ route_events_differ [symmetric]
  by (auto simp: route_log_defs Let_def split: prod.splits option.splits sum.splits add_route_error.splits)

lemma delete_log_counts:
  assumes "la_on L LevelDebug" and "delete_route_ref_logged L E i out st w = (log, r, st', w')"
  shows "event_count ROUTE_DELETE_OK log = (if r = Some (Ok ()) then 2 else 0)"
    and "event_count ROUTE_ADD_OK log = 0"
  using assms route_events_differ route_events_differ [symmetric]
  by (auto simp: route_log_defs Let_def split: prod.splits option.splits sum.splits remove_route_error.splits)

context transport_contract
begin

lemma finite_routes: "streamer_inv registrations filter_key supported R E n st w \<Longrightarrow> finite (rs_table (us_routing st))"
  by (simp add: streamer_inv_def routing_inv_def)

lemma add_log_balance:
  assumes "streamer_inv registrations filter_key supported R E n st w" and "e_ext E = X"
    and "route_supported supported i out" and "la_on L LevelDebug"
    and run: "add_route_ref_logged L E i out st w = (log, Some r, st', w')"
  shows "streamer_inv registrations filter_key supported R E n st' w'"
    and "event_count ROUTE_ADD_OK log + 2 * card (rs_table (us_routing st)) =
      event_count ROUTE_DELETE_OK log + 2 * card (rs_table (us_routing st'))"
proof -
  have add: "add_route_ref E i out st w = (Some r, st', w')"
    by (simp add: add_route_ref_unlogged [where L = L] run)
  note inv = add_route_ref_inv [OF assms(1-3) add]
  show "streamer_inv registrations filter_key supported R E n st' w'" by (rule inv(1))
  show "event_count ROUTE_ADD_OK log + 2 * card (rs_table (us_routing st)) =
      event_count ROUTE_DELETE_OK log + 2 * card (rs_table (us_routing st'))"
    using add_log_counts [OF assms(4) run] inv(2,3) finite_routes [OF assms(1)] by (cases r) simp_all
qed

lemma delete_log_balance:
  assumes "streamer_inv registrations filter_key supported R E n st w" and "e_ext E = X" and "la_on L LevelDebug"
    and run: "delete_route_ref_logged L E i out st w = (log, r, st', w')"
  shows "streamer_inv registrations filter_key supported R E n st' w'"
    and "event_count ROUTE_ADD_OK log + 2 * card (rs_table (us_routing st)) =
      event_count ROUTE_DELETE_OK log + 2 * card (rs_table (us_routing st'))"
proof -
  let ?k = "route_key_from_endpoints i out"
  have "delete_route_ref E i out st w = (r, st', w')"
    by (simp add: delete_route_ref_unlogged [where L = L] run)
  then obtain q where r: "r = Some q" and inv: "streamer_inv registrations filter_key supported R E n st' w'"
    and ok: "is_ok q \<longleftrightarrow> ?k \<in> rs_table (us_routing st)"
    and tab: "rs_table (us_routing st') = rs_table (us_routing st) - {?k}"
    using delete_route_ref_inv [OF assms(1,2), of i out] by auto
  show "streamer_inv registrations filter_key supported R E n st' w'" by (rule inv)
  have "?k \<in> rs_table (us_routing st) \<Longrightarrow> card (rs_table (us_routing st)) = Suc (card (rs_table (us_routing st')))"
    unfolding tab using finite_routes [OF assms(1)] by (metis card.remove)
  moreover have "?k \<notin> rs_table (us_routing st) \<Longrightarrow> rs_table (us_routing st') = rs_table (us_routing st)"
    unfolding tab by simp
  ultimately show "event_count ROUTE_ADD_OK log + 2 * card (rs_table (us_routing st)) =
      event_count ROUTE_DELETE_OK log + 2 * card (rs_table (us_routing st'))"
    using delete_log_counts [OF assms(3) run] r ok by (cases q) auto
qed

lemma run_log_balance:
  assumes "streamer_run_logged L E P cs st w = Some (log, st', w')"
    and "streamer_inv registrations filter_key supported R E n st w" and X: "e_ext E = X"
    and quiet: "provider_quiet registrations P" and debug: "la_on L LevelDebug"
    and "list_all (command_supported supported) cs" and "n + length cs + 2 < 2 ^ 64"
  shows "event_count ROUTE_ADD_OK log + 2 * card (rs_table (us_routing st)) =
    event_count ROUTE_DELETE_OK log + 2 * card (rs_table (us_routing st'))"
  using assms(1,2,6,7)
proof (induction cs arbitrary: st w n log)
  case (Cons c cs)
  have mono: "streamer_inv registrations filter_key supported R E n s v \<Longrightarrow>
      streamer_inv registrations filter_key supported R E (n + 1) s v" for s v
    by (simp add: streamer_inv_def)
  have step: "\<exists>log1 log2 st1 w1. log = log1 @ log2 \<and> streamer_run_logged L E P cs st1 w1 = Some (log2, st', w') \<and>
      streamer_inv registrations filter_key supported R E (n + 1) st1 w1 \<and>
      event_count ROUTE_ADD_OK log1 + 2 * card (rs_table (us_routing st)) =
        event_count ROUTE_DELETE_OK log1 + 2 * card (rs_table (us_routing st1))"
  proof (cases c)
    case (Add_Route i out)
    then obtain log1 r st1 w1 log2 where add: "add_route_ref_logged L E i out st w = (log1, Some r, st1, w1)"
      and rest: "streamer_run_logged L E P cs st1 w1 = Some (log2, st', w')" and "log = log1 @ log2"
      using Cons.prems(1) by (auto split: prod.splits option.splits)
    have "route_supported supported i out" using Cons.prems(3) Add_Route by (simp add: command_supported_def)
    note balance = add_log_balance [OF Cons.prems(2) X this debug add]
    show ?thesis
      by (intro exI [of _ log1] exI [of _ log2] exI [of _ st1] exI [of _ w1] conjI rest mono balance \<open>log = log1 @ log2\<close>)
  next
    case (Delete_Route i out)
    then obtain log1 r st1 w1 log2 where del: "delete_route_ref_logged L E i out st w = (log1, r, st1, w1)"
      and rest: "streamer_run_logged L E P cs st1 w1 = Some (log2, st', w')" and "log = log1 @ log2"
      using Cons.prems(1) by (auto split: prod.splits option.splits)
    note balance = delete_log_balance [OF Cons.prems(2) X debug del]
    show ?thesis
      by (intro exI [of _ log1] exI [of _ log2] exI [of _ st1] exI [of _ w1] conjI rest mono balance \<open>log = log1 @ log2\<close>)
  next
    case Refresh
    then obtain r st1 w1 where ref: "refresh_subscriptions E P st w = (r, st1, w1)"
      and rest: "streamer_run_logged L E P cs st1 w1 = Some (log, st', w')"
      using Cons.prems(1) by (auto split: prod.splits)
    have "n + 2 < 2 ^ 64" using Cons.prems(4) by simp
    note inv = refresh_inv [OF Cons.prems(2) quiet ref this]
    have "rs_table (us_routing st1) = rs_table (us_routing st)" using refresh_cases(1) [OF ref] by simp
    then show ?thesis
      by (intro exI [of _ "[]"] exI [of _ log] exI [of _ st1] exI [of _ w1] conjI rest inv) simp_all
  qed
  then obtain log1 log2 st1 w1 where log: "log = log1 @ log2"
    and rest: "streamer_run_logged L E P cs st1 w1 = Some (log2, st', w')"
    and inv: "streamer_inv registrations filter_key supported R E (n + 1) st1 w1"
    and first: "event_count ROUTE_ADD_OK log1 + 2 * card (rs_table (us_routing st)) =
        event_count ROUTE_DELETE_OK log1 + 2 * card (rs_table (us_routing st1))" by blast
  have "list_all (command_supported supported) cs" and "n + 1 + length cs + 2 < 2 ^ 64"
    using Cons.prems(3,4) by simp_all
  from Cons.IH [OF rest inv this] first show ?case unfolding log by simp
qed simp

end

section \<open>Properties\<close>

text \<open>
  C10. The log tells how many routes a streamer has. With debug records on, each success is recorded twice,
  once by the lifecycle and once by the streamer; after any history from the creation of the streamer on,
  the records of added routes outnumber those of deleted ones by twice the routes in the table, and
  writing them has changed nothing else.
\<close>

theorem route_log_balances:
  assumes "transport_contract (e_ext E) regs fk supported" and "provider_quiet regs P"
    and "ustreamer_new E P name qsize w0 = (Inr st0, w1)" and "la_on L LevelDebug"
    and "streamer_run_logged L E P cs st0 w1 = Some (log, st, w)"
    and "list_all (command_supported supported) cs" and "length cs + 3 < 2 ^ 64"
  shows "streamer_run E P cs st0 w1 = Some (st, w) \<and>
    event_count ROUTE_ADD_OK log = event_count ROUTE_DELETE_OK log + 2 * card (rs_table (us_routing st))"
proof -
  obtain r st' where "refresh_subscriptions E P st' w0 = (r, st0, w1)" and "us_routing st' = routing_new (unat qsize)"
    using assms(3) by (auto simp: ustreamer_new_def Let_def split: prod.splits)
  then have "rs_table (us_routing st0) = {}"
    using refresh_cases(1) [of E P st' w0 r st0 w1] by (simp add: routing_new_def route_table_new_def)
  moreover have "1 + length cs + 2 < 2 ^ 64" using assms(7) by simp
  note transport_contract.run_log_balance [OF assms(1,5) ustreamer_new_inv [OF assms(2,3)] refl assms(2,4,6) this]
  moreover have "streamer_run E P cs st0 w1 = Some (st, w)"
    by (simp add: streamer_run_unlogged [where L = L] assms(5))
  ultimately show ?thesis by simp
qed

lemma sample_log_run:
  "map_option (\<lambda>(log, st, w). map (\<lambda>r. (lg_event r, lg_component r)) log)
     (streamer_run_logged sample_log foo_env sample_provider
       [Add_Route endpoint_a endpoint_b, Add_Route endpoint_a endpoint_b, Delete_Route endpoint_b endpoint_a]
       sample_streamer streamer_world) =
   Some [(ROUTE_ADD_START, ''ustreamer''), (ROUTE_ADD_START, ''route_lifecycle''),
     (ROUTE_ADD_OK, ''route_lifecycle''), (ROUTE_ADD_OK, ''ustreamer''),
     (ROUTE_ADD_START, ''ustreamer''), (ROUTE_ADD_START, ''route_lifecycle''),
     (ROUTE_ADD_FAILED, ''route_lifecycle''), (ROUTE_ADD_FAILED, ''ustreamer''),
     (ROUTE_DELETE_START, ''ustreamer''), (ROUTE_DELETE_START, ''route_lifecycle''),
     (ROUTE_DELETE_FAILED, ''route_lifecycle''), (ROUTE_DELETE_FAILED, ''ustreamer'')]"
  by code_simp

theorem route_log_balances_witness:
  "\<exists>log st w. streamer_run_logged sample_log foo_env sample_provider
       [Add_Route endpoint_a endpoint_b, Add_Route endpoint_a endpoint_b, Delete_Route endpoint_b endpoint_a]
       sample_streamer streamer_world = Some (log, st, w) \<and>
     event_count ROUTE_ADD_OK log = 2 \<and> event_count ROUTE_DELETE_OK log = 0 \<and> card (rs_table (us_routing st)) = 1"
proof -
  let ?cs = "[Add_Route endpoint_a endpoint_b, Add_Route endpoint_a endpoint_b, Delete_Route endpoint_b endpoint_a]"
  obtain log st w where run: "streamer_run_logged sample_log foo_env sample_provider ?cs sample_streamer
      streamer_world = Some (log, st, w)"
    and events: "map (\<lambda>r. (lg_event r, lg_component r)) log =
     [(ROUTE_ADD_START, ''ustreamer''), (ROUTE_ADD_START, ''route_lifecycle''),
     (ROUTE_ADD_OK, ''route_lifecycle''), (ROUTE_ADD_OK, ''ustreamer''),
     (ROUTE_ADD_START, ''ustreamer''), (ROUTE_ADD_START, ''route_lifecycle''),
     (ROUTE_ADD_FAILED, ''route_lifecycle''), (ROUTE_ADD_FAILED, ''ustreamer''),
     (ROUTE_DELETE_START, ''ustreamer''), (ROUTE_DELETE_START, ''route_lifecycle''),
     (ROUTE_DELETE_FAILED, ''route_lifecycle''), (ROUTE_DELETE_FAILED, ''ustreamer'')]"
    using sample_log_run by (elim map_option_eq_Some [THEN iffD1, elim_format] exE conjE) auto
  have count: "event_count e log = length (filter (\<lambda>x. x = e) (map fst (map (\<lambda>r. (lg_event r, lg_component r)) log)))" for e
    by (induction log) (simp_all add: event_count_def)
  have "event_count ROUTE_ADD_OK log = 2" "event_count ROUTE_DELETE_OK log = 0"
    unfolding count events using route_events_differ route_events_differ [symmetric] by simp_all
  moreover have "list_all (command_supported (foo_supported (sample_uuri_api []))) ?cs"
    using sample_route_supported by (simp add: command_supported_def)
  note route_log_balances [OF foo_contract sample_provider_quiet sample_streamer_new _ run this]
  ultimately show ?thesis using run
    by (intro exI [of _ log] exI [of _ st] exI [of _ w]) (simp add: sample_log_def)
qed

end
