(* ===== verification/Subscription_Log.thy ===== *)
theory Subscription_Log
  imports Observability
begin

text \<open>
  The log records of the routing tables and of the start of a worker: rebuilding the subscription cache
  (routing/subscription_cache.rs), looking subscribers up (subscription_directory.rs), deriving publish
  filters (publish_resolution.rs) and starting a dispatch loop (runtime/worker_runtime.rs).
\<close>

section \<open>Event names\<close>

definition SUBSCRIPTION_LOOKUP_EMPTY :: string where "SUBSCRIPTION_LOOKUP_EMPTY = ''subscription_lookup_empty''"
definition PUBLISH_SOURCE_FILTER_SKIPPED :: string where "PUBLISH_SOURCE_FILTER_SKIPPED = ''publish_source_filter_skipped''"
definition PUBLISH_SOURCE_FILTER_BUILD_FAILED :: string where "PUBLISH_SOURCE_FILTER_BUILD_FAILED = ''publish_source_filter_build_failed''"
definition RUNTIME_THREAD_NAME_FALLBACK :: string where "RUNTIME_THREAD_NAME_FALLBACK = ''runtime_thread_name_fallback''"
definition RUNTIME_SPAWN_START :: string where "RUNTIME_SPAWN_START = ''runtime_spawn_start''"
definition RUNTIME_SPAWN_OK :: string where "RUNTIME_SPAWN_OK = ''runtime_spawn_ok''"
definition RUNTIME_SPAWN_FAILED :: string where "RUNTIME_SPAWN_FAILED = ''runtime_spawn_failed''"
definition SUBSCRIPTION_SNAPSHOT_REBUILD_START :: string where "SUBSCRIPTION_SNAPSHOT_REBUILD_START = ''subscription_snapshot_rebuild_start''"
definition SUBSCRIPTION_SNAPSHOT_REBUILD_OK :: string where "SUBSCRIPTION_SNAPSHOT_REBUILD_OK = ''subscription_snapshot_rebuild_ok''"
definition SUBSCRIPTION_SNAPSHOT_REBUILD_FAILED :: string where "SUBSCRIPTION_SNAPSHOT_REBUILD_FAILED = ''subscription_snapshot_rebuild_failed''"
definition SUBSCRIPTION_WILDCARD_MERGE_SUMMARY :: string where "SUBSCRIPTION_WILDCARD_MERGE_SUMMARY = ''subscription_wildcard_merge_summary''"
definition REASON_INVALID_THREAD_NAME :: string where "REASON_INVALID_THREAD_NAME = ''invalid_thread_name''"

section \<open>The subscription cache\<close>

text \<open>The reason in the record of a row that cannot be taken over.\<close>

definition row_failure :: "subscription \<Rightarrow> string option" where
  "row_failure s =
     (case sub_topic s of
        None \<Rightarrow> Some ''missing_topic''
      | Some topic \<Rightarrow>
          (case sub_subscriber s of
             None \<Rightarrow> Some ''missing_subscriber''
           | Some subscriber \<Rightarrow>
               (case subscriber_uri subscriber of
                  None \<Rightarrow> Some ''missing_subscriber_authority''
                | Some uri \<Rightarrow> None)))"

fun cache_rows_logged ::
  "'m log_api \<Rightarrow> subscription list \<Rightarrow> (string, subscription_lookup) hashmap \<Rightarrow>
   (ustatus, (string, subscription_lookup) hashmap) result \<times> log_record list" where
  "cache_rows_logged L [] m = (Ok m, [])"
| "cache_rows_logged L (s # ss) m =
     (case cache_row (la_uri L) s m of
        Inl err \<Rightarrow>
          (Err err, emit L LevelError SUBSCRIPTION_SNAPSHOT_REBUILD_FAILED ''subscription_cache''
             [(''reason'', Text (unwrap_or (row_failure s) [])), (''err'', Text (la_status_display L err))])
      | Inr m' \<Rightarrow> cache_rows_logged L ss m')"

definition cache_new_logged ::
  "'m log_api \<Rightarrow> cache_order \<Rightarrow> fetch_subscriptions_response \<Rightarrow>
   (ustatus, subscription_cache) result \<times> log_record list" where
  "cache_new_logged L H snapshot =
     (let input_rows = length snapshot;
          start = emit L LevelDebug SUBSCRIPTION_SNAPSHOT_REBUILD_START ''subscription_cache''
            [(''input_rows'', Number input_rows)]
      in case cache_rows_logged L snapshot [] of
           (Inl e, log) \<Rightarrow> (Err e, start @ log)
         | (Inr m, log) \<Rightarrow>
             (Ok \<lparr>cache_map = m, merged_map = build_wildcard_merged_cache H m\<rparr>,
              start @ log @ emit L LevelDebug SUBSCRIPTION_SNAPSHOT_REBUILD_OK ''subscription_cache''
                [(''input_rows'', Number input_rows), (''authority_count'', Number (length m)),
                 (''subscription_count'', Number (sum_list (map (\<lambda>(a, rows). length rows) m)))]))"

definition row_count :: "(string, subscription_lookup) hashmap \<Rightarrow> string \<Rightarrow> nat" where
  "row_count m entry = (case hm_get m entry of None \<Rightarrow> 0 | Some rows \<Rightarrow> length rows)"

definition wildcard_merge_log :: "'m log_api \<Rightarrow> subscription_cache \<Rightarrow> string \<Rightarrow> log_record list" where
  "wildcard_merge_log L c entry =
     (let exact_count = row_count (cache_map c) entry;
          wildcard_count = (if entry = ''*'' then 0 else row_count (cache_map c) ''*'');
          merged = (if entry = ''*'' then hm_get (merged_map c) ''*''
                    else (case hm_get (merged_map c) entry of
                            Some rows \<Rightarrow> Some rows
                          | None \<Rightarrow> hm_get (cache_map c) ''*''));
          merged_count = (case merged of None \<Rightarrow> 0 | Some rows \<Rightarrow> length rows)
      in emit L LevelDebug SUBSCRIPTION_WILDCARD_MERGE_SUMMARY ''subscription_cache''
           [(''out_authority'', Text entry), (''exact_count'', Number exact_count),
            (''wildcard_count'', Number wildcard_count), (''merged_count'', Number merged_count)])"

section \<open>Lookups and publish filters\<close>

definition lookup_route_subscribers_log ::
  "'m log_api \<Rightarrow> directory_snapshot \<Rightarrow> string \<Rightarrow> log_record list" where
  "lookup_route_subscribers_log L snapshot out_authority =
     wildcard_merge_log L (snapshot_cache snapshot) out_authority @
     (case fetch_cache_entry_with_wildcard (snapshot_cache snapshot) out_authority of
        Some subscribers \<Rightarrow> []
      | None \<Rightarrow>
          emit L LevelWarn SUBSCRIPTION_LOOKUP_EMPTY ''subscription_directory''
            [(''out_authority'', Text out_authority),
             (''snapshot_version'', Number (unat (snapshot_version snapshot)))])"

definition source_filter_log :: "'m log_api \<Rightarrow> string \<Rightarrow> string \<Rightarrow> uuri \<Rightarrow> log_record list" where
  "source_filter_log L a b topic =
     (let U = la_uri L;
          common = [(''in_authority'', Text a), (''out_authority'', Text b),
            (''source_filter'', Text (format_uri U topic))]
      in if \<not> topic_matches_ingress_authority U a topic then
           emit L LevelDebug PUBLISH_SOURCE_FILTER_SKIPPED ''publish_resolution''
             (common @ [(''reason'', Text ''topic_authority_mismatch'')])
         else (case m_try_from_parts U a (ue_id topic) (m_uentity_major_version U topic) (m_resource_id U topic) of
             Inr source_uri \<Rightarrow> []
           | Inl err \<Rightarrow> emit L LevelWarn PUBLISH_SOURCE_FILTER_BUILD_FAILED ''publish_resolution''
               (common @ [(''err'', Text err)])))"

fun derive_loop_log ::
  "'m log_api \<Rightarrow> string \<Rightarrow> string \<Rightarrow> subscription_information list \<Rightarrow>
   (32 word \<times> 8 word \<times> 16 word) set \<Rightarrow> log_record list" where
  "derive_loop_log L a b [] seen = []"
| "derive_loop_log L a b (s # ss) seen =
     (let topic_key = topic_projection_key (la_uri L) (info_topic s) in
      if topic_key \<in> seen then derive_loop_log L a b ss seen
      else source_filter_log L a b (info_topic s) @
        (case derive_source_filter_for_topic (la_uri L) a b (info_topic s) of
           None \<Rightarrow> derive_loop_log L a b ss seen
         | Some source_uri \<Rightarrow> derive_loop_log L a b ss (insert topic_key seen)))"

section \<open>Starting a worker\<close>

definition sanitize_log :: "'m log_api \<Rightarrow> string \<Rightarrow> log_record list" where
  "sanitize_log L thread_name =
     (if thread_name = [] \<or> length thread_name > LINUX_THREAD_NAME_MAX_LEN then
        emit L LevelWarn RUNTIME_THREAD_NAME_FALLBACK ''worker_runtime''
          [(''reason'', Text REASON_INVALID_THREAD_NAME), (''worker_thread'', Text thread_name)]
      else [])"

text \<open>Of the calling thread; a dedicated thread that cannot build a runtime of its own is not modelled.\<close>

definition spawn_log ::
  "'m log_api \<Rightarrow> ('m, 'w) ext \<Rightarrow> string \<Rightarrow> string \<Rightarrow> arc_transport \<Rightarrow> nat \<Rightarrow> 'w \<Rightarrow> log_record list" where
  "spawn_log L X spawn_error thread_name t rx w =
     (let name = sanitize_runtime_thread_name thread_name;
          thread = (''worker_thread'', Text name)
      in sanitize_log L thread_name @
         emit L LevelDebug RUNTIME_SPAWN_START ''worker_runtime'' [thread] @
         (if in_runtime X w then
            emit L LevelDebug RUNTIME_SPAWN_OK ''worker_runtime''
              [thread, (''runtime_strategy'', Text ''shared_runtime_task'')]
          else if fst (spawn_thread X name t rx w) then
            emit L LevelDebug RUNTIME_SPAWN_OK ''worker_runtime''
              [thread, (''runtime_strategy'', Text ''dedicated_thread'')]
          else
            emit L LevelError RUNTIME_SPAWN_FAILED ''worker_runtime''
              [thread, (''reason'', Text ''thread_spawn_failed''), (''err'', Text spawn_error)]))"

section \<open>What the records tell\<close>

lemma row_failure_iff: "row_failure s = None \<longleftrightarrow> (\<exists>m'. cache_row U s m = Ok m')"
  by (auto simp: row_failure_def cache_row_def Let_def split: option.splits)

lemma cache_rows_unlogged: "cache_rows (la_uri L) ss m = fst (cache_rows_logged L ss m)"
  by (induction L ss m rule: cache_rows_logged.induct) (simp_all split: sum.split)

lemma cache_new_unlogged: "cache_new (la_uri L) H snapshot = fst (cache_new_logged L H snapshot)"
  by (simp add: cache_new_def cache_new_logged_def Let_def cache_rows_unlogged split: sum.splits prod.splits)

text \<open>A rebuild that fails names the first row that is incomplete, and only this one.\<close>

lemma rebuild_failure_record:
  assumes "la_on L LevelError" and "cache_rows_logged L ss m = (Err e, log)"
  shows "\<exists>us s vs reason. ss = us @ s # vs \<and> list_all (\<lambda>u. row_failure u = None) us \<and> row_failure s = Some reason \<and>
    log = [\<lparr>lg_level = LevelError, lg_event = SUBSCRIPTION_SNAPSHOT_REBUILD_FAILED, lg_component = ''subscription_cache'',
      lg_fields = [(''reason'', Text reason), (''err'', Text (la_status_display L e))]\<rparr>]"
  using assms(2)
proof (induction ss arbitrary: m)
  case (Cons s ss)
  show ?case
  proof (cases "cache_row (la_uri L) s m")
    case (Inl err)
    then have "row_failure s \<noteq> None" using row_failure_iff [of s "la_uri L" m] by auto
    then obtain reason where r: "row_failure s = Some reason" by blast
    show ?thesis
      by (rule exI [of _ "[]"], rule exI [of _ s], rule exI [of _ ss], rule exI [of _ reason])
        (use Cons.prems Inl r assms(1) in \<open>auto simp: emit_def unwrap_or_def\<close>)
  next
    case (Inr m')
    then have "row_failure s = None" using row_failure_iff [of s "la_uri L" m] by auto
    moreover from Cons.prems Inr have "cache_rows_logged L ss m' = (Err e, log)" by simp
    from Cons.IH [OF this] obtain us s' vs reason where "ss = us @ s' # vs"
      "list_all (\<lambda>u. row_failure u = None) us" "row_failure s' = Some reason"
      "log = [\<lparr>lg_level = LevelError, lg_event = SUBSCRIPTION_SNAPSHOT_REBUILD_FAILED,
         lg_component = ''subscription_cache'',
         lg_fields = [(''reason'', Text reason), (''err'', Text (la_status_display L e))]\<rparr>]"
      by blast
    ultimately show ?thesis
      by (intro exI [of _ "s # us"] exI [of _ s'] exI [of _ vs] exI [of _ reason]) simp
  qed
qed simp

text \<open>A topic leaves a record exactly when no filter is derived from it.\<close>

lemma source_filter_record:
  assumes "log_everything L"
  shows "source_filter_log L a b topic = [] \<longleftrightarrow> derive_source_filter_for_topic (la_uri L) a b topic \<noteq> None"
  using assms
  by (auto simp: source_filter_log_def derive_source_filter_for_topic_def log_everything_def emit_def Let_def
    split: sum.splits)

text \<open>A start is answered by one record of success, or by one of failure and the panic.\<close>

lemma spawn_records:
  assumes "log_everything L" and "la_on L LevelError"
  shows "event_count RUNTIME_SPAWN_START (spawn_log L X e name t rx w) = 1"
    and "event_count RUNTIME_SPAWN_OK (spawn_log L X e name t rx w) =
      (if spawn_route_dispatch_loop X name t rx w = None then 0 else 1)"
    and "event_count RUNTIME_SPAWN_FAILED (spawn_log L X e name t rx w) =
      (if spawn_route_dispatch_loop X name t rx w = None then 1 else 0)"
proof -
  have ne: "RUNTIME_SPAWN_START \<noteq> RUNTIME_SPAWN_OK" "RUNTIME_SPAWN_START \<noteq> RUNTIME_SPAWN_FAILED"
    "RUNTIME_SPAWN_OK \<noteq> RUNTIME_SPAWN_FAILED" "RUNTIME_SPAWN_START \<noteq> RUNTIME_THREAD_NAME_FALLBACK"
    "RUNTIME_SPAWN_OK \<noteq> RUNTIME_THREAD_NAME_FALLBACK" "RUNTIME_SPAWN_FAILED \<noteq> RUNTIME_THREAD_NAME_FALLBACK"
    by code_simp+
  note defs = spawn_log_def sanitize_log_def spawn_route_dispatch_loop_def Let_def log_everything_def
  show "event_count RUNTIME_SPAWN_START (spawn_log L X e name t rx w) = 1"
    using assms ne by (simp add: defs)
  show "event_count RUNTIME_SPAWN_OK (spawn_log L X e name t rx w) =
      (if spawn_route_dispatch_loop X name t rx w = None then 0 else 1)"
    using assms ne ne [symmetric] by (simp add: defs split: prod.splits bool.splits)
  show "event_count RUNTIME_SPAWN_FAILED (spawn_log L X e name t rx w) =
      (if spawn_route_dispatch_loop X name t rx w = None then 1 else 0)"
    using assms ne ne [symmetric] by (simp add: defs split: prod.splits bool.splits)
qed

end
