(* ===== verification/Smoke_Contract.thy ===== *)
theory Smoke_Contract
  imports Smoke_Templates Example_Entities Configurable_Streamer Criterion_Guardrail Observability
begin

text \<open>
  Contracts between programs that share no code: the scenarios of the smoke suite (scenario.rs) and the
  example programs they start (example-streamer-uses/src/bin), with the configuration and the
  subscription file the streamer is started with; and the benchmarks of
  up-streamer/benches/streamer_criterion.rs and the list of them the guardrail requires
  (criterion-guardrail/src/lib.rs). Each side repeats constants of the other.
\<close>

section \<open>Arguments of the programs\<close>

text \<open>
  The scenarios give options as pairs of a flag and its value, each flag once; \<open>clap\<close> takes the value of
  an option that is given and the default of one that is not.
\<close>

fun flag_value :: "string list \<Rightarrow> string \<Rightarrow> string \<Rightarrow> string" where
  "flag_value (f # v # rest) flag d = (if f = flag then v else flag_value rest flag d)"
| "flag_value _ flag d = d"

fun flags_of :: "string list \<Rightarrow> string list" where
  "flags_of (f # v # rest) = f # flags_of rest"
| "flags_of _ = []"

definition option_pairs :: "string list \<Rightarrow> bool" where
  "option_pairs args \<longleftrightarrow> even (length args) \<and> distinct (flags_of args) \<and>
     list_all (\<lambda>f. take 2 f = ''--'') (flags_of args)"

definition effective_local :: "string list \<Rightarrow> entity_args \<Rightarrow> entity_args" where
  "effective_local args a =
     entity_args_of (flag_value args ''--uauthority'' (ea_uauthority a))
       (flag_value args ''--uentity'' (ea_uentity a)) (flag_value args ''--uversion'' (ea_uversion a))
       (flag_value args ''--resource'' (ea_resource a))"

definition effective_peer :: "string list \<Rightarrow> string \<Rightarrow> peer_args \<Rightarrow> peer_args" where
  "effective_peer args role a =
     peer_args_of (flag_value args (''--'' @ role @ ''-authority'') (pa_authority a))
       (flag_value args (''--'' @ role @ ''-uentity'') (pa_uentity a))
       (flag_value args (''--'' @ role @ ''-uversion'') (pa_uversion a))
       (flag_value args (''--'' @ role @ ''-resource'') (pa_resource a))"

text \<open>A program's own entity, and the one it calls or listens to.\<close>

definition program_defaults ::
  "string \<Rightarrow> string \<Rightarrow> (entity_args \<times> (string \<times> peer_args) option) option" where
  "program_defaults dir = map_of
     [(''zenoh_client'', zc_local zenoh_client_defaults, Some (''target'', zc_target zenoh_client_defaults)),
      (''mqtt_client'', mc_local mqtt_client_defaults, Some (''target'', mc_target mqtt_client_defaults)),
      (''someip_client'', sc_local (someip_client_defaults dir),
         Some (''target'', sc_target (someip_client_defaults dir))),
      (''zenoh_service'', zv_local zenoh_service_defaults, None),
      (''mqtt_service'', mv_local mqtt_service_defaults, None),
      (''someip_service'', sv_local (someip_service_defaults dir), None),
      (''zenoh_publisher'', zp_local zenoh_publisher_defaults, None),
      (''mqtt_publisher'', mp_local mqtt_publisher_defaults, None),
      (''someip_publisher'', sp_local (someip_publisher_defaults dir), None),
      (''zenoh_subscriber'', zs_local zenoh_subscriber_defaults,
         Some (''source'', zs_source zenoh_subscriber_defaults)),
      (''mqtt_subscriber'', ms_local mqtt_subscriber_defaults,
         Some (''source'', ms_source mqtt_subscriber_defaults)),
      (''someip_subscriber'', ss_local (someip_subscriber_defaults dir),
         Some (''source'', ss_source (someip_subscriber_defaults dir)))]"

definition program_args ::
  "string \<Rightarrow> process_template \<Rightarrow> (entity_args \<times> (string \<times> peer_args) option) option" where
  "program_args dir p =
     map_option (\<lambda>(a, q). (effective_local (pt_args p) a,
        map_option (\<lambda>(role, b). (role, effective_peer (pt_args p) role b)) q))
       (program_defaults dir (pt_binary p))"

text \<open>The numbers of an entity, as the programs parse them.\<close>

type_synonym entity_numbers = "string \<times> 32 word \<times> 8 word \<times> 16 word"

definition numbers_of :: "string \<Rightarrow> string \<Rightarrow> string \<Rightarrow> string \<Rightarrow> entity_numbers option" where
  "numbers_of authority entity version resource =
     (case (parse_u32_flag ''--uentity'' entity, parse_u8_flag ''--uversion'' version,
            parse_u16_flag ''--resource'' resource) of
        (Inr e, Inr v, Inr r) \<Rightarrow> Some (authority, e, v, r)
      | _ \<Rightarrow> None)"

definition entity_numbers_of :: "entity_args \<Rightarrow> entity_numbers option" where
  "entity_numbers_of a = numbers_of (ea_uauthority a) (ea_uentity a) (ea_uversion a) (ea_resource a)"

definition peer_numbers_of :: "peer_args \<Rightarrow> entity_numbers option" where
  "peer_numbers_of a = numbers_of (pa_authority a) (pa_uentity a) (pa_uversion a) (pa_resource a)"

section \<open>What the streamers are started with\<close>

text \<open>The rows of \<open>subscription_data.json\<close>, the same for both streamers: topic and subscriber.\<close>

definition subscription_data :: "(entity_numbers \<times> entity_numbers) list" where
  "subscription_data =
     [((''authority-b'', 0x3039, 1, 0x8001), (''authority-a'', 0x5678, 1, 0x1234)),
      ((''authority-a'', 0x5BA0, 1, 0x8001), (''authority-b'', 0x5678, 1, 0x1234))]"

text \<open>The endpoints and forwarding rules of configurable-streamer/CONFIG.json5.\<close>

definition shipped_zenoh_endpoints :: "endpoint_config list" where
  "shipped_zenoh_endpoints =
     [\<lparr>ec_authority = ''authority-b'', ec_endpoint = ''endpoint_zenoh_1'',
       ec_forwarding = [''endpoint_mqtt_1'', ''endpoint_zenoh_2'']\<rparr>,
      \<lparr>ec_authority = ''authority-c'', ec_endpoint = ''endpoint_zenoh_2'',
       ec_forwarding = [''endpoint_zenoh_1'']\<rparr>]"

definition shipped_mqtt_endpoints :: "endpoint_config list" where
  "shipped_mqtt_endpoints =
     [\<lparr>ec_authority = ''authority-a'', ec_endpoint = ''endpoint_mqtt_1'',
       ec_forwarding = [''endpoint_zenoh_1'']\<rparr>]"

text \<open>
  The authorities a streamer forwards between, by its binary: those of the forwarding rules for the
  configurable streamer, and both directions between the two configured authorities
  (example-streamer-implementations/DEFAULT_CONFIG.json5) for zenoh_someip.
\<close>

definition authority_pairs :: "endpoint_config list \<Rightarrow> (string \<times> string) list" where
  "authority_pairs cs =
     List.map_filter (\<lambda>(i, out). case (find (\<lambda>c. ec_endpoint c = i) cs, find (\<lambda>c. ec_endpoint c = out) cs) of
        (Some a, Some b) \<Rightarrow> Some (ec_authority a, ec_authority b) | _ \<Rightarrow> None) (forwarding_pairs cs)"

definition streamer_forwards :: "string \<Rightarrow> (string \<times> string) list" where
  "streamer_forwards binary =
     (if binary = ''configurable-streamer'' then authority_pairs (shipped_zenoh_endpoints @ shipped_mqtt_endpoints)
      else if binary = ''zenoh_someip'' then
        [(''authority-b'', ''authority-a''), (''authority-a'', ''authority-b'')]
      else [])"

section \<open>The scenarios fit\<close>

text \<open>
  The active and the passive program name the same entity, on the two sides of a streamer that forwards
  between them; a publisher's topic has a row with the subscriber's authority.
\<close>

definition scenario_fits :: "string \<Rightarrow> scenario_template_t \<Rightarrow> bool" where
  "scenario_fits dir t =
     (option_pairs (pt_args (st_active t)) \<and> option_pairs (pt_args (st_passive t)) \<and>
      (case (program_args dir (st_active t), program_args dir (st_passive t)) of
         (Some (sender, Some (role, target)), Some (service, None)) \<Rightarrow>
           role = ''target'' \<and> peer_numbers_of target = entity_numbers_of service \<and>
           entity_numbers_of service \<noteq> None \<and> entity_numbers_of sender \<noteq> None \<and>
           (ea_uauthority sender, ea_uauthority service) \<in> set (streamer_forwards (pt_binary (st_streamer t))) \<and>
           (ea_uauthority service, ea_uauthority sender) \<in> set (streamer_forwards (pt_binary (st_streamer t)))
       | (Some (publisher, None), Some (subscriber, Some (role, source))) \<Rightarrow>
           role = ''source'' \<and> peer_numbers_of source = entity_numbers_of publisher \<and>
           entity_numbers_of publisher \<noteq> None \<and> entity_numbers_of subscriber \<noteq> None \<and>
           (ea_uauthority publisher, ea_uauthority subscriber) \<in> set (streamer_forwards (pt_binary (st_streamer t))) \<and>
           list_ex (\<lambda>(topic, s). Some topic = entity_numbers_of publisher \<and> fst s = ea_uauthority subscriber)
             subscription_data
       | _ \<Rightarrow> False))"

text \<open>The streamer writes the debug records the claims count.\<close>

definition streamer_logs_debug :: "scenario_template_t \<Rightarrow> bool" where
  "streamer_logs_debug t =
     (case map_of (pt_env (st_streamer t)) ''RUST_LOG'' of
        None \<Rightarrow> False | Some filters \<Rightarrow> str_contains ''up_streamer=debug'' filters)"

text \<open>The numbers that occur, so that the scenarios can be evaluated without parsing them again.\<close>

lemma occurring_numbers:
  "cli_number ''0x0'' 0" "cli_number ''0x1'' (Suc 0)" "cli_number ''0x0421'' 0x0421" "cli_number ''0x1234'' 0x1234"
  "cli_number ''0x1236'' 0x1236" "cli_number ''0x3039'' 0x3039" "cli_number ''0x4321'' 0x4321"
  "cli_number ''0x5678'' 0x5678" "cli_number ''0x5BA0'' 0x5BA0" "cli_number ''0x8001'' 0x8001"
  by (simp_all add: cli_number_def numeral_text_def digits_number_def is_radix_digit_def to_digit_def)

definition occurring_entities :: "((string \<times> string \<times> string) \<times> (32 word \<times> 8 word \<times> 16 word)) list" where
  "occurring_entities =
     [((''0x1236'', ''0x1'', ''0x0''), (0x1236, 1, 0)), ((''0x5678'', ''0x1'', ''0x0''), (0x5678, 1, 0)),
      ((''0x4321'', ''0x1'', ''0x0''), (0x4321, 1, 0)), ((''0x1236'', ''0x1'', ''0x0421''), (0x1236, 1, 0x0421)),
      ((''0x4321'', ''0x1'', ''0x0421''), (0x4321, 1, 0x0421)),
      ((''0x3039'', ''0x1'', ''0x8001''), (0x3039, 1, 0x8001)),
      ((''0x5BA0'', ''0x1'', ''0x8001''), (0x5BA0, 1, 0x8001)),
      ((''0x5678'', ''0x1'', ''0x1234''), (0x5678, 1, 0x1234))]"

lemma numbers_ofI:
  "cli_number e (unat x) \<Longrightarrow> cli_number v (unat y) \<Longrightarrow> cli_number r (unat z) \<Longrightarrow>
     numbers_of a e v r = Some (a, x, y, z)"
  using flags_Ok(1) [of _ e x] flags_Ok(2) [of _ r z] flags_Ok(3) [of _ v y] by (simp add: numbers_of_def)

lemma numbers_of_occurring:
  "map_of occurring_entities (e, v, r) = Some n \<Longrightarrow> numbers_of a e v r = Some (a, n)"
  by (drule map_of_SomeD) (auto simp: occurring_entities_def occurring_numbers intro!: numbers_ofI)

declare numbers_of_def [code del]

lemma numbers_of_code [code]:
  "numbers_of a e v r =
     (case map_of occurring_entities (e, v, r) of
        Some n \<Rightarrow> Some (a, n)
      | None \<Rightarrow>
          (case (parse_u32_flag ''--uentity'' e, parse_u8_flag ''--uversion'' v, parse_u16_flag ''--resource'' r) of
             (Inr x, Inr y, Inr z) \<Rightarrow> Some (a, x, y, z)
           | _ \<Rightarrow> None))"
proof (cases "map_of occurring_entities (e, v, r)")
  case None
  then show ?thesis by (simp add: numbers_of_def)
next
  case (Some n)
  then show ?thesis by (simp add: numbers_of_occurring)
qed

lemma scenarios_checked:
  "list_all (\<lambda>i. case scenario_template i of None \<Rightarrow> False
     | Some t \<Rightarrow> scenario_fits dir t \<and> streamer_logs_debug t) SCENARIO_IDS"
  by code_simp

section \<open>Benchmarks\<close>

text \<open>The groups and functions of \<open>streamer_criterion\<close>, in order; criterion joins their names by a slash.\<close>

definition streamer_benchmarks :: "(string \<times> string list) list" where
  "streamer_benchmarks =
     [(''routing_lookup'', [''exact_authority'', ''wildcard_authority'']),
      (''publish_resolution'', [''source_filter_derivation'']),
      (''ingress_registry'', [''register_route'', ''unregister_route'']),
      (''egress_forwarding'', [''single_route_dispatch''])]"

definition benchmark_ids :: "(string \<times> string list) list \<Rightarrow> string list" where
  "benchmark_ids gs = concat (map (\<lambda>(g, fs). map (\<lambda>f. g @ ''/'' @ f) fs) gs)"

section \<open>Properties\<close>

text \<open>
  C26. The scenarios of the smoke suite fit the programs they start, wherever these were built. With the
  options a scenario gives and the defaults of the others, a client calls exactly the entity its service
  registers for, and a subscriber listens to exactly the topic its publisher publishes; all numbers
  parse; the two programs belong to authorities between which the scenario's streamer forwards, for
  requests in both directions; a publisher's topic has a subscription of the subscriber's authority; and
  the streamer writes the debug records the claims count.
\<close>

theorem smoke_scenarios_fit:
  "case scenario_template i of
     None \<Rightarrow> i \<notin> set SCENARIO_IDS
   | Some t \<Rightarrow> scenario_fits dir t \<and> streamer_logs_debug t"
proof (cases "scenario_template i")
  case None
  then show ?thesis using scenarios_checked [of dir] by (auto simp: list_all_iff)
next
  case (Some t)
  then show ?thesis using scenarios_checked [of dir] scenario_template_id [OF Some]
    by (auto simp: list_all_iff)
qed

text \<open>
  The guardrail requires exactly the benchmarks that are run, in the order in which they are run, and
  its two classes of groups divide the groups between them.
\<close>

theorem required_benchmarks_are_run:
  "benchmark_ids streamer_benchmarks = REQUIRED_BENCHMARK_IDS \<and>
   set (map fst streamer_benchmarks) = set THROUGHPUT_GROUPS \<union> set LATENCY_GROUPS \<and>
   set THROUGHPUT_GROUPS \<inter> set LATENCY_GROUPS = {} \<and>
   set ALLOC_PROXY_BENCHMARK_IDS \<subseteq> set REQUIRED_BENCHMARK_IDS"
  by code_simp

end
