(* ===== verification/Integration_Tests.thy ===== *)
theory Integration_Tests
  imports Route_Wiring Test_Driver_Pause "HOL-Library.Code_Target_Nat"
begin

text \<open>
  The integration tests of up-streamer (up-streamer/tests): a streamer bridges between transports of the
  repository's own, clients on them send to each other, and the test starts, pauses, commands and joins
  them while it adds and deletes routes. What is modelled is the task of each test, as the list of what it
  does; the clients are those of \<open>Test_Driver\<close>.
\<close>

section \<open>Steps of a test\<close>

record test_client =
  tc_name :: string
  tc_uuri :: uuri
  tc_messages :: client_messages
  tc_command :: client_command

text \<open>
  Clients are named as the variables of the tests are. \<open>OnClient\<close> acts on the command or the flag of one
  client, \<open>AllClients\<close> on the flag they share. Waits that are joined are listed one after the other.
\<close>

datatype test_step =
    AssertAdd endpoint endpoint
  | AssertDelete endpoint endpoint
  | StartClient string test_client
  | OnClient string tester_op
  | AllClients tester_op
  | AwaitCount string "64 word"
  | AwaitDelta string "64 word"
  | JoinClient string

subsection \<open>tests/support\<close>

definition support_make_streamer ::
  "('m, 'w) env \<Rightarrow> 'w provider \<Rightarrow> string \<Rightarrow> 16 word \<Rightarrow> 'w \<Rightarrow> (ustreamer \<times> 'w) option" where
  "support_make_streamer E P name message_queue_size w =
     (case ustreamer_new E P name message_queue_size w of (Inl e, w1) \<Rightarrow> None | (Inr st, w1) \<Rightarrow> Some (st, w1))"

definition assert_add_rule_ok ::
  "('m, 'w) env \<Rightarrow> endpoint \<Rightarrow> endpoint \<Rightarrow> ustreamer \<Rightarrow> 'w \<Rightarrow> (ustreamer \<times> 'w) option" where
  "assert_add_rule_ok E i out st w =
     (case add_route_ref E i out st w of (Some (Inr _), st1, w1) \<Rightarrow> Some (st1, w1) | _ \<Rightarrow> None)"

definition assert_delete_rule_ok ::
  "('m, 'w) env \<Rightarrow> endpoint \<Rightarrow> endpoint \<Rightarrow> ustreamer \<Rightarrow> 'w \<Rightarrow> (ustreamer \<times> 'w) option" where
  "assert_delete_rule_ok E i out st w =
     (case delete_route_ref E i out st w of (Some (Inr _), st1, w1) \<Rightarrow> Some (st1, w1) | _ \<Rightarrow> None)"

subsection \<open>What a test does to the streamer\<close>

text \<open>\<open>None\<close> once an assertion fails. The clients do not touch the streamer's routes.\<close>

fun test_rules :: "('m, 'w) env \<Rightarrow> test_step list \<Rightarrow> ustreamer \<Rightarrow> 'w \<Rightarrow> (ustreamer \<times> 'w) option" where
  "test_rules E [] st w = Some (st, w)"
| "test_rules E (s # ss) st w =
     (case (case s of
          AssertAdd i out \<Rightarrow> assert_add_rule_ok E i out st w
        | AssertDelete i out \<Rightarrow> assert_delete_rule_ok E i out st w
        | _ \<Rightarrow> Some (st, w)) of
        None \<Rightarrow> None
      | Some (st1, w1) \<Rightarrow> test_rules E ss st1 w1)"

section \<open>Endpoints and messages\<close>

definition local_endpoint :: "arc_transport \<Rightarrow> endpoint" where
  "local_endpoint t = endpoint_new ''local_endpoint'' local_authority t"

definition remote_endpoint :: "arc_transport \<Rightarrow> endpoint" where
  "remote_endpoint t = endpoint_new ''remote_endpoint'' remote_authority_a t"

definition remote_endpoint_a :: "arc_transport \<Rightarrow> endpoint" where
  "remote_endpoint_a t = endpoint_new ''remote_endpoint_a'' remote_authority_a t"

definition remote_endpoint_b :: "arc_transport \<Rightarrow> endpoint" where
  "remote_endpoint_b t = endpoint_new ''remote_endpoint_b'' remote_authority_b t"

text \<open>The messages of the local client to clients of some authorities, and of a remote client to the local one.\<close>

definition messages_to :: "string list \<Rightarrow> client_messages" where
  "messages_to authorities =
     \<lparr>cm_notification_msgs = map (\<lambda>a. notification_from_local_client_for_remote_client 10 (remote_client_uuri a 200)) authorities,
      cm_request_msgs = map (\<lambda>a. request_from_local_client_for_remote_client 10 (remote_client_uuri a 200)) authorities,
      cm_response_msgs = map (\<lambda>a. response_from_local_client_for_remote_client 10 (remote_client_uuri a 200)) authorities\<rparr>"

definition messages_from :: "string \<Rightarrow> client_messages" where
  "messages_from a =
     \<lparr>cm_notification_msgs = [notification_from_remote_client_for_local_client (remote_client_uuri a 200) 10],
      cm_request_msgs = [request_from_remote_client_for_local_client (remote_client_uuri a 200) 10],
      cm_response_msgs = [response_from_remote_client_for_local_client (remote_client_uuri a 200) 10]\<rparr>"

section \<open>single_local_single_remote.rs\<close>

definition single_rules :: "arc_transport \<Rightarrow> arc_transport \<Rightarrow> test_step list" where
  "single_rules foo bar =
     [AssertAdd (local_endpoint foo) (remote_endpoint bar), AssertAdd (remote_endpoint bar) (local_endpoint foo)]"

definition single_local_client :: test_client where
  "single_local_client = \<lparr>tc_name = ''local_foo_client'', tc_uuri = local_client_uuri 10,
     tc_messages = messages_to [remote_authority_a], tc_command = ConnectedToStreamer [True]\<rparr>"

definition single_remote_client :: test_client where
  "single_remote_client = \<lparr>tc_name = ''remote_bar_client'', tc_uuri = remote_client_uuri remote_authority_a 200,
     tc_messages = messages_from remote_authority_a, tc_command = ConnectedToStreamer [True]\<rparr>"

definition single_exchange :: "test_step list" where
  "single_exchange =
     [OnClient ''local'' WaitForPause, OnClient ''remote'' WaitForPause,
      OnClient ''local'' ResetPause, OnClient ''remote'' ResetPause, AllClients SignalResume,
      AwaitCount ''local'' 3, AwaitCount ''remote'' 3,
      OnClient ''local'' (SetCommand Stop), OnClient ''remote'' (SetCommand Stop), AllClients SignalPause,
      JoinClient ''local'', JoinClient ''remote'']"

definition single_local_single_remote :: "arc_transport \<Rightarrow> arc_transport \<Rightarrow> test_step list" where
  "single_local_single_remote foo bar =
     single_rules foo bar @
     [StartClient ''local'' single_local_client, StartClient ''remote'' single_remote_client] @
     single_exchange"

section \<open>single_local_two_remote_authorities_different_remote_transport.rs\<close>

definition different_rules :: "arc_transport \<Rightarrow> arc_transport \<Rightarrow> arc_transport \<Rightarrow> test_step list" where
  "different_rules foo bar_1 bar_2 =
     [AssertAdd (local_endpoint foo) (remote_endpoint_a bar_1), AssertAdd (remote_endpoint_a bar_1) (local_endpoint foo),
      AssertAdd (local_endpoint foo) (remote_endpoint_b bar_2), AssertAdd (remote_endpoint_b bar_2) (local_endpoint foo)]"

definition different_local_client :: test_client where
  "different_local_client = \<lparr>tc_name = ''local_foo_client'', tc_uuri = local_client_uuri 10,
     tc_messages = messages_to [remote_authority_a, remote_authority_b],
     tc_command = ConnectedToStreamer [True, True]\<rparr>"

definition different_remote_a_client :: test_client where
  "different_remote_a_client = \<lparr>tc_name = ''remote_a_bar_client'',
     tc_uuri = remote_client_uuri remote_authority_a 200,
     tc_messages = messages_from remote_authority_a, tc_command = ConnectedToStreamer [True]\<rparr>"

definition different_remote_b_client :: test_client where
  "different_remote_b_client = \<lparr>tc_name = ''remote_b_bar_client'',
     tc_uuri = remote_client_uuri remote_authority_b 200,
     tc_messages = messages_from remote_authority_b, tc_command = ConnectedToStreamer [True]\<rparr>"

definition different_exchange :: "test_step list" where
  "different_exchange =
     [OnClient ''local'' WaitForPause, OnClient ''remote_a'' WaitForPause, OnClient ''remote_b'' WaitForPause,
      OnClient ''local'' ResetPause, OnClient ''remote_a'' ResetPause, OnClient ''remote_b'' ResetPause,
      AllClients SignalResume,
      AwaitCount ''local'' 6, AwaitCount ''remote_a'' 3, AwaitCount ''remote_b'' 3,
      OnClient ''local'' (SetCommand Stop), OnClient ''remote_a'' (SetCommand Stop),
      OnClient ''remote_b'' (SetCommand Stop), AllClients SignalPause,
      JoinClient ''local'', JoinClient ''remote_a'', JoinClient ''remote_b'']"

definition different_remote_transport :: "arc_transport \<Rightarrow> arc_transport \<Rightarrow> arc_transport \<Rightarrow> test_step list" where
  "different_remote_transport foo bar_1 bar_2 =
     different_rules foo bar_1 bar_2 @
     [StartClient ''local'' different_local_client, StartClient ''remote_a'' different_remote_a_client,
      StartClient ''remote_b'' different_remote_b_client] @
     different_exchange"

section \<open>single_local_two_remote_authorities_same_remote_transport.rs\<close>

text \<open>Ignored when the tests are run.\<close>

definition same_rules :: "arc_transport \<Rightarrow> arc_transport \<Rightarrow> test_step list" where
  "same_rules foo bar =
     [AssertAdd (local_endpoint foo) (remote_endpoint_a bar), AssertAdd (remote_endpoint_a bar) (local_endpoint foo),
      AssertAdd (local_endpoint foo) (remote_endpoint_b bar), AssertAdd (remote_endpoint_b bar) (local_endpoint foo)]"

definition same_local_client :: test_client where
  "same_local_client = \<lparr>tc_name = ''local_foo_client'', tc_uuri = local_client_uuri 10,
     tc_messages = messages_to [remote_authority_a, remote_authority_b],
     tc_command = ConnectedToStreamer [True, True]\<rparr>"

definition same_remote_a_client :: test_client where
  "same_remote_a_client = \<lparr>tc_name = ''remote_a_bar_client'',
     tc_uuri = remote_client_uuri remote_authority_a 200,
     tc_messages = messages_from remote_authority_a, tc_command = ConnectedToStreamer [True]\<rparr>"

definition same_remote_b_client :: test_client where
  "same_remote_b_client = \<lparr>tc_name = ''remote_b_bar_client'',
     tc_uuri = remote_client_uuri remote_authority_b 200,
     tc_messages = messages_from remote_authority_b, tc_command = ConnectedToStreamer [True, True]\<rparr>"

definition same_exchange :: "test_step list" where
  "same_exchange =
     [OnClient ''local'' WaitForPause, OnClient ''remote_a'' WaitForPause, OnClient ''remote_b'' WaitForPause,
      OnClient ''local'' ResetPause, OnClient ''remote_a'' ResetPause, OnClient ''remote_b'' ResetPause,
      AllClients SignalResume,
      AwaitCount ''local'' 6, AwaitCount ''remote_a'' 3, AwaitCount ''remote_b'' 3,
      OnClient ''local'' (SetCommand Stop), OnClient ''remote_a'' (SetCommand Stop),
      OnClient ''remote_b'' (SetCommand Stop), AllClients SignalPause,
      JoinClient ''local'', JoinClient ''remote_a'', JoinClient ''remote_b'']"

definition same_remote_transport :: "arc_transport \<Rightarrow> arc_transport \<Rightarrow> test_step list" where
  "same_remote_transport foo bar =
     same_rules foo bar @
     [StartClient ''local'' same_local_client, StartClient ''remote_a'' same_remote_a_client,
      StartClient ''remote_b'' same_remote_b_client] @
     same_exchange"

section \<open>single_local_two_remote_add_remove_rules.rs\<close>

definition add_remove_first_rules :: "arc_transport \<Rightarrow> arc_transport \<Rightarrow> test_step list" where
  "add_remove_first_rules foo bar_1 =
     [AssertAdd (local_endpoint foo) (remote_endpoint_a bar_1), AssertAdd (remote_endpoint_a bar_1) (local_endpoint foo)]"

definition add_remove_local_client :: test_client where
  "add_remove_local_client = \<lparr>tc_name = ''local_foo_client'', tc_uuri = local_client_uuri 10,
     tc_messages = messages_to [remote_authority_a, remote_authority_b],
     tc_command = ConnectedToStreamer [True, False]\<rparr>"

definition add_remove_remote_a_client :: test_client where
  "add_remove_remote_a_client = \<lparr>tc_name = ''remote_a_bar_client'',
     tc_uuri = remote_client_uuri remote_authority_a 200,
     tc_messages = messages_from remote_authority_a, tc_command = ConnectedToStreamer [True]\<rparr>"

definition add_remove_remote_b_client :: test_client where
  "add_remove_remote_b_client = \<lparr>tc_name = ''remote_b_bar_client'',
     tc_uuri = remote_client_uuri remote_authority_b 200,
     tc_messages = messages_from remote_authority_b, tc_command = ConnectedToStreamer [True]\<rparr>"

text \<open>Local and remote_a run; then both are paused.\<close>

definition add_remove_first_exchange :: "test_step list" where
  "add_remove_first_exchange =
     [OnClient ''local'' WaitForPause, OnClient ''remote_a'' WaitForPause,
      OnClient ''local'' ResetPause, OnClient ''remote_a'' ResetPause, AllClients SignalResume,
      AwaitCount ''local'' 3, AwaitCount ''remote_a'' 3,
      OnClient ''local'' (SetCommand (ConnectedToStreamer [True, True])), OnClient ''remote_a'' (SetCommand NoOp),
      AllClients SignalPause, OnClient ''local'' WaitForPause, OnClient ''remote_a'' WaitForPause]"

text \<open>Remote_b joins, with its routes.\<close>

definition add_remove_second_exchange :: "arc_transport \<Rightarrow> arc_transport \<Rightarrow> test_step list" where
  "add_remove_second_exchange foo bar_2 =
     [AssertAdd (local_endpoint foo) (remote_endpoint_b bar_2), AssertAdd (remote_endpoint_b bar_2) (local_endpoint foo),
      OnClient ''remote_b'' WaitForPause, AllClients SignalResume,
      AwaitDelta ''local'' 6, AwaitDelta ''remote_a'' 3, AwaitDelta ''remote_b'' 3,
      OnClient ''local'' (SetCommand (ConnectedToStreamer [False, True])), OnClient ''remote_a'' (SetCommand Stop),
      OnClient ''remote_b'' (SetCommand NoOp), AllClients SignalPause, JoinClient ''remote_a'',
      OnClient ''local'' WaitForPause, OnClient ''remote_b'' WaitForPause]"

text \<open>Remote_a has left, and its routes are deleted.\<close>

definition add_remove_last_exchange :: "arc_transport \<Rightarrow> arc_transport \<Rightarrow> test_step list" where
  "add_remove_last_exchange foo bar_1 =
     [AssertDelete (local_endpoint foo) (remote_endpoint_a bar_1),
      AssertDelete (remote_endpoint_a bar_1) (local_endpoint foo), AllClients SignalResume,
      AwaitDelta ''local'' 3, AwaitDelta ''remote_b'' 3,
      OnClient ''local'' (SetCommand Stop), OnClient ''remote_b'' (SetCommand Stop), AllClients SignalPause,
      JoinClient ''local'', JoinClient ''remote_b'']"

definition add_remove_rules :: "arc_transport \<Rightarrow> arc_transport \<Rightarrow> arc_transport \<Rightarrow> test_step list" where
  "add_remove_rules foo bar_1 bar_2 =
     add_remove_first_rules foo bar_1 @
     [StartClient ''local'' add_remove_local_client, StartClient ''remote_a'' add_remove_remote_a_client] @
     add_remove_first_exchange @
     [StartClient ''remote_b'' add_remove_remote_b_client] @
     add_remove_second_exchange foo bar_2 @
     add_remove_last_exchange foo bar_1"

section \<open>How the tests end\<close>

text \<open>
  With what the joined clients have counted as sent, and what their listeners have stored: \<open>ord\<close> is the
  order in which the order check iterates a map.
\<close>

definition test_verdict ::
  "(grouped_messages \<Rightarrow> grouped_messages) \<Rightarrow> (64 word \<times> message_store) list \<Rightarrow> bool" where
  "test_verdict ord clients \<longleftrightarrow>
     check_send_receive_message_discrepancy (sum_list (map fst clients))
       (of_nat (sum_list (map (\<lambda>(n, store). length store) clients))) f64_zero \<noteq> None \<and>
     list_all (\<lambda>(n, store). is_ok (check_messages_in_order ord store)) clients"

section \<open>api_contract_forwarding_rules.rs and usubscription.rs\<close>

text \<open>\<open>NoopTransport\<close> takes everything and keeps nothing.\<close>

definition noop_transports :: "('m, 'w) ext \<Rightarrow> ('m, 'w) ext" where
  "noop_transports X = X\<lparr>ut_register := (\<lambda>t src snk l w. (Ok (), w)),
     ut_unregister := (\<lambda>t src snk l w. (Ok (), w)), ut_send := (\<lambda>t m w. (Ok (), w))\<rparr>"

definition contract_streamer ::
  "('m, 'w) env \<Rightarrow> 'w provider \<Rightarrow> 'w \<Rightarrow> (ustreamer \<times> 'w) option" where
  "contract_streamer E P w = support_make_streamer E P ''api-contract-test'' 32 w"

text \<open>The answers of the calls, in order; the tests compare them with the ones they expect.\<close>

definition contract_duplicate_and_missing ::
  "('m, 'w) env \<Rightarrow> 'w provider \<Rightarrow> arc_transport \<Rightarrow> arc_transport \<Rightarrow> 'w \<Rightarrow>
   (ustatus, unit) result option list option" where
  "contract_duplicate_and_missing E P local_transport remote_transport w =
     (let l = endpoint_new ''local'' ''local-authority'' local_transport;
          r = endpoint_new ''remote'' ''remote-authority'' remote_transport
      in case contract_streamer E P w of
           None \<Rightarrow> None
         | Some (st, w0) \<Rightarrow>
             (let (r1, st1, w1) = add_route_ref E l r st w0;
                  (r2, st2, w2) = add_route_ref E l r st1 w1;
                  (r3, st3, w3) = delete_route_ref E l r st2 w2;
                  (r4, st4, w4) = delete_route_ref E l r st3 w3
              in Some [r1, r2, r3, r4]))"

definition contract_same_authority ::
  "('m, 'w) env \<Rightarrow> 'w provider \<Rightarrow> arc_transport \<Rightarrow> 'w \<Rightarrow> (ustatus, unit) result option list option" where
  "contract_same_authority E P transport w =
     (let a = endpoint_new ''a'' ''shared-authority'' transport;
          b = endpoint_new ''b'' ''shared-authority'' transport
      in case contract_streamer E P w of
           None \<Rightarrow> None
         | Some (st, w0) \<Rightarrow>
             (let (r1, st1, w1) = add_route_ref E a b st w0;
                  (r2, st2, w2) = delete_route_ref E a b st1 w1
              in Some [r1, r2]))"

definition usubscription_bad_data ::
  "('m, 'w) env \<Rightarrow> 'w provider \<Rightarrow> arc_transport \<Rightarrow> arc_transport \<Rightarrow> 'w \<Rightarrow> (ustatus, unit) result option option" where
  "usubscription_bad_data E P foo bar w =
     (case ustreamer_new E P ''foo_bar_streamer'' 3000 w of
        (Inl e, w0) \<Rightarrow> None
      | (Inr st, w0) \<Rightarrow> Some (fst (add_route_ref E (local_endpoint foo) (remote_endpoint bar) st w0)))"

section \<open>The world of the tests\<close>

text \<open>Three \<open>UPClientFoo\<close>, and the rows of static-configs/testdata.json.\<close>

definition test_transport :: "nat \<Rightarrow> arc_transport" where
  "test_transport n = \<lparr>arc_addr = n, arc_vtable = 0\<rparr>"

definition test_world :: "nat foo_world" where
  "test_world = foo_start\<lparr>fw_clients :=
     [(test_transport 1, foo_new ''upclient_foo''), (test_transport 2, foo_new ''upclient_bar_1''),
      (test_transport 3, foo_new ''upclient_bar_2'')]\<rparr>"

definition testdata_row :: "string \<Rightarrow> 32 word \<Rightarrow> string \<Rightarrow> subscription" where
  "testdata_row publisher entity subscriber =
     \<lparr>sub_topic = Some \<lparr>authority_name = publisher, ue_id = entity, ue_version_major = 1, resource_id = 0x8001\<rparr>,
      sub_subscriber = Some \<lparr>subscriber_uri =
        Some \<lparr>authority_name = subscriber, ue_id = 0x5678, ue_version_major = 1, resource_id = 0x1234\<rparr>\<rparr>\<rparr>"

definition test_provider :: "nat foo_world provider" where
  "test_provider = \<lparr>pv_fetch = (\<lambda>w. (Inr [testdata_row ''authority-b'' 0x3039 ''authority-a'',
     testdata_row ''authority-a'' 0x5BA0 ''authority-b''], w)), pv_now = (\<lambda>w. 0)\<rparr>"

definition test_start :: "(ustreamer \<times> nat foo_world) option" where
  "test_start = support_make_streamer foo_env test_provider ''foo_bar_streamer'' 3000 test_world"

definition run_test :: "test_step list \<Rightarrow> (ustreamer \<times> nat foo_world) option" where
  "run_test test = (case test_start of None \<Rightarrow> None | Some (st, w) \<Rightarrow> test_rules foo_env test st w)"

definition route_of :: "endpoint \<times> endpoint \<Rightarrow> route_key" where
  "route_of p = route_key_from_endpoints (fst p) (snd p)"

end
