(* ===== verification/Integration_Properties.thy ===== *)
theory Integration_Properties
  imports Integration_Tests
begin

text \<open>
  What the integration tests establish in the model: their assertions about routes hold, which transports
  their messages reach, and how the last check judges what was sent and received.
\<close>

section \<open>Which transports a message reaches\<close>

text \<open>
  The listeners that the client of a transport calls for a message send to channels; the transports of the
  dispatch loops on these channels, with repetitions.
\<close>

definition reached :: "nat foo_world \<Rightarrow> arc_transport \<Rightarrow> test_message \<Rightarrow> arc_transport list" where
  "reached w t msg =
     (case (hm_get (fw_clients w) t, tm_attributes msg) of
        (Some c, Some attr) \<Rightarrow>
          concat (map (\<lambda>l. map fst (filter (\<lambda>x. snd x = lsn_sender l) (fw_tasks w @ map snd (fw_threads w))))
            (fst (process_message (sample_uuri_api []) (\<lambda>S. S) (at_sink attr) (at_source attr) c)))
      | _ \<Rightarrow> [])"

definition reached_by ::
  "(ustreamer \<times> nat foo_world) option \<Rightarrow> (arc_transport \<times> test_client) list \<Rightarrow>
   arc_transport list list list option" where
  "reached_by test clients =
     map_option (\<lambda>(st, w). map (\<lambda>(t, k). map (reached w t)
       (cm_notification_msgs (tc_messages k) @ cm_request_msgs (tc_messages k) @ cm_response_msgs (tc_messages k)))
       clients) test"

abbreviation "foo_transport_1 \<equiv> test_transport 1"
abbreviation "bar_transport_1 \<equiv> test_transport 2"
abbreviation "bar_transport_2 \<equiv> test_transport 3"

lemma single_test_reached:
  "reached_by (run_test (single_local_single_remote foo_transport_1 bar_transport_1))
     [(foo_transport_1, single_local_client), (bar_transport_1, single_remote_client)] =
   Some [replicate 3 [bar_transport_1], replicate 3 [foo_transport_1]]"
  by code_simp

lemma different_test_reached:
  "reached_by (run_test (different_remote_transport foo_transport_1 bar_transport_1 bar_transport_2))
     [(foo_transport_1, different_local_client), (bar_transport_1, different_remote_a_client),
      (bar_transport_2, different_remote_b_client)] =
   Some [concat (replicate 3 [[bar_transport_1], [bar_transport_2]]), replicate 3 [foo_transport_1],
         replicate 3 [foo_transport_1]]"
  by code_simp

definition add_remove_clients :: "(arc_transport \<times> test_client) list" where
  "add_remove_clients = [(foo_transport_1, add_remove_local_client), (bar_transport_1, add_remove_remote_a_client),
     (bar_transport_2, add_remove_remote_b_client)]"

lemma add_remove_first_reached:
  "reached_by (run_test (add_remove_first_rules foo_transport_1 bar_transport_1 @ add_remove_first_exchange))
     add_remove_clients =
   Some [concat (replicate 3 [[bar_transport_1], []]), replicate 3 [foo_transport_1], replicate 3 []]"
  by code_simp

lemma add_remove_second_reached:
  "reached_by (run_test (add_remove_first_rules foo_transport_1 bar_transport_1 @ add_remove_first_exchange @
       add_remove_second_exchange foo_transport_1 bar_transport_2)) add_remove_clients =
   Some [concat (replicate 3 [[bar_transport_1], [bar_transport_2]]), replicate 3 [foo_transport_1],
         replicate 3 [foo_transport_1]]"
  by code_simp

lemma add_remove_last_reached:
  "reached_by (run_test (add_remove_rules foo_transport_1 bar_transport_1 bar_transport_2)) add_remove_clients =
   Some [concat (replicate 3 [[], [bar_transport_2]]), replicate 3 [], replicate 3 [foo_transport_1]]"
  by code_simp

text \<open>
  Where both remote authorities are behind one transport, the listeners of both routes to the local client
  are called for whatever comes from either, since the transport looks them up by the sink's authority
  alone: each message to the local client reaches its transport twice. This test is ignored.
\<close>

lemma same_test_reached:
  "reached_by (run_test (same_remote_transport foo_transport_1 bar_transport_1))
     [(foo_transport_1, same_local_client), (bar_transport_1, same_remote_a_client),
      (bar_transport_1, same_remote_b_client)] =
   Some [replicate 6 [bar_transport_1], replicate 3 [foo_transport_1, foo_transport_1],
         replicate 3 [foo_transport_1, foo_transport_1]]"
  by code_simp

section \<open>The last check\<close>

lemma f64_of_u64_exact: "unat n < 2 ^ 53 \<Longrightarrow> f64_of_u64 n = Finite False (of_nat (unat n))"
  unfolding f64_of_u64_def by (rule f64_of_nat)

lemma f64_nat_difference:
  assumes "m < 2 ^ 53" and "n < 2 ^ 53"
  shows "f64_abs (f64_sub (Finite False (of_nat m)) (Finite False (of_nat n))) =
    Finite False (of_nat (if m < n then n - m else m - n))"
proof (cases "m = n")
  case False
  have x: "\<bar>of_nat m - of_nat n :: rat\<bar> = of_nat (if m < n then n - m else m - n)"
    by (simp add: of_nat_diff)
  have "f64_of b \<bar>of_nat m - of_nat n\<bar> = Finite b (of_nat (if m < n then n - m else m - n))" for b
    unfolding x by (rule f64_of_nat) (use assms in auto)
  then show ?thesis using False by (simp add: f64_sub_def f64_sum_def f64_abs_def)
qed (simp add: f64_sub_self f64_zero_def f64_abs_def)

lemma discrepancy_exact:
  assumes "unat sent < 2 ^ 53" and "unat received < 2 ^ 53"
  shows "check_send_receive_message_discrepancy sent received f64_zero \<noteq> None \<longleftrightarrow> 0 < sent \<and> sent = received"
  using f64_nat_difference [OF assms] assms
  by (auto simp: check_send_receive_message_discrepancy_def f64_of_u64_exact f64_zero_def f64_gt_def
    word_less_nat_alt word_unat_eq_iff split: if_splits)

lemma test_verdict_counts:
  assumes "test_verdict ord clients"
    and "unat (sum_list (map fst clients)) < 2 ^ 53"
    and "sum_list (map (\<lambda>(n, store). length store) clients) < 2 ^ 53"
  shows "unat (sum_list (map fst clients)) = sum_list (map (\<lambda>(n, store). length store) clients)"
proof -
  let ?received = "sum_list (map (\<lambda>(n, store). length store) clients)"
  have small: "?received < 2 ^ LENGTH(64)" using assms(3) by simp
  have received: "unat (of_nat ?received :: 64 word) = ?received"
    using small by (simp add: unat_of_nat)
  from assms(1) have "check_send_receive_message_discrepancy (sum_list (map fst clients)) (of_nat ?received) f64_zero
      \<noteq> None"
    by (simp add: test_verdict_def)
  with discrepancy_exact [of "sum_list (map fst clients)" "of_nat ?received"] received assms(2,3)
  show ?thesis by simp
qed

section \<open>The tests of the contract\<close>

definition contract_env :: "(nat, nat foo_world) env" where
  "contract_env = foo_env\<lparr>e_ext := noop_transports (e_ext foo_env)\<rparr>"

lemma contract_tests_pass:
  "contract_duplicate_and_missing contract_env test_provider (test_transport 4) (test_transport 5) test_world =
     Some [Some (Ok ()), Some (Err (fail_with_code ALREADY_EXISTS ''already exists'')), Some (Ok ()),
       Some (Err (fail_with_code NOT_FOUND ''not found''))]"
  "map_option (map (map_option (map_sum status_code id)))
     (contract_same_authority contract_env test_provider (test_transport 4) test_world) =
     Some [Some (Err INVALID_ARGUMENT), Some (Err INVALID_ARGUMENT)]"
  by code_simp+

lemma usubscription_test_passes:
  "usubscription_bad_data foo_env test_provider (test_transport 4) (test_transport 5) test_world =
     Some (Some (Err (fail_with_code INVALID_ARGUMENT
       ''Failed to register notification request/response listener'')))"
  by code_simp

end
