(* ===== verification/Proto_Build.thy ===== *)
theory Proto_Build
  imports Smoke_System Criterion_Guardrail
begin

text \<open>
  The build script of the hello-world messages (utils/hello-world-protos/build.rs): where the fetched files
  are put, and what is handed to the code generator. The environment, the file system, the network and the
  generator are parameters; a panic is \<open>None\<close>, and an error is given as its debug text.
\<close>

section \<open>The script\<close>

record ('r, 'w) build_env =
  be_out_dir :: "string option"
  be_protoc_path :: "string option"
  be_set_protoc :: "string \<Rightarrow> 'w \<Rightarrow> 'w"
  be_create_dir_all :: "string \<Rightarrow> 'w \<Rightarrow> (string, unit) result \<times> 'w"
  be_get :: "string \<Rightarrow> 'w \<Rightarrow> (string, 'r) result \<times> 'w"
  be_create_file :: "string \<Rightarrow> 'w \<Rightarrow> (string, unit) result \<times> 'w"
  be_copy_to :: "'r \<Rightarrow> string \<Rightarrow> 'w \<Rightarrow> (string, unit) result \<times> 'w"
  be_generate :: "string \<Rightarrow> string \<Rightarrow> string list \<Rightarrow> string \<Rightarrow> 'w \<Rightarrow> 'w option"

definition with_parent ::
  "('r, 'w) build_env \<Rightarrow> string \<Rightarrow> 'w \<Rightarrow> (string, unit) result \<times> 'w" where
  "with_parent B path w = (case path_parent path of None \<Rightarrow> (Ok (), w) | Some parent \<Rightarrow> be_create_dir_all B parent w)"

text \<open>Whatever has been answered is written: the status of the response is not looked at.\<close>

definition download_and_write_file ::
  "('r, 'w) build_env \<Rightarrow> string \<Rightarrow> string \<Rightarrow> 'w \<Rightarrow> (string, unit) result \<times> 'w" where
  "download_and_write_file B url dest_path w =
     (case be_get B url w of
        (Inl e, w1) \<Rightarrow> (Err e, w1)
      | (Inr response, w1) \<Rightarrow>
          (case with_parent B dest_path w1 of
             (Inl e, w2) \<Rightarrow> (Err e, w2)
           | (Inr _, w2) \<Rightarrow>
               (case be_create_file B dest_path w2 of
                  (Inl e, w3) \<Rightarrow> (Err e, w3)
                | (Inr _, w3) \<Rightarrow> be_copy_to B response dest_path w3)))"

definition proto_file_path :: "string \<Rightarrow> string \<Rightarrow> string" where
  "proto_file_path proto_folder url =
     (let file_name = last (split_on (CHR ''/'') url);
          p0 = proto_folder;
          p1 = (if str_contains ''googleapis/googleapis'' url then path_join p0 ''google/type'' else p0);
          p2 = (if str_contains ''protocolbuffers/protobuf'' url then path_join p1 ''google/protobuf'' else p1);
          p3 = (if str_contains ''example/hello_world/v1'' url then path_join p2 ''example/hello_world/v1'' else p2);
          p4 = (if str_contains ''uprotocol/uoptions.proto'' url then path_join p3 ''uprotocol'' else p3)
      in path_join p4 file_name)"

fun fetch_protos ::
  "('r, 'w) build_env \<Rightarrow> string \<Rightarrow> string list \<Rightarrow> string list \<Rightarrow> 'w \<Rightarrow>
   ((string, string list) result \<times> 'w) option" where
  "fetch_protos B proto_folder [] proto_files w = Some (Ok proto_files, w)"
| "fetch_protos B proto_folder (url # urls) proto_files w =
     (let path = proto_file_path proto_folder url in
      case with_parent B path w of
        (Inl e, w1) \<Rightarrow> Some (Err e, w1)
      | (Inr _, w1) \<Rightarrow>
          (case download_and_write_file B url path w1 of
             (Inl err, w2) \<Rightarrow> None
           | (Inr _, w2) \<Rightarrow> fetch_protos B proto_folder urls (proto_files @ [path]) w2))"

definition get_and_build_protos ::
  "('r, 'w) build_env \<Rightarrow> string list \<Rightarrow> string \<Rightarrow> 'w \<Rightarrow> ((string, unit) result \<times> 'w) option" where
  "get_and_build_protos B urls output_folder w =
     (case be_out_dir B of
        None \<Rightarrow> None
      | Some out_dir \<Rightarrow>
          (let proto_folder = path_join out_dir ''proto'' in
           case fetch_protos B proto_folder urls [] w of
             None \<Rightarrow> None
           | Some (Inl e, w1) \<Rightarrow> Some (Err e, w1)
           | Some (Inr proto_files, w1) \<Rightarrow>
               (case be_protoc_path B of
                  None \<Rightarrow> None
                | Some protoc \<Rightarrow>
                    map_option (\<lambda>w2. (Ok (), w2)) (be_generate B protoc proto_folder proto_files output_folder w1))))"

definition PROTO_URLS :: "string list" where
  "PROTO_URLS =
     [''https://raw.githubusercontent.com/googleapis/googleapis/master/google/type/timeofday.proto'',
      ''https://raw.githubusercontent.com/eclipse-uprotocol/up-spec/main/up-core-api/uprotocol/uoptions.proto'',
      ''https://raw.githubusercontent.com/COVESA/uservices/main/src/main/proto/example/hello_world/v1/hello_world_topics.proto'',
      ''https://raw.githubusercontent.com/COVESA/uservices/main/src/main/proto/example/hello_world/v1/hello_world_service.proto'']"

definition proto_build_main :: "('r, 'w) build_env \<Rightarrow> 'w \<Rightarrow> ((string, unit) result \<times> 'w) option" where
  "proto_build_main B w =
     (case be_protoc_path B of
        None \<Rightarrow> None
      | Some protoc \<Rightarrow>
          (case get_and_build_protos B PROTO_URLS ''helloworld'' (be_set_protoc B protoc w) of
             None \<Rightarrow> None
           | Some (Inl err, w1) \<Rightarrow>
               Some (Err (''Failed to fetch and build protobuf file: '' @ err), w1)
           | Some (Inr _, w1) \<Rightarrow> Some (Ok (), w1)))"

section \<open>What it does\<close>

text \<open>The files lie where the import statements of the others look for them, below the folder.\<close>

lemma proto_file_paths:
  "map (proto_file_path ''/out/proto'') PROTO_URLS =
     [''/out/proto/google/type/timeofday.proto'', ''/out/proto/uprotocol/uoptions.proto'',
      ''/out/proto/example/hello_world/v1/hello_world_topics.proto'',
      ''/out/proto/example/hello_world/v1/hello_world_service.proto'']"
  by code_simp

text \<open>Fetching ends with the file of every address, in order; a download that fails is a panic.\<close>

lemma fetch_protos_files:
  "fetch_protos B folder urls files w = Some (Ok fs, w') \<Longrightarrow> fs = files @ map (proto_file_path folder) urls"
proof (induction urls arbitrary: files w)
  case (Cons url urls)
  then show ?case by (fastforce simp: Let_def split: prod.splits sum.splits)
qed simp

lemma proto_build_ok:
  assumes "proto_build_main B w = Some (Ok (), w')"
  obtains out_dir protoc w1 where "be_out_dir B = Some out_dir" and "be_protoc_path B = Some protoc"
    and "be_generate B protoc (path_join out_dir ''proto'')
           (map (proto_file_path (path_join out_dir ''proto'')) PROTO_URLS) ''helloworld'' w1 = Some w'"
  using assms
  by (auto simp: proto_build_main_def get_and_build_protos_def Let_def
    split: option.splits sum.splits prod.splits dest: fetch_protos_files)

text \<open>So the only errors the script reports, under a text that speaks of fetching, are directories that
  could not be made.\<close>

lemma fetch_protos_error:
  "fetch_protos B folder urls files w = Some (Err e, w') \<Longrightarrow>
     \<exists>url w1. url \<in> set urls \<and> with_parent B (proto_file_path folder url) w1 = (Err e, w')"
proof (induction urls arbitrary: files w)
  case (Cons url urls)
  then show ?case by (fastforce simp: Let_def split: prod.splits sum.splits)
qed simp

end
